(* ===== verification/Prelude.thy ===== *)
theory Prelude
  imports Complex_Main "HOL-Library.Log_Nat" "HOL-Library.Char_ord" "HOL-Library.List_Lexorder"
begin

text \<open>
  What every component of the portal service shares: the error values the handlers throw, the
  shape of a handler (a function of the store that returns a result and the new store), the
  \<open>$transaction\<close> wrapper of the database client, and list lemmas about tables, which are lists
  of rows in the order the database returns them.
\<close>

named_theorems handler_defs \<open>definitions of the request handlers, unfolded by the component proofs\<close>
named_theorems frame \<open>what an operation leaves unchanged\<close>

section \<open>Errors, results and handlers\<close>

text \<open>
  \<open>Http status message\<close> is an \<open>HttpException\<close> of NestJS; the message is the constant text of the
  source (interpolated amounts and non-ASCII characters are left out). \<open>Plain message\<close> is a bare
  \<open>Error\<close>. \<open>Prisma code\<close> is a known request error of the database client: \<open>''P2002''\<close> a unique
  constraint, \<open>''P2025''\<close> an update of a row that does not exist, \<open>''P2033''\<close> a number that does
  not fit the column.
\<close>

datatype error = Http nat string | Plain string | Prisma string

type_synonym 'a result = "error + 'a"
type_synonym ('s, 'a) handler = "'s \<Rightarrow> 'a result \<times> 's"

definition BAD_REQUEST :: nat where "BAD_REQUEST = 400"
definition UNAUTHORIZED :: nat where "UNAUTHORIZED = 401"
definition FORBIDDEN :: nat where "FORBIDDEN = 403"
definition NOT_FOUND :: nat where "NOT_FOUND = 404"
definition CONFLICT :: nat where "CONFLICT = 409"
definition GONE :: nat where "GONE = 410"
definition INTERNAL_SERVER_ERROR :: nat where "INTERNAL_SERVER_ERROR = 500"
definition SERVICE_UNAVAILABLE :: nat where "SERVICE_UNAVAILABLE = 503"

lemmas http_codes = BAD_REQUEST_def UNAUTHORIZED_def FORBIDDEN_def NOT_FOUND_def CONFLICT_def
  GONE_def INTERNAL_SERVER_ERROR_def SERVICE_UNAVAILABLE_def

text \<open>\<open>prisma.$transaction(f)\<close>: an exception inside \<open>f\<close> rolls every write of \<open>f\<close> back.\<close>

definition transaction :: "('s, 'a) handler \<Rightarrow> ('s, 'a) handler" where
  "transaction f s = (case f s of (Inl e, _) \<Rightarrow> (Inl e, s) | (Inr v, s') \<Rightarrow> (Inr v, s'))"

lemma transaction_error: "transaction f s = (Inl e, s') \<Longrightarrow> s' = s"
  by (auto simp: transaction_def split: prod.splits sum.splits)

lemma transaction_Inr_iff [simp]: "transaction f s = (Inr v, s') \<longleftrightarrow> f s = (Inr v, s')"
  by (auto simp: transaction_def split: prod.splits sum.splits)

text \<open>
  An invariant that every successful run of the body keeps is kept by the transaction, because a
  failed run leaves the store as it was.
\<close>

lemma transaction_invariant:
  assumes "I s" and "\<And>v s'. f s = (Inr v, s') \<Longrightarrow> I s'"
  shows "I (snd (transaction f s))"
proof (cases "f s")
  case (Pair r s')
  then show ?thesis
    using assms by (cases r) (auto simp: transaction_def)
qed

section \<open>Tables\<close>

text \<open>
  \<open>update_where p f\<close> is \<open>updateMany({where: p, data: f})\<close>: every row that satisfies the
  condition is rewritten, in place. \<open>count_where\<close> is \<open>count({where: p})\<close>.
\<close>

definition update_where :: "('r \<Rightarrow> bool) \<Rightarrow> ('r \<Rightarrow> 'r) \<Rightarrow> 'r list \<Rightarrow> 'r list" where
  "update_where p f rows = map (\<lambda>r. if p r then f r else r) rows"

definition count_where :: "('r \<Rightarrow> bool) \<Rightarrow> 'r list \<Rightarrow> nat" where
  "count_where p rows = length (filter p rows)"

definition sum_where :: "('r \<Rightarrow> bool) \<Rightarrow> ('r \<Rightarrow> int) \<Rightarrow> 'r list \<Rightarrow> int" where
  "sum_where p f rows = sum_list (map f (filter p rows))"

lemma update_where_length [simp]: "length (update_where p f rows) = length rows"
  by (simp add: update_where_def)

lemma update_where_Nil [simp]: "update_where p f [] = []"
  by (simp add: update_where_def)

lemma update_where_Cons [simp]:
  "update_where p f (r # rows) = (if p r then f r else r) # update_where p f rows"
  by (simp add: update_where_def)

lemma update_where_none: "(\<And>r. r \<in> set rows \<Longrightarrow> \<not> p r) \<Longrightarrow> update_where p f rows = rows"
  by (induction rows) auto

lemma set_update_where: "set (update_where p f rows) = (\<lambda>r. if p r then f r else r) ` set rows"
  by (simp add: update_where_def)

lemma map_update_where:
  "(\<And>r. g (f r) = g r) \<Longrightarrow> map g (update_where p f rows) = map g rows"
  by (induction rows) auto

lemma find_update_where:
  assumes "\<And>r. q (f r) = q r"
  shows "find q (update_where p f rows) = map_option (\<lambda>r. if p r then f r else r) (find q rows)"
  by (induction rows) (auto simp: assms)

lemma count_where_Nil [simp]: "count_where p [] = 0"
  by (simp add: count_where_def)

lemma count_where_Cons [simp]:
  "count_where p (r # rows) = (if p r then Suc (count_where p rows) else count_where p rows)"
  by (simp add: count_where_def)

lemma count_where_append [simp]:
  "count_where p (xs @ ys) = count_where p xs + count_where p ys"
  by (simp add: count_where_def)

lemma count_where_update_where:
  "(\<And>r. q (f r) = q r) \<Longrightarrow> count_where q (update_where p f rows) = count_where q rows"
  by (induction rows) auto

lemma sum_where_Nil [simp]: "sum_where p f [] = 0"
  by (simp add: sum_where_def)

lemma sum_where_Cons [simp]:
  "sum_where p f (r # rows) = (if p r then f r else 0) + sum_where p f rows"
  by (simp add: sum_where_def)

lemma sum_where_append [simp]:
  "sum_where p f (xs @ ys) = sum_where p f xs + sum_where p f ys"
  by (simp add: sum_where_def)

lemma sum_where_nonneg:
  "(\<And>r. r \<in> set rows \<Longrightarrow> p r \<Longrightarrow> 0 \<le> f r) \<Longrightarrow> 0 \<le> sum_where p f rows"
  by (induction rows) auto

lemma sum_where_nonpos:
  "(\<And>r. r \<in> set rows \<Longrightarrow> p r \<Longrightarrow> f r \<le> 0) \<Longrightarrow> sum_where p f rows \<le> 0"
  by (induction rows) force+

lemma sum_where_mono:
  assumes "\<And>r. r \<in> set rows \<Longrightarrow> p r \<Longrightarrow> q r" and "\<And>r. r \<in> set rows \<Longrightarrow> q r \<Longrightarrow> 0 \<le> f r"
  shows "sum_where p f rows \<le> sum_where q f rows"
  using assms by (induction rows) force+

lemma sum_where_cong:
  "(\<And>r. r \<in> set rows \<Longrightarrow> p r = q r) \<Longrightarrow> sum_where p f rows = sum_where q f rows"
  by (induction rows) auto

lemma sum_where_False [simp]: "sum_where (\<lambda>r. False) f rows = 0"
  by (induction rows) auto

lemma sum_where_none: "(\<And>r. r \<in> set rows \<Longrightarrow> \<not> p r) \<Longrightarrow> sum_where p f rows = 0"
  by (induction rows) auto

lemma find_SomeD: "find p xs = Some x \<Longrightarrow> x \<in> set xs \<and> p x"
  by (induction xs) (auto split: if_splits)

lemma find_append: "find p (xs @ ys) = (case find p xs of None \<Rightarrow> find p ys | Some x \<Rightarrow> Some x)"
  by (induction xs) auto

subsection \<open>Rows with a unique key\<close>

lemma keyed_unique: "distinct (map k rows) \<Longrightarrow> r \<in> set rows \<Longrightarrow> q \<in> set rows \<Longrightarrow> k r = k q \<Longrightarrow> r = q"
  by (auto simp: distinct_map inj_on_def)

lemma find_key_None: "find (\<lambda>r. k r = i) rows = None \<longleftrightarrow> i \<notin> k ` set rows"
  by (auto simp: find_None_iff)

lemma find_key_Some:
  "distinct (map k rows) \<Longrightarrow> r \<in> set rows \<Longrightarrow> find (\<lambda>q. k q = k r) rows = Some r"
  by (induction rows) force+

lemma keyed_tail: "distinct (map k (r # rows)) \<Longrightarrow> k r = i \<Longrightarrow> q \<in> set rows \<Longrightarrow> k q \<noteq> i"
  by (simp add: image_iff) metis

lemma count_where_none: "(\<And>r. r \<in> set rows \<Longrightarrow> \<not> p r) \<Longrightarrow> count_where p rows = 0"
  by (induction rows) auto

lemma count_where_key:
  "distinct (map k rows) \<Longrightarrow> count_where (\<lambda>r. k r = i \<and> c r) rows =
     (case find (\<lambda>r. k r = i) rows of None \<Rightarrow> 0 | Some p \<Rightarrow> if c p then 1 else 0)"
proof (induction rows)
  case (Cons r rows)
  have "count_where (\<lambda>r. k r = i \<and> c r) rows = 0" if "k r = i"
    by (rule count_where_none) (use keyed_tail [OF Cons.prems that] in blast)
  with Cons show ?case by auto
qed simp

lemma update_where_key:
  "distinct (map k rows) \<Longrightarrow> find (\<lambda>r. k r = i) rows = Some p \<Longrightarrow>
   update_where (\<lambda>r. k r = i \<and> c r) f rows = (if c p then update_where (\<lambda>r. k r = i) f rows else rows)"
proof (induction rows)
  case (Cons r rows)
  have none: "update_where (\<lambda>r. k r = i \<and> c r) f rows = rows \<and> update_where (\<lambda>r. k r = i) f rows = rows" if "k r = i"
    by (intro conjI update_where_none) (use keyed_tail [OF Cons.prems(1) that] in blast)+
  show ?case
  proof (cases "k r = i")
    case True
    with none Cons.prems show ?thesis by simp
  next
    case False
    with Cons show ?thesis by simp
  qed
qed simp

section \<open>Numbers of the database\<close>

text \<open>An \<open>Int\<close> column is a signed 32-bit integer; a value outside it is rejected by the database.\<close>

definition int4 :: "int \<Rightarrow> bool" where
  "int4 n \<longleftrightarrow> - (2 ^ 31) \<le> n \<and> n < 2 ^ 31"

section \<open>Text search\<close>

text \<open>
  \<open>toLowerCase\<close> on ASCII letters, \<open>startsWith\<close>, \<open>includes\<close> (also \<open>contains\<close> of the database
  client), and \<open>contains\<close> with \<open>mode: 'insensitive'\<close>.
\<close>

definition lower :: "char \<Rightarrow> char" where
  "lower c = (if 65 \<le> (of_char c :: nat) \<and> (of_char c :: nat) \<le> 90 then char_of ((of_char c :: nat) + 32) else c)"

fun starts_with :: "'a list \<Rightarrow> 'a list \<Rightarrow> bool" where
  "starts_with [] ys = True"
| "starts_with (x # xs) [] = False"
| "starts_with (x # xs) (y # ys) = (x = y \<and> starts_with xs ys)"

fun contains :: "'a list \<Rightarrow> 'a list \<Rightarrow> bool" where
  "contains sub [] = (sub = [])"
| "contains sub (y # ys) = (starts_with sub (y # ys) \<or> contains sub ys)"

definition icontains :: "string \<Rightarrow> string \<Rightarrow> bool" where
  "icontains sub t = contains (map lower sub) (map lower t)"

text \<open>Digits and white space of number literals.\<close>

definition is_digit :: "char \<Rightarrow> bool" where
  "is_digit c \<longleftrightarrow> 48 \<le> (of_char c :: nat) \<and> (of_char c :: nat) \<le> 57"

definition is_space :: "char \<Rightarrow> bool" where
  "is_space c \<longleftrightarrow> (of_char c :: nat) \<in> {9, 10, 11, 12, 13, 32, 160}"

definition digits_value :: "string \<Rightarrow> int" where
  "digits_value ds = foldl (\<lambda>v c. 10 * v + (of_char c - 48)) 0 ds"

text \<open>\<open>String(n)\<close> of a whole number.\<close>

fun nat_digits :: "nat \<Rightarrow> string" where
  "nat_digits n = (if n < 10 then [char_of (48 + n)] else nat_digits (n div 10) @ [char_of (48 + n mod 10)])"

declare nat_digits.simps [simp del]

definition int_text :: "int \<Rightarrow> string" where
  "int_text n = (if n < 0 then ''-'' @ nat_digits (nat (- n)) else nat_digits (nat n))"

section \<open>Optional fields of an update\<close>

text \<open>A field that is absent (\<open>undefined\<close>) keeps the stored value.\<close>

definition keep_opt :: "'a option \<Rightarrow> 'a option \<Rightarrow> 'a option" where
  "keep_opt new old = (case new of None \<Rightarrow> old | Some v \<Rightarrow> Some v)"

section \<open>Pagination\<close>

text \<open>
  \<open>skip = (page - 1) * limit\<close>, \<open>take: limit\<close> and \<open>totalPages = Math.ceil(total / limit)\<close>, the
  arithmetic every list endpoint shares; pages and limits are positive after their defaults.
\<close>

definition page_slice :: "nat \<Rightarrow> nat \<Rightarrow> 'a list \<Rightarrow> 'a list" where
  "page_slice page limit xs = take limit (drop ((page - 1) * limit) xs)"

definition total_pages :: "nat \<Rightarrow> nat \<Rightarrow> nat" where
  "total_pages n limit = nat \<lceil>(of_nat n :: rat) / of_nat limit\<rceil>"

text \<open>\<open>x || d\<close> for a count: a missing or zero value takes the default.\<close>

definition or_default :: "nat option \<Rightarrow> nat \<Rightarrow> nat" where
  "or_default v d = (case v of None \<Rightarrow> d | Some n \<Rightarrow> if n = 0 then d else n)"

record pagination =
  pg_total :: nat
  pg_page :: nat
  pg_limit :: nat
  pg_totalPages :: nat

text \<open>The default limit differs from endpoint to endpoint; the default page is the first.\<close>

definition paginate :: "nat \<Rightarrow> nat option \<Rightarrow> nat option \<Rightarrow> 'r list \<Rightarrow> 'r list \<times> pagination" where
  "paginate dflt page limit rows =
     (let p = or_default page 1; l = or_default limit dflt
      in (page_slice p l rows,
          \<lparr>pg_total = length rows, pg_page = p, pg_limit = l, pg_totalPages = total_pages (length rows) l\<rparr>))"

lemma chunks_take: "concat (map (\<lambda>k. take l (drop (k * l) xs)) [0..<n]) = take (n * l) xs"
  by (induction n) (simp_all add: take_add [symmetric] add.commute)

lemma total_pages_enough: "0 < l \<Longrightarrow> n \<le> total_pages n l * l"
proof -
  assume "0 < l"
  then have "(of_nat n :: rat) = of_nat n / of_nat l * of_nat l" by simp
  also have "\<dots> \<le> of_int \<lceil>(of_nat n :: rat) / of_nat l\<rceil> * of_nat l" by (intro mult_right_mono le_of_int_ceiling) simp
  also have "\<dots> = of_nat (total_pages n l * l)" by (simp add: total_pages_def)
  finally show ?thesis by (simp only: of_nat_le_iff)
qed

lemma pages_concat:
  assumes "0 < l"
  shows "concat (map (\<lambda>p. page_slice p l rows) [1..<Suc (total_pages (length rows) l)]) = rows"
proof -
  have "map (\<lambda>p. page_slice p l rows) [1..<Suc n] = map (\<lambda>k. take l (drop (k * l) rows)) [0..<n]" for n
    by (simp add: page_slice_def map_Suc_upt [symmetric] o_def del: upt_Suc)
  then show ?thesis using chunks_take [of l rows] total_pages_enough [OF assms, of "length rows"] by simp
qed

end
