(* ===== verification/Js_Number.thy ===== *)
theory Js_Number
  imports Prelude
begin

text \<open>
  Numbers of the source language. A JavaScript number is an IEEE 754 double: \<open>NaN\<close>, an infinity,
  or a finite value, kept here as the rational it denotes (the sign of zero is not kept). Every
  arithmetic operation rounds its exact result to the nearest double, ties to even; \<open>toFixed(2)\<close>
  is exact on the double it gets and picks the larger candidate on a tie, as ECMA-262 says.
\<close>

section \<open>Rounding to the nearest double\<close>

definition round_half_even :: "rat \<Rightarrow> int" where
  "round_half_even y =
     (let n = \<lfloor>y\<rfloor>; d = y - of_int n
      in if d < 1 / 2 then n else if d > 1 / 2 then n + 1 else if even n then n else n + 1)"

text \<open>The exponent of a positive rational: the largest \<open>k\<close> with \<open>2 powi k \<le> x\<close>.\<close>

definition exponent :: "rat \<Rightarrow> int" where
  "exponent x =
     (let (p, q) = quotient_of x; k = bitlen p - bitlen q
      in if (2 :: rat) powi k \<le> x then k else k - 1)"

definition ulp_exp :: "rat \<Rightarrow> int" where
  "ulp_exp x = max (- 1074) (exponent x - 52)"

definition fl_pos :: "rat \<Rightarrow> rat" where
  "fl_pos x = of_int (round_half_even (x / 2 powi ulp_exp x)) * 2 powi ulp_exp x"

definition fl64 :: "rat \<Rightarrow> rat" where
  "fl64 x = (if x = 0 then 0 else if x > 0 then fl_pos x else - fl_pos (- x))"

subsection \<open>The rounding error\<close>

lemma round_half_even_error: "\<bar>of_int (round_half_even y) - y\<bar> \<le> 1 / 2"
proof -
  have "of_int \<lfloor>y\<rfloor> \<le> y" "y < of_int \<lfloor>y\<rfloor> + 1" by linarith+
  then show ?thesis unfolding round_half_even_def Let_def
    by (cases "y - of_int \<lfloor>y\<rfloor> < 1 / 2"; cases "even \<lfloor>y\<rfloor>") (simp_all add: abs_le_iff)
qed

lemma round_half_even_of_int [simp]: "round_half_even (of_int n) = n"
  by (simp add: round_half_even_def)

lemma round_half_even_nonneg: "0 \<le> y \<Longrightarrow> 0 \<le> round_half_even y"
  by (auto simp: round_half_even_def Let_def)

lemma bitlen_lower:
  assumes "0 < p"
  shows "(2 :: rat) powi (bitlen p - 1) \<le> of_int p"
proof -
  have "0 \<le> bitlen p - 1" using assms bitlen_eq_zero_iff [of p] bitlen_nonneg [of p] by linarith
  then have "(2 :: rat) powi (bitlen p - 1) = of_int (2 ^ nat (bitlen p - 1))"
    by (simp add: power_int_def)
  also have "\<dots> \<le> of_int p" using bitlen_bounds [OF assms] by (simp only: of_int_le_iff)
  finally show ?thesis .
qed

lemma bitlen_upper:
  assumes "0 < q"
  shows "of_int q < (2 :: rat) powi bitlen q"
proof -
  have "(2 :: rat) powi bitlen q = of_int (2 ^ nat (bitlen q))"
    using bitlen_nonneg [of q] by (simp add: power_int_def)
  then show ?thesis using bitlen_bounds [OF assms] by (simp only: of_int_less_iff)
qed

lemma exponent_lower:
  assumes "0 < x"
  shows "2 powi exponent x \<le> x"
proof -
  obtain p q where pq: "quotient_of x = (p, q)" by (cases "quotient_of x")
  then have x: "x = of_int p / of_int q" and q: "0 < q"
    by (auto simp: quotient_of_div quotient_of_denom_pos)
  with assms have p: "0 < p" by (simp add: zero_less_divide_iff)
  have "(2 :: rat) powi (bitlen p - bitlen q - 1) = 2 powi (bitlen p - 1) / 2 powi bitlen q"
    by (simp add: power_int_diff [symmetric] algebra_simps)
  also have "\<dots> \<le> of_int p / of_int q"
    using bitlen_lower [OF p] bitlen_upper [OF q] p q
    by (intro frac_le) auto
  finally show ?thesis by (simp add: exponent_def pq x [symmetric] Let_def)
qed

lemma fl_pos_error:
  assumes "0 < x"
  shows "\<bar>fl_pos x - x\<bar> \<le> 2 powi ulp_exp x / 2"
proof -
  let ?u = "(2 :: rat) powi ulp_exp x"
  have u: "0 < ?u" by simp
  have "fl_pos x - x = (of_int (round_half_even (x / ?u)) - x / ?u) * ?u"
    using u by (simp add: fl_pos_def field_simps)
  then have "\<bar>fl_pos x - x\<bar> = \<bar>of_int (round_half_even (x / ?u)) - x / ?u\<bar> * ?u"
    using u by (simp add: abs_mult)
  also have "\<dots> \<le> 1 / 2 * ?u"
    using round_half_even_error u by (intro mult_right_mono) auto
  finally show ?thesis by simp
qed

text \<open>Half a unit in the last place is at most \<open>B / 2 ^ 53\<close> for every value up to \<open>B \<ge> 1\<close>.\<close>

lemma ulp_bound:
  assumes "0 < x" and "x \<le> B" and "1 \<le> B"
  shows "2 powi ulp_exp x / 2 \<le> B / 2 ^ 53"
proof (cases "exponent x - 52 \<le> - 1074")
  case True
  then have "(2 :: rat) powi ulp_exp x \<le> 2 powi (- 52)"
    by (intro power_int_increasing) (auto simp: ulp_exp_def)
  also have "\<dots> = 1 / 2 ^ 52" by (simp add: power_int_minus divide_simps)
  also have "\<dots> \<le> B / 2 ^ 52" using assms(3) by (simp add: divide_right_mono)
  finally show ?thesis by simp
next
  case False
  then have "(2 :: rat) powi ulp_exp x = 2 powi exponent x / 2 ^ 52"
    by (simp add: ulp_exp_def power_int_diff)
  also have "\<dots> \<le> B / 2 ^ 52"
    using exponent_lower [OF assms(1)] assms(2) by (intro divide_right_mono) auto
  finally show ?thesis by simp
qed

lemma fl64_error:
  assumes "1 \<le> B" and "\<bar>x\<bar> \<le> B"
  shows "\<bar>fl64 x - x\<bar> \<le> B / 2 ^ 53"
proof -
  have pos: "\<bar>fl_pos y - y\<bar> \<le> B / 2 ^ 53" if "0 < y" "y \<le> B" for y
    using fl_pos_error [OF that(1)] ulp_bound [OF that assms(1)] by linarith
  show ?thesis
  proof (cases x "0 :: rat" rule: linorder_cases)
    case less
    with pos [of "- x"] assms(2) have "\<bar>fl_pos (- x) - (- x)\<bar> \<le> B / 2 ^ 53" by simp
    moreover have "fl64 x - x = - (fl_pos (- x) - (- x))" using less by (simp add: fl64_def)
    ultimately show ?thesis by (simp only: abs_minus_cancel)
  next
    case equal
    with assms(1) show ?thesis by (simp add: fl64_def)
  next
    case greater
    with pos [of x] assms(2) show ?thesis by (simp add: fl64_def)
  qed
qed

lemma fl64_zero [simp]: "fl64 0 = 0"
  by (simp add: fl64_def)

lemma fl64_uminus [simp]: "fl64 (- x) = - fl64 x"
  by (simp add: fl64_def)

lemma fl_pos_nonneg: "0 < x \<Longrightarrow> 0 \<le> fl_pos x"
  by (simp add: fl_pos_def round_half_even_nonneg)

lemma fl64_nonneg: "0 \<le> x \<Longrightarrow> 0 \<le> fl64 x"
  by (auto simp: fl64_def fl_pos_nonneg)

section \<open>JavaScript numbers\<close>

text \<open>\<open>Infinity True\<close> is \<open>-Infinity\<close>.\<close>

datatype jsnum = NaN | Infinity bool | Fin rat

definition max_double :: rat where
  "max_double = (2 ^ 53 - 1) * 2 ^ 971"

text \<open>The double nearest to an exact value, also \<open>Number(s)\<close> for a decimal string \<open>s\<close>.\<close>

definition mk_num :: "rat \<Rightarrow> jsnum" where
  "mk_num x = (let y = fl64 x in
     if y > max_double then Infinity False else if y < - max_double then Infinity True else Fin y)"

fun nneg :: "jsnum \<Rightarrow> jsnum" where
  "nneg NaN = NaN"
| "nneg (Infinity s) = Infinity (\<not> s)"
| "nneg (Fin x) = Fin (- x)"

fun nadd :: "jsnum \<Rightarrow> jsnum \<Rightarrow> jsnum" where
  "nadd (Fin a) (Fin b) = mk_num (a + b)"
| "nadd (Infinity s) (Infinity t) = (if s = t then Infinity s else NaN)"
| "nadd (Infinity s) (Fin b) = Infinity s"
| "nadd (Fin a) (Infinity t) = Infinity t"
| "nadd _ _ = NaN"

definition nsub :: "jsnum \<Rightarrow> jsnum \<Rightarrow> jsnum" where
  "nsub a b = nadd a (nneg b)"

fun nmul :: "jsnum \<Rightarrow> jsnum \<Rightarrow> jsnum" where
  "nmul (Fin a) (Fin b) = mk_num (a * b)"
| "nmul (Infinity s) (Infinity t) = Infinity (s \<noteq> t)"
| "nmul (Infinity s) (Fin b) = (if b = 0 then NaN else Infinity (s \<noteq> (b < 0)))"
| "nmul (Fin a) (Infinity t) = (if a = 0 then NaN else Infinity (t \<noteq> (a < 0)))"
| "nmul _ _ = NaN"

fun ndiv :: "jsnum \<Rightarrow> jsnum \<Rightarrow> jsnum" where
  "ndiv (Fin a) (Fin b) =
     (if b = 0 then (if a = 0 then NaN else Infinity (a < 0)) else mk_num (a / b))"
| "ndiv (Infinity s) (Fin b) = Infinity (s \<noteq> (b < 0))"
| "ndiv (Fin a) (Infinity t) = Fin 0"
| "ndiv _ _ = NaN"

text \<open>Every comparison with \<open>NaN\<close> is false.\<close>

fun nlt :: "jsnum \<Rightarrow> jsnum \<Rightarrow> bool" where
  "nlt (Fin a) (Fin b) = (a < b)"
| "nlt (Infinity s) (Infinity t) = (s \<and> \<not> t)"
| "nlt (Infinity s) (Fin b) = s"
| "nlt (Fin a) (Infinity t) = (\<not> t)"
| "nlt _ _ = False"

fun nle :: "jsnum \<Rightarrow> jsnum \<Rightarrow> bool" where
  "nle (Fin a) (Fin b) = (a \<le> b)"
| "nle (Infinity s) (Infinity t) = (s \<or> \<not> t)"
| "nle (Infinity s) (Fin b) = s"
| "nle (Fin a) (Infinity t) = (\<not> t)"
| "nle _ _ = False"

text \<open>\<open>!x\<close> for a number: \<open>0\<close> and \<open>NaN\<close> are falsy.\<close>

fun nfalsy :: "jsnum \<Rightarrow> bool" where
  "nfalsy NaN = True"
| "nfalsy (Infinity s) = False"
| "nfalsy (Fin x) = (x = 0)"

fun nfloor :: "jsnum \<Rightarrow> jsnum" where
  "nfloor (Fin x) = Fin (of_int \<lfloor>x\<rfloor>)"
| "nfloor x = x"

section \<open>\<open>toFixed\<close>\<close>

text \<open>
  The string \<open>x.toFixed(d)\<close> returns: \<open>FFix d n\<close> stands for the decimal notation of \<open>n / 10 ^ d\<close>
  with \<open>d\<close> digits after the point; from \<open>10 ^ 21\<close> on \<open>toFixed\<close> returns the shortest notation of
  the number itself, \<open>FExp x\<close>.
\<close>

datatype fixed = FNaN | FInf bool | FFix nat int | FExp rat

definition round_up :: "nat \<Rightarrow> rat \<Rightarrow> int" where
  "round_up d x = (if x < 0 then - \<lfloor>(- x) * 10 ^ d + 1 / 2\<rfloor> else \<lfloor>x * 10 ^ d + 1 / 2\<rfloor>)"

fun toFixed :: "nat \<Rightarrow> jsnum \<Rightarrow> fixed" where
  "toFixed d NaN = FNaN"
| "toFixed d (Infinity s) = FInf s"
| "toFixed d (Fin x) = (if \<bar>x\<bar> \<ge> 10 ^ 21 then FExp x else FFix d (round_up d x))"

fun Number_fixed :: "fixed \<Rightarrow> jsnum" where
  "Number_fixed FNaN = NaN"
| "Number_fixed (FInf s) = Infinity s"
| "Number_fixed (FFix d n) = mk_num (of_int n / 10 ^ d)"
| "Number_fixed (FExp x) = Fin x"

text \<open>\<open>Number(x.toFixed(2))\<close>, the rounding to whole satang the services use.\<close>

definition round2 :: "jsnum \<Rightarrow> jsnum" where
  "round2 x = Number_fixed (toFixed 2 x)"

lemma round_up_unique:
  assumes "\<bar>x - of_int n / 10 ^ d\<bar> < 1 / (2 * 10 ^ d)"
  shows "round_up d x = n"
proof -
  have "\<bar>x * 10 ^ d - of_int n\<bar> = \<bar>x - of_int n / 10 ^ d\<bar> * 10 ^ d"
    by (simp add: abs_mult [symmetric] field_simps)
  also have "\<dots> < 1 / (2 * 10 ^ d) * 10 ^ d" by (rule mult_strict_right_mono [OF assms]) simp
  finally have "\<bar>x * 10 ^ d - of_int n\<bar> < 1 / 2" by simp
  then have "of_int n - 1 / 2 < x * 10 ^ d" "x * 10 ^ d < of_int n + 1 / 2" by linarith+
  then have "\<lfloor>x * 10 ^ d + 1 / 2\<rfloor> = n" "\<lfloor>(- x) * 10 ^ d + 1 / 2\<rfloor> = - n"
    by (simp_all add: floor_eq_iff)
  then show ?thesis by (simp add: round_up_def)
qed

lemma round_up_error: "\<bar>of_int (round_up d x) - x * 10 ^ d\<bar> \<le> 1 / 2"
proof (cases "x < 0")
  case True
  let ?f = "\<lfloor>(- x) * 10 ^ d + 1 / 2\<rfloor>"
  have "of_int ?f \<le> (- x) * 10 ^ d + 1 / 2" "(- x) * 10 ^ d + 1 / 2 < of_int ?f + 1" by linarith+
  with True show ?thesis by (simp only: round_up_def if_True of_int_minus)
next
  case False
  let ?f = "\<lfloor>x * 10 ^ d + 1 / 2\<rfloor>"
  have "of_int ?f \<le> x * 10 ^ d + 1 / 2" "x * 10 ^ d + 1 / 2 < of_int ?f + 1" by linarith+
  with False show ?thesis by (simp only: round_up_def if_False)
qed

lemma round_up_nonneg: "0 \<le> x \<Longrightarrow> 0 \<le> round_up d x"
  by (simp add: round_up_def)

section \<open>The interface the money arithmetic relies on\<close>

text \<open>
  What the services need of the rounding: a bound on its error for values up to \<open>B\<close>, and that it
  keeps the sign. Under these laws alone the residual of a split is exact to the satang.
\<close>

locale rounding =
  fixes fl :: "rat \<Rightarrow> rat"
  assumes fl_error: "1 \<le> B \<Longrightarrow> \<bar>x\<bar> \<le> B \<Longrightarrow> \<bar>fl x - x\<bar> \<le> B / 2 ^ 53"
    and fl_nonneg: "0 \<le> x \<Longrightarrow> 0 \<le> fl x"
begin

lemma fl_abs_le:
  assumes "1 \<le> B" and "\<bar>x\<bar> \<le> B"
  shows "\<bar>fl x\<bar> \<le> B + B / 2 ^ 53"
  using fl_error [OF assms] assms(2) by linarith

text \<open>One subtraction adds one rounding to the errors of its operands.\<close>

lemma fl_diff_error:
  assumes "\<bar>x - x'\<bar> \<le> k" and "\<bar>y - y'\<bar> \<le> l" and "1 \<le> B" and "\<bar>x'\<bar> + \<bar>y'\<bar> + k + l \<le> B"
  shows "\<bar>fl (x - y) - (x' - y')\<bar> \<le> k + l + B / 2 ^ 53"
proof -
  have d: "\<bar>(x - y) - (x' - y')\<bar> \<le> k + l"
    using abs_triangle_ineq4 [of "x - x'" "y - y'"] assms(1,2) by (simp add: algebra_simps)
  have "\<bar>x - y\<bar> \<le> \<bar>x' - y'\<bar> + (k + l)" using d by linarith
  also have "\<dots> \<le> B" using abs_triangle_ineq4 [of x' y'] assms(4) by linarith
  finally have "\<bar>fl (x - y) - (x - y)\<bar> \<le> B / 2 ^ 53" by (rule fl_error [OF assms(3)])
  with d show ?thesis by linarith
qed

text \<open>
  \<open>total - a - b - c\<close> on doubles that hold whole hundredths, each at most \<open>10 ^ 13\<close> of them: the
  seven roundings together stay far below half a hundredth.
\<close>

lemma residual_error:
  assumes "\<bar>t\<bar> \<le> 10 ^ 11" "\<bar>a\<bar> \<le> 10 ^ 11" "\<bar>b\<bar> \<le> 10 ^ 11" "\<bar>c\<bar> \<le> 10 ^ 11"
  shows "\<bar>fl (fl (fl (fl t - fl a) - fl b) - fl c) - (t - a - b - c)\<bar> < 1 / 200"
proof -
  define B :: rat where "B = 500000000000"
  define e :: rat where "e = B / 2 ^ 53"
  have e: "0 \<le> e" "e < 1 / 10000" by (simp_all add: e_def B_def)
  have B: "1 \<le> B" by (simp add: B_def)
  note bounds = assms [simplified]
  have err: "\<bar>fl x - x\<bar> \<le> e" if "\<bar>x\<bar> \<le> 100000000000" for x
    unfolding e_def by (rule fl_error) (use that in \<open>auto simp: B_def\<close>)
  have ta: "\<bar>t - a\<bar> \<le> 200000000000" and tab: "\<bar>t - a - b\<bar> \<le> 300000000000"
    using bounds by linarith+
  have p1: "\<bar>t\<bar> + \<bar>a\<bar> + e + e \<le> B" using bounds e unfolding B_def by linarith
  note 1 = fl_diff_error [OF err [OF bounds(1)] err [OF bounds(2)] B p1, folded e_def]
  have p2: "\<bar>t - a\<bar> + \<bar>b\<bar> + (e + e + e) + e \<le> B" using ta bounds e unfolding B_def by linarith
  note 2 = fl_diff_error [OF 1 err [OF bounds(3)] B p2, folded e_def]
  have p3: "\<bar>t - a - b\<bar> + \<bar>c\<bar> + ((e + e + e) + e + e) + e \<le> B"
    using tab bounds e unfolding B_def by linarith
  note 3 = fl_diff_error [OF 2 err [OF bounds(4)] B p3, folded e_def]
  show ?thesis using 3 e by linarith
qed

end

interpretation double: rounding fl64
  by unfold_locales (rule fl64_error fl64_nonneg; assumption)+

text \<open>No overflow in the range of amounts.\<close>

lemma mk_num_Fin:
  assumes "\<bar>x\<bar> \<le> 10 ^ 30"
  shows "mk_num x = Fin (fl64 x)"
proof -
  have "\<bar>fl64 x\<bar> \<le> 10 ^ 30 + 10 ^ 30 / 2 ^ 53" by (rule double.fl_abs_le) (use assms in auto)
  also have "\<dots> \<le> max_double" by (simp add: max_double_def)
  finally show ?thesis by (auto simp: mk_num_def Let_def abs_le_iff)
qed

text \<open>
  Evaluation: below \<open>10 ^ 30\<close> there is no overflow, and the comparison with the largest double, a
  number of a thousand bits, is not computed.
\<close>

definition mk_num_any :: "rat \<Rightarrow> jsnum" where
  "mk_num_any = mk_num"

lemma mk_num_any_code [code]: "mk_num_any x = (let y = fl64 x in
     if y > max_double then Infinity False else if y < - max_double then Infinity True else Fin y)"
  by (simp add: mk_num_any_def mk_num_def)

lemma mk_num_code [code]:
  "mk_num x = (if \<bar>x\<bar> \<le> 1000000000000000000000000000000 then Fin (fl64 x) else mk_num_any x)"
  using mk_num_Fin [of x] by (simp add: mk_num_any_def)

subsection \<open>The text of a double\<close>

text \<open>
  \<open>String(x)\<close> has the fewest digits that still denote \<open>x\<close>, and of those the digits nearest to \<open>x\<close>:
  \<open>shortest\<close> is the rational number that text denotes. Seventeen digits always suffice.
\<close>

fun digits10 :: "int \<Rightarrow> int" where
  "digits10 n = (if n < 10 then 1 else 1 + digits10 (n div 10))"

declare digits10.simps [simp del]

definition dec_exp :: "rat \<Rightarrow> int" where
  "dec_exp x = (if 1 \<le> x then digits10 \<lfloor>x\<rfloor> else 1 - digits10 (\<lceil>1 / x\<rceil> - 1))"

definition sig_digits :: "nat \<Rightarrow> rat \<Rightarrow> rat" where
  "sig_digits k x = (let u = 10 powi (dec_exp x - int k) in of_int \<lfloor>x / u + 1 / 2\<rfloor> * u)"

definition shortest_pos :: "rat \<Rightarrow> rat" where
  "shortest_pos x = (case find (\<lambda>k. fl64 (sig_digits k x) = x) [1..<18] of Some k \<Rightarrow> sig_digits k x | None \<Rightarrow> x)"

definition shortest :: "rat \<Rightarrow> rat" where
  "shortest x = (if x = 0 then 0 else if x > 0 then shortest_pos x else - shortest_pos (- x))"

end
