(* ===== verification/Js_Date.thy ===== *)
theory Js_Date
  imports Prelude
begin

text \<open>
  Dates of the source language: the calendar of ECMA-262 (\<open>MakeDay\<close>, \<open>MakeTime\<close>) and a \<open>Date\<close>
  as its local calendar fields. Instants are compared by their local time value in milliseconds,
  which is what the source's comparisons give in a zone with a fixed offset.
\<close>

section \<open>The calendar\<close>

definition leap_year :: "int \<Rightarrow> bool" where
  "leap_year y \<longleftrightarrow> 4 dvd y \<and> (\<not> 100 dvd y \<or> 400 dvd y)"

definition DayFromYear :: "int \<Rightarrow> int" where
  "DayFromYear y = 365 * (y - 1970) + (y - 1969) div 4 - (y - 1901) div 100 + (y - 1601) div 400"

definition month_days :: "int \<Rightarrow> int \<Rightarrow> int" where
  "month_days y m =
     (if m = 1 then (if leap_year y then 29 else 28)
      else if m = 3 \<or> m = 5 \<or> m = 8 \<or> m = 10 then 30 else 31)"

definition days_before :: "int \<Rightarrow> int \<Rightarrow> int" where
  "days_before y m = sum_list (map (month_days y) [0 .. m - 1])"

definition MakeDay :: "int \<Rightarrow> int \<Rightarrow> int \<Rightarrow> int" where
  "MakeDay year month date =
     (let ym = year + month div 12; mn = month mod 12
      in DayFromYear ym + days_before ym mn + date - 1)"

definition msPerDay :: int where "msPerDay = 86400000"

definition MakeTime :: "int \<Rightarrow> int \<Rightarrow> int \<Rightarrow> int" where
  "MakeTime h m sec = h * 3600000 + m * 60000 + sec * 1000"

section \<open>Dates as their local fields\<close>

record date =
  d_year :: int
  d_month :: int
  d_day :: int
  d_ms :: int

definition time_value :: "date \<Rightarrow> int" where
  "time_value d = MakeDay (d_year d) (d_month d) (d_day d) * msPerDay + d_ms d"

definition valid_date :: "date \<Rightarrow> bool" where
  "valid_date d \<longleftrightarrow> 0 \<le> d_month d \<and> d_month d \<le> 11 \<and> 1 \<le> d_day d
     \<and> d_day d \<le> month_days (d_year d) (d_month d) \<and> 0 \<le> d_ms d \<and> d_ms d < msPerDay"

text \<open>\<open>new Date(year, month + 1, 0, 23, 59, 59)\<close>: day 0 of the next month is the last of this one.\<close>

definition end_of_month :: "int \<Rightarrow> int \<Rightarrow> date" where
  "end_of_month year month =
     \<lparr>d_year = year, d_month = month, d_day = month_days year month, d_ms = MakeTime 23 59 59\<rparr>"

section \<open>Lemmas\<close>

lemma div_succ:
  assumes "0 < (n :: int)"
  shows "(z + 1) div n = z div n + (if n dvd z + 1 then 1 else 0)"
proof (cases "n dvd z + 1")
  case True
  then obtain k where k: "z + 1 = n * k" by blast
  have "z div n = k - 1"
    by (rule int_div_pos_eq [of _ _ _ "n - 1"]) (use k assms in \<open>auto simp: algebra_simps\<close>)
  with True k assms show ?thesis by simp
next
  case False
  have r: "z mod n < n" "0 \<le> z mod n" using assms by auto
  have z: "z + 1 = n * (z div n) + (z mod n + 1)" by simp
  have "z mod n + 1 \<noteq> n"
  proof
    assume "z mod n + 1 = n"
    with z have "z + 1 = n * (z div n) + n * 1" by linarith
    then have "z + 1 = n * (z div n + 1)" by (simp only: distrib_left)
    with False show False by (metis dvd_triv_left)
  qed
  with r z have "(z + 1) div n = z div n" by (intro int_div_pos_eq [of _ _ _ "z mod n + 1"]) auto
  with False show ?thesis by simp
qed

lemma dvd_minus_const: "(n :: int) dvd c \<Longrightarrow> n dvd y - c \<longleftrightarrow> n dvd y"
  by (metis dvd_add diff_add_cancel dvd_diff)

lemma DayFromYear_Suc: "DayFromYear (y + 1) = DayFromYear y + (if leap_year y then 366 else 365)"
proof -
  have a: "(y - 1968) div 4 = (y - 1969) div 4 + (if 4 dvd y then 1 else 0)"
    using div_succ [of 4 "y - 1969"] dvd_minus_const [of 4 1968 y] by simp
  have b: "(y - 1900) div 100 = (y - 1901) div 100 + (if 100 dvd y then 1 else 0)"
    using div_succ [of 100 "y - 1901"] dvd_minus_const [of 100 1900 y] by simp
  have c: "(y - 1600) div 400 = (y - 1601) div 400 + (if 400 dvd y then 1 else 0)"
    using div_succ [of 400 "y - 1601"] dvd_minus_const [of 400 1600 y] by simp
  have "DayFromYear (y + 1) = 365 * (y - 1970) + 365 + (y - 1968) div 4 - (y - 1900) div 100
      + (y - 1600) div 400"
    by (simp add: DayFromYear_def)
  then have "DayFromYear (y + 1) - DayFromYear y
      = 365 + (if 4 dvd y then 1 else 0) - (if 100 dvd y then 1 else 0) + (if 400 dvd y then 1 else 0)"
    unfolding a b c by (simp add: DayFromYear_def)
  moreover have "400 dvd y \<Longrightarrow> 100 dvd y" using dvd_trans [of 100 400 y] by simp
  moreover have "100 dvd y \<Longrightarrow> 4 dvd y" using dvd_trans [of 4 100 y] by simp
  ultimately show ?thesis unfolding leap_year_def
    by (cases "4 dvd y"; cases "100 dvd y"; cases "400 dvd y") simp_all
qed

lemma month_cases: "0 \<le> (m :: int) \<Longrightarrow> m \<le> 11 \<Longrightarrow>
   m = 0 \<or> m = 1 \<or> m = 2 \<or> m = 3 \<or> m = 4 \<or> m = 5 \<or> m = 6 \<or> m = 7 \<or> m = 8 \<or> m = 9 \<or> m = 10 \<or> m = 11"
  by presburger

lemma month_days_bounds: "28 \<le> month_days y m \<and> month_days y m \<le> 31"
  by (simp add: month_days_def)

lemma days_before_eval:
  "days_before y 0 = 0"
  "days_before y 1 = 31"
  "0 \<le> m \<Longrightarrow> days_before y (m + 1) = days_before y m + month_days y m"
  by (simp_all add: days_before_def month_days_def upto_rec2)

lemma year_length: "days_before y 11 + month_days y 11 = (if leap_year y then 366 else 365)"
  by (simp add: days_before_def month_days_def upto.simps)

lemma MakeDay_month: "0 \<le> m \<Longrightarrow> m \<le> 11 \<Longrightarrow> MakeDay y m d = DayFromYear y + days_before y m + d - 1"
  by (simp add: MakeDay_def)

text \<open>The day 0 of the next month, computed by \<open>MakeDay\<close>, is the last day of the month.\<close>

lemma MakeDay_last:
  assumes "0 \<le> m" and "m \<le> 11"
  shows "MakeDay y (m + 1) 0 = MakeDay y m (month_days y m)"
proof (cases "m = 11")
  case True
  have "MakeDay y 12 0 = DayFromYear (y + 1) - 1" by (simp add: MakeDay_def days_before_eval)
  also have "\<dots> = DayFromYear y + (days_before y 11 + month_days y 11) - 1"
    by (simp add: DayFromYear_Suc year_length)
  finally show ?thesis using True by (simp add: MakeDay_month)
next
  case False
  with assms show ?thesis by (simp add: MakeDay_month days_before_eval)
qed

lemma end_of_month_value:
  assumes "0 \<le> m" and "m \<le> 11"
  shows "time_value (end_of_month y m) = MakeDay y (m + 1) 0 * msPerDay + MakeTime 23 59 59"
  using MakeDay_last [OF assms] by (simp add: time_value_def end_of_month_def)

subsection \<open>Months in a row\<close>

text \<open>The first day of month number \<open>k = 12 * year + month\<close>.\<close>

definition month_start :: "int \<Rightarrow> int" where
  "month_start k = MakeDay 0 k 1"

lemma MakeDay_month_start:
  assumes "0 \<le> m" and "m \<le> 11"
  shows "MakeDay y m d = month_start (12 * y + m) + d - 1"
  using assms by (simp add: month_start_def MakeDay_def)

lemma month_start_Suc: "month_start (k + 1) = month_start k + month_days (k div 12) (k mod 12)"
proof -
  define y m where "y = k div 12" and "m = k mod 12"
  have k: "k = 12 * y + m" and m: "0 \<le> m" "m \<le> 11" by (simp_all add: y_def m_def)
  have "month_start (k + 1) = MakeDay y (m + 1) 0 + 1"
    unfolding month_start_def MakeDay_def k by (simp add: Let_def add.assoc)
  also have "\<dots> = month_start k + month_days y m"
    using MakeDay_last [OF m, of y] MakeDay_month_start [OF m, of y] k by simp
  finally show ?thesis by (simp add: y_def m_def)
qed

lemma month_start_mono:
  assumes "k \<le> l"
  shows "month_start k \<le> month_start l"
  using assms
proof (induction l rule: int_ge_induct)
  case base
  show ?case by simp
next
  case (step i)
  then show ?case using month_start_Suc [of i] month_days_bounds [of "i div 12" "i mod 12"] by linarith
qed

definition month_index :: "date \<Rightarrow> int" where
  "month_index d = 12 * d_year d + d_month d"

lemma time_value_bounds:
  assumes "valid_date d"
  shows "month_start (month_index d) * msPerDay \<le> time_value d"
    and "time_value d < month_start (month_index d + 1) * msPerDay"
proof -
  let ?s = "month_start (month_index d)"
  have m: "0 \<le> d_month d" "d_month d \<le> 11" and day: "1 \<le> d_day d" "d_day d \<le> month_days (d_year d) (d_month d)"
    and ms: "0 \<le> d_ms d" "d_ms d < msPerDay" using assms by (auto simp: valid_date_def)
  have tv: "time_value d = (?s + d_day d - 1) * msPerDay + d_ms d"
    by (simp add: time_value_def MakeDay_month_start [OF m] month_index_def)
  have nxt: "month_start (month_index d + 1) = ?s + month_days (d_year d) (d_month d)"
    using m by (simp add: month_start_Suc month_index_def)
  show "?s * msPerDay \<le> time_value d" unfolding tv using day ms by (simp add: msPerDay_def)
  show "time_value d < month_start (month_index d + 1) * msPerDay"
    unfolding tv nxt using day ms by (simp add: msPerDay_def)
qed

lemma month_index_mono:
  assumes "valid_date a" and "valid_date b" and "time_value a \<le> time_value b"
  shows "month_index a \<le> month_index b"
proof (rule ccontr)
  assume "\<not> month_index a \<le> month_index b"
  then have "month_start (month_index b + 1) \<le> month_start (month_index a)"
    by (intro month_start_mono) simp
  then have "month_start (month_index b + 1) * msPerDay \<le> month_start (month_index a) * msPerDay"
    by (simp add: msPerDay_def)
  with time_value_bounds [OF assms(1)] time_value_bounds [OF assms(2)] assms(3) show False
    by linarith
qed

lemma end_of_month_index:
  assumes "0 \<le> m" and "m \<le> 11"
  shows "time_value (end_of_month y m) = (month_start (12 * y + m + 1) - 1) * msPerDay + MakeTime 23 59 59"
  using assms month_start_Suc [of "12 * y + m"]
  by (simp add: time_value_def end_of_month_def MakeDay_month_start)

text \<open>The days from the first of a month to the end of the same month one year later.\<close>

lemma thirteen_months:
  assumes "0 \<le> m" and "m \<le> 11"
  shows "364 + month_days y m \<le> month_start (12 * (y + 1) + m + 1) - 1 - month_start (12 * y + m)"
    and "month_start (12 * (y + 1) + m + 1) - 1 - month_start (12 * y + m) \<le> 396"
proof -
  have ly: "leap_year y \<Longrightarrow> \<not> leap_year (y + 1)" proof -
    have "\<not> (4 dvd y \<and> 4 dvd y + 1)" by presburger
    then show "leap_year y \<Longrightarrow> \<not> leap_year (y + 1)" by (auto simp: leap_year_def)
  qed
  have dm: "(12 * (y + 1) + m) div 12 = y + 1" "(12 * (y + 1) + m) mod 12 = m"
    using assms by presburger+
  have eq: "month_start (12 * (y + 1) + m + 1) - 1 - month_start (12 * y + m)
      = MakeDay (y + 1) m (month_days (y + 1) m) - MakeDay y m 1"
    using MakeDay_last [OF assms, of "y + 1"] MakeDay_month_start [OF assms, of y 1]
      month_start_Suc [of "12 * (y + 1) + m", unfolded dm] MakeDay_month_start [OF assms, of "y + 1"]
    by simp
  have val: "MakeDay (y + 1) m (month_days (y + 1) m) - MakeDay y m 1
      = DayFromYear (y + 1) - DayFromYear y + days_before (y + 1) m - days_before y m + month_days (y + 1) m - 1"
    by (simp add: MakeDay_month assms)
  have "364 + month_days y m \<le> MakeDay (y + 1) m (month_days (y + 1) m) - MakeDay y m 1
     \<and> MakeDay (y + 1) m (month_days (y + 1) m) - MakeDay y m 1 \<le> 396"
    using month_cases [OF assms] ly unfolding val DayFromYear_Suc
    by (elim disjE) (simp_all add: days_before_def month_days_def upto.simps)
  then show "364 + month_days y m \<le> month_start (12 * (y + 1) + m + 1) - 1 - month_start (12 * y + m)"
    and "month_start (12 * (y + 1) + m + 1) - 1 - month_start (12 * y + m) \<le> 396"
    by (simp_all only: eq)
qed

end
