(* ===== verification/Loyalty.thy ===== *)
theory Loyalty
  imports Js_Number Js_Date "HOL-Library.Multiset"
begin

text \<open>
  The loyalty service (\<open>modules/loyalty/loyalty.service.ts\<close>): point balances, the point ledger
  (\<open>PointHistory\<close>), earning rules and the nightly expiry run. The tables are lists of rows in the
  order the database returns them; \<open>kafka\<close> holds the loyalty events the broker accepted.
\<close>

section \<open>Data\<close>

datatype point_type = EARN | REDEEM | EXPIRE | ADJUSTMENT

record user_point =
  up_userId :: string
  up_balance :: int
  up_lifetimePoints :: int

record point_history =
  ph_userId :: string
  ph_amount :: int
  ph_type :: point_type
  ph_description :: string
  ph_referenceId :: "string option"
  ph_expiresAt :: "date option"
  ph_createdAt :: date

record loyalty_rule =
  lr_eventType :: string
  lr_pointsPerThb :: jsnum
  lr_minAmount :: jsnum
  lr_maxPoints :: "int option"
  lr_isActive :: bool
  lr_isLocked :: bool
  lr_description :: "string option"
  lr_updatedBy :: "string option"

text \<open>The period of an expiry, \<open>MM/YYYY\<close> in the source, is kept as the pair (month, year).\<close>

record loyalty_event =
  le_userId :: string
  le_referenceId :: "string option"
  le_points :: int
  le_totalBalance :: int
  le_source :: string
  le_expiresPeriod :: "int \<times> int"

record loyalty_db =
  userPoint :: "user_point list"
  pointHistory :: "point_history list"
  loyaltyRule :: "loyalty_rule list"
  kafka :: "loyalty_event list"

record earn_result =
  er_userPoint :: user_point
  er_pointsEarned :: int
  er_expiresAt :: date

section \<open>Reading balances and history\<close>

definition find_point :: "string \<Rightarrow> 'a loyalty_db_scheme \<Rightarrow> user_point option" where
  "find_point userId s = find (\<lambda>r. up_userId r = userId) (userPoint s)"

definition getUserBalance :: "string \<Rightarrow> 'a loyalty_db_scheme \<Rightarrow> int \<times> int" where
  "getUserBalance userId s =
     (case find_point userId s of None \<Rightarrow> (0, 0) | Some p \<Rightarrow> (up_balance p, up_lifetimePoints p))"

definition getPointHistory :: "string \<Rightarrow> 'a loyalty_db_scheme \<Rightarrow> point_history list" where
  "getPointHistory userId s =
     take 50 (sort_key (\<lambda>h. - time_value (ph_createdAt h))
       (filter (\<lambda>h. ph_userId h = userId) (pointHistory s)))"

definition getPointHistoryByReference :: "string \<Rightarrow> 'a loyalty_db_scheme \<Rightarrow> point_history list" where
  "getPointHistoryByReference ref s = filter (\<lambda>h. ph_referenceId h = Some ref) (pointHistory s)"

section \<open>Earning\<close>

text \<open>\<open>Math.floor(amountThb * rule.pointsPerThb)\<close>, capped by a non-zero \<open>maxPoints\<close>.\<close>

definition points_to_earn :: "loyalty_rule \<Rightarrow> jsnum \<Rightarrow> jsnum" where
  "points_to_earn rule amountThb =
     (let pts = nfloor (nmul amountThb (lr_pointsPerThb rule))
      in case lr_maxPoints rule of
           Some m \<Rightarrow> if m \<noteq> 0 \<and> nlt (Fin (of_int m)) pts then Fin (of_int m) else pts
         | None \<Rightarrow> pts)"

definition expiry_date :: "date \<Rightarrow> date" where
  "expiry_date now = end_of_month (d_year now + 1) (d_month now)"

text \<open>The upsert and the history row, inside \<open>$transaction\<close>.\<close>

definition earn_tx ::
  "date \<Rightarrow> string \<Rightarrow> jsnum \<Rightarrow> string \<Rightarrow> string option \<Rightarrow> ('a loyalty_db_scheme, earn_result) handler" where
  "earn_tx now userId pts description referenceId s =
     (case pts of
        Fin x \<Rightarrow>
          (let n = \<lfloor>x\<rfloor>;
               p = (case find_point userId s of
                      Some p \<Rightarrow> p\<lparr>up_balance := up_balance p + n, up_lifetimePoints := up_lifetimePoints p + n\<rparr>
                    | None \<Rightarrow> \<lparr>up_userId = userId, up_balance = n, up_lifetimePoints = n\<rparr>);
               tbl = (case find_point userId s of
                        Some _ \<Rightarrow> update_where (\<lambda>r. up_userId r = userId)
                          (\<lambda>r. r\<lparr>up_balance := up_balance r + n, up_lifetimePoints := up_lifetimePoints r + n\<rparr>)
                          (userPoint s)
                      | None \<Rightarrow> userPoint s @ [p]);
               h = \<lparr>ph_userId = userId, ph_amount = n, ph_type = EARN, ph_description = description,
                    ph_referenceId = referenceId, ph_expiresAt = Some (expiry_date now), ph_createdAt = now\<rparr>
           in if int4 n \<and> int4 (up_balance p) \<and> int4 (up_lifetimePoints p)
              then (Inr \<lparr>er_userPoint = p, er_pointsEarned = n, er_expiresAt = expiry_date now\<rparr>,
                    s\<lparr>userPoint := tbl, pointHistory := pointHistory s @ [h]\<rparr>)
              else (Inl (Prisma ''P2020''), s))
      | _ \<Rightarrow> (Inl (Plain ''PrismaClientValidationError''), s))"

definition emit_earn ::
  "bool \<Rightarrow> string \<Rightarrow> string option \<Rightarrow> string \<Rightarrow> earn_result \<Rightarrow> 'a loyalty_db_scheme \<Rightarrow> 'a loyalty_db_scheme" where
  "emit_earn kafka_up userId referenceId eventType res s =
     (if kafka_up
      then s\<lparr>kafka := kafka s @ [\<lparr>le_userId = userId, le_referenceId = referenceId,
                le_points = er_pointsEarned res, le_totalBalance = up_balance (er_userPoint res),
                le_source = eventType,
                le_expiresPeriod = (d_month (er_expiresAt res) + 1, d_year (er_expiresAt res))\<rparr>]\<rparr>
      else s)"

definition earnPoints ::
  "bool \<Rightarrow> date \<Rightarrow> string \<Rightarrow> jsnum \<Rightarrow> string \<Rightarrow> string \<Rightarrow> string option
     \<Rightarrow> ('a loyalty_db_scheme, earn_result option) handler" where
  "earnPoints kafka_up now userId amountThb eventType description referenceId s =
     (case find (\<lambda>r. lr_eventType r = eventType) (loyaltyRule s) of
        None \<Rightarrow> (Inr None, s)
      | Some rule \<Rightarrow>
          if \<not> lr_isActive rule then (Inr None, s)
          else if nlt amountThb (lr_minAmount rule) then (Inr None, s)
          else let pts = points_to_earn rule amountThb
               in if nle pts (Fin 0) then (Inr None, s)
                  else case transaction (earn_tx now userId pts description referenceId) s of
                         (Inl e, s') \<Rightarrow> (Inl e, s')
                       | (Inr res, s') \<Rightarrow>
                           (Inr (Some res), emit_earn kafka_up userId referenceId eventType res s'))"

section \<open>Redeeming\<close>

definition redeem_tx ::
  "date \<Rightarrow> string \<Rightarrow> int \<Rightarrow> string \<Rightarrow> string option \<Rightarrow> ('a loyalty_db_scheme, user_point) handler" where
  "redeem_tx now userId pointsToRedeem description referenceId s =
     (case find_point userId s of
        None \<Rightarrow> (Inl (Plain ''Insufficient points balance''), s)
      | Some p \<Rightarrow>
          if up_balance p < pointsToRedeem then (Inl (Plain ''Insufficient points balance''), s)
          else if \<not> (int4 pointsToRedeem \<and> int4 (- pointsToRedeem) \<and> int4 (up_balance p - pointsToRedeem))
          then (Inl (Prisma ''P2020''), s)
          else (Inr (p\<lparr>up_balance := up_balance p - pointsToRedeem\<rparr>),
                s\<lparr>userPoint := update_where (\<lambda>r. up_userId r = userId)
                     (\<lambda>r. r\<lparr>up_balance := up_balance r - pointsToRedeem\<rparr>) (userPoint s),
                  pointHistory := pointHistory s @
                     [\<lparr>ph_userId = userId, ph_amount = - pointsToRedeem, ph_type = REDEEM,
                       ph_description = description, ph_referenceId = referenceId,
                       ph_expiresAt = None, ph_createdAt = now\<rparr>]\<rparr>))"

definition redeemPoints ::
  "date \<Rightarrow> string \<Rightarrow> int \<Rightarrow> string \<Rightarrow> string option \<Rightarrow> ('a loyalty_db_scheme, user_point) handler" where
  "redeemPoints now userId pointsToRedeem description referenceId =
     transaction (redeem_tx now userId pointsToRedeem description referenceId)"

section \<open>Earning rules\<close>

text \<open>The partial update an admin sends; an absent field keeps its value.\<close>

record rule_update =
  ru_pointsPerThb :: "jsnum option"
  ru_minAmount :: "jsnum option"
  ru_maxPoints :: "int option"
  ru_isActive :: "bool option"
  ru_isLocked :: "bool option"
  ru_description :: "string option"

definition or_keep :: "'a option \<Rightarrow> 'a \<Rightarrow> 'a" where
  "or_keep new old = (case new of None \<Rightarrow> old | Some v \<Rightarrow> v)"

definition apply_rule_update :: "rule_update \<Rightarrow> string \<Rightarrow> loyalty_rule \<Rightarrow> loyalty_rule" where
  "apply_rule_update data updatedBy r =
     r\<lparr>lr_pointsPerThb := or_keep (ru_pointsPerThb data) (lr_pointsPerThb r),
       lr_minAmount := or_keep (ru_minAmount data) (lr_minAmount r),
       lr_maxPoints := (case ru_maxPoints data of None \<Rightarrow> lr_maxPoints r | Some m \<Rightarrow> Some m),
       lr_isActive := or_keep (ru_isActive data) (lr_isActive r),
       lr_isLocked := or_keep (ru_isLocked data) (lr_isLocked r),
       lr_description := (case ru_description data of None \<Rightarrow> lr_description r | Some d \<Rightarrow> Some d),
       lr_updatedBy := Some updatedBy\<rparr>"

definition getEarnRules :: "'a loyalty_db_scheme \<Rightarrow> loyalty_rule list" where
  "getEarnRules s = sort_key lr_eventType (loyaltyRule s)"

definition updateRule ::
  "string \<Rightarrow> rule_update \<Rightarrow> string \<Rightarrow> ('a loyalty_db_scheme, loyalty_rule) handler" where
  "updateRule eventType data updatedBy s =
     (case find (\<lambda>r. lr_eventType r = eventType) (loyaltyRule s) of
        None \<Rightarrow> (Inl (Plain ''Rule not found''), s)
      | Some existing \<Rightarrow>
          if lr_isLocked existing \<and> ru_isLocked data \<noteq> Some False
          then (Inl (Plain ''Rule is locked. Please enter Maintenance Mode to modify.''), s)
          else (Inr (apply_rule_update data updatedBy existing),
                s\<lparr>loyaltyRule := update_where (\<lambda>r. lr_eventType r = eventType)
                     (apply_rule_update data updatedBy) (loyaltyRule s)\<rparr>))"

section \<open>Statistics and the expiry schedule\<close>

record loyalty_stats =
  st_totalActivePoints :: int
  st_totalLifetimePoints :: int
  st_totalRedeemedPoints :: int
  st_totalExpiredPoints :: int
  st_totalUsersWithPoints :: nat
  st_activeRules :: nat

definition getLoyaltyStats :: "'a loyalty_db_scheme \<Rightarrow> loyalty_stats" where
  "getLoyaltyStats s =
     \<lparr>st_totalActivePoints = sum_list (map up_balance (userPoint s)),
      st_totalLifetimePoints = sum_list (map up_lifetimePoints (userPoint s)),
      st_totalRedeemedPoints = \<bar>sum_where (\<lambda>h. ph_type h = REDEEM) ph_amount (pointHistory s)\<bar>,
      st_totalExpiredPoints = \<bar>sum_where (\<lambda>h. ph_type h = EXPIRE) ph_amount (pointHistory s)\<bar>,
      st_totalUsersWithPoints = length (userPoint s),
      st_activeRules = length (loyaltyRule s)\<rparr>"

text \<open>\<open>acc[period] = (acc[period] || 0) + item.amount\<close> over an object, in insertion order.\<close>

fun add_period :: "'k \<Rightarrow> int \<Rightarrow> ('k \<times> int) list \<Rightarrow> ('k \<times> int) list" where
  "add_period p n [] = [(p, n)]"
| "add_period p n ((q, m) # acc) = (if q = p then (q, m + n) # acc else (q, m) # add_period p n acc)"

definition period_of :: "date \<Rightarrow> int \<times> int" where
  "period_of d = (d_month d + 1, d_year d)"

definition schedule_step ::
  "((int \<times> int) \<times> int) list \<Rightarrow> point_history \<Rightarrow> ((int \<times> int) \<times> int) list" where
  "schedule_step acc item =
     (case ph_expiresAt item of None \<Rightarrow> acc | Some d \<Rightarrow> add_period (period_of d) (ph_amount item) acc)"

definition expiring :: "date \<Rightarrow> point_history \<Rightarrow> bool" where
  "expiring now h \<longleftrightarrow> ph_type h = EARN \<and>
     (case ph_expiresAt h of None \<Rightarrow> False | Some d \<Rightarrow> time_value now < time_value d)"

definition getExpirySchedule :: "date \<Rightarrow> 'a loyalty_db_scheme \<Rightarrow> ((int \<times> int) \<times> int) list" where
  "getExpirySchedule now s =
     sort_key (\<lambda>((m, y), _). y * 100 + m)
       (foldl schedule_step [] (filter (expiring now) (pointHistory s)))"

section \<open>The expiry run\<close>

definition expired_earn :: "date \<Rightarrow> point_history \<Rightarrow> bool" where
  "expired_earn now h \<longleftrightarrow> ph_type h = EARN \<and>
     (case ph_expiresAt h of None \<Rightarrow> False | Some d \<Rightarrow> time_value d \<le> time_value now)"

definition user_sum :: "point_type \<Rightarrow> string \<Rightarrow> 'a loyalty_db_scheme \<Rightarrow> int" where
  "user_sum t userId s = sum_where (\<lambda>h. ph_userId h = userId \<and> ph_type h = t) ph_amount (pointHistory s)"

text \<open>\<open>pointsToRemove\<close>: earned and expired, less what was redeemed or expired before.\<close>

definition points_to_remove :: "int \<Rightarrow> string \<Rightarrow> 'a loyalty_db_scheme \<Rightarrow> int" where
  "points_to_remove pointsEarnedExpired userId s =
     max 0 (pointsEarnedExpired - \<bar>user_sum REDEEM userId s\<bar> - \<bar>user_sum EXPIRE userId s\<bar>)"

text \<open>One iteration of the loop: the points taken and the new store.\<close>

definition expire_user :: "date \<Rightarrow> string \<Rightarrow> int \<Rightarrow> 'a loyalty_db_scheme \<Rightarrow> int \<times> 'a loyalty_db_scheme" where
  "expire_user now userId pointsEarnedExpired s =
     (let remove = points_to_remove pointsEarnedExpired userId s
      in if 0 < remove
         then let safe = min remove (case find_point userId s of None \<Rightarrow> 0 | Some p \<Rightarrow> up_balance p)
              in if 0 < safe
                 then (safe,
                   s\<lparr>userPoint := update_where (\<lambda>r. up_userId r = userId)
                        (\<lambda>r. r\<lparr>up_balance := up_balance r - safe\<rparr>) (userPoint s),
                     pointHistory := pointHistory s @
                        [\<lparr>ph_userId = userId, ph_amount = - safe, ph_type = EXPIRE,
                          ph_description = ''Points expired (Monthly cycle)'', ph_referenceId = None,
                          ph_expiresAt = None, ph_createdAt = now\<rparr>]\<rparr>)
                 else (0, s)
         else (0, s))"

definition expired_groups :: "date \<Rightarrow> 'a loyalty_db_scheme \<Rightarrow> (string \<times> int) list" where
  "expired_groups now s =
     map (\<lambda>u. (u, sum_where (\<lambda>h. ph_userId h = u \<and> expired_earn now h) ph_amount (pointHistory s)))
       (remdups (map ph_userId (filter (expired_earn now) (pointHistory s))))"

fun expire_loop ::
  "date \<Rightarrow> (string \<times> int) list \<Rightarrow> nat \<Rightarrow> int \<Rightarrow> 'a loyalty_db_scheme \<Rightarrow> (nat \<times> int) \<times> 'a loyalty_db_scheme" where
  "expire_loop now [] usersProcessed totalPointsExpired s = ((usersProcessed, totalPointsExpired), s)"
| "expire_loop now ((u, n) # recs) usersProcessed totalPointsExpired s =
     (case expire_user now u n s of
        (taken, s') \<Rightarrow> expire_loop now recs (Suc usersProcessed) (totalPointsExpired + taken) s')"

definition processExpiries :: "date \<Rightarrow> 'a loyalty_db_scheme \<Rightarrow> (nat \<times> int) \<times> 'a loyalty_db_scheme" where
  "processExpiries now s = expire_loop now (expired_groups now s) 0 0 s"

section \<open>The ledger invariant\<close>

text \<open>
  Signs of the ledger rows the services write: earnings are positive, redemptions and expiries take
  points away, and no operation writes an \<open>ADJUSTMENT\<close>.
\<close>

definition sign_ok :: "point_history \<Rightarrow> bool" where
  "sign_ok h = (case ph_type h of
      EARN \<Rightarrow> 0 < ph_amount h | REDEEM \<Rightarrow> ph_amount h \<le> 0 | EXPIRE \<Rightarrow> ph_amount h \<le> 0
    | ADJUSTMENT \<Rightarrow> False)"

definition ledger_sum :: "string \<Rightarrow> 'a loyalty_db_scheme \<Rightarrow> int" where
  "ledger_sum u s = sum_where (\<lambda>h. ph_userId h = u) ph_amount (pointHistory s)"

definition account_ok :: "string \<Rightarrow> 'a loyalty_db_scheme \<Rightarrow> bool" where
  "account_ok u s = (case find_point u s of
      None \<Rightarrow> \<forall>h\<in>set (pointHistory s). ph_userId h \<noteq> u
    | Some p \<Rightarrow> up_balance p = ledger_sum u s \<and> up_lifetimePoints p = user_sum EARN u s \<and> 0 \<le> up_balance p)"

definition ledger_ok :: "'a loyalty_db_scheme \<Rightarrow> bool" where
  "ledger_ok s \<longleftrightarrow> (\<forall>u. account_ok u s) \<and> list_all sign_ok (pointHistory s)
     \<and> distinct (map up_userId (userPoint s))"

definition balance :: "string \<Rightarrow> 'a loyalty_db_scheme \<Rightarrow> int" where
  "balance u s = fst (getUserBalance u s)"

text \<open>
  A posting: the balance of one user moves and the same amount is written to the ledger. Every
  operation that moves points is one posting, on an account that exists or was just opened.
\<close>

definition post :: "point_history \<Rightarrow> 'a loyalty_db_scheme \<Rightarrow> 'a loyalty_db_scheme" where
  "post h s =
     s\<lparr>userPoint := update_where (\<lambda>r. up_userId r = ph_userId h)
          (\<lambda>r. r\<lparr>up_balance := up_balance r + ph_amount h,
                up_lifetimePoints := up_lifetimePoints r + (if ph_type h = EARN then ph_amount h else 0)\<rparr>)
          (userPoint s),
       pointHistory := pointHistory s @ [h]\<rparr>"

definition open_account :: "string \<Rightarrow> 'a loyalty_db_scheme \<Rightarrow> 'a loyalty_db_scheme" where
  "open_account u s =
     s\<lparr>userPoint := userPoint s @ [\<lparr>up_userId = u, up_balance = 0, up_lifetimePoints = 0\<rparr>]\<rparr>"

definition admissible :: "point_history \<Rightarrow> 'a loyalty_db_scheme \<Rightarrow> bool" where
  "admissible h s \<longleftrightarrow> find_point (ph_userId h) s \<noteq> None \<and> sign_ok h
     \<and> 0 \<le> balance (ph_userId h) s + ph_amount h"

subsection \<open>Postings keep the books\<close>

lemma find_point_post:
  "find_point u (post h s) =
     map_option (\<lambda>p. if u = ph_userId h
        then p\<lparr>up_balance := up_balance p + ph_amount h,
               up_lifetimePoints := up_lifetimePoints p + (if ph_type h = EARN then ph_amount h else 0)\<rparr>
        else p) (find_point u s)"
proof -
  have "up_userId p = u" if "find_point u s = Some p" for p
    using that find_SomeD [of "\<lambda>r. up_userId r = u" "userPoint s" p] by (simp add: find_point_def)
  then show ?thesis
    by (cases "find_point u s") (auto simp: find_point_def post_def find_update_where)
qed

lemma find_point_userId: "find_point u s = Some p \<Longrightarrow> up_userId p = u"
  using find_SomeD [of "\<lambda>r. up_userId r = u" "userPoint s" p] by (simp add: find_point_def)

lemma pointHistory_post [simp]: "pointHistory (post h s) = pointHistory s @ [h]"
  by (simp add: post_def)

lemma user_sum_post [simp]:
  "user_sum t u (post h s) = user_sum t u s + (if ph_userId h = u \<and> ph_type h = t then ph_amount h else 0)"
  by (simp add: user_sum_def)

lemma ledger_sum_post [simp]:
  "ledger_sum u (post h s) = ledger_sum u s + (if ph_userId h = u then ph_amount h else 0)"
  by (simp add: ledger_sum_def)

lemma account_ok_post:
  assumes "account_ok u s" and "admissible h s"
  shows "account_ok u (post h s)"
  using assms
  by (cases "find_point u s")
     (auto simp: account_ok_def admissible_def find_point_post balance_def getUserBalance_def)

lemma map_userId_post [simp]: "map up_userId (userPoint (post h s)) = map up_userId (userPoint s)"
  by (simp add: post_def map_update_where)

lemma ledger_ok_post:
  assumes "ledger_ok s" and "admissible h s"
  shows "ledger_ok (post h s)"
  using assms account_ok_post [OF _ assms(2)] by (auto simp: ledger_ok_def admissible_def)

lemma balance_post:
  assumes "admissible h s"
  shows "balance u (post h s) = balance u s + (if ph_userId h = u then ph_amount h else 0)"
  using assms
  by (cases "find_point u s") (auto simp: balance_def getUserBalance_def find_point_post admissible_def)

lemma ledger_ok_accountD: "ledger_ok s \<Longrightarrow> account_ok u s"
  by (simp add: ledger_ok_def)

lemma ledger_ok_account:
  "ledger_ok s \<Longrightarrow> find_point u s = Some p \<Longrightarrow>
     up_balance p = ledger_sum u s \<and> up_lifetimePoints p = user_sum EARN u s \<and> 0 \<le> up_balance p"
  using ledger_ok_accountD [of s u] by (simp add: account_ok_def)

lemma ledger_ok_no_account:
  "ledger_ok s \<Longrightarrow> find_point u s = None \<Longrightarrow> h \<in> set (pointHistory s) \<Longrightarrow> ph_userId h \<noteq> u"
  using ledger_ok_accountD [of s u] by (simp add: account_ok_def)

lemma balance_ledger: "ledger_ok s \<Longrightarrow> balance u s = ledger_sum u s"
  using ledger_ok_account [of s u] ledger_ok_no_account [of s u]
  by (cases "find_point u s")
     (simp_all add: balance_def getUserBalance_def ledger_sum_def sum_where_none)

lemma balance_nonneg: "ledger_ok s \<Longrightarrow> 0 \<le> balance u s"
  by (cases "find_point u s") (auto simp: balance_def getUserBalance_def dest: ledger_ok_account)

lemma open_account_find:
  "find_point u s = None \<Longrightarrow>
   find_point v (open_account u s) =
     (if v = u then Some \<lparr>up_userId = u, up_balance = 0, up_lifetimePoints = 0\<rparr> else find_point v s)"
  by (cases "find_point v s") (auto simp: find_point_def open_account_def find_append)

lemma ledger_ok_open_account:
  assumes "ledger_ok s" and "find_point u s = None"
  shows "ledger_ok (open_account u s)"
proof -
  have none: "ph_userId h \<noteq> u" if "h \<in> set (pointHistory s)" for h
    using ledger_ok_no_account [OF assms that] .
  have hist: "pointHistory (open_account u s) = pointHistory s" by (simp add: open_account_def)
  have "account_ok v (open_account u s)" for v
    using assms(1) none by (auto simp: account_ok_def open_account_find [OF assms(2)] hist ledger_sum_def
        user_sum_def sum_where_none ledger_ok_def dest: spec [of _ v] split: option.splits)
  moreover have "u \<notin> set (map up_userId (userPoint s))"
    using assms(2) by (auto simp: find_point_def find_None_iff)
  ultimately show ?thesis using assms(1) by (auto simp: ledger_ok_def open_account_def)
qed

section \<open>The interface of the point ledger\<close>

text \<open>
  What a client of the ledger may rely on: a posting that leaves the balance non-negative keeps the
  books in order and moves one balance by its amount. Clients argue about sequences of postings.
\<close>

locale posting_ledger =
  fixes ok :: "'s \<Rightarrow> bool" and bal :: "string \<Rightarrow> 's \<Rightarrow> int"
    and pst :: "'e \<Rightarrow> 's \<Rightarrow> 's" and acct :: "'e \<Rightarrow> string" and amt :: "'e \<Rightarrow> int"
    and adm :: "'e \<Rightarrow> 's \<Rightarrow> bool"
  assumes pst_ok: "ok s \<Longrightarrow> adm e s \<Longrightarrow> ok (pst e s)"
    and bal_pst: "ok s \<Longrightarrow> adm e s \<Longrightarrow> bal u (pst e s) = bal u s + (if acct e = u then amt e else 0)"
    and bal_nonneg: "ok s \<Longrightarrow> 0 \<le> bal u s"
begin

text \<open>A run of guarded postings: one that the guard refuses is skipped.\<close>

fun run :: "'e list \<Rightarrow> 's \<Rightarrow> 's" where
  "run [] s = s"
| "run (e # es) s = run es (if adm e s then pst e s else s)"

lemma run_ok: "ok s \<Longrightarrow> ok (run es s)"
  by (induction es arbitrary: s) (auto simp: pst_ok)

lemma run_never_negative: "ok s \<Longrightarrow> 0 \<le> bal u (run es s)"
  by (simp add: run_ok bal_nonneg)

lemma pst_other: "ok s \<Longrightarrow> adm e s \<Longrightarrow> acct e \<noteq> u \<Longrightarrow> bal u (pst e s) = bal u s"
  by (simp add: bal_pst)

end

interpretation points: posting_ledger ledger_ok balance post ph_userId ph_amount admissible
  by unfold_locales (auto simp: ledger_ok_post balance_post balance_nonneg)

section \<open>Every operation is a posting\<close>

definition earn_entry :: "date \<Rightarrow> string \<Rightarrow> int \<Rightarrow> string \<Rightarrow> string option \<Rightarrow> point_history" where
  "earn_entry now u n d r =
     \<lparr>ph_userId = u, ph_amount = n, ph_type = EARN, ph_description = d, ph_referenceId = r,
      ph_expiresAt = Some (expiry_date now), ph_createdAt = now\<rparr>"

definition debit_entry :: "point_type \<Rightarrow> date \<Rightarrow> string \<Rightarrow> int \<Rightarrow> string \<Rightarrow> string option \<Rightarrow> point_history" where
  "debit_entry t now u n d r =
     \<lparr>ph_userId = u, ph_amount = - n, ph_type = t, ph_description = d, ph_referenceId = r,
      ph_expiresAt = None, ph_createdAt = now\<rparr>"

lemma entry_sel [simp]:
  "ph_userId (earn_entry now u n d r) = u" "ph_amount (earn_entry now u n d r) = n"
  "ph_type (earn_entry now u n d r) = EARN" "ph_expiresAt (earn_entry now u n d r) = Some (expiry_date now)"
  "ph_userId (debit_entry t now u n d r) = u" "ph_amount (debit_entry t now u n d r) = - n"
  "ph_type (debit_entry t now u n d r) = t" "ph_expiresAt (debit_entry t now u n d r) = None"
  by (simp_all add: earn_entry_def debit_entry_def)

definition ensure_account :: "string \<Rightarrow> 'a loyalty_db_scheme \<Rightarrow> 'a loyalty_db_scheme" where
  "ensure_account u s = (if find_point u s = None then open_account u s else s)"

lemma ensure_account_find: "find_point u (ensure_account u s) \<noteq> None"
  by (simp add: ensure_account_def open_account_find)

lemma ledger_ok_ensure_account: "ledger_ok s \<Longrightarrow> ledger_ok (ensure_account u s)"
  by (simp add: ensure_account_def ledger_ok_open_account)

lemma balance_ensure_account [simp]: "balance v (ensure_account u s) = balance v s"
  by (auto simp: ensure_account_def balance_def getUserBalance_def open_account_find)

lemma update_where_new_row:
  "\<forall>r\<in>set rows. \<not> p r \<Longrightarrow> update_where p f (rows @ [x]) = rows @ [if p x then f x else x]"
  by (simp add: update_where_def map_idI)

lemma earn_tx_posts:
  assumes "earn_tx now u pts d r s = (Inr res, s')"
  shows "\<exists>x. pts = Fin x \<and> er_pointsEarned res = \<lfloor>x\<rfloor> \<and> er_expiresAt res = expiry_date now
     \<and> s' = post (earn_entry now u \<lfloor>x\<rfloor> d r) (ensure_account u s)"
proof (cases pts)
  case (Fin x)
  show ?thesis
  proof (cases "find_point u s")
    case None
    then have "\<forall>r\<in>set (userPoint s). up_userId r \<noteq> u" by (auto simp: find_point_def find_None_iff)
    with assms Fin None show ?thesis
      by (auto simp: earn_tx_def Let_def post_def earn_entry_def ensure_account_def open_account_def
          update_where_new_row split: if_splits)
  next
    case (Some p)
    with assms Fin show ?thesis
      by (auto simp: earn_tx_def Let_def post_def earn_entry_def ensure_account_def split: if_splits)
  qed
qed (use assms in \<open>simp_all add: earn_tx_def\<close>)

lemma redeem_tx_posts:
  assumes "redeem_tx now u n d r s = (Inr p', s')"
  shows "\<exists>p. find_point u s = Some p \<and> n \<le> up_balance p \<and> p' = p\<lparr>up_balance := up_balance p - n\<rparr>
     \<and> s' = post (debit_entry REDEEM now u n d r) s"
  using assms
  by (auto simp: redeem_tx_def post_def debit_entry_def split: option.splits if_splits)

lemma admissible_debit:
  "find_point u s = Some p \<Longrightarrow> 0 \<le> n \<Longrightarrow> n \<le> up_balance p \<Longrightarrow> t = REDEEM \<or> t = EXPIRE \<Longrightarrow>
     admissible (debit_entry t now u n d r) s"
  by (auto simp: admissible_def sign_ok_def balance_def getUserBalance_def)

lemma admissible_earn:
  "ledger_ok s \<Longrightarrow> 0 < n \<Longrightarrow> admissible (earn_entry now u n d r) (ensure_account u s)"
  using balance_nonneg [of s u] ensure_account_find [of u s]
  by (auto simp: admissible_def sign_ok_def)

lemma expire_user_cases:
  obtains (none) "expire_user now u n s = (0, s)"
  | (posted) p k where "find_point u s = Some p" "0 < k" "k = min (points_to_remove n u s) (up_balance p)"
      "expire_user now u n s
        = (k, post (debit_entry EXPIRE now u k ''Points expired (Monthly cycle)'' None) s)"
proof (cases "find_point u s")
  case None
  then have "expire_user now u n s = (0, s)" by (simp add: expire_user_def Let_def)
  then show ?thesis by (rule none)
next
  case (Some p)
  let ?k = "min (points_to_remove n u s) (up_balance p)"
  show ?thesis
  proof (cases "0 < ?k")
    case True
    then have "expire_user now u n s
        = (?k, post (debit_entry EXPIRE now u ?k ''Points expired (Monthly cycle)'' None) s)"
      using Some by (simp add: expire_user_def Let_def post_def debit_entry_def)
    then show ?thesis using posted [OF Some True] by simp
  next
    case False
    then have "expire_user now u n s = (0, s)" using Some by (simp add: expire_user_def Let_def)
    then show ?thesis by (rule none)
  qed
qed

section \<open>Properties\<close>

subsection \<open>Earning\<close>

lemma points_to_earn_integral: "points_to_earn rule a = Fin x \<Longrightarrow> x = of_int \<lfloor>x\<rfloor>"
  by (cases "nmul a (lr_pointsPerThb rule)")
     (auto simp: points_to_earn_def Let_def split: option.splits if_splits)

lemma points_to_earn_capped:
  "lr_maxPoints rule = Some m \<Longrightarrow> m \<noteq> 0 \<Longrightarrow> points_to_earn rule a = Fin x \<Longrightarrow> x \<le> of_int m"
  by (cases "nmul a (lr_pointsPerThb rule)") (auto simp: points_to_earn_def Let_def split: if_splits)

lemma emit_earn_loyalty [simp]:
  "find_point v (emit_earn k u r e res s) = find_point v s"
  "pointHistory (emit_earn k u r e res s) = pointHistory s"
  "userPoint (emit_earn k u r e res s) = userPoint s"
  "balance v (emit_earn k u r e res s) = balance v s"
  by (simp_all add: emit_earn_def find_point_def balance_def getUserBalance_def)

lemma ledger_ok_cong:
  "userPoint s = userPoint t \<Longrightarrow> pointHistory s = pointHistory t \<Longrightarrow> ledger_ok s = ledger_ok t"
  unfolding ledger_ok_def account_ok_def find_point_def ledger_sum_def user_sum_def
  by (simp only:)

text \<open>A call that returns points made one positive posting.\<close>

lemma earnPoints_posts:
  assumes "earnPoints kafka_up now u a ev d r s = (Inr (Some res), s')"
  obtains rule where "find (\<lambda>r. lr_eventType r = ev) (loyaltyRule s) = Some rule" "lr_isActive rule"
    "\<not> nlt a (lr_minAmount rule)" "0 < er_pointsEarned res"
    "points_to_earn rule a = Fin (of_int (er_pointsEarned res))" "er_expiresAt res = expiry_date now"
    "s' = emit_earn kafka_up u r ev res
       (post (earn_entry now u (er_pointsEarned res) d r) (ensure_account u s))"
proof -
  from assms obtain rule s'' where rule: "find (\<lambda>r. lr_eventType r = ev) (loyaltyRule s) = Some rule"
    "lr_isActive rule" "\<not> nlt a (lr_minAmount rule)" "\<not> nle (points_to_earn rule a) (Fin 0)"
    and tx: "earn_tx now u (points_to_earn rule a) d r s = (Inr res, s'')"
    and s': "s' = emit_earn kafka_up u r ev res s''"
    by (auto simp: earnPoints_def Let_def split: option.splits if_splits prod.splits sum.splits)
  from earn_tx_posts [OF tx] obtain x where x: "points_to_earn rule a = Fin x"
    and res: "er_pointsEarned res = \<lfloor>x\<rfloor>" "er_expiresAt res = expiry_date now"
    and s'': "s'' = post (earn_entry now u \<lfloor>x\<rfloor> d r) (ensure_account u s)" by blast
  have "x = of_int (er_pointsEarned res)" using points_to_earn_integral [OF x] res by simp
  moreover from this x rule(4) have "0 < er_pointsEarned res" by simp
  ultimately show thesis using that rule x res s' s'' by simp
qed

lemma earnPoints_no_points:
  "earnPoints kafka_up now u a ev d r s = (Inl e, s') \<Longrightarrow> s' = s"
  "earnPoints kafka_up now u a ev d r s = (Inr None, s') \<Longrightarrow> s' = s"
  by (auto simp: earnPoints_def Let_def dest: transaction_error
      split: option.splits if_splits prod.splits sum.splits)

lemma earnPoints_ledger_ok:
  assumes "ledger_ok s"
  shows "ledger_ok (snd (earnPoints kafka_up now u a ev d r s))"
proof (cases "earnPoints kafka_up now u a ev d r s")
  case (Pair v s')
  consider (err) e where "v = Inl e" | (none) "v = Inr None" | (some) res where "v = Inr (Some res)"
    by (metis not_Some_eq obj_sumE)
  then show ?thesis
  proof cases
    case some
    with Pair obtain n where "0 < n" and s': "s' = emit_earn kafka_up u r ev res
        (post (earn_entry now u n d r) (ensure_account u s))"
      by (auto elim: earnPoints_posts)
    then have "ledger_ok (post (earn_entry now u n d r) (ensure_account u s))"
      using assms by (intro points.pst_ok admissible_earn ledger_ok_ensure_account)
    then show ?thesis using Pair s' by (simp cong: ledger_ok_cong add: ledger_ok_cong [of s'])
  qed (use Pair assms in \<open>auto dest: earnPoints_no_points\<close>)
qed

text \<open>
  A successful \<open>earnPoints\<close> credits a positive number of points, at most the
  rule's non-zero cap, raises the balance of that user by exactly this number, leaves every other
  balance alone and adds exactly one ledger row, which expires at the end of the month next year.
\<close>

theorem earnPoints_credit:
  assumes "ledger_ok s" and "earnPoints kafka_up now u a ev d r s = (Inr (Some res), s')"
  shows "0 < er_pointsEarned res
    \<and> (\<forall>rule m. find (\<lambda>r. lr_eventType r = ev) (loyaltyRule s) = Some rule \<and> lr_maxPoints rule = Some m
          \<and> m \<noteq> 0 \<longrightarrow> er_pointsEarned res \<le> m)
    \<and> (\<forall>v. balance v s' = balance v s + (if v = u then er_pointsEarned res else 0))
    \<and> pointHistory s' = pointHistory s @ [earn_entry now u (er_pointsEarned res) d r]"
proof -
  from assms(2) obtain rl where rl: "find (\<lambda>r. lr_eventType r = ev) (loyaltyRule s) = Some rl"
    and pos: "0 < er_pointsEarned res" and pts: "points_to_earn rl a = Fin (of_int (er_pointsEarned res))"
    and s': "s' = emit_earn kafka_up u r ev res
       (post (earn_entry now u (er_pointsEarned res) d r) (ensure_account u s))"
    by (rule earnPoints_posts)
  have "er_pointsEarned res \<le> m" if "lr_maxPoints rl = Some m" "m \<noteq> 0" for m
    using points_to_earn_capped [OF that pts] by simp
  moreover have "balance v s' = balance v s + (if v = u then er_pointsEarned res else 0)" for v
    using balance_post [OF admissible_earn [OF assms(1) pos]] s' by simp
  moreover have "pointHistory s' = pointHistory s @ [earn_entry now u (er_pointsEarned res) d r]"
    using s' by (simp add: ensure_account_def open_account_def)
  ultimately show ?thesis using pos rl by auto
qed

definition demo_rule :: loyalty_rule where
  "demo_rule = \<lparr>lr_eventType = ''TOPUP'', lr_pointsPerThb = Fin 2, lr_minAmount = Fin 1,
     lr_maxPoints = Some 5, lr_isActive = True, lr_isLocked = True, lr_description = None,
     lr_updatedBy = None\<rparr>"

definition demo_now :: date where
  "demo_now = \<lparr>d_year = 2025, d_month = 2, d_day = 14, d_ms = 36000000\<rparr>"

definition demo_later :: date where
  "demo_later = \<lparr>d_year = 2026, d_month = 3, d_day = 1, d_ms = 0\<rparr>"

definition demo_empty :: loyalty_db where
  "demo_empty = \<lparr>userPoint = [], pointHistory = [], loyaltyRule = [demo_rule], kafka = []\<rparr>"

text \<open>The store after one top-up of 10 THB by a user: five points.\<close>

definition demo_earned :: "error + earn_result option" where
  "demo_earned = fst (earnPoints True demo_now ''alice'' (Fin 10) ''TOPUP'' ''Top up'' None demo_empty)"

definition demo_db :: loyalty_db where
  "demo_db = snd (earnPoints True demo_now ''alice'' (Fin 10) ''TOPUP'' ''Top up'' None demo_empty)"

lemma demo_empty_ok: "ledger_ok demo_empty"
  by (simp add: demo_empty_def ledger_ok_def account_ok_def find_point_def)

lemma demo_db_ok: "ledger_ok demo_db"
  unfolding demo_db_def by (rule earnPoints_ledger_ok [OF demo_empty_ok])

lemma demo_earned_5:
  "case demo_earned of Inr (Some res) \<Rightarrow> er_pointsEarned res = 5 | _ \<Rightarrow> False"
  by code_simp

theorem earnPoints_credit_witness:
  "\<exists>res. earnPoints True demo_now ''alice'' (Fin 10) ''TOPUP'' ''Top up'' None demo_empty
      = (Inr (Some res), demo_db) \<and> er_pointsEarned res = 5
     \<and> balance ''alice'' demo_db = balance ''alice'' demo_empty + 5"
proof -
  obtain res where res: "demo_earned = Inr (Some res)" "er_pointsEarned res = 5"
    using demo_earned_5 by (auto split: sum.splits option.splits)
  then have "earnPoints True demo_now ''alice'' (Fin 10) ''TOPUP'' ''Top up'' None demo_empty
      = (Inr (Some res), demo_db)"
    by (simp add: demo_earned_def demo_db_def prod_eq_iff)
  from earnPoints_credit [OF demo_empty_ok this] this res show ?thesis by auto
qed

subsection \<open>Redeeming and expiring\<close>

lemma redeemPoints_ledger_ok:
  assumes "ledger_ok s" and "0 \<le> n"
  shows "ledger_ok (snd (redeemPoints now u n d r s))"
  unfolding redeemPoints_def
proof (rule transaction_invariant)
  show "ledger_ok s" by fact
  fix v s' assume "redeem_tx now u n d r s = (Inr v, s')"
  then obtain p where "find_point u s = Some p" "n \<le> up_balance p"
    and s': "s' = post (debit_entry REDEEM now u n d r) s"
    using redeem_tx_posts by blast
  then show "ledger_ok s'" using assms by (auto intro!: points.pst_ok admissible_debit)
qed

text \<open>
  \<open>redeemPoints\<close> fails, and then changes nothing, or takes exactly the requested
  points from that user, who had them: the balance never goes below zero, no other balance moves,
  and the ledger gains one row with the negated amount.
\<close>

theorem redeemPoints_debit:
  assumes "ledger_ok s" and "0 \<le> n"
  shows "case redeemPoints now u n d r s of
      (Inl e, s') \<Rightarrow> s' = s
    | (Inr p, s') \<Rightarrow> n \<le> balance u s \<and> up_balance p = balance u s - n
        \<and> (\<forall>v. balance v s' = balance v s - (if v = u then n else 0) \<and> 0 \<le> balance v s')
        \<and> pointHistory s' = pointHistory s @ [debit_entry REDEEM now u n d r]"
proof (cases "redeemPoints now u n d r s")
  case (Pair v s')
  show ?thesis
  proof (cases v)
    case (Inl e)
    with Pair show ?thesis by (auto simp: redeemPoints_def dest: transaction_error)
  next
    case (Inr p')
    with Pair have "redeem_tx now u n d r s = (Inr p', s')" by (simp add: redeemPoints_def)
    then obtain p where p: "find_point u s = Some p" "n \<le> up_balance p"
      "p' = p\<lparr>up_balance := up_balance p - n\<rparr>" and s': "s' = post (debit_entry REDEEM now u n d r) s"
      using redeem_tx_posts by blast
    have adm: "admissible (debit_entry REDEEM now u n d r) s"
      using p assms(2) by (intro admissible_debit) auto
    have "balance u s = up_balance p" using p by (simp add: balance_def getUserBalance_def)
    moreover have "balance v s' = balance v s - (if v = u then n else 0) \<and> 0 \<le> balance v s'" for v
      using balance_post [OF adm, of v] points.bal_nonneg [OF points.pst_ok [OF assms(1) adm], of v] s'
      by auto
    ultimately show ?thesis using Pair Inr p s' balance_nonneg [OF assms(1)] by auto
  qed
qed

theorem redeemPoints_debit_witness:
  "case redeemPoints demo_now ''alice'' 3 ''Coffee'' None demo_db of
      (Inl e, s') \<Rightarrow> s' = demo_db
    | (Inr p, s') \<Rightarrow> 3 \<le> balance ''alice'' demo_db \<and> up_balance p = balance ''alice'' demo_db - 3
        \<and> (\<forall>v. balance v s' = balance v demo_db - (if v = ''alice'' then 3 else 0) \<and> 0 \<le> balance v s')
        \<and> pointHistory s' = pointHistory demo_db @ [debit_entry REDEEM demo_now ''alice'' 3 ''Coffee'' None]"
  by (rule redeemPoints_debit [OF demo_db_ok]) simp

text \<open>The sums of a user's debits are not positive, so \<open>Math.abs\<close> negates them.\<close>

lemma ledger_signs:
  assumes "ledger_ok s"
  shows "user_sum REDEEM u s \<le> 0" "user_sum EXPIRE u s \<le> 0" "0 \<le> user_sum EARN u s"
    "user_sum ADJUSTMENT u s = 0"
proof -
  have sg: "sign_ok h" if "h \<in> set (pointHistory s)" for h
    using assms that by (auto simp: ledger_ok_def list_all_iff)
  show "user_sum REDEEM u s \<le> 0" "user_sum EXPIRE u s \<le> 0"
    unfolding user_sum_def by (rule sum_where_nonpos; use sg in \<open>force simp: sign_ok_def\<close>)+
  show "0 \<le> user_sum EARN u s"
    unfolding user_sum_def by (rule sum_where_nonneg) (use sg in \<open>force simp: sign_ok_def\<close>)
  show "user_sum ADJUSTMENT u s = 0"
    unfolding user_sum_def by (rule sum_where_none) (use sg in \<open>force simp: sign_ok_def\<close>)
qed

lemma sum_where_types:
  "sum_where (\<lambda>h. P h) ph_amount hs =
     sum_where (\<lambda>h. P h \<and> ph_type h = EARN) ph_amount hs + sum_where (\<lambda>h. P h \<and> ph_type h = REDEEM) ph_amount hs
     + sum_where (\<lambda>h. P h \<and> ph_type h = EXPIRE) ph_amount hs
     + sum_where (\<lambda>h. P h \<and> ph_type h = ADJUSTMENT) ph_amount hs"
proof (induction hs)
  case (Cons h hs)
  then show ?case by (cases "ph_type h") auto
qed simp

lemma balance_types: "ledger_ok s \<Longrightarrow> balance u s = user_sum EARN u s + user_sum REDEEM u s + user_sum EXPIRE u s"
  using sum_where_types [of "\<lambda>h. ph_userId h = u" "pointHistory s"] ledger_signs(4) [of s u]
  by (simp add: balance_ledger ledger_sum_def user_sum_def)

text \<open>
  The safety net \<open>Math.min(pointsToRemove, balance)\<close> never bites when the books are in order:
  what is to be removed is still in the balance.
\<close>

lemma points_to_remove_le_balance:
  "ledger_ok s \<Longrightarrow> n \<le> user_sum EARN u s \<Longrightarrow> points_to_remove n u s \<le> balance u s"
  using balance_types [of s u] balance_nonneg [of s u] ledger_signs(1,2) [of s u]
  by (simp add: points_to_remove_def)

lemma expire_user_effect:
  assumes "ledger_ok s" and "n \<le> user_sum EARN u s"
  defines "k \<equiv> points_to_remove n u s"
  shows "expire_user now u n s =
     (k, if k = 0 then s else post (debit_entry EXPIRE now u k ''Points expired (Monthly cycle)'' None) s)"
    and "k \<noteq> 0 \<Longrightarrow> admissible (debit_entry EXPIRE now u k ''Points expired (Monthly cycle)'' None) s"
proof -
  have k: "0 \<le> k" "k \<le> balance u s"
    using points_to_remove_le_balance [OF assms(1,2)] by (auto simp: k_def points_to_remove_def)
  show "expire_user now u n s =
     (k, if k = 0 then s else post (debit_entry EXPIRE now u k ''Points expired (Monthly cycle)'' None) s)"
  proof (cases "find_point u s")
    case None
    then have "k = 0" using k by (simp add: balance_def getUserBalance_def)
    then show ?thesis by (simp add: expire_user_def k_def)
  next
    case (Some p)
    then have "min k (up_balance p) = k" using k by (simp add: balance_def getUserBalance_def)
    then show ?thesis using k(1) Some
      by (simp add: expire_user_def k_def [symmetric] post_def debit_entry_def)
  qed
  show "admissible (debit_entry EXPIRE now u k ''Points expired (Monthly cycle)'' None) s" if "k \<noteq> 0"
    using k that by (cases "find_point u s")
      (auto intro: admissible_debit simp: balance_def getUserBalance_def)
qed

lemma expire_user_ledger_ok: "ledger_ok s \<Longrightarrow> ledger_ok (snd (expire_user now u n s))"
proof (cases rule: expire_user_cases [of now u n s])
  case (posted p k)
  then show "ledger_ok s \<Longrightarrow> ?thesis" by (auto intro!: points.pst_ok admissible_debit)
qed simp

lemma expire_loop_ledger_ok: "ledger_ok s \<Longrightarrow> ledger_ok (snd (expire_loop now recs i t s))"
proof (induction recs arbitrary: i t s)
  case (Cons rec recs)
  obtain u n where "rec = (u, n)" by (cases rec)
  then show ?case using Cons expire_user_ledger_ok [of s now u n] by (auto split: prod.splits)
qed simp

lemma points_to_remove_post_other:
  "ph_userId h \<noteq> u \<Longrightarrow> points_to_remove n u (post h s) = points_to_remove n u s"
  by (simp add: points_to_remove_def)

text \<open>The loop over distinct users takes from each what was to be removed at the start.\<close>

lemma expire_loop_effect:
  assumes "ledger_ok s" and "distinct (map fst recs)" and "\<forall>(u, n)\<in>set recs. n \<le> user_sum EARN u s"
  shows "fst (expire_loop now recs i t s) =
      (i + length recs, t + sum_list (map (\<lambda>(u, n). points_to_remove n u s) recs))
    \<and> (\<forall>v. balance v (snd (expire_loop now recs i t s)) =
        balance v s - (case map_of recs v of None \<Rightarrow> 0 | Some n \<Rightarrow> points_to_remove n v s))"
  using assms
proof (induction recs arbitrary: i t s)
  case Nil
  then show ?case by simp
next
  case (Cons rec recs)
  obtain u n where rec: "rec = (u, n)" by (cases rec)
  define k where "k = points_to_remove n u s"
  define s1 where "s1 = snd (expire_user now u n s)"
  note [simp] = rec
  have n: "n \<le> user_sum EARN u s" using Cons.prems by simp
  note eff = expire_user_effect [OF Cons.prems(1) n, of now, folded k_def]
  have step: "expire_user now u n s = (k, s1)" using eff(1) by (simp add: s1_def)
  have ok1: "ledger_ok s1" unfolding s1_def by (rule expire_user_ledger_ok [OF Cons.prems(1)])
  have earn1: "user_sum EARN v s1 = user_sum EARN v s" for v using eff(1) by (simp add: s1_def)
  have bal1: "balance v s1 = balance v s - (if v = u then k else 0)" for v
    using eff balance_post [OF eff(2), of v] by (auto simp: s1_def)
  have rem1: "points_to_remove m v s1 = points_to_remove m v s" if "v \<noteq> u" for m v
    using eff(1) that by (simp add: s1_def points_to_remove_post_other)
  have fresh: "u \<notin> fst ` set recs" using Cons.prems(2) by simp
  have sums: "map (\<lambda>(u, n). points_to_remove n u s1) recs = map (\<lambda>(u, n). points_to_remove n u s) recs"
    using fresh by (force intro!: map_cong rem1)
  have mo: "map_of recs u = None" using fresh by (simp add: map_of_eq_None_iff)
  have "distinct (map fst recs)" "\<forall>(u, n)\<in>set recs. n \<le> user_sum EARN u s1"
    using Cons.prems earn1 by auto
  note IH = Cons.IH [OF ok1 this, of "Suc i" "t + k"]
  have "expire_loop now (rec # recs) i t s = expire_loop now recs (Suc i) (t + k) s1"
    by (simp add: step)
  moreover have "(case map_of recs v of None \<Rightarrow> 0 | Some n \<Rightarrow> points_to_remove n v s1) =
      (case map_of recs v of None \<Rightarrow> 0 | Some n \<Rightarrow> points_to_remove n v s)" for v
    using mo rem1 by (cases "v = u") (auto split: option.splits)
  ultimately show ?case using IH bal1 mo by (auto simp: sums k_def add.assoc)
qed

lemma expired_groups_bound:
  assumes "ledger_ok s"
  shows "\<forall>(u, n)\<in>set (expired_groups now s). n \<le> user_sum EARN u s"
proof -
  have "0 \<le> ph_amount h" if "h \<in> set (pointHistory s)" "ph_type h = EARN" for h
    using assms that by (auto simp: ledger_ok_def list_all_iff sign_ok_def split: point_type.splits)
  then have "sum_where (\<lambda>h. ph_userId h = u \<and> expired_earn now h) ph_amount (pointHistory s) \<le> user_sum EARN u s"
    for u unfolding user_sum_def by (intro sum_where_mono) (auto simp: expired_earn_def)
  then show ?thesis by (auto simp: expired_groups_def)
qed

lemma expired_groups_distinct: "distinct (map fst (expired_groups now s))"
  by (simp add: expired_groups_def o_def)

definition expired_sum :: "date \<Rightarrow> string \<Rightarrow> 'a loyalty_db_scheme \<Rightarrow> int" where
  "expired_sum now u s = sum_where (\<lambda>h. ph_userId h = u \<and> expired_earn now h) ph_amount (pointHistory s)"

lemma expired_sum_absent:
  "v \<notin> fst ` set (expired_groups now s) \<Longrightarrow> expired_sum now v s = 0"
  unfolding expired_sum_def by (rule sum_where_none) (force simp: expired_groups_def)

lemma map_of_expired_groups:
  "map_of (expired_groups now s) v =
     (if v \<in> fst ` set (expired_groups now s) then Some (expired_sum now v s) else None)"
  by (auto simp: expired_groups_def map_of_map_restrict expired_sum_def restrict_map_def image_iff)

lemma points_to_remove_0 [simp]: "points_to_remove 0 u s = 0"
  by (simp add: points_to_remove_def)

lemma processExpiries_balance:
  assumes "ledger_ok s"
  shows "balance v (snd (processExpiries now s)) = balance v s - points_to_remove (expired_sum now v s) v s"
  using expire_loop_effect [OF assms expired_groups_distinct expired_groups_bound [OF assms, of now],
      of now 0 0]
  by (simp add: processExpiries_def map_of_expired_groups expired_sum_absent)

text \<open>The rows the run adds are expiries: earnings and what is due are as before.\<close>

lemma expire_user_history:
  "\<exists>hs. pointHistory (snd (expire_user now u n s)) = pointHistory s @ hs
     \<and> (\<forall>h\<in>set hs. ph_type h = EXPIRE)"
proof (cases rule: expire_user_cases [of now u n s])
  case (posted p k)
  then show ?thesis by auto
qed simp

lemma expire_loop_history:
  "\<exists>hs. pointHistory (snd (expire_loop now recs i t s)) = pointHistory s @ hs
     \<and> (\<forall>h\<in>set hs. ph_type h = EXPIRE)"
proof (induction recs arbitrary: i t s)
  case (Cons rec recs)
  obtain u n where rec: "rec = (u, n)" by (cases rec)
  obtain k s1 where e: "expire_user now u n s = (k, s1)" by (cases "expire_user now u n s")
  obtain hs where hs: "pointHistory s1 = pointHistory s @ hs" "\<forall>h\<in>set hs. ph_type h = EXPIRE"
    using expire_user_history [of now u n s] e by auto
  obtain hs' where "pointHistory (snd (expire_loop now recs (Suc i) (t + k) s1)) = pointHistory s1 @ hs'"
    "\<forall>h\<in>set hs'. ph_type h = EXPIRE" using Cons.IH by blast
  then show ?case using hs by (auto simp: rec e)
qed simp

lemma processExpiries_history:
  obtains hs where "pointHistory (snd (processExpiries now s)) = pointHistory s @ hs"
    "\<forall>h\<in>set hs. ph_type h = EXPIRE"
  using expire_loop_history [of now "expired_groups now s" 0 0 s] by (auto simp: processExpiries_def)

lemma processExpiries_ledger_ok: "ledger_ok s \<Longrightarrow> ledger_ok (snd (processExpiries now s))"
  by (simp add: processExpiries_def expire_loop_ledger_ok)

lemma processExpiries_sums:
  "user_sum EARN u (snd (processExpiries now s)) = user_sum EARN u s"
  "user_sum REDEEM u (snd (processExpiries now s)) = user_sum REDEEM u s"
  "expired_sum d u (snd (processExpiries now s)) = expired_sum d u s"
  "expired_groups d (snd (processExpiries now s)) = expired_groups d s"
proof -
  obtain hs where hs: "pointHistory (snd (processExpiries now s)) = pointHistory s @ hs"
    "\<forall>h\<in>set hs. ph_type h = EXPIRE" by (rule processExpiries_history)
  have no: "sum_where P ph_amount hs = 0" if "\<And>h. ph_type h = EXPIRE \<Longrightarrow> \<not> P h" for P
    using hs(2) that by (intro sum_where_none) auto
  have "filter (expired_earn d) hs = []" using hs(2) by (auto simp: filter_empty_conv expired_earn_def)
  then show "user_sum EARN u (snd (processExpiries now s)) = user_sum EARN u s"
    "user_sum REDEEM u (snd (processExpiries now s)) = user_sum REDEEM u s"
    "expired_sum d u (snd (processExpiries now s)) = expired_sum d u s"
    "expired_groups d (snd (processExpiries now s)) = expired_groups d s"
    by (simp_all add: user_sum_def expired_sum_def expired_groups_def hs(1) no expired_earn_def)
qed

text \<open>After a run nothing is left to remove at the same instant.\<close>

lemma nothing_left:
  assumes "ledger_ok s"
  shows "points_to_remove (expired_sum now u s) u (snd (processExpiries now s)) = 0"
proof -
  let ?t = "snd (processExpiries now s)"
  have ok: "ledger_ok ?t" by (rule processExpiries_ledger_ok [OF assms])
  have "user_sum EXPIRE u ?t = user_sum EXPIRE u s - points_to_remove (expired_sum now u s) u s"
    using balance_types [OF ok, of u] balance_types [OF assms, of u] processExpiries_balance [OF assms, of u now]
    by (simp add: processExpiries_sums)
  then show ?thesis
    using ledger_signs [OF assms, of u] ledger_signs [OF ok, of u]
    by (simp add: points_to_remove_def processExpiries_sums)
qed

lemma expire_loop_idle:
  "\<forall>(u, n)\<in>set recs. points_to_remove n u s = 0 \<Longrightarrow> expire_loop now recs i t s = ((i + length recs, t), s)"
  by (induction recs arbitrary: i) (auto simp: expire_user_def)

text \<open>
  \<open>processExpiries\<close> keeps the books in order, takes from every user exactly the
  expired earnings that were not spent or expired before (the safety net of the source never
  changes this), and reports the number of users with expired earnings and the total taken.
\<close>

theorem processExpiries_exact:
  assumes "ledger_ok s"
  shows "ledger_ok (snd (processExpiries now s))
    \<and> (\<forall>v. balance v (snd (processExpiries now s)) =
          balance v s - max 0 (expired_sum now v s + user_sum REDEEM v s + user_sum EXPIRE v s))
    \<and> fst (processExpiries now s) = (length (expired_groups now s),
          sum_list (map (\<lambda>(u, n). points_to_remove n u s) (expired_groups now s)))"
proof -
  have "points_to_remove n v s = max 0 (n + user_sum REDEEM v s + user_sum EXPIRE v s)" for n v
    using ledger_signs [OF assms, of v] by (simp add: points_to_remove_def)
  moreover have "fst (processExpiries now s) = (length (expired_groups now s),
          sum_list (map (\<lambda>(u, n). points_to_remove n u s) (expired_groups now s)))"
    using expire_loop_effect [OF assms expired_groups_distinct expired_groups_bound [OF assms, of now],
        of now 0 0] by (simp add: processExpiries_def)
  ultimately show ?thesis
    using processExpiries_balance [OF assms] processExpiries_ledger_ok [OF assms] by simp
qed

theorem processExpiries_exact_witness:
  "ledger_ok demo_db \<and> balance ''alice'' (snd (processExpiries demo_later demo_db)) =
     balance ''alice'' demo_db -
       max 0 (expired_sum demo_later ''alice'' demo_db + user_sum REDEEM ''alice'' demo_db
              + user_sum EXPIRE ''alice'' demo_db)
   \<and> fst (processExpiries demo_later demo_db) = (1, 5)"
proof -
  have "fst (processExpiries demo_later demo_db) = (1, 5)" by code_simp
  with processExpiries_exact [OF demo_db_ok, of demo_later] demo_db_ok show ?thesis by simp
qed

text \<open>
  Running \<open>processExpiries\<close> a second time at the same instant takes nothing and
  leaves the store as it is: a repeated cron run cannot expire the same points twice.
\<close>

theorem processExpiries_idempotent:
  assumes "ledger_ok s"
  shows "processExpiries now (snd (processExpiries now s)) =
     ((length (expired_groups now s), 0), snd (processExpiries now s))"
proof -
  let ?t = "snd (processExpiries now s)"
  have "points_to_remove n u ?t = 0" if "(u, n) \<in> set (expired_groups now s)" for u n
  proof -
    from that have "n = expired_sum now u s" by (auto simp: expired_groups_def expired_sum_def)
    then show ?thesis using nothing_left [OF assms] by simp
  qed
  then show ?thesis
    by (simp add: processExpiries_def [of now ?t] processExpiries_sums expire_loop_idle case_prod_unfold)
qed

theorem processExpiries_idempotent_witness:
  "processExpiries demo_later (snd (processExpiries demo_later demo_db)) =
     ((length (expired_groups demo_later demo_db), 0), snd (processExpiries demo_later demo_db))"
  by (rule processExpiries_idempotent [OF demo_db_ok])

subsection \<open>The FIFO specification\<close>

text \<open>
  The comment in \<open>processExpiries\<close> assumes that redemptions consume the oldest points first. The
  specification keeps the lots apart: \<open>fifo_consume k lots\<close> takes \<open>k\<close> points from the front.
\<close>

fun fifo_consume :: "int \<Rightarrow> int list \<Rightarrow> int list" where
  "fifo_consume k [] = []"
| "fifo_consume k (x # xs) = (if x \<le> k then 0 # fifo_consume (k - x) xs else (x - k) # xs)"

definition earn_lots :: "string \<Rightarrow> 'a loyalty_db_scheme \<Rightarrow> point_history list" where
  "earn_lots u s = filter (\<lambda>h. ph_userId h = u \<and> ph_type h = EARN) (pointHistory s)"

text \<open>What is left, after \<open>k\<close> points were consumed first in first out, in the expired lots.\<close>

definition fifo_expired :: "date \<Rightarrow> int \<Rightarrow> point_history list \<Rightarrow> int" where
  "fifo_expired now k rows =
     sum_list (map fst (filter (\<lambda>(_, h). expired_earn now h) (zip (fifo_consume k (map ph_amount rows)) rows)))"

text \<open>The lots expire in the order they were earned.\<close>

definition expires_in_order :: "point_history list \<Rightarrow> bool" where
  "expires_in_order rows \<longleftrightarrow>
     list_all (\<lambda>h. ph_type h = EARN \<and> ph_expiresAt h \<noteq> None) rows
     \<and> sorted_wrt (\<lambda>g h. time_value (the (ph_expiresAt g)) \<le> time_value (the (ph_expiresAt h))) rows"

lemma fifo_consume_length [simp]: "length (fifo_consume k xs) = length xs"
  by (induction k xs rule: fifo_consume.induct) auto

lemma fifo_expired_closed:
  assumes "0 \<le> k" and "\<forall>h\<in>set rows. 0 < ph_amount h" and "expires_in_order rows"
  shows "fifo_expired now k rows = max 0 (sum_where (expired_earn now) ph_amount rows - k)"
  using assms
proof (induction rows arbitrary: k)
  case Nil
  then show ?case by (simp add: fifo_expired_def)
next
  case (Cons h rows)
  have pos: "0 \<le> sum_where (expired_earn now) ph_amount rows"
    using Cons.prems(2) by (intro sum_where_nonneg) force
  have order: "expires_in_order rows" using Cons.prems(3) by (simp add: expires_in_order_def)
  show ?case
  proof (cases "expired_earn now h")
    case False
    have no: "\<not> expired_earn now g" if "g \<in> set rows" for g
      using False Cons.prems(3) that by (fastforce simp: expires_in_order_def expired_earn_def list_all_iff)
    then have "filter (\<lambda>(_, g). expired_earn now g) (zip xs rows) = []" for xs :: "int list"
      by (auto simp: filter_empty_conv dest: set_zip_rightD)
    with no show ?thesis using False Cons.prems(1) by (simp add: fifo_expired_def sum_where_none)
  next
    case True
    show ?thesis
    proof (cases "ph_amount h \<le> k")
      case True
      with Cons.IH [of "k - ph_amount h"] Cons.prems(2) order \<open>expired_earn now h\<close>
      show ?thesis by (simp add: fifo_expired_def algebra_simps)
    next
      case False
      have "sum_list (map fst (filter (\<lambda>(_, g). expired_earn now g) (zip (map ph_amount rows) rows)))
          = sum_where (expired_earn now) ph_amount rows"
        by (induction rows) auto
      with False True pos show ?thesis by (simp add: fifo_expired_def)
    qed
  qed
qed

lemma expired_sum_lots: "expired_sum now u s = sum_where (expired_earn now) ph_amount (earn_lots u s)"
  by (auto simp: expired_sum_def earn_lots_def sum_where_def expired_earn_def intro!: arg_cong [where f = "\<lambda>l. sum_list (map ph_amount l)"] filter_cong)

text \<open>
  Property C10. The aggregate arithmetic of \<open>processExpiries\<close> implements first-in-first-out
  consumption: when a user's lots expire in the order they were earned, the points a run takes are
  what the lot-by-lot specification leaves in the expired lots after all earlier redemptions and
  expiries were consumed oldest first.
\<close>

theorem processExpiries_implements_fifo:
  assumes "ledger_ok s" and "expires_in_order (earn_lots u s)"
  shows "balance u (snd (processExpiries now s)) =
     balance u s - fifo_expired now (- user_sum REDEEM u s - user_sum EXPIRE u s) (earn_lots u s)"
proof -
  have "\<forall>h\<in>set (earn_lots u s). 0 < ph_amount h"
    using assms(1) by (auto simp: earn_lots_def ledger_ok_def list_all_iff sign_ok_def split: point_type.splits)
  then have "fifo_expired now (- user_sum REDEEM u s - user_sum EXPIRE u s) (earn_lots u s)
      = points_to_remove (expired_sum now u s) u s"
    using ledger_signs [OF assms(1), of u] assms(2)
    by (simp add: fifo_expired_closed expired_sum_lots points_to_remove_def)
  then show ?thesis by (simp add: processExpiries_balance [OF assms(1)])
qed

theorem processExpiries_implements_fifo_witness:
  "expires_in_order (earn_lots ''alice'' demo_db)
   \<and> balance ''alice'' (snd (processExpiries demo_later demo_db)) =
     balance ''alice'' demo_db -
       fifo_expired demo_later (- user_sum REDEEM ''alice'' demo_db - user_sum EXPIRE ''alice'' demo_db)
         (earn_lots ''alice'' demo_db)"
proof -
  have h: "expires_in_order (earn_lots ''alice'' demo_db)" by code_simp
  show ?thesis using h processExpiries_implements_fifo [OF demo_db_ok h] by simp
qed

subsection \<open>The expiry date\<close>

lemma expiry_date_index:
  "valid_date now \<Longrightarrow>
   time_value (expiry_date now) = (month_start (month_index now + 13) - 1) * msPerDay + MakeTime 23 59 59"
  by (simp add: expiry_date_def end_of_month_index valid_date_def month_index_def algebra_simps)

text \<open>
  Points live for a year and at most the rest of the month: the expiry instant is
  more than 365 days less one second and at most 396 days after the earning plus the last second
  of the day, for every valid calendar date, leap days included. Later earnings never expire
  earlier, which is the order the expiry run relies on.
\<close>

theorem expiry_date_window:
  assumes "valid_date now" and "valid_date before" and "time_value before \<le> time_value now"
  shows "time_value now + 365 * msPerDay - 1000 < time_value (expiry_date now)
    \<and> time_value (expiry_date now) < time_value now + 397 * msPerDay
    \<and> time_value (expiry_date before) \<le> time_value (expiry_date now)"
proof -
  let ?m = "d_month now" and ?y = "d_year now"
  have m: "0 \<le> ?m" "?m \<le> 11" and day: "1 \<le> d_day now" "d_day now \<le> month_days ?y ?m"
    and ms: "0 \<le> d_ms now" "d_ms now < msPerDay" using assms(1) by (auto simp: valid_date_def)
  let ?a = "month_start (month_index now)" and ?b = "month_start (month_index now + 13)"
  have tv: "time_value now = (?a + d_day now - 1) * msPerDay + d_ms now"
    by (simp add: time_value_def MakeDay_month_start [OF m] month_index_def)
  have e: "12 * (?y + 1) + ?m + 1 = month_index now + 13" "12 * ?y + ?m = month_index now"
    by (simp_all add: month_index_def)
  have "364 + month_days ?y ?m \<le> ?b - 1 - ?a" "?b - 1 - ?a \<le> 396"
    using thirteen_months [OF m, of ?y] by (simp_all only: e)
  then have "365 \<le> ?b - ?a - d_day now" "?b - ?a - d_day now \<le> 396" using day by linarith+
  moreover have "time_value (expiry_date now) - time_value now
      = (?b - ?a - d_day now) * msPerDay + (MakeTime 23 59 59 - d_ms now)"
    by (simp add: expiry_date_index [OF assms(1)] tv algebra_simps)
  moreover have "- 1000 < MakeTime 23 59 59 - d_ms now" "MakeTime 23 59 59 - d_ms now < msPerDay"
    using ms by (simp_all add: MakeTime_def msPerDay_def)
  moreover have "month_start (month_index before + 13) \<le> ?b"
    using month_index_mono [OF assms(2,1,3)] by (intro month_start_mono) simp
  ultimately show ?thesis
    by (simp add: expiry_date_index [OF assms(1)] expiry_date_index [OF assms(2)] msPerDay_def)
qed

theorem expiry_date_window_witness:
  "valid_date \<lparr>d_year = 2024, d_month = 1, d_day = 29, d_ms = 86399999\<rparr>
   \<and> time_value \<lparr>d_year = 2024, d_month = 1, d_day = 29, d_ms = 86399999\<rparr> + 365 * msPerDay - 1000
      < time_value (expiry_date \<lparr>d_year = 2024, d_month = 1, d_day = 29, d_ms = 86399999\<rparr>)"
proof -
  have v: "valid_date \<lparr>d_year = 2024, d_month = 1, d_day = 29, d_ms = 86399999\<rparr>" by code_simp
  show ?thesis using v expiry_date_window [OF v v] by simp
qed

subsection \<open>Statistics\<close>

lemma sum_by_user:
  "distinct us \<Longrightarrow>
   sum_list (map (\<lambda>u. sum_where (\<lambda>h. ph_userId h = u \<and> P h) f hs) us) =
     sum_where (\<lambda>h. ph_userId h \<in> set us \<and> P h) f hs"
proof (induction us)
  case (Cons u us)
  have "sum_where (\<lambda>h. ph_userId h = u \<and> P h) f hs + sum_where (\<lambda>h. ph_userId h \<in> set us \<and> P h) f hs
      = sum_where (\<lambda>h. ph_userId h \<in> set (u # us) \<and> P h) f hs"
    using Cons.prems by (induction hs) auto
  with Cons show ?case by simp
qed simp

lemma ledger_ok_row:
  assumes "ledger_ok s" and "p \<in> set (userPoint s)"
  shows "up_balance p = ledger_sum (up_userId p) s" "up_lifetimePoints p = user_sum EARN (up_userId p) s"
proof -
  have "find_point (up_userId p) s = Some p"
  proof -
    have "\<exists>q. find_point (up_userId p) s = Some q"
      using assms(2) by (cases "find_point (up_userId p) s") (auto simp: find_point_def find_None_iff)
    then obtain q where q: "find_point (up_userId p) s = Some q" ..
    then have "q \<in> set (userPoint s)" "up_userId q = up_userId p"
      using find_SomeD by (auto simp: find_point_def dest: find_SomeD)
    then have "q = p"
      using assms by (auto simp: ledger_ok_def distinct_map inj_on_def)
    with q show ?thesis by simp
  qed
  then show "up_balance p = ledger_sum (up_userId p) s" "up_lifetimePoints p = user_sum EARN (up_userId p) s"
    using ledger_ok_account [OF assms(1)] by auto
qed

lemma ledger_user_known:
  assumes "ledger_ok s" and "h \<in> set (pointHistory s)"
  shows "ph_userId h \<in> set (map up_userId (userPoint s))"
proof (rule ccontr)
  assume "ph_userId h \<notin> set (map up_userId (userPoint s))"
  then have "find_point (ph_userId h) s = None" by (force simp: find_point_def find_None_iff)
  then show False using ledger_ok_no_account [OF assms(1) _ assms(2)] by blast
qed

text \<open>
  The admin statistics reconcile: the points in circulation are the lifetime
  points less the redeemed and the expired ones.
\<close>

theorem stats_reconcile:
  assumes "ledger_ok s"
  shows "st_totalActivePoints (getLoyaltyStats s) =
     st_totalLifetimePoints (getLoyaltyStats s) - st_totalRedeemedPoints (getLoyaltyStats s)
       - st_totalExpiredPoints (getLoyaltyStats s)"
proof -
  let ?hs = "pointHistory s" and ?us = "map up_userId (userPoint s)"
  have dist: "distinct ?us" using assms by (simp add: ledger_ok_def)
  have known: "sum_where (\<lambda>h. ph_userId h \<in> set ?us \<and> P h) ph_amount ?hs = sum_where P ph_amount ?hs" for P
    using ledger_user_known [OF assms] by (intro sum_where_cong) auto
  have bal: "map up_balance (userPoint s) = map (\<lambda>u. ledger_sum u s) ?us"
    and life: "map up_lifetimePoints (userPoint s) = map (\<lambda>u. user_sum EARN u s) ?us"
    using ledger_ok_row [OF assms] by simp_all
  have "sum_list (map up_balance (userPoint s)) = sum_where (\<lambda>h. True) ph_amount ?hs"
    unfolding bal using sum_by_user [OF dist, of "\<lambda>h. True" ph_amount ?hs] known [of "\<lambda>h. True"]
    by (simp add: ledger_sum_def)
  moreover have "sum_list (map up_lifetimePoints (userPoint s)) = sum_where (\<lambda>h. ph_type h = EARN) ph_amount ?hs"
    unfolding life using sum_by_user [OF dist, of "\<lambda>h. ph_type h = EARN" ph_amount ?hs]
      known [of "\<lambda>h. ph_type h = EARN"] by (simp add: user_sum_def)
  moreover have sg: "sign_ok h" if "h \<in> set ?hs" for h
    using assms that by (auto simp: ledger_ok_def list_all_iff)
  have "sum_where (\<lambda>h. ph_type h = REDEEM) ph_amount ?hs \<le> 0" "sum_where (\<lambda>h. ph_type h = EXPIRE) ph_amount ?hs \<le> 0"
    "sum_where (\<lambda>h. ph_type h = ADJUSTMENT) ph_amount ?hs = 0"
    using sg by (force intro!: sum_where_nonpos sum_where_none simp: sign_ok_def)+
  ultimately show ?thesis
    using sum_where_types [of "\<lambda>h. True" ?hs] by (simp add: getLoyaltyStats_def)
qed

theorem stats_reconcile_witness:
  "st_totalActivePoints (getLoyaltyStats demo_db) =
     st_totalLifetimePoints (getLoyaltyStats demo_db) - st_totalRedeemedPoints (getLoyaltyStats demo_db)
       - st_totalExpiredPoints (getLoyaltyStats demo_db)"
  by (rule stats_reconcile [OF demo_db_ok])

subsection \<open>The expiry schedule\<close>

lemma add_period_keys: "set (map fst (add_period p n acc)) = insert p (set (map fst acc))"
  by (induction p n acc rule: add_period.induct) auto

lemma add_period_distinct: "distinct (map fst acc) \<Longrightarrow> distinct (map fst (add_period p n acc))"
proof (induction acc)
  case (Cons a acc)
  then show ?case using add_period_keys [of p n acc] by (cases a) auto
qed simp

lemma add_period_total: "sum_list (map snd (add_period p n acc)) = n + sum_list (map snd acc)"
  by (induction acc) auto

lemma schedule_fold:
  assumes "distinct (map fst acc)" and "\<forall>h\<in>set hs. ph_expiresAt h \<noteq> None"
  shows "distinct (map fst (foldl schedule_step acc hs))
    \<and> sum_list (map snd (foldl schedule_step acc hs)) = sum_list (map snd acc) + sum_list (map ph_amount hs)"
  using assms
proof (induction hs arbitrary: acc)
  case (Cons h hs)
  from Cons.prems(2) obtain d where d: "ph_expiresAt h = Some d" by auto
  let ?acc = "add_period (period_of d) (ph_amount h) acc"
  have "distinct (map fst ?acc)" by (rule add_period_distinct [OF Cons.prems(1)])
  moreover have "schedule_step acc h = ?acc" by (simp add: schedule_step_def d)
  moreover have "\<forall>h\<in>set hs. ph_expiresAt h \<noteq> None" using Cons.prems(2) by simp
  ultimately show ?case using Cons.IH [of ?acc] by (simp add: add_period_total)
qed auto

text \<open>
  \<open>getExpirySchedule\<close> lists every period once, in calendar order, and its amounts
  add up to all points that are still to expire.
\<close>

theorem getExpirySchedule_complete:
  "sorted (map (\<lambda>((m, y), _). y * 100 + m) (getExpirySchedule now s))
   \<and> distinct (map fst (getExpirySchedule now s))
   \<and> sum_list (map snd (getExpirySchedule now s)) = sum_where (expiring now) ph_amount (pointHistory s)"
proof -
  let ?hs = "filter (expiring now) (pointHistory s)" and ?l = "foldl schedule_step [] (filter (expiring now) (pointHistory s))"
  have e: "\<forall>h\<in>set ?hs. ph_expiresAt h \<noteq> None" by (auto simp: expiring_def split: option.splits)
  have perm: "mset (getExpirySchedule now s) = mset ?l" by (simp add: getExpirySchedule_def)
  have "mset (map fst (getExpirySchedule now s)) = mset (map fst ?l)" using perm by simp
  then have "distinct (map fst (getExpirySchedule now s))"
    using schedule_fold [OF _ e, of "[]"] mset_eq_imp_distinct_iff by (metis distinct.simps(1) list.simps(8))
  moreover have "sum_list (map snd (getExpirySchedule now s)) = sum_list (map snd ?l)"
    using perm by (metis mset_map sum_mset_sum_list)
  moreover have "sum_list (map snd ?l) = sum_where (expiring now) ph_amount (pointHistory s)"
    using schedule_fold [OF _ e, of "[]"] by (simp add: sum_where_def)
  ultimately show ?thesis by (simp add: getExpirySchedule_def)
qed

subsection \<open>The lock on earning rules\<close>

text \<open>
  A locked earning rule is changed by \<open>updateRule\<close> only if the same request unlocks
  it; every refused update leaves the store as it was.
\<close>

theorem updateRule_lock:
  "snd (updateRule ev data admin s) \<noteq> s \<Longrightarrow>
     \<exists>rule. find (\<lambda>r. lr_eventType r = ev) (loyaltyRule s) = Some rule
       \<and> (lr_isLocked rule \<longrightarrow> ru_isLocked data = Some False)"
  by (auto simp: updateRule_def split: option.splits if_splits)

definition demo_unlock :: rule_update where
  "demo_unlock = \<lparr>ru_pointsPerThb = Some (Fin 3), ru_minAmount = None, ru_maxPoints = None,
     ru_isActive = None, ru_isLocked = Some False, ru_description = None\<rparr>"

theorem updateRule_lock_witness:
  "snd (updateRule ''TOPUP'' demo_unlock ''admin'' demo_empty) \<noteq> demo_empty
   \<and> (\<exists>rule. find (\<lambda>r. lr_eventType r = ''TOPUP'') (loyaltyRule demo_empty) = Some rule
       \<and> (lr_isLocked rule \<longrightarrow> ru_isLocked demo_unlock = Some False))"
proof -
  have h: "snd (updateRule ''TOPUP'' demo_unlock ''admin'' demo_empty) \<noteq> demo_empty"
    by (simp add: updateRule_def demo_unlock_def demo_empty_def demo_rule_def apply_rule_update_def or_keep_def)
  show ?thesis using h updateRule_lock [OF h] by simp
qed

text \<open>
  The request that unlocks a rule may change everything else in the rule as well,
  although the comment in the source allows only the unlocking.
\<close>

theorem updateRule_unlock_changes_rate:
  "\<exists>rule'. fst (updateRule ''TOPUP'' demo_unlock ''admin'' demo_empty) = Inr rule'
     \<and> lr_isLocked demo_rule \<and> lr_pointsPerThb demo_rule = Fin 2 \<and> lr_pointsPerThb rule' = Fin 3"
  by (simp add: updateRule_def demo_unlock_def demo_empty_def demo_rule_def apply_rule_update_def or_keep_def)

end
