(* ===== verification/Deals.thy ===== *)
theory Deals
  imports Loyalty
begin

text \<open>
  The deal service (\<open>modules/deals/deal.service.ts\<close>): the catalogue of deals, brands and
  categories, the redemption of a deal for points, and the use of a redemption. The store extends
  the loyalty store, because a redemption debits the point ledger.
\<close>

section \<open>Data\<close>

datatype redemption_status = REDEEMED | USED | EXPIRED | CANCELLED

record deal =
  dl_id :: string
  dl_title :: string
  dl_description :: string
  dl_brandId :: string
  dl_categoryId :: string
  dl_pointsRequired :: int
  dl_imageUrl :: string
  dl_stock :: int
  dl_remainingStock :: int
  dl_limitPerUser :: int
  dl_priority :: int
  dl_isActive :: bool
  dl_startDate :: "date option"
  dl_endDate :: "date option"
  dl_termsCondition :: "string option"
  dl_createdAt :: date

record redemption =
  rd_id :: string
  rd_dealId :: string
  rd_userId :: string
  rd_pointsSpent :: int
  rd_redemptionCode :: string
  rd_status :: redemption_status
  rd_expiresAt :: "date option"
  rd_usedAt :: "date option"
  rd_usedAtMerchantId :: "string option"
  rd_createdAt :: date

record brand =
  br_id :: string
  br_name :: string
  br_logoUrl :: "string option"
  br_description :: "string option"
  br_website :: "string option"

record category =
  ct_id :: string
  ct_name :: string
  ct_description :: "string option"
  ct_iconUrl :: "string option"
  ct_order :: int

record deals_db = loyalty_db +
  deals :: "deal list"
  redemptions :: "redemption list"
  brands :: "brand list"
  categories :: "category list"

definition find_deal :: "string \<Rightarrow> 'a deals_db_scheme \<Rightarrow> deal option" where
  "find_deal i s = find (\<lambda>d. dl_id d = i) (deals s)"

definition find_redemption :: "string \<Rightarrow> 'a deals_db_scheme \<Rightarrow> redemption option" where
  "find_redemption i s = find (\<lambda>r. rd_id r = i) (redemptions s)"

section \<open>Reading the catalogue\<close>

definition getCategories :: "'a deals_db_scheme \<Rightarrow> category list" where
  "getCategories s = sort_key ct_order (categories s)"

record deal_filter =
  df_categoryId :: "string option"
  df_brandId :: "string option"
  df_search :: "string option"

definition started :: "date \<Rightarrow> deal \<Rightarrow> bool" where
  "started now d = (case dl_startDate d of None \<Rightarrow> True | Some t \<Rightarrow> time_value t \<le> time_value now)"

definition not_ended :: "date \<Rightarrow> deal \<Rightarrow> bool" where
  "not_ended now d = (case dl_endDate d of None \<Rightarrow> True | Some t \<Rightarrow> time_value now \<le> time_value t)"

text \<open>A search term replaces the \<open>OR\<close> of the where clause, and with it the test of the start date.\<close>

definition deal_matches :: "date \<Rightarrow> deal_filter \<Rightarrow> deal \<Rightarrow> bool" where
  "deal_matches now f d \<longleftrightarrow> dl_isActive d \<and> not_ended now d
     \<and> (case df_categoryId f of None \<Rightarrow> True | Some c \<Rightarrow> c = [] \<or> dl_categoryId d = c)
     \<and> (case df_brandId f of None \<Rightarrow> True | Some b \<Rightarrow> b = [] \<or> dl_brandId d = b)
     \<and> (case df_search f of
          Some (c # q) \<Rightarrow> icontains (c # q) (dl_title d) \<or> icontains (c # q) (dl_description d)
        | _ \<Rightarrow> started now d)"

definition getDeals :: "date \<Rightarrow> deal_filter \<Rightarrow> 'a deals_db_scheme \<Rightarrow> deal list" where
  "getDeals now f s = sort_key (\<lambda>d. - dl_priority d) (filter (deal_matches now f) (deals s))"

definition getDealDetail :: "string \<Rightarrow> ('a deals_db_scheme, deal) handler" where
  "getDealDetail i s = (case find_deal i s of
      None \<Rightarrow> (Inl (Http NOT_FOUND ''Deal not found''), s) | Some d \<Rightarrow> (Inr d, s))"

section \<open>Redeeming a deal\<close>

definition charset :: string where
  "charset = ''ABCDEFGHJKLMNPQRSTUVWXYZ23456789''"

text \<open>\<open>charset.charAt(Math.floor(Math.random() * charset.length))\<close>: multiplying by 32 is exact.\<close>

definition random_char :: "rat \<Rightarrow> string" where
  "random_char r = (let i = \<lfloor>r * of_nat (length charset)\<rfloor>
     in if 0 \<le> i \<and> i < int (length charset) then [charset ! nat i] else [])"

definition redemption_code :: "(nat \<Rightarrow> rat) \<Rightarrow> string" where
  "redemption_code random = ''JL'' @ concat (map (\<lambda>i. random_char (random i)) [0..<10])"

text \<open>The points, the stock and the rows of one redemption, inside \<open>$transaction\<close>.\<close>

definition debit_points :: "string \<Rightarrow> int \<Rightarrow> 'a loyalty_db_scheme \<Rightarrow> nat \<times> 'a loyalty_db_scheme" where
  "debit_points userId pointsRequired s =
     (let c = (\<lambda>p. up_userId p = userId \<and> pointsRequired \<le> up_balance p)
      in (count_where c (userPoint s),
          s\<lparr>userPoint := update_where c (\<lambda>p. p\<lparr>up_balance := up_balance p - pointsRequired\<rparr>) (userPoint s)\<rparr>))"

definition take_stock :: "string \<Rightarrow> 'a deals_db_scheme \<Rightarrow> nat \<times> 'a deals_db_scheme" where
  "take_stock dealId s =
     (let c = (\<lambda>d. dl_id d = dealId \<and> 0 < dl_remainingStock d)
      in (count_where c (deals s),
          s\<lparr>deals := update_where c (\<lambda>d. d\<lparr>dl_remainingStock := dl_remainingStock d - 1\<rparr>) (deals s)\<rparr>))"

definition create_redemption ::
  "date \<Rightarrow> (nat \<Rightarrow> rat) \<Rightarrow> string \<Rightarrow> string \<Rightarrow> deal \<Rightarrow> ('a deals_db_scheme, redemption) handler" where
  "create_redemption now random newId userId d s =
     (let r = \<lparr>rd_id = newId, rd_dealId = dl_id d, rd_userId = userId, rd_pointsSpent = dl_pointsRequired d,
               rd_redemptionCode = redemption_code random, rd_status = REDEEMED,
               rd_expiresAt = (case dl_endDate d of Some e \<Rightarrow> Some e | None \<Rightarrow> Some (now\<lparr>d_day := d_day now + 30\<rparr>)),
               rd_usedAt = None, rd_usedAtMerchantId = None, rd_createdAt = now\<rparr>
      in if \<exists>q\<in>set (redemptions s). rd_id q = newId \<or> rd_redemptionCode q = rd_redemptionCode r
         then (Inl (Prisma ''P2002''), s)
         else (Inr r,
           s\<lparr>redemptions := redemptions s @ [r],
             pointHistory := pointHistory s @
               [\<lparr>ph_userId = userId, ph_amount = - dl_pointsRequired d, ph_type = REDEEM,
                 ph_description = ''Redeemed: '' @ dl_title d, ph_referenceId = Some newId,
                 ph_expiresAt = None, ph_createdAt = now\<rparr>]\<rparr>))"

definition user_redemptions :: "string \<Rightarrow> string \<Rightarrow> 'a deals_db_scheme \<Rightarrow> nat" where
  "user_redemptions userId dealId s =
     count_where (\<lambda>r. rd_userId r = userId \<and> rd_dealId r = dealId) (redemptions s)"

definition redeem_deal_tx ::
  "date \<Rightarrow> (nat \<Rightarrow> rat) \<Rightarrow> string \<Rightarrow> string \<Rightarrow> string \<Rightarrow> ('a deals_db_scheme, redemption) handler" where
  "redeem_deal_tx now random newId userId dealId s =
     (case find_deal dealId s of
        None \<Rightarrow> (Inl (Http BAD_REQUEST ''Deal is not available''), s)
      | Some d \<Rightarrow>
          if \<not> dl_isActive d then (Inl (Http BAD_REQUEST ''Deal is not available''), s)
          else if \<not> started now d then (Inl (Http BAD_REQUEST ''Deal has not started yet''), s)
          else if \<not> not_ended now d then (Inl (Http BAD_REQUEST ''Deal has expired''), s)
          else if dl_limitPerUser d \<le> int (user_redemptions userId dealId s)
          then (Inl (Http BAD_REQUEST ''You have reached the limit for this deal''), s)
          else case debit_points userId (dl_pointsRequired d) s of (pointCount, s1) \<Rightarrow>
            if pointCount = 0 then (Inl (Http BAD_REQUEST ''Insufficient points or account error''), s1)
            else if 0 < dl_stock d
            then case take_stock dealId s1 of (stockCount, s2) \<Rightarrow>
                   if stockCount = 0 then (Inl (Http BAD_REQUEST ''Deal is out of stock''), s2)
                   else create_redemption now random newId userId d s2
            else create_redemption now random newId userId d s1)"

definition redeemDeal ::
  "date \<Rightarrow> (nat \<Rightarrow> rat) \<Rightarrow> string \<Rightarrow> string \<Rightarrow> string \<Rightarrow> ('a deals_db_scheme, redemption) handler" where
  "redeemDeal now random newId userId dealId = transaction (redeem_deal_tx now random newId userId dealId)"

section \<open>Redemptions of a user\<close>

definition getMyRedemptions :: "string \<Rightarrow> 'a deals_db_scheme \<Rightarrow> redemption list" where
  "getMyRedemptions userId s = sort_key (\<lambda>r. - time_value (rd_createdAt r))
     (filter (\<lambda>r. rd_userId r = userId) (redemptions s))"

definition useRedemption :: "date \<Rightarrow> string \<Rightarrow> string \<Rightarrow> ('a deals_db_scheme, redemption) handler" where
  "useRedemption now userId redemptionId s =
     (case find_redemption redemptionId s of
        None \<Rightarrow> (Inl (Http NOT_FOUND ''Redemption not found''), s)
      | Some r \<Rightarrow>
          if rd_userId r \<noteq> userId then (Inl (Http NOT_FOUND ''Redemption not found''), s)
          else if rd_status r \<noteq> REDEEMED then (Inl (Http BAD_REQUEST ''Deal already used or expired''), s)
          else (Inr (r\<lparr>rd_status := USED, rd_usedAt := Some now\<rparr>),
                s\<lparr>redemptions := update_where (\<lambda>r. rd_id r = redemptionId)
                     (\<lambda>r. r\<lparr>rd_status := USED, rd_usedAt := Some now\<rparr>) (redemptions s)\<rparr>))"

definition getRedemptionDetail :: "string \<Rightarrow> string \<Rightarrow> ('a deals_db_scheme, redemption) handler" where
  "getRedemptionDetail userId redemptionId s =
     (case find_redemption redemptionId s of
        None \<Rightarrow> (Inl (Http NOT_FOUND ''Redemption not found''), s)
      | Some r \<Rightarrow> if rd_userId r \<noteq> userId then (Inl (Http NOT_FOUND ''Redemption not found''), s)
                 else (Inr r, s))"

section \<open>Brands and categories\<close>

definition getBrands :: "'a deals_db_scheme \<Rightarrow> brand list" where
  "getBrands s = sort_key br_name (brands s)"

definition createBrand ::
  "string \<Rightarrow> string \<Rightarrow> string option \<Rightarrow> string option \<Rightarrow> string option \<Rightarrow> ('a deals_db_scheme, brand) handler" where
  "createBrand newId name logoUrl description website s =
     (let b = \<lparr>br_id = newId, br_name = name, br_logoUrl = logoUrl, br_description = description, br_website = website\<rparr>
      in if \<exists>q\<in>set (brands s). br_id q = newId \<or> br_name q = name then (Inl (Prisma ''P2002''), s)
         else (Inr b, s\<lparr>brands := brands s @ [b]\<rparr>))"

definition createCategory ::
  "string \<Rightarrow> string \<Rightarrow> string option \<Rightarrow> string option \<Rightarrow> int option \<Rightarrow> ('a deals_db_scheme, category) handler" where
  "createCategory newId name description iconUrl order s =
     (let c = \<lparr>ct_id = newId, ct_name = name, ct_description = description, ct_iconUrl = iconUrl,
               ct_order = (case order of None \<Rightarrow> 0 | Some n \<Rightarrow> n)\<rparr>
      in if \<exists>q\<in>set (categories s). ct_id q = newId \<or> ct_name q = name then (Inl (Prisma ''P2002''), s)
         else (Inr c, s\<lparr>categories := categories s @ [c]\<rparr>))"

text \<open>The update DTOs require the name; the other fields are optional and keep their value when absent.\<close>

definition updateBrand ::
  "string \<Rightarrow> string \<Rightarrow> string option \<Rightarrow> string option \<Rightarrow> string option \<Rightarrow> ('a deals_db_scheme, brand) handler" where
  "updateBrand i name logoUrl description website s =
     (let f = (\<lambda>b. b\<lparr>br_name := name, br_logoUrl := keep_opt logoUrl (br_logoUrl b),
                     br_description := keep_opt description (br_description b),
                     br_website := keep_opt website (br_website b)\<rparr>)
      in case find (\<lambda>b. br_id b = i) (brands s) of
        None \<Rightarrow> (Inl (Prisma ''P2025''), s)
      | Some b \<Rightarrow>
          if \<exists>q\<in>set (brands s). br_id q \<noteq> i \<and> br_name q = name then (Inl (Prisma ''P2002''), s)
          else (Inr (f b), s\<lparr>brands := update_where (\<lambda>b. br_id b = i) f (brands s)\<rparr>))"

definition updateCategory ::
  "string \<Rightarrow> string \<Rightarrow> string option \<Rightarrow> string option \<Rightarrow> int option \<Rightarrow> ('a deals_db_scheme, category) handler" where
  "updateCategory i name description iconUrl order s =
     (let f = (\<lambda>c. c\<lparr>ct_name := name, ct_description := keep_opt description (ct_description c),
                     ct_iconUrl := keep_opt iconUrl (ct_iconUrl c), ct_order := or_keep order (ct_order c)\<rparr>)
      in case find (\<lambda>c. ct_id c = i) (categories s) of
        None \<Rightarrow> (Inl (Prisma ''P2025''), s)
      | Some c \<Rightarrow>
          if \<exists>q\<in>set (categories s). ct_id q \<noteq> i \<and> ct_name q = name then (Inl (Prisma ''P2002''), s)
          else (Inr (f c), s\<lparr>categories := update_where (\<lambda>c. ct_id c = i) f (categories s)\<rparr>))"

section \<open>Admin operations on deals\<close>

text \<open>
  The create and update DTO. Its dates are calendar days (year, month, day); the service appends
  \<open>T00:00:00\<close> or \<open>T23:59:59\<close>, local time.
\<close>

record deal_dto =
  dd_title :: string
  dd_description :: string
  dd_pointsRequired :: int
  dd_stock :: int
  dd_imageUrl :: "string option"
  dd_brandId :: string
  dd_categoryId :: string
  dd_priority :: "int option"
  dd_termsCondition :: "string option"
  dd_limitPerUser :: "int option"
  dd_isActive :: "bool option"
  dd_startDate :: "(int \<times> int \<times> int) option"
  dd_endDate :: "(int \<times> int \<times> int) option"

text \<open>The decorators of \<open>CreateDealDto\<close>, which the validation pipe enforces before the handlers run.\<close>

definition deal_dto_valid :: "deal_dto \<Rightarrow> bool" where
  "deal_dto_valid data \<longleftrightarrow>
       dd_title data \<noteq> [] \<and> length (dd_title data) \<le> 100
     \<and> dd_description data \<noteq> [] \<and> length (dd_description data) \<le> 500
     \<and> 0 \<le> dd_pointsRequired data \<and> 0 \<le> dd_stock data
     \<and> dd_brandId data \<noteq> [] \<and> dd_categoryId data \<noteq> []
     \<and> (case dd_termsCondition data of None \<Rightarrow> True | Some t \<Rightarrow> length t \<le> 2000)
     \<and> (case dd_limitPerUser data of None \<Rightarrow> True | Some n \<Rightarrow> 1 \<le> n)"

definition day_start :: "int \<times> int \<times> int \<Rightarrow> date" where
  "day_start = (\<lambda>(y, m, d). \<lparr>d_year = y, d_month = m, d_day = d, d_ms = 0\<rparr>)"

definition day_end :: "int \<times> int \<times> int \<Rightarrow> date" where
  "day_end = (\<lambda>(y, m, d). \<lparr>d_year = y, d_month = m, d_day = d, d_ms = MakeTime 23 59 59\<rparr>)"

definition has_brand :: "string \<Rightarrow> 'a deals_db_scheme \<Rightarrow> bool" where
  "has_brand i s \<longleftrightarrow> i \<in> set (map br_id (brands s))"

definition has_category :: "string \<Rightarrow> 'a deals_db_scheme \<Rightarrow> bool" where
  "has_category i s \<longleftrightarrow> i \<in> set (map ct_id (categories s))"

definition createDeal :: "date \<Rightarrow> string \<Rightarrow> deal_dto \<Rightarrow> ('a deals_db_scheme, deal) handler" where
  "createDeal now newId data s =
     (let d = \<lparr>dl_id = newId, dl_title = dd_title data, dl_description = dd_description data,
               dl_brandId = dd_brandId data, dl_categoryId = dd_categoryId data,
               dl_pointsRequired = dd_pointsRequired data, dl_imageUrl = or_keep (dd_imageUrl data) [],
               dl_stock = dd_stock data, dl_remainingStock = dd_stock data,
               dl_limitPerUser = or_keep (dd_limitPerUser data) 1, dl_priority = or_keep (dd_priority data) 0,
               dl_isActive = or_keep (dd_isActive data) True,
               dl_startDate = map_option day_start (dd_startDate data),
               dl_endDate = map_option day_end (dd_endDate data),
               dl_termsCondition = dd_termsCondition data, dl_createdAt = now\<rparr>
      in if \<not> (has_brand (dd_brandId data) s \<and> has_category (dd_categoryId data) s)
         then (Inl (Prisma ''P2025''), s)
         else if newId \<in> set (map dl_id (deals s)) then (Inl (Prisma ''P2002''), s)
         else (Inr d, s\<lparr>deals := deals s @ [d]\<rparr>))"

record admin_filter =
  af_categoryId :: "string option"
  af_brandId :: "string option"
  af_search :: "string option"
  af_isActive :: "bool option"
  af_page :: "nat option"
  af_limit :: "nat option"

definition admin_matches :: "admin_filter \<Rightarrow> deal \<Rightarrow> bool" where
  "admin_matches f d \<longleftrightarrow>
       (case af_categoryId f of None \<Rightarrow> True | Some c \<Rightarrow> c = [] \<or> dl_categoryId d = c)
     \<and> (case af_brandId f of None \<Rightarrow> True | Some b \<Rightarrow> b = [] \<or> dl_brandId d = b)
     \<and> (case af_isActive f of None \<Rightarrow> True | Some b \<Rightarrow> dl_isActive d = b)
     \<and> (case af_search f of None \<Rightarrow> True | Some q \<Rightarrow> q = [] \<or> icontains q (dl_title d))"

definition getDealsAdmin :: "admin_filter \<Rightarrow> 'a deals_db_scheme \<Rightarrow> deal list \<times> pagination" where
  "getDealsAdmin f s = paginate 10 (af_page f) (af_limit f)
     (sort_key (\<lambda>d. - time_value (dl_createdAt d)) (filter (admin_matches f) (deals s)))"

text \<open>
  The points of a deal are never updated; a missing date clears the date; a change of the stock
  moves the remaining stock by the same difference.
\<close>

definition apply_deal_update :: "deal_dto \<Rightarrow> deal \<Rightarrow> deal" where
  "apply_deal_update data d =
     d\<lparr>dl_title := dd_title data, dl_description := dd_description data,
       dl_stock := dd_stock data,
       dl_remainingStock := (if dd_stock data \<noteq> dl_stock d
          then dl_remainingStock d + (dd_stock data - dl_stock d) else dl_remainingStock d),
       dl_imageUrl := (case dd_imageUrl data of Some (c # u) \<Rightarrow> c # u | _ \<Rightarrow> dl_imageUrl d),
       dl_brandId := (if dd_brandId data = [] then dl_brandId d else dd_brandId data),
       dl_categoryId := (if dd_categoryId data = [] then dl_categoryId d else dd_categoryId data),
       dl_priority := or_keep (dd_priority data) (dl_priority d),
       dl_limitPerUser := or_keep (dd_limitPerUser data) (dl_limitPerUser d),
       dl_isActive := or_keep (dd_isActive data) (dl_isActive d),
       dl_startDate := map_option day_start (dd_startDate data),
       dl_endDate := map_option day_end (dd_endDate data),
       dl_termsCondition := keep_opt (dd_termsCondition data) (dl_termsCondition d)\<rparr>"

definition update_deal_tx :: "string \<Rightarrow> deal_dto \<Rightarrow> ('a deals_db_scheme, deal) handler" where
  "update_deal_tx i data s =
     (case find_deal i s of
        None \<Rightarrow> (Inl (Http NOT_FOUND ''Deal not found''), s)
      | Some d \<Rightarrow>
          if (dd_brandId data \<noteq> [] \<and> \<not> has_brand (dd_brandId data) s)
            \<or> (dd_categoryId data \<noteq> [] \<and> \<not> has_category (dd_categoryId data) s)
          then (Inl (Prisma ''P2025''), s)
          else (Inr (apply_deal_update data d),
                s\<lparr>deals := update_where (\<lambda>d. dl_id d = i) (apply_deal_update data) (deals s)\<rparr>))"

definition updateDeal :: "string \<Rightarrow> deal_dto \<Rightarrow> ('a deals_db_scheme, deal) handler" where
  "updateDeal i data = transaction (update_deal_tx i data)"

text \<open>A deal that was redeemed is referenced and cannot be deleted (\<open>P2003\<close>).\<close>

definition deleteDeal :: "string \<Rightarrow> ('a deals_db_scheme, deal) handler" where
  "deleteDeal i s =
     (case find_deal i s of
        None \<Rightarrow> (Inl (Prisma ''P2025''), s)
      | Some d \<Rightarrow>
          if \<exists>r\<in>set (redemptions s). rd_dealId r = i then (Inl (Prisma ''P2003''), s)
          else (Inr d, s\<lparr>deals := filter (\<lambda>d. dl_id d \<noteq> i) (deals s)\<rparr>))"

definition toggleDeal :: "string \<Rightarrow> ('a deals_db_scheme, deal) handler" where
  "toggleDeal i s =
     (case find_deal i s of
        None \<Rightarrow> (Inl (Http NOT_FOUND ''Deal not found''), s)
      | Some d \<Rightarrow> (Inr (d\<lparr>dl_isActive := \<not> dl_isActive d\<rparr>),
                  s\<lparr>deals := update_where (\<lambda>e. dl_id e = i) (\<lambda>e. e\<lparr>dl_isActive := \<not> dl_isActive d\<rparr>) (deals s)\<rparr>))"

text \<open>Users are rows of the identity schema: id, phone number and e-mail.\<close>

record user_row =
  ur_id :: string
  ur_phoneNumber :: string
  ur_email :: "string option"

record redemption_query =
  rq_page :: "nat option"
  rq_limit :: "nat option"
  rq_status :: "redemption_status option"
  rq_dealId :: "string option"
  rq_search :: "string option"

definition user_matches :: "string \<Rightarrow> user_row \<Rightarrow> bool" where
  "user_matches q u \<longleftrightarrow>
     (case ur_email u of None \<Rightarrow> False | Some e \<Rightarrow> icontains q e) \<or> icontains q (ur_phoneNumber u)"

definition redemption_matches ::
  "user_row list \<Rightarrow> redemption_query \<Rightarrow> 'a deals_db_scheme \<Rightarrow> redemption \<Rightarrow> bool" where
  "redemption_matches users q s r \<longleftrightarrow>
       (case rq_status q of None \<Rightarrow> True | Some st \<Rightarrow> rd_status r = st)
     \<and> (case rq_dealId q of None \<Rightarrow> True | Some d \<Rightarrow> d = [] \<or> rd_dealId r = d)
     \<and> (case rq_search q of
          Some (c # t) \<Rightarrow>
            rd_userId r \<in> set (map ur_id (filter (user_matches (c # t)) users))
            \<or> (case find_deal (rd_dealId r) s of None \<Rightarrow> False | Some d \<Rightarrow> icontains (c # t) (dl_title d))
            \<or> icontains (c # t) (rd_redemptionCode r)
        | _ \<Rightarrow> True)"

definition getAllRedemptions ::
  "user_row list \<Rightarrow> redemption_query \<Rightarrow> 'a deals_db_scheme \<Rightarrow> (redemption \<times> user_row option) list \<times> pagination" where
  "getAllRedemptions users q s =
     (case paginate 10 (rq_page q) (rq_limit q)
        (sort_key (\<lambda>r. - time_value (rd_createdAt r)) (filter (redemption_matches users q s) (redemptions s)))
      of (rows, pg) \<Rightarrow> (map (\<lambda>r. (r, find (\<lambda>u. ur_id u = rd_userId r) users)) rows, pg))"

section \<open>The effect of a redemption\<close>

text \<open>Well-formedness of the catalogue: one row per id, and prices that are not negative.\<close>

definition catalogue_ok :: "'a deals_db_scheme \<Rightarrow> bool" where
  "catalogue_ok s \<longleftrightarrow> distinct (map dl_id (deals s)) \<and> list_all (\<lambda>d. 0 \<le> dl_pointsRequired d) (deals s)
     \<and> distinct (map rd_id (redemptions s)) \<and> distinct (map rd_redemptionCode (redemptions s))"

definition deal_entry :: "date \<Rightarrow> string \<Rightarrow> string \<Rightarrow> deal \<Rightarrow> point_history" where
  "deal_entry now userId newId d =
     debit_entry REDEEM now userId (dl_pointsRequired d) (''Redeemed: '' @ dl_title d) (Some newId)"

definition use_stock :: "string \<Rightarrow> deal list \<Rightarrow> deal list" where
  "use_stock i = update_where (\<lambda>d. dl_id d = i) (\<lambda>d. d\<lparr>dl_remainingStock := dl_remainingStock d - 1\<rparr>)"

lemma debit_points_effect:
  assumes "ledger_ok s" and "debit_points u n s = (c, s1)" and "c \<noteq> 0"
  obtains p where "find_point u s = Some p" "n \<le> up_balance p"
    "s1 = s\<lparr>userPoint := update_where (\<lambda>r. up_userId r = u) (\<lambda>r. r\<lparr>up_balance := up_balance r - n\<rparr>) (userPoint s)\<rparr>"
proof -
  have dist: "distinct (map up_userId (userPoint s))" using assms(1) by (simp add: ledger_ok_def)
  have c: "c = count_where (\<lambda>p. up_userId p = u \<and> n \<le> up_balance p) (userPoint s)"
    using assms(2) by (simp add: debit_points_def Let_def)
  with assms(3) count_where_key [OF dist, of u "\<lambda>p. n \<le> up_balance p"]
  obtain p where p: "find (\<lambda>r. up_userId r = u) (userPoint s) = Some p" "n \<le> up_balance p"
    by (auto split: option.splits if_splits)
  from update_where_key [OF dist p(1), of "\<lambda>p. n \<le> up_balance p"] p(2) assms(2)
  show thesis by (intro that [of p]) (auto simp: find_point_def p(1) debit_points_def Let_def)
qed

lemma take_stock_effect:
  assumes "distinct (map dl_id (deals s))" and "take_stock i s = (c, s2)" and "c \<noteq> 0"
  obtains d where "find_deal i s = Some d" "0 < dl_remainingStock d" "s2 = s\<lparr>deals := use_stock i (deals s)\<rparr>"
proof -
  have c: "c = count_where (\<lambda>d. dl_id d = i \<and> 0 < dl_remainingStock d) (deals s)"
    using assms(2) by (simp add: take_stock_def Let_def)
  with assms(3) count_where_key [OF assms(1), of i "\<lambda>d. 0 < dl_remainingStock d"]
  obtain d where d: "find (\<lambda>d. dl_id d = i) (deals s) = Some d" "0 < dl_remainingStock d"
    by (auto split: option.splits if_splits)
  from update_where_key [OF assms(1) d(1), of "\<lambda>d. 0 < dl_remainingStock d"] d(2) assms(2)
  show thesis by (intro that [of d]) (auto simp: find_deal_def d(1) take_stock_def use_stock_def Let_def)
qed

text \<open>
  A successful redemption is one posting to the ledger, one unit of stock where the deal has a
  stock, and one new redemption.
\<close>

lemma redeem_deal_effect:
  assumes ok: "ledger_ok s" and cat: "catalogue_ok s"
    and run: "redeem_deal_tx now random newId u i s = (Inr r, s')"
  obtains d where "find_deal i s = Some d" "dl_isActive d" "started now d" "not_ended now d"
    "int (user_redemptions u i s) < dl_limitPerUser d" "admissible (deal_entry now u newId d) s"
    "s' = (post (deal_entry now u newId d) s)\<lparr>deals := (if 0 < dl_stock d then use_stock i (deals s) else deals s),
        redemptions := redemptions s @ [r]\<rparr>"
    "0 < dl_stock d \<longrightarrow> 0 < dl_remainingStock d"
    "rd_id r = newId" "rd_dealId r = i" "rd_userId r = u" "rd_status r = REDEEMED"
    "rd_pointsSpent r = dl_pointsRequired d" "rd_redemptionCode r = redemption_code random"
    "newId \<notin> rd_id ` set (redemptions s)" "rd_redemptionCode r \<notin> rd_redemptionCode ` set (redemptions s)"
proof -
  from run obtain d c s1 where d: "find_deal i s = Some d" "dl_isActive d" "started now d" "not_ended now d"
    "\<not> dl_limitPerUser d \<le> int (user_redemptions u i s)" and deb: "debit_points u (dl_pointsRequired d) s = (c, s1)"
    and c: "c \<noteq> 0" and rest: "(if 0 < dl_stock d
            then case take_stock i s1 of (stockCount, s2) \<Rightarrow>
                   if stockCount = 0 then (Inl (Http BAD_REQUEST ''Deal is out of stock''), s2)
                   else create_redemption now random newId u d s2
            else create_redemption now random newId u d s1) = (Inr r, s')"
    by (auto simp: redeem_deal_tx_def split: option.splits if_splits prod.splits)
  have did: "d \<in> set (deals s)" "dl_id d = i" using d(1) find_SomeD by (auto simp: find_deal_def dest: find_SomeD)
  with cat have pos: "0 \<le> dl_pointsRequired d" by (auto simp: catalogue_ok_def list_all_iff)
  from debit_points_effect [OF ok deb c] obtain p where p: "find_point u s = Some p" "dl_pointsRequired d \<le> up_balance p"
    and s1: "s1 = s\<lparr>userPoint := update_where (\<lambda>r. up_userId r = u)
        (\<lambda>r. r\<lparr>up_balance := up_balance r - dl_pointsRequired d\<rparr>) (userPoint s)\<rparr>" .
  have adm: "admissible (deal_entry now u newId d) s"
    unfolding deal_entry_def by (rule admissible_debit) (use p pos in auto)
  have fd1: "find_deal i s1 = find_deal i s" "deals s1 = deals s" "redemptions s1 = redemptions s"
    by (simp_all add: s1 find_deal_def)
  obtain s2 where s2: "s2 = s1\<lparr>deals := (if 0 < dl_stock d then use_stock i (deals s) else deals s)\<rparr>"
    and cr: "create_redemption now random newId u d s2 = (Inr r, s')" and st: "0 < dl_stock d \<longrightarrow> 0 < dl_remainingStock d"
  proof (cases "0 < dl_stock d")
    case True
    with rest obtain k s2 where k: "take_stock i s1 = (k, s2)" "k \<noteq> 0"
      and cr: "create_redemption now random newId u d s2 = (Inr r, s')" by (auto split: prod.splits if_splits)
    have "distinct (map dl_id (deals s1))" using cat by (simp add: catalogue_ok_def fd1)
    from take_stock_effect [OF this k] d(1) fd1 have "0 < dl_remainingStock d" "s2 = s1\<lparr>deals := use_stock i (deals s)\<rparr>"
      by auto
    then show thesis using True cr that by simp
  next
    case False
    with rest that show thesis by (simp add: s1)
  qed
  have r: "rd_id r = newId" "rd_dealId r = i" "rd_userId r = u" "rd_status r = REDEEMED"
    "rd_pointsSpent r = dl_pointsRequired d" "rd_redemptionCode r = redemption_code random"
    "newId \<notin> rd_id ` set (redemptions s)" "rd_redemptionCode r \<notin> rd_redemptionCode ` set (redemptions s)"
    and s': "s' = s2\<lparr>redemptions := redemptions s2 @ [r], pointHistory := pointHistory s2 @ [deal_entry now u newId d]\<rparr>"
    using cr did fd1 s2 by (auto simp: create_redemption_def Let_def deal_entry_def debit_entry_def split: if_splits)
  have "s' = (post (deal_entry now u newId d) s)\<lparr>deals := (if 0 < dl_stock d then use_stock i (deals s) else deals s),
        redemptions := redemptions s @ [r]\<rparr>"
    unfolding s' s2 s1 by (simp add: post_def deal_entry_def)
  then show thesis using that d adm st r by auto
qed

section \<open>Invariants of the catalogue\<close>

definition deal_redemptions :: "string \<Rightarrow> 'a deals_db_scheme \<Rightarrow> nat" where
  "deal_redemptions i s = count_where (\<lambda>r. rd_dealId r = i) (redemptions s)"

text \<open>
  No unit of stock disappears: what has left the stock of a deal was redeemed. The converse holds
  while the deal has a stock: a stock of zero means unlimited, and such redemptions take no unit.
\<close>

definition stock_ok :: "'a deals_db_scheme \<Rightarrow> bool" where
  "stock_ok s \<longleftrightarrow> list_all (\<lambda>d. dl_stock d - dl_remainingStock d \<le> int (deal_redemptions (dl_id d) s)) (deals s)
     \<and> list_all (\<lambda>r. rd_dealId r \<in> dl_id ` set (deals s)) (redemptions s)"

definition shop_ok :: "'a deals_db_scheme \<Rightarrow> bool" where
  "shop_ok s \<longleftrightarrow> ledger_ok s \<and> catalogue_ok s \<and> stock_ok s"

lemma map_dl_id_use_stock [simp]: "map dl_id (use_stock i ds) = map dl_id ds"
  by (simp add: use_stock_def map_update_where)

lemma catalogue_prices_use_stock [simp]:
  "list_all (\<lambda>d. 0 \<le> dl_pointsRequired d) (use_stock i ds) = list_all (\<lambda>d. 0 \<le> dl_pointsRequired d) ds"
  by (induction ds) (auto simp: use_stock_def)

lemma dl_id_image_use_stock [simp]: "dl_id ` set (use_stock i ds) = dl_id ` set ds"
  using map_dl_id_use_stock [of i ds] by (metis set_map)

lemma post_shop [simp]:
  "deals (post h s) = deals s" "redemptions (post h s) = redemptions s"
  by (simp_all add: post_def)

lemma use_stock_find:
  "find (\<lambda>d. dl_id d = j) (use_stock i ds) =
     map_option (\<lambda>d. if dl_id d = i then d\<lparr>dl_remainingStock := dl_remainingStock d - 1\<rparr> else d) (find (\<lambda>d. dl_id d = j) ds)"
  unfolding use_stock_def by (rule find_update_where) simp

lemma redeem_deal_shop_ok:
  assumes "shop_ok s" and run: "redeem_deal_tx now random newId u i s = (Inr r, s')"
  shows "shop_ok s'"
proof -
  from assms(1) have ok: "ledger_ok s" "catalogue_ok s" "stock_ok s" by (auto simp: shop_ok_def)
  from redeem_deal_effect [OF ok(1,2) run] obtain d where d: "find_deal i s = Some d"
    and adm: "admissible (deal_entry now u newId d) s"
    and s': "s' = (post (deal_entry now u newId d) s)\<lparr>deals := (if 0 < dl_stock d then use_stock i (deals s) else deals s),
        redemptions := redemptions s @ [r]\<rparr>"
    and r: "rd_id r = newId" "rd_dealId r = i" "newId \<notin> rd_id ` set (redemptions s)"
      "rd_redemptionCode r \<notin> rd_redemptionCode ` set (redemptions s)" by metis
  have "ledger_ok (post (deal_entry now u newId d) s)" using ok adm by (intro points.pst_ok)
  then have 1: "ledger_ok s'" by (simp add: s' cong: ledger_ok_cong add: ledger_ok_cong [of s'])
  have 2: "catalogue_ok s'" using ok(2) r by (auto simp: s' catalogue_ok_def)
  have cnt: "deal_redemptions j s' = deal_redemptions j s + (if j = i then 1 else 0)" for j
    using r by (simp add: deal_redemptions_def s')
  have mem: "i \<in> dl_id ` set (deals s)" using d by (auto simp: find_deal_def dest: find_SomeD)
  have 3: "stock_ok s'"
    unfolding stock_ok_def
  proof
    show "list_all (\<lambda>d. dl_stock d - dl_remainingStock d \<le> int (deal_redemptions (dl_id d) s')) (deals s')"
      using ok(3) unfolding cnt by (fastforce simp: s' stock_ok_def list_all_iff use_stock_def set_update_where)
    show "list_all (\<lambda>r. rd_dealId r \<in> dl_id ` set (deals s')) (redemptions s')"
      using ok(3) mem r by (auto simp: s' stock_ok_def list_all_iff)
  qed
  from 1 2 3 show ?thesis by (simp add: shop_ok_def)
qed

lemma redeemDeal_shop_ok:
  "shop_ok s \<Longrightarrow> shop_ok (snd (redeemDeal now random newId u i s))"
  unfolding redeemDeal_def by (rule transaction_invariant) (auto intro: redeem_deal_shop_ok)

text \<open>
  Property C2. Redeeming a deal is an exchange. When \<open>redeemDeal\<close> returns a redemption, the deal was
  active and in its window, the user's balance covered the price and falls by exactly the price, no
  other balance moves, one history entry records it, a limited deal loses exactly one unit that was
  there, and the user's redemptions of the deal stay within its limit. When it fails, whatever the
  step that failed, nothing has changed.
\<close>

theorem redeemDeal_exchange:
  assumes "ledger_ok s" and "catalogue_ok s" and "redeemDeal now random newId u i s = (res, s')"
  shows "case res of Inl e \<Rightarrow> s' = s
     | Inr r \<Rightarrow> (case find_deal i s of None \<Rightarrow> False | Some d \<Rightarrow>
         dl_isActive d \<and> started now d \<and> not_ended now d
       \<and> (\<forall>v. balance v s' = balance v s - (if v = u then dl_pointsRequired d else 0))
       \<and> 0 \<le> balance u s'
       \<and> pointHistory s' = pointHistory s @ [deal_entry now u newId d]
       \<and> redemptions s' = redemptions s @ [r]
       \<and> rd_userId r = u \<and> rd_dealId r = i \<and> rd_pointsSpent r = dl_pointsRequired d \<and> rd_status r = REDEEMED
       \<and> int (user_redemptions u i s') \<le> dl_limitPerUser d
       \<and> (0 < dl_stock d \<longrightarrow> 0 < dl_remainingStock d)
       \<and> find_deal i s' = Some (if 0 < dl_stock d
            then d\<lparr>dl_remainingStock := dl_remainingStock d - 1\<rparr> else d)
       \<and> (\<forall>j. j \<noteq> i \<longrightarrow> find_deal j s' = find_deal j s))"
proof (cases res)
  case (Inl e)
  with assms(3) show ?thesis by (auto simp: redeemDeal_def dest: transaction_error)
next
  case (Inr r)
  with assms(3) have run: "redeem_deal_tx now random newId u i s = (Inr r, s')" by (simp add: redeemDeal_def)
  from redeem_deal_effect [OF assms(1,2) run] obtain d where d: "find_deal i s = Some d" "dl_isActive d"
      "started now d" "not_ended now d" "int (user_redemptions u i s) < dl_limitPerUser d"
    and adm: "admissible (deal_entry now u newId d) s"
    and s': "s' = (post (deal_entry now u newId d) s)\<lparr>deals := (if 0 < dl_stock d then use_stock i (deals s) else deals s),
        redemptions := redemptions s @ [r]\<rparr>" and st: "0 < dl_stock d \<longrightarrow> 0 < dl_remainingStock d"
    and r: "rd_id r = newId" "rd_dealId r = i" "rd_userId r = u" "rd_status r = REDEEMED"
      "rd_pointsSpent r = dl_pointsRequired d" by metis
  let ?p = "post (deal_entry now u newId d) s"
  have bal: "balance v s' = balance v ?p" for v by (simp add: s' balance_def getUserBalance_def find_point_def)
  have e: "ph_userId (deal_entry now u newId d) = u" "ph_amount (deal_entry now u newId d) = - dl_pointsRequired d"
    by (simp_all add: deal_entry_def)
  have "balance v s' = balance v s - (if v = u then dl_pointsRequired d else 0)" for v
    unfolding bal points.bal_pst [OF assms(1) adm] e by simp
  moreover have "0 \<le> balance u s'" unfolding bal using points.pst_ok [OF assms(1) adm] by (rule points.bal_nonneg)
  moreover have "int (user_redemptions u i s') \<le> dl_limitPerUser d"
    using d(5) r by (simp add: user_redemptions_def s')
  moreover have "dl_id d = i" using d(1) by (auto simp: find_deal_def dest: find_SomeD)
  then have "find_deal i s' = Some (if 0 < dl_stock d then d\<lparr>dl_remainingStock := dl_remainingStock d - 1\<rparr> else d)"
    using d(1) by (simp add: find_deal_def s' use_stock_find)
  moreover have "find_deal j s' = find_deal j s" if "j \<noteq> i" for j
    using that by (auto simp: find_deal_def s' use_stock_find option.map_ident_strong dest: find_SomeD
        intro!: option.map_ident_strong)
  ultimately show ?thesis using Inr d r st by (simp add: s')
qed


section \<open>What the point operations leave alone\<close>

lemma ensure_account_shop [simp]:
  "deals (ensure_account u s) = deals s" "redemptions (ensure_account u s) = redemptions s"
  by (simp_all add: ensure_account_def open_account_def)

lemma emit_earn_shop [simp]:
  "deals (emit_earn k u r e res s) = deals s" "redemptions (emit_earn k u r e res s) = redemptions s"
  by (simp_all add: emit_earn_def)

lemma earnPoints_shop [frame]:
  "deals (snd (earnPoints k now u a ev d r s)) = deals s"
  "redemptions (snd (earnPoints k now u a ev d r s)) = redemptions s"
proof -
  obtain v s' where p: "earnPoints k now u a ev d r s = (v, s')" by fastforce
  consider "s' = s" | res where "v = Inr (Some res)"
    using p earnPoints_no_points by (metis not_Some_eq obj_sumE)
  then have "deals s' = deals s \<and> redemptions s' = redemptions s"
    using p by cases (auto elim: earnPoints_posts)
  then show "deals (snd (earnPoints k now u a ev d r s)) = deals s"
    "redemptions (snd (earnPoints k now u a ev d r s)) = redemptions s" using p by simp_all
qed

lemma redeemPoints_shop [frame]:
  "deals (snd (redeemPoints now u n d r s)) = deals s"
  "redemptions (snd (redeemPoints now u n d r s)) = redemptions s"
  unfolding redeemPoints_def
  by (rule transaction_invariant; auto dest: redeem_tx_posts)+

lemma expire_user_shop [simp]:
  "deals (snd (expire_user now u n s)) = deals s" "redemptions (snd (expire_user now u n s)) = redemptions s"
  by (cases rule: expire_user_cases [of now u n s]; simp)+

lemma expire_loop_shop:
  "deals (snd (expire_loop now recs i t s)) = deals s \<and> redemptions (snd (expire_loop now recs i t s)) = redemptions s"
  by (induction recs arbitrary: i t s) (auto split: prod.splits simp: prod_eq_iff)

lemma processExpiries_shop [frame]:
  "deals (snd (processExpiries now s)) = deals s" "redemptions (snd (processExpiries now s)) = redemptions s"
  by (auto simp: processExpiries_def expire_loop_shop split: prod.splits)

definition demo_deal :: deal where
  "demo_deal = \<lparr>dl_id = ''d1'', dl_title = ''Coffee'', dl_description = ''One cup'', dl_brandId = ''b1'',
     dl_categoryId = ''c1'', dl_pointsRequired = 3, dl_imageUrl = [], dl_stock = 1, dl_remainingStock = 1,
     dl_limitPerUser = 1, dl_priority = 0, dl_isActive = True, dl_startDate = None, dl_endDate = None,
     dl_termsCondition = None, dl_createdAt = demo_now\<rparr>"

definition demo_closed :: deals_db where
  "demo_closed = \<lparr>userPoint = [], pointHistory = [], loyaltyRule = [demo_rule], kafka = [],
     deals = [demo_deal], redemptions = [], brands = [], categories = []\<rparr>"

definition demo_shop :: deals_db where
  "demo_shop = snd (earnPoints True demo_now ''alice'' (Fin 10) ''TOPUP'' ''Top up'' None demo_closed)"

definition demo_random :: "nat \<Rightarrow> rat" where
  "demo_random i = of_nat i / 10"

lemma demo_shop_catalogue: "deals demo_shop = [demo_deal] \<and> redemptions demo_shop = []"
  by (simp add: demo_shop_def demo_closed_def frame)

lemma demo_shop_ok: "shop_ok demo_shop"
proof -
  have "ledger_ok demo_closed" by (simp add: demo_closed_def ledger_ok_def account_ok_def find_point_def)
  then have "ledger_ok demo_shop" unfolding demo_shop_def by (rule earnPoints_ledger_ok)
  then show ?thesis
    using demo_shop_catalogue by (simp add: shop_ok_def stock_ok_def catalogue_ok_def demo_deal_def)
qed

definition demo_redeemed :: "redemption result \<times> deals_db" where
  "demo_redeemed = redeemDeal demo_now demo_random ''r1'' ''alice'' ''d1'' demo_shop"

theorem redeemDeal_exchange_witness:
  "(case fst demo_redeemed of Inl e \<Rightarrow> False | Inr r \<Rightarrow> rd_userId r = ''alice'') \<and>
   balance ''alice'' (snd demo_redeemed) = balance ''alice'' demo_shop - 3"
proof -
  have run: "redeemDeal demo_now demo_random ''r1'' ''alice'' ''d1'' demo_shop = (fst demo_redeemed, snd demo_redeemed)"
    by (simp add: demo_redeemed_def)
  have res: "case fst demo_redeemed of Inl e \<Rightarrow> False | Inr r \<Rightarrow> rd_userId r = ''alice''" by code_simp
  have d: "find_deal ''d1'' demo_shop = Some demo_deal" by (simp add: find_deal_def demo_shop_catalogue demo_deal_def)
  have "ledger_ok demo_shop" "catalogue_ok demo_shop" using demo_shop_ok by (simp_all add: shop_ok_def)
  from redeemDeal_exchange [OF this run] res d show ?thesis by (auto simp: demo_deal_def split: sum.splits)
qed

text \<open>
  The stock of a limited deal is exact: over any sequence of redemptions, by any users and of any
  deals, the units gone are the redemptions made.
\<close>

record redeem_call =
  rc_now :: date
  rc_random :: "nat \<Rightarrow> rat"
  rc_newId :: string
  rc_user :: string
  rc_deal :: string

definition redeem_calls :: "redeem_call list \<Rightarrow> 'a deals_db_scheme \<Rightarrow> 'a deals_db_scheme" where
  "redeem_calls cs = fold (\<lambda>c s. snd (redeemDeal (rc_now c) (rc_random c) (rc_newId c) (rc_user c) (rc_deal c) s)) cs"

definition stock_exact :: "string \<Rightarrow> 'a deals_db_scheme \<Rightarrow> bool" where
  "stock_exact i s \<longleftrightarrow> (case find_deal i s of None \<Rightarrow> False | Some d \<Rightarrow>
     0 < dl_stock d \<and> 0 \<le> dl_remainingStock d \<and> int (deal_redemptions i s) = dl_stock d - dl_remainingStock d)"

lemma redeemDeal_stock_exact:
  assumes "shop_ok s" and "stock_exact i s"
  shows "stock_exact i (snd (redeemDeal now random newId u j s))"
  unfolding redeemDeal_def
proof (rule transaction_invariant [where I = "stock_exact i", OF assms(2)])
  fix r s' assume run: "redeem_deal_tx now random newId u j s = (Inr r, s')"
  from assms(1) have ok: "ledger_ok s" "catalogue_ok s" by (auto simp: shop_ok_def)
  from redeem_deal_effect [OF ok run] obtain d where d: "find_deal j s = Some d"
    and s': "s' = (post (deal_entry now u newId d) s)\<lparr>deals := (if 0 < dl_stock d then use_stock j (deals s) else deals s),
        redemptions := redemptions s @ [r]\<rparr>" and st: "0 < dl_stock d \<longrightarrow> 0 < dl_remainingStock d"
    and r: "rd_dealId r = j" by metis
  from assms(2) obtain e where e: "find_deal i s = Some e" "0 < dl_stock e" "0 \<le> dl_remainingStock e"
    "int (deal_redemptions i s) = dl_stock e - dl_remainingStock e" by (auto simp: stock_exact_def split: option.splits)
  have "dl_id e = i" using e(1) by (auto simp: find_deal_def dest: find_SomeD)
  then show "stock_exact i s'"
    using d e st r by (auto simp: stock_exact_def find_deal_def s' use_stock_find deal_redemptions_def)
qed

lemma redeemDeal_keeps_stock:
  assumes "shop_ok s"
  shows "map_option dl_stock (find_deal i (snd (redeemDeal now random newId u j s))) = map_option dl_stock (find_deal i s)"
  unfolding redeemDeal_def
proof (rule transaction_invariant)
  fix r s' assume run: "redeem_deal_tx now random newId u j s = (Inr r, s')"
  from assms have ok: "ledger_ok s" "catalogue_ok s" by (auto simp: shop_ok_def)
  from redeem_deal_effect [OF ok run] obtain d where
    "s' = (post (deal_entry now u newId d) s)\<lparr>deals := (if 0 < dl_stock d then use_stock j (deals s) else deals s),
        redemptions := redemptions s @ [r]\<rparr>" by metis
  then show "map_option dl_stock (find_deal i s') = map_option dl_stock (find_deal i s)"
    by (auto simp: find_deal_def use_stock_find option.map_comp intro!: option.map_cong)
qed simp

text \<open>
  Property C3. A limited deal is never oversold. From a shop in order in which the redemptions of a
  deal account for its stock (as after \<open>createDeal\<close>), any sequence of redemption requests leaves
  exactly \<open>stock - remainingStock\<close> redemptions of it, at most \<open>stock\<close>, and the shop in order.
\<close>

theorem redeemDeal_never_oversold:
  assumes "shop_ok s" and "stock_exact i s"
  shows "shop_ok (redeem_calls cs s) \<and> stock_exact i (redeem_calls cs s)
    \<and> (\<exists>d d'. find_deal i s = Some d \<and> find_deal i (redeem_calls cs s) = Some d' \<and> dl_stock d' = dl_stock d
         \<and> int (deal_redemptions i (redeem_calls cs s)) \<le> dl_stock d)"
proof -
  have "shop_ok (redeem_calls cs s) \<and> stock_exact i (redeem_calls cs s) \<and>
     map_option dl_stock (find_deal i (redeem_calls cs s)) = map_option dl_stock (find_deal i s)"
    using assms
  proof (induction cs arbitrary: s)
    case (Cons c cs)
    let ?s' = "snd (redeemDeal (rc_now c) (rc_random c) (rc_newId c) (rc_user c) (rc_deal c) s)"
    have "map_option dl_stock (find_deal i ?s') = map_option dl_stock (find_deal i s)"
      using Cons.prems(1) by (intro redeemDeal_keeps_stock)
    with Cons.IH [OF redeemDeal_shop_ok redeemDeal_stock_exact] Cons.prems show ?case
      by (simp add: redeem_calls_def)
  qed (simp add: redeem_calls_def)
  then show ?thesis
    by (cases "find_deal i s") (auto simp: stock_exact_def split: option.splits)
qed

theorem redeemDeal_never_oversold_witness:
  "\<forall>cs. int (deal_redemptions ''d1'' (redeem_calls cs demo_shop)) \<le> 1"
proof
  fix cs
  have d: "find_deal ''d1'' demo_shop = Some demo_deal" by (simp add: find_deal_def demo_shop_catalogue demo_deal_def)
  then have "stock_exact ''d1'' demo_shop"
    by (simp add: stock_exact_def deal_redemptions_def demo_shop_catalogue) (simp add: demo_deal_def)
  from redeemDeal_never_oversold [OF demo_shop_ok this, of cs] d
  show "int (deal_redemptions ''d1'' (redeem_calls cs demo_shop)) \<le> 1" by (auto simp: demo_deal_def)
qed

section \<open>Redemption codes\<close>

lemma random_char_range:
  assumes "0 \<le> x" and "x < 1"
  shows "\<exists>c. random_char x = [c] \<and> c \<in> set charset"
proof -
  let ?i = "\<lfloor>x * of_nat (length charset)\<rfloor>"
  have len: "(of_nat (length charset) :: rat) = 32" by (simp add: charset_def)
  have "0 \<le> ?i" "?i < int (length charset)"
    unfolding len using assms by (simp_all add: charset_def floor_less_iff)
  then have "nat ?i < length charset" by linarith
  with \<open>0 \<le> ?i\<close> show ?thesis unfolding random_char_def Let_def by (simp add: nat_less_iff)
qed

text \<open>
  A redemption code is the prefix \<open>JL\<close> and ten letters or digits, none of them one of
  the characters \<open>I\<close>, \<open>O\<close>, \<open>0\<close>, \<open>1\<close> that are easily mistaken, whatever \<open>Math.random\<close> returns in its
  range \<open>[0, 1)\<close>.
\<close>

theorem redemption_code_format:
  assumes "\<forall>i. 0 \<le> random i \<and> random i < 1"
  shows "length (redemption_code random) = 12 \<and> take 2 (redemption_code random) = ''JL''
    \<and> set (drop 2 (redemption_code random)) \<subseteq> set ''ABCDEFGHJKLMNPQRSTUVWXYZ23456789''
    \<and> set (drop 2 (redemption_code random)) \<inter> {CHR ''I'', CHR ''O'', CHR ''0'', CHR ''1''} = {}"
proof -
  have one: "length (random_char (random i)) = 1 \<and> set (random_char (random i)) \<subseteq> set charset" for i
    using random_char_range [of "random i"] assms by auto
  have len: "length (redemption_code random) = 12"
    using one by (simp add: redemption_code_def length_concat o_def sum_list_triv)
  have sub: "set (drop 2 (redemption_code random)) \<subseteq> set charset"
    using one by (auto simp: redemption_code_def)
  moreover have "set charset \<inter> {CHR ''I'', CHR ''O'', CHR ''0'', CHR ''1''} = {}" by (simp add: charset_def)
  ultimately have "set (drop 2 (redemption_code random)) \<inter> {CHR ''I'', CHR ''O'', CHR ''0'', CHR ''1''} = {}" by blast
  with len sub show ?thesis unfolding charset_def by (simp add: redemption_code_def)
qed

theorem redemption_code_format_witness:
  "redemption_code (\<lambda>i. 0) = ''JLAAAAAAAAAA'' \<and> length (redemption_code (\<lambda>i. 0)) = 12"
  using redemption_code_format [of "\<lambda>i. 0"]
  by (simp add: redemption_code_def random_char_def charset_def upt_rec)

section \<open>Changing a deal\<close>

lemma update_deal_keeps:
  "dl_id (apply_deal_update data d) = dl_id d" "dl_pointsRequired (apply_deal_update data d) = dl_pointsRequired d"
  "dl_stock (apply_deal_update data d) - dl_remainingStock (apply_deal_update data d) = dl_stock d - dl_remainingStock d"
  by (simp_all add: apply_deal_update_def)

text \<open>
  Updating a deal never loses a sold unit and never changes the price. Whatever the
  form asks for, the units already taken (\<open>stock - remainingStock\<close>) are the same after
  \<open>updateDeal\<close>, the points required are the same even when the form carries another number, the new
  stock is the one asked for, other deals, redemptions and points are untouched; on an error nothing
  changes.
\<close>

theorem updateDeal_conserves:
  assumes "updateDeal i data s = (res, s')"
  shows "(case res of Inl e \<Rightarrow> s' = s
      | Inr d' \<Rightarrow> \<exists>d. find_deal i s = Some d \<and> find_deal i s' = Some d'
          \<and> dl_pointsRequired d' = dl_pointsRequired d \<and> dl_stock d' = dd_stock data
          \<and> dl_stock d' - dl_remainingStock d' = dl_stock d - dl_remainingStock d)
     \<and> (\<forall>j. j \<noteq> i \<longrightarrow> find_deal j s' = find_deal j s)
     \<and> redemptions s' = redemptions s \<and> userPoint s' = userPoint s \<and> pointHistory s' = pointHistory s"
proof (cases res)
  case (Inl e)
  with assms have "s' = s" by (auto simp: updateDeal_def dest: transaction_error)
  with Inl show ?thesis by simp
next
  case (Inr d')
  with assms obtain d where d: "find_deal i s = Some d" "d' = apply_deal_update data d"
    and s': "s' = s\<lparr>deals := update_where (\<lambda>d. dl_id d = i) (apply_deal_update data) (deals s)\<rparr>"
    by (auto simp: updateDeal_def update_deal_tx_def split: option.splits if_splits)
  have f: "find_deal j s' = map_option (\<lambda>d. if dl_id d = i then apply_deal_update data d else d) (find_deal j s)" for j
    by (simp add: find_deal_def s' find_update_where update_deal_keeps)
  have "dl_id d = i" using d(1) by (auto simp: find_deal_def dest: find_SomeD)
  then have "find_deal i s' = Some d'" using d f [of i] by simp
  moreover have "find_deal j s' = find_deal j s" if "j \<noteq> i" for j
    unfolding f using that by (cases "find_deal j s") (auto simp: find_deal_def dest: find_SomeD)
  moreover have "dl_stock d' = dd_stock data" using d(2) by (simp add: apply_deal_update_def)
  ultimately show ?thesis using Inr d update_deal_keeps [of data d] by (auto simp: s')
qed

definition demo_form :: deal_dto where
  "demo_form = \<lparr>dd_title = ''Coffee'', dd_description = ''Two cups'', dd_pointsRequired = 999, dd_stock = 10,
     dd_imageUrl = None, dd_brandId = [], dd_categoryId = [], dd_priority = None, dd_termsCondition = None,
     dd_limitPerUser = None, dd_isActive = None, dd_startDate = None, dd_endDate = None\<rparr>"

theorem updateDeal_conserves_witness:
  "case updateDeal ''d1'' demo_form demo_closed of (Inr d, s') \<Rightarrow>
      dl_pointsRequired d = 3 \<and> dl_stock d = 10 \<and> dl_remainingStock d = 10 | _ \<Rightarrow> False"
proof -
  have "case updateDeal ''d1'' demo_form demo_closed of (Inr d, s') \<Rightarrow> True | _ \<Rightarrow> False" by code_simp
  then obtain d' s' where run: "updateDeal ''d1'' demo_form demo_closed = (Inr d', s')"
    by (auto split: prod.splits sum.splits)
  have f: "find_deal ''d1'' demo_closed = Some demo_deal" by (simp add: find_deal_def demo_closed_def demo_deal_def)
  from updateDeal_conserves [OF run] f show ?thesis unfolding run by (simp add: demo_deal_def demo_form_def)
qed

section \<open>Using a redemption\<close>

text \<open>
  A redemption is used at most once, and only by its owner. When \<open>useRedemption\<close>
  succeeds, the row belonged to the caller and was in state \<open>REDEEMED\<close>, and it alone becomes
  \<open>USED\<close>; every later attempt on it, by anyone at any time, fails and changes nothing.
\<close>

theorem useRedemption_single_use:
  assumes "useRedemption now u i s = (Inr r, s')"
  shows "(\<exists>q. find_redemption i s = Some q \<and> rd_userId q = u \<and> rd_status q = REDEEMED
        \<and> r = q\<lparr>rd_status := USED, rd_usedAt := Some now\<rparr>)
     \<and> find_redemption i s' = Some r
     \<and> (\<forall>j. j \<noteq> i \<longrightarrow> find_redemption j s' = find_redemption j s)
     \<and> (\<forall>later v. \<exists>e. useRedemption later v i s' = (Inl e, s'))"
proof -
  from assms obtain q where q: "find_redemption i s = Some q" "rd_userId q = u" "rd_status q = REDEEMED"
    "r = q\<lparr>rd_status := USED, rd_usedAt := Some now\<rparr>"
    and s': "s' = s\<lparr>redemptions := update_where (\<lambda>r. rd_id r = i)
                     (\<lambda>r. r\<lparr>rd_status := USED, rd_usedAt := Some now\<rparr>) (redemptions s)\<rparr>"
    by (auto simp: useRedemption_def split: option.splits if_splits)
  have f: "find_redemption j s' = map_option (\<lambda>r. if rd_id r = i then r\<lparr>rd_status := USED, rd_usedAt := Some now\<rparr> else r)
      (find_redemption j s)" for j
    unfolding find_redemption_def s' by (simp add: find_update_where)
  have id: "rd_id q = i" using q(1) by (auto simp: find_redemption_def dest: find_SomeD)
  have fi: "find_redemption i s' = Some r" using q(1,4) id by (simp add: f)
  have "find_redemption j s' = find_redemption j s" if "j \<noteq> i" for j
    unfolding f using that by (cases "find_redemption j s") (auto simp: find_redemption_def dest: find_SomeD)
  moreover have "\<exists>e. useRedemption later v i s' = (Inl e, s')" for later v
    using fi q(4) by (simp add: useRedemption_def)
  ultimately show ?thesis using q fi by blast
qed

theorem useRedemption_single_use_witness:
  "case useRedemption demo_now ''alice'' ''r1'' (snd demo_redeemed) of
     (Inr r, s') \<Rightarrow> \<exists>e. useRedemption demo_later ''alice'' ''r1'' s' = (Inl e, s') | _ \<Rightarrow> False"
proof -
  have "case useRedemption demo_now ''alice'' ''r1'' (snd demo_redeemed) of (Inr r, s') \<Rightarrow> True | _ \<Rightarrow> False"
    by code_simp
  then show ?thesis
    using useRedemption_single_use [of demo_now "''alice''" "''r1''" "snd demo_redeemed"]
    by (auto split: prod.splits sum.splits)
qed

section \<open>Listing deals\<close>

text \<open>
  The pages of the admin list partition it: walking \<open>page = 1 .. totalPages\<close> with a fixed
  limit and the same filter returns every matching deal exactly once, newest first, and
  \<open>pagination.total\<close> is their number.
\<close>

theorem getDealsAdmin_pages:
  assumes "0 < l"
  shows "let rows = sort_key (\<lambda>d. - time_value (dl_createdAt d)) (filter (admin_matches f) (deals s));
             pg = snd (getDealsAdmin (f\<lparr>af_page := Some 1, af_limit := Some l\<rparr>) s)
    in pg_total pg = length rows
     \<and> concat (map (\<lambda>p. fst (getDealsAdmin (f\<lparr>af_page := Some p, af_limit := Some l\<rparr>) s)) [1..<Suc (pg_totalPages pg)]) = rows
     \<and> sorted_wrt (\<lambda>d e. time_value (dl_createdAt e) \<le> time_value (dl_createdAt d)) rows"
proof -
  let ?rows = "sort_key (\<lambda>d. - time_value (dl_createdAt d)) (filter (admin_matches f) (deals s))"
  have m: "admin_matches (f\<lparr>af_page := p, af_limit := q\<rparr>) = admin_matches f" for p q
    by (simp add: admin_matches_def fun_eq_iff)
  have g: "getDealsAdmin (f\<lparr>af_page := Some p, af_limit := Some l\<rparr>) s =
      (page_slice p l ?rows, \<lparr>pg_total = length ?rows, pg_page = p, pg_limit = l, pg_totalPages = total_pages (length ?rows) l\<rparr>)"
    if "0 < p" for p
    using assms that unfolding getDealsAdmin_def m by (simp add: paginate_def or_default_def Let_def)
  have pages: "map (\<lambda>p. fst (getDealsAdmin (f\<lparr>af_page := Some p, af_limit := Some l\<rparr>) s)) [1..<n]
      = map (\<lambda>p. page_slice p l ?rows) [1..<n]" for n
    by (rule map_cong) (auto simp: g)
  moreover have "sorted_wrt (\<lambda>d e. time_value (dl_createdAt e) \<le> time_value (dl_createdAt d)) ?rows"
    using sorted_sort_key [of "\<lambda>d. - time_value (dl_createdAt d)"] by (simp add: sorted_map)
  ultimately show ?thesis using pages_concat [OF assms, of ?rows] unfolding Let_def pages
    by (simp add: g del: upt_Suc One_nat_def)
qed

theorem getDealsAdmin_pages_witness:
  "pg_total (snd (getDealsAdmin \<lparr>af_categoryId = None, af_brandId = None, af_search = None, af_isActive = None,
     af_page = Some 1, af_limit = Some 1\<rparr> demo_closed)) = 1"
  using getDealsAdmin_pages [of 1 "\<lparr>af_categoryId = None, af_brandId = None, af_search = None, af_isActive = None,
     af_page = Some 1, af_limit = Some 1\<rparr>" demo_closed]
  by (simp add: Let_def admin_matches_def demo_closed_def)

text \<open>
  Without a search term the public list is what can be redeemed now: \<open>getDeals\<close> returns,
  by descending priority, exactly the active deals of the requested category and brand whose window
  contains the present moment, so \<open>redeemDeal\<close> never refuses a listed deal for its dates.
\<close>

theorem getDeals_lists_current:
  assumes "df_search f = None"
  shows "set (getDeals now f s) = {d \<in> set (deals s). dl_isActive d \<and> started now d \<and> not_ended now d
      \<and> (\<forall>c. df_categoryId f = Some c \<and> c \<noteq> [] \<longrightarrow> dl_categoryId d = c)
      \<and> (\<forall>b. df_brandId f = Some b \<and> b \<noteq> [] \<longrightarrow> dl_brandId d = b)}
    \<and> sorted_wrt (\<lambda>d e. dl_priority e \<le> dl_priority d) (getDeals now f s)
    \<and> (\<forall>d\<in>set (getDeals now f s). catalogue_ok s \<longrightarrow>
         fst (redeemDeal now random newId u (dl_id d) s) \<notin>
           {Inl (Http BAD_REQUEST ''Deal is not available''), Inl (Http BAD_REQUEST ''Deal has not started yet''),
            Inl (Http BAD_REQUEST ''Deal has expired'')})"
proof (intro conjI ballI impI)
  show "set (getDeals now f s) = {d \<in> set (deals s). dl_isActive d \<and> started now d \<and> not_ended now d
      \<and> (\<forall>c. df_categoryId f = Some c \<and> c \<noteq> [] \<longrightarrow> dl_categoryId d = c)
      \<and> (\<forall>b. df_brandId f = Some b \<and> b \<noteq> [] \<longrightarrow> dl_brandId d = b)}"
    using assms by (auto simp: getDeals_def deal_matches_def split: option.splits)
  show "sorted_wrt (\<lambda>d e. dl_priority e \<le> dl_priority d) (getDeals now f s)"
    using sorted_sort_key [of "\<lambda>d. - dl_priority d"] by (simp add: getDeals_def sorted_map)
  fix d assume d: "d \<in> set (getDeals now f s)" and c: "catalogue_ok s"
  then have "d \<in> set (deals s)" "dl_isActive d" "started now d" "not_ended now d"
    using assms by (auto simp: getDeals_def deal_matches_def)
  moreover from this(1) c have "find_deal (dl_id d) s = Some d"
    unfolding find_deal_def catalogue_ok_def by (simp add: find_key_Some)
  ultimately show "fst (redeemDeal now random newId u (dl_id d) s) \<notin>
           {Inl (Http BAD_REQUEST ''Deal is not available''), Inl (Http BAD_REQUEST ''Deal has not started yet''),
            Inl (Http BAD_REQUEST ''Deal has expired'')}"
    by (auto simp: redeemDeal_def redeem_deal_tx_def transaction_def create_redemption_def Let_def split: prod.splits)
qed

theorem getDeals_lists_current_witness:
  "demo_deal \<in> set (getDeals demo_now \<lparr>df_categoryId = None, df_brandId = Some ''b1'', df_search = None\<rparr> demo_closed)"
proof -
  have "demo_deal \<in> set (deals demo_closed)" "dl_isActive demo_deal" "dl_brandId demo_deal = ''b1''"
    "started demo_now demo_deal" "not_ended demo_now demo_deal"
    by (simp_all add: demo_closed_def demo_deal_def started_def not_ended_def)
  then show ?thesis
    using getDeals_lists_current [of "\<lparr>df_categoryId = None, df_brandId = Some ''b1'', df_search = None\<rparr>" demo_now demo_closed]
    by simp
qed

text \<open>
  With a search term the start date is not tested: the \<open>OR\<close> of the text search replaces
  the \<open>OR\<close> of the start date in the where clause, so an active deal that starts in the future is
  listed, and \<open>redeemDeal\<close> then refuses it. The code means to hide it.
\<close>

theorem getDeals_search_shows_future:
  "\<exists>d. d \<in> set (getDeals demo_now \<lparr>df_categoryId = None, df_brandId = None, df_search = Some ''coffee''\<rparr>
          (demo_closed\<lparr>deals := [demo_deal\<lparr>dl_startDate := Some demo_later\<rparr>]\<rparr>))
     \<and> \<not> started demo_now d
     \<and> redeemDeal demo_now demo_random ''r1'' ''alice'' (dl_id d) (demo_closed\<lparr>deals := [d]\<rparr>)
         = (Inl (Http BAD_REQUEST ''Deal has not started yet''), demo_closed\<lparr>deals := [d]\<rparr>)"
proof -
  let ?d = "demo_deal\<lparr>dl_startDate := Some demo_later\<rparr>"
  have ns: "\<not> started demo_now ?d" by code_simp
  have ic: "icontains ''coffee'' ''Coffee''" by code_simp
  have "deal_matches demo_now \<lparr>df_categoryId = None, df_brandId = None, df_search = Some ''coffee''\<rparr> ?d"
    using ic by (simp add: deal_matches_def not_ended_def demo_deal_def)
  then have "?d \<in> set (getDeals demo_now \<lparr>df_categoryId = None, df_brandId = None, df_search = Some ''coffee''\<rparr>
          (demo_closed\<lparr>deals := [?d]\<rparr>))" by (simp add: getDeals_def)
  moreover have "redeemDeal demo_now demo_random ''r1'' ''alice'' (dl_id ?d) (demo_closed\<lparr>deals := [?d]\<rparr>)
         = (Inl (Http BAD_REQUEST ''Deal has not started yet''), demo_closed\<lparr>deals := [?d]\<rparr>)"
    using ns by (simp add: redeemDeal_def transaction_def redeem_deal_tx_def find_deal_def) (simp add: demo_deal_def)
  ultimately show ?thesis using ns by blast
qed

section \<open>Every operation keeps the shop in order\<close>

lemma shop_ledger_cong:
  "userPoint t = userPoint s \<Longrightarrow> pointHistory t = pointHistory s \<Longrightarrow> ledger_ok t = ledger_ok s"
  by (rule ledger_ok_cong) auto

lemma shop_ok_points:
  assumes "shop_ok s" and "ledger_ok t" and "deals t = deals s" and "redemptions t = redemptions s"
  shows "shop_ok t"
  using assms by (simp add: shop_ok_def catalogue_ok_def stock_ok_def deal_redemptions_def)

text \<open>A rewriting of the deals that keeps ids, prices and the units taken.\<close>

lemma shop_ok_deals:
  assumes "shop_ok s" and "userPoint t = userPoint s" "pointHistory t = pointHistory s" "redemptions t = redemptions s"
    and "deals t = update_where p f (deals s)"
    and "\<And>d. dl_id (f d) = dl_id d \<and> dl_pointsRequired (f d) = dl_pointsRequired d
       \<and> dl_stock (f d) - dl_remainingStock (f d) = dl_stock d - dl_remainingStock d"
  shows "shop_ok t"
proof -
  have "ledger_ok t" using assms(1-3) shop_ledger_cong [of t s] by (simp add: shop_ok_def)
  moreover have ids: "map dl_id (deals t) = map dl_id (deals s)" unfolding assms(5) by (rule map_update_where) (simp add: assms(6))
  moreover from ids have img: "dl_id ` set (deals t) = dl_id ` set (deals s)" by (metis set_map)
  ultimately show ?thesis
    using assms(1,4,6) by (auto simp: shop_ok_def catalogue_ok_def stock_ok_def deal_redemptions_def list_all_iff
        assms(5) set_update_where)
qed

lemma updateDeal_shop_ok: "shop_ok s \<Longrightarrow> shop_ok (snd (updateDeal i data s))"
  unfolding updateDeal_def
  by (rule transaction_invariant)
     (auto simp: update_deal_tx_def update_deal_keeps split: option.splits if_splits intro: shop_ok_deals)

lemma toggleDeal_shop_ok: "shop_ok s \<Longrightarrow> shop_ok (snd (toggleDeal i s))"
  by (auto simp: toggleDeal_def split: option.splits intro: shop_ok_deals)

lemma createDeal_shop_ok:
  assumes "shop_ok s" and "deal_dto_valid data"
  shows "shop_ok (snd (createDeal now newId data s))"
proof (cases "createDeal now newId data s")
  case (Pair r t)
  show ?thesis
  proof (cases r)
    case (Inl e)
    then have "t = s" using Pair by (auto simp: createDeal_def Let_def split: if_splits)
    then show ?thesis using Pair assms by simp
  next
    case (Inr d)
    then have t: "t = s\<lparr>deals := deals s @ [d]\<rparr>" and d: "dl_id d = newId" "dl_pointsRequired d = dd_pointsRequired data"
      "dl_stock d = dl_remainingStock d" and new: "newId \<notin> dl_id ` set (deals s)"
      using Pair by (auto simp: createDeal_def Let_def split: if_splits)
    have "ledger_ok t" using assms(1) shop_ledger_cong [of t s] by (simp add: shop_ok_def t)
    then show ?thesis
      using assms Pair d new by (auto simp: shop_ok_def t catalogue_ok_def stock_ok_def deal_redemptions_def
          deal_dto_valid_def list_all_iff)
  qed
qed

lemma deleteDeal_shop_ok:
  assumes "shop_ok s"
  shows "shop_ok (snd (deleteDeal i s))"
proof (cases "find_deal i s = None \<or> (\<exists>r\<in>set (redemptions s). rd_dealId r = i)")
  case True
  then show ?thesis using assms by (auto simp: deleteDeal_def split: option.splits)
next
  case False
  let ?t = "s\<lparr>deals := filter (\<lambda>d. dl_id d \<noteq> i) (deals s)\<rparr>"
  have "ledger_ok ?t" using assms shop_ledger_cong [of ?t s] by (simp add: shop_ok_def)
  moreover have "rd_dealId r \<in> dl_id ` {d \<in> set (deals s). dl_id d \<noteq> i}" if "r \<in> set (redemptions s)" for r
    using assms False that by (fastforce simp: shop_ok_def stock_ok_def list_all_iff image_iff)
  ultimately have "shop_ok ?t"
    using assms by (auto simp: shop_ok_def catalogue_ok_def stock_ok_def deal_redemptions_def list_all_iff
        distinct_map_filter)
  moreover have "snd (deleteDeal i s) = ?t" using False by (auto simp: deleteDeal_def)
  ultimately show ?thesis by simp
qed

lemma useRedemption_shop_ok:
  assumes "shop_ok s"
  shows "shop_ok (snd (useRedemption now u i s))"
proof -
  let ?f = "\<lambda>r. r\<lparr>rd_status := USED, rd_usedAt := Some now\<rparr>"
  let ?t = "s\<lparr>redemptions := update_where (\<lambda>r. rd_id r = i) ?f (redemptions s)\<rparr>"
  have "ledger_ok ?t" using assms shop_ledger_cong [of ?t s] by (simp add: shop_ok_def)
  moreover have "map rd_id (redemptions ?t) = map rd_id (redemptions s)"
    "map rd_redemptionCode (redemptions ?t) = map rd_redemptionCode (redemptions s)"
    by (simp_all add: map_update_where)
  moreover have "deal_redemptions j ?t = deal_redemptions j s" for j
    by (simp add: deal_redemptions_def count_where_update_where)
  ultimately have "shop_ok ?t"
    using assms by (auto simp: shop_ok_def catalogue_ok_def stock_ok_def list_all_iff set_update_where)
  then show ?thesis using assms by (auto simp: useRedemption_def split: option.splits)
qed

end
