(* ===== verification/Audit_Log.thy ===== *)
theory Audit_Log
  imports Js_Number Js_Date
begin

text \<open>
  The audit service (\<open>modules/audit/audit.service.ts\<close>) and the two redactors of the portal:
  \<open>maskSensitiveData\<close>, which runs before a payload is written to the audit log, and
  \<open>maskMerchantSecrets\<close> of \<open>modules/merchant/merchant.service.ts\<close>, which runs before partner and
  terminal rows are returned. Both are interpretations of one redaction contract.
\<close>

section \<open>JSON values\<close>

text \<open>
  A value of the language as the services pass it around. \<open>JText\<close> is the string a number prints as
  (\<open>toFixed\<close>, \<open>toString\<close>). \<open>JInst\<close> is an instance of a class (such as a
  decimal of the database client) with its own enumerable properties; a \<open>Date\<close> has none.
\<close>

datatype json = JNull | JUndef | JBool bool | JNum jsnum | JStr string | JText fixed | JDate date
  | JArr "json list" | JObj "(string \<times> json) list" | JInst "(string \<times> json) list"

fun truthy :: "json \<Rightarrow> bool" where
  "truthy JNull = False"
| "truthy JUndef = False"
| "truthy (JBool b) = b"
| "truthy (JNum n) = (\<not> nfalsy n)"
| "truthy (JStr t) = (t \<noteq> [])"
| "truthy _ = True"

text \<open>Values that are already data: no class instances, which a spread turns into plain objects.\<close>

fun plain :: "json \<Rightarrow> bool" where
  "plain (JArr xs) = list_all plain xs"
| "plain (JObj fs) = list_all (\<lambda>(k, v). plain v) fs"
| "plain (JDate d) = False"
| "plain (JInst fs) = False"
| "plain _ = True"

section \<open>\<open>maskMerchantSecrets\<close>\<close>

text \<open>
  \<open>{ ...data }\<close> of an array element or field that is an object copies its own enumerable properties.
  A primitive, and \<open>null\<close>, is returned as it is.
\<close>

fun maskMerchantSecrets :: "json \<Rightarrow> json" where
  "maskMerchantSecrets (JArr xs) = JArr (map maskMerchantSecrets xs)"
| "maskMerchantSecrets (JObj fs) = JObj (map (\<lambda>(k, v). (k, maskMerchantSecrets v))
     (filter (\<lambda>(k, v). \<not> (k = ''secretKey'' \<and> truthy v)) fs))"
| "maskMerchantSecrets (JInst fs) = JObj (map (\<lambda>(k, v). (k, maskMerchantSecrets v))
     (filter (\<lambda>(k, v). \<not> (k = ''secretKey'' \<and> truthy v)) fs))"
| "maskMerchantSecrets (JDate d) = JObj []"
| "maskMerchantSecrets v = v"

section \<open>\<open>maskSensitiveData\<close>\<close>

definition sensitiveFields :: "string list" where
  "sensitiveFields = [''password'', ''pin'', ''secret'', ''secretKey'', ''token'', ''apiKey'', ''creditCard'']"

definition sensitive_key :: "string \<Rightarrow> bool" where
  "sensitive_key k \<longleftrightarrow> list_ex (\<lambda>f. contains (map lower f) (map lower k)) sensitiveFields"

fun maskSensitiveData :: "json \<Rightarrow> json" where
  "maskSensitiveData (JArr xs) = JArr (map maskSensitiveData xs)"
| "maskSensitiveData (JObj fs) = JObj (map (\<lambda>(k, v).
     (k, if sensitive_key k then JStr ''***MASKED***'' else maskSensitiveData v)) fs)"
| "maskSensitiveData (JInst fs) = JObj (map (\<lambda>(k, v).
     (k, if sensitive_key k then JStr ''***MASKED***'' else maskSensitiveData v)) fs)"
| "maskSensitiveData (JDate d) = JObj []"
| "maskSensitiveData v = v"

section \<open>The audit log\<close>

datatype audit_action = CREATE | UPDATE | DELETE | VIEW | READ | LOGIN | LOGOUT | ASSIGN | REMOVE
  | ACTIVATE | DEACTIVATE | RESET_PASSWORD | APPROVE | REJECT | SYNC_PERMISSIONS
  | MERCHANT_PAYMENT | MERCHANT_REDEMPTION | SETTLEMENT

fun action_name :: "audit_action \<Rightarrow> string" where
  "action_name CREATE = ''CREATE''"
| "action_name UPDATE = ''UPDATE''"
| "action_name DELETE = ''DELETE''"
| "action_name VIEW = ''VIEW''"
| "action_name READ = ''READ''"
| "action_name LOGIN = ''LOGIN''"
| "action_name LOGOUT = ''LOGOUT''"
| "action_name ASSIGN = ''ASSIGN''"
| "action_name REMOVE = ''REMOVE''"
| "action_name ACTIVATE = ''ACTIVATE''"
| "action_name DEACTIVATE = ''DEACTIVATE''"
| "action_name RESET_PASSWORD = ''RESET_PASSWORD''"
| "action_name APPROVE = ''APPROVE''"
| "action_name REJECT = ''REJECT''"
| "action_name SYNC_PERMISSIONS = ''SYNC_PERMISSIONS''"
| "action_name MERCHANT_PAYMENT = ''MERCHANT_PAYMENT''"
| "action_name MERCHANT_REDEMPTION = ''MERCHANT_REDEMPTION''"
| "action_name SETTLEMENT = ''SETTLEMENT''"

datatype resource_type = TRANSACTION | ACCOUNT | USER | SUSPICIOUS_ACTIVITY | RECONCILIATION_REPORT
  | ADMIN_USER | KYC_DOCUMENT | PII | ROLE | PERMISSION | MERCHANT | TERMINAL | PARTNER | DEAL
  | BANNER | LOYALTY_RULE | SYSTEM_SETTINGS | SYSTEM_OUTBOX

text \<open>\<open>AuditLogData\<close>, with the time the row is created.\<close>

record audit_log =
  al_adminUserId :: "string option"
  al_userId :: "string option"
  al_action :: audit_action
  al_resourceType :: resource_type
  al_resourceId :: string
  al_ipAddress :: "string option"
  al_userAgent :: "string option"
  al_requestPayload :: json
  al_responseStatus :: nat
  al_changes :: "(json \<times> json) option"
  al_reason :: "string option"
  al_createdAt :: date

definition log_audit :: "audit_log \<Rightarrow> audit_log list \<Rightarrow> audit_log list" where
  "log_audit data rows = rows @ [data\<lparr>al_requestPayload := maskSensitiveData (al_requestPayload data),
     al_changes := map_option (\<lambda>(b, a). (maskSensitiveData b, maskSensitiveData a)) (al_changes data)\<rparr>]"

record audit_query =
  aq_page :: "nat option"
  aq_limit :: "nat option"
  aq_adminUserId :: "string option"
  aq_userId :: "string option"
  aq_action :: "audit_action option"
  aq_resourceType :: "resource_type option"
  aq_resourceId :: "string option"
  aq_startDate :: "date option"
  aq_endDate :: "date option"

text \<open>\<open>if (v) where.f = v\<close>: an absent or empty string does not filter.\<close>

definition where_string :: "string option \<Rightarrow> string option \<Rightarrow> bool" where
  "where_string v field = (case v of None \<Rightarrow> True | Some t \<Rightarrow> t = [] \<or> field = Some t)"

definition audit_matches :: "audit_query \<Rightarrow> audit_log \<Rightarrow> bool" where
  "audit_matches q l \<longleftrightarrow> where_string (aq_adminUserId q) (al_adminUserId l)
     \<and> where_string (aq_userId q) (al_userId l)
     \<and> (case aq_action q of None \<Rightarrow> True | Some a \<Rightarrow> al_action l = a)
     \<and> (case aq_resourceType q of None \<Rightarrow> True | Some t \<Rightarrow> al_resourceType l = t)
     \<and> where_string (aq_resourceId q) (Some (al_resourceId l))
     \<and> (case aq_startDate q of None \<Rightarrow> True | Some t \<Rightarrow> time_value t \<le> time_value (al_createdAt l))
     \<and> (case aq_endDate q of None \<Rightarrow> True | Some t \<Rightarrow> time_value (al_createdAt l) \<le> time_value t)"

text \<open>Staff rows: id, user name, first and last name.\<close>

type_synonym staff_row = "string \<times> string \<times> string \<times> string"

definition findAll :: "staff_row list \<Rightarrow> audit_query \<Rightarrow> audit_log list
    \<Rightarrow> (audit_log \<times> (string \<times> string \<times> string) option) list \<times> pagination" where
  "findAll staff q rows =
     (case paginate 50 (aq_page q) (aq_limit q)
        (sort_key (\<lambda>l. - time_value (al_createdAt l)) (filter (audit_matches q) rows))
      of (data, pg) \<Rightarrow>
        (map (\<lambda>l. (l, case al_adminUserId l of None \<Rightarrow> None
                      | Some i \<Rightarrow> if i = [] then None else map_of staff i)) data, pg))"

record audit_stats =
  as_total :: nat
  as_creations :: nat
  as_updates :: nat
  as_deletions :: nat

definition action_contains :: "string list \<Rightarrow> audit_log \<Rightarrow> bool" where
  "action_contains ws l = list_ex (\<lambda>w. contains w (action_name (al_action l))) ws"

definition getAuditStats :: "audit_log list \<Rightarrow> audit_stats" where
  "getAuditStats rows =
     \<lparr>as_total = length rows,
      as_creations = count_where (action_contains [''CREATE'', ''APPROVE'', ''ACTIVATE'']) rows,
      as_updates = count_where (action_contains [''UPDATE'', ''MANAGE'', ''SYNC'', ''RESET'', ''ASSIGN'', ''FREEZE'']) rows,
      as_deletions = count_where (action_contains [''DELETE'', ''REMOVE'', ''REJECT'', ''DEACTIVATE'']) rows\<rparr>"

section \<open>The redaction contract\<close>

text \<open>
  What a caller of a redactor relies on: the result is clean and is data, and clean data passes
  unchanged. It follows that redacting twice is redacting once, whatever the value was.
\<close>

locale redactor =
  fixes redact :: "json \<Rightarrow> json" and clean :: "json \<Rightarrow> bool"
  assumes redact_clean: "clean (redact v)"
    and redact_plain: "plain (redact v)"
    and redact_id: "plain v \<Longrightarrow> clean v \<Longrightarrow> redact v = v"
begin

lemma redact_idem: "redact (redact v) = redact v"
  by (rule redact_id [OF redact_plain redact_clean])

lemma redact_map_idem: "map redact (map redact vs) = map redact vs"
  by (simp add: redact_idem)

end

text \<open>No object, at any depth, has a usable \<open>secretKey\<close>.\<close>

fun no_secret :: "json \<Rightarrow> bool" where
  "no_secret (JArr xs) = list_all no_secret xs"
| "no_secret (JObj fs) = list_all (\<lambda>(k, v). \<not> (k = ''secretKey'' \<and> truthy v) \<and> no_secret v) fs"
| "no_secret (JInst fs) = list_all (\<lambda>(k, v). \<not> (k = ''secretKey'' \<and> truthy v) \<and> no_secret v) fs"
| "no_secret _ = True"

text \<open>
  What must not be in the log, written down apart from the code: the value under a key that holds, in any
  letter case and at any place, one of six words. (The code's seventh word, \<open>secretKey\<close>, holds \<open>secret\<close>.)
\<close>

definition secret_words :: "string list" where
  "secret_words = [''password'', ''pin'', ''secret'', ''token'', ''apikey'', ''creditcard'']"

definition names_secret :: "string \<Rightarrow> bool" where
  "names_secret k \<longleftrightarrow> (\<exists>w\<in>set secret_words. \<exists>i\<le>length k. take (length w) (drop i (map lower k)) = w)"

fun masked :: "json \<Rightarrow> bool" where
  "masked (JArr xs) = list_all masked xs"
| "masked (JObj fs) = list_all (\<lambda>(k, v). if names_secret k then v = JStr ''***MASKED***'' else masked v) fs"
| "masked (JInst fs) = list_all (\<lambda>(k, v). if names_secret k then v = JStr ''***MASKED***'' else masked v) fs"
| "masked _ = True"

text \<open>The words and the search of the code find exactly these keys.\<close>

lemma starts_with_take: "starts_with w t \<longleftrightarrow> take (length w) t = w"
  by (induction w t rule: starts_with.induct) auto

lemma starts_with_split: "starts_with w t \<longleftrightarrow> (\<exists>vs. t = w @ vs)"
  unfolding starts_with_take by (metis append_eq_conv_conj append_take_drop_id)

lemma contains_split: "contains w t \<longleftrightarrow> (\<exists>us vs. t = us @ w @ vs)"
proof (induction w t rule: contains.induct)
  case (1 w)
  show ?case by auto
next
  case (2 w y ys)
  have "(\<exists>us vs. y # ys = us @ w @ vs) \<longleftrightarrow> (\<exists>vs. y # ys = w @ vs) \<or> (\<exists>us vs. ys = us @ w @ vs)"
    by (metis append_Cons append_Nil list.exhaust list.inject)
  with 2 show ?case by (simp add: starts_with_split)
qed

lemma contains_take: "contains w t \<longleftrightarrow> (\<exists>i\<le>length t. take (length w) (drop i t) = w)"
proof
  assume "contains w t"
  then obtain us vs where "t = us @ w @ vs" unfolding contains_split by blast
  then show "\<exists>i\<le>length t. take (length w) (drop i t) = w" by (intro exI [of _ "length us"]) simp
next
  assume "\<exists>i\<le>length t. take (length w) (drop i t) = w"
  then show "contains w t" unfolding contains_split by (metis append_take_drop_id)
qed

lemma contains_mono: "contains w u \<Longrightarrow> contains u t \<Longrightarrow> contains w t"
  unfolding contains_split by (metis append.assoc)

lemma names_secret_code [code]: "names_secret k \<longleftrightarrow> list_ex (\<lambda>w. contains w (map lower k)) secret_words"
  by (simp add: names_secret_def contains_take list_ex_iff)

lemma sensitive_words: "set (map (map lower) sensitiveFields) = insert ''secretkey'' (set secret_words)"
proof -
  have "map (map lower) sensitiveFields = [''password'', ''pin'', ''secret'', ''secretkey'', ''token'', ''apikey'', ''creditcard'']"
    by code_simp
  then show ?thesis unfolding secret_words_def by (simp add: insert_commute)
qed

lemma sensitive_key_iff: "sensitive_key k \<longleftrightarrow> names_secret k"
proof -
  have "sensitive_key k \<longleftrightarrow> (\<exists>w\<in>insert ''secretkey'' (set secret_words). contains w (map lower k))"
    unfolding sensitive_words [symmetric] by (auto simp: sensitive_key_def list_ex_iff)
  also have "\<dots> \<longleftrightarrow> (\<exists>w\<in>set secret_words. contains w (map lower k))"
  proof -
    have "contains ''secret'' ''secretkey''" by code_simp
    moreover have "''secret'' \<in> set secret_words" by (simp add: secret_words_def)
    ultimately show ?thesis using contains_mono by blast
  qed
  finally show ?thesis unfolding names_secret_def contains_take by simp
qed

lemma truthy_mask: "truthy (maskMerchantSecrets v) = truthy v"
  by (cases v) auto

lemma maskMerchantSecrets_clean: "no_secret (maskMerchantSecrets v) \<and> plain (maskMerchantSecrets v)"
proof (induction v rule: maskMerchantSecrets.induct)
  case (2 fs)
  then show ?case by (fastforce simp: list_all_iff truthy_mask)
next
  case (3 fs)
  then show ?case by (fastforce simp: list_all_iff truthy_mask)
qed (auto simp: list_all_iff)

lemma map_snd_id: "(\<And>k v. (k, v) \<in> set fs \<Longrightarrow> f k v = v) \<Longrightarrow> map (\<lambda>(k, v). (k, f k v)) fs = fs"
  by (induction fs) auto

lemma maskMerchantSecrets_id: "plain v \<Longrightarrow> no_secret v \<Longrightarrow> maskMerchantSecrets v = v"
proof (induction v rule: maskMerchantSecrets.induct)
  case (1 xs)
  then show ?case by (auto simp: list_all_iff intro: map_idI)
next
  case (2 fs)
  then have "filter (\<lambda>(k, v). \<not> (k = ''secretKey'' \<and> truthy v)) fs = fs"
    by (auto simp: list_all_iff intro!: filter_True)
  moreover have "maskMerchantSecrets v = v" if "(k, v) \<in> set fs" for k v
  proof -
    from 2(2,3) that have "plain v" "no_secret v" "\<not> (k = ''secretKey'' \<and> truthy v)" by (auto simp: list_all_iff)
    with that show ?thesis by (intro 2(1) [of "(k, v)" k v]) auto
  qed
  ultimately show ?case by (simp add: map_snd_id)
qed auto

lemma maskSensitiveData_clean: "masked (maskSensitiveData v) \<and> plain (maskSensitiveData v)"
  by (induction v rule: maskSensitiveData.induct) (auto simp: list_all_iff sensitive_key_iff)

lemma maskSensitiveData_id: "plain v \<Longrightarrow> masked v \<Longrightarrow> maskSensitiveData v = v"
proof (induction v rule: maskSensitiveData.induct)
  case (1 xs)
  then show ?case by (auto simp: list_all_iff intro: map_idI)
next
  case (2 fs)
  have "(if sensitive_key k then JStr ''***MASKED***'' else maskSensitiveData v) = v" if "(k, v) \<in> set fs" for k v
  proof -
    from 2(2,3) that have "plain v" "if names_secret k then v = JStr ''***MASKED***'' else masked v"
      by (auto simp: list_all_iff)
    with that show ?thesis using 2(1) [of "(k, v)" k v] by (auto simp: sensitive_key_iff)
  qed
  then show ?case by (simp add: map_snd_id)
qed auto

interpretation secrets: redactor maskMerchantSecrets no_secret
  by unfold_locales (auto simp: maskMerchantSecrets_clean maskMerchantSecrets_id)

interpretation payload: redactor maskSensitiveData masked
  by unfold_locales (auto simp: maskSensitiveData_clean maskSensitiveData_id)

text \<open>
  Property C12. Nothing sensitive reaches the audit log through \<open>AuditService.log\<close>. A call appends one row,
  which is the data of the call apart from its payload and its recorded changes; in these, at any depth,
  every key that holds \<open>password\<close>, \<open>pin\<close>, \<open>secret\<close>, \<open>token\<close>, \<open>apikey\<close> or \<open>creditcard\<close> in any letter
  case carries only the placeholder; a payload without such keys is logged word for word. (The rows of the
  terminal operations are not written through \<open>log\<close>; their payloads are built by the code, not by the caller.)
\<close>

theorem log_audit_masks:
  "\<exists>l. log_audit data rows = rows @ [l]
     \<and> l = data\<lparr>al_requestPayload := al_requestPayload l, al_changes := al_changes l\<rparr>
     \<and> masked (al_requestPayload l)
     \<and> (case al_changes l of None \<Rightarrow> al_changes data = None | Some (b, a) \<Rightarrow> masked b \<and> masked a)
     \<and> (plain (al_requestPayload data) \<and> masked (al_requestPayload data) \<longrightarrow> al_requestPayload l = al_requestPayload data)"
  by (auto simp: log_audit_def payload.redact_clean payload.redact_id split: option.split)

definition demo_log :: audit_log where
  "demo_log = \<lparr>al_adminUserId = None, al_userId = Some ''alice'', al_action = DEACTIVATE,
     al_resourceType = USER, al_resourceId = ''alice'', al_ipAddress = None, al_userAgent = None,
     al_requestPayload = JObj [(''amount'', JNum (Fin 5)), (''loginPIN'', JStr ''1234'')],
     al_responseStatus = 200, al_changes = None, al_reason = None,
     al_createdAt = \<lparr>d_year = 2025, d_month = 0, d_day = 1, d_ms = 0\<rparr>\<rparr>"

theorem log_audit_masks_witness:
  "(\<exists>l. log_audit demo_log [] = [l]
     \<and> al_requestPayload l = JObj [(''amount'', JNum (Fin 5)), (''loginPIN'', JStr ''***MASKED***'')])
   \<and> (\<exists>l. log_audit (demo_log\<lparr>al_requestPayload := JObj [(''amount'', JNum (Fin 5))]\<rparr>) [] = [l]
     \<and> al_requestPayload l = JObj [(''amount'', JNum (Fin 5))])"
proof
  obtain l where "log_audit demo_log [] = [] @ [l]" using log_audit_masks [of demo_log "[]"] by blast
  moreover have "al_requestPayload (hd (log_audit demo_log [])) = JObj [(''amount'', JNum (Fin 5)), (''loginPIN'', JStr ''***MASKED***'')]"
    by code_simp
  ultimately show "\<exists>l. log_audit demo_log [] = [l]
     \<and> al_requestPayload l = JObj [(''amount'', JNum (Fin 5)), (''loginPIN'', JStr ''***MASKED***'')]" by simp
next
  let ?d = "demo_log\<lparr>al_requestPayload := JObj [(''amount'', JNum (Fin 5))]\<rparr>"
  have "plain (al_requestPayload ?d)" "masked (al_requestPayload ?d)" by code_simp+
  then obtain l where "log_audit ?d [] = [] @ [l]" "al_requestPayload l = al_requestPayload ?d"
    using log_audit_masks [of ?d "[]"] by blast
  then show "\<exists>l. log_audit ?d [] = [l] \<and> al_requestPayload l = JObj [(''amount'', JNum (Fin 5))]" by simp
qed

text \<open>
  \<open>maskMerchantSecrets\<close> is a redactor: no object in its result, at any depth, keeps a
  secret key, redacting again changes nothing, and data without secret keys passes unchanged.
\<close>

theorem maskMerchantSecrets_redacts:
  "no_secret (maskMerchantSecrets v) \<and> maskMerchantSecrets (maskMerchantSecrets v) = maskMerchantSecrets v
     \<and> (plain v \<and> no_secret v \<longrightarrow> maskMerchantSecrets v = v)"
  using secrets.redact_clean secrets.redact_idem secrets.redact_id by blast

theorem maskMerchantSecrets_redacts_witness:
  "maskMerchantSecrets (JArr [JObj [(''id'', JStr ''t1'')]]) = JArr [JObj [(''id'', JStr ''t1'')]]"
  using maskMerchantSecrets_redacts [of "JArr [JObj [(''id'', JStr ''t1'')]]"] by simp

text \<open>
  The redactors do not only remove secrets: a \<open>Date\<close> is an object without enumerable
  properties, so the spread turns every date of a row into the empty object. A partner row returned
  by \<open>findAllPartners\<close>, and a payload with a date in the audit log, lose it.
\<close>

theorem redactors_lose_dates:
  "maskMerchantSecrets (JObj [(''id'', i), (''createdAt'', JDate d)]) = JObj [(''id'', maskMerchantSecrets i), (''createdAt'', JObj [])]
     \<and> maskSensitiveData (JObj [(''usedAt'', JDate d)]) = JObj [(''usedAt'', JObj [])]"
proof -
  have "\<not> sensitive_key ''usedAt''" by code_simp
  then show ?thesis by simp
qed

definition counted_actions :: "audit_action list" where
  "counted_actions = [CREATE, APPROVE, ACTIVATE, UPDATE, SYNC_PERMISSIONS, RESET_PASSWORD, ASSIGN, DELETE, REMOVE, REJECT, DEACTIVATE]"

lemma count_where_step: "count_where p (l # rows) = of_bool (p l) + count_where p rows"
  by simp

text \<open>
  The audit statistics overlap. Every row is counted in the total, but a row with action
  \<open>DEACTIVATE\<close> is counted both as a creation (its name contains \<open>ACTIVATE\<close>) and as a deletion, and
  only such rows are counted twice: creations, updates and deletions exceed the rows of the
  corresponding actions by exactly the number of deactivations.
\<close>

theorem getAuditStats_double_counts:
  "as_creations (getAuditStats rows) + as_updates (getAuditStats rows) + as_deletions (getAuditStats rows)
     = count_where (\<lambda>l. al_action l \<in> set counted_actions) rows + count_where (\<lambda>l. al_action l = DEACTIVATE) rows"
proof (induction rows)
  case Nil
  then show ?case by (simp add: getAuditStats_def)
next
  case (Cons l rows)
  have "of_bool (action_contains [''CREATE'', ''APPROVE'', ''ACTIVATE''] l)
      + of_bool (action_contains [''UPDATE'', ''MANAGE'', ''SYNC'', ''RESET'', ''ASSIGN'', ''FREEZE''] l)
      + of_bool (action_contains [''DELETE'', ''REMOVE'', ''REJECT'', ''DEACTIVATE''] l)
      = of_bool (al_action l \<in> set counted_actions) + (of_bool (al_action l = DEACTIVATE) :: nat)"
    unfolding action_contains_def counted_actions_def by (cases "al_action l") simp_all
  with Cons.IH show ?case
    unfolding getAuditStats_def audit_stats.simps count_where_step by linarith
qed

end
