(* ===== verification/Terminal_Security.thy ===== *)
theory Terminal_Security
  imports Deals Audit_Log
begin

text \<open>
  The request protection of the payment terminals: replay protection by nonces
  (\<open>modules/merchant/security/terminal-nonce.service.ts\<close>) and idempotent execution
  (\<open>modules/merchant/security/terminal-idempotency.service.ts\<close>), first as the handlers are written
  and then as a step relation in which requests interleave between the database calls.
\<close>

section \<open>Nonces\<close>

subsection \<open>The handler\<close>

text \<open>
  \<open>parseInt(s, 10)\<close>: leading space, a sign and the longest run of digits; what follows is ignored, and
  without a digit the result is \<open>NaN\<close> (\<open>None\<close>). A number beyond \<open>2 ^ 53\<close> is kept exact, where the
  language rounds it: both are far outside every window.
\<close>

definition parseInt :: "string \<Rightarrow> int option" where
  "parseInt t =
     (let u = dropWhile is_space t;
          (neg, v) = (case u of c # cs \<Rightarrow> if c = CHR ''-'' then (True, cs) else if c = CHR ''+'' then (False, cs) else (False, u)
                      | [] \<Rightarrow> (False, []));
          ds = takeWhile is_digit v
      in if ds = [] then None else Some (if neg then - digits_value ds else digits_value ds))"

text \<open>
  The Redis keys with their expiry times in milliseconds, on the clock that \<open>Date.now()\<close> reads. A key
  exists until its expiry time has passed. \<open>SET key value EX ttl NX\<close> writes only an absent key.
\<close>

type_synonym redis = "string \<rightharpoonup> int"

definition redis_live :: "int \<Rightarrow> string \<Rightarrow> redis \<Rightarrow> bool" where
  "redis_live ms k r = (case r k of None \<Rightarrow> False | Some e \<Rightarrow> ms \<le> e)"

definition redis_set_nx_ex :: "int \<Rightarrow> string \<Rightarrow> int \<Rightarrow> redis \<Rightarrow> bool \<times> redis" where
  "redis_set_nx_ex ms k ttl r = (if redis_live ms k r then (False, r) else (True, r(k \<mapsto> ms + ttl * 1000)))"

definition WINDOW_SECONDS :: int where
  "WINDOW_SECONDS = 300"

definition nonceKey :: "string \<Rightarrow> string \<Rightarrow> string" where
  "nonceKey terminalId nonce = ''terminal:nonce:'' @ terminalId @ '':'' @ nonce"

definition validateNonce :: "int \<Rightarrow> string \<Rightarrow> string \<Rightarrow> string \<Rightarrow> (redis, unit) handler" where
  "validateNonce ms terminalId nonce timestamp r =
     (let now = ms div 1000
      in case parseInt timestamp of
        None \<Rightarrow> (Inl (Http UNAUTHORIZED ''Request timestamp outside of allowed window''), r)
      | Some ts \<Rightarrow>
          if \<bar>now - ts\<bar> > WINDOW_SECONDS
          then (Inl (Http UNAUTHORIZED ''Request timestamp outside of allowed window''), r)
          else case redis_set_nx_ex ms (nonceKey terminalId nonce) (WINDOW_SECONDS * 2) r of
            (False, r') \<Rightarrow> (Inl (Http UNAUTHORIZED ''Duplicate nonce detected (Replay Attack)''), r')
          | (True, r') \<Rightarrow> (Inr (), r'))"

subsection \<open>Replay protection\<close>

record nonce_call =
  nc_ms :: int
  nc_terminal :: string
  nc_nonce :: string
  nc_timestamp :: string

definition nonce_calls :: "nonce_call list \<Rightarrow> redis \<Rightarrow> redis" where
  "nonce_calls cs = fold (\<lambda>c r. snd (validateNonce (nc_ms c) (nc_terminal c) (nc_nonce c) (nc_timestamp c) r)) cs"

lemma validateNonce_cases:
  obtains (rejected) e where "validateNonce ms tid n ts r = (Inl e, r)"
  | (accepted) t where "validateNonce ms tid n ts r = (Inr (), r(nonceKey tid n \<mapsto> ms + 600000))"
      "parseInt ts = Some t" "\<bar>ms div 1000 - t\<bar> \<le> 300" "\<not> redis_live ms (nonceKey tid n) r"
  by (cases "parseInt ts"; cases "\<bar>ms div 1000 - the (parseInt ts)\<bar> > 300"; cases "redis_live ms (nonceKey tid n) r")
     (simp_all add: validateNonce_def WINDOW_SECONDS_def redis_set_nx_ex_def)

text \<open>A key that is live keeps its expiry, whatever is asked meanwhile.\<close>

lemma nonce_calls_live:
  assumes "r k = Some e" and "\<forall>c\<in>set cs. nc_ms c \<le> e"
  shows "nonce_calls cs r k = Some e"
  using assms
proof (induction cs arbitrary: r)
  case (Cons c cs)
  let ?r = "snd (validateNonce (nc_ms c) (nc_terminal c) (nc_nonce c) (nc_timestamp c) r)"
  have "?r k = Some e"
  proof (cases rule: validateNonce_cases [of "nc_ms c" "nc_terminal c" "nc_nonce c" "nc_timestamp c" r])
    case (accepted t)
    then have "nonceKey (nc_terminal c) (nc_nonce c) \<noteq> k" using Cons.prems by (auto simp: redis_live_def)
    with accepted Cons.prems show ?thesis by simp
  qed (use Cons.prems in simp)
  with Cons.IH [of ?r] Cons.prems show ?case by (simp add: nonce_calls_def)
qed (simp add: nonce_calls_def)

lemma validateNonce_live:
  "redis_live ms (nonceKey tid n) r \<Longrightarrow> \<exists>e. validateNonce ms tid n ts r = (Inl e, r)"
  by (cases rule: validateNonce_cases [of ms tid n ts r]) auto

lemma validateNonce_refused:
  assumes "validateNonce t0 tid n ts r = (Inr (), r0)"
    and "\<forall>c\<in>set cs. nc_ms c \<le> t1" and "t1 \<le> t0 + 600000"
  shows "\<exists>e. validateNonce t1 tid n ts' (nonce_calls cs r0) = (Inl e, nonce_calls cs r0)"
proof -
  have "r0 (nonceKey tid n) = Some (t0 + 600000)"
    using assms(1) by (cases rule: validateNonce_cases [of t0 tid n ts r]) auto
  then have "nonce_calls cs r0 (nonceKey tid n) = Some (t0 + 600000)"
    using assms(2,3) by (intro nonce_calls_live) auto
  with assms(3) show ?thesis by (intro validateNonce_live) (simp add: redis_live_def)
qed

text \<open>
  Property C11. A nonce is accepted once per ten minutes. After a terminal's nonce has been accepted,
  every request of that terminal with that nonce is refused for 600 seconds, with any timestamp and
  whatever other requests arrive in between; the refusal changes nothing.
\<close>

theorem validateNonce_no_replay:
  assumes "validateNonce t0 tid n ts r = (Inr (), r0)"
    and "\<forall>c\<in>set cs. nc_ms c \<le> t1" and "t1 \<le> t0 + 600000"
  shows "\<exists>e. validateNonce t1 tid n ts' (nonce_calls cs r0) = (Inl e, nonce_calls cs r0)"
  using assms by (rule validateNonce_refused)

theorem validateNonce_no_replay_witness:
  "\<exists>e. validateNonce 1600000 ''t1'' ''n1'' ''1300'' (nonce_calls [] [nonceKey ''t1'' ''n1'' \<mapsto> 1600000])
     = (Inl e, nonce_calls [] [nonceKey ''t1'' ''n1'' \<mapsto> 1600000])"
proof -
  have p: "parseInt ''1300'' = Some 1300" by code_simp
  have "validateNonce 1000000 ''t1'' ''n1'' ''1300'' Map.empty = (Inr (), [nonceKey ''t1'' ''n1'' \<mapsto> 1600000])"
    by (simp add: validateNonce_def p WINDOW_SECONDS_def redis_set_nx_ex_def redis_live_def)
  from validateNonce_no_replay [OF this, of "[]" 1600000] show ?thesis by simp
qed

text \<open>
  The one gap of the replay protection. Clocks are compared in whole seconds and nonces
  expire by the millisecond, so a captured request can be accepted a second time, but only when it
  first arrived in the second exactly 300 before its timestamp and comes back in the second exactly
  300 after it, between 600 and 601 seconds later. At every other moment a replay of a signed
  request fails, on the nonce or on the window.
\<close>

theorem validateNonce_replay_only_at_boundary:
  assumes "validateNonce t0 tid n ts r = (Inr (), r0)"
    and "\<forall>c\<in>set cs. nc_ms c \<le> t1"
    and "validateNonce t1 tid n ts (nonce_calls cs r0) = (Inr (), r2)"
  shows "\<exists>t. parseInt ts = Some t \<and> t0 div 1000 = t - 300 \<and> t1 div 1000 = t + 300 \<and> t0 + 600000 < t1 \<and> t1 < t0 + 601000"
proof -
  have late: "t0 + 600000 < t1"
  proof (rule ccontr)
    assume "\<not> t0 + 600000 < t1"
    with validateNonce_refused [OF assms(1,2), of ts] assms(3) show False by auto
  qed
  obtain t where t: "parseInt ts = Some t" "\<bar>t0 div 1000 - t\<bar> \<le> 300"
    using assms(1) by (cases rule: validateNonce_cases [of t0 tid n ts r]) auto
  moreover have "\<bar>t1 div 1000 - t\<bar> \<le> 300"
    using assms(3) t(1) by (cases rule: validateNonce_cases [of t1 tid n ts "nonce_calls cs r0"]) auto
  moreover have "t0 div 1000 + 600 \<le> t1 div 1000" using late by linarith
  ultimately have "t0 div 1000 = t - 300" "t1 div 1000 = t + 300" by linarith+
  moreover from this have "t1 < t0 + 601000" by linarith
  ultimately show ?thesis using t(1) late by blast
qed

theorem validateNonce_replay_only_at_boundary_witness:
  "(\<exists>r0 r2. validateNonce 1000000 ''t1'' ''n1'' ''1300'' Map.empty = (Inr (), r0)
      \<and> validateNonce 1600500 ''t1'' ''n1'' ''1300'' r0 = (Inr (), r2)) \<and> (1600500 :: int) < 1000000 + 601000"
proof -
  have p: "parseInt ''1300'' = Some 1300" by code_simp
  have first: "validateNonce 1000000 ''t1'' ''n1'' ''1300'' Map.empty = (Inr (), [nonceKey ''t1'' ''n1'' \<mapsto> 1600000])"
    by (simp add: validateNonce_def p WINDOW_SECONDS_def redis_set_nx_ex_def redis_live_def)
  have again: "validateNonce 1600500 ''t1'' ''n1'' ''1300'' (nonce_calls [] [nonceKey ''t1'' ''n1'' \<mapsto> 1600000])
      = (Inr (), [nonceKey ''t1'' ''n1'' \<mapsto> 2200500])"
    by (simp add: nonce_calls_def validateNonce_def p WINDOW_SECONDS_def redis_set_nx_ex_def redis_live_def)
  from validateNonce_replay_only_at_boundary [OF first _ again] first again show ?thesis
    by (auto simp: nonce_calls_def)
qed

section \<open>Idempotent execution\<close>

subsection \<open>The handler\<close>

record idem_record =
  ir_terminalId :: string
  ir_operation :: string
  ir_idempotencyKey :: string
  ir_requestHash :: string
  ir_responsePayload :: json
  ir_status :: nat
  ir_expiresAt :: date

record idem_db = deals_db +
  terminalIdempotencyRecord :: "idem_record list"

definition PROCESSING_STATUS :: nat where
  "PROCESSING_STATUS = 102"

type_synonym idem_key = "string \<times> string \<times> string"

text \<open>The unique index \<open>terminalId_operation_idempotencyKey\<close>.\<close>

definition ir_key :: "idem_record \<Rightarrow> idem_key" where
  "ir_key r = (ir_terminalId r, ir_operation r, ir_idempotencyKey r)"

definition find_record :: "idem_key \<Rightarrow> idem_record list \<Rightarrow> idem_record option" where
  "find_record k rows = find (\<lambda>r. ir_key r = k) rows"

definition getRecord :: "string \<Rightarrow> string \<Rightarrow> string \<Rightarrow> 'a idem_db_scheme \<Rightarrow> idem_record option" where
  "getRecord terminalId operation idempotencyKey s =
     find_record (terminalId, operation, idempotencyKey) (terminalIdempotencyRecord s)"

definition create_record :: "idem_record \<Rightarrow> idem_record list \<Rightarrow> idem_record list option" where
  "create_record r rows = (if find_record (ir_key r) rows \<noteq> None then None else Some (rows @ [r]))"

definition saveRecord :: "date \<Rightarrow> string \<Rightarrow> string \<Rightarrow> string \<Rightarrow> string \<Rightarrow> json \<Rightarrow> nat \<Rightarrow> int
    \<Rightarrow> ('a idem_db_scheme, idem_record) handler" where
  "saveRecord now terminalId operation idempotencyKey requestHash responsePayload status ttlSeconds s =
     (let r = \<lparr>ir_terminalId = terminalId, ir_operation = operation, ir_idempotencyKey = idempotencyKey,
               ir_requestHash = requestHash, ir_responsePayload = responsePayload, ir_status = status,
               ir_expiresAt = now\<lparr>d_ms := d_ms now + ttlSeconds * 1000\<rparr>\<rparr>
      in case create_record r (terminalIdempotencyRecord s) of
           None \<Rightarrow> (Inl (Prisma ''P2002''), s)
         | Some rows \<Rightarrow> (Inr r, s\<lparr>terminalIdempotencyRecord := rows\<rparr>))"

definition processing_record :: "date \<Rightarrow> idem_key \<Rightarrow> string \<Rightarrow> idem_record" where
  "processing_record now = (\<lambda>(terminalId, operation, idempotencyKey) requestHash.
     \<lparr>ir_terminalId = terminalId, ir_operation = operation, ir_idempotencyKey = idempotencyKey,
      ir_requestHash = requestHash, ir_responsePayload = JObj [(''status'', JStr ''PROCESSING'')],
      ir_status = PROCESSING_STATUS, ir_expiresAt = now\<lparr>d_ms := d_ms now + 86400 * 1000\<rparr>\<rparr>)"

definition reserveKey :: "date \<Rightarrow> string \<Rightarrow> string \<Rightarrow> string \<Rightarrow> string \<Rightarrow> ('a idem_db_scheme, idem_record) handler" where
  "reserveKey now terminalId operation idempotencyKey requestHash s =
     (let r = processing_record now (terminalId, operation, idempotencyKey) requestHash
      in case create_record r (terminalIdempotencyRecord s) of
           None \<Rightarrow> (Inl (Prisma ''P2002''), s)
         | Some rows \<Rightarrow> (Inr r, s\<lparr>terminalIdempotencyRecord := rows\<rparr>))"

record idem_response =
  is_status :: nat
  is_data :: json
  is_fromCache :: bool

text \<open>What a request that does not own the key is told.\<close>

definition existing_response :: "string \<Rightarrow> idem_record option \<Rightarrow> idem_response result" where
  "existing_response currentHash found =
     (case found of
        None \<Rightarrow> Inl (Http CONFLICT ''Idempotency lookup failed'')
      | Some existing \<Rightarrow>
          if ir_requestHash existing \<noteq> currentHash
          then Inl (Http CONFLICT ''Idempotency key conflict: same key used with different payload'')
          else if ir_status existing = PROCESSING_STATUS
          then Inl (Http CONFLICT ''Request with this idempotency key is in progress, retry shortly'')
          else Inr \<lparr>is_status = ir_status existing, is_data = ir_responsePayload existing, is_fromCache = True\<rparr>)"

definition complete_record :: "idem_key \<Rightarrow> nat \<Rightarrow> json \<Rightarrow> idem_record list \<Rightarrow> idem_record list" where
  "complete_record k status data = update_where (\<lambda>r. ir_key r = k) (\<lambda>r. r\<lparr>ir_responsePayload := data, ir_status := status\<rparr>)"

definition release_record :: "idem_key \<Rightarrow> idem_record list \<Rightarrow> idem_record list" where
  "release_record k = filter (\<lambda>r. ir_key r \<noteq> k)"

text \<open>
  \<open>generateHash\<close> is the parameter \<open>hash\<close>, the SHA-256 of the payload's JSON text; \<open>processFn\<close> is the
  operation to run once.
\<close>

definition handleIdempotency ::
  "('p \<Rightarrow> string) \<Rightarrow> date \<Rightarrow> string \<Rightarrow> string \<Rightarrow> string \<Rightarrow> 'p \<Rightarrow> ('a idem_db_scheme, nat \<times> json) handler
     \<Rightarrow> ('a idem_db_scheme, idem_response) handler" where
  "handleIdempotency hash now terminalId operation idempotencyKey payload processFn s =
     (let currentHash = hash payload; k = (terminalId, operation, idempotencyKey)
      in case reserveKey now terminalId operation idempotencyKey currentHash s of
        (Inl e, s1) \<Rightarrow>
          if e = Prisma ''P2002''
          then (existing_response currentHash (getRecord terminalId operation idempotencyKey s1), s1)
          else (Inl e, s1)
      | (Inr _, s1) \<Rightarrow>
          (case processFn s1 of
             (Inl e, s2) \<Rightarrow> (Inl e, s2\<lparr>terminalIdempotencyRecord := release_record k (terminalIdempotencyRecord s2)\<rparr>)
           | (Inr (status, data), s2) \<Rightarrow>
               if find_record k (terminalIdempotencyRecord s2) = None then (Inl (Prisma ''P2025''), s2)
               else (Inr \<lparr>is_status = status, is_data = data, is_fromCache = False\<rparr>,
                     s2\<lparr>terminalIdempotencyRecord := complete_record k status data (terminalIdempotencyRecord s2)\<rparr>)))"

subsection \<open>The table as a map\<close>

lemma key_processing [simp]: "ir_key (processing_record now k h) = k"
  "ir_requestHash (processing_record now k h) = h" "ir_status (processing_record now k h) = PROCESSING_STATUS"
  by (auto simp: processing_record_def ir_key_def split: prod.splits)

lemma find_record_append:
  "find_record k rows = None \<Longrightarrow> ir_key r = k \<Longrightarrow> find_record j (rows @ [r]) = (if j = k then Some r else find_record j rows)"
  by (auto simp: find_record_def find_append split: option.splits)

lemma find_record_complete:
  "find_record j (complete_record k st d rows) =
     map_option (\<lambda>r. if j = k then r\<lparr>ir_responsePayload := d, ir_status := st\<rparr> else r) (find_record j rows)"
proof -
  have "find_record j (complete_record k st d rows) =
     map_option (\<lambda>r. if ir_key r = k then r\<lparr>ir_responsePayload := d, ir_status := st\<rparr> else r) (find_record j rows)"
    unfolding find_record_def complete_record_def by (rule find_update_where) (simp add: ir_key_def)
  then show ?thesis by (auto simp: find_record_def dest: find_SomeD intro!: option.map_cong)
qed

lemma find_record_release: "find_record j (release_record k rows) = (if j = k then None else find_record j rows)"
  by (induction rows) (auto simp: find_record_def release_record_def)

lemma find_record_key: "find_record k rows = Some r \<Longrightarrow> ir_key r = k"
  by (auto simp: find_record_def dest: find_SomeD)

lemma release_append: "find_record k rows = None \<Longrightarrow> ir_key r = k \<Longrightarrow> release_record k (rows @ [r]) = rows"
  by (auto simp: find_record_def release_record_def find_None_iff filter_id_conv)

subsection \<open>Sequential contract\<close>

text \<open>
  The operations the terminals run under a key leave the idempotency table alone. Under that contract
  the first request with a key runs the operation and a repetition does not.
\<close>

locale idempotent_operation =
  fixes op :: "('a idem_db_scheme, nat \<times> json) handler"
  assumes op_table: "terminalIdempotencyRecord (snd (op s)) = terminalIdempotencyRecord s"
    and op_status: "fst (op s) = Inr (st, d) \<Longrightarrow> st \<noteq> PROCESSING_STATUS"
begin

lemma first_request:
  fixes hash :: "'p \<Rightarrow> string" and p :: 'p and now :: date and s :: "'a idem_db_scheme"
  assumes "getRecord t o' k s = None"
  defines "s1 \<equiv> s\<lparr>terminalIdempotencyRecord := terminalIdempotencyRecord s @ [processing_record now (t, o', k) (hash p)]\<rparr>"
  shows "handleIdempotency hash now t o' k p op s = (case op s1 of
      (Inl e, s2) \<Rightarrow> (Inl e, s2\<lparr>terminalIdempotencyRecord := terminalIdempotencyRecord s\<rparr>)
    | (Inr (st, d), s2) \<Rightarrow> (Inr \<lparr>is_status = st, is_data = d, is_fromCache = False\<rparr>,
        s2\<lparr>terminalIdempotencyRecord := complete_record (t, o', k) st d (terminalIdempotencyRecord s1)\<rparr>))"
proof -
  let ?r = "processing_record now (t, o', k) (hash p)"
  have none: "find_record (t, o', k) (terminalIdempotencyRecord s) = None" using assms by (simp add: getRecord_def)
  have res: "reserveKey now t o' k (hash p) s = (Inr ?r, s1)"
    using none by (simp add: reserveKey_def create_record_def s1_def Let_def)
  obtain v s2 where op: "op s1 = (v, s2)" by fastforce
  have tab: "terminalIdempotencyRecord s2 = terminalIdempotencyRecord s @ [?r]"
    using op_table [of s1] op by (simp add: s1_def)
  have fnd: "find_record (t, o', k) (terminalIdempotencyRecord s2) = Some ?r"
    unfolding tab using find_record_append [OF none, of ?r] by simp
  have rel: "release_record (t, o', k) (terminalIdempotencyRecord s2) = terminalIdempotencyRecord s"
    unfolding tab by (rule release_append [OF none]) simp
  show ?thesis
    unfolding handleIdempotency_def Let_def res
    using op fnd rel by (cases v) (auto simp: tab s1_def split: prod.splits)
qed

text \<open>After a success, the same request is answered from the table and nothing runs.\<close>

lemma repeated_request:
  assumes "getRecord t o' k s = None"
    and "handleIdempotency hash now t o' k p op s = (Inr res, s')"
  shows "handleIdempotency hash later t o' k p op' s' = (Inr (res\<lparr>is_fromCache := True\<rparr>), s')"
    and "hash q \<noteq> hash p \<Longrightarrow> handleIdempotency hash later t o' k q op' s' =
      (Inl (Http CONFLICT ''Idempotency key conflict: same key used with different payload''), s')"
proof -
  let ?r = "processing_record now (t, o', k) (hash p)"
  define s1 where "s1 = s\<lparr>terminalIdempotencyRecord := terminalIdempotencyRecord s @ [?r]\<rparr>"
  from assms first_request [of t o' k s hash now p] obtain st d s2 where op: "op s1 = (Inr (st, d), s2)"
    and res: "res = \<lparr>is_status = st, is_data = d, is_fromCache = False\<rparr>"
    and s': "s' = s2\<lparr>terminalIdempotencyRecord := complete_record (t, o', k) st d (terminalIdempotencyRecord s1)\<rparr>"
    unfolding s1_def [symmetric] by (auto split: prod.splits sum.splits)
  have none: "find_record (t, o', k) (terminalIdempotencyRecord s) = None" using assms by (simp add: getRecord_def)
  have row: "find_record (t, o', k) (terminalIdempotencyRecord s') = Some (?r\<lparr>ir_responsePayload := d, ir_status := st\<rparr>)"
    using find_record_append [OF none, of ?r] by (simp add: s' find_record_complete s1_def)
  have "st \<noteq> PROCESSING_STATUS" using op_status [of s1 st d] op by simp
  then show "handleIdempotency hash later t o' k p op' s' = (Inr (res\<lparr>is_fromCache := True\<rparr>), s')"
    and "hash q \<noteq> hash p \<Longrightarrow> handleIdempotency hash later t o' k q op' s' =
      (Inl (Http CONFLICT ''Idempotency key conflict: same key used with different payload''), s')"
    using row by (auto simp: handleIdempotency_def Let_def reserveKey_def create_record_def getRecord_def
        existing_response_def res)
qed

end


subsection \<open>Interleaved requests\<close>

text \<open>
  Every \<open>await\<close> of \<open>handleIdempotency\<close> is a point where another request may run. A request reserves the
  key (one insert under the unique index), or looks the record up in a second query, or runs the
  operation (one transaction), and then completes or releases the key. With \<open>faulty\<close> the update that
  completes the record may fail after the operation has been committed.
\<close>

record idem_request =
  iq_key :: idem_key
  iq_hash :: string
  iq_now :: date

datatype phase = Begin | Lookup | Owner | Ran nat json | Failed error | Done "idem_response result"

record idem_config =
  cf_table :: "idem_record list"
  cf_phase :: "nat \<Rightarrow> phase"
  cf_runs :: "nat list"

inductive idem_step :: "bool \<Rightarrow> (nat \<Rightarrow> idem_request) \<Rightarrow> idem_config \<Rightarrow> idem_config \<Rightarrow> bool" for faulty reqs where
  reserve: "cf_phase c i = Begin \<Longrightarrow>
     create_record (processing_record (iq_now (reqs i)) (iq_key (reqs i)) (iq_hash (reqs i))) (cf_table c) = Some rows \<Longrightarrow>
     idem_step faulty reqs c (c\<lparr>cf_table := rows, cf_phase := (cf_phase c)(i := Owner)\<rparr>)"
| taken: "cf_phase c i = Begin \<Longrightarrow>
     create_record (processing_record (iq_now (reqs i)) (iq_key (reqs i)) (iq_hash (reqs i))) (cf_table c) = None \<Longrightarrow>
     idem_step faulty reqs c (c\<lparr>cf_phase := (cf_phase c)(i := Lookup)\<rparr>)"
| lookup: "cf_phase c i = Lookup \<Longrightarrow>
     idem_step faulty reqs c (c\<lparr>cf_phase := (cf_phase c)(i :=
        Done (existing_response (iq_hash (reqs i)) (find_record (iq_key (reqs i)) (cf_table c))))\<rparr>)"
| run_ok: "cf_phase c i = Owner \<Longrightarrow> st \<noteq> PROCESSING_STATUS \<Longrightarrow>
     idem_step faulty reqs c (c\<lparr>cf_phase := (cf_phase c)(i := Ran st d), cf_runs := cf_runs c @ [i]\<rparr>)"
| run_error: "cf_phase c i = Owner \<Longrightarrow>
     idem_step faulty reqs c (c\<lparr>cf_phase := (cf_phase c)(i := Failed e)\<rparr>)"
| complete: "cf_phase c i = Ran st d \<Longrightarrow>
     idem_step faulty reqs c (c\<lparr>cf_table := complete_record (iq_key (reqs i)) st d (cf_table c),
        cf_phase := (cf_phase c)(i := Done (Inr \<lparr>is_status = st, is_data = d, is_fromCache = False\<rparr>))\<rparr>)"
| complete_error: "faulty \<Longrightarrow> cf_phase c i = Ran st d \<Longrightarrow>
     idem_step faulty reqs c (c\<lparr>cf_phase := (cf_phase c)(i := Failed e)\<rparr>)"
| release: "cf_phase c i = Failed e \<Longrightarrow>
     idem_step faulty reqs c (c\<lparr>cf_table := release_record (iq_key (reqs i)) (cf_table c),
        cf_phase := (cf_phase c)(i := Done (Inl e))\<rparr>)"

inductive idem_reachable :: "bool \<Rightarrow> (nat \<Rightarrow> idem_request) \<Rightarrow> idem_config \<Rightarrow> bool" for faulty reqs where
  start: "idem_reachable faulty reqs \<lparr>cf_table = [], cf_phase = (\<lambda>_. Begin), cf_runs = []\<rparr>"
| further: "idem_reachable faulty reqs c \<Longrightarrow> idem_step faulty reqs c c' \<Longrightarrow> idem_reachable faulty reqs c'"

fun holds_key :: "phase \<Rightarrow> bool" where
  "holds_key Owner = True"
| "holds_key (Ran st d) = True"
| "holds_key (Failed e) = True"
| "holds_key _ = False"

text \<open>The response of the request that ran, as the table keeps it.\<close>

definition answered :: "idem_config \<Rightarrow> nat \<Rightarrow> nat \<Rightarrow> json \<Rightarrow> bool" where
  "answered c i st d \<longleftrightarrow> cf_phase c i = Done (Inr \<lparr>is_status = st, is_data = d, is_fromCache = False\<rparr>)"

definition idem_inv :: "(nat \<Rightarrow> idem_request) \<Rightarrow> idem_config \<Rightarrow> bool" where
  "idem_inv reqs c \<longleftrightarrow>
     (\<forall>i. holds_key (cf_phase c i) \<longrightarrow> (\<exists>r. find_record (iq_key (reqs i)) (cf_table c) = Some r
        \<and> ir_status r = PROCESSING_STATUS \<and> ir_requestHash r = iq_hash (reqs i)))
   \<and> (\<forall>i j. holds_key (cf_phase c i) \<and> holds_key (cf_phase c j) \<and> iq_key (reqs i) = iq_key (reqs j) \<longrightarrow> i = j)
   \<and> (\<forall>i st d. cf_phase c i = Ran st d \<longrightarrow> i \<in> set (cf_runs c) \<and> st \<noteq> PROCESSING_STATUS)
   \<and> (\<forall>i\<in>set (cf_runs c). (\<exists>st d. cf_phase c i = Ran st d) \<or>
        (\<exists>st d r. answered c i st d \<and> st \<noteq> PROCESSING_STATUS \<and> find_record (iq_key (reqs i)) (cf_table c) = Some r
           \<and> ir_status r = st \<and> ir_responsePayload r = d))
   \<and> distinct (map (\<lambda>i. iq_key (reqs i)) (cf_runs c))
   \<and> (\<forall>k r. find_record k (cf_table c) = Some r \<and> ir_status r \<noteq> PROCESSING_STATUS \<longrightarrow>
        (\<exists>i\<in>set (cf_runs c). iq_key (reqs i) = k \<and> iq_hash (reqs i) = ir_requestHash r \<and> answered c i (ir_status r) (ir_responsePayload r)))
   \<and> (\<forall>j st d. cf_phase c j = Done (Inr \<lparr>is_status = st, is_data = d, is_fromCache = True\<rparr>) \<longrightarrow>
        (\<exists>i\<in>set (cf_runs c). iq_key (reqs i) = iq_key (reqs j) \<and> iq_hash (reqs i) = iq_hash (reqs j) \<and> answered c i st d))"

lemma idem_invD:
  assumes "idem_inv reqs c"
  shows inv_holder: "holds_key (cf_phase c i) \<Longrightarrow> \<exists>r. find_record (iq_key (reqs i)) (cf_table c) = Some r
        \<and> ir_status r = PROCESSING_STATUS \<and> ir_requestHash r = iq_hash (reqs i)"
    and inv_unique: "holds_key (cf_phase c i) \<Longrightarrow> holds_key (cf_phase c j) \<Longrightarrow> iq_key (reqs i) = iq_key (reqs j) \<Longrightarrow> i = j"
    and inv_ran: "cf_phase c i = Ran st d \<Longrightarrow> i \<in> set (cf_runs c) \<and> st \<noteq> PROCESSING_STATUS"
    and inv_runs: "i \<in> set (cf_runs c) \<Longrightarrow> (\<exists>st d. cf_phase c i = Ran st d) \<or>
        (\<exists>st d r. answered c i st d \<and> st \<noteq> PROCESSING_STATUS \<and> find_record (iq_key (reqs i)) (cf_table c) = Some r
           \<and> ir_status r = st \<and> ir_responsePayload r = d)"
    and inv_distinct: "distinct (map (\<lambda>i. iq_key (reqs i)) (cf_runs c))"
    and inv_table: "find_record k (cf_table c) = Some r \<Longrightarrow> ir_status r \<noteq> PROCESSING_STATUS \<Longrightarrow>
        \<exists>i\<in>set (cf_runs c). iq_key (reqs i) = k \<and> iq_hash (reqs i) = ir_requestHash r \<and> answered c i (ir_status r) (ir_responsePayload r)"
    and inv_cached: "cf_phase c j = Done (Inr \<lparr>is_status = st, is_data = d, is_fromCache = True\<rparr>) \<Longrightarrow>
        \<exists>i\<in>set (cf_runs c). iq_key (reqs i) = iq_key (reqs j) \<and> iq_hash (reqs i) = iq_hash (reqs j) \<and> answered c i st d"
  using assms unfolding idem_inv_def by blast+

text \<open>The holder of a key keeps every request that ran under it out.\<close>

lemma holder_no_runs:
  assumes "idem_inv reqs c" and "holds_key (cf_phase c i)" and "j \<in> set (cf_runs c)" and "iq_key (reqs j) = iq_key (reqs i)"
  shows "j = i \<and> (\<exists>st d. cf_phase c i = Ran st d)"
proof -
  from inv_holder [OF assms(1,2)] inv_runs [OF assms(1,3)] assms(4) obtain st d where "cf_phase c j = Ran st d" by auto
  moreover from this have "j = i" using inv_unique [OF assms(1), of j i] assms(2,4) by simp
  ultimately show ?thesis by auto
qed

lemma idem_invI:
  assumes "\<And>i. holds_key (cf_phase c i) \<Longrightarrow> \<exists>r. find_record (iq_key (reqs i)) (cf_table c) = Some r
        \<and> ir_status r = PROCESSING_STATUS \<and> ir_requestHash r = iq_hash (reqs i)"
    and "\<And>i j. holds_key (cf_phase c i) \<Longrightarrow> holds_key (cf_phase c j) \<Longrightarrow> iq_key (reqs i) = iq_key (reqs j) \<Longrightarrow> i = j"
    and "\<And>i st d. cf_phase c i = Ran st d \<Longrightarrow> i \<in> set (cf_runs c) \<and> st \<noteq> PROCESSING_STATUS"
    and "\<And>i. i \<in> set (cf_runs c) \<Longrightarrow> (\<exists>st d. cf_phase c i = Ran st d) \<or>
        (\<exists>st d r. answered c i st d \<and> st \<noteq> PROCESSING_STATUS \<and> find_record (iq_key (reqs i)) (cf_table c) = Some r
           \<and> ir_status r = st \<and> ir_responsePayload r = d)"
    and "distinct (map (\<lambda>i. iq_key (reqs i)) (cf_runs c))"
    and "\<And>k r. find_record k (cf_table c) = Some r \<Longrightarrow> ir_status r \<noteq> PROCESSING_STATUS \<Longrightarrow>
        \<exists>i\<in>set (cf_runs c). iq_key (reqs i) = k \<and> iq_hash (reqs i) = ir_requestHash r \<and> answered c i (ir_status r) (ir_responsePayload r)"
    and "\<And>j st d. cf_phase c j = Done (Inr \<lparr>is_status = st, is_data = d, is_fromCache = True\<rparr>) \<Longrightarrow>
        \<exists>i\<in>set (cf_runs c). iq_key (reqs i) = iq_key (reqs j) \<and> iq_hash (reqs i) = iq_hash (reqs j) \<and> answered c i st d"
  shows "idem_inv reqs c"
  unfolding idem_inv_def using assms by blast

lemma idem_inv_reserve:
  assumes inv: "idem_inv reqs c" and ph: "cf_phase c i = Begin"
    and none: "find_record (iq_key (reqs i)) (cf_table c) = None"
    and r: "ir_key r = iq_key (reqs i)" "ir_status r = PROCESSING_STATUS" "ir_requestHash r = iq_hash (reqs i)"
  shows "idem_inv reqs (c\<lparr>cf_table := cf_table c @ [r], cf_phase := (cf_phase c)(i := Owner)\<rparr>)" (is "idem_inv reqs ?c")
proof -
  have f: "find_record k (cf_table ?c) = (if k = iq_key (reqs i) then Some r else find_record k (cf_table c))" for k
    using find_record_append [OF none r(1)] by simp
  have nk: "iq_key (reqs j) \<noteq> iq_key (reqs i)" if "holds_key (cf_phase c j) \<or> j \<in> set (cf_runs c)" for j
    using that inv_holder [OF inv, of j] inv_runs [OF inv, of j] none
    by (cases "cf_phase c j") (auto simp: answered_def)
  have ans: "answered ?c j st d = answered c j st d" for j st d using ph by (auto simp: answered_def)
  show ?thesis
  proof (rule idem_invI, goal_cases)
    case (1 j) then show ?case using inv_holder [OF inv, of j] r nk [of j] unfolding f by (cases "j = i") auto
  next
    case (2 j l) then show ?case using inv_unique [OF inv, of j l] nk by (auto split: if_splits)
  next
    case (3 j st d) then show ?case using inv_ran [OF inv, of j] by (auto split: if_splits)
  next
    case (4 j) then show ?case using inv_runs [OF inv, of j] nk [of j] unfolding ans f by auto
  next
    case 5 then show ?case using inv_distinct [OF inv] by simp
  next
    case (6 k q) then show ?case using inv_table [OF inv, of k q] r unfolding ans f by (auto split: if_splits)
  next
    case (7 j st d) then show ?case using inv_cached [OF inv, of j st d] unfolding ans by (auto split: if_splits)
  qed
qed

text \<open>A change of phase of a request that holds no key, before or after, and did not run.\<close>

lemma idem_inv_phase:
  assumes inv: "idem_inv reqs c" and ph: "cf_phase c i = Begin \<or> cf_phase c i = Lookup"
    and new: "p = Lookup \<or> p = Done v \<and> (\<forall>st d. v = Inr \<lparr>is_status = st, is_data = d, is_fromCache = True\<rparr> \<longrightarrow>
        (\<exists>i'\<in>set (cf_runs c). iq_key (reqs i') = iq_key (reqs i) \<and> iq_hash (reqs i') = iq_hash (reqs i) \<and> answered c i' st d))"
  shows "idem_inv reqs (c\<lparr>cf_phase := (cf_phase c)(i := p)\<rparr>)" (is "idem_inv reqs ?c")
proof -
  have ir: "i \<notin> set (cf_runs c)" using inv_runs [OF inv, of i] ph by (auto simp: answered_def)
  have hp: "\<not> holds_key p" "\<not> holds_key (cf_phase c i)" "\<And>st d. p \<noteq> Ran st d" using new ph by auto
  have ans: "answered ?c j st d = answered c j st d" if "j \<in> set (cf_runs c)" for j st d
    using that ir by (auto simp: answered_def)
  show ?thesis
  proof (rule idem_invI, goal_cases)
    case (1 j) then show ?case using inv_holder [OF inv, of j] hp by (auto split: if_splits)
  next
    case (2 j l) then show ?case using inv_unique [OF inv, of j l] hp by (auto split: if_splits)
  next
    case (3 j st d) then show ?case using inv_ran [OF inv, of j] hp by (auto split: if_splits)
  next
    case (4 j)
    then have j: "j \<in> set (cf_runs c)" "j \<noteq> i" using ir by auto
    show ?case using inv_runs [OF inv j(1)] j(2) unfolding ans [OF j(1)] by simp
  next
    case 5 then show ?case using inv_distinct [OF inv] by simp
  next
    case (6 k q) then show ?case using inv_table [OF inv, of k q] ans by auto
  next
    case (7 j st d)
    have "\<exists>i'\<in>set (cf_runs c). iq_key (reqs i') = iq_key (reqs j) \<and> iq_hash (reqs i') = iq_hash (reqs j) \<and> answered c i' st d"
      using 7 new inv_cached [OF inv, of j st d] by (auto split: if_splits)
    then show ?case using ans by auto
  qed
qed

lemma idem_inv_ran:
  assumes inv: "idem_inv reqs c" and ph: "cf_phase c i = Owner" and st: "s \<noteq> PROCESSING_STATUS"
  shows "idem_inv reqs (c\<lparr>cf_phase := (cf_phase c)(i := Ran s d), cf_runs := cf_runs c @ [i]\<rparr>)" (is "idem_inv reqs ?c")
proof -
  have h: "holds_key (cf_phase c i)" by (simp add: ph)
  have new: "iq_key (reqs i) \<notin> (\<lambda>j. iq_key (reqs j)) ` set (cf_runs c)"
  proof
    assume "iq_key (reqs i) \<in> (\<lambda>j. iq_key (reqs j)) ` set (cf_runs c)"
    then obtain j where "j \<in> set (cf_runs c)" "iq_key (reqs j) = iq_key (reqs i)" by auto
    with holder_no_runs [OF inv h, of j] ph show False by auto
  qed
  have ans: "answered ?c j s' d' = answered c j s' d'" for j s' d' using ph by (auto simp: answered_def)
  show ?thesis
  proof (rule idem_invI, goal_cases)
    case (1 j)
    then have "holds_key (cf_phase c j)" using h by (auto split: if_splits)
    then show ?case using inv_holder [OF inv, of j] by simp
  next
    case (2 j l)
    then have "holds_key (cf_phase c j)" "holds_key (cf_phase c l)" using h by (auto split: if_splits)
    then show ?case using inv_unique [OF inv, of j l] 2(3) by blast
  next
    case (3 j s' d') then show ?case using inv_ran [OF inv, of j] st by (auto split: if_splits)
  next
    case (4 j) then show ?case using inv_runs [OF inv, of j] unfolding ans by (cases "j = i") simp_all
  next
    case 5 then show ?case using inv_distinct [OF inv] new by simp
  next
    case (6 k q) then show ?case using inv_table [OF inv, of k q] unfolding ans by auto
  next
    case (7 j s' d') then show ?case using inv_cached [OF inv, of j s' d'] unfolding ans by (auto split: if_splits)
  qed
qed

lemma idem_inv_failed:
  assumes inv: "idem_inv reqs c" and ph: "cf_phase c i = Owner"
  shows "idem_inv reqs (c\<lparr>cf_phase := (cf_phase c)(i := Failed e)\<rparr>)" (is "idem_inv reqs ?c")
proof -
  have h: "holds_key (cf_phase c i)" by (simp add: ph)
  have ir: "i \<notin> set (cf_runs c)" using holder_no_runs [OF inv h, of i] ph by auto
  have ans: "answered ?c j s' d' = answered c j s' d'" for j s' d' using ph by (auto simp: answered_def)
  show ?thesis
  proof (rule idem_invI, goal_cases)
    case (1 j)
    then have "holds_key (cf_phase c j)" using h by (auto split: if_splits)
    then show ?case using inv_holder [OF inv, of j] by simp
  next
    case (2 j l)
    then have "holds_key (cf_phase c j)" "holds_key (cf_phase c l)" using h by (auto split: if_splits)
    then show ?case using inv_unique [OF inv, of j l] 2(3) by blast
  next
    case (3 j s' d') then show ?case using inv_ran [OF inv, of j] by (auto split: if_splits)
  next
    case (4 j)
    then have j: "j \<in> set (cf_runs c)" "j \<noteq> i" using ir by auto
    show ?case using inv_runs [OF inv j(1)] j(2) unfolding ans by simp
  next
    case 5 then show ?case using inv_distinct [OF inv] by simp
  next
    case (6 k q) then show ?case using inv_table [OF inv, of k q] unfolding ans by auto
  next
    case (7 j s' d') then show ?case using inv_cached [OF inv, of j s' d'] unfolding ans by (auto split: if_splits)
  qed
qed

lemma idem_inv_complete:
  assumes inv: "idem_inv reqs c" and ph: "cf_phase c i = Ran s d"
  shows "idem_inv reqs (c\<lparr>cf_table := complete_record (iq_key (reqs i)) s d (cf_table c),
        cf_phase := (cf_phase c)(i := Done (Inr \<lparr>is_status = s, is_data = d, is_fromCache = False\<rparr>))\<rparr>)" (is "idem_inv reqs ?c")
proof -
  have h: "holds_key (cf_phase c i)" by (simp add: ph)
  from inv_holder [OF inv h] obtain r where r: "find_record (iq_key (reqs i)) (cf_table c) = Some r"
    "ir_requestHash r = iq_hash (reqs i)" by blast
  let ?r = "r\<lparr>ir_responsePayload := d, ir_status := s\<rparr>"
  have f: "find_record k (cf_table ?c) = (if k = iq_key (reqs i) then Some ?r else find_record k (cf_table c))" for k
    using r by (simp add: find_record_complete option.map_ident)
  have ri: "i \<in> set (cf_runs c)" "s \<noteq> PROCESSING_STATUS" using inv_ran [OF inv ph] by auto
  have nr: "iq_key (reqs j) \<noteq> iq_key (reqs i)" if "j \<noteq> i" "holds_key (cf_phase c j) \<or> j \<in> set (cf_runs c)" for j
    using that holder_no_runs [OF inv h, of j] inv_unique [OF inv _ h, of j] by blast
  have ans: "answered ?c j s' d' = (if j = i then s' = s \<and> d' = d else answered c j s' d')" for j s' d'
    by (auto simp: answered_def)
  show ?thesis
  proof (rule idem_invI, goal_cases)
    case (1 j) then show ?case using inv_holder [OF inv, of j] nr [of j] unfolding f by (auto split: if_splits)
  next
    case (2 j l) then show ?case using inv_unique [OF inv, of j l] by (auto split: if_splits)
  next
    case (3 j s' d') then show ?case using inv_ran [OF inv, of j] by (auto split: if_splits)
  next
    case (4 j) then show ?case using inv_runs [OF inv, of j] nr [of j] ri unfolding ans f by (cases "j = i") auto
  next
    case 5 then show ?case using inv_distinct [OF inv] by simp
  next
    case (6 k q)
    show ?case
    proof (cases "k = iq_key (reqs i)")
      case True
      then show ?thesis using 6 r ri unfolding ans f by (intro bexI [of _ i]) auto
    next
      case False
      then obtain j where "j \<in> set (cf_runs c)" "iq_key (reqs j) = k" "iq_hash (reqs j) = ir_requestHash q"
        "answered c j (ir_status q) (ir_responsePayload q)" using inv_table [OF inv, of k q] 6 unfolding f by auto
      then show ?thesis using False unfolding ans by (intro bexI [of _ j]) auto
    qed
  next
    case (7 j s' d')
    then obtain l where "l \<in> set (cf_runs c)" "iq_key (reqs l) = iq_key (reqs j)" "iq_hash (reqs l) = iq_hash (reqs j)"
      "answered c l s' d'" using inv_cached [OF inv, of j s' d'] by (auto split: if_splits)
    moreover from this have "l \<noteq> i" using ph by (auto simp: answered_def)
    ultimately show ?case unfolding ans by (intro bexI [of _ l]) auto
  qed
qed

lemma idem_inv_release:
  assumes inv: "idem_inv reqs c" and ph: "cf_phase c i = Failed e"
  shows "idem_inv reqs (c\<lparr>cf_table := release_record (iq_key (reqs i)) (cf_table c),
        cf_phase := (cf_phase c)(i := Done (Inl e))\<rparr>)" (is "idem_inv reqs ?c")
proof -
  have h: "holds_key (cf_phase c i)" by (simp add: ph)
  have f: "find_record k (cf_table ?c) = (if k = iq_key (reqs i) then None else find_record k (cf_table c))" for k
    by (simp add: find_record_release)
  have nr: "iq_key (reqs j) \<noteq> iq_key (reqs i)" if "j \<noteq> i \<and> holds_key (cf_phase c j) \<or> j \<in> set (cf_runs c)" for j
    using that holder_no_runs [OF inv h, of j] inv_unique [OF inv _ h, of j] ph by auto
  have ir: "i \<notin> set (cf_runs c)" using nr by blast
  have ans: "answered ?c j s' d' = answered c j s' d'" for j s' d' using ph by (auto simp: answered_def)
  show ?thesis
  proof (rule idem_invI, goal_cases)
    case (1 j) then show ?case using inv_holder [OF inv, of j] nr [of j] unfolding f by (auto split: if_splits)
  next
    case (2 j l) then show ?case using inv_unique [OF inv, of j l] by (auto split: if_splits)
  next
    case (3 j s' d') then show ?case using inv_ran [OF inv, of j] by (auto split: if_splits)
  next
    case (4 j) then show ?case using inv_runs [OF inv, of j] nr [of j] ir unfolding ans f by (cases "j = i") auto
  next
    case 5 then show ?case using inv_distinct [OF inv] by simp
  next
    case (6 k q) then show ?case using inv_table [OF inv, of k q] unfolding ans f by (auto split: if_splits)
  next
    case (7 j s' d') then show ?case using inv_cached [OF inv, of j s' d'] unfolding ans by (auto split: if_splits)
  qed
qed

lemma idem_inv_step:
  assumes "idem_step False reqs c c'" and inv: "idem_inv reqs c"
  shows "idem_inv reqs c'"
  using assms(1)
proof cases
  case (reserve i rows)
  then show ?thesis using idem_inv_reserve [OF inv reserve(2)] by (auto simp: create_record_def split: if_splits)
next
  case (taken i)
  then show ?thesis using idem_inv_phase [OF inv, of i Lookup] by simp
next
  case (lookup i)
  let ?v = "existing_response (iq_hash (reqs i)) (find_record (iq_key (reqs i)) (cf_table c))"
  have "\<exists>j\<in>set (cf_runs c). iq_key (reqs j) = iq_key (reqs i) \<and> iq_hash (reqs j) = iq_hash (reqs i) \<and> answered c j st d"
    if "?v = Inr \<lparr>is_status = st, is_data = d, is_fromCache = True\<rparr>" for st d
    using that inv_table [OF inv, of "iq_key (reqs i)"] by (auto simp: existing_response_def split: option.splits if_splits)
  then show ?thesis using lookup idem_inv_phase [OF inv, of i "Done ?v" ?v] by auto
next
  case (run_ok i st d)
  then show ?thesis using idem_inv_ran [OF inv] by simp
next
  case (run_error i e)
  then show ?thesis using idem_inv_failed [OF inv] by simp
next
  case (complete i st d)
  then show ?thesis using idem_inv_complete [OF inv] by simp
next
  case (release i e)
  then show ?thesis using idem_inv_release [OF inv] by simp
qed simp

lemma idem_inv_reachable: "idem_reachable False reqs c \<Longrightarrow> idem_inv reqs c"
proof (induction rule: idem_reachable.induct)
  case start
  show ?case by (rule idem_invI) (auto simp: find_record_def)
next
  case further
  then show ?case by (blast intro: idem_inv_step)
qed

text \<open>
  Property C6. Exactly-once under concurrency. However many requests race, in whatever order their
  database calls interleave, the operation is committed at most once for a key, provided the update
  that completes the record succeeds; and every answer served from the table is the answer of that
  one execution, to a request with the same key and the same payload hash.
\<close>

theorem idempotency_exactly_once:
  assumes "idem_reachable False reqs c"
  shows "distinct (map (\<lambda>i. iq_key (reqs i)) (cf_runs c))
    \<and> (\<forall>j st d. cf_phase c j = Done (Inr \<lparr>is_status = st, is_data = d, is_fromCache = True\<rparr>) \<longrightarrow>
        (\<exists>i\<in>set (cf_runs c). iq_key (reqs i) = iq_key (reqs j) \<and> iq_hash (reqs i) = iq_hash (reqs j)
           \<and> cf_phase c i = Done (Inr \<lparr>is_status = st, is_data = d, is_fromCache = False\<rparr>)))"
  using inv_distinct [OF idem_inv_reachable [OF assms]] inv_cached [OF idem_inv_reachable [OF assms]]
  by (simp add: answered_def)


definition demo_request :: "nat \<Rightarrow> idem_request" where
  "demo_request i = \<lparr>iq_key = (''t1'', ''PAYMENT'', ''k1''), iq_hash = ''h'', iq_now = demo_now\<rparr>"

definition demo_row :: idem_record where
  "demo_row = processing_record demo_now (''t1'', ''PAYMENT'', ''k1'') ''h''"

lemma demo_ran:
  "idem_reachable f demo_request \<lparr>cf_table = [demo_row], cf_phase = (\<lambda>_. Begin)(0 := Ran 201 JNull), cf_runs = [0]\<rparr>"
proof -
  have "idem_step f demo_request \<lparr>cf_table = [], cf_phase = (\<lambda>_. Begin), cf_runs = []\<rparr>
     \<lparr>cf_table = [demo_row], cf_phase = (\<lambda>_. Begin)(0 := Owner), cf_runs = []\<rparr>" (is "idem_step _ _ ?c0 ?c1")
    using idem_step.reserve [of ?c0 0 demo_request "[demo_row]" f]
    by (simp add: demo_request_def demo_row_def create_record_def find_record_def)
  moreover have "idem_step f demo_request ?c1
     \<lparr>cf_table = [demo_row], cf_phase = (\<lambda>_. Begin)(0 := Ran 201 JNull), cf_runs = [0]\<rparr>"
    using idem_step.run_ok [of ?c1 0 201 f demo_request JNull] by (simp add: PROCESSING_STATUS_def)
  ultimately show ?thesis by (blast intro: idem_reachable.intros)
qed

theorem idempotency_exactly_once_witness:
  "distinct (map (\<lambda>i. iq_key (demo_request i)) (cf_runs
     \<lparr>cf_table = [demo_row], cf_phase = (\<lambda>_. Begin)(0 := Ran 201 JNull), cf_runs = [0]\<rparr>))"
  using idempotency_exactly_once [OF demo_ran] by blast

text \<open>
  The proviso is needed. When the update that stores the response fails after the
  operation was committed, the handler releases the key, and the client's retry runs the operation
  again: the recovery path treats a committed request like one that failed before completion.
\<close>

theorem idempotency_lost_completion:
  "\<exists>c. idem_reachable True demo_request c \<and> cf_runs c = [0, 1] \<and> iq_key (demo_request 0) = iq_key (demo_request 1)"
proof -
  let ?c = "\<lparr>cf_table = [demo_row], cf_phase = (\<lambda>_. Begin)(0 := Ran 201 JNull), cf_runs = [0]\<rparr>"
  let ?c1 = "\<lparr>cf_table = [demo_row], cf_phase = (\<lambda>_. Begin)(0 := Failed (Plain [])), cf_runs = [0]\<rparr>"
  let ?c2 = "\<lparr>cf_table = [], cf_phase = (\<lambda>_. Begin)(0 := Done (Inl (Plain []))), cf_runs = [0]\<rparr>"
  let ?c3 = "\<lparr>cf_table = [demo_row], cf_phase = (\<lambda>_. Begin)(0 := Done (Inl (Plain [])), 1 := Owner), cf_runs = [0]\<rparr>"
  let ?c4 = "\<lparr>cf_table = [demo_row], cf_phase = (\<lambda>_. Begin)(0 := Done (Inl (Plain [])), 1 := Ran 201 JNull), cf_runs = [0, 1]\<rparr>"
  have "idem_step True demo_request ?c ?c1"
    using idem_step.complete_error [of True ?c 0 201 JNull demo_request "Plain []"] by simp
  moreover have "idem_step True demo_request ?c1 ?c2"
    using idem_step.release [of ?c1 0 "Plain []" True demo_request]
    by (simp add: release_record_def demo_row_def demo_request_def)
  moreover have "idem_step True demo_request ?c2 ?c3"
    using idem_step.reserve [of ?c2 1 demo_request "[demo_row]" True]
    by (simp add: demo_request_def demo_row_def create_record_def find_record_def)
  moreover have "idem_step True demo_request ?c3 ?c4"
    using idem_step.run_ok [of ?c3 1 201 True demo_request JNull] by (simp add: PROCESSING_STATUS_def)
  ultimately have "idem_reachable True demo_request ?c4"
    using demo_ran [of True] by (blast intro: idem_reachable.further)
  then show ?thesis by (intro exI [of _ ?c4]) (simp add: demo_request_def)
qed

end
