(* ===== verification/Finance_Client.thy ===== *)
theory Finance_Client
  imports Audit_Log
begin

text \<open>
  The client of the finance service (\<open>modules/integration/finance.service.ts\<close>), which holds the money.
  The finance service itself is another program, reached by HTTP: it is the parameter \<open>http\<close>, which
  answers a call from the calls made before it and the call itself. The calls made so far are the
  state, so that the theorems can speak about what was asked of the finance service.
\<close>

section \<open>Calls\<close>

datatype http_method = GET | POST | PUT

record http_call =
  hc_method :: http_method
  hc_url :: string
  hc_body :: json
  hc_headers :: "(string \<times> json) list"

text \<open>
  A response body; or the status and the \<open>message\<close> of an error response; or no response at all.
\<close>

datatype http_result = HttpOk json | HttpError nat "string option" | HttpDown string

type_synonym wire = "http_call list"
type_synonym http = "wire \<Rightarrow> http_call \<Rightarrow> http_result"

record finance_env =
  fe_url :: string
  fe_secret :: "string option"

definition send :: "http \<Rightarrow> http_call \<Rightarrow> wire \<Rightarrow> http_result \<times> wire" where
  "send http c w = (http w c, w @ [c])"

definition BAD_GATEWAY :: nat where "BAD_GATEWAY = 502"

definition getInternalHeaders :: "finance_env \<Rightarrow> (string \<times> json) list" where
  "getInternalHeaders env = [(''X-Internal-Secret'', JStr (case fe_secret env of None \<Rightarrow> [] | Some t \<Rightarrow> t))]"

text \<open>
  Errors of the finance service become HTTP exceptions with the same status. Four messages are
  replaced by Thai texts, which stand here as their English meaning in brackets.
\<close>

definition error_message :: "string option \<Rightarrow> string \<Rightarrow> string" where
  "error_message given fallback =
     (let message = (case given of Some (c # t) \<Rightarrow> c # t | _ \<Rightarrow> fallback)
      in if contains ''Insufficient balance'' message then ''(balance is not enough)''
         else if contains ''Transaction conflict'' message \<or> contains ''Unique index or primary key violation'' message
         then ''(already processed)''
         else if contains ''Lock wait timeout'' message \<or> contains ''PessimisticLockingFailureException'' message
         then ''(busy, try again)''
         else if contains ''Wallet not found'' message then ''(wallet of the user not found)''
         else message)"

fun rethrowAsHttpException :: "http_result \<Rightarrow> string \<Rightarrow> error" where
  "rethrowAsHttpException (HttpError status msg) fallback = Http status (error_message msg fallback)"
| "rethrowAsHttpException _ fallback = Http BAD_GATEWAY (error_message None fallback)"

text \<open>One request whose error is rethrown: the shape most methods share.\<close>

definition request ::
  "http \<Rightarrow> finance_env \<Rightarrow> http_method \<Rightarrow> string \<Rightarrow> json \<Rightarrow> (string \<times> json) list \<Rightarrow> string \<Rightarrow> (wire, json) handler" where
  "request http env meth path body extra fallback w =
     (case send http \<lparr>hc_method = meth, hc_url = fe_url env @ path, hc_body = body,
                      hc_headers = getInternalHeaders env @ extra\<rparr> w of
        (HttpOk d, w') \<Rightarrow> (Inr d, w')
      | (e, w') \<Rightarrow> (Inl (rethrowAsHttpException e fallback), w'))"

section \<open>Reading JSON\<close>

fun jget :: "string \<Rightarrow> json \<Rightarrow> json" where
  "jget k (JObj fs) = (case map_of fs k of None \<Rightarrow> JUndef | Some v \<Rightarrow> v)"
| "jget k (JInst fs) = (case map_of fs k of None \<Rightarrow> JUndef | Some v \<Rightarrow> v)"
| "jget k _ = JUndef"

text \<open>\<open>x === undefined || x === null\<close>\<close>

definition nullish :: "json \<Rightarrow> bool" where
  "nullish v \<longleftrightarrow> v = JNull \<or> v = JUndef"

text \<open>An optional field of a body: absent (\<open>undefined\<close>) when there is no value.\<close>

definition jopt :: "string option \<Rightarrow> json" where
  "jopt v = (case v of None \<Rightarrow> JUndef | Some t \<Rightarrow> JStr t)"

text \<open>\<open>v || d\<close>\<close>

definition jor :: "json \<Rightarrow> json \<Rightarrow> json" where
  "jor v d = (if truthy v then v else d)"

subsection \<open>\<open>Number(x)\<close>\<close>

text \<open>
  The conversion of a string: white space around a decimal literal, \<open>Infinity\<close>, or a literal in base
  16, 8 or 2; the empty string is 0 and everything else \<open>NaN\<close>.
\<close>

definition strip :: "string \<Rightarrow> string" where
  "strip t = rev (dropWhile is_space (rev (dropWhile is_space t)))"

definition exponent_part :: "string \<Rightarrow> int option" where
  "exponent_part r =
     (case r of [] \<Rightarrow> Some 0
      | c # u \<Rightarrow>
          if c \<noteq> CHR ''e'' \<and> c \<noteq> CHR ''E'' then None
          else (let (neg, ds) = (case u of d # v \<Rightarrow> if d = CHR ''-'' then (True, v) else if d = CHR ''+'' then (False, v) else (False, u)
                                 | [] \<Rightarrow> (False, []))
                in if ds = [] \<or> \<not> list_all is_digit ds then None
                   else Some (if neg then - digits_value ds else digits_value ds)))"

definition decimal_literal :: "string \<Rightarrow> rat option" where
  "decimal_literal u =
     (let ds = takeWhile is_digit u; r = dropWhile is_digit u;
          (fs, r') = (case r of c # v \<Rightarrow> if c = CHR ''.'' then (takeWhile is_digit v, dropWhile is_digit v) else ([], r) | [] \<Rightarrow> ([], []))
      in if ds @ fs = [] then None
         else map_option (\<lambda>e. of_int (digits_value (ds @ fs)) * 10 powi (e - int (length fs))) (exponent_part r'))"

definition radix_digit :: "char \<Rightarrow> int option" where
  "radix_digit c = (let n = of_char (lower c) :: int in
     if is_digit c then Some (n - 48) else if 97 \<le> n \<and> n \<le> 122 then Some (n - 87) else None)"

fun radix_value :: "int \<Rightarrow> int \<Rightarrow> string \<Rightarrow> int option" where
  "radix_value b acc [] = Some acc"
| "radix_value b acc (c # cs) = (case radix_digit c of None \<Rightarrow> None
     | Some d \<Rightarrow> if d < b then radix_value b (b * acc + d) cs else None)"

definition radix_literal :: "string \<Rightarrow> int option" where
  "radix_literal u = (case u of
      z # x # c # cs \<Rightarrow>
        if z \<noteq> CHR ''0'' then None
        else if lower x = CHR ''x'' then radix_value 16 0 (c # cs)
        else if lower x = CHR ''o'' then radix_value 8 0 (c # cs)
        else if lower x = CHR ''b'' then radix_value 2 0 (c # cs) else None
    | _ \<Rightarrow> None)"

definition unsigned_literal :: "string \<Rightarrow> jsnum" where
  "unsigned_literal u = (if u = ''Infinity'' then Infinity False
     else case decimal_literal u of None \<Rightarrow> NaN | Some x \<Rightarrow> mk_num x)"

definition Number_string :: "string \<Rightarrow> jsnum" where
  "Number_string t =
     (let u = strip t
      in if u = [] then Fin 0
         else case radix_literal u of
           Some n \<Rightarrow> mk_num (of_int n)
         | None \<Rightarrow> (case u of c # v \<Rightarrow> if c = CHR ''-'' then nneg (unsigned_literal v)
                                   else if c = CHR ''+'' then unsigned_literal v else unsigned_literal u))"

text \<open>The services convert only primitives and decimals; dates, arrays and objects are not converted.\<close>

fun Number_json :: "json \<Rightarrow> jsnum" where
  "Number_json (JNum n) = n"
| "Number_json (JStr t) = Number_string t"
| "Number_json (JText f) = Number_fixed f"
| "Number_json (JBool b) = Fin (if b then 1 else 0)"
| "Number_json JNull = Fin 0"
| "Number_json _ = NaN"

section \<open>Wallets and accounts\<close>

definition createWallet :: "http \<Rightarrow> finance_env \<Rightarrow> string \<Rightarrow> string \<Rightarrow> (wire, json) handler" where
  "createWallet http env userId currency =
     request http env POST ''/api/finance/wallets/create''
       (JObj [(''userId'', JStr userId), (''currency'', JStr currency)]) [] ''Failed to create wallet''"

definition createAccount :: "http \<Rightarrow> finance_env \<Rightarrow> string \<Rightarrow> string \<Rightarrow> string \<Rightarrow> string option \<Rightarrow> (wire, json) handler" where
  "createAccount http env ownerId accountName currency accountType =
     request http env POST ''/api/v1/accounts''
       (JObj [(''user_id'', JStr ownerId), (''account_name'', JStr accountName), (''currency'', JStr currency),
              (''account_type'', jopt accountType)]) []
       (''Failed to create account '' @ accountName)"

definition activateWallet :: "http \<Rightarrow> finance_env \<Rightarrow> string \<Rightarrow> (wire, json) handler" where
  "activateWallet http env userId =
     request http env POST (''/api/finance/wallets/'' @ userId @ ''/activate'') (JObj []) [] ''Failed to activate wallet''"

definition getAccountDetail :: "http \<Rightarrow> finance_env \<Rightarrow> string \<Rightarrow> (wire, json) handler" where
  "getAccountDetail http env accountId =
     request http env GET (''/api/v1/accounts/'' @ accountId) JUndef [] ''Failed to get account details''"

text \<open>A wallet that does not exist is \<open>null\<close>; every other error is thrown.\<close>

definition null_if_missing :: "http \<Rightarrow> finance_env \<Rightarrow> string \<Rightarrow> json \<Rightarrow> string \<Rightarrow> (wire, json) handler" where
  "null_if_missing http env path missing fallback w =
     (case send http \<lparr>hc_method = GET, hc_url = fe_url env @ path, hc_body = JUndef, hc_headers = getInternalHeaders env\<rparr> w of
        (HttpOk d, w') \<Rightarrow> (Inr d, w')
      | (HttpError status msg, w') \<Rightarrow>
          if status = 404 then (Inr missing, w')
          else (Inl (rethrowAsHttpException (HttpError status msg) fallback), w')
      | (e, w') \<Rightarrow> (Inl (rethrowAsHttpException e fallback), w'))"

definition getWallet :: "http \<Rightarrow> finance_env \<Rightarrow> string \<Rightarrow> (wire, json) handler" where
  "getWallet http env userId =
     null_if_missing http env (''/api/finance/wallets/'' @ userId) JNull ''Failed to get wallet''"

definition getTransactionByUuid :: "http \<Rightarrow> finance_env \<Rightarrow> string \<Rightarrow> (wire, json) handler" where
  "getTransactionByUuid http env transactionId =
     null_if_missing http env (''/api/v1/transactions/uuid/'' @ transactionId) JNull ''Failed to get transaction details''"

record transactions_query =
  tq_page :: "string option"
  tq_size :: "string option"
  tq_type :: "string option"
  tq_from :: "string option"
  tq_to :: "string option"

text \<open>
  \<open>URLSearchParams\<close> of values that need no escaping (numbers, enum names, ISO dates without a zone
  offset); numbers are given by their decimal text.
\<close>

definition query_param :: "string \<Rightarrow> string option \<Rightarrow> string list" where
  "query_param k v = (case v of None \<Rightarrow> [] | Some t \<Rightarrow> if t = [] then [] else [k @ ''='' @ t])"

fun join_amp :: "string list \<Rightarrow> string" where
  "join_amp [] = []"
| "join_amp [p] = p"
| "join_amp (p # ps) = p @ ''&'' @ join_amp ps"

definition transactions_suffix :: "transactions_query \<Rightarrow> string" where
  "transactions_suffix q =
     (let ps = query_param ''page'' (tq_page q) @ query_param ''size'' (tq_size q) @ query_param ''type'' (tq_type q)
               @ query_param ''from'' (tq_from q) @ query_param ''to'' (tq_to q)
      in if ps = [] then [] else ''?'' @ join_amp ps)"

definition getTransactions :: "http \<Rightarrow> finance_env \<Rightarrow> string \<Rightarrow> transactions_query \<Rightarrow> (wire, json) handler" where
  "getTransactions http env userId q =
     null_if_missing http env (''/api/finance/wallets/'' @ userId @ ''/transactions'' @ transactions_suffix q) (JArr [])
       ''Failed to get transactions''"

text \<open>Two lookups return a default on every error.\<close>

definition default_on_error :: "http \<Rightarrow> finance_env \<Rightarrow> string \<Rightarrow> json \<Rightarrow> (wire, json) handler" where
  "default_on_error http env path dflt w =
     (case send http \<lparr>hc_method = GET, hc_url = fe_url env @ path, hc_body = JUndef, hc_headers = getInternalHeaders env\<rparr> w of
        (HttpOk d, w') \<Rightarrow> (Inr (jor d dflt), w')
      | (e, w') \<Rightarrow> (Inr dflt, w'))"

definition getAccountsByType :: "http \<Rightarrow> finance_env \<Rightarrow> string \<Rightarrow> (wire, json) handler" where
  "getAccountsByType http env type = default_on_error http env (''/api/v1/accounts/type/'' @ type) (JArr [])"

definition getLedgerEntriesForAccount :: "http \<Rightarrow> finance_env \<Rightarrow> string \<Rightarrow> (wire, json) handler" where
  "getLedgerEntriesForAccount http env accountId =
     default_on_error http env (''/api/v1/ledger-entries/account/'' @ accountId @ ''?size=1000'') (JObj [(''content'', JArr [])])"

definition getLinkedBankAccounts :: "http \<Rightarrow> finance_env \<Rightarrow> string \<Rightarrow> (wire, json) handler" where
  "getLinkedBankAccounts http env userId w =
     (case request http env GET (''/api/finance/bank-accounts/'' @ userId) JUndef [] ''Failed to get linked bank accounts'' w of
        (Inr d, w') \<Rightarrow> (Inr (if nullish d then JArr [] else d), w')
      | (Inl e, w') \<Rightarrow> (Inl e, w'))"

section \<open>Settings\<close>

definition getSystemSettings :: "http \<Rightarrow> finance_env \<Rightarrow> (wire, json) handler" where
  "getSystemSettings http env = request http env GET ''/api/v1/system/settings'' JUndef [] ''Failed to get system settings''"

definition updateSystemSettings :: "http \<Rightarrow> finance_env \<Rightarrow> json \<Rightarrow> (wire, json) handler" where
  "updateSystemSettings http env settings =
     request http env PUT ''/api/v1/system/settings'' settings [] ''Failed to update system settings''"

definition getFeeConfiguration :: "http \<Rightarrow> finance_env \<Rightarrow> (wire, json) handler" where
  "getFeeConfiguration http env =
     request http env GET ''/api/v1/system/settings/fees'' JUndef [] ''Failed to get fee configuration''"

definition updateFeeConfiguration :: "http \<Rightarrow> finance_env \<Rightarrow> json \<Rightarrow> (wire, json) handler" where
  "updateFeeConfiguration http env fees =
     request http env PUT ''/api/v1/system/settings/fees'' fees [] ''Failed to update fee configuration''"

section \<open>Money\<close>

definition createPaymentIntent :: "http \<Rightarrow> finance_env \<Rightarrow> json \<Rightarrow> string \<Rightarrow> json \<Rightarrow> string \<Rightarrow> (wire, json) handler" where
  "createPaymentIntent http env accountId referenceId amount type =
     request http env POST ''/api/finance/payments''
       (JObj [(''accountId'', accountId), (''referenceId'', JStr referenceId), (''amount'', amount), (''type'', JStr type)])
       [] ''Failed to create payment intent''"

definition processPaymentWebhook :: "http \<Rightarrow> finance_env \<Rightarrow> string \<Rightarrow> string \<Rightarrow> (wire, json) handler" where
  "processPaymentWebhook http env referenceId status =
     request http env POST ''/api/finance/webhooks/payment''
       (JObj [(''reference_id'', JStr referenceId), (''status'', JStr status), (''signature'', JStr ''mock_signature_verified'')])
       [] ''Failed to process payment webhook''"

definition creditStripeTopUp :: "http \<Rightarrow> finance_env \<Rightarrow> string \<Rightarrow> json \<Rightarrow> (wire, json) handler" where
  "creditStripeTopUp http env userId payload =
     request http env POST (''/api/internal/wallets/'' @ userId @ ''/topup/credit'') payload [] ''Failed to credit top up''"

definition previewP2PTransfer :: "http \<Rightarrow> finance_env \<Rightarrow> string \<Rightarrow> json \<Rightarrow> (wire, json) handler" where
  "previewP2PTransfer http env fromUserId payload =
     request http env POST (''/api/finance/wallets/'' @ fromUserId @ ''/transfer/preview'') payload [] ''Failed to preview transfer''"

definition transferByPhone :: "http \<Rightarrow> finance_env \<Rightarrow> string \<Rightarrow> json \<Rightarrow> (wire, json) handler" where
  "transferByPhone http env fromUserId payload =
     request http env POST (''/api/finance/wallets/'' @ fromUserId @ ''/transfer/phone'') payload [] ''Failed to transfer''"

record transfer_payload =
  tp_fromAccountId :: json
  tp_toAccountId :: json
  tp_amount :: json
  tp_idempotencyKey :: string
  tp_type :: "string option"
  tp_currency :: "string option"
  tp_metadata :: json

definition performTransfer :: "http \<Rightarrow> finance_env \<Rightarrow> transfer_payload \<Rightarrow> (wire, json) handler" where
  "performTransfer http env payload =
     (let isMerchant = (tp_type payload = Some ''MERCHANT_PAYMENT'');
          currency = JStr (case tp_currency payload of Some (c # t) \<Rightarrow> c # t | _ \<Rightarrow> ''THB'')
      in request http env POST
           (if isMerchant then ''/api/finance/transactions/merchant-pay'' else ''/api/finance/transactions/p2p-transfer'')
           (if isMerchant
            then JObj [(''fromWalletId'', tp_fromAccountId payload), (''toWalletId'', tp_toAccountId payload),
                       (''amount'', tp_amount payload), (''currency'', currency), (''metadata'', tp_metadata payload)]
            else JObj [(''idempotencyKey'', JStr (tp_idempotencyKey payload)), (''fromAccountId'', tp_fromAccountId payload),
                       (''toAccountId'', tp_toAccountId payload), (''amount'', tp_amount payload),
                       (''currency'', currency), (''metadata'', tp_metadata payload)])
           [(''Idempotency-Key'', JStr (tp_idempotencyKey payload))] ''Failed to perform transfer'')"

text \<open>One leg of a multi-leg payment; the amount is the text that \<open>toFixed(2)\<close> returned.\<close>

record leg =
  lg_toWalletId :: json
  lg_amount :: fixed
  lg_note :: string
  lg_metadata :: json

definition leg_json :: "leg \<Rightarrow> json" where
  "leg_json l = JObj [(''toWalletId'', lg_toWalletId l), (''amount'', JText (lg_amount l)), (''note'', JStr (lg_note l)),
     (''metadata'', lg_metadata l)]"

definition performMerchantMultiPay ::
  "http \<Rightarrow> finance_env \<Rightarrow> json \<Rightarrow> string option \<Rightarrow> string \<Rightarrow> leg list \<Rightarrow> (wire, json) handler" where
  "performMerchantMultiPay http env fromWalletId currency idempotencyKey legs =
     request http env POST ''/api/finance/transactions/merchant-pay-atomic''
       (JObj [(''fromWalletId'', fromWalletId),
              (''currency'', JStr (case currency of Some (c # t) \<Rightarrow> c # t | _ \<Rightarrow> ''THB'')),
              (''legs'', JArr (map leg_json legs))])
       [(''Idempotency-Key'', JStr idempotencyKey)] ''Failed to perform multi-leg merchant payment''"

text \<open>
  The two-step top-up. The body sends the amount as its text; the new balance is computed in doubles
  (the interface declares the balance of a wallet a number).
  The reference is made of the clock and a random number and is given as an argument. A missing
  wallet is a bare error, which \<open>rethrowAsHttpException\<close> turns into the fallback.
\<close>

fun number_text :: "jsnum \<Rightarrow> json" where
  "number_text NaN = JText FNaN"
| "number_text (Infinity s) = JText (FInf s)"
| "number_text (Fin x) = JText (FExp x)"

fun add_json :: "json \<Rightarrow> jsnum \<Rightarrow> json" where
  "add_json (JNum b) a = JNum (nadd b a)"
| "add_json JNull a = JNum (nadd (Fin 0) a)"
| "add_json _ a = JNum NaN"

definition topUp :: "http \<Rightarrow> finance_env \<Rightarrow> string \<Rightarrow> jsnum \<Rightarrow> string \<Rightarrow> (wire, json) handler" where
  "topUp http env userId amount referenceId w =
     (let fail = ''Failed to process top up''
      in case getWallet http env userId w of
        (Inl e, w1) \<Rightarrow> (Inl (Http BAD_GATEWAY (error_message None fail)), w1)
      | (Inr wallet, w1) \<Rightarrow>
          if \<not> truthy wallet then (Inl (Http BAD_GATEWAY (error_message None fail)), w1)
          else (case request http env POST ''/api/finance/payments''
                  (JObj [(''accountId'', jget ''accountId'' wallet), (''referenceId'', JStr referenceId),
                         (''amount'', number_text amount), (''type'', JStr ''TOPUP'')]) [] fail w1 of
              (Inl e, w2) \<Rightarrow> (Inl e, w2)
            | (Inr _, w2) \<Rightarrow>
                (case request http env POST ''/api/finance/webhooks''
                    (JObj [(''reference_id'', JStr referenceId), (''status'', JStr ''SUCCESS''),
                           (''signature'', JStr ''mock_signature_verified'')]) [] fail w2 of
                   (Inl e, w3) \<Rightarrow> (Inl e, w3)
                 | (Inr _, w3) \<Rightarrow>
                     (Inr (JObj [(''success'', JBool True), (''referenceId'', JStr referenceId),
                        (''message'', JStr ''Top-up successfully settled via 2-step process''),
                        (''newBalance'', add_json (jget ''balance'' wallet) amount)]), w3))))"

section \<open>What every operation sends\<close>

text \<open>
  The contract of a finance operation, as its callers rely on it: it only adds calls, every one of
  them carries the internal secret, and its errors are HTTP exceptions. Sequences of operations
  inherit the contract.
\<close>

definition authentic :: "finance_env \<Rightarrow> http_call \<Rightarrow> bool" where
  "authentic env c \<longleftrightarrow> map_of (hc_headers c) ''X-Internal-Secret''
     = Some (JStr (case fe_secret env of None \<Rightarrow> [] | Some t \<Rightarrow> t))"

locale finance_operation =
  fixes env :: finance_env and op :: "wire \<Rightarrow> 'r result \<times> wire"
  assumes adds_calls: "\<exists>cs. snd (op w) = w @ cs \<and> (\<forall>c\<in>set cs. authentic env c)"
    and http_errors: "fst (op w) = Inl e \<Longrightarrow> \<exists>status msg. e = Http status msg"
begin

lemma keeps_authentic: "(\<forall>c\<in>set w. authentic env c) \<Longrightarrow> (\<forall>c\<in>set (snd (op w)). authentic env c)"
  using adds_calls [of w] by auto

lemma repeated_authentic: "(\<forall>c\<in>set w. authentic env c) \<Longrightarrow> (\<forall>c\<in>set (((\<lambda>w. snd (op w)) ^^ n) w). authentic env c)"
  by (induction n) (use keeps_authentic in auto)

end

lemma authentic_headers [simp]: "authentic env \<lparr>hc_method = m, hc_url = u, hc_body = b, hc_headers = getInternalHeaders env @ h\<rparr>"
  "authentic env \<lparr>hc_method = m, hc_url = u, hc_body = b, hc_headers = getInternalHeaders env\<rparr>"
  by (simp_all add: authentic_def getInternalHeaders_def)

lemma request_cases:
  obtains (ok) d where "http w \<lparr>hc_method = m, hc_url = fe_url env @ p, hc_body = b, hc_headers = getInternalHeaders env @ h\<rparr> = HttpOk d"
      "request http env m p b h f w = (Inr d, w @ [\<lparr>hc_method = m, hc_url = fe_url env @ p, hc_body = b, hc_headers = getInternalHeaders env @ h\<rparr>])"
  | (error) st msg where "request http env m p b h f w = (Inl (Http st msg),
      w @ [\<lparr>hc_method = m, hc_url = fe_url env @ p, hc_body = b, hc_headers = getInternalHeaders env @ h\<rparr>])"
  by (cases "http w \<lparr>hc_method = m, hc_url = fe_url env @ p, hc_body = b, hc_headers = getInternalHeaders env @ h\<rparr>")
     (auto simp: request_def send_def)

lemma null_if_missing_sends:
  "\<exists>r. null_if_missing http env p m f w = (r, w @ [\<lparr>hc_method = GET, hc_url = fe_url env @ p, hc_body = JUndef, hc_headers = getInternalHeaders env\<rparr>])
     \<and> (\<forall>e. r = Inl e \<longrightarrow> (\<exists>st msg. e = Http st msg))"
  by (auto simp: null_if_missing_def send_def split: http_result.splits)

interpretation finance_request: finance_operation env "request http env m p b h f" for env http m p b h f
proof
  fix w
  show "\<exists>cs. snd (request http env m p b h f w) = w @ cs \<and> (\<forall>c\<in>set cs. authentic env c)"
    by (rule request_cases [of http w m env p b h f]) auto
  show "\<exists>st msg. e = Http st msg" if "fst (request http env m p b h f w) = Inl e" for e
    using that by (cases rule: request_cases [of http w m env p b h f]) auto
qed

interpretation finance_lookup: finance_operation env "null_if_missing http env p m f" for env http p m f
proof
  fix w
  show "\<exists>cs. snd (null_if_missing http env p m f w) = w @ cs \<and> (\<forall>c\<in>set cs. authentic env c)"
    using null_if_missing_sends [of http env p m f w] by auto
  show "\<exists>st msg. e = Http st msg" if "fst (null_if_missing http env p m f w) = Inl e" for e
    using null_if_missing_sends [of http env p m f w] that by auto
qed

interpretation finance_default: finance_operation env "default_on_error http env p d" for env http p d
proof
  fix w
  show "\<exists>cs. snd (default_on_error http env p d w) = w @ cs \<and> (\<forall>c\<in>set cs. authentic env c)"
    by (auto simp: default_on_error_def send_def split: http_result.splits)
  show "\<exists>st msg. e = Http st msg" if "fst (default_on_error http env p d w) = Inl e" for e
    using that by (auto simp: default_on_error_def send_def split: http_result.splits)
qed

section \<open>Properties\<close>

text \<open>The three calls of a top-up.\<close>

definition topUp_calls :: "finance_env \<Rightarrow> string \<Rightarrow> json \<Rightarrow> jsnum \<Rightarrow> string \<Rightarrow> http_call list" where
  "topUp_calls env userId accountId amount ref =
     [\<lparr>hc_method = GET, hc_url = fe_url env @ ''/api/finance/wallets/'' @ userId, hc_body = JUndef, hc_headers = getInternalHeaders env\<rparr>,
      \<lparr>hc_method = POST, hc_url = fe_url env @ ''/api/finance/payments'',
       hc_body = JObj [(''accountId'', accountId), (''referenceId'', JStr ref), (''amount'', number_text amount), (''type'', JStr ''TOPUP'')],
       hc_headers = getInternalHeaders env\<rparr>,
      \<lparr>hc_method = POST, hc_url = fe_url env @ ''/api/finance/webhooks'',
       hc_body = JObj [(''reference_id'', JStr ref), (''status'', JStr ''SUCCESS''), (''signature'', JStr ''mock_signature_verified'')],
       hc_headers = getInternalHeaders env\<rparr>]"

lemma topUp_calls_take:
  "take 1 (topUp_calls env u a n r) = take 1 (topUp_calls env u a' n r)"
  "take 2 (topUp_calls env u a n r) = take 1 (topUp_calls env u a n r) @ [topUp_calls env u a n r ! 1]"
  "take 3 (topUp_calls env u a n r) = take 2 (topUp_calls env u a n r) @ [topUp_calls env u a n r ! 2]"
  by (simp_all add: topUp_calls_def numeral_2_eq_2 numeral_3_eq_3)

lemma topUp_calls_authentic: "c \<in> set (take k (topUp_calls env u a n r)) \<Longrightarrow> authentic env c"
  by (drule in_set_takeD) (auto simp: topUp_calls_def)

text \<open>The state after \<open>k\<close> calls, and what the result then is.\<close>

definition topUp_progress :: "finance_env \<Rightarrow> string \<Rightarrow> jsnum \<Rightarrow> string \<Rightarrow> wire \<Rightarrow> json result \<times> wire \<Rightarrow> bool" where
  "topUp_progress env userId amount ref w res \<longleftrightarrow>
     (\<exists>k acc. snd res = w @ take k (topUp_calls env userId acc amount ref) \<and> 1 \<le> k \<and> k \<le> 3
       \<and> (\<forall>c\<in>set (take k (topUp_calls env userId acc amount ref)). authentic env c)
       \<and> (case fst res of Inr v \<Rightarrow> k = 3 \<and> jget ''referenceId'' v = JStr ref | Inl e \<Rightarrow> \<exists>status msg. e = Http status msg))"

lemma topUp_progressI:
  assumes "1 \<le> k" "k \<le> 3" "case r of Inr v \<Rightarrow> k = 3 \<and> jget ''referenceId'' v = JStr ref | Inl e \<Rightarrow> \<exists>status msg. e = Http status msg"
  shows "topUp_progress env u n ref w (r, w @ take k (topUp_calls env u acc n ref))"
  using assms topUp_calls_authentic unfolding topUp_progress_def by fastforce

lemma getWallet_sends:
  "\<exists>r. getWallet http env u w = (r, w @ take 1 (topUp_calls env u a n ref)) \<and> (\<forall>e. r = Inl e \<longrightarrow> (\<exists>st msg. e = Http st msg))"
  unfolding getWallet_def topUp_calls_def
  using null_if_missing_sends [of http env "''/api/finance/wallets/'' @ u" JNull "''Failed to get wallet''" w] by simp

lemma topUp_after_wallet:
  assumes g: "getWallet http env userId w = (Inr d, w @ take 1 (topUp_calls env userId (jget ''accountId'' d) amount ref))" and "truthy d"
  shows "topUp_progress env userId amount ref w (topUp http env userId amount ref w)"
proof -
  let ?acc = "jget ''accountId'' d" and ?f = "''Failed to process top up''"
  let ?cs = "topUp_calls env userId ?acc amount ref"
  let ?b2 = "JObj [(''accountId'', ?acc), (''referenceId'', JStr ref), (''amount'', number_text amount), (''type'', JStr ''TOPUP'')]"
  let ?b3 = "JObj [(''reference_id'', JStr ref), (''status'', JStr ''SUCCESS''), (''signature'', JStr ''mock_signature_verified'')]"
  have c2: "w @ take 1 ?cs @ [\<lparr>hc_method = POST, hc_url = fe_url env @ ''/api/finance/payments'', hc_body = ?b2,
      hc_headers = getInternalHeaders env @ []\<rparr>] = w @ take 2 ?cs" by (simp add: topUp_calls_def numeral_2_eq_2)
  have c3: "w @ take 2 ?cs @ [\<lparr>hc_method = POST, hc_url = fe_url env @ ''/api/finance/webhooks'', hc_body = ?b3,
      hc_headers = getInternalHeaders env @ []\<rparr>] = w @ take 3 ?cs" by (simp add: topUp_calls_def numeral_2_eq_2 numeral_3_eq_3)
  show ?thesis
  proof (cases rule: request_cases [of http "w @ take 1 ?cs" POST env "''/api/finance/payments''" ?b2 "[]" ?f])
    case (error st msg)
    then have "topUp http env userId amount ref w = (Inl (Http st msg), w @ take 2 ?cs)"
      using g assms(2) c2 by (simp add: topUp_def Let_def)
    then show ?thesis using topUp_progressI by simp
  next
    case (ok d2)
    then have r2: "request http env POST ''/api/finance/payments'' ?b2 [] ?f (w @ take 1 ?cs) = (Inr d2, w @ take 2 ?cs)"
      using c2 by simp
    show ?thesis
    proof (cases rule: request_cases [of http "w @ take 2 ?cs" POST env "''/api/finance/webhooks''" ?b3 "[]" ?f])
      case (error st msg)
      then have "topUp http env userId amount ref w = (Inl (Http st msg), w @ take 3 ?cs)"
        using g assms(2) r2 c3 by (simp add: topUp_def Let_def)
      then show ?thesis using topUp_progressI by simp
    next
      case (ok d3)
      then obtain v where "topUp http env userId amount ref w = (Inr v, w @ take 3 ?cs)" "jget ''referenceId'' v = JStr ref"
        using g assms(2) r2 c3 by (simp add: topUp_def Let_def)
      then show ?thesis using topUp_progressI [of 3] by simp
    qed
  qed
qed

text \<open>
  A top-up is three calls in order. \<open>topUp\<close> reads the wallet, creates the payment intent
  on the account of that wallet and then settles the same reference; it stops at the first call that
  fails, so an intent is never created without a wallet and never settled unless it was created; it
  succeeds only after all three, each authenticated; and every failure is an HTTP exception.
\<close>

theorem topUp_three_steps:
  "\<exists>k acc. snd (topUp http env userId amount ref w) = w @ take k (topUp_calls env userId acc amount ref)
     \<and> 1 \<le> k \<and> k \<le> 3 \<and> list_all (authentic env) (take k (topUp_calls env userId acc amount ref))
     \<and> (case fst (topUp http env userId amount ref w) of
          Inr v \<Rightarrow> k = 3 \<and> jget ''referenceId'' v = JStr ref
        | Inl e \<Rightarrow> \<exists>status msg. e = Http status msg)"
proof -
  obtain r where r: "getWallet http env userId w = (r, w @ take 1 (topUp_calls env userId JNull amount ref))"
    "\<forall>e. r = Inl e \<longrightarrow> (\<exists>st msg. e = Http st msg)"
    using getWallet_sends by blast
  have "topUp_progress env userId amount ref w (topUp http env userId amount ref w)"
  proof (cases "\<exists>d. r = Inr d \<and> truthy d")
    case True
    then obtain d where "r = Inr d" "truthy d" by blast
    with r topUp_calls_take(1) [of env userId JNull amount ref "jget ''accountId'' d"] show ?thesis
      by (intro topUp_after_wallet [of _ _ _ _ d]) simp_all
  next
    case False
    then have "topUp http env userId amount ref w = (Inl (Http BAD_GATEWAY (error_message None ''Failed to process top up'')),
        w @ take 1 (topUp_calls env userId JNull amount ref))"
      using r by (cases r) (auto simp: topUp_def Let_def)
    then show ?thesis using topUp_progressI [of 1] by simp
  qed
  then show ?thesis unfolding topUp_progress_def list_all_iff .
qed

end
