(* ===== verification/Merchants.thy ===== *)
theory Merchants
  imports Terminal_Security Finance_Client
begin

text \<open>
  The merchant service (\<open>modules/merchant/merchant.service.ts\<close>) without its payments: partners, their
  applications and approval, branches and terminals, the authentication of terminal requests
  (\<open>core/common/guards/terminal-auth.guard.ts\<close>), redemptions at a terminal and the nightly settlement.
\<close>

section \<open>Data\<close>

datatype partner_status = PENDING_REVIEW | PartnerActive | PartnerInactive | PartnerSuspended | PartnerRejected
datatype partner_type = SME | CORPORATE
datatype terminal_status = TerminalActive | TerminalRevoked
datatype payment_status = PaymentPending | PaymentCompleted | PaymentFailed | PaymentExpired
datatype application_status = ApplicationPending | ApplicationApproved | ApplicationRejected

text \<open>
  \<open>financeAccounts\<close> and \<open>metadata\<close> are JSON columns; the profile, a row of its own with only optional
  columns and a unique partner, is kept with its partner.
\<close>

record partner =
  pt_id :: string
  pt_userId :: "string option"
  pt_name :: string
  pt_taxId :: "string option"
  pt_type :: partner_type
  pt_financeAccounts :: json
  pt_isPaymentEnabled :: bool
  pt_isLoyaltyEnabled :: bool
  pt_feeRate :: rat
  pt_dailyReceiveLimit :: rat
  pt_status :: partner_status
  pt_metadata :: json
  pt_profile :: "json option"
  pt_createdAt :: date

record merchant =
  mc_id :: string
  mc_partnerId :: string
  mc_name :: string
  mc_category :: "string option"
  mc_location :: json
  mc_address :: "string option"
  mc_isActive :: bool

record terminal =
  tm_id :: string
  tm_merchantId :: string
  tm_name :: "string option"
  tm_secretKey :: string
  tm_hardwareId :: "string option"
  tm_status :: terminal_status
  tm_createdAt :: date

record merchant_payment =
  mp_id :: string
  mp_merchantId :: string
  mp_terminalId :: "string option"
  mp_amount :: rat
  mp_currency :: string
  mp_status :: payment_status
  mp_idempotencyKey :: string
  mp_referenceId :: "string option"
  mp_note :: "string option"
  mp_metadata :: json
  mp_expiresAt :: date
  mp_createdAt :: date

record application =
  ma_id :: string
  ma_partnerId :: string
  ma_userId :: string
  ma_businessName :: string
  ma_businessNameEn :: "string option"
  ma_category :: string
  ma_salesChannel :: string
  ma_contactName :: string
  ma_email :: string
  ma_phone :: string
  ma_taxId :: string
  ma_address :: string
  ma_addressDetail :: "string option"
  ma_ownerIdCardNumber :: "string option"
  ma_ownerBirthDate :: "string option"
  ma_images :: "string list"
  ma_location :: json
  ma_status :: application_status
  ma_reviewNote :: "string option"
  ma_createdAt :: date

record merchant_db = idem_db +
  partners :: "partner list"
  merchants :: "merchant list"
  terminals :: "terminal list"
  merchantPayment :: "merchant_payment list"
  applications :: "application list"
  auditLog :: "audit_log list"
  net :: wire

definition find_partner :: "string \<Rightarrow> 'a merchant_db_scheme \<Rightarrow> partner option" where
  "find_partner i s = find (\<lambda>p. pt_id p = i) (partners s)"

definition find_merchant :: "string \<Rightarrow> 'a merchant_db_scheme \<Rightarrow> merchant option" where
  "find_merchant i s = find (\<lambda>m. mc_id m = i) (merchants s)"

definition find_terminal :: "string \<Rightarrow> 'a merchant_db_scheme \<Rightarrow> terminal option" where
  "find_terminal i s = find (\<lambda>t. tm_id t = i) (terminals s)"

text \<open>A call of the finance client, and a row of the audit log.\<close>

definition finance :: "(wire, 'r) handler \<Rightarrow> ('a merchant_db_scheme, 'r) handler" where
  "finance op s = (case op (net s) of (r, w) \<Rightarrow> (r, s\<lparr>net := w\<rparr>))"

definition audit :: "audit_log \<Rightarrow> 'a merchant_db_scheme \<Rightarrow> 'a merchant_db_scheme" where
  "audit l s = s\<lparr>auditLog := log_audit l (auditLog s)\<rparr>"

text \<open>The audit rows of this service name no administrator and no real address.\<close>

definition audit_row :: "date \<Rightarrow> audit_action \<Rightarrow> resource_type \<Rightarrow> string \<Rightarrow> string \<Rightarrow> json \<Rightarrow> nat \<Rightarrow> audit_log" where
  "audit_row now action resource resourceId agent payload status =
     \<lparr>al_adminUserId = None, al_userId = None, al_action = action, al_resourceType = resource,
      al_resourceId = resourceId, al_ipAddress = Some ''0.0.0.0'', al_userAgent = Some agent,
      al_requestPayload = payload, al_responseStatus = status, al_changes = None, al_reason = None, al_createdAt = now\<rparr>"

section \<open>Terminals\<close>

text \<open>
  The HMAC of Node's crypto library is the parameter \<open>hmac\<close>: key and message to hexadecimal text.
  \<open>toUpperCase\<close> acts on the ASCII letters of the HTTP method.
\<close>

definition upper :: "char \<Rightarrow> char" where
  "upper c = (if 97 \<le> (of_char c :: nat) \<and> (of_char c :: nat) \<le> 122 then char_of ((of_char c :: nat) - 32) else c)"

definition signed_message :: "string \<Rightarrow> string \<Rightarrow> string \<Rightarrow> string \<Rightarrow> string" where
  "signed_message meth path timestamp nonce =
     map upper meth @ '':'' @ path @ '':'' @ timestamp @ '':'' @ nonce"

definition validateTerminalSignature :: "(string \<Rightarrow> string \<Rightarrow> string) \<Rightarrow> string \<Rightarrow> string \<Rightarrow> string \<Rightarrow> string \<Rightarrow> string \<Rightarrow> string
    \<Rightarrow> 'a merchant_db_scheme \<Rightarrow> bool" where
  "validateTerminalSignature hmac terminalId signature timestamp nonce meth path s =
     (case find_terminal terminalId s of
        None \<Rightarrow> False
      | Some t \<Rightarrow>
          if tm_status t \<noteq> TerminalActive then False
          else (let computed = hmac (tm_secretKey t) (signed_message meth path timestamp nonce)
                in if length computed \<noteq> length signature then False else computed = signature))"

record terminal_headers =
  th_terminalId :: "string option"
  th_signature :: "string option"
  th_timestamp :: "string option"
  th_nonce :: "string option"

definition header_ok :: "string option \<Rightarrow> bool" where
  "header_ok h = (case h of None \<Rightarrow> False | Some t \<Rightarrow> t \<noteq> [])"

text \<open>The guard returns the terminal id that it attaches to the request.\<close>

definition canActivate :: "(string \<Rightarrow> string \<Rightarrow> string) \<Rightarrow> int \<Rightarrow> terminal_headers \<Rightarrow> string \<Rightarrow> string
    \<Rightarrow> 'a merchant_db_scheme \<Rightarrow> redis \<Rightarrow> string result \<times> redis" where
  "canActivate hmac ms h meth url s r =
     (if \<not> (header_ok (th_terminalId h) \<and> header_ok (th_signature h) \<and> header_ok (th_timestamp h) \<and> header_ok (th_nonce h))
      then (Inl (Http UNAUTHORIZED ''Missing or invalid terminal authentication headers''), r)
      else let terminalId = the (th_terminalId h); signature = the (th_signature h);
               timestamp = the (th_timestamp h); nonce = the (th_nonce h)
           in if \<not> validateTerminalSignature hmac terminalId signature timestamp nonce meth url s
              then (Inl (Http FORBIDDEN ''Invalid terminal signature or expired request''), r)
              else case validateNonce ms terminalId nonce timestamp r of
                (Inl e, r') \<Rightarrow> (Inl e, r')
              | (Inr _, r') \<Rightarrow> (Inr terminalId, r'))"

text \<open>
  The unique columns of a terminal: \<open>secretKey\<close>, and \<open>hardwareId\<close> where it is given. Random text is an
  argument.
\<close>

definition insert_terminal :: "terminal \<Rightarrow> 'a merchant_db_scheme \<Rightarrow> 'a merchant_db_scheme option" where
  "insert_terminal t s =
     (if \<exists>q\<in>set (terminals s). tm_id q = tm_id t \<or> tm_secretKey q = tm_secretKey t
          \<or> (tm_hardwareId t \<noteq> None \<and> tm_hardwareId q = tm_hardwareId t)
      then None else Some (s\<lparr>terminals := terminals s @ [t]\<rparr>))"

definition createTerminal :: "date \<Rightarrow> string \<Rightarrow> string \<Rightarrow> string \<Rightarrow> string \<Rightarrow> string \<Rightarrow> string option
    \<Rightarrow> ('a merchant_db_scheme, terminal) handler" where
  "createTerminal now newId randomKey randomHw merchantId name hardwareId s =
     (case find_merchant merchantId s of
        None \<Rightarrow> (Inl (Http NOT_FOUND ''Merchant not found''), s)
      | Some m \<Rightarrow>
          (case find_partner (mc_partnerId m) s of
             None \<Rightarrow> (Inl (Plain ''partner is required''), s)
           | Some p \<Rightarrow>
               if pt_type p = SME \<and> 1 \<le> count_where (\<lambda>t. tm_merchantId t = merchantId) (terminals s)
               then (Inl (Http BAD_REQUEST ''SME merchants are restricted to a single terminal node.''), s)
               else let hw = (case hardwareId of Some (c # t) \<Rightarrow> c # t | _ \<Rightarrow> ''HW-'' @ map upper randomHw);
                        t = \<lparr>tm_id = newId, tm_merchantId = merchantId, tm_name = Some name, tm_secretKey = ''sk_'' @ randomKey,
                             tm_hardwareId = Some hw, tm_status = TerminalActive, tm_createdAt = now\<rparr>
                    in case insert_terminal t s of
                      None \<Rightarrow> (Inl (Prisma ''P2002''), s)
                    | Some s' \<Rightarrow> (Inr t, audit (audit_row now CREATE TERMINAL newId ''System/Admin''
                        (JObj [(''merchantId'', JStr merchantId), (''name'', JStr name), (''hardwareId'', JStr hw)]) 201) s')))"

definition rotateTerminalSecret :: "string \<Rightarrow> string \<Rightarrow> ('a merchant_db_scheme, string \<times> string option \<times> string) handler" where
  "rotateTerminalSecret newSecret terminalId s =
     (case find_terminal terminalId s of
        None \<Rightarrow> (Inl (Http NOT_FOUND ''Terminal not found''), s)
      | Some t \<Rightarrow>
          if \<exists>q\<in>set (terminals s). tm_id q \<noteq> terminalId \<and> tm_secretKey q = newSecret then (Inl (Prisma ''P2002''), s)
          else (Inr (tm_id t, tm_name t, newSecret),
                s\<lparr>terminals := update_where (\<lambda>t. tm_id t = terminalId) (\<lambda>t. t\<lparr>tm_secretKey := newSecret\<rparr>) (terminals s)\<rparr>))"

text \<open>Rows as the handlers return them.\<close>

definition terminal_json :: "terminal \<Rightarrow> json" where
  "terminal_json t = JObj [(''id'', JStr (tm_id t)), (''merchantId'', JStr (tm_merchantId t)), (''name'', jopt (tm_name t)),
     (''secretKey'', JStr (tm_secretKey t)), (''hardwareId'', jopt (tm_hardwareId t)),
     (''status'', JStr (case tm_status t of TerminalActive \<Rightarrow> ''ACTIVE'' | TerminalRevoked \<Rightarrow> ''REVOKED'')),
     (''createdAt'', JDate (tm_createdAt t))]"

definition findTerminalsByMerchantId :: "string \<Rightarrow> 'a merchant_db_scheme \<Rightarrow> json" where
  "findTerminalsByMerchantId merchantId s =
     maskMerchantSecrets (JArr (map terminal_json (filter (\<lambda>t. tm_merchantId t = merchantId) (terminals s))))"

text \<open>A branch with its terminals, as \<open>include: { terminals: true }\<close> returns it.\<close>

definition merchant_json :: "'a merchant_db_scheme \<Rightarrow> merchant \<Rightarrow> json" where
  "merchant_json s m = JObj [(''id'', JStr (mc_id m)), (''partnerId'', JStr (mc_partnerId m)), (''name'', JStr (mc_name m)),
     (''category'', jopt (mc_category m)), (''location'', mc_location m), (''address'', jopt (mc_address m)),
     (''isActive'', JBool (mc_isActive m)),
     (''terminals'', JArr (map terminal_json (filter (\<lambda>t. tm_merchantId t = mc_id m) (terminals s))))]"

definition findPartnerMerchants :: "string \<Rightarrow> 'a merchant_db_scheme \<Rightarrow> json" where
  "findPartnerMerchants partnerId s = JArr (map (merchant_json s) (filter (\<lambda>m. mc_partnerId m = partnerId) (merchants s)))"

definition getMerchantTerminals :: "string \<Rightarrow> ('a merchant_db_scheme, json) handler" where
  "getMerchantTerminals userId s =
     (case find (\<lambda>p. pt_userId p = Some userId) (partners s) of
        None \<Rightarrow> (Inl (Http NOT_FOUND ''Partner not found''), s)
      | Some p \<Rightarrow> (Inr (JArr (concat (map (\<lambda>m. map (\<lambda>t.
           JObj [(''id'', JStr (tm_id t)), (''name'', jopt (tm_name t)), (''hardwareId'', jopt (tm_hardwareId t)),
             (''status'', JStr (case tm_status t of TerminalActive \<Rightarrow> ''ACTIVE'' | TerminalRevoked \<Rightarrow> ''REVOKED'')),
             (''createdAt'', JDate (tm_createdAt t)), (''branchName'', JStr (mc_name m))])
           (filter (\<lambda>t. tm_merchantId t = mc_id m) (terminals s)))
         (filter (\<lambda>m. mc_partnerId m = pt_id p) (merchants s))))), s))"

section \<open>Partners\<close>

fun partner_status_name :: "partner_status \<Rightarrow> string" where
  "partner_status_name PENDING_REVIEW = ''PENDING_REVIEW''"
| "partner_status_name PartnerActive = ''ACTIVE''"
| "partner_status_name PartnerInactive = ''INACTIVE''"
| "partner_status_name PartnerSuspended = ''SUSPENDED''"
| "partner_status_name PartnerRejected = ''REJECTED''"

text \<open>
  A decimal of the database client is an instance of a third-party class; its own enumerable
  properties are the parameter \<open>dec\<close>.
\<close>

definition partner_fields :: "(rat \<Rightarrow> (string \<times> json) list) \<Rightarrow> partner \<Rightarrow> (string \<times> json) list" where
  "partner_fields dec p = [(''id'', JStr (pt_id p)), (''userId'', jopt (pt_userId p)), (''name'', JStr (pt_name p)),
     (''taxId'', jopt (pt_taxId p)), (''type'', JStr (case pt_type p of SME \<Rightarrow> ''SME'' | CORPORATE \<Rightarrow> ''CORPORATE'')),
     (''financeAccounts'', pt_financeAccounts p), (''isPaymentEnabled'', JBool (pt_isPaymentEnabled p)),
     (''isLoyaltyEnabled'', JBool (pt_isLoyaltyEnabled p)), (''feeRate'', JInst (dec (pt_feeRate p))),
     (''dailyReceiveLimit'', JInst (dec (pt_dailyReceiveLimit p))), (''status'', JStr (partner_status_name (pt_status p))),
     (''metadata'', pt_metadata p), (''createdAt'', JDate (pt_createdAt p))]"

definition branch_count :: "'a merchant_db_scheme \<Rightarrow> partner \<Rightarrow> nat" where
  "branch_count s p = count_where (\<lambda>m. mc_partnerId m = pt_id p) (merchants s)"

definition count_field :: "nat \<Rightarrow> string \<times> json" where
  "count_field n = (''_count'', JObj [(''merchants'', JNum (Fin (of_nat n)))])"

record list_query =
  lq_page :: "nat option"
  lq_limit :: "nat option"
  lq_search :: "string option"
  lq_status :: "string option"

definition search_ok :: "string option \<Rightarrow> string list \<Rightarrow> bool" where
  "search_ok q texts = (case q of Some (c # t) \<Rightarrow> list_ex (icontains (c # t)) texts | _ \<Rightarrow> True)"

definition status_ok :: "string option \<Rightarrow> string \<Rightarrow> bool" where
  "status_ok q name = (case q of Some (c # t) \<Rightarrow> c # t = ''ALL'' \<or> c # t = name | _ \<Rightarrow> True)"

definition opt_text :: "string option \<Rightarrow> string list" where
  "opt_text v = (case v of None \<Rightarrow> [] | Some t \<Rightarrow> [t])"

definition findAllPartners :: "(rat \<Rightarrow> (string \<times> json) list) \<Rightarrow> list_query \<Rightarrow> 'a merchant_db_scheme \<Rightarrow> json \<times> pagination" where
  "findAllPartners dec q s =
     (case paginate 10 (lq_page q) (lq_limit q) (sort_key (\<lambda>p. - time_value (pt_createdAt p))
        (filter (\<lambda>p. search_ok (lq_search q) (pt_name p # opt_text (pt_taxId p))
                  \<and> status_ok (lq_status q) (partner_status_name (pt_status p))) (partners s)))
      of (rows, pg) \<Rightarrow>
        (maskMerchantSecrets (JArr (map (\<lambda>p. JObj (partner_fields dec p @ [count_field (branch_count s p)])) rows)), pg))"

text \<open>
  Presigned links come from the storage service (\<open>presign\<close>, a parameter); an image whose link fails
  keeps its stored text.
\<close>

definition presign_images :: "(string \<Rightarrow> string option) \<Rightarrow> application \<Rightarrow> application" where
  "presign_images presign a = a\<lparr>ma_images := map (\<lambda>i. case presign i of None \<Rightarrow> i | Some u \<Rightarrow> u) (ma_images a)\<rparr>"

fun application_status_name :: "application_status \<Rightarrow> string" where
  "application_status_name ApplicationPending = ''PENDING''"
| "application_status_name ApplicationApproved = ''APPROVED''"
| "application_status_name ApplicationRejected = ''REJECTED''"

definition findApplications :: "(string \<Rightarrow> string option) \<Rightarrow> list_query \<Rightarrow> 'a merchant_db_scheme \<Rightarrow> application list \<times> pagination" where
  "findApplications presign q s =
     (case paginate 10 (lq_page q) (lq_limit q) (sort_key (\<lambda>a. - time_value (ma_createdAt a))
        (filter (\<lambda>a. status_ok (lq_status q) (application_status_name (ma_status a))
                  \<and> search_ok (lq_search q) [ma_businessName a, ma_taxId a, ma_contactName a]) (applications s)))
      of (rows, pg) \<Rightarrow> (map (presign_images presign) rows, pg))"

text \<open>\<open>upsert\<close> of the profile writes the given fields over the stored ones.\<close>

fun merge_fields :: "json \<Rightarrow> json \<Rightarrow> json" where
  "merge_fields (JObj old) (JObj new) =
     JObj (map (\<lambda>(k, v). (k, case map_of new k of Some w \<Rightarrow> if w = JUndef then v else w | None \<Rightarrow> v)) old
           @ filter (\<lambda>(k, v). k \<notin> set (map fst old)) new)"
| "merge_fields old new = new"

definition updatePartner :: "string \<Rightarrow> string option \<Rightarrow> string option \<Rightarrow> json option \<Rightarrow> ('a merchant_db_scheme, partner) handler" where
  "updatePartner i name taxId profile s =
     (let f = (\<lambda>p. p\<lparr>pt_name := or_keep name (pt_name p), pt_taxId := keep_opt taxId (pt_taxId p),
                     pt_profile := (case profile of None \<Rightarrow> pt_profile p
                        | Some v \<Rightarrow> if \<not> truthy v then pt_profile p
                                   else Some (case pt_profile p of None \<Rightarrow> v | Some old \<Rightarrow> merge_fields old v))\<rparr>)
      in case find_partner i s of
        None \<Rightarrow> (Inl (Prisma ''P2025''), s)
      | Some p \<Rightarrow>
          if taxId \<noteq> None \<and> (\<exists>q\<in>set (partners s). pt_id q \<noteq> i \<and> pt_taxId q = taxId) then (Inl (Prisma ''P2002''), s)
          else (Inr (f p), s\<lparr>partners := update_where (\<lambda>p. pt_id p = i) f (partners s)\<rparr>))"

definition updatePartnerStatus :: "date \<Rightarrow> string \<Rightarrow> bool \<Rightarrow> ('a merchant_db_scheme, partner) handler" where
  "updatePartnerStatus now i status s =
     (let f = (\<lambda>p. p\<lparr>pt_status := (if status then PartnerActive else PartnerInactive)\<rparr>)
      in case find_partner i s of
        None \<Rightarrow> (Inl (Prisma ''P2025''), s)
      | Some p \<Rightarrow> (Inr (f p),
          audit (audit_row now (if status then ACTIVATE else DEACTIVATE) PARTNER i ''System/Admin'' (JObj [(''status'', JBool status)]) 200)
            (s\<lparr>partners := update_where (\<lambda>p. pt_id p = i) f (partners s)\<rparr>)))"

text \<open>
  The balances shown with a partner: for each account id that is set, in this order; one failing
  lookup gives the partner back with the ids instead.
\<close>

fun fetch_balances :: "http \<Rightarrow> finance_env \<Rightarrow> json \<Rightarrow> string list \<Rightarrow> (string \<times> json) list \<Rightarrow> (wire, json) handler" where
  "fetch_balances http env accounts [] acc w = (Inr (JObj acc), w)"
| "fetch_balances http env accounts (k # ks) acc w =
     (if \<not> truthy (jget k accounts) then fetch_balances http env accounts ks acc w
      else case getAccountDetail http env (case jget k accounts of JStr t \<Rightarrow> t | _ \<Rightarrow> []) w of
        (Inl e, w') \<Rightarrow> (Inl e, w')
      | (Inr d, w') \<Rightarrow> fetch_balances http env accounts ks (acc @ [(k, jget ''balance'' d)]) w')"

definition account_names :: "string list" where
  "account_names = [''available'', ''pending'', ''fee'', ''vat'']"

definition partner_detail :: "(rat \<Rightarrow> (string \<times> json) list) \<Rightarrow> 'a merchant_db_scheme \<Rightarrow> partner \<Rightarrow> (string \<times> json) list" where
  "partner_detail dec s p = partner_fields dec p @
     [(''profile'', case pt_profile p of None \<Rightarrow> JNull | Some v \<Rightarrow> v),
      (''merchants'', findPartnerMerchants (pt_id p) s), count_field (branch_count s p)]"

definition findPartnerById :: "http \<Rightarrow> finance_env \<Rightarrow> (string \<Rightarrow> string option) \<Rightarrow> (rat \<Rightarrow> (string \<times> json) list) \<Rightarrow> string
    \<Rightarrow> ('a merchant_db_scheme, json \<times> application list) handler" where
  "findPartnerById http env presign dec i s =
     (case find_partner i s of
        None \<Rightarrow> (Inl (Http NOT_FOUND ''Partner not found''), s)
      | Some p \<Rightarrow>
          let apps = map (presign_images presign) (sort_key (\<lambda>a. - time_value (ma_createdAt a))
                       (filter (\<lambda>a. ma_partnerId a = i) (applications s)));
              accounts = pt_financeAccounts p
          in if truthy accounts \<and> list_ex (\<lambda>k. truthy (jget k accounts)) account_names
             then case finance (fetch_balances http env accounts account_names []) s of
                 (Inr balances, s') \<Rightarrow> (Inr (JObj (partner_detail dec s (p\<lparr>pt_financeAccounts := balances\<rparr>)), apps), s')
               | (Inl e, s') \<Rightarrow> (Inr (JObj (partner_detail dec s p), apps), s')
             else (Inr (JObj (partner_detail dec s p), apps), s))"

section \<open>Creating partners and branches\<close>

text \<open>
  \<open>Promise.all\<close> of account creations: every call is sent; the first failure, if any, is thrown.
\<close>

fun create_accounts :: "http \<Rightarrow> finance_env \<Rightarrow> string \<Rightarrow> (string \<times> string option) list \<Rightarrow> (wire, json list) handler" where
  "create_accounts http env owner [] w = (Inr [], w)"
| "create_accounts http env owner ((name, type) # rest) w =
     (case createAccount http env owner name ''THB'' type w of (r, w1) \<Rightarrow>
      case create_accounts http env owner rest w1 of (rs, w2) \<Rightarrow>
        ((case (r, rs) of (Inl e, _) \<Rightarrow> Inl e | (Inr _, Inl e) \<Rightarrow> Inl e | (Inr d, Inr ds) \<Rightarrow> Inr (d # ds)), w2))"

definition createPartnerManual :: "http \<Rightarrow> finance_env \<Rightarrow> date \<Rightarrow> string \<Rightarrow> string \<Rightarrow> string option \<Rightarrow> json option
    \<Rightarrow> ('a merchant_db_scheme, partner) handler" where
  "createPartnerManual http env now newId name taxId profile s =
     (let p = \<lparr>pt_id = newId, pt_userId = None, pt_name = name, pt_taxId = taxId, pt_type = CORPORATE,
               pt_financeAccounts = JNull, pt_isPaymentEnabled = True, pt_isLoyaltyEnabled = True, pt_feeRate = 3 / 100,
               pt_dailyReceiveLimit = 1000000, pt_status = PartnerActive, pt_metadata = JNull,
               pt_profile = profile, pt_createdAt = now\<rparr>
      in if \<exists>q\<in>set (partners s). pt_id q = newId \<or> (taxId \<noteq> None \<and> pt_taxId q = taxId) then (Inl (Prisma ''P2002''), s)
         else let s1 = s\<lparr>partners := partners s @ [p]\<rparr>
              in case finance (create_accounts http env newId
                   [(name @ '' - Available'', None), (name @ '' - Pending'', None), (name @ '' - Fee'', None)]) s1 of
                (Inr [a, b, c], s2) \<Rightarrow>
                  let f = (\<lambda>p. p\<lparr>pt_financeAccounts := JObj [(''available'', jget ''id'' a), (''pending'', jget ''id'' b), (''fee'', jget ''id'' c)]\<rparr>)
                  in (Inr (f p), s2\<lparr>partners := update_where (\<lambda>q. pt_id q = newId) f (partners s2)\<rparr>)
              | (_, s2) \<Rightarrow> (Inr p, s2))"

definition createMerchant :: "string \<Rightarrow> string \<Rightarrow> string \<Rightarrow> string option \<Rightarrow> ('a merchant_db_scheme, merchant) handler" where
  "createMerchant newId partnerId name address s =
     (case find_partner partnerId s of
        None \<Rightarrow> (Inl (Http NOT_FOUND ''Partner not found''), s)
      | Some p \<Rightarrow>
          if pt_type p = SME \<and> 1 \<le> count_where (\<lambda>m. mc_partnerId m = partnerId) (merchants s)
          then (Inl (Http BAD_REQUEST ''SME partners are restricted to a single merchant branch.''), s)
          else if newId \<in> set (map mc_id (merchants s)) then (Inl (Prisma ''P2002''), s)
          else let m = \<lparr>mc_id = newId, mc_partnerId = partnerId, mc_name = name, mc_category = None, mc_location = JNull,
                        mc_address = address, mc_isActive = True\<rparr>
               in (Inr m, s\<lparr>merchants := merchants s @ [m]\<rparr>))"

section \<open>Decimal columns\<close>

text \<open>
  A \<open>Decimal(19, 4)\<close> column: a value is rounded to four places, halves away from zero, and refused when
  it does not fit or is not a number. A double is sent as its shortest text.
\<close>

definition decimal_19_4 :: "rat \<Rightarrow> rat option" where
  "decimal_19_4 x = (let n = round_up 4 x in if \<bar>n\<bar> < 10 ^ 19 then Some (of_int n / 10 ^ 4) else None)"

definition decimal_of_text :: "string \<Rightarrow> rat option" where
  "decimal_of_text t = (case t of
      c # u \<Rightarrow> if c = CHR ''-'' then map_option uminus (decimal_literal u)
               else case radix_literal t of Some n \<Rightarrow> Some (of_int n) | None \<Rightarrow> decimal_literal t
    | [] \<Rightarrow> None)"

fun decimal_column :: "json \<Rightarrow> rat option" where
  "decimal_column (JNum (Fin x)) = decimal_19_4 (shortest x)"
| "decimal_column (JText (FFix d n)) = decimal_19_4 (of_int n / 10 ^ d)"
| "decimal_column (JText (FExp x)) = decimal_19_4 (shortest x)"
| "decimal_column (JStr t) = Option.bind (decimal_of_text t) decimal_19_4"
| "decimal_column _ = None"

section \<open>Applications\<close>

text \<open>
  A database transaction around calls that leave the database: an exception rolls the tables back,
  but calls already sent and audit rows written outside the transaction stay.
\<close>

definition db_transaction :: "('a merchant_db_scheme, 'r) handler \<Rightarrow> ('a merchant_db_scheme, 'r) handler" where
  "db_transaction f s = (case f s of (Inl e, s') \<Rightarrow> (Inl e, s\<lparr>net := net s', auditLog := auditLog s'\<rparr>) | (Inr v, s') \<Rightarrow> (Inr v, s'))"

record apply_dto =
  ad_businessName :: string
  ad_businessNameEn :: "string option"
  ad_category :: string
  ad_salesChannel :: string
  ad_contactName :: string
  ad_email :: "string option"
  ad_phone :: string
  ad_taxId :: string
  ad_address :: string
  ad_addressDetail :: "string option"
  ad_latitude :: "string option"
  ad_longitude :: "string option"
  ad_ownerIdCardNumber :: "string option"
  ad_ownerBirthDate :: "string option"
  ad_images :: "string list option"

definition images_json :: "string list option \<Rightarrow> json" where
  "images_json v = (case v of None \<Rightarrow> JUndef | Some is \<Rightarrow> JArr (map JStr is))"

definition apply_json :: "apply_dto \<Rightarrow> json" where
  "apply_json b = JObj [(''businessName'', JStr (ad_businessName b)), (''businessNameEn'', jopt (ad_businessNameEn b)),
     (''category'', JStr (ad_category b)), (''salesChannel'', JStr (ad_salesChannel b)), (''contactName'', JStr (ad_contactName b)),
     (''email'', jopt (ad_email b)), (''phone'', JStr (ad_phone b)), (''taxId'', JStr (ad_taxId b)), (''address'', JStr (ad_address b)),
     (''addressDetail'', jopt (ad_addressDetail b)), (''latitude'', jopt (ad_latitude b)), (''longitude'', jopt (ad_longitude b)),
     (''ownerIdCardNumber'', jopt (ad_ownerIdCardNumber b)), (''ownerBirthDate'', jopt (ad_ownerBirthDate b)), (''images'', images_json (ad_images b))]"

text \<open>Thai phone numbers in international form.\<close>

definition formattedPhone :: "string \<Rightarrow> string" where
  "formattedPhone phone = (if starts_with ''0'' phone then ''+66'' @ tl phone else phone)"

definition body_location :: "apply_dto \<Rightarrow> json" where
  "body_location b = (if truthy (jopt (ad_latitude b)) \<and> truthy (jopt (ad_longitude b))
     then JObj [(''lat'', JNum (Number_json (jopt (ad_latitude b)))), (''lng'', JNum (Number_json (jopt (ad_longitude b))))] else JNull)"

definition or_empty :: "string option \<Rightarrow> string" where
  "or_empty v = (case v of None \<Rightarrow> [] | Some t \<Rightarrow> t)"

definition partner_data :: "string \<Rightarrow> apply_dto \<Rightarrow> partner \<Rightarrow> partner" where
  "partner_data userId b p = p\<lparr>pt_userId := Some userId, pt_name := ad_businessName b, pt_taxId := Some (ad_taxId b),
     pt_status := PENDING_REVIEW,
     pt_metadata := JObj [(''contactName'', JStr (ad_contactName b)), (''email'', JStr (or_empty (ad_email b))),
       (''phone'', JStr (formattedPhone (ad_phone b))), (''address'', JStr (ad_address b)), (''addressDetail'', jopt (ad_addressDetail b)),
       (''category'', JStr (ad_category b)), (''businessNameEn'', jopt (ad_businessNameEn b)),
       (''images'', JArr (case ad_images b of None \<Rightarrow> [] | Some is \<Rightarrow> map JStr is)), (''location'', body_location b)]\<rparr>"

definition new_partner :: "date \<Rightarrow> string \<Rightarrow> partner" where
  "new_partner now newId = \<lparr>pt_id = newId, pt_userId = None, pt_name = [], pt_taxId = None, pt_type = SME,
     pt_financeAccounts = JNull, pt_isPaymentEnabled = True, pt_isLoyaltyEnabled = True, pt_feeRate = 3 / 100,
     pt_dailyReceiveLimit = 1000000, pt_status = PENDING_REVIEW, pt_metadata = JNull, pt_profile = None, pt_createdAt = now\<rparr>"

definition new_application :: "date \<Rightarrow> string \<Rightarrow> string \<Rightarrow> string \<Rightarrow> apply_dto \<Rightarrow> application" where
  "new_application now newId partnerId userId b =
     \<lparr>ma_id = newId, ma_partnerId = partnerId, ma_userId = userId, ma_businessName = ad_businessName b,
      ma_businessNameEn = ad_businessNameEn b, ma_category = ad_category b,
      ma_salesChannel = (if ad_salesChannel b = [] then ''PHYSICAL_STORE'' else ad_salesChannel b),
      ma_contactName = ad_contactName b, ma_email = or_empty (ad_email b), ma_phone = formattedPhone (ad_phone b),
      ma_taxId = ad_taxId b, ma_address = ad_address b, ma_addressDetail = ad_addressDetail b,
      ma_ownerIdCardNumber = ad_ownerIdCardNumber b, ma_ownerBirthDate = ad_ownerBirthDate b,
      ma_images = (case ad_images b of None \<Rightarrow> [] | Some is \<Rightarrow> is), ma_location = body_location b,
      ma_status = ApplicationPending, ma_reviewNote = None, ma_createdAt = now\<rparr>"

definition applyMerchant :: "date \<Rightarrow> string \<Rightarrow> string \<Rightarrow> string \<Rightarrow> apply_dto \<Rightarrow> ('a merchant_db_scheme, application) handler" where
  "applyMerchant now newPartnerId newAppId userId b s =
     (case find (\<lambda>p. pt_userId p = Some userId \<or> pt_taxId p = Some (ad_taxId b)) (partners s) of
        Some p \<Rightarrow>
          if pt_status p \<noteq> PartnerRejected
          then (Inl (Http BAD_REQUEST (if pt_userId p = Some userId
                  then ''You already have a merchant account or pending application''
                  else ''This Tax ID is already registered by another user'')), s)
          else if \<exists>q\<in>set (partners s). pt_id q \<noteq> pt_id p \<and> pt_taxId q = Some (ad_taxId b) then (Inl (Prisma ''P2002''), s)
          else let a = new_application now newAppId (pt_id p) userId b
               in (Inr a, audit (audit_row now CREATE MERCHANT newAppId ''User/Mobile'' (apply_json b) 201)
                    (s\<lparr>partners := update_where (\<lambda>q. pt_id q = pt_id p) (partner_data userId b) (partners s),
                      applications := applications s @ [a]\<rparr>))
      | None \<Rightarrow>
          let a = new_application now newAppId newPartnerId userId b
          in (Inr a, audit (audit_row now CREATE MERCHANT newAppId ''User/Mobile'' (apply_json b) 201)
               (s\<lparr>partners := partners s @ [partner_data userId b (new_partner now newPartnerId)],
                 applications := applications s @ [a]\<rparr>)))"

definition account_request :: "string \<Rightarrow> (string \<times> string option) list" where
  "account_request bizName = [(bizName @ '' - Available'', Some ''AVAILABLE''), (bizName @ '' - Pending'', Some ''PENDING''),
     (bizName @ '' - Fee'', Some ''FEE''), (bizName @ '' - VAT'', Some ''VAT'')]"

text \<open>The outer \<open>catch\<close> keeps the status of an HTTP exception and makes every other error a 500.\<close>

definition as_review_error :: "error \<Rightarrow> error" where
  "as_review_error e = (case e of Http st m \<Rightarrow> Http st (if m = [] then ''Review process failed'' else m)
     | Plain m \<Rightarrow> Http 500 (if m = [] then ''Review process failed'' else m) | Prisma c \<Rightarrow> Http 500 c)"

text \<open>Step 1 of an approval: four ledger accounts, with ids that are set and are not \<open>'0'\<close>.\<close>

definition approval_accounts :: "http \<Rightarrow> finance_env \<Rightarrow> application \<Rightarrow> ('a merchant_db_scheme, json) handler" where
  "approval_accounts http env a s =
     (let fail = Http SERVICE_UNAVAILABLE ''(cannot approve: the ledger failed)'';
          bizName = (if ma_businessName a = [] then ''Merchant '' @ ma_partnerId a else ma_businessName a)
      in case finance (create_accounts http env (ma_partnerId a) (account_request bizName)) s of
        (Inl e, s1) \<Rightarrow> (Inl fail, s1)
      | (Inr accs, s1) \<Rightarrow>
          let ids = map (jget ''id'') accs
          in if list_ex (\<lambda>v. \<not> truthy v) ids \<or> list_ex (\<lambda>v. v = JStr ''0'') ids then (Inl fail, s1)
             else (Inr (JObj (zip account_names ids)), s1))"

definition approve_partner :: "application \<Rightarrow> json \<Rightarrow> rat \<Rightarrow> partner \<Rightarrow> partner" where
  "approve_partner a accounts fee p = p\<lparr>pt_status := PartnerActive, pt_type := SME, pt_feeRate := fee, pt_financeAccounts := accounts,
     pt_profile := Some (JObj [(''businessNameEn'', jopt (ma_businessNameEn a)), (''category'', JStr (ma_category a)),
       (''contactName'', JStr (ma_contactName a)), (''email'', JStr (ma_email a)), (''phone'', JStr (ma_phone a)),
       (''address'', JStr (ma_address a)), (''addressDetail'', jopt (ma_addressDetail a)), (''location'', ma_location a)])\<rparr>"

text \<open>Steps 4 and 5: a first branch and its terminal, unless the partner has a branch.\<close>

definition first_branch :: "date \<Rightarrow> string \<Rightarrow> string \<Rightarrow> string \<Rightarrow> application \<Rightarrow> ('a merchant_db_scheme, unit) handler" where
  "first_branch now newMerchantId newTerminalId randomKey a s =
     (if \<exists>m\<in>set (merchants s). mc_partnerId m = ma_partnerId a then (Inr (), s)
      else let m = \<lparr>mc_id = newMerchantId, mc_partnerId = ma_partnerId a, mc_name = ma_businessName a, mc_category = Some (ma_category a),
                    mc_location = ma_location a, mc_address = Some (ma_address a), mc_isActive = True\<rparr>;
               t = \<lparr>tm_id = newTerminalId, tm_merchantId = newMerchantId, tm_name = Some ''Main Terminal'', tm_secretKey = ''sk_'' @ randomKey,
                    tm_hardwareId = None, tm_status = TerminalActive, tm_createdAt = now\<rparr>
           in if newMerchantId \<in> set (map mc_id (merchants s)) then (Inl (Prisma ''P2002''), s)
              else case insert_terminal t (s\<lparr>merchants := merchants s @ [m]\<rparr>) of
                None \<Rightarrow> (Inl (Prisma ''P2002''), s) | Some s' \<Rightarrow> (Inr (), s'))"

definition approve_tx :: "http \<Rightarrow> finance_env \<Rightarrow> date \<Rightarrow> string \<Rightarrow> string \<Rightarrow> string \<Rightarrow> application \<Rightarrow> string option \<Rightarrow> json
    \<Rightarrow> ('a merchant_db_scheme, application) handler" where
  "approve_tx http env now newMerchantId newTerminalId randomKey a note accounts s =
     (let f = (\<lambda>a. a\<lparr>ma_status := ApplicationApproved, ma_reviewNote := keep_opt note (ma_reviewNote a)\<rparr>);
          s1 = s\<lparr>applications := update_where (\<lambda>b. ma_id b = ma_id a) f (applications s)\<rparr>
      in case finance (getSystemSettings http env) s1 of
        (Inl e, s2) \<Rightarrow> (Inl e, s2)
      | (Inr settings, s2) \<Rightarrow>
          if nullish settings then (Inl (Plain ''Cannot read properties of null''), s2)
          else (case decimal_column (jor (jget ''merchantFeeRate'' settings) (JNum (Fin (fl64 (3 / 100))))) of
             None \<Rightarrow> (Inl (Plain ''Invalid value for feeRate''), s2)
           | Some fee \<Rightarrow>
               (case find_partner (ma_partnerId a) s2 of
                  None \<Rightarrow> (Inl (Prisma ''P2025''), s2)
                | Some p \<Rightarrow>
                    if pt_profile p \<noteq> None then (Inl (Prisma ''P2014''), s2)
                    else (case first_branch now newMerchantId newTerminalId randomKey a
                            (s2\<lparr>partners := update_where (\<lambda>q. pt_id q = ma_partnerId a) (approve_partner a accounts fee) (partners s2)\<rparr>) of
                        (Inl e, s3) \<Rightarrow> (Inl e, s3)
                      | (Inr _, s3) \<Rightarrow>
                          (Inr (f a), audit (audit_row now APPROVE MERCHANT (ma_id a) ''System/Admin''
                             (JObj [(''status'', JStr ''APPROVED''), (''note'', jopt note)]) 200) s3)))))"

definition reviewApplication :: "http \<Rightarrow> finance_env \<Rightarrow> date \<Rightarrow> string \<Rightarrow> string \<Rightarrow> string \<Rightarrow> string \<Rightarrow> bool \<Rightarrow> string option
    \<Rightarrow> ('a merchant_db_scheme, application) handler" where
  "reviewApplication http env now newMerchantId newTerminalId randomKey i approved note s =
     (case find (\<lambda>a. ma_id a = i) (applications s) of
        None \<Rightarrow> (Inl (Http NOT_FOUND ''Application not found''), s)
      | Some a \<Rightarrow>
          if ma_status a \<noteq> ApplicationPending then (Inl (Http BAD_REQUEST ''Application already processed''), s)
          else if \<not> approved then
            (let f = (\<lambda>a. a\<lparr>ma_status := ApplicationRejected, ma_reviewNote := keep_opt note (ma_reviewNote a)\<rparr>)
             in case find_partner (ma_partnerId a) s of
                  None \<Rightarrow> (Inl (Prisma ''P2025''), s)
                | Some p \<Rightarrow> (Inr (f a),
                    s\<lparr>applications := update_where (\<lambda>b. ma_id b = i) f (applications s),
                      partners := update_where (\<lambda>q. pt_id q = ma_partnerId a) (\<lambda>q. q\<lparr>pt_status := PartnerRejected\<rparr>) (partners s)\<rparr>))
          else (case approval_accounts http env a s of
             (Inl e, s1) \<Rightarrow> (Inl (as_review_error e), s1)
           | (Inr accounts, s1) \<Rightarrow>
               (case db_transaction (approve_tx http env now newMerchantId newTerminalId randomKey a note accounts) s1 of
                  (Inl e, s2) \<Rightarrow> (Inl (as_review_error e), s2)
                | (Inr r, s2) \<Rightarrow> (Inr r, s2))))"

section \<open>Redemptions at a terminal\<close>

definition find_code :: "string \<Rightarrow> 'a deals_db_scheme \<Rightarrow> redemption option" where
  "find_code code s = find (\<lambda>r. rd_redemptionCode r = code) (redemptions s)"

text \<open>The title, brand, points and expiry shown for a valid code.\<close>

definition verifyRedemption :: "date \<Rightarrow> string \<Rightarrow> ('a merchant_db_scheme, string \<times> string \<times> int \<times> date option) handler" where
  "verifyRedemption now code s =
     (case find_code code s of
        None \<Rightarrow> (Inl (Http NOT_FOUND ''Invalid redemption code''), s)
      | Some r \<Rightarrow>
          if rd_status r \<noteq> REDEEMED
          then (Inl (Http BAD_REQUEST (if rd_status r = USED then ''Code already used'' else ''Code expired or cancelled'')), s)
          else if (case rd_expiresAt r of None \<Rightarrow> False | Some e \<Rightarrow> time_value e < time_value now)
          then (Inl (Http BAD_REQUEST ''Code expired''),
                s\<lparr>redemptions := update_where (\<lambda>q. rd_id q = rd_id r) (\<lambda>q. q\<lparr>rd_status := EXPIRED\<rparr>) (redemptions s)\<rparr>)
          else (case find_deal (rd_dealId r) s of
             None \<Rightarrow> (Inl (Plain ''deal is required''), s)
           | Some d \<Rightarrow> (case find (\<lambda>b. br_id b = dl_brandId d) (brands s) of
                 None \<Rightarrow> (Inl (Plain ''brand is required''), s)
               | Some b \<Rightarrow> (Inr (dl_title d, br_name b, rd_pointsSpent r, rd_expiresAt r), s))))"

fun redemption_status_name :: "redemption_status \<Rightarrow> string" where
  "redemption_status_name REDEEMED = ''redeemed''"
| "redemption_status_name USED = ''used''"
| "redemption_status_name EXPIRED = ''expired''"
| "redemption_status_name CANCELLED = ''cancelled''"

definition use_at :: "date \<Rightarrow> string \<Rightarrow> redemption \<Rightarrow> redemption" where
  "use_at now merchantId r = r\<lparr>rd_status := USED, rd_usedAt := Some now, rd_usedAtMerchantId := Some merchantId\<rparr>"

definition merchant_useRedemption :: "date \<Rightarrow> string \<Rightarrow> string \<Rightarrow> ('a merchant_db_scheme, redemption) handler" where
  "merchant_useRedemption now code terminalId s =
     (case find_terminal terminalId s of
        None \<Rightarrow> (Inl (Http UNAUTHORIZED ''Terminal not found''), s)
      | Some t \<Rightarrow>
          (case find_code code s of
             None \<Rightarrow> (Inl (Http NOT_FOUND ''Invalid code''), s)
           | Some r \<Rightarrow>
               if rd_status r \<noteq> REDEEMED
               then (Inl (Http BAD_REQUEST (''Code already '' @ redemption_status_name (rd_status r))), s)
               else (Inr (use_at now (tm_merchantId t) r),
                     s\<lparr>redemptions := update_where (\<lambda>q. rd_id q = rd_id r) (use_at now (tm_merchantId t)) (redemptions s)\<rparr>)))"

section \<open>The nightly settlement\<close>

text \<open>A number as it is stored in a JSON column: \<open>NaN\<close> and the infinities become \<open>null\<close>.\<close>

fun stored_number :: "jsnum \<Rightarrow> json" where
  "stored_number (Fin x) = JNum (Fin x)"
| "stored_number _ = JNull"

text \<open>The guard and the new accounts of one partner.\<close>

definition settles :: "json \<Rightarrow> bool" where
  "settles accounts \<longleftrightarrow> truthy accounts \<and> truthy (jget ''pending'' accounts) \<and> \<not> nle (Number_json (jget ''pending'' accounts)) (Fin 0)"

definition mdr_fee :: "json \<Rightarrow> jsnum" where
  "mdr_fee accounts = nmul (Number_json (jget ''pending'' accounts)) (Fin (fl64 (3 / 100)))"

definition settled :: "json \<Rightarrow> json" where
  "settled accounts =
     (let pendingAmount = Number_json (jget ''pending'' accounts); mdrFee = mdr_fee accounts; netAmount = nsub pendingAmount mdrFee
      in JObj [(''available'', stored_number (nadd (Number_json (jor (jget ''available'' accounts) (JNum (Fin 0)))) netAmount)),
               (''pending'', JNum (Fin 0)),
               (''fee'', stored_number (nadd (Number_json (jor (jget ''fee'' accounts) (JNum (Fin 0)))) mdrFee))])"

definition settle_partner :: "date \<Rightarrow> partner \<Rightarrow> 'a merchant_db_scheme \<Rightarrow> 'a merchant_db_scheme" where
  "settle_partner now p s =
     (let accounts = pt_financeAccounts p
      in if \<not> settles accounts then s
         else audit ((audit_row now SETTLEMENT MERCHANT (pt_id p) ''System/Cron''
                (JObj [(''pendingAmount'', stored_number (Number_json (jget ''pending'' accounts))), (''mdrFee'', stored_number (mdr_fee accounts)),
                       (''netAmount'', stored_number (nsub (Number_json (jget ''pending'' accounts)) (mdr_fee accounts)))]) 200)
                \<lparr>al_ipAddress := Some ''127.0.0.1''\<rparr>)
              (s\<lparr>partners := update_where (\<lambda>q. pt_id q = pt_id p) (\<lambda>q. q\<lparr>pt_financeAccounts := settled accounts\<rparr>) (partners s)\<rparr>))"

definition runDailySettlement :: "date \<Rightarrow> 'a merchant_db_scheme \<Rightarrow> 'a merchant_db_scheme" where
  "runDailySettlement now s = fold (settle_partner now) (partners s) s"

section \<open>The merchant's own view\<close>

text \<open>
  \<open>sum + (payload?.amount || 0)\<close> over numbers; a text amount would turn the sum into text, which is not
  modelled.
\<close>

fun jplus :: "json \<Rightarrow> json \<Rightarrow> json" where
  "jplus (JNum a) (JNum b) = JNum (nadd a b)"
| "jplus _ _ = JUndef"

definition is_today :: "date \<Rightarrow> date \<Rightarrow> bool" where
  "is_today now d \<longleftrightarrow> time_value (now\<lparr>d_ms := 0\<rparr>) \<le> time_value d"

definition payment_logs :: "date \<Rightarrow> string list \<Rightarrow> 'a merchant_db_scheme \<Rightarrow> audit_log list" where
  "payment_logs now merchantIds s = filter (\<lambda>l. al_resourceType l = MERCHANT \<and> al_resourceId l \<in> set merchantIds
     \<and> al_action l = MERCHANT_PAYMENT \<and> is_today now (al_createdAt l)) (auditLog s)"

definition today_sales :: "audit_log list \<Rightarrow> json" where
  "today_sales logs = foldl (\<lambda>sum l. jplus sum (jor (jget ''amount'' (al_requestPayload l)) (JNum (Fin 0)))) (JNum (Fin 0)) logs"

datatype dashboard =
    NotMerchant "string option" "string option"
  | Dashboard "string option" json nat nat jsnum string

text \<open>
  \<open>NotMerchant status reason\<close>: no partner yet, or one under review or rejected. \<open>Dashboard merchantId
  totalRevenue totalTransactions activeTerminals totalMerchantBalance name\<close> otherwise.
\<close>

definition latest :: "(application \<Rightarrow> bool) \<Rightarrow> 'a merchant_db_scheme \<Rightarrow> application option" where
  "latest c s = (case sort_key (\<lambda>a. - time_value (ma_createdAt a)) (filter c (applications s)) of [] \<Rightarrow> None | a # _ \<Rightarrow> Some a)"

definition getMerchantDashboard :: "http \<Rightarrow> finance_env \<Rightarrow> date \<Rightarrow> string \<Rightarrow> 'a merchant_db_scheme \<Rightarrow> dashboard \<times> 'a merchant_db_scheme" where
  "getMerchantDashboard http env now userId s =
     (case find (\<lambda>p. pt_userId p = Some userId) (partners s) of
        None \<Rightarrow> (NotMerchant (map_option (\<lambda>a. application_status_name (ma_status a)) (latest (\<lambda>a. ma_userId a = userId) s)) None, s)
      | Some p \<Rightarrow>
          if pt_status p = PENDING_REVIEW then (NotMerchant (Some ''PENDING'') None, s)
          else if pt_status p = PartnerRejected
          then (NotMerchant (Some ''REJECTED'') (Option.bind (latest (\<lambda>a. ma_partnerId a = pt_id p) s) ma_reviewNote), s)
          else let ms = filter (\<lambda>m. mc_partnerId m = pt_id p) (merchants s);
                   ids = map mc_id ms;
                   logs = payment_logs now ids s;
                   active = count_where (\<lambda>t. tm_merchantId t \<in> set ids \<and> tm_status t = TerminalActive) (terminals s);
                   accounts = pt_financeAccounts p;
                   (bal, s') = (if truthy (jget ''available'' accounts)
                      then case finance (getAccountDetail http env (case jget ''available'' accounts of JStr t \<Rightarrow> t | _ \<Rightarrow> [])) s of
                          (Inr d, s1) \<Rightarrow> (Number_json (jget ''balance'' d), s1) | (Inl e, s1) \<Rightarrow> (Fin 0, s1)
                      else (Fin 0, s))
               in (Dashboard (case ms of [] \<Rightarrow> None | m # _ \<Rightarrow> Some (mc_id m)) (today_sales logs) (length logs) active bal (pt_name p), s'))"

text \<open>The latest twenty completed payments of the user's branches, with the kind of payment.\<close>

definition payment_kind :: "'a merchant_db_scheme \<Rightarrow> merchant_payment \<Rightarrow> string" where
  "payment_kind s p = (case mp_terminalId p of
      Some (c # t) \<Rightarrow> ''Terminal: '' @ (case find_terminal (c # t) s of
          Some tm \<Rightarrow> (case tm_name tm of Some (d # n) \<Rightarrow> d # n | _ \<Rightarrow> c # t) | None \<Rightarrow> c # t)
    | _ \<Rightarrow> ''QR Payment'')"

definition getMerchantTransactions :: "string \<Rightarrow> ('a merchant_db_scheme, (merchant_payment \<times> string) list \<times> pagination) handler" where
  "getMerchantTransactions userId s =
     (case find (\<lambda>p. pt_userId p = Some userId) (partners s) of
        None \<Rightarrow> (Inl (Http NOT_FOUND ''Partner not found''), s)
      | Some p \<Rightarrow>
          let ids = map mc_id (filter (\<lambda>m. mc_partnerId m = pt_id p) (merchants s));
              rows = take 20 (sort_key (\<lambda>q. - time_value (mp_createdAt q))
                       (filter (\<lambda>q. mp_merchantId q \<in> set ids \<and> mp_status q = PaymentCompleted) (merchantPayment s)))
          in (Inr (map (\<lambda>q. (q, payment_kind s q)) rows,
                \<lparr>pg_total = length rows, pg_page = 1, pg_limit = 20, pg_totalPages = 1\<rparr>), s))"

end
