(* ===== verification/Merchant_Props.thy ===== *)
theory Merchant_Props
  imports Merchants
begin

text \<open>
  Properties of the merchant service: the terminal guard and secret rotation, the limits of small
  merchants, redemptions at a terminal, the nightly settlement and the review of applications.
\<close>

section \<open>Properties of terminals\<close>

text \<open>
  A terminal request is admitted only when its signature is right and its nonce fresh, and
  a forged request never consumes a nonce. When the guard admits a request, the terminal exists and is
  active, the signature is the HMAC of method, path, timestamp and nonce under that terminal's secret,
  the timestamp is within 300 seconds and the nonce was not live; it is now stored. When headers are
  missing or the signature is wrong, the nonce store is untouched.
\<close>

theorem canActivate_sound:
  "case canActivate hmac ms h meth url s r of
     (Inr tid, r') \<Rightarrow>
        (\<exists>t sig ts n v. th_terminalId h = Some tid \<and> th_signature h = Some sig \<and> th_timestamp h = Some ts \<and> th_nonce h = Some n
           \<and> find_terminal tid s = Some t \<and> tm_status t = TerminalActive
           \<and> sig = hmac (tm_secretKey t) (signed_message meth url ts n)
           \<and> parseInt ts = Some v \<and> \<bar>ms div 1000 - v\<bar> \<le> 300
           \<and> \<not> redis_live ms (nonceKey tid n) r \<and> r' = r(nonceKey tid n \<mapsto> ms + 600000))
   | (Inl e, r') \<Rightarrow> r' = r"
proof (cases "header_ok (th_terminalId h) \<and> header_ok (th_signature h) \<and> header_ok (th_timestamp h) \<and> header_ok (th_nonce h)")
  case False
  then show ?thesis by (simp add: canActivate_def)
next
  case True
  then obtain tid sig ts n where h: "th_terminalId h = Some tid" "th_signature h = Some sig" "th_timestamp h = Some ts" "th_nonce h = Some n"
    by (auto simp: header_ok_def split: option.splits)
  show ?thesis
  proof (cases "validateTerminalSignature hmac tid sig ts n meth url s")
    case False
    with True h show ?thesis by (simp add: canActivate_def)
  next
    case valid: True
    then obtain t where t: "find_terminal tid s = Some t" "tm_status t = TerminalActive"
      "sig = hmac (tm_secretKey t) (signed_message meth url ts n)"
      by (auto simp: validateTerminalSignature_def Let_def split: option.splits if_splits)
    show ?thesis
    proof (cases rule: validateNonce_cases [of ms tid n ts r])
      case (rejected e)
      with True h valid show ?thesis by (simp add: canActivate_def)
    next
      case (accepted v)
      then show ?thesis using True h valid t by (simp add: canActivate_def)
    qed
  qed
qed

text \<open>
  Rotation revokes: after \<open>rotateTerminalSecret\<close> a request of that terminal is judged by the
  new secret alone, whatever was accepted before, and other terminals are judged as before.
\<close>

theorem rotateTerminalSecret_revokes:
  assumes "rotateTerminalSecret newSecret tid s = (Inr v, s')"
  shows "validateTerminalSignature hmac i sig ts n meth url s' \<longleftrightarrow>
     (if i = tid then (\<exists>t. find_terminal tid s = Some t \<and> tm_status t = TerminalActive) \<and> sig = hmac newSecret (signed_message meth url ts n)
      else validateTerminalSignature hmac i sig ts n meth url s)"
proof -
  from assms obtain t where t: "find_terminal tid s = Some t"
    and s': "s' = s\<lparr>terminals := update_where (\<lambda>t. tm_id t = tid) (\<lambda>t. t\<lparr>tm_secretKey := newSecret\<rparr>) (terminals s)\<rparr>"
    by (auto simp: rotateTerminalSecret_def split: option.splits if_splits)
  have f: "find_terminal i s' = map_option (\<lambda>t. if tm_id t = tid then t\<lparr>tm_secretKey := newSecret\<rparr> else t) (find_terminal i s)"
    unfolding find_terminal_def s' by (simp add: find_update_where)
  show ?thesis
  proof (cases "i = tid")
    case True
    have "tm_id t = tid" using t by (auto simp: find_terminal_def dest: find_SomeD)
    then show ?thesis using t True f by (auto simp: validateTerminalSignature_def Let_def)
  next
    case False
    have "find_terminal i s' = find_terminal i s"
      unfolding f using False by (cases "find_terminal i s") (auto simp: find_terminal_def dest: find_SomeD)
    then show ?thesis using False by (simp add: validateTerminalSignature_def)
  qed
qed

definition demo_terminal :: terminal where
  "demo_terminal = \<lparr>tm_id = ''t1'', tm_merchantId = ''m1'', tm_name = None, tm_secretKey = ''old'', tm_hardwareId = None,
     tm_status = TerminalActive, tm_createdAt = demo_now\<rparr>"

definition demo_merchant :: merchant where
  "demo_merchant = \<lparr>mc_id = ''m1'', mc_partnerId = ''p1'', mc_name = ''Cafe'', mc_category = None, mc_location = JNull,
     mc_address = None, mc_isActive = True\<rparr>"

definition demo_partner :: partner where
  "demo_partner = (new_partner demo_now ''p1'')\<lparr>pt_userId := Some ''bob'', pt_name := ''Cafe'', pt_status := PartnerActive,
     pt_financeAccounts := JObj [(''available'', JStr ''acc-av''), (''pending'', JStr ''acc-pe''), (''fee'', JStr ''acc-fe''), (''vat'', JStr ''acc-va'')]\<rparr>"

definition demo_market :: merchant_db where
  "demo_market = \<lparr>userPoint = [], pointHistory = [], loyaltyRule = [], kafka = [], deals = [demo_deal], redemptions = [], brands = [],
     categories = [], terminalIdempotencyRecord = [], partners = [demo_partner], merchants = [demo_merchant], terminals = [demo_terminal],
     merchantPayment = [], applications = [], auditLog = [], net = []\<rparr>"

theorem rotateTerminalSecret_revokes_witness:
  "\<not> validateTerminalSignature (\<lambda>k m. k @ m) ''t1'' (''old'' @ signed_message ''POST'' ''/pay'' ''1'' ''n'') ''1'' ''n'' ''POST'' ''/pay''
      (snd (rotateTerminalSecret ''new'' ''t1'' demo_market))"
proof -
  have "rotateTerminalSecret ''new'' ''t1'' demo_market =
      (Inr (''t1'', None, ''new''), snd (rotateTerminalSecret ''new'' ''t1'' demo_market))"
    by (simp add: rotateTerminalSecret_def find_terminal_def demo_market_def demo_terminal_def)
  from rotateTerminalSecret_revokes [OF this, of "\<lambda>k m. k @ m" "''t1''"] show ?thesis by simp
qed

text \<open>
  Terminal secrets reach administrators through the partner pages. The list of a branch's
  terminals is redacted, but the branches of a partner are returned with their terminals as stored: as
  soon as one of them has a terminal with a secret, the answer of \<open>findPartnerMerchants\<close> contains it.
\<close>

theorem findPartnerMerchants_leaks_secrets:
  assumes "m \<in> set (merchants s)" and "mc_partnerId m = pid" and "t \<in> set (terminals s)" and "tm_merchantId t = mc_id m"
    and "tm_secretKey t \<noteq> []"
  shows "no_secret (findTerminalsByMerchantId (mc_id m) s) \<and> \<not> no_secret (findPartnerMerchants pid s)"
proof
  show "no_secret (findTerminalsByMerchantId (mc_id m) s)"
    unfolding findTerminalsByMerchantId_def by (rule secrets.redact_clean)
  have "\<not> no_secret (terminal_json t)" using assms(5) by (simp add: terminal_json_def)
  then have "\<not> no_secret (merchant_json s m)" using assms(3,4) by (auto simp: merchant_json_def list_all_iff)
  then show "\<not> no_secret (findPartnerMerchants pid s)"
    using assms(1,2) by (auto simp: findPartnerMerchants_def list_all_iff)
qed

theorem findPartnerMerchants_leaks_secrets_witness: "\<not> no_secret (findPartnerMerchants ''p1'' demo_market)"
  using findPartnerMerchants_leaks_secrets [of demo_merchant demo_market "''p1''" demo_terminal]
  by (simp add: demo_market_def demo_merchant_def demo_terminal_def)

section \<open>Limits of small merchants\<close>

definition sme_ok :: "'a merchant_db_scheme \<Rightarrow> bool" where
  "sme_ok s \<longleftrightarrow> (\<forall>p\<in>set (partners s). pt_type p = SME \<longrightarrow> count_where (\<lambda>m. mc_partnerId m = pt_id p) (merchants s) \<le> 1
     \<and> (\<forall>m\<in>set (merchants s). mc_partnerId m = pt_id p \<longrightarrow> count_where (\<lambda>t. tm_merchantId t = mc_id m) (terminals s) \<le> 1))"

definition tables_ok :: "'a merchant_db_scheme \<Rightarrow> bool" where
  "tables_ok s \<longleftrightarrow> distinct (map pt_id (partners s)) \<and> distinct (map mc_id (merchants s))
     \<and> (\<forall>t\<in>set (terminals s). tm_merchantId t \<in> mc_id ` set (merchants s))"

lemma audit_tables [simp]:
  "partners (audit l s) = partners s" "merchants (audit l s) = merchants s" "terminals (audit l s) = terminals s"
  "applications (audit l s) = applications s" "merchantPayment (audit l s) = merchantPayment s"
  "redemptions (audit l s) = redemptions s" "net (audit l s) = net s"
  by (simp_all add: audit_def)

lemma createTerminal_sme:
  assumes "sme_ok s" and "tables_ok s"
  shows "sme_ok (snd (createTerminal now i rk rh mid name hw s)) \<and> tables_ok (snd (createTerminal now i rk rh mid name hw s))"
proof (cases "createTerminal now i rk rh mid name hw s")
  case (Pair r s')
  show ?thesis
  proof (cases r)
    case (Inl e)
    then have "s' = s" using Pair by (auto simp: createTerminal_def Let_def split: option.splits if_splits)
    then show ?thesis using Pair assms by simp
  next
    case (Inr t)
    then obtain m p where m: "find_merchant mid s = Some m" and p: "find_partner (mc_partnerId m) s = Some p"
      "\<not> (pt_type p = SME \<and> 1 \<le> count_where (\<lambda>t. tm_merchantId t = mid) (terminals s))"
      and t: "tm_merchantId t = mid" and tabs: "partners s' = partners s" "merchants s' = merchants s" "terminals s' = terminals s @ [t]"
      using Pair by (auto simp: createTerminal_def Let_def insert_terminal_def split: option.splits if_splits)
    have mm: "m \<in> set (merchants s)" "mc_id m = mid" using m by (auto simp: find_merchant_def dest: find_SomeD)
    have pp: "p \<in> set (partners s)" "pt_id p = mc_partnerId m" using p(1) by (auto simp: find_partner_def dest: find_SomeD)
    have "tables_ok s'" using assms(2) mm t by (auto simp: tables_ok_def tabs)
    moreover have "count_where (\<lambda>t. tm_merchantId t = mc_id m') (terminals s') \<le> 1"
      if q: "q \<in> set (partners s)" "pt_type q = SME" "m' \<in> set (merchants s)" "mc_partnerId m' = pt_id q" for q m'
    proof (cases "mc_id m' = mid")
      case True
      then have "m' = m" using keyed_unique [of mc_id "merchants s" m' m] assms(2) mm q(3) by (simp add: tables_ok_def)
      then have "q = p" using keyed_unique [of pt_id "partners s" q p] assms(2) pp q(1,4) by (simp add: tables_ok_def)
      then show ?thesis using p(2) q(2) t True by (simp add: tabs)
    next
      case False
      then show ?thesis using assms(1) q t by (auto simp: sme_ok_def tabs)
    qed
    then have "sme_ok s'" using assms(1) by (auto simp: sme_ok_def tabs)
    ultimately show ?thesis using Pair by simp
  qed
qed

section \<open>Properties of the settlement\<close>

definition settle_row :: "partner \<Rightarrow> partner" where
  "settle_row p = (if settles (pt_financeAccounts p) then p\<lparr>pt_financeAccounts := settled (pt_financeAccounts p)\<rparr> else p)"

lemma settle_partner_rows:
  "partners (settle_partner now p s) = (if settles (pt_financeAccounts p)
     then update_where (\<lambda>q. pt_id q = pt_id p) (\<lambda>q. q\<lparr>pt_financeAccounts := settled (pt_financeAccounts p)\<rparr>) (partners s) else partners s)"
  by (simp add: settle_partner_def Let_def)

lemma fold_settle_rows:
  assumes "distinct (map pt_id (done @ todo))" and "partners s = done @ todo"
  shows "partners (fold (settle_partner now) todo s) = done @ map settle_row todo"
  using assms
proof (induction todo arbitrary: "done" s)
  case (Cons p todo)
  have other: "pt_id q \<noteq> pt_id p" if "q \<in> set done \<or> q \<in> set todo" for q
    using Cons.prems(1) that by (auto simp: image_iff)
  have "update_where (\<lambda>q. pt_id q = pt_id p) f done = done" "update_where (\<lambda>q. pt_id q = pt_id p) f todo = todo" for f
    using other by (auto intro!: update_where_none)
  then have "partners (settle_partner now p s) = (done @ [settle_row p]) @ todo"
    using Cons.prems(2) by (simp add: settle_partner_rows settle_row_def update_where_def)
  moreover have "distinct (map pt_id ((done @ [settle_row p]) @ todo))"
    using Cons.prems(1) by (simp add: settle_row_def)
  ultimately show ?case using Cons.IH [of "done @ [settle_row p]" "settle_partner now p s"] by simp
qed simp

lemma runDailySettlement_rows:
  "distinct (map pt_id (partners s)) \<Longrightarrow> partners (runDailySettlement now s) = map settle_row (partners s)"
  unfolding runDailySettlement_def using fold_settle_rows [of "[]" "partners s" s] by simp

text \<open>
  The nightly settlement destroys the account ids. The finance accounts of a partner are
  ids in the ledger; the job reads them as amounts. For every partner with such accounts whose pending
  id is not a number, one night replaces the available and fee ids by \<open>null\<close>, the pending id by 0 and
  drops the VAT account; the next night leaves them so.
\<close>

theorem runDailySettlement_destroys_ids:
  assumes "distinct (map pt_id (partners s))" and "p \<in> set (partners s)"
    and "pt_financeAccounts p = JObj [(''available'', JStr a), (''pending'', JStr b), (''fee'', JStr c), (''vat'', JStr d)]"
    and "b \<noteq> []" and "Number_string b = NaN"
  shows "\<exists>q. q \<in> set (partners (runDailySettlement now s)) \<and> pt_id q = pt_id p
     \<and> pt_financeAccounts q = JObj [(''available'', JNull), (''pending'', JNum (Fin 0)), (''fee'', JNull)]
     \<and> q \<in> set (partners (runDailySettlement later (runDailySettlement now s)))"
proof -
  let ?f = "pt_financeAccounts p" and ?q = "settle_row p"
  have nan: "Number_json (jget ''pending'' ?f) = NaN" using assms(3,5) by simp
  have st: "settles ?f" using assms(3,4) nan by (simp add: settles_def)
  have nadd_nan: "nadd x NaN = NaN" for x by (cases x) simp_all
  have "mdr_fee ?f = NaN" unfolding mdr_fee_def nan by simp
  then have q: "pt_financeAccounts ?q = JObj [(''available'', JNull), (''pending'', JNum (Fin 0)), (''fee'', JNull)]"
    using st nan by (simp add: settle_row_def settled_def Let_def nsub_def nadd_nan)
  then have "settle_row ?q = ?q" by (simp add: settle_row_def [of ?q] settles_def)
  have mem: "?q \<in> set (partners (runDailySettlement now s))" using assms(2) by (simp add: runDailySettlement_rows [OF assms(1)])
  moreover have "distinct (map pt_id (partners (runDailySettlement now s)))"
  proof -
    have "map pt_id (map settle_row (partners s)) = map pt_id (partners s)" by (simp add: settle_row_def)
    then show ?thesis using assms(1) by (simp only: runDailySettlement_rows [OF assms(1)])
  qed
  then have "?q \<in> set (partners (runDailySettlement later (runDailySettlement now s)))"
    using mem \<open>settle_row ?q = ?q\<close> image_eqI [of ?q settle_row ?q]
    by (simp add: runDailySettlement_rows [of "runDailySettlement now s"])
  moreover have "pt_id ?q = pt_id p" by (simp add: settle_row_def)
  ultimately show ?thesis using q by blast
qed

theorem runDailySettlement_destroys_ids_witness:
  "\<exists>q\<in>set (partners (runDailySettlement demo_now demo_market)).
     pt_financeAccounts q = JObj [(''available'', JNull), (''pending'', JNum (Fin 0)), (''fee'', JNull)]"
proof -
  have n: "Number_string ''acc-pe'' = NaN" by code_simp
  show ?thesis
    using runDailySettlement_destroys_ids [of demo_market demo_partner "''acc-av''" "''acc-pe''" "''acc-fe''" "''acc-va''" demo_now] n
    by (auto simp: demo_market_def demo_partner_def)
qed

section \<open>Properties of redemptions at a terminal\<close>

lemma find_code_used:
  assumes "find_code code s = Some r" and "\<And>q. rd_redemptionCode (f q) = rd_redemptionCode q"
  shows "find_code code (s\<lparr>redemptions := update_where (\<lambda>q. rd_id q = rd_id r) f (redemptions s)\<rparr>) = Some (f r)"
proof -
  have "find_code code (s\<lparr>redemptions := update_where (\<lambda>q. rd_id q = rd_id r) f (redemptions s)\<rparr>)
      = map_option (\<lambda>q. if rd_id q = rd_id r then f q else q) (find_code code s)"
    unfolding find_code_def using find_update_where [of "\<lambda>q. rd_redemptionCode q = code" f] assms(2) by simp
  then show ?thesis using assms(1) by simp
qed

text \<open>
  A code is used once at a terminal, and its expiry is not tested. When
  \<open>useRedemption\<close> of the merchant service succeeds, the code was unused, it is now used at the
  terminal's branch, and every later attempt on it fails and changes nothing. But the only test is the
  status: a code that \<open>verifyRedemption\<close> would refuse as expired is accepted.
\<close>

theorem merchant_useRedemption_single_use:
  assumes "find_terminal tid s = Some t" and "find_code code s = Some r" and "rd_status r = REDEEMED"
  shows "\<exists>s'. merchant_useRedemption now code tid s = (Inr (use_at now (tm_merchantId t) r), s')
     \<and> find_code code s' = Some (use_at now (tm_merchantId t) r)
     \<and> (\<forall>later tid2. \<exists>e. merchant_useRedemption later code tid2 s' = (Inl e, s'))
     \<and> (\<forall>x. rd_expiresAt r = Some x \<and> time_value x < time_value now \<longrightarrow>
          fst (verifyRedemption now code s) = Inl (Http BAD_REQUEST ''Code expired''))"
proof -
  let ?s' = "s\<lparr>redemptions := update_where (\<lambda>q. rd_id q = rd_id r) (use_at now (tm_merchantId t)) (redemptions s)\<rparr>"
  have run: "merchant_useRedemption now code tid s = (Inr (use_at now (tm_merchantId t) r), ?s')"
    using assms by (simp add: merchant_useRedemption_def)
  have found: "find_code code ?s' = Some (use_at now (tm_merchantId t) r)"
    by (rule find_code_used [OF assms(2)]) (simp add: use_at_def)
  have "\<exists>e. merchant_useRedemption later code tid2 ?s' = (Inl e, ?s')" for later tid2
    using found by (cases "find_terminal tid2 ?s'") (simp_all add: merchant_useRedemption_def use_at_def)
  moreover have "fst (verifyRedemption now code s) = Inl (Http BAD_REQUEST ''Code expired'')"
    if "rd_expiresAt r = Some x" "time_value x < time_value now" for x
    using assms(2,3) that by (simp add: verifyRedemption_def)
  ultimately show ?thesis using run found by blast
qed

definition demo_redemption :: redemption where
  "demo_redemption = \<lparr>rd_id = ''r1'', rd_dealId = ''d1'', rd_userId = ''alice'', rd_pointsSpent = 3, rd_redemptionCode = ''JLAAAAAAAAAA'',
     rd_status = REDEEMED, rd_expiresAt = Some demo_now, rd_usedAt = None, rd_usedAtMerchantId = None, rd_createdAt = demo_now\<rparr>"

theorem merchant_useRedemption_single_use_witness:
  "fst (merchant_useRedemption demo_later ''JLAAAAAAAAAA'' ''t1'' (demo_market\<lparr>redemptions := [demo_redemption]\<rparr>))
     = Inr (use_at demo_later ''m1'' demo_redemption)
   \<and> fst (verifyRedemption demo_later ''JLAAAAAAAAAA'' (demo_market\<lparr>redemptions := [demo_redemption]\<rparr>)) = Inl (Http BAD_REQUEST ''Code expired'')"
proof -
  let ?s = "demo_market\<lparr>redemptions := [demo_redemption]\<rparr>"
  have t: "find_terminal ''t1'' ?s = Some demo_terminal" by (simp add: find_terminal_def demo_market_def demo_terminal_def)
  have c: "find_code ''JLAAAAAAAAAA'' ?s = Some demo_redemption" by (simp add: find_code_def demo_redemption_def)
  have late: "time_value demo_now < time_value demo_later" by code_simp
  have r: "rd_status demo_redemption = REDEEMED" "rd_expiresAt demo_redemption = Some demo_now"
    by (simp_all add: demo_redemption_def)
  from merchant_useRedemption_single_use [OF t c r(1), of demo_later] r(2) late show ?thesis
    by (auto simp: demo_terminal_def)
qed

section \<open>Properties of the review\<close>

lemma finance_frame: "finance op s = (r, s') \<Longrightarrow> \<exists>w. s' = s\<lparr>net := w\<rparr>"
  by (auto simp: finance_def split: prod.splits)

lemma create_accounts_length: "create_accounts http env own reqs w = (Inr accs, w') \<Longrightarrow> length accs = length reqs"
  by (induction http env own reqs w arbitrary: accs w' rule: create_accounts.induct)
     (auto split: prod.splits sum.splits)

lemma jget_zip: "distinct ks \<Longrightarrow> length ks = length vs \<Longrightarrow> k \<in> set ks \<Longrightarrow> jget k (JObj (zip ks vs)) \<in> set vs"
proof -
  assume a: "distinct ks" "length ks = length vs" "k \<in> set ks"
  then obtain j where "j < length ks" "ks ! j = k" by (auto simp: in_set_conv_nth)
  with a show ?thesis by (auto simp: map_of_zip_nth)
qed

text \<open>The accounts of an approval are all set, and none of them is \<open>'0'\<close>.\<close>

lemma approval_accounts_ids:
  assumes "approval_accounts http env a s = (Inr accounts, s1)" and "k \<in> set account_names"
  shows "truthy (jget k accounts) \<and> jget k accounts \<noteq> JStr ''0''"
proof -
  let ?biz = "if ma_businessName a = [] then ''Merchant '' @ ma_partnerId a else ma_businessName a"
  from assms(1) obtain accs where run: "finance (create_accounts http env (ma_partnerId a) (account_request ?biz)) s = (Inr accs, s1)"
    and ok: "\<not> list_ex (\<lambda>v. \<not> truthy v) (map (jget ''id'') accs)" "\<not> list_ex (\<lambda>v. v = JStr ''0'') (map (jget ''id'') accs)"
    and acc: "accounts = JObj (zip account_names (map (jget ''id'') accs))"
    by (auto simp: approval_accounts_def Let_def split: prod.splits sum.splits if_splits)
  from run obtain w where "create_accounts http env (ma_partnerId a) (account_request ?biz) (net s) = (Inr accs, w)"
    by (auto simp: finance_def split: prod.splits)
  then have "length accs = 4" by (drule_tac create_accounts_length) (simp add: account_request_def)
  then have "jget k accounts \<in> set (map (jget ''id'') accs)"
    unfolding acc using assms(2) by (intro jget_zip) (simp_all add: account_names_def)
  then show ?thesis using ok by (auto simp: list_ex_iff)
qed

lemma approval_accounts_frame:
  assumes "approval_accounts http env a s = (r, s1)"
  shows "\<exists>w. s1 = s\<lparr>net := w\<rparr>"
proof -
  let ?biz = "if ma_businessName a = [] then ''Merchant '' @ ma_partnerId a else ma_businessName a"
  obtain v s2 where run: "finance (create_accounts http env (ma_partnerId a) (account_request ?biz)) s = (v, s2)" by fastforce
  with assms have "s1 = s2" by (cases v) (simp_all add: approval_accounts_def Let_def split: if_splits)
  with finance_frame [OF run] show ?thesis by simp
qed

lemma first_branch_effect:
  assumes "first_branch now mid tid rk a s = (Inr u, s')"
  shows "\<exists>m\<in>set (merchants s'). mc_partnerId m = ma_partnerId a" "partners s' = partners s" "applications s' = applications s"
  using assms by (auto simp: first_branch_def Let_def insert_terminal_def split: if_splits option.splits)

lemma approve_tx_effect:
  assumes "approve_tx http env now mid tid rk a note accounts s = (Inr r, s')"
  obtains p fee where "find_partner (ma_partnerId a) s = Some p" "find_partner (ma_partnerId a) s' = Some (approve_partner a accounts fee p)"
    "\<exists>m\<in>set (merchants s'). mc_partnerId m = ma_partnerId a"
    "applications s' = update_where (\<lambda>b. ma_id b = ma_id a)
       (\<lambda>a. a\<lparr>ma_status := ApplicationApproved, ma_reviewNote := keep_opt note (ma_reviewNote a)\<rparr>) (applications s)"
    "r = a\<lparr>ma_status := ApplicationApproved, ma_reviewNote := keep_opt note (ma_reviewNote a)\<rparr>"
proof -
  let ?f = "\<lambda>a. a\<lparr>ma_status := ApplicationApproved, ma_reviewNote := keep_opt note (ma_reviewNote a)\<rparr>"
  let ?s1 = "s\<lparr>applications := update_where (\<lambda>b. ma_id b = ma_id a) ?f (applications s)\<rparr>"
  from assms obtain settings s2 fee p u s3 where fin: "finance (getSystemSettings http env) ?s1 = (Inr settings, s2)"
    and p: "find_partner (ma_partnerId a) s2 = Some p"
    and br: "first_branch now mid tid rk a (s2\<lparr>partners := update_where (\<lambda>q. pt_id q = ma_partnerId a) (approve_partner a accounts fee) (partners s2)\<rparr>) = (Inr u, s3)"
    and r: "r = ?f a" and s': "partners s' = partners s3" "merchants s' = merchants s3" "applications s' = applications s3"
    by (auto simp: approve_tx_def Let_def split: prod.splits sum.splits if_splits option.splits)
  from finance_frame [OF fin] obtain w where s2: "s2 = ?s1\<lparr>net := w\<rparr>" by blast
  have ps: "find_partner (ma_partnerId a) s = Some p" using p by (simp add: s2 find_partner_def)
  have "pt_id p = ma_partnerId a" using ps by (auto simp: find_partner_def dest: find_SomeD)
  then have "find_partner (ma_partnerId a) s' = Some (approve_partner a accounts fee p)"
    using ps first_branch_effect(2) [OF br]
    by (simp add: find_partner_def s' s2 find_update_where approve_partner_def)
  moreover have "applications s' = update_where (\<lambda>b. ma_id b = ma_id a) ?f (applications s)"
    using first_branch_effect(3) [OF br] by (simp add: s' s2)
  ultimately show thesis using that ps first_branch_effect(1) [OF br] r by (simp add: s')
qed

lemma reviewApplication_error:
  assumes "reviewApplication http env now mid tid rk i approved note s = (Inl e, s')"
  shows "partners s' = partners s \<and> applications s' = applications s \<and> merchants s' = merchants s \<and> terminals s' = terminals s"
proof (cases "find (\<lambda>a. ma_id a = i) (applications s)")
  case (Some a)
  show ?thesis
  proof (cases "ma_status a \<noteq> ApplicationPending \<or> \<not> approved")
    case True
    then show ?thesis using assms Some by (auto simp: reviewApplication_def Let_def split: option.splits if_splits)
  next
    case False
    obtain v s1 where acc: "approval_accounts http env a s = (v, s1)" by fastforce
    obtain w where s1: "s1 = s\<lparr>net := w\<rparr>" using approval_accounts_frame [OF acc] by blast
    show ?thesis
      using assms Some False acc s1
      by (auto simp: reviewApplication_def db_transaction_def split: sum.splits prod.splits)
  qed
qed (use assms in \<open>simp add: reviewApplication_def\<close>)

definition decided :: "bool \<Rightarrow> string option \<Rightarrow> application \<Rightarrow> application" where
  "decided approved note a = a\<lparr>ma_status := (if approved then ApplicationApproved else ApplicationRejected),
     ma_reviewNote := keep_opt note (ma_reviewNote a)\<rparr>"

text \<open>What an approved partner has.\<close>

definition onboarded :: "'a merchant_db_scheme \<Rightarrow> partner \<Rightarrow> bool" where
  "onboarded s p \<longleftrightarrow> pt_type p = SME \<and> (\<exists>m\<in>set (merchants s). mc_partnerId m = pt_id p)
     \<and> (\<forall>k\<in>set account_names. truthy (jget k (pt_financeAccounts p)) \<and> jget k (pt_financeAccounts p) \<noteq> JStr ''0'')"

lemma reviewApplication_success:
  assumes "reviewApplication http env now mid tid rk i approved note s = (Inr a, s')"
  obtains a0 p where "find (\<lambda>a. ma_id a = i) (applications s) = Some a0" "ma_status a0 = ApplicationPending" "a = decided approved note a0"
    "applications s' = update_where (\<lambda>b. ma_id b = i) (decided approved note) (applications s)"
    "find_partner (ma_partnerId a0) s' = Some p" "pt_status p = (if approved then PartnerActive else PartnerRejected)"
    "approved \<longrightarrow> onboarded s' p"
proof -
  from assms obtain a0 where a0: "find (\<lambda>a. ma_id a = i) (applications s) = Some a0" "ma_status a0 = ApplicationPending"
    by (auto simp: reviewApplication_def split: option.splits if_splits)
  then have id: "ma_id a0 = i" by (auto dest: find_SomeD)
  show thesis
  proof (cases approved)
    case False
    then obtain p where p: "find_partner (ma_partnerId a0) s = Some p" and s': "a = decided approved note a0"
      "s' = s\<lparr>applications := update_where (\<lambda>b. ma_id b = i) (decided approved note) (applications s),
         partners := update_where (\<lambda>q. pt_id q = ma_partnerId a0) (\<lambda>q. q\<lparr>pt_status := PartnerRejected\<rparr>) (partners s)\<rparr>"
      using assms a0 by (auto simp: reviewApplication_def decided_def [abs_def] Let_def split: option.splits)
    have "pt_id p = ma_partnerId a0" using p by (auto simp: find_partner_def dest: find_SomeD)
    then have "find_partner (ma_partnerId a0) s' = Some (p\<lparr>pt_status := PartnerRejected\<rparr>)"
      using p by (simp add: s' find_partner_def find_update_where)
    then show thesis using that [OF a0] False s' by simp
  next
    case True
    then obtain accounts s1 where acc: "approval_accounts http env a0 s = (Inr accounts, s1)"
      and tx: "approve_tx http env now mid tid rk a0 note accounts s1 = (Inr a, s')"
      using assms a0 by (auto simp: reviewApplication_def db_transaction_def split: sum.splits prod.splits)
    obtain w where s1: "s1 = s\<lparr>net := w\<rparr>" using approval_accounts_frame [OF acc] by blast
    show thesis
    proof (rule approve_tx_effect [OF tx])
      fix p fee
      assume p: "find_partner (ma_partnerId a0) s1 = Some p" "find_partner (ma_partnerId a0) s' = Some (approve_partner a0 accounts fee p)"
        and br: "\<exists>m\<in>set (merchants s'). mc_partnerId m = ma_partnerId a0"
        and apps: "applications s' = update_where (\<lambda>b. ma_id b = ma_id a0)
           (\<lambda>a. a\<lparr>ma_status := ApplicationApproved, ma_reviewNote := keep_opt note (ma_reviewNote a)\<rparr>) (applications s1)"
        and a: "a = a0\<lparr>ma_status := ApplicationApproved, ma_reviewNote := keep_opt note (ma_reviewNote a0)\<rparr>"
      have "pt_id p = ma_partnerId a0" using p(1) by (auto simp: find_partner_def dest: find_SomeD)
      then have "onboarded s' (approve_partner a0 accounts fee p)"
        using br approval_accounts_ids [OF acc] by (simp add: onboarded_def approve_partner_def)
      then show thesis
        using that [OF a0] True p(2) apps a id s1 by (simp add: decided_def [abs_def] approve_partner_def)
    qed
  qed
qed

text \<open>
  A review is all or nothing, and final. When \<open>reviewApplication\<close> fails, at whatever step,
  no partner, application, branch or terminal has changed. When it succeeds, the application was
  pending and is now decided; an approval leaves the partner active, with four usable ledger accounts
  and at least one branch; and no later review of the application can change anything.
\<close>

theorem reviewApplication_outcome:
  assumes "reviewApplication http env now mid tid rk i approved note s = (res, s')"
  shows "case res of
      Inl e \<Rightarrow> partners s' = partners s \<and> applications s' = applications s \<and> merchants s' = merchants s \<and> terminals s' = terminals s
    | Inr a \<Rightarrow>
        (\<exists>a0. find (\<lambda>a. ma_id a = i) (applications s) = Some a0 \<and> ma_status a0 = ApplicationPending)
      \<and> find (\<lambda>a. ma_id a = i) (applications s') = Some a
      \<and> ma_status a = (if approved then ApplicationApproved else ApplicationRejected)
      \<and> (\<exists>p. find_partner (ma_partnerId a) s' = Some p \<and> pt_status p = (if approved then PartnerActive else PartnerRejected)
           \<and> (approved \<longrightarrow> onboarded s' p))
      \<and> (\<forall>http' env' later m2 t2 k2 b2 n2. reviewApplication http' env' later m2 t2 k2 i b2 n2 s'
           = (Inl (Http BAD_REQUEST ''Application already processed''), s'))"
proof (cases res)
  case (Inl e)
  with assms have "reviewApplication http env now mid tid rk i approved note s = (Inl e, s')" by simp
  from reviewApplication_error [OF this] Inl show ?thesis by simp
next
  case (Inr a)
  with assms obtain a0 p where a0: "find (\<lambda>a. ma_id a = i) (applications s) = Some a0" "ma_status a0 = ApplicationPending"
    "a = decided approved note a0" "applications s' = update_where (\<lambda>b. ma_id b = i) (decided approved note) (applications s)"
    and p: "find_partner (ma_partnerId a0) s' = Some p" "pt_status p = (if approved then PartnerActive else PartnerRejected)"
    "approved \<longrightarrow> onboarded s' p" using reviewApplication_success by metis
  have "ma_id a0 = i" using a0(1) by (auto dest: find_SomeD)
  then have fnd: "find (\<lambda>a. ma_id a = i) (applications s') = Some a"
    using a0 by (simp add: find_update_where decided_def)
  have "ma_status a \<noteq> ApplicationPending" using a0(3) by (simp add: decided_def)
  then have "reviewApplication http' env' later m2 t2 k2 i b2 n2 s' = (Inl (Http BAD_REQUEST ''Application already processed''), s')"
    for http' env' later m2 t2 k2 b2 n2
    unfolding reviewApplication_def fnd by simp
  then show ?thesis using Inr a0 fnd p by (simp add: decided_def)
qed

definition demo_apply :: apply_dto where
  "demo_apply = \<lparr>ad_businessName = ''Shop'', ad_businessNameEn = None, ad_category = ''FOOD'', ad_salesChannel = [], ad_contactName = ''Bob'',
     ad_email = None, ad_phone = ''0812345678'', ad_taxId = ''1234567890123'', ad_address = ''Road 1'', ad_addressDetail = None,
     ad_latitude = None, ad_longitude = None, ad_ownerIdCardNumber = None, ad_ownerBirthDate = None, ad_images = None\<rparr>"

definition demo_applied :: merchant_db where
  "demo_applied = demo_market\<lparr>partners := [partner_data ''carol'' demo_apply (new_partner demo_now ''p2'')],
     applications := [new_application demo_now ''a1'' ''p2'' ''carol'' demo_apply]\<rparr>"

definition demo_http :: http where
  "demo_http w c = HttpOk (JObj [(''id'', JStr ''acc-1''), (''merchantFeeRate'', JStr ''0.05'')])"

definition demo_env :: finance_env where
  "demo_env = \<lparr>fe_url = ''http://f'', fe_secret = Some ''s''\<rparr>"

definition demo_approved :: "application result \<times> merchant_db" where
  "demo_approved = reviewApplication demo_http demo_env demo_now ''m2'' ''t2'' ''key'' ''a1'' True None demo_applied"

theorem reviewApplication_outcome_witness:
  "case demo_approved of (Inr a, s') \<Rightarrow> ma_status a = ApplicationApproved
     \<and> (\<exists>p. find_partner (ma_partnerId a) s' = Some p \<and> pt_status p = PartnerActive \<and> onboarded s' p) | _ \<Rightarrow> False"
proof -
  have "case demo_approved of (Inr a, s') \<Rightarrow> True | _ \<Rightarrow> False" by code_simp
  then obtain a s' where run: "demo_approved = (Inr a, s')" by (auto split: prod.splits sum.splits)
  from reviewApplication_outcome [OF run [unfolded demo_approved_def]] show ?thesis unfolding run by auto
qed

section \<open>The limits of small merchants over every request\<close>

text \<open>
  What keeps the limits: branches and applications belong to partners, and a partner that applied, or was
  rejected, is a small one (a corporate partner is made by an administrator and never applies).
\<close>

definition refs_ok :: "'a merchant_db_scheme \<Rightarrow> bool" where
  "refs_ok s \<longleftrightarrow> mc_partnerId ` set (merchants s) \<subseteq> pt_id ` set (partners s)
     \<and> ma_partnerId ` set (applications s) \<subseteq> pt_id ` set (partners s)
     \<and> (\<forall>p\<in>set (partners s). pt_type p \<noteq> SME \<longrightarrow> pt_status p \<noteq> PartnerRejected \<and> pt_id p \<notin> ma_partnerId ` set (applications s))"

definition market_ok :: "'a merchant_db_scheme \<Rightarrow> bool" where
  "market_ok s \<longleftrightarrow> sme_ok s \<and> tables_ok s \<and> refs_ok s"

lemma market_okD:
  assumes "market_ok s"
  shows "sme_ok s" "tables_ok s" "refs_ok s"
  using assms by (simp_all add: market_ok_def)

lemma market_same:
  assumes "market_ok s" "partners s' = partners s" "merchants s' = merchants s" "terminals s' = terminals s" "applications s' = applications s"
  shows "market_ok s'"
  using assms by (simp add: market_ok_def sme_ok_def tables_ok_def refs_ok_def)

lemma applied_sme:
  assumes "market_ok s" "p \<in> set (partners s)" "pt_id p \<in> ma_partnerId ` set (applications s) \<or> pt_status p = PartnerRejected"
  shows "pt_type p = SME"
  using assms by (auto simp: market_ok_def refs_ok_def)

lemma partners_updated:
  assumes ok: "market_ok s"
    and f: "\<And>p. p \<in> set (partners s) \<Longrightarrow> c p \<Longrightarrow> pt_id (f p) = pt_id p \<and> pt_type (f p) = pt_type p
        \<and> (pt_status (f p) = PartnerRejected \<longrightarrow> pt_status p = PartnerRejected \<or> pt_id p \<in> ma_partnerId ` set (applications s))"
    and tabs: "partners s' = update_where c f (partners s)" "merchants s' = merchants s" "terminals s' = terminals s"
      "ma_partnerId ` set (applications s') = ma_partnerId ` set (applications s)"
  shows "market_ok s'"
proof -
  let ?g = "\<lambda>p. if c p then f p else p"
  have ids: "map pt_id (partners s') = map pt_id (partners s)" using f by (auto simp: tabs(1) update_where_def)
  then have set_ids: "pt_id ` set (partners s') = pt_id ` set (partners s)" by (metis set_map)
  have row: "\<exists>p\<in>set (partners s). q = ?g p \<and> pt_id q = pt_id p \<and> pt_type q = pt_type p" if "q \<in> set (partners s')" for q
    using that f by (auto simp: tabs(1) set_update_where)
  have "sme_ok s'"
    unfolding sme_ok_def tabs(2,3)
  proof (intro ballI impI)
    fix q assume "q \<in> set (partners s')" "pt_type q = SME"
    with row obtain p where "p \<in> set (partners s)" "pt_id q = pt_id p" "pt_type p = SME" by metis
    then show "count_where (\<lambda>m. mc_partnerId m = pt_id q) (merchants s) \<le> 1
      \<and> (\<forall>m\<in>set (merchants s). mc_partnerId m = pt_id q \<longrightarrow> count_where (\<lambda>t. tm_merchantId t = mc_id m) (terminals s) \<le> 1)"
      using market_okD(1) [OF ok] by (simp add: sme_ok_def)
  qed
  moreover have "tables_ok s'" using market_okD(2) [OF ok] unfolding tables_ok_def ids tabs(2,3) by blast
  moreover have "refs_ok s'"
    unfolding refs_ok_def tabs(2,4) set_ids
  proof (intro conjI ballI impI)
    show "mc_partnerId ` set (merchants s) \<subseteq> pt_id ` set (partners s)" "ma_partnerId ` set (applications s) \<subseteq> pt_id ` set (partners s)"
      using market_okD(3) [OF ok] by (simp_all add: refs_ok_def)
    fix q assume q: "q \<in> set (partners s')" "pt_type q \<noteq> SME"
    with row obtain p where p: "p \<in> set (partners s)" "q = ?g p" "pt_id q = pt_id p" "pt_type p \<noteq> SME" by metis
    then have "pt_status p \<noteq> PartnerRejected" "pt_id p \<notin> ma_partnerId ` set (applications s)"
      using applied_sme [OF ok p(1)] by blast+
    with p f [OF p(1)] show "pt_status q \<noteq> PartnerRejected" "pt_id q \<notin> ma_partnerId ` set (applications s)" by (auto split: if_splits)
  qed
  ultimately show ?thesis by (simp add: market_ok_def)
qed

lemma partner_added:
  assumes ok: "market_ok s" and new: "pt_id p \<notin> pt_id ` set (partners s)" and p: "pt_type p = SME \<or> pt_status p \<noteq> PartnerRejected"
    and tabs: "partners s' = partners s @ [p]" "merchants s' = merchants s" "terminals s' = terminals s" "applications s' = applications s"
  shows "market_ok s'"
proof -
  have none: "mc_partnerId m \<noteq> pt_id p" if "m \<in> set (merchants s)" for m
    using market_okD(3) [OF ok, unfolded refs_ok_def] new that by (metis image_eqI subsetD)
  have "sme_ok s'"
    using market_okD(1) [OF ok] none by (auto simp: sme_ok_def tabs count_where_none)
  moreover have "tables_ok s'" using market_okD(2) [OF ok] new by (auto simp: tables_ok_def tabs)
  moreover have "refs_ok s'" using market_okD(3) [OF ok] new p by (auto simp: refs_ok_def tabs)
  ultimately show ?thesis by (simp add: market_ok_def)
qed

lemma application_added:
  assumes ok: "market_ok s" and p: "p \<in> set (partners s)" "pt_id p = ma_partnerId a" "pt_type p = SME"
    and tabs: "partners s' = partners s" "merchants s' = merchants s" "terminals s' = terminals s" "applications s' = applications s @ [a]"
  shows "market_ok s'"
proof -
  have uniq: "q = p" if "q \<in> set (partners s)" "pt_id q = ma_partnerId a" for q
    using keyed_unique [of pt_id "partners s" q p] market_okD(2) [OF ok] that p by (simp add: tables_ok_def)
  have "refs_ok s'"
    unfolding refs_ok_def tabs
  proof (intro conjI ballI impI)
    show "mc_partnerId ` set (merchants s) \<subseteq> pt_id ` set (partners s)" "ma_partnerId ` set (applications s @ [a]) \<subseteq> pt_id ` set (partners s)"
      using market_okD(3) [OF ok] p(1) p(2) [symmetric] by (simp_all add: refs_ok_def)
    fix q assume q: "q \<in> set (partners s)" "pt_type q \<noteq> SME"
    then show "pt_status q \<noteq> PartnerRejected" "pt_id q \<notin> ma_partnerId ` set (applications s @ [a])"
      using applied_sme [OF ok q(1)] uniq [OF q(1)] p(3) by auto
  qed
  then show ?thesis using market_okD(1,2) [OF ok] by (simp add: market_ok_def sme_ok_def tables_ok_def tabs)
qed

lemma branch_added:
  assumes ok: "market_ok s" and new: "mc_id m \<notin> mc_id ` set (merchants s)"
    and p: "p \<in> set (partners s)" "mc_partnerId m = pt_id p"
    and small: "pt_type p = SME \<Longrightarrow> count_where (\<lambda>m. mc_partnerId m = pt_id p) (merchants s) = 0"
    and ts: "length ts \<le> 1" "\<And>t. t \<in> set ts \<Longrightarrow> tm_merchantId t = mc_id m"
    and tabs: "partners s' = partners s" "merchants s' = merchants s @ [m]" "terminals s' = terminals s @ ts" "applications s' = applications s"
  shows "market_ok s'"
proof -
  have uniq: "q = p" if "q \<in> set (partners s)" "pt_id q = mc_partnerId m" for q
    using keyed_unique [of pt_id "partners s" q p] market_okD(2) [OF ok] that p by (simp add: tables_ok_def)
  have none: "count_where (\<lambda>t. tm_merchantId t = mc_id m) (terminals s) = 0"
    by (rule count_where_none) (metis market_okD(2) [OF ok, unfolded tables_ok_def] new)
  have one: "count_where (\<lambda>t. tm_merchantId t = mc_id m) ts \<le> 1"
    using ts(1) unfolding count_where_def by (meson le_trans length_filter_le)
  have other: "count_where (\<lambda>t. tm_merchantId t = mc_id m') ts = 0" if "m' \<in> set (merchants s)" for m'
    by (rule count_where_none) (use ts(2) new that in auto)
  have "sme_ok s'"
    unfolding sme_ok_def
  proof (intro ballI impI conjI)
    fix q assume q: "q \<in> set (partners s')" "pt_type q = SME"
    then have q': "q \<in> set (partners s)" by (simp add: tabs)
    with q(2) have old: "count_where (\<lambda>m. mc_partnerId m = pt_id q) (merchants s) \<le> 1"
      "\<And>m'. m' \<in> set (merchants s) \<Longrightarrow> mc_partnerId m' = pt_id q \<Longrightarrow> count_where (\<lambda>t. tm_merchantId t = mc_id m') (terminals s) \<le> 1"
      using market_okD(1) [OF ok] by (auto simp: sme_ok_def)
    show "count_where (\<lambda>m. mc_partnerId m = pt_id q) (merchants s') \<le> 1"
      using old(1) small uniq [OF q'] q(2) p by (cases "mc_partnerId m = pt_id q") (auto simp: tabs)
    fix m' assume "m' \<in> set (merchants s')" "mc_partnerId m' = pt_id q"
    then show "count_where (\<lambda>t. tm_merchantId t = mc_id m') (terminals s') \<le> 1"
      using old(2) none one other by (auto simp: tabs)
  qed
  moreover have "tables_ok s'" using market_okD(2) [OF ok] new ts(2) by (auto simp: tables_ok_def tabs)
  moreover have "refs_ok s'" using market_okD(3) [OF ok] p by (auto simp: refs_ok_def tabs)
  ultimately show ?thesis by (simp add: market_ok_def)
qed

lemma find_partner_row: "find_partner i s = Some p \<Longrightarrow> p \<in> set (partners s) \<and> pt_id p = i"
  by (auto simp: find_partner_def dest: find_SomeD)

text \<open>The requests of the service that write partners, branches, terminals or applications.\<close>

datatype market_request =
    CreatePartner date string string "string option" "json option"
  | UpdatePartner string "string option" "string option" "json option"
  | UpdatePartnerStatus date string bool
  | CreateBranch string string string "string option"
  | CreateTerminal date string string string string string "string option"
  | RotateSecret string string
  | Apply date string string string apply_dto
  | Review date string string string string bool "string option"
  | Settle date

fun market_step :: "http \<Rightarrow> finance_env \<Rightarrow> market_request \<Rightarrow> 'a merchant_db_scheme \<Rightarrow> 'a merchant_db_scheme" where
  "market_step http env (CreatePartner now i name taxId profile) s = snd (createPartnerManual http env now i name taxId profile s)"
| "market_step http env (UpdatePartner i name taxId profile) s = snd (updatePartner i name taxId profile s)"
| "market_step http env (UpdatePartnerStatus now i status) s = snd (updatePartnerStatus now i status s)"
| "market_step http env (CreateBranch i pid name address) s = snd (createMerchant i pid name address s)"
| "market_step http env (CreateTerminal now i rk rh mid name hw) s = snd (createTerminal now i rk rh mid name hw s)"
| "market_step http env (RotateSecret newSecret i) s = snd (rotateTerminalSecret newSecret i s)"
| "market_step http env (Apply now pid aid uid b) s = snd (applyMerchant now pid aid uid b s)"
| "market_step http env (Review now mid tid rk i approved note) s = snd (reviewApplication http env now mid tid rk i approved note s)"
| "market_step http env (Settle now) s = runDailySettlement now s"

text \<open>The identifier that the database makes for a new partner is new.\<close>

definition fresh_partner :: "market_request \<Rightarrow> 'a merchant_db_scheme \<Rightarrow> bool" where
  "fresh_partner r s = (case r of Apply now pid aid uid b \<Rightarrow> pid \<notin> pt_id ` set (partners s) | _ \<Rightarrow> True)"

lemma market_audit [simp]: "market_ok (audit l s) = market_ok s"
  by (simp add: market_ok_def sme_ok_def tables_ok_def refs_ok_def)

text \<open>A change of partners that keeps their ids and types and rejects nobody.\<close>

lemma partners_set:
  assumes "market_ok s"
    and "\<And>p. pt_id (f p) = pt_id p" "\<And>p. pt_type (f p) = pt_type p" "\<And>p. pt_status (f p) = PartnerRejected \<Longrightarrow> pt_status p = PartnerRejected"
  shows "market_ok (s\<lparr>partners := update_where c f (partners s)\<rparr>)"
  by (rule partners_updated [OF assms(1), of c f]) (simp_all add: assms(2,3), blast dest: assms(4))

lemma updatePartner_ok: "market_ok s \<Longrightarrow> market_ok (snd (updatePartner i name taxId profile s))"
  unfolding updatePartner_def Let_def by (auto split: option.split intro!: partners_set)

lemma updatePartnerStatus_ok: "market_ok s \<Longrightarrow> market_ok (snd (updatePartnerStatus now i status s))"
  unfolding updatePartnerStatus_def Let_def by (auto split: option.split intro!: partners_set)

lemma createMerchant_ok:
  assumes "market_ok s"
  shows "market_ok (snd (createMerchant i pid name address s))"
proof (cases "createMerchant i pid name address s")
  case (Pair r s')
  show ?thesis
  proof (cases r)
    case (Inl e)
    then have "s' = s" using Pair by (auto simp: createMerchant_def Let_def split: option.splits if_splits)
    then show ?thesis using Pair assms by simp
  next
    case (Inr m)
    then obtain p where p: "find_partner pid s = Some p" "\<not> (pt_type p = SME \<and> 1 \<le> count_where (\<lambda>m. mc_partnerId m = pid) (merchants s))"
      and new: "i \<notin> set (map mc_id (merchants s))" and m: "mc_id m = i" "mc_partnerId m = pid" "s' = s\<lparr>merchants := merchants s @ [m]\<rparr>"
      using Pair by (auto simp: createMerchant_def Let_def split: option.splits if_splits)
    show ?thesis
      using find_partner_row [OF p(1)] p(2) new m Pair
      by (intro branch_added [OF assms, of m p "[]"]) auto
  qed
qed

lemma createTerminal_ok:
  assumes "market_ok s"
  shows "market_ok (snd (createTerminal now i rk rh mid name hw s))"
proof -
  let ?s' = "snd (createTerminal now i rk rh mid name hw s)"
  have "partners ?s' = partners s" "merchants ?s' = merchants s" "applications ?s' = applications s"
    by (auto simp: createTerminal_def Let_def insert_terminal_def split: option.splits)
  then have "refs_ok ?s'" using market_okD(3) [OF assms] by (simp add: refs_ok_def)
  with createTerminal_sme [OF market_okD(1,2) [OF assms]] show ?thesis by (simp add: market_ok_def)
qed

lemma rotateTerminalSecret_ok:
  assumes "market_ok s"
  shows "market_ok (snd (rotateTerminalSecret newSecret i s))"
proof -
  let ?f = "\<lambda>t. t\<lparr>tm_secretKey := newSecret\<rparr>"
  have count: "count_where (\<lambda>t. tm_merchantId t = k) (update_where (\<lambda>t. tm_id t = i) ?f ts) = count_where (\<lambda>t. tm_merchantId t = k) ts" for k ts
    by (induction ts) (simp_all add: update_where_def)
  have mem: "tm_merchantId ` set (update_where (\<lambda>t. tm_id t = i) ?f ts) = tm_merchantId ` set ts" for ts
    by (induction ts) (simp_all add: update_where_def)
  have "market_ok (s\<lparr>terminals := update_where (\<lambda>t. tm_id t = i) ?f (terminals s)\<rparr>)"
    using assms mem [of "terminals s"] by (auto simp: market_ok_def sme_ok_def tables_ok_def refs_ok_def count image_iff set_update_where)
  then show ?thesis using assms by (auto simp: rotateTerminalSecret_def split: option.split)
qed

lemma settle_partner_ok: "market_ok s \<Longrightarrow> market_ok (settle_partner now p s)"
  unfolding settle_partner_def Let_def by (auto intro!: partners_set)

lemma runDailySettlement_ok: "market_ok s \<Longrightarrow> market_ok (runDailySettlement now s)"
proof -
  have "market_ok s \<Longrightarrow> market_ok (fold (settle_partner now) ps s)" for ps and s :: "'a merchant_db_scheme"
    by (induction ps arbitrary: s) (simp_all add: settle_partner_ok)
  then show "market_ok s \<Longrightarrow> market_ok (runDailySettlement now s)" by (simp add: runDailySettlement_def)
qed

lemma createPartnerManual_ok:
  assumes "market_ok s"
  shows "market_ok (snd (createPartnerManual http env now i name taxId profile s))"
proof -
  let ?p = "\<lparr>pt_id = i, pt_userId = None, pt_name = name, pt_taxId = taxId, pt_type = CORPORATE,
      pt_financeAccounts = JNull, pt_isPaymentEnabled = True, pt_isLoyaltyEnabled = True, pt_feeRate = 3 / 100,
      pt_dailyReceiveLimit = 1000000, pt_status = PartnerActive, pt_metadata = JNull, pt_profile = profile, pt_createdAt = now\<rparr>"
  let ?s1 = "s\<lparr>partners := partners s @ [?p]\<rparr>"
  let ?accounts = "[(name @ '' - Available'', None), (name @ '' - Pending'', None), (name @ '' - Fee'', None)]"
  show ?thesis
  proof (cases "\<exists>q\<in>set (partners s). pt_id q = i \<or> (taxId \<noteq> None \<and> pt_taxId q = taxId)")
    case True
    then show ?thesis using assms by (simp add: createPartnerManual_def Let_def)
  next
    case False
    then have s1: "market_ok ?s1" by (intro partner_added [OF assms, of ?p]) auto
    obtain v s2 where run: "finance (create_accounts http env i ?accounts) ?s1 = (v, s2)" by fastforce
    from finance_frame [OF run] obtain w where "s2 = ?s1\<lparr>net := w\<rparr>" by blast
    then have s2: "market_ok s2" using market_same [OF s1, of s2] by simp
    show ?thesis
      unfolding createPartnerManual_def Let_def if_not_P [OF False] run
      by (auto simp: s2 split: sum.split list.split intro!: partners_set)
  qed
qed

lemma applyMerchant_ok:
  assumes ok: "market_ok s" and new: "pid \<notin> pt_id ` set (partners s)"
  shows "market_ok (snd (applyMerchant now pid aid uid b s))"
proof (cases "find (\<lambda>p. pt_userId p = Some uid \<or> pt_taxId p = Some (ad_taxId b)) (partners s)")
  case None
  let ?p = "partner_data uid b (new_partner now pid)" and ?a = "new_application now aid pid uid b"
  have "market_ok (s\<lparr>partners := partners s @ [?p]\<rparr>)"
    using new by (intro partner_added [OF ok, of ?p]) (simp_all add: partner_data_def new_partner_def)
  then have "market_ok (s\<lparr>partners := partners s @ [?p], applications := applications s @ [?a]\<rparr>)"
    by (rule application_added [of _ ?p ?a]) (simp_all add: partner_data_def new_partner_def new_application_def)
  with None show ?thesis by (simp add: applyMerchant_def Let_def)
next
  case (Some p)
  then have p: "p \<in> set (partners s)" by (auto dest: find_SomeD)
  let ?s = "s\<lparr>partners := update_where (\<lambda>q. pt_id q = pt_id p) (partner_data uid b) (partners s)\<rparr>"
  let ?a = "new_application now aid (pt_id p) uid b"
  have s: "market_ok ?s" by (rule partners_set [OF ok]) (simp_all add: partner_data_def)
  have "market_ok (?s\<lparr>applications := applications s @ [?a]\<rparr>)" if "pt_status p = PartnerRejected"
  proof (rule application_added [OF s, of "partner_data uid b p"])
    show "partner_data uid b p \<in> set (partners ?s)" using p by (force simp: set_update_where)
    show "pt_type (partner_data uid b p) = SME" using applied_sme [OF ok p] that by (simp add: partner_data_def)
  qed (simp_all add: partner_data_def new_application_def)
  with Some ok show ?thesis by (simp add: applyMerchant_def Let_def)
qed

lemma decided_partner_ids: "ma_partnerId ` set (update_where c (\<lambda>a. a\<lparr>ma_status := st, ma_reviewNote := f a\<rparr>) as) = ma_partnerId ` set as"
  by (induction as) (simp_all add: update_where_def)

lemma first_branch_ok:
  assumes ok: "market_ok s" and p: "find_partner (ma_partnerId a) s = Some p"
  shows "market_ok (snd (first_branch now mid tid rk a s))"
proof (cases "first_branch now mid tid rk a s")
  case (Pair r s')
  show ?thesis
  proof (cases "s' = s")
    case True
    then show ?thesis using Pair ok by simp
  next
    case False
    have no: "\<forall>m\<in>set (merchants s). mc_partnerId m \<noteq> ma_partnerId a" and new: "mid \<notin> mc_id ` set (merchants s)"
      using Pair False by (auto simp: first_branch_def Let_def split: if_splits)
    have "\<exists>m t. merchants s' = merchants s @ [m] \<and> terminals s' = terminals s @ [t] \<and> partners s' = partners s
        \<and> applications s' = applications s \<and> mc_id m = mid \<and> mc_partnerId m = ma_partnerId a \<and> tm_merchantId t = mid"
      using Pair False by (auto simp: first_branch_def Let_def insert_terminal_def split: if_splits option.splits)
    then obtain m t where m: "mc_id m = mid" "mc_partnerId m = ma_partnerId a" and t: "tm_merchantId t = mid"
      and s': "merchants s' = merchants s @ [m]" "terminals s' = terminals s @ [t]" "partners s' = partners s" "applications s' = applications s"
      by blast
    have "market_ok s'"
      using find_partner_row [OF p] no new m t
      by (intro branch_added [OF ok, of m p "[t]"]) (auto simp: s' count_where_none)
    then show ?thesis using Pair by simp
  qed
qed

lemma approve_tx_ok:
  assumes ok: "market_ok s" and a: "ma_partnerId a \<in> ma_partnerId ` set (applications s)"
    and run: "approve_tx http env now mid tid rk a note accounts s = (Inr r, s')"
  shows "market_ok s'"
proof -
  let ?f = "\<lambda>a. a\<lparr>ma_status := ApplicationApproved, ma_reviewNote := keep_opt note (ma_reviewNote a)\<rparr>"
  let ?s1 = "s\<lparr>applications := update_where (\<lambda>b. ma_id b = ma_id a) ?f (applications s)\<rparr>"
  let ?g = "\<lambda>fee s2. s2\<lparr>partners := update_where (\<lambda>q. pt_id q = ma_partnerId a) (approve_partner a accounts fee) (partners s2)\<rparr>"
  from run obtain settings s2 fee p u s3 where fin: "finance (getSystemSettings http env) ?s1 = (Inr settings, s2)"
    and p: "find_partner (ma_partnerId a) s2 = Some p" and br: "first_branch now mid tid rk a (?g fee s2) = (Inr u, s3)"
    and s': "market_ok s' = market_ok s3"
    by (auto simp: approve_tx_def Let_def split: prod.splits sum.splits if_splits option.splits)
  from finance_frame [OF fin] obtain w where s2: "s2 = ?s1\<lparr>net := w\<rparr>" by blast
  have ids: "ma_partnerId ` set (applications s2) = ma_partnerId ` set (applications s)" by (simp add: s2 decided_partner_ids)
  have "market_ok (?g fee s2)"
  proof (rule partners_updated [OF ok])
    show "partners (?g fee s2) = update_where (\<lambda>q. pt_id q = ma_partnerId a) (approve_partner a accounts fee) (partners s)"
      "merchants (?g fee s2) = merchants s" "terminals (?g fee s2) = terminals s" by (simp_all add: s2)
    show "ma_partnerId ` set (applications (?g fee s2)) = ma_partnerId ` set (applications s)" using ids by simp
    fix q assume q: "q \<in> set (partners s)" "pt_id q = ma_partnerId a"
    then have "pt_type q = SME" using applied_sme [OF ok q(1)] a by simp
    then show "pt_id (approve_partner a accounts fee q) = pt_id q \<and> pt_type (approve_partner a accounts fee q) = pt_type q
        \<and> (pt_status (approve_partner a accounts fee q) = PartnerRejected \<longrightarrow>
             pt_status q = PartnerRejected \<or> pt_id q \<in> ma_partnerId ` set (applications s))"
      by (simp add: approve_partner_def)
  qed
  moreover have "\<exists>p'. find_partner (ma_partnerId a) (?g fee s2) = Some p'"
    using p by (simp add: find_partner_def find_update_where approve_partner_def)
  ultimately show ?thesis using first_branch_ok br s' by (metis snd_conv)
qed

lemma reviewApplication_ok:
  assumes ok: "market_ok s"
  shows "market_ok (snd (reviewApplication http env now mid tid rk i approved note s))"
proof (cases "reviewApplication http env now mid tid rk i approved note s")
  case (Pair res s')
  show ?thesis
  proof (cases res)
    case (Inl e)
    with Pair reviewApplication_error show ?thesis using market_same [OF ok] by (metis snd_conv)
  next
    case (Inr a')
    from reviewApplication_success [OF Pair [unfolded Inr]] obtain a
      where a: "find (\<lambda>a. ma_id a = i) (applications s) = Some a" "ma_status a = ApplicationPending" by blast
    then have mem: "a \<in> set (applications s)" by (auto dest: find_SomeD)
    show ?thesis
    proof (cases approved)
      case False
      then obtain p where "find_partner (ma_partnerId a) s = Some p" and s': "s' = s\<lparr>applications := update_where (\<lambda>b. ma_id b = i)
          (\<lambda>a. a\<lparr>ma_status := ApplicationRejected, ma_reviewNote := keep_opt note (ma_reviewNote a)\<rparr>) (applications s),
          partners := update_where (\<lambda>q. pt_id q = ma_partnerId a) (\<lambda>q. q\<lparr>pt_status := PartnerRejected\<rparr>) (partners s)\<rparr>"
        using Pair Inr a by (auto simp: reviewApplication_def Let_def split: option.splits)
      have "market_ok s'"
        using mem by (intro partners_updated [OF ok, of "\<lambda>q. pt_id q = ma_partnerId a" "\<lambda>q. q\<lparr>pt_status := PartnerRejected\<rparr>"])
          (auto simp: s' decided_partner_ids)
      then show ?thesis using Pair by simp
    next
      case True
      then obtain accounts s1 where acc: "approval_accounts http env a s = (Inr accounts, s1)"
        and tx: "approve_tx http env now mid tid rk a note accounts s1 = (Inr a', s')"
        using Pair Inr a by (auto simp: reviewApplication_def db_transaction_def split: sum.splits prod.splits)
      obtain w where s1: "s1 = s\<lparr>net := w\<rparr>" using approval_accounts_frame [OF acc] by blast
      have "market_ok s1" using market_same [OF ok, of s1] by (simp add: s1)
      from approve_tx_ok [OF this _ tx] mem Pair show ?thesis by (simp add: s1)
    qed
  qed
qed

lemma market_step_ok: "market_ok s \<Longrightarrow> fresh_partner r s \<Longrightarrow> market_ok (market_step http env r s)"
  by (cases r) (simp_all add: fresh_partner_def createPartnerManual_ok updatePartner_ok updatePartnerStatus_ok createMerchant_ok
      createTerminal_ok rotateTerminalSecret_ok applyMerchant_ok reviewApplication_ok runDailySettlement_ok)

inductive market_reachable :: "'a merchant_db_scheme \<Rightarrow> bool" where
  start: "partners s = [] \<Longrightarrow> merchants s = [] \<Longrightarrow> terminals s = [] \<Longrightarrow> applications s = [] \<Longrightarrow> market_reachable s"
| request: "market_reachable s \<Longrightarrow> fresh_partner r s \<Longrightarrow> market_reachable (market_step http env r s)"

lemma reachable_market_ok: "market_reachable s \<Longrightarrow> market_ok s"
proof (induction rule: market_reachable.induct)
  case (start s)
  then show ?case by (simp add: market_ok_def sme_ok_def tables_ok_def refs_ok_def)
qed (rule market_step_ok)

text \<open>
  Property C13. A small merchant has at most one branch and one terminal. In every state that the requests of the
  service reach from empty tables (partners made by an administrator or by an application, branches and terminals
  made by an administrator or by the approval of an application, reviews with every outcome and every
  answer of the ledger, in any order) a partner of type SME has at most one branch and that branch at most one
  terminal; and a request for another branch or terminal is refused without a change.
\<close>

theorem sme_limits_kept:
  assumes "market_reachable s" and "p \<in> set (partners s)" and "pt_type p = SME"
  shows "count_where (\<lambda>m. mc_partnerId m = pt_id p) (merchants s) \<le> 1
    \<and> (\<forall>m\<in>set (merchants s). mc_partnerId m = pt_id p \<longrightarrow>
         count_where (\<lambda>t. tm_merchantId t = mc_id m) (terminals s) \<le> 1
         \<and> createMerchant newId (pt_id p) name addr s =
             (Inl (Http BAD_REQUEST ''SME partners are restricted to a single merchant branch.''), s)
         \<and> (\<forall>t\<in>set (terminals s). tm_merchantId t = mc_id m \<longrightarrow>
              createTerminal now tid rk rh (mc_id m) tname hw s =
                (Inl (Http BAD_REQUEST ''SME merchants are restricted to a single terminal node.''), s)))"
proof (intro conjI ballI impI)
  note ok = market_okD [OF reachable_market_ok [OF assms(1)]]
  show "count_where (\<lambda>m. mc_partnerId m = pt_id p) (merchants s) \<le> 1" using ok(1) assms(2,3) by (simp add: sme_ok_def)
  have "find (\<lambda>q. pt_id q = pt_id p) (partners s) = Some p"
    by (rule find_key_Some) (use ok(2) assms(2) in \<open>simp_all add: tables_ok_def\<close>)
  then have found: "find_partner (pt_id p) s = Some p" by (simp add: find_partner_def)
  fix m assume m: "m \<in> set (merchants s)" "mc_partnerId m = pt_id p"
  show "count_where (\<lambda>t. tm_merchantId t = mc_id m) (terminals s) \<le> 1" using ok(1) assms(2,3) m by (simp add: sme_ok_def)
  have "1 \<le> count_where (\<lambda>m. mc_partnerId m = pt_id p) (merchants s)"
    using m by (auto simp: count_where_def Suc_le_eq filter_empty_conv)
  then show "createMerchant newId (pt_id p) name addr s =
      (Inl (Http BAD_REQUEST ''SME partners are restricted to a single merchant branch.''), s)"
    using found assms(3) by (simp add: createMerchant_def)
  have "find (\<lambda>q. mc_id q = mc_id m) (merchants s) = Some m"
    by (rule find_key_Some) (use ok(2) m(1) in \<open>simp_all add: tables_ok_def\<close>)
  then have branch: "find_merchant (mc_id m) s = Some m" by (simp add: find_merchant_def)
  fix t assume "t \<in> set (terminals s)" "tm_merchantId t = mc_id m"
  then have "1 \<le> count_where (\<lambda>t. tm_merchantId t = mc_id m) (terminals s)"
    by (auto simp: count_where_def Suc_le_eq filter_empty_conv)
  then show "createTerminal now tid rk rh (mc_id m) tname hw s =
      (Inl (Http BAD_REQUEST ''SME merchants are restricted to a single terminal node.''), s)"
    using found branch m(2) assms(3) by (simp add: createTerminal_def)
qed

text \<open>A shop that applies and is given a branch and a terminal.\<close>

definition demo_no_market :: merchant_db where
  "demo_no_market = demo_market\<lparr>partners := [], merchants := [], terminals := [], applications := []\<rparr>"

definition demo_sme :: merchant_db where
  "demo_sme = market_step demo_http demo_env (CreateTerminal demo_now ''t2'' ''k2'' ''h2'' ''m2'' ''Till'' None)
     (market_step demo_http demo_env (CreateBranch ''m2'' ''p2'' ''Shop'' None)
       (market_step demo_http demo_env (Apply demo_now ''p2'' ''a1'' ''carol'' demo_apply) demo_no_market))"

lemma demo_sme_reachable: "market_reachable demo_sme"
  unfolding demo_sme_def
  by (intro market_reachable.request market_reachable.start) (simp_all add: demo_no_market_def fresh_partner_def)

theorem sme_limits_kept_witness:
  "\<exists>m t. merchants demo_sme = [m] \<and> terminals demo_sme = [t]
     \<and> createMerchant ''m3'' ''p2'' ''Second'' None demo_sme =
         (Inl (Http BAD_REQUEST ''SME partners are restricted to a single merchant branch.''), demo_sme)
     \<and> createTerminal demo_now ''t3'' ''k'' ''h'' ''m2'' ''Second'' None demo_sme =
         (Inl (Http BAD_REQUEST ''SME merchants are restricted to a single terminal node.''), demo_sme)"
proof -
  have "\<exists>p m t. partners demo_sme = [p] \<and> merchants demo_sme = [m] \<and> terminals demo_sme = [t] \<and> pt_id p = ''p2'' \<and> pt_type p = SME
      \<and> mc_id m = ''m2'' \<and> mc_partnerId m = ''p2'' \<and> tm_merchantId t = ''m2''"
    by (simp add: demo_sme_def demo_no_market_def applyMerchant_def createMerchant_def createTerminal_def insert_terminal_def
        find_partner_def find_merchant_def partner_data_def new_partner_def Let_def)
  then obtain p m t where rows: "partners demo_sme = [p]" "merchants demo_sme = [m]" "terminals demo_sme = [t]"
    "pt_id p = ''p2''" "pt_type p = SME" "mc_id m = ''m2''" "mc_partnerId m = ''p2''" "tm_merchantId t = ''m2''"
    by blast
  from sme_limits_kept [OF demo_sme_reachable, of p] rows show ?thesis by simp
qed

end
