(* ===== verification/Payments.thy ===== *)
theory Payments
  imports Merchant_Props
begin

text \<open>
  The payments of the merchant service: the four-way split of an amount into the merchant's net, its
  VAT, the system's fee and the VAT on the fee; dynamic QR codes and their life cycle; payments to a
  static code; payments and redemptions at a terminal under the idempotency service. Error messages that
  the code builds around an amount keep their fixed words here.
\<close>

section \<open>The split\<close>

record split =
  sp_merchantVat :: jsnum
  sp_systemFee :: jsnum
  sp_systemVat :: jsnum
  sp_merchantNet :: jsnum

definition compute_split :: "jsnum \<Rightarrow> jsnum \<Rightarrow> jsnum \<Rightarrow> split" where
  "compute_split amount feeRate vatRate =
     (let merchantVat = round2 (nmul amount (ndiv vatRate (nadd (Fin 1) vatRate)));
          systemFee = round2 (nmul amount feeRate);
          systemVat = round2 (nmul systemFee vatRate)
      in \<lparr>sp_merchantVat = merchantVat, sp_systemFee = systemFee, sp_systemVat = systemVat,
          sp_merchantNet = nsub (nsub (nsub amount merchantVat) systemFee) systemVat\<rparr>)"

section \<open>Checks before a payment\<close>

text \<open>The limits, in the order the handlers test them; \<open>None\<close> is no objection.\<close>

definition payment_limits :: "json \<Rightarrow> json \<Rightarrow> partner \<Rightarrow> jsnum \<Rightarrow> error option" where
  "payment_limits settings wallet p amount =
     (if nullish (jget ''minMerchantPayment'' settings) then Some (Http INTERNAL_SERVER_ERROR ''Merchant minimum payment is not configured'')
      else if nlt amount (Number_json (jget ''minMerchantPayment'' settings)) then Some (Http BAD_REQUEST ''Minimum payment amount'')
      else if \<not> truthy (jget ''perTransactionLimit'' settings) then Some (Http INTERNAL_SERVER_ERROR ''System transaction limit is not configured'')
      else if nlt (Number_json (jget ''perTransactionLimit'' settings)) amount then Some (Http BAD_REQUEST ''Transaction exceeds system limit'')
      else if nullish (jget ''dailyLimit'' wallet) then Some (Http INTERNAL_SERVER_ERROR ''User daily limit is not configured'')
      else if nlt (Number_json (jget ''dailyLimit'' wallet)) amount then Some (Http BAD_REQUEST ''Transaction exceeds your wallet's daily limit'')
      else if nlt (mk_num (pt_dailyReceiveLimit p)) amount then Some (Http BAD_REQUEST ''Transaction exceeds merchant's receiving limit'')
      else if nullish (jget ''merchantFeeRate'' settings) then Some (Http INTERNAL_SERVER_ERROR ''Default merchant fee rate is not configured'')
      else if nullish (jget ''vatRate'' settings) then Some (Http INTERNAL_SERVER_ERROR ''System VAT rate is not configured'')
      else None)"

record payment_context =
  pc_partner :: partner
  pc_system :: partner
  pc_wallet :: json
  pc_split :: split

definition SYSTEM_TAX_ID :: string where "SYSTEM_TAX_ID = ''0000000000000''"

text \<open>
  Everything the two handlers do between finding the merchant and moving the money: the accounts of the
  merchant and of the system partner, the customer's wallet, the settings, the limits and the split.
\<close>

definition prepare_payment :: "http \<Rightarrow> finance_env \<Rightarrow> string \<Rightarrow> merchant \<Rightarrow> jsnum \<Rightarrow> ('a merchant_db_scheme, payment_context) handler" where
  "prepare_payment http env userId m amount s =
     (case find_partner (mc_partnerId m) s of
        None \<Rightarrow> (Inl (Http INTERNAL_SERVER_ERROR ''Merchant financial accounts not found''), s)
      | Some p \<Rightarrow>
          if \<not> truthy (pt_financeAccounts p) then (Inl (Http INTERNAL_SERVER_ERROR ''Merchant financial accounts not found''), s)
          else (case find (\<lambda>q. pt_taxId q = Some SYSTEM_TAX_ID) (partners s) of
             None \<Rightarrow> (Inl (Http INTERNAL_SERVER_ERROR ''System financial accounts not found''), s)
           | Some sys \<Rightarrow>
               if \<not> truthy (pt_financeAccounts sys) then (Inl (Http INTERNAL_SERVER_ERROR ''System financial accounts not found''), s)
               else (case finance (getWallet http env userId) s of
                  (Inl e, s1) \<Rightarrow> (Inl e, s1)
                | (Inr wallet, s1) \<Rightarrow>
                    if \<not> truthy wallet \<or> \<not> truthy (jget ''walletId'' wallet)
                    then (Inl (Http NOT_FOUND ''Customer wallet not found''), s1)
                    else (case finance (getSystemSettings http env) s1 of
                       (Inl e, s2) \<Rightarrow> (Inl e, s2)
                     | (Inr settings, s2) \<Rightarrow>
                         if \<not> truthy settings then (Inl (Http INTERNAL_SERVER_ERROR ''System settings could not be retrieved''), s2)
                         else (case payment_limits settings wallet p amount of
                            Some e \<Rightarrow> (Inl e, s2)
                          | None \<Rightarrow> (Inr \<lparr>pc_partner = p, pc_system = sys, pc_wallet = wallet,
                              pc_split = compute_split amount (mk_num (pt_feeRate p)) (Number_json (jget ''vatRate'' settings))\<rparr>, s2))))))"

section \<open>Legs\<close>

definition common_meta :: "string \<Rightarrow> string \<Rightarrow> jsnum \<Rightarrow> (string \<times> json) list" where
  "common_meta key merchantName amount =
     [(''idempotencyKey'', JStr key), (''isMerchantPayment'', JBool True), (''merchantName'', JStr merchantName),
      (''totalAmount'', JText (toFixed 2 amount))]"

definition mk_leg :: "json \<Rightarrow> jsnum \<Rightarrow> string \<Rightarrow> (string \<times> json) list \<Rightarrow> leg" where
  "mk_leg to n note meta = \<lparr>lg_toWalletId = to, lg_amount = toFixed 2 n, lg_note = note, lg_metadata = JObj meta\<rparr>"

text \<open>\<open>Number(x.toFixed(2)) > 0\<close>\<close>

definition positive2 :: "jsnum \<Rightarrow> bool" where
  "positive2 n = nlt (Fin 0) (round2 n)"

text \<open>
  A secondary leg is sent only when its amount is positive and its account is set. \<open>zero_id\<close> tells
  whether an account with the id \<open>'0'\<close> counts as not set, as the manual payment has it.
\<close>

definition account_set :: "bool \<Rightarrow> json \<Rightarrow> bool" where
  "account_set zero_id v \<longleftrightarrow> truthy v \<and> \<not> (zero_id \<and> v = JStr ''0'')"

definition optional_leg :: "bool \<Rightarrow> json \<Rightarrow> jsnum \<Rightarrow> string \<Rightarrow> (string \<times> json) list \<Rightarrow> leg list" where
  "optional_leg zero_id to n note meta =
     (if positive2 n \<and> account_set zero_id to then [mk_leg to n note (meta @ [(''silent'', JBool True)])] else [])"

definition qr_legs :: "string \<Rightarrow> string \<Rightarrow> string \<Rightarrow> jsnum \<Rightarrow> json \<Rightarrow> json \<Rightarrow> split \<Rightarrow> leg list" where
  "qr_legs paymentId key merchantName amount mAcc sAcc sp =
     (let meta = common_meta key merchantName amount
      in [mk_leg (jget ''pending'' mAcc) (sp_merchantNet sp) (''QR Payment to '' @ merchantName) meta]
         @ optional_leg False (jget ''vat'' mAcc) (sp_merchantVat sp) (''Merchant VAT for QR '' @ paymentId) meta
         @ optional_leg False (jget ''revenue'' sAcc) (sp_systemFee sp) (''System Fee for QR '' @ paymentId) meta
         @ optional_leg False (jget ''vat_payable'' sAcc) (sp_systemVat sp) (''Service VAT for QR '' @ paymentId) meta)"

definition manual_legs :: "string \<Rightarrow> string \<Rightarrow> string option \<Rightarrow> jsnum \<Rightarrow> json \<Rightarrow> json \<Rightarrow> split \<Rightarrow> leg list" where
  "manual_legs key merchantName note amount mAcc sAcc sp =
     (let meta = common_meta key merchantName amount
      in (if account_set True (jget ''pending'' mAcc)
          then [mk_leg (jget ''pending'' mAcc) (sp_merchantNet sp)
                  (case note of Some (c # t) \<Rightarrow> c # t | _ \<Rightarrow> ''Manual Payment to '' @ merchantName) meta] else [])
         @ optional_leg True (jget ''vat'' mAcc) (sp_merchantVat sp) (''VAT for '' @ merchantName) meta
         @ optional_leg True (jget ''revenue'' sAcc) (sp_systemFee sp) (''System Fee from '' @ merchantName) meta
         @ optional_leg True (jget ''vat_payable'' sAcc) (sp_systemVat sp) (''System VAT from '' @ merchantName) meta)"

section \<open>QR payments\<close>

definition find_payment :: "string \<Rightarrow> 'a merchant_db_scheme \<Rightarrow> merchant_payment option" where
  "find_payment i s = find (\<lambda>p. mp_id p = i) (merchantPayment s)"

definition set_payment :: "string \<Rightarrow> (merchant_payment \<Rightarrow> merchant_payment) \<Rightarrow> 'a merchant_db_scheme \<Rightarrow> 'a merchant_db_scheme" where
  "set_payment i f s = s\<lparr>merchantPayment := update_where (\<lambda>p. mp_id p = i) f (merchantPayment s)\<rparr>"

text \<open>The unique columns: id, idempotency key and, where it is set, the reference.\<close>

definition insert_payment :: "merchant_payment \<Rightarrow> ('a merchant_db_scheme, merchant_payment) handler" where
  "insert_payment p s =
     (if \<exists>q\<in>set (merchantPayment s). mp_id q = mp_id p \<or> mp_idempotencyKey q = mp_idempotencyKey p
          \<or> (mp_referenceId p \<noteq> None \<and> mp_referenceId q = mp_referenceId p)
      then (Inl (Prisma ''P2002''), s)
      else (Inr p, s\<lparr>merchantPayment := merchantPayment s @ [p]\<rparr>))"

definition owns_merchant :: "string \<Rightarrow> string \<Rightarrow> 'a merchant_db_scheme \<Rightarrow> merchant option" where
  "owns_merchant userId merchantId s = find (\<lambda>m. mc_id m = merchantId
     \<and> (case find_partner (mc_partnerId m) s of None \<Rightarrow> False | Some p \<Rightarrow> pt_userId p = Some userId)) (merchants s)"

text \<open>
  \<open>amount\<close> is whatever the body has, because the handler has no DTO: \<open>amount < 5.0\<close> converts it, but
  \<open>amount.toFixed(4)\<close> exists only on numbers. \<open>uuid\<close> is the random part of the key.
\<close>

definition generatePaymentQR :: "date \<Rightarrow> string \<Rightarrow> string \<Rightarrow> string \<Rightarrow> string \<Rightarrow> json \<Rightarrow> string option
    \<Rightarrow> ('a merchant_db_scheme, merchant_payment \<times> string) handler" where
  "generatePaymentQR now newId uuid userId merchantId amount terminalId s =
     (if nlt (Number_json amount) (Fin 5) then (Inl (Http BAD_REQUEST ''Minimum payment amount for QR is 5.00''), s)
      else case owns_merchant userId merchantId s of
        None \<Rightarrow> (Inl (Http NOT_FOUND ''Merchant not found''), s)
      | Some m \<Rightarrow>
          (case amount of
             JNum n \<Rightarrow>
               (case decimal_column (JText (toFixed 4 n)) of
                  None \<Rightarrow> (Inl (Plain ''Invalid value for amount''), s)
                | Some x \<Rightarrow>
                    if terminalId \<noteq> None \<and> find_terminal (the terminalId) s = None then (Inl (Prisma ''P2003''), s)
                    else (case insert_payment \<lparr>mp_id = newId, mp_merchantId = merchantId, mp_terminalId = terminalId, mp_amount = x,
                            mp_currency = ''THB'', mp_status = PaymentPending, mp_idempotencyKey = ''qr_pay_'' @ uuid, mp_referenceId = None,
                            mp_note = None, mp_metadata = JNull, mp_expiresAt = now\<lparr>d_ms := d_ms now + 15 * 60 * 1000\<rparr>,
                            mp_createdAt = now\<rparr> s of
                        (Inl e, s') \<Rightarrow> (Inl e, s')
                      | (Inr p, s') \<Rightarrow> (Inr (p, ''jledger://pay?id='' @ newId), s')))
           | _ \<Rightarrow> (Inl (Plain ''amount.toFixed is not a function''), s)))"

definition generateStaticQR :: "string \<Rightarrow> string \<Rightarrow> ('a merchant_db_scheme, string \<times> string) handler" where
  "generateStaticQR userId merchantId s =
     (case owns_merchant userId merchantId s of
        None \<Rightarrow> (Inl (Http NOT_FOUND ''Merchant not found''), s)
      | Some m \<Rightarrow> (Inr (mc_id m, ''jledger://merchant?id='' @ mc_id m), s))"

definition past :: "date \<Rightarrow> date \<Rightarrow> bool" where
  "past now d \<longleftrightarrow> time_value d < time_value now"

definition expire_payment :: "string \<Rightarrow> 'a merchant_db_scheme \<Rightarrow> 'a merchant_db_scheme" where
  "expire_payment i = set_payment i (\<lambda>p. p\<lparr>mp_status := PaymentExpired\<rparr>)"

definition getPaymentDetail :: "date \<Rightarrow> string \<Rightarrow> ('a merchant_db_scheme, merchant_payment \<times> string) handler" where
  "getPaymentDetail now paymentId s =
     (case find_payment paymentId s of
        None \<Rightarrow> (Inl (Http NOT_FOUND ''Payment request not found''), s)
      | Some p \<Rightarrow>
          if mp_status p = PaymentExpired then (Inl (Http GONE ''Payment request expired''), s)
          else if mp_status p \<noteq> PaymentPending then (Inl (Http GONE ''Payment is no longer pending''), s)
          else if past now (mp_expiresAt p) then (Inl (Http GONE ''Payment request expired''), expire_payment paymentId s)
          else (case find_merchant (mp_merchantId p) s of
             None \<Rightarrow> (Inl (Plain ''merchant is required''), s)
           | Some m \<Rightarrow> (Inr (p, mc_name m), s)))"

text \<open>\<open>tx.transactionId || tx.id?.toString()\<close> as the text of a column; ids are texts or whole numbers.\<close>

fun id_text :: "json \<Rightarrow> string option" where
  "id_text (JStr t) = Some t"
| "id_text (JNum (Fin x)) = Some (int_text \<lfloor>x\<rfloor>)"
| "id_text _ = None"

definition tx_reference :: "json \<Rightarrow> string option" where
  "tx_reference tx = (case jget ''transactionId'' tx of JStr (c # t) \<Rightarrow> Some (c # t) | _ \<Rightarrow> id_text (jget ''id'' tx))"

definition payment_audit :: "date \<Rightarrow> string \<Rightarrow> string \<Rightarrow> json \<Rightarrow> audit_log" where
  "payment_audit now userId merchantId payload =
     (audit_row now MERCHANT_PAYMENT MERCHANT merchantId ''J-Ledger/Internal'' payload 200)\<lparr>al_userId := Some userId\<rparr>"

text \<open>The \<open>try\<close> block: the atomic transfer, then the status, then the audit row.\<close>

definition qr_transfer :: "http \<Rightarrow> finance_env \<Rightarrow> date \<Rightarrow> string \<Rightarrow> merchant_payment \<Rightarrow> merchant \<Rightarrow> payment_context
    \<Rightarrow> ('a merchant_db_scheme, string option) handler" where
  "qr_transfer http env now userId p m c s =
     (let key = ''qr_pay_atomic_'' @ mp_id p;
          legs = qr_legs (mp_id p) key (mc_name m) (mk_num (mp_amount p)) (pt_financeAccounts (pc_partner c))
                   (pt_financeAccounts (pc_system c)) (pc_split c)
      in case finance (performMerchantMultiPay http env (jget ''walletId'' (pc_wallet c)) None key legs) s of
        (Inl e, s1) \<Rightarrow> (Inl e, s1)
      | (Inr tx, s1) \<Rightarrow>
          if nullish tx then (Inl (Plain ''Cannot read properties of null''), s1)
          else let ref = tx_reference tx
               in if ref \<noteq> None \<and> (\<exists>q\<in>set (merchantPayment s1). mp_id q \<noteq> mp_id p \<and> mp_referenceId q = ref)
                  then (Inl (Prisma ''P2002''), s1)
                  else (Inr ref, audit (payment_audit now userId (mp_merchantId p)
                          (JObj [(''paymentId'', JStr (mp_id p)), (''transactionId'', jopt ref)]) )
                         (set_payment (mp_id p) (\<lambda>q. q\<lparr>mp_status := PaymentCompleted, mp_referenceId := keep_opt ref (mp_referenceId q)\<rparr>) s1)))"

fun error_text :: "error \<Rightarrow> string" where
  "error_text (Http st m) = m"
| "error_text (Plain m) = m"
| "error_text (Prisma c) = c"

fun is_conflict :: "error \<Rightarrow> bool" where
  "is_conflict (Http st m) = (st = CONFLICT)"
| "is_conflict _ = False"

definition fail_payment :: "string \<Rightarrow> error \<Rightarrow> 'a merchant_db_scheme \<Rightarrow> 'a merchant_db_scheme" where
  "fail_payment i e s = (if is_conflict e then s
     else set_payment i (\<lambda>p. p\<lparr>mp_status := PaymentFailed, mp_metadata := JObj [(''error'', JStr (error_text e))]\<rparr>) s)"

definition processQRPayment :: "http \<Rightarrow> finance_env \<Rightarrow> date \<Rightarrow> string \<Rightarrow> string
    \<Rightarrow> ('a merchant_db_scheme, string option \<times> rat \<times> string) handler" where
  "processQRPayment http env now userId paymentId s =
     (case find_payment paymentId s of
        None \<Rightarrow> (Inl (Http NOT_FOUND ''Payment request not found''), s)
      | Some p \<Rightarrow>
          if mp_status p \<noteq> PaymentPending then (Inl (Http GONE ''Payment is no longer pending''), s)
          else if past now (mp_expiresAt p) then (Inl (Http GONE ''Payment request expired''), expire_payment paymentId s)
          else (case find_merchant (mp_merchantId p) s of
             None \<Rightarrow> (Inl (Plain ''merchant is required''), s)
           | Some m \<Rightarrow>
               (case prepare_payment http env userId m (mk_num (mp_amount p)) s of
                  (Inl e, s1) \<Rightarrow> (Inl e, s1)
                | (Inr c, s1) \<Rightarrow>
                    (case qr_transfer http env now userId p m c s1 of
                       (Inl e, s2) \<Rightarrow> (Inl e, fail_payment paymentId e s2)
                     | (Inr ref, s2) \<Rightarrow> (Inr (ref, mp_amount p, mc_name m), s2)))))"

section \<open>Payments to a static code\<close>

definition previewManualPayment :: "string \<Rightarrow> ('a merchant_db_scheme, string \<times> string \<times> json \<times> json) handler" where
  "previewManualPayment merchantId s =
     (case find_merchant merchantId s of
        None \<Rightarrow> (Inl (Http NOT_FOUND ''Merchant not found''), s)
      | Some m \<Rightarrow>
          let profile = (case find_partner (mc_partnerId m) s of None \<Rightarrow> JUndef
                | Some p \<Rightarrow> (case pt_profile p of None \<Rightarrow> JUndef | Some v \<Rightarrow> v))
          in (Inr (mc_id m, mc_name m, jor (jopt (mc_category m)) (jget ''category'' profile), jget ''logoUrl'' profile), s))"

text \<open>
  \<open>amount\<close> is whatever the body has, because the handler has no DTO. \<open>ms\<close> is \<open>Date.now()\<close>. The payment
  row is written after the money has moved.
\<close>

definition processManualPayment :: "http \<Rightarrow> finance_env \<Rightarrow> date \<Rightarrow> int \<Rightarrow> string \<Rightarrow> string \<Rightarrow> string \<Rightarrow> json \<Rightarrow> string option
    \<Rightarrow> ('a merchant_db_scheme, string option \<times> json \<times> string) handler" where
  "processManualPayment http env now ms newId userId merchantId amount note s =
     (case find_merchant merchantId s of
        None \<Rightarrow> (Inl (Http NOT_FOUND ''Merchant not found''), s)
      | Some m \<Rightarrow>
          (case prepare_payment http env userId m (Number_json amount) s of
             (Inl e, s1) \<Rightarrow> (Inl e, s1)
           | (Inr c, s1) \<Rightarrow>
               let key = ''manual_pay_'' @ merchantId @ ''_'' @ userId @ ''_'' @ int_text ms;
                   legs = manual_legs key (mc_name m) note (Number_json amount) (pt_financeAccounts (pc_partner c))
                            (pt_financeAccounts (pc_system c)) (pc_split c)
               in if legs = [] then (Inl (Http INTERNAL_SERVER_ERROR ''No valid destination wallets found for payment legs''), s1)
                  else (case finance (performMerchantMultiPay http env (jget ''walletId'' (pc_wallet c)) None (''manual_pay_atomic_'' @ key) legs) s1 of
                     (Inl e, s2) \<Rightarrow> (Inl e, s2)
                   | (Inr tx, s2) \<Rightarrow>
                       if nullish tx then (Inl (Plain ''Cannot read properties of null''), s2)
                       else (case decimal_column amount of
                          None \<Rightarrow> (Inl (Plain ''Invalid value for amount''), s2)
                        | Some x \<Rightarrow>
                            (case insert_payment \<lparr>mp_id = newId, mp_merchantId = mc_id m, mp_terminalId = None, mp_amount = x, mp_currency = ''THB'',
                                mp_status = PaymentCompleted, mp_idempotencyKey = ''mp_manual_'' @ key, mp_referenceId = tx_reference tx,
                                mp_note = Some (case note of Some (c # t) \<Rightarrow> c # t | _ \<Rightarrow> ''Manual Merchant Payment''), mp_metadata = JNull,
                                mp_expiresAt = now, mp_createdAt = now\<rparr> s2 of
                               (Inl e, s3) \<Rightarrow> (Inl e, s3)
                             | (Inr _, s3) \<Rightarrow>
                                 (Inr (tx_reference tx, amount, mc_name m),
                                  audit (payment_audit now userId (mc_id m) (JObj [(''amount'', amount), (''note'', jopt note),
                                    (''transactionId'', jopt (tx_reference tx)), (''mode'', JStr ''MANUAL'')])) s3))))))"

section \<open>Payments and redemptions at a terminal\<close>

text \<open>These write their audit row inside the transaction, without masking.\<close>

definition terminal_audit :: "date \<Rightarrow> audit_action \<Rightarrow> terminal \<Rightarrow> json \<Rightarrow> nat \<Rightarrow> 'a merchant_db_scheme \<Rightarrow> 'a merchant_db_scheme" where
  "terminal_audit now action t payload status s = s\<lparr>auditLog := auditLog s @
     [audit_row now action MERCHANT (tm_merchantId t) (''Terminal/'' @ (case tm_hardwareId t of None \<Rightarrow> ''null'' | Some h \<Rightarrow> h)) payload status]\<rparr>"

record terminal_payment_body =
  tb_amount :: jsnum
  tb_idempotencyKey :: string
  tb_note :: "string option"

definition terminal_payment_tx :: "date \<Rightarrow> string \<Rightarrow> string \<Rightarrow> string \<Rightarrow> terminal_payment_body \<Rightarrow> ('a merchant_db_scheme, nat \<times> json) handler" where
  "terminal_payment_tx now newId uuid terminalId body s =
     (case find_terminal terminalId s of
        None \<Rightarrow> (Inl (Http NOT_FOUND ''Terminal not found''), s)
      | Some t \<Rightarrow>
          (case find_merchant (tm_merchantId t) s of
             None \<Rightarrow> (Inl (Plain ''merchant is required''), s)
           | Some m \<Rightarrow>
               (case find_partner (mc_partnerId m) s of
                  None \<Rightarrow> (Inl (Prisma ''P2025''), s)
                | Some p \<Rightarrow>
                    if \<not> truthy (jget ''pending'' (pt_financeAccounts p))
                    then (Inl (Http INTERNAL_SERVER_ERROR ''Merchant financial account not initialized''), s)
                    else let txId = ''txn_tm_pmt_'' @ uuid
                         in (case decimal_column (JNum (tb_amount body)) of
                               None \<Rightarrow> (Inl (Plain ''Invalid value for amount''), s)
                             | Some x \<Rightarrow>
                                 (case insert_payment \<lparr>mp_id = newId, mp_merchantId = tm_merchantId t, mp_terminalId = Some terminalId, mp_amount = x,
                                     mp_currency = ''THB'', mp_status = PaymentCompleted, mp_idempotencyKey = tb_idempotencyKey body,
                                     mp_referenceId = Some txId, mp_note = Some (case tb_note body of Some (c # u) \<Rightarrow> c # u | _ \<Rightarrow> ''Terminal Payment''),
                                     mp_metadata = JObj [(''merchantName'', JStr (mc_name m)), (''isMerchantPayment'', JBool True)],
                                     mp_expiresAt = now, mp_createdAt = now\<rparr> s of
                                    (Inl e, s1) \<Rightarrow> (Inl e, s1)
                                  | (Inr _, s1) \<Rightarrow>
                                      (Inr (201, JObj [(''success'', JBool True), (''transactionId'', JStr txId),
                                              (''amount'', JNum (tb_amount body)), (''currency'', JStr ''THB'')]),
                                       terminal_audit now MERCHANT_PAYMENT t (JObj [(''terminalId'', JStr terminalId),
                                         (''amount'', JNum (tb_amount body)), (''idempotencyKey'', JStr (tb_idempotencyKey body)),
                                         (''note'', jopt (tb_note body)), (''transactionId'', JStr txId)]) 201 s1))))))"

definition processTerminalPayment :: "(terminal_payment_body \<Rightarrow> string) \<Rightarrow> date \<Rightarrow> string \<Rightarrow> string \<Rightarrow> string \<Rightarrow> terminal_payment_body
    \<Rightarrow> ('a merchant_db_scheme, idem_response) handler" where
  "processTerminalPayment hash now newId uuid terminalId body =
     handleIdempotency hash now terminalId ''PAYMENT'' (tb_idempotencyKey body) body
       (transaction (terminal_payment_tx now newId uuid terminalId body))"

record terminal_redeem_body =
  rb_redemptionCode :: string
  rb_idempotencyKey :: string

definition terminal_redemption_tx :: "date \<Rightarrow> string \<Rightarrow> terminal_redeem_body \<Rightarrow> ('a merchant_db_scheme, nat \<times> json) handler" where
  "terminal_redemption_tx now terminalId body s =
     (case find_terminal terminalId s of
        None \<Rightarrow> (Inl (Http NOT_FOUND ''Terminal not found''), s)
      | Some t \<Rightarrow>
          let c = (\<lambda>r. rd_redemptionCode r = rb_redemptionCode body \<and> rd_status r = REDEEMED)
          in if count_where c (redemptions s) = 0
             then (case find_code (rb_redemptionCode body) s of
                None \<Rightarrow> (Inl (Http NOT_FOUND ''Redemption code not found''), s)
              | Some _ \<Rightarrow> (Inl (Http BAD_REQUEST ''Invalid or already used code''), s))
             else (Inr (200, JObj [(''success'', JBool True), (''redemptionCode'', JStr (rb_redemptionCode body)), (''usedAt'', JDate now)]),
                   terminal_audit now MERCHANT_REDEMPTION t (JObj [(''terminalId'', JStr terminalId),
                     (''redemptionCode'', JStr (rb_redemptionCode body)), (''idempotencyKey'', JStr (rb_idempotencyKey body))]) 200
                     (s\<lparr>redemptions := update_where c (use_at now (tm_merchantId t)) (redemptions s)\<rparr>)))"

definition processTerminalRedemption :: "(terminal_redeem_body \<Rightarrow> string) \<Rightarrow> date \<Rightarrow> string \<Rightarrow> terminal_redeem_body
    \<Rightarrow> ('a merchant_db_scheme, idem_response) handler" where
  "processTerminalRedemption hash now terminalId body =
     handleIdempotency hash now terminalId ''REDEEM'' (rb_idempotencyKey body) body
       (transaction (terminal_redemption_tx now terminalId body))"

end
