(* ===== verification/Payment_Props.thy ===== *)
theory Payment_Props
  imports Payments
begin

text \<open>
  Properties of the payments: the legs add up to the amount although every part is computed in doubles;
  a prepared payment is within every limit; a QR payment is settled once; requests at a terminal take
  effect once, by the contract of the idempotency service.
\<close>

section \<open>The split is exact to the satang\<close>

lemma nmul_le:
  assumes "\<bar>a\<bar> \<le> A" "\<bar>b\<bar> \<le> C" "1 \<le> A * C" "A * C \<le> 10 ^ 30" "A * C + A * C / 2 ^ 53 \<le> D"
  shows "nmul (Fin a) (Fin b) = Fin (fl64 (a * b)) \<and> \<bar>fl64 (a * b)\<bar> \<le> D"
proof -
  have "\<bar>a * b\<bar> \<le> A * C" unfolding abs_mult using assms by (intro mult_mono) auto
  then show ?thesis using assms(3-5) double.fl_abs_le [of "A * C" "a * b"] mk_num_Fin [of "a * b"] by simp
qed

text \<open>Rounding to whole satang: the double nearest to \<open>a\<close> hundredths prints as \<open>a\<close> hundredths.\<close>

lemma fl_hundredths:
  assumes "\<bar>a\<bar> \<le> (10 ^ 13 :: int)"
  shows "toFixed 2 (Fin (fl64 (of_int a / 100))) = FFix 2 a"
proof -
  let ?x = "of_int a / 100 :: rat"
  have b: "\<bar>?x\<bar> \<le> 10 ^ 11" using assms by (simp add: abs_le_iff)
  have err: "\<bar>fl64 ?x - ?x\<bar> \<le> 10 ^ 11 / 2 ^ 53" by (rule double.fl_error) (use b in auto)
  also have "\<dots> < 1 / (2 * 10 ^ 2)" by simp
  finally have "round_up 2 (fl64 ?x) = a" by (intro round_up_unique) simp
  moreover have "\<bar>fl64 ?x\<bar> < 10 ^ 21"
  proof -
    have "\<bar>fl64 ?x\<bar> \<le> 10 ^ 11 + 10 ^ 11 / 2 ^ 53" by (rule double.fl_abs_le) (use b in auto)
    also have "\<dots> < 10 ^ 21" by simp
    finally show ?thesis .
  qed
  ultimately show ?thesis by simp
qed

lemma round2_fin:
  assumes "\<bar>x\<bar> \<le> 10 ^ 11 - 1" 
  shows "\<exists>a. round2 (Fin x) = Fin (fl64 (of_int a / 100)) \<and> a = round_up 2 x \<and> \<bar>a\<bar> \<le> 10 ^ 13 \<and> (0 \<le> x \<longrightarrow> 0 \<le> a)"
proof -
  let ?a = "round_up 2 x"
  have e: "\<bar>of_int ?a - x * 100\<bar> \<le> 1 / 2" using round_up_error [of 2 x] by simp
  have "\<bar>x * 100\<bar> \<le> (10 ^ 11 - 1) * 100" unfolding abs_mult using assms by simp
  then have "\<bar>of_int ?a :: rat\<bar> \<le> (10 ^ 11 - 1) * 100 + 1 / 2" using e by linarith
  then have "\<bar>of_int ?a :: rat\<bar> \<le> of_int (10 ^ 13)" by simp
  then have a: "\<bar>?a\<bar> \<le> 10 ^ 13" unfolding of_int_abs [symmetric] of_int_le_iff .
  have "\<bar>x\<bar> < 10 ^ 21" using assms by simp
  then have "round2 (Fin x) = mk_num (of_int ?a / 100)" by (simp add: round2_def)
  moreover have "\<bar>of_int ?a / 100 :: rat\<bar> \<le> 10 ^ 30"
  proof -
    have "\<bar>of_int ?a / 100 :: rat\<bar> = \<bar>of_int ?a\<bar> / 100" by simp
    also have "\<dots> \<le> of_int (10 ^ 13) / 100" using \<open>\<bar>of_int ?a :: rat\<bar> \<le> of_int (10 ^ 13)\<close> by (intro divide_right_mono) simp_all
    also have "\<dots> \<le> 10 ^ 30" by simp
    finally show ?thesis .
  qed
  ultimately show ?thesis using a mk_num_Fin round_up_nonneg by simp
qed


text \<open>The share of the VAT in a gross amount.\<close>

lemma vat_share:
  assumes "0 \<le> v" "v \<le> 1"
  shows "\<exists>q. ndiv (Fin v) (nadd (Fin 1) (Fin v)) = Fin q \<and> \<bar>q\<bar> \<le> 3 \<and> 0 \<le> q"
proof -
  let ?d = "fl64 (1 + v)"
  have "\<bar>?d - (1 + v)\<bar> \<le> 2 / 2 ^ 53" by (rule double.fl_error) (use assms in auto)
  also have "\<dots> \<le> 1 / 2" by simp
  finally have d: "1 / 2 \<le> ?d" using assms by linarith
  have add: "nadd (Fin 1) (Fin v) = Fin ?d" using assms mk_num_Fin [of "1 + v"] by simp
  have "v / ?d \<le> 1 / (1 / 2)" using assms d by (intro frac_le) auto
  moreover have "0 \<le> v / ?d" using assms d by simp
  ultimately have q: "\<bar>v / ?d\<bar> \<le> 2" by simp
  have "\<bar>fl64 (v / ?d)\<bar> \<le> 2 + 2 / 2 ^ 53" by (rule double.fl_abs_le) (use q in auto)
  moreover have "ndiv (Fin v) (Fin ?d) = Fin (fl64 (v / ?d))" using d mk_num_Fin [of "v / ?d"] q by simp
  moreover have "0 \<le> fl64 (v / ?d)" using \<open>0 \<le> v / ?d\<close> by (rule fl64_nonneg)
  ultimately show ?thesis unfolding add by simp
qed

lemma satang_double:
  assumes "\<bar>a\<bar> \<le> (10 ^ 13 :: int)"
  shows "\<bar>of_int a / 100 :: rat\<bar> \<le> 10 ^ 11"
  using assms by (simp add: abs_le_iff)

lemma nsub_satang:
  assumes "\<bar>t\<bar> \<le> (10 ^ 13 :: int)" "\<bar>a\<bar> \<le> 10 ^ 13" "\<bar>b\<bar> \<le> 10 ^ 13" "\<bar>c\<bar> \<le> 10 ^ 13"
  shows "toFixed 2 (nsub (nsub (nsub (Fin (fl64 (of_int t / 100))) (Fin (fl64 (of_int a / 100)))) (Fin (fl64 (of_int b / 100))))
    (Fin (fl64 (of_int c / 100)))) = FFix 2 (t - a - b - c)"
proof -
  let ?f = "\<lambda>x. fl64 (of_int x / 100)"
  have d: "nsub (Fin x) (Fin y) = Fin (fl64 (x - y)) \<and> \<bar>fl64 (x - y)\<bar> \<le> A + 10 ^ 12"
    if "\<bar>x\<bar> \<le> A" "\<bar>y\<bar> \<le> 2 * 10 ^ 11" "1 \<le> A" "A \<le> 10 ^ 20" for x y A :: rat
  proof -
    have "\<bar>x - y\<bar> \<le> A + 2 * 10 ^ 11" using that by linarith
    then have "\<bar>fl64 (x - y)\<bar> \<le> A + 2 * 10 ^ 11 + (A + 2 * 10 ^ 11) / 2 ^ 53" using that by (intro double.fl_abs_le) auto
    also have "\<dots> \<le> A + 2 * 10 ^ 11 + 8 * 10 ^ 11" using that(4) by (intro add_left_mono) simp
    finally have "\<bar>fl64 (x - y)\<bar> \<le> A + 10 ^ 12" by simp
    moreover have "mk_num (x - y) = Fin (fl64 (x - y))" using \<open>\<bar>x - y\<bar> \<le> _\<close> that(4) by (intro mk_num_Fin) simp
    ultimately have "mk_num (x - y) = Fin (fl64 (x - y)) \<and> \<bar>fl64 (x - y)\<bar> \<le> A + 10 ^ 12" by simp
    then show ?thesis by (simp add: nsub_def)
  qed
  have b: "\<bar>?f x\<bar> \<le> 2 * 10 ^ 11" if "\<bar>x\<bar> \<le> 10 ^ 13" for x :: int
    using double.fl_abs_le [OF _ satang_double [OF that]] by simp
  note b1 = d [OF b [OF assms(1)] b [OF assms(2)], simplified]
  note b2 = d [OF b1 [THEN conjunct2] b [OF assms(3)], simplified]
  note b3 = d [OF b2 [THEN conjunct2] b [OF assms(4)], simplified]
  have err: "\<bar>fl64 (fl64 (fl64 (?f t - ?f a) - ?f b) - ?f c) - (of_int t / 100 - of_int a / 100 - of_int b / 100 - of_int c / 100)\<bar> < 1 / 200"
    using assms by (intro double.residual_error satang_double)
  have "of_int t / 100 - of_int a / 100 - of_int b / 100 - of_int c / 100 = (of_int (t - a - b - c) / 10 ^ 2 :: rat)"
    by (simp add: diff_divide_distrib)
  with err have "round_up 2 (fl64 (fl64 (fl64 (?f t - ?f a) - ?f b) - ?f c)) = t - a - b - c"
    by (intro round_up_unique) simp
  then show ?thesis using b1 b2 b3 by simp
qed


text \<open>
  The whole split, on an amount of \<open>n\<close> satang: three rounded parts, and a rest that prints as what they
  leave of \<open>n\<close>.
\<close>

definition satang_num :: "int \<Rightarrow> jsnum" where
  "satang_num a = Fin (fl64 (of_int a / 100))"

lemma compute_split_satang:
  assumes "0 \<le> n" "n \<le> 10 ^ 12" "0 \<le> r" "r \<le> 1" "0 \<le> v" "v \<le> 1"
  shows "\<exists>a b c. sp_merchantVat (compute_split (satang_num n) (Fin r) (Fin v)) = satang_num a
     \<and> sp_systemFee (compute_split (satang_num n) (Fin r) (Fin v)) = satang_num b
     \<and> sp_systemVat (compute_split (satang_num n) (Fin r) (Fin v)) = satang_num c
     \<and> toFixed 2 (sp_merchantNet (compute_split (satang_num n) (Fin r) (Fin v))) = FFix 2 (n - a - b - c)
     \<and> 0 \<le> a \<and> a \<le> 10 ^ 13 \<and> 0 \<le> b \<and> b \<le> 10 ^ 13 \<and> 0 \<le> c \<and> c \<le> 10 ^ 13"
proof -
  let ?t = "fl64 (of_int n / 100)"
  have "\<bar>of_int n / 100 :: rat\<bar> \<le> 10 ^ 10" using assms(1,2) by simp
  then have t: "\<bar>?t\<bar> \<le> 2 * 10 ^ 10" using double.fl_abs_le [of "10 ^ 10" "of_int n / 100"] by simp
  obtain q where q: "ndiv (Fin v) (nadd (Fin 1) (Fin v)) = Fin q" "\<bar>q\<bar> \<le> 3" "0 \<le> q"
    using vat_share [OF assms(5,6)] by blast
  have t0: "0 \<le> ?t" using assms(1) by (intro fl64_nonneg) simp
  have m1: "nmul (Fin ?t) (Fin q) = Fin (fl64 (?t * q)) \<and> \<bar>fl64 (?t * q)\<bar> \<le> 7 * 10 ^ 10"
    by (rule nmul_le [OF t q(2)]) simp_all
  have m2: "nmul (Fin ?t) (Fin r) = Fin (fl64 (?t * r)) \<and> \<bar>fl64 (?t * r)\<bar> \<le> 3 * 10 ^ 10"
    by (rule nmul_le [OF t, of r 1]) (use assms in simp_all)
  obtain a where a: "round2 (Fin (fl64 (?t * q))) = satang_num a" "\<bar>a\<bar> \<le> 10 ^ 13" "0 \<le> a"
    using round2_fin [of "fl64 (?t * q)"] m1 fl64_nonneg [of "?t * q"] t0 q(3) by (auto simp: satang_num_def)
  obtain b where b: "round2 (Fin (fl64 (?t * r))) = satang_num b" "b = round_up 2 (fl64 (?t * r))" "\<bar>b\<bar> \<le> 10 ^ 13" "0 \<le> b"
    using round2_fin [of "fl64 (?t * r)"] m2 fl64_nonneg [of "?t * r"] t0 assms(3) by (auto simp: satang_num_def)
  let ?b = "fl64 (of_int b / 100)"
  have fee: "\<bar>?b\<bar> \<le> 5 * 10 ^ 10"
  proof -
    have "\<bar>of_int b - fl64 (?t * r) * 10 ^ 2\<bar> \<le> 1 / 2" unfolding b(2) by (rule round_up_error)
    then have "\<bar>of_int b :: rat\<bar> \<le> \<bar>fl64 (?t * r)\<bar> * 100 + 1 / 2" by (simp add: abs_if split: if_splits)
    also have "\<dots> \<le> 4 * 10 ^ 12" using m2 [THEN conjunct2] by simp
    finally have "\<bar>of_int b / 100 :: rat\<bar> \<le> 4 * 10 ^ 10" by simp
    then show ?thesis using double.fl_abs_le [of "4 * 10 ^ 10" "of_int b / 100"] by simp
  qed
  have m3: "nmul (Fin ?b) (Fin v) = Fin (fl64 (?b * v)) \<and> \<bar>fl64 (?b * v)\<bar> \<le> 6 * 10 ^ 10"
    by (rule nmul_le [OF fee, of v 1]) (use assms in simp_all)
  obtain c where c: "round2 (Fin (fl64 (?b * v))) = satang_num c" "\<bar>c\<bar> \<le> 10 ^ 13" "0 \<le> c"
    using round2_fin [of "fl64 (?b * v)"] m3 fl64_nonneg [of "?b * v"] fl64_nonneg [of "of_int b / 100"] b(4) assms(5) by (auto simp: satang_num_def)
  have rest: "toFixed 2 (nsub (nsub (nsub (satang_num n) (satang_num a)) (satang_num b)) (satang_num c)) = FFix 2 (n - a - b - c)"
    unfolding satang_num_def by (rule nsub_satang) (use assms a b c in auto)
  have "compute_split (satang_num n) (Fin r) (Fin v) = \<lparr>sp_merchantVat = satang_num a, sp_systemFee = satang_num b,
      sp_systemVat = satang_num c, sp_merchantNet = nsub (nsub (nsub (satang_num n) (satang_num a)) (satang_num b)) (satang_num c)\<rparr>"
    using m1 m2 m3 q a(1) b(1) c(1) by (simp add: compute_split_def Let_def satang_num_def)
  then show ?thesis using rest a b c by auto
qed


lemma toFixed_satang: "\<bar>a\<bar> \<le> 10 ^ 13 \<Longrightarrow> toFixed 2 (satang_num a) = FFix 2 a"
  unfolding satang_num_def by (rule fl_hundredths)

lemma fl64_pos_satang:
  assumes "0 < a" "a \<le> 10 ^ 13" shows "0 < fl64 (of_int a / 100)"
proof (rule ccontr)
  assume "\<not> ?thesis"
  moreover have "0 \<le> fl64 (of_int a / 100)" using assms by (intro fl64_nonneg) simp
  ultimately have "fl64 (of_int a / 100) = 0" by simp
  then have "toFixed 2 (satang_num a) = FFix 2 0" by (simp add: satang_num_def round_up_def floor_eq_iff)
  then show False using toFixed_satang [of a] assms by simp
qed

lemma positive2_satang:
  assumes "0 \<le> a" "a \<le> 10 ^ 13" shows "positive2 (satang_num a) \<longleftrightarrow> 0 < a"
proof -
  have "round2 (satang_num a) = mk_num (of_int a / 100)" using assms toFixed_satang by (simp add: round2_def)
  also have "\<dots> = Fin (fl64 (of_int a / 100))" using assms by (intro mk_num_Fin) simp
  finally show ?thesis using assms fl64_pos_satang [of a] by (cases "a = 0") (auto simp: positive2_def)
qed

text \<open>What a list of legs moves, in satang.\<close>

definition leg_satang :: "leg \<Rightarrow> int" where
  "leg_satang l = (case lg_amount l of FFix d k \<Rightarrow> if d = 2 then k else 0 | _ \<Rightarrow> 0)"

definition legs_total :: "leg list \<Rightarrow> int" where
  "legs_total ls = sum_list (map leg_satang ls)"

lemma legs_total_simps [simp]:
  "legs_total [] = 0" "legs_total (l # ls) = leg_satang l + legs_total ls" "legs_total (ls @ ls') = legs_total ls + legs_total ls'"
  by (simp_all add: legs_total_def)

lemma leg_satang_mk [simp]: "toFixed 2 n = FFix 2 k \<Longrightarrow> leg_satang (mk_leg to n note meta) = k"
  by (simp add: leg_satang_def mk_leg_def)

lemma legs_total_optional:
  assumes "0 \<le> a" "a \<le> 10 ^ 13"
  shows "legs_total (optional_leg z to (satang_num a) note meta) = (if account_set z to then a else 0)"
  using assms positive2_satang [OF assms] toFixed_satang [of a] by (simp add: optional_leg_def)

text \<open>
  Property C4. The legs of a payment add up to its amount, to the satang. For every amount of whole
  satang up to ten billion baht and every fee and VAT rate between 0 and 1, computed in doubles as the
  code does, the three parts that are rounded and the rest that is not print as amounts whose sum is
  the amount; none of the three is negative. The legs sent for a QR code or to a static code move
  exactly this sum, less the parts for which no account is set: such a part is not sent at all, and the
  customer pays that much less than the amount.
\<close>

theorem payment_legs_total:
  assumes "0 \<le> n" "n \<le> 10 ^ 12" "0 \<le> r" "r \<le> 1" "0 \<le> v" "v \<le> 1"
    and "sp = compute_split (mk_num (of_int n / 100)) (Fin r) (Fin v)"
  shows "\<exists>net vat fee feeVat. toFixed 2 (sp_merchantNet sp) = FFix 2 net \<and> toFixed 2 (sp_merchantVat sp) = FFix 2 vat
     \<and> toFixed 2 (sp_systemFee sp) = FFix 2 fee \<and> toFixed 2 (sp_systemVat sp) = FFix 2 feeVat
     \<and> net + vat + fee + feeVat = n \<and> 0 \<le> vat \<and> 0 \<le> fee \<and> 0 \<le> feeVat
     \<and> legs_total (qr_legs pid key name amount mAcc sAcc sp) =
         n - (if truthy (jget ''vat'' mAcc) then 0 else vat) - (if truthy (jget ''revenue'' sAcc) then 0 else fee)
           - (if truthy (jget ''vat_payable'' sAcc) then 0 else feeVat)
     \<and> (account_set True (jget ''pending'' mAcc) \<longrightarrow> legs_total (manual_legs key name note amount mAcc sAcc sp) =
         n - (if account_set True (jget ''vat'' mAcc) then 0 else vat) - (if account_set True (jget ''revenue'' sAcc) then 0 else fee)
           - (if account_set True (jget ''vat_payable'' sAcc) then 0 else feeVat))"
proof -
  have "mk_num (of_int n / 100) = satang_num n" unfolding satang_num_def using assms(1,2) by (intro mk_num_Fin) simp
  with assms(7) have sp: "sp = compute_split (satang_num n) (Fin r) (Fin v)" by simp
  from compute_split_satang [OF assms(1-6), folded sp] obtain a b c where p: "sp_merchantVat sp = satang_num a" "sp_systemFee sp = satang_num b"
    "sp_systemVat sp = satang_num c" "toFixed 2 (sp_merchantNet sp) = FFix 2 (n - a - b - c)"
    and bounds: "0 \<le> a" "a \<le> 10 ^ 13" "0 \<le> b" "b \<le> 10 ^ 13" "0 \<le> c" "c \<le> 10 ^ 13" by blast
  note opt = legs_total_optional [OF bounds(1,2)] legs_total_optional [OF bounds(3,4)] legs_total_optional [OF bounds(5,6)]
  have "legs_total (qr_legs pid key name amount mAcc sAcc sp) =
         n - (if truthy (jget ''vat'' mAcc) then 0 else a) - (if truthy (jget ''revenue'' sAcc) then 0 else b)
           - (if truthy (jget ''vat_payable'' sAcc) then 0 else c)"
    unfolding qr_legs_def Let_def legs_total_simps p opt leg_satang_mk [OF p(4)] by (simp add: account_set_def)
  moreover have "legs_total (manual_legs key name note amount mAcc sAcc sp) =
         n - (if account_set True (jget ''vat'' mAcc) then 0 else a) - (if account_set True (jget ''revenue'' sAcc) then 0 else b)
           - (if account_set True (jget ''vat_payable'' sAcc) then 0 else c)" if "account_set True (jget ''pending'' mAcc)"
    unfolding manual_legs_def Let_def legs_total_simps p opt if_P [OF that] leg_satang_mk [OF p(4)] by simp
  ultimately show ?thesis
    using p bounds toFixed_satang [of a] toFixed_satang [of b] toFixed_satang [of c] by (intro exI [of _ "n - a - b - c"] exI [of _ a] exI [of _ b] exI [of _ c]) simp
qed

theorem payment_legs_total_witness:
  "legs_total (qr_legs ''p'' ''k'' ''Shop'' (Fin 100) (JObj [(''pending'', JStr ''a1''), (''vat'', JStr ''a2'')])
      (JObj [(''revenue'', JStr ''a3''), (''vat_payable'', JStr ''a4'')])
      (compute_split (mk_num (of_int 12345 / 100)) (Fin (fl64 (3 / 100))) (Fin (fl64 (7 / 100))))) = 12345"
proof -
  have r: "0 \<le> fl64 (3 / 100)" "fl64 (3 / 100) \<le> 1" "0 \<le> fl64 (7 / 100)" "fl64 (7 / 100) \<le> 1" by code_simp+
  show ?thesis
    using payment_legs_total [OF _ _ r refl, of 12345 "''p''" "''k''" "''Shop''" "Fin 100"
      "JObj [(''pending'', JStr ''a1''), (''vat'', JStr ''a2'')]" "JObj [(''revenue'', JStr ''a3''), (''vat_payable'', JStr ''a4'')]" None]
    by auto
qed

section \<open>The life of a QR payment\<close>

text \<open>The calls that move money, and the key of a call.\<close>

definition transfers :: "finance_env \<Rightarrow> wire \<Rightarrow> http_call list" where
  "transfers env w = filter (\<lambda>c. hc_url c = fe_url env @ ''/api/finance/transactions/merchant-pay-atomic'') w"

definition keyed :: "string \<Rightarrow> http_call \<Rightarrow> bool" where
  "keyed key c \<longleftrightarrow> map_of (hc_headers c) ''Idempotency-Key'' = Some (JStr key)"

lemma transfers_append [simp]: "transfers env (w @ w') = transfers env w @ transfers env w'"
  by (simp add: transfers_def)

lemma getWallet_no_transfer: "\<exists>r c. getWallet http env u w = (r, w @ [c]) \<and> transfers env [c] = []"
proof -
  obtain r where r: "getWallet http env u w = (r, w @ [\<lparr>hc_method = GET, hc_url = fe_url env @ ''/api/finance/wallets/'' @ u, hc_body = JUndef,
      hc_headers = getInternalHeaders env\<rparr>])" (is "_ = (_, _ @ [?c])")
    unfolding getWallet_def using null_if_missing_sends by metis
  have "transfers env [?c] = []" by (simp add: transfers_def)
  with r show ?thesis by blast
qed

lemma getSystemSettings_no_transfer: "\<exists>r c. getSystemSettings http env w = (r, w @ [c]) \<and> transfers env [c] = []"
  unfolding getSystemSettings_def
  by (rule request_cases [of http w GET env "''/api/v1/system/settings''" JUndef "[]" "''Failed to get system settings''"])
     (auto simp: transfers_def)

lemma prepare_payment_frame:
  "\<exists>cs. snd (prepare_payment http env u m n s) = s\<lparr>net := net s @ cs\<rparr> \<and> transfers env cs = []"
proof -
  have stay: "\<exists>cs. s = s\<lparr>net := net s @ cs\<rparr> \<and> transfers env cs = []" by (rule exI [of _ "[]"]) (simp add: transfers_def)
  obtain r c where 1: "getWallet http env u (net s) = (r, net s @ [c])" "transfers env [c] = []" using getWallet_no_transfer by metis
  obtain r' c' where 2: "getSystemSettings http env (net s @ [c]) = (r', (net s @ [c]) @ [c'])" "transfers env [c'] = []"
    using getSystemSettings_no_transfer by metis
  have one: "\<exists>cs. s\<lparr>net := net s @ [c]\<rparr> = s\<lparr>net := net s @ cs\<rparr> \<and> transfers env cs = []" using 1 by blast
  have two: "\<exists>cs. s\<lparr>net := net s @ [c, c']\<rparr> = s\<lparr>net := net s @ cs\<rparr> \<and> transfers env cs = []"
    using 1 2 by (intro exI [of _ "[c, c']"]) (simp add: transfers_def split: if_splits)
  show ?thesis
    using stay one two 1(1) 2(1) by (auto simp: prepare_payment_def finance_def split: option.split sum.split)
qed

lemma performMerchantMultiPay_sends:
  "\<exists>r c. performMerchantMultiPay http env from cur key legs w = (r, w @ [c]) \<and> transfers env [c] = [c] \<and> keyed key c
     \<and> hc_body c = JObj [(''fromWalletId'', from), (''currency'', JStr (case cur of Some (c # t) \<Rightarrow> c # t | _ \<Rightarrow> ''THB'')), (''legs'', JArr (map leg_json legs))]
     \<and> (\<forall>d. r = Inr d \<longrightarrow> http w c = HttpOk d)"
  unfolding performMerchantMultiPay_def
  by (rule request_cases [of http w POST env "''/api/finance/transactions/merchant-pay-atomic''"
       "JObj [(''fromWalletId'', from), (''currency'', JStr (case cur of Some (c # t) \<Rightarrow> c # t | _ \<Rightarrow> ''THB'')), (''legs'', JArr (map leg_json legs))]"
       "[(''Idempotency-Key'', JStr key)]" "''Failed to perform multi-leg merchant payment''"])
     (auto simp: transfers_def keyed_def getInternalHeaders_def)

text \<open>The money part sends one transfer, whatever comes of it.\<close>

lemma qr_transfer_cases:
  obtains (failed) e c where "qr_transfer http env now u p m ctx s = (Inl e, s\<lparr>net := net s @ [c]\<rparr>)"
      "transfers env [c] = [c]" "keyed (''qr_pay_atomic_'' @ mp_id p) c"
  | (completed) ref c d l where "qr_transfer http env now u p m ctx s = (Inr ref, audit l
        (set_payment (mp_id p) (\<lambda>q. q\<lparr>mp_status := PaymentCompleted, mp_referenceId := keep_opt ref (mp_referenceId q)\<rparr>) (s\<lparr>net := net s @ [c]\<rparr>)))"
      "transfers env [c] = [c]" "keyed (''qr_pay_atomic_'' @ mp_id p) c" "http (net s) c = HttpOk d" "ref = tx_reference d"
proof -
  let ?key = "''qr_pay_atomic_'' @ mp_id p"
  let ?legs = "qr_legs (mp_id p) ?key (mc_name m) (mk_num (mp_amount p)) (pt_financeAccounts (pc_partner ctx)) (pt_financeAccounts (pc_system ctx)) (pc_split ctx)"
  obtain r c where c: "performMerchantMultiPay http env (jget ''walletId'' (pc_wallet ctx)) None ?key ?legs (net s) = (r, net s @ [c])"
    "transfers env [c] = [c]" "keyed ?key c" "\<forall>d. r = Inr d \<longrightarrow> http (net s) c = HttpOk d"
    using performMerchantMultiPay_sends [of http env "jget ''walletId'' (pc_wallet ctx)" None ?key ?legs "net s"] by blast
  have run: "qr_transfer http env now u p m ctx s = (case r of
        Inl e \<Rightarrow> (Inl e, s\<lparr>net := net s @ [c]\<rparr>)
      | Inr tx \<Rightarrow> if nullish tx then (Inl (Plain ''Cannot read properties of null''), s\<lparr>net := net s @ [c]\<rparr>)
          else if tx_reference tx \<noteq> None \<and> (\<exists>q\<in>set (merchantPayment s). mp_id q \<noteq> mp_id p \<and> mp_referenceId q = tx_reference tx)
          then (Inl (Prisma ''P2002''), s\<lparr>net := net s @ [c]\<rparr>)
          else (Inr (tx_reference tx), audit (payment_audit now u (mp_merchantId p)
                  (JObj [(''paymentId'', JStr (mp_id p)), (''transactionId'', jopt (tx_reference tx))]))
                (set_payment (mp_id p) (\<lambda>q. q\<lparr>mp_status := PaymentCompleted, mp_referenceId := keep_opt (tx_reference tx) (mp_referenceId q)\<rparr>)
                  (s\<lparr>net := net s @ [c]\<rparr>))))"
    unfolding qr_transfer_def Let_def finance_def c(1) prod.case by (simp split: sum.split)
  show thesis
  proof (cases r)
    case (Inl e)
    then show thesis using run by (intro failed [OF _ c(2,3)]) simp
  next
    case (Inr d)
    show thesis
    proof (cases "nullish d \<or> (tx_reference d \<noteq> None \<and> (\<exists>q\<in>set (merchantPayment s). mp_id q \<noteq> mp_id p \<and> mp_referenceId q = tx_reference d))")
      case True
      then obtain e where "qr_transfer http env now u p m ctx s = (Inl e, s\<lparr>net := net s @ [c]\<rparr>)"
        unfolding run Inr sum.case by (cases "nullish d") simp_all
      then show thesis by (rule failed [OF _ c(2,3)])
    next
      case False
      then have "\<not> nullish d" "\<not> (tx_reference d \<noteq> None \<and> (\<exists>q\<in>set (merchantPayment s). mp_id q \<noteq> mp_id p \<and> mp_referenceId q = tx_reference d))"
        by blast+
      note final = run [unfolded Inr sum.case if_not_P [OF this(1)] if_not_P [OF this(2)]]
      show thesis by (rule completed [OF final c(2,3) c(4) [rule_format, OF Inr] refl])
    qed
  qed
qed

lemma processQRPayment_cases:
  obtains (refused) e where "processQRPayment http env now u pid s = (Inl e, s)"
  | (expired) p where "find_payment pid s = Some p" "mp_status p = PaymentPending" "past now (mp_expiresAt p)"
      "processQRPayment http env now u pid s = (Inl (Http GONE ''Payment request expired''), expire_payment pid s)"
  | (unprepared) e cs where "processQRPayment http env now u pid s = (Inl e, s\<lparr>net := net s @ cs\<rparr>)" "transfers env cs = []"
      "map_option mp_status (find_payment pid s) = Some PaymentPending"
  | (failed) p e cs c where "processQRPayment http env now u pid s = (Inl e, fail_payment pid e (s\<lparr>net := net s @ cs @ [c]\<rparr>))"
      "transfers env cs = []" "transfers env [c] = [c]" "keyed (''qr_pay_atomic_'' @ pid) c"
      "find_payment pid s = Some p" "mp_status p = PaymentPending" "\<not> past now (mp_expiresAt p)"
  | (completed) p ref name cs c d l where "processQRPayment http env now u pid s = (Inr (ref, mp_amount p, name), audit l
        (set_payment pid (\<lambda>q. q\<lparr>mp_status := PaymentCompleted, mp_referenceId := keep_opt ref (mp_referenceId q)\<rparr>) (s\<lparr>net := net s @ cs @ [c]\<rparr>)))"
      "transfers env cs = []" "transfers env [c] = [c]" "keyed (''qr_pay_atomic_'' @ pid) c" "http (net s @ cs) c = HttpOk d" "ref = tx_reference d"
      "find_payment pid s = Some p" "mp_status p = PaymentPending" "\<not> past now (mp_expiresAt p)"
proof (cases "find_payment pid s")
  case None
  then show thesis by (intro refused) (simp add: processQRPayment_def)
next
  case (Some p)
  then have [simp]: "mp_id p = pid" by (auto simp: find_payment_def dest: find_SomeD)
  show thesis
  proof (cases "mp_status p = PaymentPending \<and> \<not> past now (mp_expiresAt p) \<and> find_merchant (mp_merchantId p) s \<noteq> None")
    case False
    show thesis
    proof (cases "mp_status p = PaymentPending \<and> past now (mp_expiresAt p)")
      case True
      then show thesis using Some by (intro expired) (auto simp: processQRPayment_def)
    next
      case no: False
      then obtain e where "processQRPayment http env now u pid s = (Inl e, s)"
        using False Some by (cases "mp_status p = PaymentPending") (simp_all add: processQRPayment_def)
      then show thesis by (rule refused)
    qed
  next
    case True
    then obtain m where m: "find_merchant (mp_merchantId p) s = Some m" by blast
    obtain cs where cs: "snd (prepare_payment http env u m (mk_num (mp_amount p)) s) = s\<lparr>net := net s @ cs\<rparr>" "transfers env cs = []"
      using prepare_payment_frame by blast
    show thesis
    proof (cases "fst (prepare_payment http env u m (mk_num (mp_amount p)) s)")
      case (Inl e)
      then show thesis using Some True m cs
        by (intro unprepared [OF _ cs(2)]) (auto simp: processQRPayment_def split: prod.split)
    next
      case (Inr ctx)
      then have prep: "prepare_payment http env u m (mk_num (mp_amount p)) s = (Inr ctx, s\<lparr>net := net s @ cs\<rparr>)"
        using cs(1) by (simp add: prod_eq_iff)
      show thesis
      proof (cases rule: qr_transfer_cases [of http env now u p m ctx "s\<lparr>net := net s @ cs\<rparr>"])
        case (failed e c)
        then show thesis using Some True m prep
          by (intro that(4) [OF _ cs(2), of e c p]) (simp_all add: processQRPayment_def)
      next
        case (completed ref c d l)
        then show thesis using Some True m prep
          by (intro that(5) [OF _ cs(2), of ref p "mc_name m" l c d]) (simp_all add: processQRPayment_def)
      qed
    qed
  qed
qed

lemma find_set_payment:
  assumes "\<And>p. mp_id (f p) = mp_id p"
  shows "find_payment q (set_payment i f s) = (if q = i then map_option f (find_payment q s) else find_payment q s)"
proof -
  have "find_payment q (set_payment i f s) = map_option (\<lambda>p. if mp_id p = i then f p else p) (find_payment q s)"
    unfolding find_payment_def set_payment_def by (simp add: find_update_where assms)
  then show ?thesis by (cases "find_payment q s") (auto simp: find_payment_def dest: find_SomeD)
qed

lemma find_payment_frame [simp]:
  "find_payment q (s\<lparr>net := w\<rparr>) = find_payment q s" "find_payment q (audit l s) = find_payment q s"
  "net (audit l s) = net s" "net (set_payment i f s) = net s" "net (fail_payment i e s) = net s"
  by (simp_all add: find_payment_def audit_def set_payment_def fail_payment_def)

text \<open>
  Property C5. A QR payment is settled at most once. \<open>processQRPayment\<close> acts only on a payment that is
  pending and not past its expiry: otherwise nothing is sent, and at most the status becomes EXPIRED.
  It sends at most one transfer, under a key made of the payment's id alone, so that attempts by other
  users and retries share it. It succeeds exactly when that transfer was accepted and recorded: the
  payment is then COMPLETED with the ledger's reference, and every later attempt, by anyone, fails
  without an effect. When it fails, the payment is not COMPLETED unless it was before. No other payment
  changes.
\<close>

theorem processQRPayment_settles_once:
  assumes "processQRPayment http env now u pid s = (res, s')"
  shows "(map_option mp_status (find_payment pid s) \<noteq> Some PaymentPending \<longrightarrow> s' = s \<and> (\<exists>e. res = Inl e))
    \<and> (\<forall>p. find_payment pid s = Some p \<and> mp_status p = PaymentPending \<and> past now (mp_expiresAt p) \<longrightarrow> s' = expire_payment pid s)
    \<and> (\<exists>cs. transfers env (net s') = transfers env (net s) @ cs \<and> length cs \<le> 1 \<and> list_all (keyed (''qr_pay_atomic_'' @ pid)) cs
        \<and> (case res of Inl e \<Rightarrow> map_option mp_status (find_payment pid s') = Some PaymentCompleted
              \<longrightarrow> map_option mp_status (find_payment pid s) = Some PaymentCompleted
           | Inr (ref, amount, name) \<Rightarrow> (\<exists>c d w. cs = [c] \<and> http w c = HttpOk d \<and> ref = tx_reference d)
              \<and> (\<exists>p. find_payment pid s = Some p \<and> amount = mp_amount p
                   \<and> find_payment pid s' = Some (p\<lparr>mp_status := PaymentCompleted, mp_referenceId := keep_opt ref (mp_referenceId p)\<rparr>))
              \<and> (\<forall>http' env' later v. \<exists>e. processQRPayment http' env' later v pid s' = (Inl e, s'))))
    \<and> (\<forall>q. q \<noteq> pid \<longrightarrow> find_payment q s' = find_payment q s)"
proof -
  have frozen: "processQRPayment http' env' later v pid t = (Inl (Http GONE ''Payment is no longer pending''), t)"
    if "find_payment pid t = Some p" "mp_status p \<noteq> PaymentPending" for http' env' later v t p
    using that by (simp add: processQRPayment_def)
  have not_pending: "s' = s \<and> (\<exists>e. res = Inl e)" if "map_option mp_status (find_payment pid s) \<noteq> Some PaymentPending"
    using that assms by (cases "find_payment pid s") (auto simp: processQRPayment_def)
  have too_late: "s' = expire_payment pid s" if "find_payment pid s = Some p" "mp_status p = PaymentPending" "past now (mp_expiresAt p)" for p
    using that assms by (auto simp: processQRPayment_def)
  show ?thesis
  proof (cases rule: processQRPayment_cases [of http env now u pid s])
    case (refused e)
    with assms not_pending too_late show ?thesis by auto
  next
    case (expired p)
    with assms not_pending too_late show ?thesis by (auto simp: expire_payment_def find_set_payment)
  next
    case (unprepared e cs)
    with assms not_pending too_late show ?thesis by auto
  next
    case (failed p e cs c)
    with assms not_pending too_late show ?thesis
      by (auto simp: fail_payment_def find_set_payment)
  next
    case (completed p ref name cs c d l)
    with assms have r: "res = Inr (ref, mp_amount p, name)" and s': "s' = audit l
        (set_payment pid (\<lambda>q. q\<lparr>mp_status := PaymentCompleted, mp_referenceId := keep_opt ref (mp_referenceId q)\<rparr>) (s\<lparr>net := net s @ cs @ [c]\<rparr>))"
      by auto
    have f: "find_payment q s' = (if q = pid then Some (p\<lparr>mp_status := PaymentCompleted, mp_referenceId := keep_opt ref (mp_referenceId p)\<rparr>)
        else find_payment q s)" for q
      unfolding s' using completed by (simp add: find_set_payment)
    have "transfers env (net s') = transfers env (net s) @ [c]" unfolding s' using completed(2,3) by simp
    moreover have "\<exists>c' d' w. [c] = [c'] \<and> http w c' = HttpOk d' \<and> ref = tx_reference d'" using completed(5,6) by blast
    ultimately show ?thesis
      using r f not_pending too_late completed(4-9) frozen [of s'] by (intro conjI) (auto intro!: exI [of _ "[c]"])
  qed
qed

section \<open>Limits\<close>

lemma getWallet_ok: "getWallet http env u w = (Inr d, w') \<Longrightarrow> truthy d \<Longrightarrow> \<exists>c. w' = w @ [c] \<and> http w c = HttpOk d"
  by (auto simp: getWallet_def null_if_missing_def send_def split: http_result.splits if_splits)

lemma getSystemSettings_ok: "getSystemSettings http env w = (Inr d, w') \<Longrightarrow> \<exists>c. w' = w @ [c] \<and> http w c = HttpOk d"
  by (auto simp: getSystemSettings_def request_def send_def split: http_result.splits)

lemma payment_limits_None:
  assumes "payment_limits settings wallet p (Fin x) = None"
  shows "Number_json (jget ''minMerchantPayment'' settings) = Fin lo \<Longrightarrow> lo \<le> x"
    and "Number_json (jget ''perTransactionLimit'' settings) = Fin hi \<Longrightarrow> x \<le> hi"
    and "Number_json (jget ''dailyLimit'' wallet) = Fin hi \<Longrightarrow> x \<le> hi"
    and "mk_num (pt_dailyReceiveLimit p) = Fin hi \<Longrightarrow> x \<le> hi"
  using assms by (auto simp: payment_limits_def split: if_splits)

text \<open>
  Property C9. A payment is prepared only within every limit, against fresh data. When
  \<open>prepare_payment\<close> succeeds on an amount, both parties' accounts are set; the wallet and then the
  settings have just been read from the finance service, one call each and nothing else; and the amount
  is at least the configured minimum and at most the system's limit per transaction, the customer's
  daily limit and the merchant's receiving limit.
\<close>

theorem prepare_payment_limits:
  assumes "prepare_payment http env u m (Fin x) s = (Inr c, s')"
  shows "\<exists>settings c1 c2. find_partner (mc_partnerId m) s = Some (pc_partner c) \<and> truthy (pt_financeAccounts (pc_partner c))
     \<and> pt_taxId (pc_system c) = Some SYSTEM_TAX_ID \<and> truthy (pt_financeAccounts (pc_system c))
     \<and> s' = s\<lparr>net := net s @ [c1, c2]\<rparr> \<and> http (net s) c1 = HttpOk (pc_wallet c) \<and> http (net s @ [c1]) c2 = HttpOk settings
     \<and> (\<forall>lo. Number_json (jget ''minMerchantPayment'' settings) = Fin lo \<longrightarrow> lo \<le> x)
     \<and> (\<forall>hi. Fin hi \<in> {Number_json (jget ''perTransactionLimit'' settings), Number_json (jget ''dailyLimit'' (pc_wallet c)),
          mk_num (pt_dailyReceiveLimit (pc_partner c))} \<longrightarrow> x \<le> hi)
     \<and> pc_split c = compute_split (Fin x) (mk_num (pt_feeRate (pc_partner c))) (Number_json (jget ''vatRate'' settings))"
proof -
  from assms obtain p sys wallet s1 settings where
    p: "find_partner (mc_partnerId m) s = Some p" "truthy (pt_financeAccounts p)"
    and sys: "find (\<lambda>q. pt_taxId q = Some SYSTEM_TAX_ID) (partners s) = Some sys" "truthy (pt_financeAccounts sys)"
    and w: "finance (getWallet http env u) s = (Inr wallet, s1)" "truthy wallet"
    and st: "finance (getSystemSettings http env) s1 = (Inr settings, s')"
    and lim: "payment_limits settings wallet p (Fin x) = None"
    and c: "c = \<lparr>pc_partner = p, pc_system = sys, pc_wallet = wallet,
         pc_split = compute_split (Fin x) (mk_num (pt_feeRate p)) (Number_json (jget ''vatRate'' settings))\<rparr>"
    unfolding prepare_payment_def by (auto split: option.splits if_splits sum.splits prod.splits)
  obtain c1 where c1: "s1 = s\<lparr>net := net s @ [c1]\<rparr>" "http (net s) c1 = HttpOk wallet"
    using w getWallet_ok [of http env u "net s" wallet] by (auto simp: finance_def split: prod.splits)
  obtain c2 where c2: "s' = s1\<lparr>net := net s1 @ [c2]\<rparr>" "http (net s1) c2 = HttpOk settings"
    using st getSystemSettings_ok [of http env "net s1" settings] by (auto simp: finance_def split: prod.splits)
  show ?thesis
    using p sys(2) find_SomeD [OF sys(1)] c1 c2 payment_limits_None [OF lim] unfolding c
    by (intro exI [of _ settings] exI [of _ c1] exI [of _ c2]) auto
qed

text \<open>A till: a branch with a pending QR payment of 100 baht, the system partner, and a finance service.\<close>

definition demo_payment :: merchant_payment where
  "demo_payment = \<lparr>mp_id = ''q1'', mp_merchantId = ''m1'', mp_terminalId = None, mp_amount = 100, mp_currency = ''THB'',
     mp_status = PaymentPending, mp_idempotencyKey = ''k'', mp_referenceId = None, mp_note = None, mp_metadata = JNull,
     mp_expiresAt = demo_now, mp_createdAt = demo_now\<rparr>"

definition demo_system :: partner where
  "demo_system = demo_partner\<lparr>pt_id := ''p0'', pt_taxId := Some SYSTEM_TAX_ID, pt_financeAccounts := JObj [(''revenue'', JStr ''r''), (''vat_payable'', JStr ''v'')]\<rparr>"

definition demo_till :: merchant_db where
  "demo_till = demo_market\<lparr>partners := [demo_partner, demo_system], merchantPayment := [demo_payment]\<rparr>"

definition demo_finance :: http where
  "demo_finance w c = HttpOk (JObj [(''walletId'', JStr ''w1''), (''dailyLimit'', JNum (Fin 50000)), (''minMerchantPayment'', JNum (Fin 5)),
     (''perTransactionLimit'', JNum (Fin 10000)), (''merchantFeeRate'', JNum (Fin 0)), (''vatRate'', JNum (Fin (1 / 16))), (''transactionId'', JStr ''tx'')])"

theorem prepare_payment_limits_witness:
  "\<exists>c s'. prepare_payment demo_finance demo_env ''alice'' demo_merchant (Fin 100) demo_till = (Inr c, s') \<and> length (net s') = 2"
proof -
  have "case prepare_payment demo_finance demo_env ''alice'' demo_merchant (Fin 100) demo_till of (Inr c, _) \<Rightarrow> True | _ \<Rightarrow> False"
    by code_simp
  then obtain c s' where run: "prepare_payment demo_finance demo_env ''alice'' demo_merchant (Fin 100) demo_till = (Inr c, s')"
    by (auto split: prod.splits sum.splits)
  have "net demo_till = []" by (simp add: demo_till_def demo_market_def)
  with prepare_payment_limits [OF run] run show ?thesis by auto
qed

theorem processQRPayment_settles_once_witness:
  "\<exists>r s'. processQRPayment demo_finance demo_env demo_now ''alice'' ''q1'' demo_till = (Inr r, s')
     \<and> length (transfers demo_env (net s')) = Suc (length (transfers demo_env (net demo_till)))
     \<and> map_option mp_status (find_payment ''q1'' s') = Some PaymentCompleted"
proof -
  have "case processQRPayment demo_finance demo_env demo_now ''alice'' ''q1'' demo_till of (Inr _, _) \<Rightarrow> True | _ \<Rightarrow> False"
    by code_simp
  then obtain r s' where run: "processQRPayment demo_finance demo_env demo_now ''alice'' ''q1'' demo_till = (Inr r, s')"
    by (auto split: prod.splits sum.splits)
  from processQRPayment_settles_once [OF run] show ?thesis by (cases r) (auto simp: run)
qed

section \<open>At the terminal\<close>

text \<open>A terminal payment either changes nothing or adds one completed payment and one audit row.\<close>

lemma terminal_payment_tx_cases:
  obtains (failed) e where "terminal_payment_tx now newId uuid tid body s = (Inl e, s)"
  | (paid) t m p q l d where "terminal_payment_tx now newId uuid tid body s =
        (Inr (201, d), s\<lparr>merchantPayment := merchantPayment s @ [q], auditLog := auditLog s @ [l]\<rparr>)"
      "find_terminal tid s = Some t" "find_merchant (tm_merchantId t) s = Some m" "find_partner (mc_partnerId m) s = Some p"
      "truthy (jget ''pending'' (pt_financeAccounts p))"
      "mp_id q = newId" "mp_merchantId q = tm_merchantId t" "mp_terminalId q = Some tid" "decimal_column (JNum (tb_amount body)) = Some (mp_amount q)"
      "mp_status q = PaymentCompleted" "mp_idempotencyKey q = tb_idempotencyKey body" "mp_referenceId q = Some (''txn_tm_pmt_'' @ uuid)"
      "\<forall>r\<in>set (merchantPayment s). mp_idempotencyKey r \<noteq> tb_idempotencyKey body"
proof -
  let ?key = "tb_idempotencyKey body" and ?ref = "''txn_tm_pmt_'' @ uuid"
  let ?clash = "\<exists>q\<in>set (merchantPayment s). mp_id q = newId \<or> mp_idempotencyKey q = ?key \<or> mp_referenceId q = Some ?ref"
  show thesis
  proof (cases "find_terminal tid s")
    case None
    then show thesis by (intro failed) (simp add: terminal_payment_tx_def)
  next
    case t: (Some t)
    show thesis
    proof (cases "find_merchant (tm_merchantId t) s")
      case None
      with t show thesis by (intro failed) (simp add: terminal_payment_tx_def)
    next
      case m: (Some m)
      show thesis
      proof (cases "find_partner (mc_partnerId m) s")
        case None
        with t m show thesis by (intro failed) (simp add: terminal_payment_tx_def)
      next
        case p: (Some p)
        show thesis
        proof (cases "truthy (jget ''pending'' (pt_financeAccounts p)) \<and> decimal_column (JNum (tb_amount body)) \<noteq> None \<and> \<not> ?clash")
          case False
          then have "\<exists>e. terminal_payment_tx now newId uuid tid body s = (Inl e, s)"
            using t m p by (cases "decimal_column (JNum (tb_amount body))") (auto simp: terminal_payment_tx_def insert_payment_def)
          then show thesis using failed by blast
        next
          case True
          then obtain x where x: "decimal_column (JNum (tb_amount body)) = Some x" by blast
          from True have ok: "truthy (jget ''pending'' (pt_financeAccounts p))" "\<not> ?clash" by blast+
          let ?q = "\<lparr>mp_id = newId, mp_merchantId = tm_merchantId t, mp_terminalId = Some tid, mp_amount = x,
              mp_currency = ''THB'', mp_status = PaymentCompleted, mp_idempotencyKey = ?key, mp_referenceId = Some ?ref,
              mp_note = Some (case tb_note body of Some (c # u) \<Rightarrow> c # u | _ \<Rightarrow> ''Terminal Payment''),
              mp_metadata = JObj [(''merchantName'', JStr (mc_name m)), (''isMerchantPayment'', JBool True)], mp_expiresAt = now, mp_createdAt = now\<rparr>"
          have ins: "insert_payment ?q s = (Inr ?q, s\<lparr>merchantPayment := merchantPayment s @ [?q]\<rparr>)"
            using ok(2) by (simp add: insert_payment_def)
          have "\<exists>l d. terminal_payment_tx now newId uuid tid body s =
              (Inr (201, d), s\<lparr>merchantPayment := merchantPayment s @ [?q], auditLog := auditLog s @ [l]\<rparr>)"
            unfolding terminal_payment_tx_def t m p x option.case Let_def ins terminal_audit_def using ok(1) by (simp, intro exI) (rule refl)
          then obtain l d where "terminal_payment_tx now newId uuid tid body s =
              (Inr (201, d), s\<lparr>merchantPayment := merchantPayment s @ [?q], auditLog := auditLog s @ [l]\<rparr>)" by blast
          then show thesis by (rule paid [OF _ t m p ok(1)]) (use x ok(2) in simp_all)
        qed
      qed
    qed
  qed
qed

lemma transaction_terminal_payment [simp]: "transaction (terminal_payment_tx now newId uuid tid body) = terminal_payment_tx now newId uuid tid body"
proof
  fix s :: "'a merchant_db_scheme"
  show "transaction (terminal_payment_tx now newId uuid tid body) s = terminal_payment_tx now newId uuid tid body s"
    by (rule terminal_payment_tx_cases [of now newId uuid tid body s]) (simp_all add: transaction_def)
qed

interpretation terminal_payment: idempotent_operation "transaction (terminal_payment_tx now newId uuid tid body)"
  for now newId uuid tid body
proof
  fix s :: "'a merchant_db_scheme"
  show "terminalIdempotencyRecord (snd (transaction (terminal_payment_tx now newId uuid tid body) s)) = terminalIdempotencyRecord s"
    by (rule terminal_payment_tx_cases [of now newId uuid tid body s]) simp_all
  show "st \<noteq> PROCESSING_STATUS" if "fst (transaction (terminal_payment_tx now newId uuid tid body) s) = Inr (st, d)" for st d
    using that by (cases rule: terminal_payment_tx_cases [of now newId uuid tid body s]) (auto simp: PROCESSING_STATUS_def)
qed

text \<open>A redemption at a terminal either changes nothing or marks the code used and adds one audit row.\<close>

lemma terminal_redemption_tx_cases:
  obtains (failed) e where "terminal_redemption_tx now tid body s = (Inl e, s)"
  | (used) t l d where "terminal_redemption_tx now tid body s = (Inr (200, d),
        s\<lparr>redemptions := update_where (\<lambda>r. rd_redemptionCode r = rb_redemptionCode body \<and> rd_status r = REDEEMED) (use_at now (tm_merchantId t)) (redemptions s),
          auditLog := auditLog s @ [l]\<rparr>)"
      "find_terminal tid s = Some t" "\<exists>r\<in>set (redemptions s). rd_redemptionCode r = rb_redemptionCode body \<and> rd_status r = REDEEMED"
proof (cases "find_terminal tid s")
  case None
  then show thesis by (intro failed) (simp add: terminal_redemption_tx_def)
next
  case (Some t)
  show thesis
  proof (cases "\<exists>r\<in>set (redemptions s). rd_redemptionCode r = rb_redemptionCode body \<and> rd_status r = REDEEMED")
    case True
    then have "count_where (\<lambda>r. rd_redemptionCode r = rb_redemptionCode body \<and> rd_status r = REDEEMED) (redemptions s) \<noteq> 0"
      by (auto simp: count_where_def filter_empty_conv)
    then show thesis by (intro used [OF _ Some True]) (simp add: terminal_redemption_tx_def Some Let_def terminal_audit_def)
  next
    case False
    then have "count_where (\<lambda>r. rd_redemptionCode r = rb_redemptionCode body \<and> rd_status r = REDEEMED) (redemptions s) = 0"
      by (auto simp: count_where_def filter_empty_conv)
    then obtain e where "terminal_redemption_tx now tid body s = (Inl e, s)"
      using Some by (cases "find_code (rb_redemptionCode body) s") (simp_all add: terminal_redemption_tx_def)
    then show thesis by (rule failed)
  qed
qed

lemma transaction_terminal_redemption [simp]: "transaction (terminal_redemption_tx now tid body) = terminal_redemption_tx now tid body"
proof
  fix s :: "'a merchant_db_scheme"
  show "transaction (terminal_redemption_tx now tid body) s = terminal_redemption_tx now tid body s"
    by (rule terminal_redemption_tx_cases [of now tid body s]) (simp_all add: transaction_def)
qed

interpretation terminal_redemption: idempotent_operation "transaction (terminal_redemption_tx now tid body)"
  for now tid body
proof
  fix s :: "'a merchant_db_scheme"
  show "terminalIdempotencyRecord (snd (transaction (terminal_redemption_tx now tid body) s)) = terminalIdempotencyRecord s"
    by (rule terminal_redemption_tx_cases [of now tid body s]) simp_all
  show "st \<noteq> PROCESSING_STATUS" if "fst (transaction (terminal_redemption_tx now tid body) s) = Inr (st, d)" for st d
    using that by (cases rule: terminal_redemption_tx_cases [of now tid body s]) (auto simp: PROCESSING_STATUS_def)
qed


text \<open>What one request at a terminal did, told from the tables.\<close>

lemma terminal_payment_first:
  assumes "getRecord tid ''PAYMENT'' (tb_idempotencyKey body) s = None"
    and "processTerminalPayment hash now newId uuid tid body s = (res, s')"
  shows "case res of
      Inl e \<Rightarrow> s' = s
    | Inr r \<Rightarrow> is_status r = 201 \<and> \<not> is_fromCache r
        \<and> (\<exists>t m p q. find_terminal tid s = Some t \<and> find_merchant (tm_merchantId t) s = Some m \<and> find_partner (mc_partnerId m) s = Some p
             \<and> truthy (jget ''pending'' (pt_financeAccounts p)) \<and> merchantPayment s' = merchantPayment s @ [q]
             \<and> mp_merchantId q = tm_merchantId t \<and> mp_status q = PaymentCompleted \<and> decimal_column (JNum (tb_amount body)) = Some (mp_amount q))
        \<and> net s' = net s \<and> length (auditLog s') = Suc (length (auditLog s))"
proof -
  let ?s1 = "s\<lparr>terminalIdempotencyRecord := terminalIdempotencyRecord s @
      [processing_record now (tid, ''PAYMENT'', tb_idempotencyKey body) (hash body)]\<rparr>"
  have [simp]: "find_terminal i ?s1 = find_terminal i s" "find_merchant i ?s1 = find_merchant i s" "find_partner i ?s1 = find_partner i s" for i
    by (simp_all add: find_terminal_def find_merchant_def find_partner_def)
  note run = assms(2) [unfolded processTerminalPayment_def terminal_payment.first_request [OF assms(1)], unfolded transaction_terminal_payment]
  show ?thesis
  proof (cases rule: terminal_payment_tx_cases [of now newId uuid tid body ?s1])
    case (failed e)
    then show ?thesis using run by auto
  next
    case (paid t m p q l d)
    from run have "res = Inr \<lparr>is_status = 201, is_data = d, is_fromCache = False\<rparr>"
      "merchantPayment s' = merchantPayment s @ [q]" "net s' = net s" "length (auditLog s') = Suc (length (auditLog s))"
      unfolding paid(1) by auto
    then show ?thesis using paid(2-) by auto
  qed
qed

text \<open>
  Property C7. A payment at a terminal is recorded once. The first request under a key either fails and
  changes nothing at all, the key included, so that it can be tried again; or it adds exactly one
  completed payment of the terminal's branch, with the amount as the column stores it, and one audit
  row, and from then on the same request, however often and whenever it is repeated, is answered with
  the stored response and changes nothing, while the key with another payload is refused. It sends
  nothing to the finance service: a completed terminal payment has moved no money.
\<close>

theorem processTerminalPayment_once:
  assumes "getRecord tid ''PAYMENT'' (tb_idempotencyKey body) s = None"
    and "processTerminalPayment hash now newId uuid tid body s = (res, s')"
  shows "case res of
      Inl e \<Rightarrow> s' = s
    | Inr r \<Rightarrow>
        (\<exists>t q. find_terminal tid s = Some t \<and> merchantPayment s' = merchantPayment s @ [q]
             \<and> mp_merchantId q = tm_merchantId t \<and> mp_status q = PaymentCompleted \<and> decimal_column (JNum (tb_amount body)) = Some (mp_amount q))
        \<and> net s' = net s \<and> length (auditLog s') = Suc (length (auditLog s))
        \<and> (\<forall>later id2 uuid2. processTerminalPayment hash later id2 uuid2 tid body s' = (Inr (r\<lparr>is_fromCache := True\<rparr>), s'))
        \<and> (\<forall>later id2 uuid2 body2. tb_idempotencyKey body2 = tb_idempotencyKey body \<and> hash body2 \<noteq> hash body \<longrightarrow>
             processTerminalPayment hash later id2 uuid2 tid body2 s' =
               (Inl (Http CONFLICT ''Idempotency key conflict: same key used with different payload''), s'))"
proof (cases res)
  case (Inl e)
  then show ?thesis using terminal_payment_first [OF assms] by simp
next
  case (Inr r)
  note again = terminal_payment.repeated_request [OF assms(1) assms(2) [unfolded Inr processTerminalPayment_def]]
  show ?thesis
    using terminal_payment_first [OF assms] again unfolding Inr processTerminalPayment_def sum.case by auto
qed

lemma terminal_redemption_first:
  assumes "getRecord tid ''REDEEM'' (rb_idempotencyKey body) s = None"
    and "processTerminalRedemption hash now tid body s = (res, s')"
  shows "case res of
      Inl e \<Rightarrow> s' = s
    | Inr r \<Rightarrow> (\<exists>t. find_terminal tid s = Some t
             \<and> (\<exists>q\<in>set (redemptions s). rd_redemptionCode q = rb_redemptionCode body \<and> rd_status q = REDEEMED)
             \<and> redemptions s' = update_where (\<lambda>q. rd_redemptionCode q = rb_redemptionCode body \<and> rd_status q = REDEEMED)
                 (use_at now (tm_merchantId t)) (redemptions s))"
proof -
  let ?s1 = "s\<lparr>terminalIdempotencyRecord := terminalIdempotencyRecord s @
      [processing_record now (tid, ''REDEEM'', rb_idempotencyKey body) (hash body)]\<rparr>"
  have [simp]: "find_terminal i ?s1 = find_terminal i s" for i by (simp add: find_terminal_def)
  note run = assms(2) [unfolded processTerminalRedemption_def terminal_redemption.first_request [OF assms(1)], unfolded transaction_terminal_redemption]
  show ?thesis
  proof (cases rule: terminal_redemption_tx_cases [of now tid body ?s1])
    case (failed e)
    then show ?thesis using run by auto
  next
    case (used t l d)
    from run have "res = Inr \<lparr>is_status = 200, is_data = d, is_fromCache = False\<rparr>"
      "redemptions s' = update_where (\<lambda>q. rd_redemptionCode q = rb_redemptionCode body \<and> rd_status q = REDEEMED)
         (use_at now (tm_merchantId t)) (redemptions s)"
      unfolding used(1) by auto
    then show ?thesis using used(2-) by auto
  qed
qed

lemma used_everywhere:
  assumes "rs' = update_where (\<lambda>q. rd_redemptionCode q = code \<and> rd_status q = REDEEMED) (use_at now mid) rs"
  shows "q \<in> set rs' \<Longrightarrow> rd_redemptionCode q = code \<Longrightarrow> rd_status q \<noteq> REDEEMED"
proof
  assume "q \<in> set rs'" "rd_redemptionCode q = code" "rd_status q = REDEEMED"
  then obtain r where "q = (if rd_redemptionCode r = code \<and> rd_status r = REDEEMED then use_at now mid r else r)"
    unfolding assms set_update_where by blast
  with \<open>rd_redemptionCode q = code\<close> \<open>rd_status q = REDEEMED\<close> show False by (simp add: use_at_def split: if_splits)
qed

text \<open>
  A code that can be spent no more: every attempt through \<open>processTerminalRedemption\<close> under a key that is
  new at its terminal, and every attempt through \<open>useRedemption\<close>, fails and changes nothing.
\<close>

definition code_spent :: "(terminal_redeem_body \<Rightarrow> string) \<Rightarrow> string \<Rightarrow> 'a merchant_db_scheme \<Rightarrow> bool" where
  "code_spent hash code s \<longleftrightarrow>
     (\<forall>now tid body. rb_redemptionCode body = code \<and> getRecord tid ''REDEEM'' (rb_idempotencyKey body) s = None
        \<longrightarrow> (\<exists>e. processTerminalRedemption hash now tid body s = (Inl e, s)))
     \<and> (\<forall>now tid. \<exists>e. merchant_useRedemption now code tid s = (Inl e, s))"

lemma code_spentI:
  assumes spent: "\<And>q. q \<in> set (redemptions s) \<Longrightarrow> rd_redemptionCode q = code \<Longrightarrow> rd_status q \<noteq> REDEEMED"
  shows "code_spent hash code s"
proof -
  have "\<exists>e. processTerminalRedemption hash now tid body s = (Inl e, s)"
    if "rb_redemptionCode body = code" "getRecord tid ''REDEEM'' (rb_idempotencyKey body) s = None" for now tid body
  proof -
    obtain res s2 where run: "processTerminalRedemption hash now tid body s = (res, s2)" by fastforce
    show ?thesis using terminal_redemption_first [OF that(2) run] run spent that(1) by (cases res) auto
  qed
  moreover have "\<exists>e. merchant_useRedemption now code tid s = (Inl e, s)" for now tid
  proof (cases "find_code code s")
    case None
    then show ?thesis by (cases "find_terminal tid s") (simp_all add: merchant_useRedemption_def)
  next
    case (Some q)
    then have "rd_status q \<noteq> REDEEMED" using spent by (auto simp: find_code_def dest: find_SomeD)
    with Some show ?thesis by (cases "find_terminal tid s") (simp_all add: merchant_useRedemption_def)
  qed
  ultimately show ?thesis unfolding code_spent_def by blast
qed

lemma terminal_redemption_spends:
  assumes "getRecord tid ''REDEEM'' (rb_idempotencyKey body) s = None"
    and "processTerminalRedemption hash now tid body s = (Inr r, s')"
  shows "code_spent hash (rb_redemptionCode body) s'"
proof -
  from terminal_redemption_first [OF assms] obtain t :: terminal where
    s': "redemptions s' = update_where (\<lambda>q. rd_redemptionCode q = rb_redemptionCode body \<and> rd_status q = REDEEMED)
           (use_at now (tm_merchantId t)) (redemptions s)"
    unfolding sum.case by blast
  show ?thesis by (rule code_spentI) (rule used_everywhere [OF s'])
qed

text \<open>\<open>useRedemption\<close> marks the row by its id; the code is spent with it because the column is unique.\<close>

lemma used_row:
  assumes unique: "distinct (map rd_redemptionCode rs)" and r: "r \<in> set rs" and c: "rd_redemptionCode r = code"
    and q: "q \<in> set (update_where (\<lambda>q. rd_id q = rd_id r) (use_at now mid) rs)" "rd_redemptionCode q = code"
  shows "rd_status q = USED"
proof -
  from q(1) obtain p where p: "p \<in> set rs" "q = (if rd_id p = rd_id r then use_at now mid p else p)"
    unfolding set_update_where by blast
  then have "rd_redemptionCode p = code" using q(2) by (simp add: use_at_def split: if_splits)
  then have "p = r" using unique p(1) r c by (metis distinct_map inj_onD)
  then show ?thesis using p(2) by (simp add: use_at_def)
qed

lemma merchant_useRedemption_spends:
  assumes unique: "distinct (map rd_redemptionCode (redemptions s))"
    and run: "merchant_useRedemption now code tid s = (Inr q, s')"
  shows "(\<exists>p\<in>set (redemptions s). rd_redemptionCode p = code \<and> rd_status p = REDEEMED) \<and> code_spent hash code s'"
proof -
  from run obtain t p where "find_terminal tid s = Some t" and p: "find_code code s = Some p" "rd_status p = REDEEMED"
    and s': "redemptions s' = update_where (\<lambda>q. rd_id q = rd_id p) (use_at now (tm_merchantId t)) (redemptions s)"
    unfolding merchant_useRedemption_def by (auto split: option.splits if_splits)
  from p(1) have mem: "p \<in> set (redemptions s)" "rd_redemptionCode p = code" by (auto simp: find_code_def dest: find_SomeD)
  have "code_spent hash code s'"
    by (rule code_spentI) (auto simp: s' dest: used_row [OF unique mem])
  with mem p(2) show ?thesis by blast
qed

lemma merchant_useRedemption_fails: "merchant_useRedemption now code tid s = (Inl e, s') \<Longrightarrow> s' = s"
  by (auto simp: merchant_useRedemption_def split: option.splits if_splits)

text \<open>
  Property C8. A code is spent once, whichever of the two channels of the terminal takes it first. The
  codes are unique (the column is). When \<open>processTerminalRedemption\<close> succeeds under a key that is new at
  the terminal, the code was unused, a repetition of the request is answered from the table, and the code is
  spent: every further attempt on it, under any other key, at any terminal, through this operation or
  through \<open>useRedemption\<close>, fails and changes nothing. When \<open>useRedemption\<close> succeeds, the code was unused too
  and is spent on both channels in the same sense. A failed attempt of either changes nothing.
\<close>

theorem processTerminalRedemption_once:
  assumes "distinct (map rd_redemptionCode (redemptions s))"
    and "getRecord tid ''REDEEM'' (rb_idempotencyKey body) s = None"
  shows "(case processTerminalRedemption hash now tid body s of
            (Inl _, s') \<Rightarrow> s' = s
          | (Inr r, s') \<Rightarrow>
              (\<exists>q\<in>set (redemptions s). rd_redemptionCode q = rb_redemptionCode body \<and> rd_status q = REDEEMED)
              \<and> processTerminalRedemption hash later tid body s' = (Inr (r\<lparr>is_fromCache := True\<rparr>), s')
              \<and> code_spent hash (rb_redemptionCode body) s')
    \<and> (case merchant_useRedemption now (rb_redemptionCode body) tid s of
            (Inl _, s') \<Rightarrow> s' = s
          | (Inr _, s') \<Rightarrow>
              (\<exists>q\<in>set (redemptions s). rd_redemptionCode q = rb_redemptionCode body \<and> rd_status q = REDEEMED)
              \<and> code_spent hash (rb_redemptionCode body) s')" (is "?terminal \<and> ?merchant")
proof
  obtain res s' where run: "processTerminalRedemption hash now tid body s = (res, s')" by fastforce
  note first = terminal_redemption_first [OF assms(2) run]
  show ?terminal
  proof (cases res)
    case (Inl e)
    then show ?thesis using first run by simp
  next
    case (Inr r)
    have "processTerminalRedemption hash later tid body s' = (Inr (r\<lparr>is_fromCache := True\<rparr>), s')"
      unfolding processTerminalRedemption_def
      by (rule terminal_redemption.repeated_request(1) [OF assms(2) run [unfolded Inr processTerminalRedemption_def]])
    with first terminal_redemption_spends [OF assms(2) run [unfolded Inr]] show ?thesis
      unfolding run Inr by auto
  qed
  show ?merchant
    using merchant_useRedemption_spends [OF assms(1), of now "rb_redemptionCode body" tid]
      merchant_useRedemption_fails [of now "rb_redemptionCode body" tid s]
    by (auto split: prod.splits sum.splits)
qed

definition demo_body :: terminal_payment_body where
  "demo_body = \<lparr>tb_amount = Fin 20, tb_idempotencyKey = ''k9'', tb_note = None\<rparr>"

definition demo_use :: terminal_redeem_body where
  "demo_use = \<lparr>rb_redemptionCode = ''JLAAAAAAAAAA'', rb_idempotencyKey = ''k9''\<rparr>"

theorem processTerminalPayment_once_witness:
  "\<exists>r s'. processTerminalPayment tb_idempotencyKey demo_now ''n1'' ''u1'' ''t1'' demo_body demo_till = (Inr r, s')
     \<and> processTerminalPayment tb_idempotencyKey demo_later ''n2'' ''u2'' ''t1'' demo_body s' = (Inr (r\<lparr>is_fromCache := True\<rparr>), s')"
proof -
  have "case processTerminalPayment tb_idempotencyKey demo_now ''n1'' ''u1'' ''t1'' demo_body demo_till of (Inr _, _) \<Rightarrow> True | _ \<Rightarrow> False"
    by code_simp
  then obtain r s' where run: "processTerminalPayment tb_idempotencyKey demo_now ''n1'' ''u1'' ''t1'' demo_body demo_till = (Inr r, s')"
    by (auto split: prod.splits sum.splits)
  have "getRecord ''t1'' ''PAYMENT'' (tb_idempotencyKey demo_body) demo_till = None"
    by (simp add: getRecord_def find_record_def demo_till_def demo_market_def)
  from processTerminalPayment_once [OF this run] run show ?thesis by auto
qed

theorem processTerminalRedemption_once_witness:
  "(\<exists>r s'. processTerminalRedemption rb_idempotencyKey demo_now ''t1'' demo_use (demo_till\<lparr>redemptions := [demo_redemption]\<rparr>) = (Inr r, s')
     \<and> code_spent rb_idempotencyKey ''JLAAAAAAAAAA'' s')
   \<and> (\<exists>r s'. merchant_useRedemption demo_now ''JLAAAAAAAAAA'' ''t1'' (demo_till\<lparr>redemptions := [demo_redemption]\<rparr>) = (Inr r, s')
     \<and> code_spent rb_idempotencyKey ''JLAAAAAAAAAA'' s')"
proof -
  let ?s = "demo_till\<lparr>redemptions := [demo_redemption]\<rparr>"
  have "case processTerminalRedemption rb_idempotencyKey demo_now ''t1'' demo_use ?s of (Inr _, _) \<Rightarrow> True | _ \<Rightarrow> False"
    by code_simp
  moreover have "case merchant_useRedemption demo_now ''JLAAAAAAAAAA'' ''t1'' ?s of (Inr _, _) \<Rightarrow> True | _ \<Rightarrow> False"
    by code_simp
  moreover have "distinct (map rd_redemptionCode (redemptions ?s))" by simp
  moreover have "getRecord ''t1'' ''REDEEM'' (rb_idempotencyKey demo_use) ?s = None"
    by (simp add: getRecord_def find_record_def demo_till_def demo_market_def)
  moreover have "rb_redemptionCode demo_use = ''JLAAAAAAAAAA''" by (simp add: demo_use_def)
  ultimately show ?thesis
    using processTerminalRedemption_once [where s = ?s and tid = "''t1''" and body = demo_use and hash = rb_idempotencyKey
      and now = demo_now and later = demo_later]
    by (auto split: prod.splits sum.splits)
qed

end
