(* ===== verification/Identity.thy ===== *)
theory Identity
  imports Finance_Client
begin

text \<open>
  The identity service (\<open>modules/identity/identity.service.ts\<close>): phone numbers, one-time passwords, the
  steps of a registration, login and refresh sessions, the PIN with its lock, addresses and profile, and
  the administrators' operations on accounts.

  Instants are milliseconds (\<open>Date.now()\<close>). The libraries are parameters: \<open>bcrypt\<close> with its salt, the
  signing and verification of JSON web tokens, the decryption of stored personal data, and whether the
  SMS provider and Kafka accept a message.
\<close>

section \<open>Data\<close>

datatype user_status = PendingApproval | UserActive | UserInactive | UserSuspended | UserBlocked | UserDeleted | UserRejected

datatype registration_state = RegPending | PENDING_OTP | INITIATED | OTP_VERIFIED | TC_ACCEPTED | ID_CARD_UPLOADED
  | ID_CARD_CONFIRMED | KYC_VERIFIED | PROFILE_COMPLETED | PASSWORD_SET | CREDENTIALS_SET | RegCompleted

datatype kyc_status = KycPending | KycApproved | KycRejected
datatype address_type = REGISTERED | CURRENT | WORK | SHIPPING | BILLING
datatype trust_level = TrustUnknown | TRUSTED | UNTRUSTED

record user =
  us_id :: string
  us_phoneNumber :: string
  us_email :: "string option"
  us_passwordHash :: "string option"
  us_pinHash :: "string option"
  us_status :: user_status
  us_registrationState :: registration_state
  us_pinAttempts :: int
  us_pinLockedUntil :: "int option"
  us_ledgerAccountId :: "string option"
  us_createdAt :: int

record user_device =
  ud_id :: string
  ud_userId :: string
  ud_deviceIdentifier :: string
  ud_deviceName :: "string option"
  ud_trustLevel :: trust_level
  ud_lastSeenAt :: "int option"
  ud_pushToken :: "string option"

record refresh_session =
  rs_id :: string
  rs_userId :: string
  rs_deviceId :: "string option"
  rs_tokenHash :: string
  rs_expiresAt :: int
  rs_revokedAt :: "int option"
  rs_ipAddress :: "string option"
  rs_userAgent :: "string option"
  rs_lastSeenAt :: "int option"

record otp_challenge =
  oc_id :: string
  oc_userId :: string
  oc_phoneNumber :: string
  oc_code :: string
  oc_expiresAt :: int
  oc_verifiedAt :: "int option"
  oc_attempts :: int

record user_consent =
  uc_userId :: string
  uc_consentType :: string
  uc_acceptedAt :: int
  uc_withdrawnAt :: "int option"

record security_event =
  se_userId :: string
  se_eventType :: string
  se_metadata :: json
  se_createdAt :: int

text \<open>\<open>value\<close> is the text \<open>JSON.stringify\<close> made; it stands as the value it was made from.\<close>

record user_setting =
  st_userId :: string
  st_key :: string
  st_value :: json

text \<open>The columns that \<open>updateAddress\<close> may write are kept together as the fields of an object.\<close>

record address =
  ar_id :: string
  ar_userId :: string
  ar_type :: address_type
  ar_fields :: "(string \<times> json) list"
  ar_verificationSource :: "string option"
  ar_deletedAt :: "int option"

text \<open>
  The record of a customer's verification; \<open>kd_fields\<close> holds the columns with the texts of the card (names,
  prefixes, religion).
\<close>

record kyc_data =
  kd_userId :: string
  kd_verificationStatus :: kyc_status
  kd_reviewNote :: "string option"
  kd_idCardNumberEncrypted :: "string option"
  kd_idCardToken :: "string option"
  kd_livenessSessionId :: "string option"
  kd_idCardImageUrl :: "string option"
  kd_idCardImageSha256 :: "string option"
  kd_selfieImageUrl :: "string option"
  kd_selfieImageSha256 :: "string option"
  kd_thaiNameEncrypted :: "string option"
  kd_dateOfBirth :: "int option"
  kd_idCardIssueDate :: "int option"
  kd_idCardExpiryDate :: "int option"
  kd_fields :: "(string \<times> json) list"
  kd_faceMatchScore :: "int option"
  kd_ocrConfidence :: "rat option"
  kd_verifiedAt :: "int option"
  kd_createdAt :: int
  kd_updatedAt :: int

record pii_row =
  pi_userId :: string
  pi_field :: string
  pi_encryptedData :: string

record identity_db =
  users :: "user list"
  userDevices :: "user_device list"
  refreshSessions :: "refresh_session list"
  otpChallenges :: "otp_challenge list"
  userConsents :: "user_consent list"
  securityEvents :: "security_event list"
  userSettings :: "user_setting list"
  addresses :: "address list"
  kycData :: "kyc_data list"
  piiData :: "pii_row list"
  smsOutbox :: "(string \<times> string) list"
  securityTopic :: "(string \<times> string) list"

section \<open>The libraries and the request\<close>

datatype jwt_failure = TokenExpired | TokenInvalid

record auth_env =
  ae_hash :: "string \<Rightarrow> string \<Rightarrow> string"
  ae_compare :: "string \<Rightarrow> string \<Rightarrow> bool"
  ae_sign :: "string \<Rightarrow> int \<Rightarrow> int \<Rightarrow> json \<Rightarrow> string"
  ae_verify :: "string \<Rightarrow> int \<Rightarrow> string \<Rightarrow> jwt_failure + json"
  ae_accessSecret :: string
  ae_refreshSecret :: string
  ae_registrationSecret :: string
  ae_jwtSecret :: string
  ae_decrypt :: "string \<Rightarrow> string \<Rightarrow> string \<Rightarrow> string \<Rightarrow> string option"
  ae_piiKey :: "string option"

text \<open>
  \<open>rq_uuid\<close> is the sequence of random identifiers of one request (also those the database gives to new
  rows), \<open>rq_salt\<close> the salts, \<open>rq_random\<close> the value of \<open>Math.random()\<close>.
\<close>

record identity_request =
  rq_now :: int
  rq_uuid :: "nat \<Rightarrow> string"
  rq_salt :: "nat \<Rightarrow> string"
  rq_random :: rat
  rq_ip :: "string option"
  rq_userAgent :: "string option"
  rq_smsUp :: bool
  rq_kafkaUp :: bool

definition ACCESS_TOKEN_TTL_SECONDS :: int where "ACCESS_TOKEN_TTL_SECONDS = 3 * 60"
definition REFRESH_TOKEN_TTL_SECONDS :: int where "REFRESH_TOKEN_TTL_SECONDS = 30 * 24 * 60 * 60"
definition REGISTRATION_TOKEN_TTL_SECONDS :: int where "REGISTRATION_TOKEN_TTL_SECONDS = 15 * 60"
definition OTP_TTL_SECONDS :: int where "OTP_TTL_SECONDS = 3 * 60"
definition MAX_PIN_ATTEMPTS :: int where "MAX_PIN_ATTEMPTS = 3"
definition PIN_LOCK_DURATION_MS :: int where "PIN_LOCK_DURATION_MS = 5 * 60 * 1000"

section \<open>Phone numbers\<close>

definition normalizePhone :: "string \<Rightarrow> string" where
  "normalizePhone phone =
     (let digits = filter is_digit phone
      in if starts_with ''66'' digits \<and> length digits = 11 then ''+66'' @ drop 2 digits
         else if starts_with ''0'' digits \<and> length digits = 10 then ''+66'' @ drop 1 digits
         else if length digits = 9 then ''+66'' @ digits
         else if starts_with ''+'' phone then phone
         else ''+66'' @ digits)"

definition getPhoneCandidates :: "string \<Rightarrow> string list" where
  "getPhoneCandidates phone =
     (let e164 = normalizePhone phone; digits = filter is_digit e164; local = ''0'' @ drop 2 digits
      in if local = e164 then [e164] else [e164, local])"

text \<open>The test of the input before it is normalised, in registration and login.\<close>

definition check_phone :: "string \<Rightarrow> error option" where
  "check_phone phone =
     (let inputDigits = filter is_digit phone
      in if length inputDigits \<noteq> 10 then Some (Http BAD_REQUEST ''Phone number must be 10 digits'')
         else if \<not> starts_with ''0'' inputDigits then Some (Http BAD_REQUEST ''Phone number must start with 0'')
         else None)"

section \<open>Rows\<close>

definition find_user :: "string \<Rightarrow> 'a identity_db_scheme \<Rightarrow> user option" where
  "find_user i s = find (\<lambda>u. us_id u = i) (users s)"

definition user_by_phone :: "string \<Rightarrow> 'a identity_db_scheme \<Rightarrow> user option" where
  "user_by_phone phone s = find (\<lambda>u. us_phoneNumber u \<in> set (getPhoneCandidates phone)) (users s)"

definition set_user :: "string \<Rightarrow> (user \<Rightarrow> user) \<Rightarrow> 'a identity_db_scheme \<Rightarrow> 'a identity_db_scheme" where
  "set_user i f s = s\<lparr>users := update_where (\<lambda>u. us_id u = i) f (users s)\<rparr>"

definition essentialEvents :: "string list" where
  "essentialEvents = [''LOGIN_FAILURE'', ''PASSWORD_CHANGE'', ''PASSWORD_SET'', ''PIN_SETUP'', ''KYC_APPROVED'', ''KYC_REJECTED'',
     ''DEVICE_REGISTERED'']"

definition logSecurityEvent :: "identity_request \<Rightarrow> string \<Rightarrow> string \<Rightarrow> json \<Rightarrow> 'a identity_db_scheme \<Rightarrow> 'a identity_db_scheme" where
  "logSecurityEvent rq userId eventType metadata s =
     s\<lparr>securityEvents := securityEvents s @ [\<lparr>se_userId = userId, se_eventType = eventType, se_metadata = metadata, se_createdAt = rq_now rq\<rparr>],
       securityTopic := securityTopic s @ (if eventType \<in> set essentialEvents \<and> rq_kafkaUp rq then [(userId, eventType)] else [])\<rparr>"

definition client_meta :: "identity_request \<Rightarrow> json" where
  "client_meta rq = JObj [(''ipAddress'', jopt (rq_ip rq)), (''userAgent'', jopt (rq_userAgent rq))]"

section \<open>Tokens\<close>

definition signAccessToken :: "auth_env \<Rightarrow> identity_request \<Rightarrow> string \<Rightarrow> string \<Rightarrow> string \<Rightarrow> string option \<Rightarrow> bool \<Rightarrow> string" where
  "signAccessToken env rq jti userId sessionId deviceId isPinVerified =
     ae_sign env (ae_accessSecret env) (rq_now rq) ACCESS_TOKEN_TTL_SECONDS
       (JObj [(''sub'', JStr userId), (''sid'', JStr sessionId), (''did'', jopt deviceId), (''typ'', JStr ''access''),
              (''jti'', JStr jti), (''scope'', JStr ''wallet''), (''pvn'', JBool isPinVerified)])"

definition refresh_claims :: "string \<Rightarrow> string \<Rightarrow> string \<Rightarrow> string option \<Rightarrow> json" where
  "refresh_claims jti userId sessionId deviceId =
     JObj [(''sub'', JStr userId), (''sid'', JStr sessionId), (''did'', jopt deviceId), (''typ'', JStr ''refresh''), (''jti'', JStr jti)]"

definition signRefreshToken :: "auth_env \<Rightarrow> identity_request \<Rightarrow> string \<Rightarrow> string \<Rightarrow> string \<Rightarrow> string option \<Rightarrow> string" where
  "signRefreshToken env rq jti userId sessionId deviceId =
     ae_sign env (ae_refreshSecret env) (rq_now rq) REFRESH_TOKEN_TTL_SECONDS (refresh_claims jti userId sessionId deviceId)"

fun registration_state_name :: "registration_state \<Rightarrow> string" where
  "registration_state_name RegPending = ''PENDING''"
| "registration_state_name PENDING_OTP = ''PENDING_OTP''"
| "registration_state_name INITIATED = ''INITIATED''"
| "registration_state_name OTP_VERIFIED = ''OTP_VERIFIED''"
| "registration_state_name TC_ACCEPTED = ''TC_ACCEPTED''"
| "registration_state_name ID_CARD_UPLOADED = ''ID_CARD_UPLOADED''"
| "registration_state_name ID_CARD_CONFIRMED = ''ID_CARD_CONFIRMED''"
| "registration_state_name KYC_VERIFIED = ''KYC_VERIFIED''"
| "registration_state_name PROFILE_COMPLETED = ''PROFILE_COMPLETED''"
| "registration_state_name PASSWORD_SET = ''PASSWORD_SET''"
| "registration_state_name CREDENTIALS_SET = ''CREDENTIALS_SET''"
| "registration_state_name RegCompleted = ''COMPLETED''"

definition signRegistrationToken :: "auth_env \<Rightarrow> identity_request \<Rightarrow> string \<Rightarrow> string \<Rightarrow> registration_state \<Rightarrow> string" where
  "signRegistrationToken env rq jti userId state =
     ae_sign env (ae_registrationSecret env) (rq_now rq) REGISTRATION_TOKEN_TTL_SECONDS
       (JObj [(''sub'', JStr userId), (''state'', JStr (registration_state_name state)), (''typ'', JStr ''registration''), (''nonce'', JStr jti)])"

text \<open>\<open>authorization.replace('Bearer ', '')\<close> takes the first occurrence out.\<close>

fun replace_first :: "string \<Rightarrow> string \<Rightarrow> string" where
  "replace_first sub [] = []"
| "replace_first sub (c # cs) = (if starts_with sub (c # cs) then drop (length sub) (c # cs) else c # replace_first sub cs)"

definition sub_of :: "json \<Rightarrow> string result" where
  "sub_of payload = (case jget ''sub'' payload of JStr u \<Rightarrow> Inr u | _ \<Rightarrow> Inl (Plain ''Argument id is missing''))"

definition jwt_error :: "jwt_failure \<Rightarrow> error" where
  "jwt_error f = Plain (case f of TokenExpired \<Rightarrow> ''jwt expired'' | TokenInvalid \<Rightarrow> ''invalid token'')"

text \<open>The user of a registration token; the registration steps begin with this.\<close>

definition registration_user :: "auth_env \<Rightarrow> identity_request \<Rightarrow> string option \<Rightarrow> string result" where
  "registration_user env rq authorization =
     (case authorization of
        Some (c # t) \<Rightarrow>
          (case ae_verify env (ae_registrationSecret env) (rq_now rq) (replace_first ''Bearer '' (c # t)) of
             Inl f \<Rightarrow> Inl (jwt_error f)
           | Inr payload \<Rightarrow>
               if jget ''typ'' payload \<noteq> JStr ''registration'' then Inl (Http UNAUTHORIZED ''Invalid token type'')
               else sub_of payload)
      | _ \<Rightarrow> Inl (Http UNAUTHORIZED ''Authorization header required''))"

section \<open>One-time passwords\<close>

definition otp_code :: "rat \<Rightarrow> string" where
  "otp_code random = (case nfloor (nadd (Fin 100000) (nmul (Fin random) (Fin 900000))) of Fin x \<Rightarrow> int_text \<lfloor>x\<rfloor> | _ \<Rightarrow> ''NaN'')"

definition createOtpChallenge :: "auth_env \<Rightarrow> identity_request \<Rightarrow> string \<Rightarrow> string \<Rightarrow> 'a identity_db_scheme \<Rightarrow> otp_challenge \<times> 'a identity_db_scheme" where
  "createOtpChallenge env rq userId phoneNumber s =
     (let code = otp_code (rq_random rq);
          c = \<lparr>oc_id = rq_uuid rq 0, oc_userId = userId, oc_phoneNumber = phoneNumber, oc_code = ae_hash env (rq_salt rq 0) code,
               oc_expiresAt = rq_now rq + OTP_TTL_SECONDS * 1000, oc_verifiedAt = None, oc_attempts = 0\<rparr>
      in (c, s\<lparr>otpChallenges := otpChallenges s @ [c],
               smsOutbox := smsOutbox s @ (if rq_smsUp rq then [(phoneNumber, ''Your J-Ledger verification code is: '' @ code)] else [])\<rparr>))"

definition find_challenge :: "string \<Rightarrow> 'a identity_db_scheme \<Rightarrow> otp_challenge option" where
  "find_challenge i s = find (\<lambda>c. oc_id c = i) (otpChallenges s)"

definition set_challenge :: "string \<Rightarrow> (otp_challenge \<Rightarrow> otp_challenge) \<Rightarrow> 'a identity_db_scheme \<Rightarrow> 'a identity_db_scheme" where
  "set_challenge i f s = s\<lparr>otpChallenges := update_where (\<lambda>c. oc_id c = i) f (otpChallenges s)\<rparr>"

definition verifyOtpChallenge :: "auth_env \<Rightarrow> identity_request \<Rightarrow> string \<Rightarrow> string \<Rightarrow> string \<Rightarrow> ('a identity_db_scheme, user) handler" where
  "verifyOtpChallenge env rq challengeId phoneNumber otp s =
     (case find_challenge challengeId s of
        None \<Rightarrow> (Inl (Http BAD_REQUEST ''Invalid challenge''), s)
      | Some c \<Rightarrow>
          if oc_phoneNumber c \<notin> set (getPhoneCandidates phoneNumber) then (Inl (Http BAD_REQUEST ''Phone number mismatch''), s)
          else if oc_expiresAt c < rq_now rq then (Inl (Http BAD_REQUEST ''OTP expired''), s)
          else if oc_verifiedAt c \<noteq> None then (Inl (Http BAD_REQUEST ''OTP already verified''), s)
          else if \<not> ae_compare env otp (oc_code c)
          then (Inl (Http BAD_REQUEST ''Invalid OTP''), set_challenge challengeId (\<lambda>c. c\<lparr>oc_attempts := oc_attempts c + 1\<rparr>) s)
          else let s1 = set_challenge challengeId (\<lambda>c. c\<lparr>oc_verifiedAt := Some (rq_now rq)\<rparr>) s
               in case find_user (oc_userId c) s1 of
                    None \<Rightarrow> (Inl (Http BAD_REQUEST ''User not found''), s1)
                  | Some u \<Rightarrow> (Inr u, s1))"

section \<open>Registration\<close>

definition registerInit :: "auth_env \<Rightarrow> identity_request \<Rightarrow> string \<Rightarrow> ('a identity_db_scheme, string \<times> int) handler" where
  "registerInit env rq dtoPhone s =
     (case check_phone dtoPhone of
        Some e \<Rightarrow> (Inl e, s)
      | None \<Rightarrow>
          let phoneNumber = normalizePhone dtoPhone;
              continue = (\<lambda>userId s1. case createOtpChallenge env rq userId phoneNumber s1 of
                 (c, s2) \<Rightarrow> (Inr (oc_id c, OTP_TTL_SECONDS), logSecurityEvent rq userId ''REGISTER_INIT_OTP'' (client_meta rq) s2))
          in (case user_by_phone phoneNumber s of
                None \<Rightarrow>
                  let u = \<lparr>us_id = rq_uuid rq 1, us_phoneNumber = phoneNumber, us_email = None, us_passwordHash = None, us_pinHash = None,
                           us_status = UserInactive, us_registrationState = PENDING_OTP, us_pinAttempts = 0, us_pinLockedUntil = None,
                           us_ledgerAccountId = None, us_createdAt = rq_now rq\<rparr>
                  in continue (us_id u) (s\<lparr>users := users s @ [u]\<rparr>)
              | Some u \<Rightarrow>
                  if us_passwordHash u \<notin> {None, Some []} then (Inl (Http CONFLICT ''User already has an account. Please log in.''), s)
                  else if us_registrationState u = RegCompleted then (Inl (Http CONFLICT ''User already registered''), s)
                  else continue (us_id u) (set_user (us_id u) (\<lambda>u. u\<lparr>us_registrationState := PENDING_OTP\<rparr>) s)))"

definition registerVerifyOtp :: "auth_env \<Rightarrow> identity_request \<Rightarrow> string \<Rightarrow> string \<Rightarrow> string
    \<Rightarrow> ('a identity_db_scheme, string \<times> registration_state) handler" where
  "registerVerifyOtp env rq dtoPhone challengeId otp s =
     (case verifyOtpChallenge env rq challengeId (normalizePhone dtoPhone) otp s of
        (Inl e, s1) \<Rightarrow> (Inl e, s1)
      | (Inr u, s1) \<Rightarrow>
          let s2 = (if us_registrationState u \<in> {PENDING_OTP, RegPending}
                    then set_user (us_id u) (\<lambda>u. u\<lparr>us_registrationState := OTP_VERIFIED\<rparr>) s1 else s1);
              s3 = logSecurityEvent rq (us_id u) ''REGISTER_OTP_VERIFIED'' (client_meta rq) s2;
              finalState = (case find_user (us_id u) s3 of None \<Rightarrow> OTP_VERIFIED | Some v \<Rightarrow> us_registrationState v)
          in (Inr (signRegistrationToken env rq (rq_uuid rq 0) (us_id u) finalState, finalState), s3))"

text \<open>A rejected applicant may retry from any step.\<close>

definition validateRegistrationState :: "string \<Rightarrow> registration_state list \<Rightarrow> 'a identity_db_scheme \<Rightarrow> error option" where
  "validateRegistrationState userId allowedStates s =
     (case find_user userId s of
        None \<Rightarrow> Some (Http BAD_REQUEST ''User not found'')
      | Some u \<Rightarrow>
          if us_status u = UserRejected then None
          else if us_registrationState u \<notin> set allowedStates then Some (Http FORBIDDEN ''Invalid registration sequence'')
          else None)"

text \<open>What the registration steps share: the token, the state, the user.\<close>

definition registration_step :: "auth_env \<Rightarrow> identity_request \<Rightarrow> string option \<Rightarrow> registration_state list
    \<Rightarrow> (user \<Rightarrow> ('a identity_db_scheme, 'r) handler) \<Rightarrow> ('a identity_db_scheme, 'r) handler" where
  "registration_step env rq authorization allowed body s =
     (case registration_user env rq authorization of
        Inl e \<Rightarrow> (Inl e, s)
      | Inr userId \<Rightarrow>
          (case validateRegistrationState userId allowed s of
             Some e \<Rightarrow> (Inl e, s)
           | None \<Rightarrow>
               (case find_user userId s of
                  None \<Rightarrow> (Inl (Http BAD_REQUEST ''User not found''), s)
                | Some u \<Rightarrow> body u s)))"

definition acceptTerms :: "auth_env \<Rightarrow> identity_request \<Rightarrow> string option \<Rightarrow> ('a identity_db_scheme, unit) handler" where
  "acceptTerms env rq authorization = registration_step env rq authorization [OTP_VERIFIED, TC_ACCEPTED] (\<lambda>u s.
     let mine = (\<lambda>c. uc_userId c = us_id u \<and> uc_consentType c = ''TERMS_OF_SERVICE'');
         s1 = (if list_ex mine (userConsents s)
               then s\<lparr>userConsents := update_where mine (\<lambda>c. c\<lparr>uc_acceptedAt := rq_now rq, uc_withdrawnAt := None\<rparr>) (userConsents s)\<rparr>
               else s\<lparr>userConsents := userConsents s @ [\<lparr>uc_userId = us_id u, uc_consentType = ''TERMS_OF_SERVICE'',
                      uc_acceptedAt = rq_now rq, uc_withdrawnAt = None\<rparr>]\<rparr>)
     in (Inr (), set_user (us_id u) (\<lambda>u. u\<lparr>us_registrationState := TC_ACCEPTED\<rparr>) s1))"


section \<open>Addresses and settings\<close>

definition allowedFields :: "string list" where
  "allowedFields = [''line1'', ''line2'', ''subdistrict'', ''district'', ''province'', ''postalCode'', ''label'', ''countryCode'']"

definition sanitizedDto :: "json \<Rightarrow> (string \<times> json) list" where
  "sanitizedDto dto = filter (\<lambda>(k, v). v \<noteq> JUndef) (map (\<lambda>k. (k, jget k dto)) allowedFields)"

definition set_fields :: "(string \<times> json) list \<Rightarrow> (string \<times> json) list \<Rightarrow> (string \<times> json) list" where
  "set_fields new old = map (\<lambda>(k, v). (k, case map_of new k of None \<Rightarrow> v | Some w \<Rightarrow> w)) old
     @ filter (\<lambda>(k, v). k \<notin> set (map fst old)) new"

fun address_type_name :: "address_type \<Rightarrow> string" where
  "address_type_name REGISTERED = ''REGISTERED''"
| "address_type_name CURRENT = ''CURRENT''"
| "address_type_name WORK = ''WORK''"
| "address_type_name SHIPPING = ''SHIPPING''"
| "address_type_name BILLING = ''BILLING''"

text \<open>The live address of a type is updated, or the first one created; the event is logged in any case.\<close>

definition updateAddress :: "identity_request \<Rightarrow> string \<Rightarrow> string \<Rightarrow> address_type \<Rightarrow> json \<Rightarrow> string option
    \<Rightarrow> 'a identity_db_scheme \<Rightarrow> address \<times> 'a identity_db_scheme" where
  "updateAddress rq newId userId type dto source s =
     (let new = sanitizedDto dto;
          live = (\<lambda>a. ar_userId a = userId \<and> ar_type a = type \<and> ar_deletedAt a = None);
          logged = logSecurityEvent rq userId ''ADDRESS_UPDATED'' (JObj [(''type'', JStr (address_type_name type)), (''source'', jopt source)])
      in case find live (addresses s) of
           Some a \<Rightarrow>
             let f = (\<lambda>a. a\<lparr>ar_fields := set_fields new (ar_fields a), ar_verificationSource := keep_opt source (ar_verificationSource a)\<rparr>)
             in (f a, logged (s\<lparr>addresses := update_where (\<lambda>b. ar_id b = ar_id a) f (addresses s)\<rparr>))
         | None \<Rightarrow>
             let a = \<lparr>ar_id = newId, ar_userId = userId, ar_type = type, ar_fields = set_fields new [(''countryCode'', JStr ''TH'')],
                      ar_verificationSource = source, ar_deletedAt = None\<rparr>
             in (a, logged (s\<lparr>addresses := addresses s @ [a]\<rparr>)))"

text \<open>\<open>JSON.stringify\<close> drops the fields that are \<open>undefined\<close>.\<close>

definition stringified :: "json \<Rightarrow> json" where
  "stringified v = (case v of JObj fs \<Rightarrow> JObj (filter (\<lambda>(k, v). v \<noteq> JUndef) fs) | _ \<Rightarrow> v)"

definition upsert_setting :: "string \<Rightarrow> string \<Rightarrow> json \<Rightarrow> 'a identity_db_scheme \<Rightarrow> 'a identity_db_scheme" where
  "upsert_setting userId key value s =
     (let mine = (\<lambda>x. st_userId x = userId \<and> st_key x = key)
      in if list_ex mine (userSettings s)
         then s\<lparr>userSettings := update_where mine (\<lambda>x. x\<lparr>st_value := stringified value\<rparr>) (userSettings s)\<rparr>
         else s\<lparr>userSettings := userSettings s @ [\<lparr>st_userId = userId, st_key = key, st_value = stringified value\<rparr>]\<rparr>)"

definition find_kyc :: "string \<Rightarrow> 'a identity_db_scheme \<Rightarrow> kyc_data option" where
  "find_kyc userId s = find (\<lambda>k. kd_userId k = userId) (kycData s)"

section \<open>The later steps of a registration\<close>

record profile_dto =
  pd_occupation :: "string option"
  pd_incomeRange :: string
  pd_sourceOfFunds :: string
  pd_purposeOfAccount :: string
  pd_currentAddress :: json
  pd_useIdentityAddress :: bool

definition register_address :: "identity_request \<Rightarrow> string \<Rightarrow> profile_dto \<Rightarrow> 'a identity_db_scheme \<Rightarrow> 'a identity_db_scheme" where
  "register_address rq userId dto s =
     (let current = pd_currentAddress dto; save = (\<lambda>a. snd (updateAddress rq (rq_uuid rq 0) userId CURRENT a (Some ''MANUAL'') s))
      in if pd_useIdentityAddress dto
         then (case find (\<lambda>a. ar_userId a = userId \<and> ar_type a = REGISTERED) (addresses s) of
             Some r \<Rightarrow> let f = JObj (ar_fields r); orUndef = (\<lambda>k. jor (jget k f) JUndef)
               in save (JObj [(''line1'', orUndef ''line1''), (''subdistrict'', orUndef ''subdistrict''), (''district'', orUndef ''district''),
                    (''province'', orUndef ''province''), (''postalCode'', jor (jget ''postalCode'' current) (orUndef ''postalCode''))])
           | None \<Rightarrow> if truthy current \<and> truthy (jget ''line1'' current) then save current else s)
         else if truthy current then save current else s)"

text \<open>An applicant who is inactive or was rejected waits for approval; every other status is kept.\<close>

definition status_after :: "user_status \<Rightarrow> user_status" where
  "status_after st = (if st = UserInactive \<or> st = UserRejected then PendingApproval else st)"

definition sync_kyc :: "identity_request \<Rightarrow> string \<Rightarrow> user_status \<Rightarrow> 'a identity_db_scheme \<Rightarrow> 'a identity_db_scheme" where
  "sync_kyc rq userId st s = (if st = PendingApproval
     then s\<lparr>kycData := update_where (\<lambda>k. kd_userId k = userId) 
            (\<lambda>k. k\<lparr>kd_verificationStatus := KycPending, kd_updatedAt := rq_now rq\<rparr>) (kycData s)\<rparr> else s)"

definition has_text :: "string option \<Rightarrow> bool" where
  "has_text v \<longleftrightarrow> v \<noteq> None \<and> v \<noteq> Some []"

definition registerProfile :: "auth_env \<Rightarrow> identity_request \<Rightarrow> string option \<Rightarrow> profile_dto \<Rightarrow> ('a identity_db_scheme, registration_state) handler" where
  "registerProfile env rq authorization dto = registration_step env rq authorization [KYC_VERIFIED, PROFILE_COMPLETED] (\<lambda>u s.
     let s1 = upsert_setting (us_id u) ''profile'' (JObj [(''occupation'', jopt (pd_occupation dto)), (''incomeRange'', JStr (pd_incomeRange dto)),
                (''sourceOfFunds'', JStr (pd_sourceOfFunds dto)), (''purposeOfAccount'', JStr (pd_purposeOfAccount dto))]) s;
         s2 = register_address rq (us_id u) dto s1;
         nextState = (if has_text (us_passwordHash u) \<and> has_text (us_pinHash u) then RegCompleted else PROFILE_COMPLETED);
         updatedStatus = status_after (us_status u);
         s3 = set_user (us_id u) (\<lambda>v. v\<lparr>us_registrationState := nextState, us_status := updatedStatus\<rparr>) s2
     in (Inr nextState, logSecurityEvent rq (us_id u) ''KYC_SUBMITTED'' (JObj []) (sync_kyc rq (us_id u) updatedStatus s3)))"

definition registerPassword :: "auth_env \<Rightarrow> identity_request \<Rightarrow> string option \<Rightarrow> string \<Rightarrow> ('a identity_db_scheme, unit) handler" where
  "registerPassword env rq authorization password = registration_step env rq authorization [PROFILE_COMPLETED, PASSWORD_SET] (\<lambda>u s.
     (Inr (), logSecurityEvent rq (us_id u) ''PASSWORD_SET'' (client_meta rq)
        (set_user (us_id u) (\<lambda>v. v\<lparr>us_passwordHash := Some (ae_hash env (rq_salt rq 0) password), us_registrationState := PASSWORD_SET\<rparr>) s)))"

definition find_device :: "string \<Rightarrow> string \<Rightarrow> 'a identity_db_scheme \<Rightarrow> user_device option" where
  "find_device userId deviceIdentifier s = find (\<lambda>d. ud_userId d = userId \<and> ud_deviceIdentifier d = deviceIdentifier) (userDevices s)"

text \<open>\<open>upsert\<close> on the unique pair of user and device identifier, with what to write on an update.\<close>

definition upsert_device :: "string \<Rightarrow> string \<Rightarrow> (user_device \<Rightarrow> user_device) \<Rightarrow> user_device
    \<Rightarrow> 'a identity_db_scheme \<Rightarrow> user_device \<times> 'a identity_db_scheme" where
  "upsert_device userId deviceIdentifier update new s =
     (case find_device userId deviceIdentifier s of
        Some d \<Rightarrow> (update d, s\<lparr>userDevices := update_where (\<lambda>d. ud_userId d = userId \<and> ud_deviceIdentifier d = deviceIdentifier) update (userDevices s)\<rparr>)
      | None \<Rightarrow> (new, s\<lparr>userDevices := userDevices s @ [new]\<rparr>))"

definition push_token :: "string option \<Rightarrow> string option \<Rightarrow> string option" where
  "push_token given old = (if has_text given then given else old)"

record pin_dto =
  pn_pin :: string
  pn_deviceId :: string
  pn_deviceName :: "string option"
  pn_pushToken :: "string option"

definition registerPin :: "auth_env \<Rightarrow> identity_request \<Rightarrow> string option \<Rightarrow> pin_dto \<Rightarrow> ('a identity_db_scheme, unit) handler" where
  "registerPin env rq authorization dto = registration_step env rq authorization [PASSWORD_SET, CREDENTIALS_SET] (\<lambda>u s.
     case upsert_device (us_id u) (pn_deviceId dto)
            (\<lambda>d. d\<lparr>ud_deviceName := keep_opt (pn_deviceName dto) (ud_deviceName d), ud_lastSeenAt := Some (rq_now rq),
                   ud_pushToken := push_token (pn_pushToken dto) (ud_pushToken d)\<rparr>)
            \<lparr>ud_id = rq_uuid rq 0, ud_userId = us_id u, ud_deviceIdentifier = pn_deviceId dto, ud_deviceName = pn_deviceName dto,
             ud_trustLevel = TRUSTED, ud_lastSeenAt = None, ud_pushToken = push_token (pn_pushToken dto) None\<rparr> s
     of (_, s1) \<Rightarrow>
       (Inr (), logSecurityEvent rq (us_id u) ''PIN_SETUP'' (client_meta rq)
          (set_user (us_id u) (\<lambda>v. v\<lparr>us_pinHash := Some (ae_hash env (rq_salt rq 0) (pn_pin dto)), us_registrationState := CREDENTIALS_SET\<rparr>) s1)))"

section \<open>Sessions\<close>

record auth_response =
  au_accessToken :: string
  au_refreshToken :: string
  au_regToken :: "string option"
  au_user :: user
  au_reviewNote :: "string option"

definition new_session :: "auth_env \<Rightarrow> identity_request \<Rightarrow> string \<Rightarrow> string option \<Rightarrow> string \<Rightarrow> refresh_session" where
  "new_session env rq userId deviceId refreshToken =
     \<lparr>rs_id = rq_uuid rq 4, rs_userId = userId, rs_deviceId = deviceId, rs_tokenHash = ae_hash env (rq_salt rq 1) refreshToken,
      rs_expiresAt = rq_now rq + REFRESH_TOKEN_TTL_SECONDS * 1000, rs_revokedAt = None, rs_ipAddress = rq_ip rq,
      rs_userAgent = rq_userAgent rq, rs_lastSeenAt = Some (rq_now rq)\<rparr>"

definition add_session :: "refresh_session \<Rightarrow> 'a identity_db_scheme \<Rightarrow> 'a identity_db_scheme" where
  "add_session x s = s\<lparr>refreshSessions := refreshSessions s @ [x]\<rparr>"

definition revoke_sessions :: "int \<Rightarrow> string \<Rightarrow> 'a identity_db_scheme \<Rightarrow> 'a identity_db_scheme" where
  "revoke_sessions now userId s =
     s\<lparr>refreshSessions := update_where (\<lambda>x. rs_userId x = userId \<and> rs_revokedAt x = None) (\<lambda>x. x\<lparr>rs_revokedAt := Some now\<rparr>) (refreshSessions s)\<rparr>"

definition review_note :: "user_status \<Rightarrow> string \<Rightarrow> 'a identity_db_scheme \<Rightarrow> string option" where
  "review_note st userId s = (if st = UserRejected then Option.bind (find_kyc userId s) kd_reviewNote else None)"

definition reg_token :: "auth_env \<Rightarrow> identity_request \<Rightarrow> user \<Rightarrow> string option" where
  "reg_token env rq u = (if us_registrationState u \<noteq> RegCompleted
     then Some (signRegistrationToken env rq (rq_uuid rq 5) (us_id u) (us_registrationState u)) else None)"

definition completeRegistration :: "auth_env \<Rightarrow> identity_request \<Rightarrow> string option \<Rightarrow> string option \<Rightarrow> ('a identity_db_scheme, auth_response) handler" where
  "completeRegistration env rq authorization deviceId = registration_step env rq authorization [CREDENTIALS_SET, RegCompleted] (\<lambda>u s.
     if us_registrationState u = RegCompleted \<and> us_status u = UserActive then (Inl (Http CONFLICT ''Registration already completed''), s)
     else let st = status_after (us_status u);
              v = u\<lparr>us_registrationState := RegCompleted, us_status := st\<rparr>;
              s1 = sync_kyc rq (us_id u) st (set_user (us_id u) (\<lambda>v. v\<lparr>us_registrationState := RegCompleted, us_status := st\<rparr>) s);
              s2 = logSecurityEvent rq (us_id u) ''REGISTRATION_COMPLETED'' (JObj [(''walletId'', jopt (us_ledgerAccountId u))]) s1;
              identifier = (case deviceId of Some (c # t) \<Rightarrow> c # t | _ \<Rightarrow> ''UNKNOWN'');
              did = (case find_device (us_id u) identifier s2 of Some d \<Rightarrow> if ud_id d = [] then ''UNKNOWN'' else ud_id d | None \<Rightarrow> ''UNKNOWN'');
              access = signAccessToken env rq (rq_uuid rq 1) (us_id u) (rq_uuid rq 0) (Some did) False;
              refreshToken = signRefreshToken env rq (rq_uuid rq 2) (us_id u) (rq_uuid rq 0) (Some did)
          in (Inr \<lparr>au_accessToken = access, au_refreshToken = refreshToken, au_regToken = None, au_user = v,
                   au_reviewNote = Option.bind (find_kyc (us_id u) s2) kd_reviewNote\<rparr>,
              add_session (new_session env rq (us_id u) (Some did) refreshToken) s2))"

record login_dto =
  lg_phoneNumber :: string
  lg_password :: string
  lg_deviceId :: string
  lg_deviceName :: "string option"
  lg_pushToken :: "string option"

definition login :: "auth_env \<Rightarrow> identity_request \<Rightarrow> login_dto \<Rightarrow> ('a identity_db_scheme, auth_response) handler" where
  "login env rq dto s =
     (case check_phone (lg_phoneNumber dto) of
        Some e \<Rightarrow> (Inl e, s)
      | None \<Rightarrow>
          (case user_by_phone (normalizePhone (lg_phoneNumber dto)) s of
             None \<Rightarrow> (Inl (Http UNAUTHORIZED ''Invalid credentials''), s)
           | Some u \<Rightarrow>
               if us_status u \<notin> {UserActive, PendingApproval, UserRejected, UserInactive} then (Inl (Http UNAUTHORIZED ''Account is not active''), s)
               else (case us_passwordHash u of
                  Some (c # t) \<Rightarrow>
                    if \<not> ae_compare env (lg_password dto) (c # t)
                    then (Inl (Http UNAUTHORIZED ''Invalid credentials''),
                          logSecurityEvent rq (us_id u) ''LOGIN_FAILURE'' (JObj [(''ip'', jopt (rq_ip rq)), (''userAgent'', jopt (rq_userAgent rq)),
                            (''deviceId'', JStr (lg_deviceId dto))]) s)
                    else let s1 = revoke_sessions (rq_now rq) (us_id u) s;
                             isNew = (find_device (us_id u) (lg_deviceId dto) s1 = None);
                             (d, s2) = upsert_device (us_id u) (lg_deviceId dto)
                               (\<lambda>d. d\<lparr>ud_lastSeenAt := Some (rq_now rq), ud_trustLevel := TRUSTED,
                                      ud_pushToken := push_token (lg_pushToken dto) (ud_pushToken d)\<rparr>)
                               \<lparr>ud_id = rq_uuid rq 3, ud_userId = us_id u, ud_deviceIdentifier = lg_deviceId dto,
                                ud_deviceName = lg_deviceName dto, ud_trustLevel = TRUSTED, ud_lastSeenAt = Some (rq_now rq),
                                ud_pushToken = push_token (lg_pushToken dto) None\<rparr> s1;
                             s3 = (if isNew then logSecurityEvent rq (us_id u) ''DEVICE_REGISTERED''
                                     (JObj [(''deviceId'', JStr (lg_deviceId dto)), (''deviceName'', jopt (lg_deviceName dto)), (''ip'', jopt (rq_ip rq))]) s2
                                   else s2);
                             access = signAccessToken env rq (rq_uuid rq 1) (us_id u) (rq_uuid rq 0) (Some (ud_id d)) False;
                             refreshToken = signRefreshToken env rq (rq_uuid rq 2) (us_id u) (rq_uuid rq 0) (Some (ud_id d));
                             s4 = add_session (new_session env rq (us_id u) (Some (ud_id d)) refreshToken) s3
                         in (Inr \<lparr>au_accessToken = access, au_refreshToken = refreshToken, au_regToken = reg_token env rq u, au_user = u,
                                  au_reviewNote = review_note (us_status u) (us_id u) s4\<rparr>,
                             logSecurityEvent rq (us_id u) ''LOGIN_SUCCESS'' (client_meta rq) s4)
                | _ \<Rightarrow> (Inl (Http BAD_REQUEST ''Password not set''), s))))"


text \<open>
  \<open>deviceId: payload.did\<close> in a \<open>where\<close>: a token without the claim makes the condition \<open>undefined\<close>, which the
  database client leaves out. \<open>findFirst\<close> names no order; the order of insertion stands for the database's.
\<close>

definition session_matches :: "int \<Rightarrow> string \<Rightarrow> json \<Rightarrow> refresh_session \<Rightarrow> bool" where
  "session_matches now userId did x \<longleftrightarrow> rs_userId x = userId \<and> (did = JUndef \<or> jopt (rs_deviceId x) = did)
     \<and> rs_revokedAt x = None \<and> now < rs_expiresAt x"

definition rotate_session :: "auth_env \<Rightarrow> identity_request \<Rightarrow> string \<Rightarrow> refresh_session \<Rightarrow> refresh_session" where
  "rotate_session env rq newRefreshToken x =
     x\<lparr>rs_tokenHash := ae_hash env (rq_salt rq 1) newRefreshToken, rs_expiresAt := rq_now rq + REFRESH_TOKEN_TTL_SECONDS * 1000,
       rs_ipAddress := (if has_text (rq_ip rq) then rq_ip rq else rs_ipAddress x),
       rs_userAgent := (if has_text (rq_userAgent rq) then rq_userAgent rq else rs_userAgent x), rs_lastSeenAt := Some (rq_now rq)\<rparr>"

definition refresh :: "auth_env \<Rightarrow> identity_request \<Rightarrow> string \<Rightarrow> ('a identity_db_scheme, auth_response) handler" where
  "refresh env rq token s =
     (let fail = Http UNAUTHORIZED ''Invalid refresh token''
      in case ae_verify env (ae_refreshSecret env) (rq_now rq) token of
        Inl f \<Rightarrow> (Inl fail, s)
      | Inr payload \<Rightarrow>
          (case sub_of payload of
             Inl e \<Rightarrow> (Inl fail, s)
           | Inr userId \<Rightarrow>
               let did = jget ''did'' payload
               in (case find (session_matches (rq_now rq) userId did) (refreshSessions s) of
                  None \<Rightarrow> (Inl fail, s)
                | Some x \<Rightarrow>
                    if \<not> ae_compare env token (rs_tokenHash x) then (Inl fail, s)
                    else let dev = (case did of JStr d \<Rightarrow> Some d | _ \<Rightarrow> None);
                             access = signAccessToken env rq (rq_uuid rq 1) userId (rq_uuid rq 0) dev False;
                             newRefreshToken = signRefreshToken env rq (rq_uuid rq 2) userId (rq_uuid rq 0) dev;
                             s1 = s\<lparr>refreshSessions := update_where (\<lambda>y. rs_id y = rs_id x) (rotate_session env rq newRefreshToken) (refreshSessions s)\<rparr>
                         in (case find_user userId s1 of
                               None \<Rightarrow> (Inl fail, s1)
                             | Some u \<Rightarrow>
                                 (Inr \<lparr>au_accessToken = access, au_refreshToken = newRefreshToken, au_regToken = reg_token env rq u, au_user = u,
                                       au_reviewNote = review_note (us_status u) userId s1\<rparr>, s1)))))"

definition logout :: "identity_request \<Rightarrow> string \<Rightarrow> 'a identity_db_scheme \<Rightarrow> 'a identity_db_scheme" where
  "logout rq userId s = logSecurityEvent rq userId ''LOGOUT'' (JObj []) (revoke_sessions (rq_now rq) userId s)"

definition logoutAll :: "identity_request \<Rightarrow> string \<Rightarrow> 'a identity_db_scheme \<Rightarrow> 'a identity_db_scheme" where
  "logoutAll rq userId s = logSecurityEvent rq userId ''LOGOUT_ALL'' (JObj []) (revoke_sessions (rq_now rq) userId s)"

section \<open>The PIN\<close>

definition setupPin :: "auth_env \<Rightarrow> identity_request \<Rightarrow> string \<Rightarrow> string \<Rightarrow> ('a identity_db_scheme, unit) handler" where
  "setupPin env rq userId pin s =
     (case find_user userId s of
        None \<Rightarrow> (Inl (Prisma ''P2025''), s)
      | Some _ \<Rightarrow> (Inr (), logSecurityEvent rq userId ''PIN_SETUP'' (JObj [])
          (set_user userId (\<lambda>u. u\<lparr>us_pinHash := Some (ae_hash env (rq_salt rq 0) pin)\<rparr>) s)))"

definition handlePinFailure :: "identity_request \<Rightarrow> string \<Rightarrow> ('a identity_db_scheme, user) handler" where
  "handlePinFailure rq userId s =
     (case find_user userId s of
        None \<Rightarrow> (Inl (Prisma ''P2025''), s)
      | Some u \<Rightarrow>
          let f = (\<lambda>u. u\<lparr>us_pinAttempts := us_pinAttempts u + 1\<rparr>);
              g = (\<lambda>u. u\<lparr>us_pinLockedUntil := Some (rq_now rq + PIN_LOCK_DURATION_MS)\<rparr>)
          in if MAX_PIN_ATTEMPTS \<le> us_pinAttempts (f u)
             then (Inr (g (f u)), set_user userId g (set_user userId f s))
             else (Inr (f u), set_user userId f s))"

definition resetPinAttempts :: "string \<Rightarrow> ('a identity_db_scheme, unit) handler" where
  "resetPinAttempts userId s =
     (case find_user userId s of
        None \<Rightarrow> (Inl (Prisma ''P2025''), s)
      | Some _ \<Rightarrow> (Inr (), set_user userId (\<lambda>u. u\<lparr>us_pinAttempts := 0, us_pinLockedUntil := None\<rparr>) s))"

definition generateAuthResponse :: "auth_env \<Rightarrow> identity_request \<Rightarrow> string \<Rightarrow> string option \<Rightarrow> bool
    \<Rightarrow> 'a identity_db_scheme \<Rightarrow> (string \<times> string \<times> string) \<times> 'a identity_db_scheme" where
  "generateAuthResponse env rq userId deviceId isPinVerified s =
     (let access = signAccessToken env rq (rq_uuid rq 1) userId (rq_uuid rq 0) deviceId isPinVerified;
          refreshToken = signRefreshToken env rq (rq_uuid rq 2) userId (rq_uuid rq 0) deviceId
      in ((access, refreshToken, userId),
          add_session ((new_session env rq userId deviceId refreshToken)\<lparr>rs_ipAddress := None, rs_userAgent := None\<rparr>) s))"

definition pin_locked :: "int \<Rightarrow> user \<Rightarrow> bool" where
  "pin_locked now u = (case us_pinLockedUntil u of None \<Rightarrow> False | Some t \<Rightarrow> now < t)"

definition pin_time_left :: "int \<Rightarrow> user \<Rightarrow> int" where
  "pin_time_left now u = (case us_pinLockedUntil u of None \<Rightarrow> 0 | Some t \<Rightarrow> - ((now - t) div 1000))"

definition int_json :: "int \<Rightarrow> json" where
  "int_json n = JNum (Fin (of_int n))"

definition verifyPin :: "auth_env \<Rightarrow> identity_request \<Rightarrow> string \<Rightarrow> string \<Rightarrow> string
    \<Rightarrow> ('a identity_db_scheme, string \<times> string \<times> string) handler" where
  "verifyPin env rq userId pin deviceId s =
     (case find_user userId s of
        None \<Rightarrow> (Inl (Http BAD_REQUEST ''User not found''), s)
      | Some u \<Rightarrow>
          if \<not> has_text (us_pinHash u) then (Inl (Http BAD_REQUEST ''PIN not set''), s)
          else if pin_locked (rq_now rq) u
          then (Inl (Http FORBIDDEN (''PIN is locked. Please try again in '' @ int_text (pin_time_left (rq_now rq) u) @ '' seconds.'')), s)
          else if \<not> ae_compare env pin (the (us_pinHash u))
          then (case handlePinFailure rq userId s of
             (Inl e, s1) \<Rightarrow> (Inl e, s1)
           | (Inr v, s1) \<Rightarrow>
               let dev = (''deviceId'', JStr deviceId); attempts = (''attempts'', int_json (us_pinAttempts v))
               in if pin_locked (rq_now rq) v
                  then (Inl (Http FORBIDDEN ''PIN locked due to too many incorrect attempts. Please try again in 5 minutes.''),
                        logSecurityEvent rq userId ''ACCOUNT_LOCKED'' (JObj [(''action'', JStr ''ACCOUNT_LOCKED''),
                            (''reason'', JStr ''PIN locked due to 3 consecutive failures''), dev])
                          (logSecurityEvent rq userId ''PIN_LOCKED'' (JObj [dev, attempts]) s1))
                  else (Inl (Http UNAUTHORIZED (''Invalid PIN. You have '' @ int_text (3 - us_pinAttempts v) @ '' attempts remaining.'')),
                        logSecurityEvent rq userId ''PIN_FAILURE'' (JObj [dev, attempts,
                          (''remainingAttempts'', int_json (max 0 (3 - us_pinAttempts v)))]) s1))
          else let s1 = logSecurityEvent rq userId ''PIN_VERIFIED'' (JObj [(''deviceId'', JStr deviceId)]) s;
                   s2 = set_user userId (\<lambda>u. u\<lparr>us_pinAttempts := 0, us_pinLockedUntil := None\<rparr>) s1
               in (case generateAuthResponse env rq userId (map_option ud_id (find_device userId deviceId s2)) True s2 of (r, s3) \<Rightarrow> (Inr r, s3)))"

section \<open>Administration of accounts\<close>

definition updateUserStatus :: "string \<Rightarrow> user_status \<Rightarrow> ('a identity_db_scheme, user) handler" where
  "updateUserStatus i st s =
     (case find_user i s of
        None \<Rightarrow> (Inl (Prisma ''P2025''), s)
      | Some u \<Rightarrow> (Inr (u\<lparr>us_status := st\<rparr>), set_user i (\<lambda>u. u\<lparr>us_status := st\<rparr>) s))"

text \<open>The shape of the three operations: a test of the status, the update, the event.\<close>

definition change_status :: "identity_request \<Rightarrow> string \<Rightarrow> user_status set \<Rightarrow> string \<Rightarrow> user_status \<Rightarrow> string \<Rightarrow> json
    \<Rightarrow> ('a identity_db_scheme, user) handler" where
  "change_status rq i allowed refusal st event metadata s =
     (case find_user i s of
        None \<Rightarrow> (Inl (Http BAD_REQUEST ''User not found''), s)
      | Some u \<Rightarrow>
          if us_status u \<notin> allowed then (Inl (Http FORBIDDEN refusal), s)
          else (Inr (u\<lparr>us_status := st\<rparr>), logSecurityEvent rq i event metadata (set_user i (\<lambda>u. u\<lparr>us_status := st\<rparr>) s)))"

definition suspendUser :: "identity_request \<Rightarrow> string \<Rightarrow> ('a identity_db_scheme, user) handler" where
  "suspendUser rq i = change_status rq i {UserActive} ''Only ACTIVE users can be suspended'' UserSuspended ''ACCOUNT_LOCKED''
     (JObj [(''action'', JStr ''SUSPENDED''), (''reason'', JStr ''Suspended by administrative staff'')])"

definition activateUser :: "identity_request \<Rightarrow> string \<Rightarrow> ('a identity_db_scheme, user) handler" where
  "activateUser rq i = change_status rq i {UserSuspended, UserBlocked} ''Only SUSPENDED or BLOCKED users can be activated'' UserActive ''ACCOUNT_UNLOCKED''
     (JObj [(''action'', JStr ''ACTIVATED''), (''reason'', JStr ''Reactivated by administrative staff'')])"

definition blockUser :: "identity_request \<Rightarrow> string \<Rightarrow> string option \<Rightarrow> ('a identity_db_scheme, user) handler" where
  "blockUser rq i reason = change_status rq i {UserActive, UserSuspended} ''User must be approved (ACTIVE/SUSPENDED) before being blocked''
     UserBlocked ''ACCOUNT_LOCKED''
     (JObj [(''action'', JStr ''BLOCKED''), (''reason'', JStr (case reason of Some (c # t) \<Rightarrow> c # t | _ \<Rightarrow> ''Blocked by administrative staff''))])"

fun user_status_name :: "user_status \<Rightarrow> string" where
  "user_status_name PendingApproval = ''PENDING_APPROVAL''"
| "user_status_name UserActive = ''ACTIVE''"
| "user_status_name UserInactive = ''INACTIVE''"
| "user_status_name UserSuspended = ''SUSPENDED''"
| "user_status_name UserBlocked = ''BLOCKED''"
| "user_status_name UserDeleted = ''DELETED''"
| "user_status_name UserRejected = ''REJECTED''"

definition text_filter :: "string option \<Rightarrow> string option \<Rightarrow> bool" where
  "text_filter q v = (case q of Some (c # t) \<Rightarrow> (case v of None \<Rightarrow> False | Some w \<Rightarrow> icontains (c # t) w) | _ \<Rightarrow> True)"

definition findAllUsers :: "nat option \<Rightarrow> nat option \<Rightarrow> string option \<Rightarrow> string option \<Rightarrow> string option
    \<Rightarrow> 'a identity_db_scheme \<Rightarrow> user list \<times> pagination" where
  "findAllUsers page limit email phone status s =
     paginate 10 page limit (sort_key (\<lambda>u. - us_createdAt u)
       (filter (\<lambda>u. text_filter email (us_email u) \<and> text_filter phone (Some (us_phoneNumber u))
                 \<and> (case status of Some (c # t) \<Rightarrow> user_status_name (us_status u) = c # t | _ \<Rightarrow> True)) (users s)))"

definition getUserStats :: "'a identity_db_scheme \<Rightarrow> nat \<times> nat \<times> nat \<times> nat" where
  "getUserStats s = (length (users s), count_where (\<lambda>u. us_status u = UserActive) (users s),
     count_where (\<lambda>u. us_status u = PendingApproval) (users s), count_where (\<lambda>u. us_status u = UserBlocked) (users s))"

definition findAllSecurityEvents :: "nat option \<Rightarrow> nat option \<Rightarrow> string option \<Rightarrow> string option
    \<Rightarrow> 'a identity_db_scheme \<Rightarrow> security_event list \<times> pagination" where
  "findAllSecurityEvents page limit userId eventType s =
     paginate 50 page limit (sort_key (\<lambda>e. - se_createdAt e)
       (filter (\<lambda>e. (case userId of Some (c # t) \<Rightarrow> se_userId e = c # t | _ \<Rightarrow> True)
                 \<and> (case eventType of Some (c # t) \<Rightarrow> se_eventType e = c # t | _ \<Rightarrow> True)) (securityEvents s)))"

definition searchUsers :: "string \<Rightarrow> 'a identity_db_scheme \<Rightarrow> user list" where
  "searchUsers query s = take 20 (filter (\<lambda>u. icontains query (us_phoneNumber u)
     \<or> (case us_email u of None \<Rightarrow> False | Some e \<Rightarrow> icontains query e)) (users s))"

definition findByEmail :: "string \<Rightarrow> 'a identity_db_scheme \<Rightarrow> user option" where
  "findByEmail email s = find (\<lambda>u. us_email u = Some (strip email)) (users s)"

definition findByPhoneNumber :: "string \<Rightarrow> 'a identity_db_scheme \<Rightarrow> user option" where
  "findByPhoneNumber phoneNumber = user_by_phone (normalizePhone (strip phoneNumber))"

definition findByIdentity :: "string \<Rightarrow> 'a identity_db_scheme \<Rightarrow> user option" where
  "findByIdentity identity s = (let normalized = strip identity
     in if contains ''@'' normalized then findByEmail normalized s else findByPhoneNumber normalized s)"

definition findById :: "string \<Rightarrow> 'a identity_db_scheme \<Rightarrow> (user \<times> kyc_status option) option" where
  "findById i s = map_option (\<lambda>u. (u, map_option kd_verificationStatus (find_kyc i s))) (find_user i s)"

definition getTrustedDeviceIdByIdentifier :: "string \<Rightarrow> string \<Rightarrow> 'a identity_db_scheme \<Rightarrow> string option" where
  "getTrustedDeviceIdByIdentifier userId deviceIdentifier s =
     (case find_device userId deviceIdentifier s of None \<Rightarrow> None | Some d \<Rightarrow> if ud_trustLevel d \<noteq> TRUSTED then None else Some (ud_id d))"

text \<open>Devices last seen first; the database sorts missing instants first in descending order.\<close>

definition getUserActivity :: "string \<Rightarrow> 'a identity_db_scheme \<Rightarrow> (string \<times> user_device list \<times> int option) option" where
  "getUserActivity i s =
     (case find_user i s of
        None \<Rightarrow> None
      | Some u \<Rightarrow>
          let mine = filter (\<lambda>d. ud_userId d = i) (userDevices s);
              ds = filter (\<lambda>d. ud_lastSeenAt d = None) mine
                   @ sort_key (\<lambda>d. - the (ud_lastSeenAt d)) (filter (\<lambda>d. ud_lastSeenAt d \<noteq> None) mine)
          in Some (us_id u, ds, case ds of [] \<Rightarrow> None | d # _ \<Rightarrow> ud_lastSeenAt d))"

section \<open>Profile and personal data\<close>

definition updateProfile :: "identity_request \<Rightarrow> string \<Rightarrow> (string \<times> json) list \<Rightarrow> ('a identity_db_scheme, unit) handler" where
  "updateProfile rq userId profileData s =
     (case find_user userId s of
        None \<Rightarrow> (Inl (Http BAD_REQUEST ''User not found''), s)
      | Some u \<Rightarrow>
          let fields = filter (\<lambda>(k, v). \<not> (k = ''address'' \<and> truthy v)) profileData
          in (Inr (), logSecurityEvent rq userId ''PROFILE_UPDATED'' (JObj [(''fields'', JArr (map (JStr \<circ> fst) fields))])
                (upsert_setting userId ''profile'' (JObj fields) s)))"

text \<open>\<open>text.split(':')\<close>\<close>

fun split_colon :: "string \<Rightarrow> string list" where
  "split_colon [] = [[]]"
| "split_colon (c # cs) = (if c = CHR '':'' then [] # split_colon cs else (c # hd (split_colon cs)) # tl (split_colon cs))"

definition decryptPii :: "auth_env \<Rightarrow> string \<Rightarrow> string result" where
  "decryptPii env encryptedData =
     (case ae_piiKey env of
        Some (c # t) \<Rightarrow>
          (case split_colon encryptedData of
             iv # tag # enc # _ \<Rightarrow>
               if iv = [] \<or> tag = [] \<or> enc = [] then Inl (Plain ''Could not decrypt PII data'')
               else (case ae_decrypt env (c # t) iv tag enc of None \<Rightarrow> Inl (Plain ''Could not decrypt PII data'') | Some p \<Rightarrow> Inr p)
           | _ \<Rightarrow> Inl (Plain ''Could not decrypt PII data''))
      | _ \<Rightarrow> Inl (Http INTERNAL_SERVER_ERROR ''System missing PII decryption capabilities''))"

definition maskIdCardNumber :: "string \<Rightarrow> string" where
  "maskIdCardNumber i = (if length i < 13 then i
     else take 1 i @ ''-'' @ take 4 (drop 1 i) @ ''-XXXXX-'' @ take 2 (drop 10 i) @ ''-'' @ drop 12 i)"

record registration_status =
  gs_state :: registration_state
  gs_status :: user_status
  gs_reviewNote :: "string option"
  gs_idNumber :: "string option"
  gs_idCardAddress :: "string option"
  gs_identity :: "kyc_data option"
  gs_registered :: "address option"
  gs_current :: "address option"
  gs_profile :: "json option"

text \<open>The token may be a registration token or one signed with the secret \<open>JWT_SECRET\<close>.\<close>

definition status_token :: "auth_env \<Rightarrow> identity_request \<Rightarrow> string option \<Rightarrow> json result" where
  "status_token env rq authorization =
     (case authorization of
        Some (c # t) \<Rightarrow>
          let token = replace_first ''Bearer '' (c # t)
          in (case ae_verify env (ae_registrationSecret env) (rq_now rq) token of
                Inr payload \<Rightarrow> Inr payload
              | Inl f \<Rightarrow>
                  (case ae_verify env (ae_jwtSecret env) (rq_now rq) token of
                     Inr payload \<Rightarrow> Inr payload
                   | Inl g \<Rightarrow> Inl (Http UNAUTHORIZED (if f = TokenExpired \<or> g = TokenExpired then ''Token expired'' else ''Invalid token''))))
      | _ \<Rightarrow> Inl (Http UNAUTHORIZED ''Authorization header required''))"

definition live_address :: "string \<Rightarrow> address_type \<Rightarrow> 'a identity_db_scheme \<Rightarrow> address option" where
  "live_address userId type s = find (\<lambda>a. ar_userId a = userId \<and> ar_deletedAt a = None \<and> ar_type a = type) (addresses s)"

definition getRegistrationStatus :: "auth_env \<Rightarrow> identity_request \<Rightarrow> string option \<Rightarrow> 'a identity_db_scheme \<Rightarrow> registration_status result" where
  "getRegistrationStatus env rq authorization s =
     (case (case status_token env rq authorization of Inl e \<Rightarrow> Inl e | Inr p \<Rightarrow> sub_of p) of
        Inl e \<Rightarrow> Inl e
      | Inr userId \<Rightarrow>
          (case find_user userId s of
             None \<Rightarrow> Inl (Http BAD_REQUEST ''User not found'')
           | Some u \<Rightarrow>
               let raw = find (\<lambda>p. pi_userId p = userId \<and> pi_field p = ''raw_id_card_address'') (piiData s); kyc = find_kyc userId s
               in (case (case raw of None \<Rightarrow> Inr None | Some p \<Rightarrow> (case decryptPii env (pi_encryptedData p) of Inl e \<Rightarrow> Inl e | Inr a \<Rightarrow> Inr (Some a))) of
                     Inl e \<Rightarrow> Inl e
                   | Inr idCardAddress \<Rightarrow>
                       Inr \<lparr>gs_state = us_registrationState u, gs_status = us_status u, gs_reviewNote = Option.bind kyc kd_reviewNote,
                            gs_idNumber = (case Option.bind kyc kd_idCardNumberEncrypted of
                               Some (c # t) \<Rightarrow> (case decryptPii env (c # t) of Inl e \<Rightarrow> None | Inr n \<Rightarrow> Some n) | _ \<Rightarrow> None),
                            gs_idCardAddress = idCardAddress, gs_identity = kyc,
                            gs_registered = live_address userId REGISTERED s, gs_current = live_address userId CURRENT s,
                            gs_profile = map_option st_value (find (\<lambda>x. st_userId x = userId \<and> st_key x = ''profile'') (userSettings s))\<rparr>)))"

definition getProfile :: "string \<Rightarrow> 'a identity_db_scheme \<Rightarrow> (user \<times> json \<times> address list \<times> kyc_data option) result" where
  "getProfile userId s =
     (case find_user userId s of
        None \<Rightarrow> Inl (Http BAD_REQUEST ''User not found'')
      | Some u \<Rightarrow>
          let profile = (case find (\<lambda>x. st_userId x = userId \<and> st_key x = ''profile'') (userSettings s) of
                 Some x \<Rightarrow> (case st_value x of JObj fs \<Rightarrow> JObj (filter (\<lambda>(k, v). \<not> (k = ''address'' \<and> truthy v)) fs) | v \<Rightarrow> v)
               | None \<Rightarrow> JObj [])
          in Inr (u, profile, filter (\<lambda>a. ar_userId a = userId \<and> ar_deletedAt a = None) (addresses s), find_kyc userId s))"

section \<open>Operations that only log\<close>

definition withdrawConsent :: "identity_request \<Rightarrow> string \<Rightarrow> string \<Rightarrow> 'a identity_db_scheme \<Rightarrow> 'a identity_db_scheme" where
  "withdrawConsent rq userId consentType =
     logSecurityEvent rq userId ''CONSENT_WITHDRAWN'' (JObj [(''consentType'', JStr consentType), (''ip'', jopt (rq_ip rq))])"

definition requestAccountDeletion :: "identity_request \<Rightarrow> string \<Rightarrow> 'a identity_db_scheme \<Rightarrow> 'a identity_db_scheme" where
  "requestAccountDeletion rq userId = logSecurityEvent rq userId ''ACCOUNT_DELETION_REQUESTED'' (JObj [(''ip'', jopt (rq_ip rq))])"

definition confirmAccountDeletion :: "identity_request \<Rightarrow> string \<Rightarrow> 'a identity_db_scheme \<Rightarrow> 'a identity_db_scheme" where
  "confirmAccountDeletion rq userId = logSecurityEvent rq userId ''ACCOUNT_DELETED'' (JObj [(''ip'', jopt (rq_ip rq))])"

section \<open>Guards\<close>

text \<open>\<open>JwtStrategy.validate\<close> behind the verification of the token, and the guard for operations that need a fresh PIN.\<close>

definition jwt_validate :: "auth_env \<Rightarrow> identity_request \<Rightarrow> string \<Rightarrow> 'a identity_db_scheme \<Rightarrow> json result" where
  "jwt_validate env rq token s =
     (case ae_verify env (ae_accessSecret env) (rq_now rq) token of
        Inl f \<Rightarrow> Inl (Http UNAUTHORIZED ''Unauthorized'')
      | Inr payload \<Rightarrow>
          (case sub_of payload of
             Inl e \<Rightarrow> Inl e
           | Inr userId \<Rightarrow> if find_user userId s = None then Inl (Http UNAUTHORIZED ''Unauthorized'') else Inr payload))"

definition pin_verified_guard :: "json option \<Rightarrow> unit result" where
  "pin_verified_guard payload =
     (case payload of
        None \<Rightarrow> Inl (Http UNAUTHORIZED ''Authentication required'')
      | Some p \<Rightarrow> if jget ''pvn'' p \<noteq> JBool True then Inl (Http UNAUTHORIZED ''PIN verification required for this transaction'') else Inr ())"

definition registration_guard :: "auth_env \<Rightarrow> identity_request \<Rightarrow> string option \<Rightarrow> (json \<times> bool) result" where
  "registration_guard env rq authorization =
     (case authorization of
        Some (c # t) \<Rightarrow>
          let token = replace_first ''Bearer '' (c # t)
          in (case ae_verify env (ae_accessSecret env) (rq_now rq) token of
                Inr payload \<Rightarrow> Inr (payload, False)
              | Inl f \<Rightarrow>
                  (case ae_verify env (ae_registrationSecret env) (rq_now rq) token of
                     Inl g \<Rightarrow> Inl (Http UNAUTHORIZED (if g = TokenExpired then ''Token expired'' else ''Invalid token''))
                   | Inr payload \<Rightarrow>
                       if jget ''typ'' payload \<noteq> JStr ''registration'' then Inl (Http UNAUTHORIZED ''Invalid token'')
                       else Inr (payload, True)))
      | _ \<Rightarrow> Inl (Http UNAUTHORIZED ''Authorization header required''))"

end
