(* ===== verification/Kyc.thy ===== *)
theory Kyc
  imports Identity
begin

text \<open>
  Customer verification (\<open>modules/kyc/kyc.service.ts\<close>): the upload of an identity card with text
  recognition, the confirmation of what was read, the comparison of faces, and the review by staff, which
  opens the wallet. The recognition services, the object storage, the cipher and the finance service are
  parameters; what they answer during a request is in \<open>kyc_env\<close>.
\<close>

section \<open>Data\<close>

record kyc_document =
  kv_id :: string
  kv_userId :: string
  kv_documentType :: string
  kv_status :: kyc_status
  kv_metadata :: json
  kv_createdAt :: int

record kyc_db = identity_db +
  kycDocuments :: "kyc_document list"
  storedObjects :: "(string \<times> string) list"
  kycTopic :: "json list"
  financeWire :: wire

text \<open>
  Dates of a card may be written in Thai: they are lists of UTF-16 code units. The other texts of a card
  are only stored.
\<close>

type_synonym utf16 = "nat list"

record ocr_result =
  or_idNumber :: "string option"
  or_texts :: "(string \<times> json) list"
  or_dateOfBirth :: "utf16 option"
  or_idCardIssueDate :: "utf16 option"
  or_idCardExpiryDate :: "utf16 option"
  or_registeredAddress :: "string option"

record liveness =
  lv_status :: string
  lv_confidence :: "rat option"
  lv_image :: "string option"

record kyc_env =
  ke_auth :: auth_env
  ke_http :: http
  ke_finance :: finance_env
  ke_sha256 :: "string \<Rightarrow> string"
  ke_encrypt :: "string \<Rightarrow> string \<Rightarrow> string \<Rightarrow> string \<times> string"
  ke_iv :: "nat \<Rightarrow> string"
  ke_bucketUrl :: string
  ke_storageUp :: bool
  ke_getFile :: "(string \<times> string) list \<Rightarrow> string \<Rightarrow> string option"
  ke_presign :: "string \<Rightarrow> string option"
  ke_ocr :: "string \<Rightarrow> error + ocr_result option"
  ke_createLiveness :: "string result"
  ke_liveness :: "string \<Rightarrow> liveness option"
  ke_compareFaces :: "string \<Rightarrow> string \<Rightarrow> (bool \<times> rat) option"
  ke_minLiveness :: rat
  ke_minSimilarity :: rat

section \<open>Dates of an identity card\<close>

definition units :: "string \<Rightarrow> utf16" where
  "units t = map of_char t"

definition space16 :: "nat \<Rightarrow> bool" where
  "space16 u \<longleftrightarrow> u \<in> {9, 10, 11, 12, 13, 32, 160, 0x1680, 0x2028, 0x2029, 0x202F, 0x205F, 0x3000, 0xFEFF} \<or> (0x2000 \<le> u \<and> u \<le> 0x200A)"

text \<open>\<open>dateStr.split(/[\/\s.]+/).filter(Boolean)\<close>\<close>

definition separator :: "nat \<Rightarrow> bool" where
  "separator u \<longleftrightarrow> u = 47 \<or> u = 46 \<or> space16 u"

fun split_parts :: "utf16 \<Rightarrow> utf16 list" where
  "split_parts [] = [[]]"
| "split_parts (u # us) = (if separator u then [] # split_parts us else (u # hd (split_parts us)) # tl (split_parts us))"

definition date_parts :: "utf16 \<Rightarrow> utf16 list" where
  "date_parts t = filter (\<lambda>p. p \<noteq> []) (split_parts t)"

definition lower16 :: "nat \<Rightarrow> nat" where
  "lower16 u = (if 65 \<le> u \<and> u \<le> 90 then u + 32 else u)"

definition digit16 :: "nat \<Rightarrow> bool" where
  "digit16 u \<longleftrightarrow> 48 \<le> u \<and> u \<le> 57"

definition hex16 :: "nat \<Rightarrow> bool" where
  "hex16 u \<longleftrightarrow> digit16 u \<or> (97 \<le> lower16 u \<and> lower16 u \<le> 102)"

definition value16 :: "nat \<Rightarrow> utf16 \<Rightarrow> int" where
  "value16 b us = foldl (\<lambda>v u. int b * v + (if digit16 u then int u - 48 else int (lower16 u) - 87)) 0 us"

text \<open>\<open>parseInt\<close> without a radix, on a text without spaces: a sign, \<open>0x\<close> for hexadecimal, the longest run of digits.\<close>

definition parse_unsigned16 :: "utf16 \<Rightarrow> int option" where
  "parse_unsigned16 u =
     (if take 2 (map lower16 u) = [48, 120]
      then (let ds = takeWhile hex16 (drop 2 u) in if ds = [] then None else Some (value16 16 ds))
      else (let ds = takeWhile digit16 u in if ds = [] then None else Some (value16 10 ds)))"

definition parse_int16 :: "utf16 \<Rightarrow> int option" where
  "parse_int16 u = (case u of
      [] \<Rightarrow> None
    | c # cs \<Rightarrow> if c = 45 then map_option uminus (parse_unsigned16 cs) else if c = 43 then parse_unsigned16 cs else parse_unsigned16 u)"

definition thaiMonths :: "utf16 list" where
  "thaiMonths = [[0xE21, 46, 0xE04, 46], [0xE01, 46, 0xE1E, 46], [0xE21, 0xE35, 46, 0xE04, 46], [0xE40, 0xE21, 46, 0xE22, 46],
     [0xE1E, 46, 0xE04, 46], [0xE21, 0xE34, 46, 0xE22, 46], [0xE01, 46, 0xE04, 46], [0xE2A, 46, 0xE04, 46],
     [0xE01, 46, 0xE22, 46], [0xE15, 46, 0xE04, 46], [0xE1E, 46, 0xE22, 46], [0xE18, 46, 0xE04, 46]]"

definition engMonths :: "string list" where
  "engMonths = [''Jan'', ''Feb'', ''Mar'', ''Apr'', ''May'', ''Jun'', ''Jul'', ''Aug'', ''Sep'', ''Oct'', ''Nov'', ''Dec'']"

fun findIndex :: "('a \<Rightarrow> bool) \<Rightarrow> 'a list \<Rightarrow> nat option" where
  "findIndex p [] = None"
| "findIndex p (x # xs) = (if p x then Some 0 else map_option Suc (findIndex p xs))"

definition mapMonth :: "utf16 \<Rightarrow> nat" where
  "mapMonth month = (case findIndex (\<lambda>m. contains m month) thaiMonths of
      Some i \<Rightarrow> i
    | None \<Rightarrow> (case findIndex (\<lambda>m. starts_with (map lower16 (units m)) (map lower16 month)) engMonths of Some i \<Rightarrow> i | None \<Rightarrow> 0))"

text \<open>
  The result is the local time value of \<open>new Date(year, month, day)\<close>: years 0 to 99 are in the twentieth century,
  days overflow into other months, and beyond a hundred million days from 1970 the date is invalid.
\<close>

definition new_Date :: "int \<Rightarrow> int \<Rightarrow> int \<Rightarrow> int option" where
  "new_Date year month day =
     (let y = (if 0 \<le> year \<and> year \<le> 99 then 1900 + year else year); t = MakeDay y month day * msPerDay
      in if \<bar>t\<bar> \<le> 8640000000000000 then Some t else None)"

definition parseDate :: "utf16 option \<Rightarrow> int option" where
  "parseDate dateStr = (case dateStr of
      None \<Rightarrow> None
    | Some t \<Rightarrow>
        (case date_parts t of
           p0 # month # p2 # _ \<Rightarrow>
             (case (parse_int16 p0, parse_int16 p2) of
                (Some day, Some year) \<Rightarrow> new_Date (if 2400 < year then year - 543 else year) (int (mapMonth month)) day
              | _ \<Rightarrow> None)
         | _ \<Rightarrow> None))"

section \<open>Encryption\<close>

text \<open>\<open>k\<close> numbers the initialisation vectors of a request.\<close>

definition encryptPii :: "kyc_env \<Rightarrow> nat \<Rightarrow> string \<Rightarrow> string result" where
  "encryptPii ke k data = (case ae_piiKey (ke_auth ke) of
      Some (c # t) \<Rightarrow> (case ke_encrypt ke (c # t) (ke_iv ke k) data of (authTag, encrypted) \<Rightarrow> Inr (ke_iv ke k @ '':'' @ authTag @ '':'' @ encrypted))
    | _ \<Rightarrow> Inl (Http INTERNAL_SERVER_ERROR ''System missing PII encryption capabilities''))"

section \<open>Documents\<close>

definition kyc_emit :: "identity_request \<Rightarrow> json \<Rightarrow> kyc_db \<Rightarrow> kyc_db" where
  "kyc_emit rq event s = (if rq_kafkaUp rq then s\<lparr>kycTopic := kycTopic s @ [event]\<rparr> else s)"

definition documents_of :: "string \<Rightarrow> kyc_db \<Rightarrow> kyc_document list" where
  "documents_of userId s = filter (\<lambda>d. kv_userId d = userId) (kycDocuments s)"

definition approved_count :: "string \<Rightarrow> kyc_db \<Rightarrow> nat" where
  "approved_count userId s = count_where (\<lambda>d. kv_status d = KycApproved) (documents_of userId s)"

definition getKYCStatus :: "string \<Rightarrow> kyc_db \<Rightarrow> string \<times> kyc_document list \<times> nat \<times> nat \<times> nat" where
  "getKYCStatus userId s =
     (let documents = sort_key (\<lambda>d. - kv_createdAt d) (documents_of userId s);
          count = (\<lambda>st. count_where (\<lambda>d. kv_status d = st) documents)
      in (if 2 \<le> count KycApproved then ''APPROVED'' else if 0 < count KycPending then ''PENDING'' else ''NOT_STARTED'',
          documents, count KycApproved, count KycPending, count KycRejected))"

definition set_document :: "string \<Rightarrow> (kyc_document \<Rightarrow> kyc_document) \<Rightarrow> kyc_db \<Rightarrow> kyc_db" where
  "set_document i f s = s\<lparr>kycDocuments := update_where (\<lambda>d. kv_id d = i) f (kycDocuments s)\<rparr>"

text \<open>A call of the finance service; the calls made so far are part of the state.\<close>

definition on_finance :: "(wire, json) handler \<Rightarrow> (kyc_db, json) handler" where
  "on_finance f s = (case f (financeWire s) of (r, w) \<Rightarrow> (r, s\<lparr>financeWire := w\<rparr>))"

definition approveDocument :: "kyc_env \<Rightarrow> identity_request \<Rightarrow> string \<Rightarrow> (kyc_db, kyc_document) handler" where
  "approveDocument ke rq documentId s =
     (case find (\<lambda>d. kv_id d = documentId) (kycDocuments s) of
        None \<Rightarrow> (Inl (Http BAD_REQUEST ''Document not found''), s)
      | Some d \<Rightarrow>
          let s1 = set_document documentId (\<lambda>d. d\<lparr>kv_status := KycApproved\<rparr>) s;
              s2 = (if 2 \<le> approved_count (kv_userId d) s1
                    then snd (on_finance (activateWallet (ke_http ke) (ke_finance ke) (kv_userId d)) s1) else s1)
          in (Inr (d\<lparr>kv_status := KycApproved\<rparr>),
              kyc_emit rq (JObj [(''userId'', JStr (kv_userId d)), (''documentId'', JStr documentId), (''status'', JStr ''APPROVED''),
                (''timestamp'', int_json (rq_now rq)), (''referenceId'', JStr documentId)]) s2))"

definition rejectDocument :: "identity_request \<Rightarrow> string \<Rightarrow> string \<Rightarrow> (kyc_db, kyc_document) handler" where
  "rejectDocument rq documentId reason s =
     (case find (\<lambda>d. kv_id d = documentId) (kycDocuments s) of
        None \<Rightarrow> (Inl (Prisma ''P2025''), s)
      | Some d \<Rightarrow>
          let f = (\<lambda>d. d\<lparr>kv_status := KycRejected, kv_metadata := JObj [(''reason'', JStr reason)]\<rparr>)
          in (Inr (f d),
              kyc_emit rq (JObj [(''userId'', JStr (kv_userId d)), (''documentId'', JStr documentId), (''status'', JStr ''REJECTED''),
                (''reason'', JStr reason), (''timestamp'', int_json (rq_now rq)), (''referenceId'', JStr documentId)]) (set_document documentId f s)))"

section \<open>Review\<close>

definition set_kyc :: "identity_request \<Rightarrow> string \<Rightarrow> (kyc_data \<Rightarrow> kyc_data) \<Rightarrow> 'a identity_db_scheme \<Rightarrow> 'a identity_db_scheme" where
  "set_kyc rq userId f s =
     s\<lparr>kycData := update_where (\<lambda>k. kd_userId k = userId) (\<lambda>k. (f k)\<lparr>kd_updatedAt := rq_now rq\<rparr>) (kycData s)\<rparr>"

text \<open>
  The wallet of an approved customer: created and linked, or activated, and a ledger account for it. A
  failure of any of these calls is logged and the approval goes on.
\<close>

definition ledger_account :: "kyc_env \<Rightarrow> string \<Rightarrow> user option \<Rightarrow> kyc_db \<Rightarrow> kyc_db" where
  "ledger_account ke userId u s = (case u of
      None \<Rightarrow> s
    | Some v \<Rightarrow> snd (on_finance (createAccount (ke_http ke) (ke_finance ke) userId (''Wallet: '' @ us_phoneNumber v) ''THB'' None) s))"

definition link_wallet :: "string \<Rightarrow> json \<Rightarrow> kyc_db \<Rightarrow> kyc_db option" where
  "link_wallet userId wallet s =
     (if nullish wallet \<or> find_user userId s = None then None
      else case jget ''walletId'' wallet of
        JStr w \<Rightarrow> Some (set_user userId (\<lambda>u. u\<lparr>us_ledgerAccountId := Some w\<rparr>) s)
      | JNull \<Rightarrow> Some (set_user userId (\<lambda>u. u\<lparr>us_ledgerAccountId := None\<rparr>) s)
      | JUndef \<Rightarrow> Some s
      | _ \<Rightarrow> None)"

definition init_wallet :: "kyc_env \<Rightarrow> string \<Rightarrow> kyc_db \<Rightarrow> kyc_db" where
  "init_wallet ke userId s =
     (let u = find_user userId s
      in if has_text (Option.bind u us_ledgerAccountId)
         then (case on_finance (activateWallet (ke_http ke) (ke_finance ke) userId) s of
             (Inl e, s1) \<Rightarrow> s1
           | (Inr _, s1) \<Rightarrow> ledger_account ke userId u s1)
         else (case on_finance (createWallet (ke_http ke) (ke_finance ke) userId ''THB'') s of
             (Inl e, s1) \<Rightarrow> s1
           | (Inr wallet, s1) \<Rightarrow> (case link_wallet userId wallet s1 of None \<Rightarrow> s1 | Some s2 \<Rightarrow> ledger_account ke userId u s2)))"

definition statesBeforeKycVerified :: "registration_state list" where
  "statesBeforeKycVerified = [RegPending, PENDING_OTP, INITIATED, OTP_VERIFIED, TC_ACCEPTED, ID_CARD_UPLOADED, ID_CARD_CONFIRMED]"

definition approved_state :: "registration_state \<Rightarrow> registration_state" where
  "approved_state st = (if st \<in> set statesBeforeKycVerified then KYC_VERIFIED else st)"

definition approveKyc :: "kyc_env \<Rightarrow> identity_request \<Rightarrow> string \<Rightarrow> (kyc_db, kyc_data) handler" where
  "approveKyc ke rq userId s =
     (case find_kyc userId s of
        None \<Rightarrow> (Inl (Prisma ''P2025''), s)
      | Some k \<Rightarrow>
          if kd_verificationStatus k = KycApproved then (Inl (Plain ''KYC is already approved''), s)
          else let f = (\<lambda>k. k\<lparr>kd_verificationStatus := KycApproved, kd_verifiedAt := Some (rq_now rq)\<rparr>);
                   s1 = init_wallet ke userId (set_kyc rq userId f s)
               in (case find_user userId s1 of
                     None \<Rightarrow> (Inl (Prisma ''P2025''), s1)
                   | Some u \<Rightarrow>
                       (Inr ((f k)\<lparr>kd_updatedAt := rq_now rq\<rparr>),
                        logSecurityEvent rq userId ''KYC_APPROVED'' (JObj [])
                          (kyc_emit rq (JObj [(''userId'', JStr userId), (''status'', JStr ''KYC_APPROVED''), (''timestamp'', int_json (rq_now rq))])
                            (set_user userId (\<lambda>u. u\<lparr>us_status := UserActive, us_registrationState := approved_state (us_registrationState u)\<rparr>) s1)))))"

definition rejectKyc :: "identity_request \<Rightarrow> string \<Rightarrow> string \<Rightarrow> (kyc_db, kyc_data) handler" where
  "rejectKyc rq userId reason s =
     (case find_kyc userId s of
        None \<Rightarrow> (Inl (Prisma ''P2025''), s)
      | Some k \<Rightarrow>
          if kd_verificationStatus k = KycApproved then (Inl (Plain ''Cannot reject an already approved KYC''), s)
          else if kd_verificationStatus k = KycRejected then (Inl (Plain ''KYC is already rejected''), s)
          else let f = (\<lambda>k. k\<lparr>kd_verificationStatus := KycRejected, kd_reviewNote := Some reason\<rparr>); s1 = set_kyc rq userId f s
               in (case find_user userId s1 of
                     None \<Rightarrow> (Inl (Prisma ''P2025''), s1)
                   | Some u \<Rightarrow>
                       (Inr ((f k)\<lparr>kd_updatedAt := rq_now rq\<rparr>),
                        logSecurityEvent rq userId ''KYC_REJECTED'' (JObj [(''reason'', JStr reason)])
                          (kyc_emit rq (JObj [(''userId'', JStr userId), (''status'', JStr ''KYC_REJECTED''), (''reason'', JStr reason),
                              (''timestamp'', int_json (rq_now rq)), (''metadata'', JObj [(''reason'', JStr reason)])])
                            (set_user userId (\<lambda>u. u\<lparr>us_status := UserRejected\<rparr>) s1)))))"

definition retryKyc :: "identity_request \<Rightarrow> string \<Rightarrow> (kyc_db, unit) handler" where
  "retryKyc rq userId s =
     (case find_user userId s of
        None \<Rightarrow> (Inl (Prisma ''P2025''), s)
      | Some _ \<Rightarrow>
          let s1 = set_user userId (\<lambda>u. u\<lparr>us_registrationState := TC_ACCEPTED, us_status := UserRejected\<rparr>) s
          in (case find_kyc userId s1 of
                None \<Rightarrow> (Inl (Prisma ''P2025''), s1)
              | Some _ \<Rightarrow> (Inr (), set_kyc rq userId (\<lambda>k. k\<lparr>kd_verificationStatus := KycRejected, kd_reviewNote := None, kd_verifiedAt := None\<rparr>) s1)))"

section \<open>Lists and counts\<close>

text \<open>Local time is that of the server, in UTC.\<close>

definition day_start :: "int \<Rightarrow> int" where
  "day_start t = t - t mod msPerDay"

definition day_end :: "int \<Rightarrow> int" where
  "day_end t = day_start t + (msPerDay - 1)"

definition in_range :: "int option \<Rightarrow> int option \<Rightarrow> int \<Rightarrow> bool" where
  "in_range from to t \<longleftrightarrow> (case from of None \<Rightarrow> True | Some a \<Rightarrow> a \<le> t) \<and> (case to of None \<Rightarrow> True | Some b \<Rightarrow> t \<le> b)"

definition getKYCStats :: "int \<Rightarrow> int option \<Rightarrow> int option \<Rightarrow> 'a identity_db_scheme \<Rightarrow> nat \<times> nat \<times> nat" where
  "getKYCStats now from to s =
     (let (a, b) = (if from \<noteq> None \<or> to \<noteq> None then (from, to) else (Some (day_start now), None))
      in (count_where (\<lambda>u. us_status u = PendingApproval) (users s),
          count_where (\<lambda>k. kd_verificationStatus k = KycApproved \<and> (case kd_verifiedAt k of None \<Rightarrow> False | Some t \<Rightarrow> in_range a b t)) (kycData s),
          count_where (\<lambda>k. kd_verificationStatus k = KycRejected \<and> in_range a b (kd_updatedAt k)) (kycData s)))"

text \<open>\<open>status\<close> is missing for the value \<open>ALL\<close>. The page is one of users; the rows are their verification records.\<close>

definition kyc_list_users :: "user_status option \<Rightarrow> string option \<Rightarrow> int option \<Rightarrow> int option \<Rightarrow> 'a identity_db_scheme \<Rightarrow> user list" where
  "kyc_list_users status phoneNumber startDate endDate s =
     sort_key (\<lambda>u. - us_createdAt u) (filter (\<lambda>u. (case status of None \<Rightarrow> True | Some st \<Rightarrow> us_status u = st)
       \<and> (case phoneNumber of Some (c # t) \<Rightarrow> contains (c # t) (us_phoneNumber u) | _ \<Rightarrow> True)
       \<and> in_range startDate (map_option day_end endDate) (us_createdAt u)) (users s))"

definition getKYCList :: "user_status option \<Rightarrow> string option \<Rightarrow> int option \<Rightarrow> int option \<Rightarrow> nat \<Rightarrow> nat \<Rightarrow> int
    \<Rightarrow> 'a identity_db_scheme \<Rightarrow> (kyc_data \<times> user option) list \<times> (nat \<times> nat \<times> nat) \<times> pagination" where
  "getKYCList status phoneNumber startDate endDate page limit now s =
     (let matching = kyc_list_users status phoneNumber startDate endDate s; shown = page_slice page limit matching;
          rows = sort_key (\<lambda>k. - kd_createdAt k) (filter (\<lambda>k. kd_userId k \<in> us_id ` set shown) (kycData s))
      in (map (\<lambda>k. (k, find (\<lambda>u. us_id u = kd_userId k) shown)) rows, getKYCStats now None None s,
          \<lparr>pg_total = length matching, pg_page = page, pg_limit = limit, pg_totalPages = total_pages (length matching) limit\<rparr>))"

definition getPendingKYCList :: "int \<Rightarrow> 'a identity_db_scheme \<Rightarrow> (kyc_data \<times> user option) list" where
  "getPendingKYCList now s = fst (getKYCList (Some PendingApproval) None None None 1 50 now s)"

definition getActiveUsersCount :: "'a identity_db_scheme \<Rightarrow> nat" where
  "getActiveUsersCount s = count_where (\<lambda>u. us_status u = UserActive) (users s)"

definition getActiveUsersCountBefore :: "int \<Rightarrow> 'a identity_db_scheme \<Rightarrow> nat" where
  "getActiveUsersCountBefore d s = count_where (\<lambda>u. us_status u = UserActive \<and> us_createdAt u < d) (users s)"

definition getKycApprovedCountBetween :: "int \<Rightarrow> int \<Rightarrow> 'a identity_db_scheme \<Rightarrow> nat" where
  "getKycApprovedCountBetween from to s = count_where (\<lambda>k. kd_verificationStatus k = KycApproved
     \<and> (case kd_verifiedAt k of None \<Rightarrow> False | Some t \<Rightarrow> from \<le> t \<and> t \<le> to)) (kycData s)"

definition getKYCHistory :: "string \<Rightarrow> kyc_db \<Rightarrow> kyc_document list" where
  "getKYCHistory userId s = sort_key (\<lambda>d. - kv_createdAt d) (documents_of userId s)"

definition id_card_key :: "string \<Rightarrow> string" where
  "id_card_key userId = ''kyc/'' @ userId @ ''/id-card.jpg''"

definition selfie_key :: "string \<Rightarrow> string" where
  "selfie_key userId = ''kyc/'' @ userId @ ''/selfie.jpg''"

definition presigned :: "kyc_env \<Rightarrow> string \<Rightarrow> string option \<Rightarrow> string option" where
  "presigned ke key url = (if has_text url then (case ke_presign ke key of None \<Rightarrow> url | Some p \<Rightarrow> Some p) else url)"

definition review_view :: "kyc_env \<Rightarrow> kyc_data \<Rightarrow> kyc_data" where
  "review_view ke k =
     k\<lparr>kd_idCardNumberEncrypted := (case kd_idCardNumberEncrypted k of
           Some (c # t) \<Rightarrow> Some (case decryptPii (ke_auth ke) (c # t) of Inl _ \<Rightarrow> ''DECRYPTION_FAILED'' | Inr n \<Rightarrow> n) | v \<Rightarrow> v),
       kd_idCardImageUrl := presigned ke (id_card_key (kd_userId k)) (kd_idCardImageUrl k),
       kd_selfieImageUrl := presigned ke (selfie_key (kd_userId k)) (kd_selfieImageUrl k)\<rparr>"

record kyc_details =
  kt_kyc :: "kyc_data option"
  kt_documents :: "kyc_document list"
  kt_user :: "user option"
  kt_profile :: "json option"
  kt_addresses :: "address list"
  kt_history :: "(audit_log \<times> (string \<times> string \<times> string) option) list"

definition getKYCDetails :: "kyc_env \<Rightarrow> audit_log list \<Rightarrow> staff_row list \<Rightarrow> string \<Rightarrow> kyc_db \<Rightarrow> kyc_details" where
  "getKYCDetails ke audit staff userId s =
     \<lparr>kt_kyc = map_option (review_view ke) (find_kyc userId s), kt_documents = documents_of userId s, kt_user = find_user userId s,
      kt_profile = map_option st_value (find (\<lambda>x. st_userId x = userId \<and> st_key x = ''profile'') (userSettings s)),
      kt_addresses = filter (\<lambda>a. ar_userId a = userId) (addresses s),
      kt_history = map (\<lambda>l. (l, case al_adminUserId l of Some (c # t) \<Rightarrow> map_of staff (c # t) | _ \<Rightarrow> None))
        (take 10 (sort_key (\<lambda>l. - time_value (al_createdAt l))
          (filter (\<lambda>l. al_resourceId l = userId \<and> al_resourceType l = KYC_DOCUMENT) audit)))\<rparr>"

section \<open>The identity card\<close>

definition put_object :: "kyc_env \<Rightarrow> string \<Rightarrow> string \<Rightarrow> (kyc_db, string) handler" where
  "put_object ke key body s =
     (if ke_storageUp ke then (Inr (ke_bucketUrl ke @ key), s\<lparr>storedObjects := storedObjects s @ [(key, body)]\<rparr>)
      else (Inl (Plain ''storage is not available''), s))"

text \<open>The token is unique: no other user's record may hold it.\<close>

definition token_taken :: "string \<Rightarrow> string option \<Rightarrow> 'a identity_db_scheme \<Rightarrow> bool" where
  "token_taken userId token s \<longleftrightarrow> token \<noteq> None \<and> list_ex (\<lambda>k. kd_idCardToken k = token \<and> kd_userId k \<noteq> userId) (kycData s)"

definition new_kyc :: "identity_request \<Rightarrow> string \<Rightarrow> kyc_data" where
  "new_kyc rq userId = \<lparr>kd_userId = userId, kd_verificationStatus = KycPending, kd_reviewNote = None, kd_idCardNumberEncrypted = None,
     kd_idCardToken = None, kd_livenessSessionId = None, kd_idCardImageUrl = None, kd_idCardImageSha256 = None, kd_selfieImageUrl = None,
     kd_selfieImageSha256 = None, kd_thaiNameEncrypted = None, kd_dateOfBirth = None, kd_idCardIssueDate = None, kd_idCardExpiryDate = None,
     kd_fields = [], kd_faceMatchScore = None, kd_ocrConfidence = None, kd_verifiedAt = None, kd_createdAt = rq_now rq, kd_updatedAt = rq_now rq\<rparr>"

text \<open>\<open>upsert\<close> on the user: \<open>f\<close> is written on an update, \<open>g\<close> fills a new row.\<close>

definition upsert_kyc :: "identity_request \<Rightarrow> string \<Rightarrow> (kyc_data \<Rightarrow> kyc_data) \<Rightarrow> (kyc_data \<Rightarrow> kyc_data) \<Rightarrow> 'a identity_db_scheme \<Rightarrow> 'a identity_db_scheme" where
  "upsert_kyc rq userId f g s = (if find_kyc userId s = None then s\<lparr>kycData := kycData s @ [g (new_kyc rq userId)]\<rparr> else set_kyc rq userId f s)"

definition upsert_pii :: "string \<Rightarrow> string \<Rightarrow> string \<Rightarrow> string \<Rightarrow> 'a identity_db_scheme \<Rightarrow> 'a identity_db_scheme" where
  "upsert_pii userId field upd new s =
     (let mine = (\<lambda>p. pi_userId p = userId \<and> pi_field p = field)
      in if list_ex mine (piiData s) then s\<lparr>piiData := update_where mine (\<lambda>p. p\<lparr>pi_encryptedData := upd\<rparr>) (piiData s)\<rparr>
         else s\<lparr>piiData := piiData s @ [\<lparr>pi_userId = userId, pi_field = field, pi_encryptedData = new\<rparr>]\<rparr>)"

text \<open>The columns that hold the texts of a card.\<close>

definition card_columns :: "json \<Rightarrow> (string \<times> json) list" where
  "card_columns t = [(''prefix'', jget ''prefixTh'' t), (''firstNameTh'', jget ''firstNameTh'' t), (''lastNameTh'', jget ''lastNameTh'' t),
     (''prefixEn'', jget ''prefixEn'' t), (''firstNameEn'', jget ''firstNameEn'' t), (''lastNameEn'', jget ''lastNameEn'' t),
     (''religion'', jget ''religion'' t)]"

definition given :: "(string \<times> json) list \<Rightarrow> (string \<times> json) list" where
  "given fs = filter (\<lambda>(k, v). v \<noteq> JUndef) fs"

definition save_address :: "kyc_env \<Rightarrow> string \<Rightarrow> string option \<Rightarrow> (kyc_db, unit) handler" where
  "save_address ke userId a s = (case a of
      Some (c # t) \<Rightarrow>
        (case encryptPii ke 2 (c # t) of
           Inl e \<Rightarrow> (Inl e, s)
         | Inr upd \<Rightarrow> (case encryptPii ke 3 (c # t) of
             Inl e \<Rightarrow> (Inl e, s)
           | Inr new \<Rightarrow> (Inr (), upsert_pii userId ''raw_id_card_address'' upd new s)))
    | _ \<Rightarrow> (Inr (), s))"

definition save_id_card :: "kyc_env \<Rightarrow> identity_request \<Rightarrow> string \<Rightarrow> ocr_result \<Rightarrow> string \<Rightarrow> string \<Rightarrow> string \<Rightarrow> string \<Rightarrow> (kyc_db, unit) handler" where
  "save_id_card ke rq userId ocr idNumber url hash session s =
     (case encryptPii ke 0 idNumber of
        Inl e \<Rightarrow> (Inl e, s)
      | Inr upd \<Rightarrow>
          (case encryptPii ke 1 idNumber of
             Inl e \<Rightarrow> (Inl e, s)
           | Inr new \<Rightarrow>
               let low = (length idNumber < 13);
                   f = (\<lambda>enc k. k\<lparr>kd_idCardNumberEncrypted := Some enc, kd_idCardToken := Some (ke_sha256 ke idNumber), kd_idCardImageUrl := Some url,
                          kd_idCardImageSha256 := Some hash, kd_livenessSessionId := Some session,
                          kd_reviewNote := (if low then Some ''OCR failed to extract complete ID number'' else None),
                          kd_ocrConfidence := Some (if low then 1 / 2 else 95 / 100), kd_verificationStatus := KycPending\<rparr>);
                   g = (\<lambda>k. (f new k)\<lparr>kd_fields := given (card_columns (JObj (or_texts ocr))), kd_dateOfBirth := parseDate (or_dateOfBirth ocr),
                          kd_idCardIssueDate := parseDate (or_idCardIssueDate ocr), kd_idCardExpiryDate := parseDate (or_idCardExpiryDate ocr)\<rparr>)
               in if token_taken userId (Some (ke_sha256 ke idNumber)) s then (Inl (Prisma ''P2002''), s)
                  else save_address ke userId (or_registeredAddress ocr) (upsert_kyc rq userId (f upd) g s)))"

text \<open>\<open>user.update\<close> of the registration state, the last step of the operations below.\<close>

definition advance :: "string \<Rightarrow> registration_state \<Rightarrow> 'r \<Rightarrow> ('a identity_db_scheme, 'r) handler" where
  "advance userId st r s = (if find_user userId s = None then (Inl (Prisma ''P2025''), s)
     else (Inr r, set_user userId (\<lambda>u. u\<lparr>us_registrationState := st\<rparr>) s))"

definition uploadIdCard :: "kyc_env \<Rightarrow> identity_request \<Rightarrow> string \<Rightarrow> string \<Rightarrow> (kyc_db, ocr_result \<times> string) handler" where
  "uploadIdCard ke rq userId idCardImage s =
     (case validateRegistrationState userId [TC_ACCEPTED, ID_CARD_UPLOADED] s of
        Some e \<Rightarrow> (Inl e, s)
      | None \<Rightarrow>
          (case put_object ke (id_card_key userId) idCardImage s of
             (Inl e, s1) \<Rightarrow> (Inl e, s1)
           | (Inr url, s1) \<Rightarrow>
               let unreadable = Http BAD_REQUEST ''Could not read ID card number. Please ensure the card is clear and try again.''
               in (case ke_ocr ke idCardImage of
                     Inl e \<Rightarrow> (Inl e, s1)
                   | Inr None \<Rightarrow> (Inl unreadable, s1)
                   | Inr (Some ocr) \<Rightarrow>
                       if \<not> has_text (or_idNumber ocr) then (Inl unreadable, s1)
                       else let idNumber = the (or_idNumber ocr)
                            in if token_taken userId (Some (ke_sha256 ke idNumber)) s1
                               then (Inl (Http CONFLICT ''This ID card is already registered with another account''), s1)
                               else (case ke_createLiveness ke of
                                   Inl e \<Rightarrow> (Inl e, s1)
                                 | Inr session \<Rightarrow>
                                     (case transaction (save_id_card ke rq userId ocr idNumber url (ke_sha256 ke idCardImage) session) s1 of
                                        (Inl e, s2) \<Rightarrow> (Inl e, s2)
                                      | (Inr _, s2) \<Rightarrow> advance userId ID_CARD_UPLOADED (ocr, session) s2)))))"

record ocr_dto =
  od_idNumber :: string
  od_texts :: json
  od_dateOfBirth :: "utf16 option"
  od_issueDate :: "utf16 option"
  od_expiryDate :: "utf16 option"
  od_registeredAddress :: json

definition text_of :: "string \<Rightarrow> json \<Rightarrow> string" where
  "text_of k v = (case jget k v of JStr t \<Rightarrow> t | _ \<Rightarrow> [])"

definition encrypt_opt :: "kyc_env \<Rightarrow> nat \<Rightarrow> string \<Rightarrow> string option result" where
  "encrypt_opt ke k t = (if t = [] then Inr None else case encryptPii ke k t of Inl e \<Rightarrow> Inl e | Inr c \<Rightarrow> Inr (Some c))"

definition confirm_columns :: "kyc_env \<Rightarrow> string \<Rightarrow> ocr_dto \<Rightarrow> string option \<Rightarrow> string option \<Rightarrow> kyc_data \<Rightarrow> kyc_data" where
  "confirm_columns ke userId dto encryptedId encryptedThaiName k =
     (let cleanIdNumber = filter is_digit (od_idNumber dto); t = od_texts dto
      in k\<lparr>kd_idCardNumberEncrypted := encryptedId, kd_thaiNameEncrypted := encryptedThaiName,
           kd_fields := set_fields (given ((''idCardName'', JStr (strip (text_of ''prefixTh'' t @ text_of ''firstNameTh'' t @ '' '' @ text_of ''lastNameTh'' t)))
             # card_columns t)) (kd_fields k),
           kd_dateOfBirth := parseDate (od_dateOfBirth dto), kd_idCardIssueDate := parseDate (od_issueDate dto),
           kd_idCardExpiryDate := parseDate (od_expiryDate dto),
           kd_idCardToken := (if cleanIdNumber = [] then kd_idCardToken k else Some (ke_sha256 ke (cleanIdNumber @ userId)))\<rparr>)"

definition confirmOcrData :: "kyc_env \<Rightarrow> identity_request \<Rightarrow> string \<Rightarrow> ocr_dto \<Rightarrow> (kyc_db, unit) handler" where
  "confirmOcrData ke rq userId dto s =
     (case validateRegistrationState userId [ID_CARD_UPLOADED, ID_CARD_CONFIRMED] s of
        Some e \<Rightarrow> (Inl e, s)
      | None \<Rightarrow>
          let cleanIdNumber = filter is_digit (od_idNumber dto); t = od_texts dto;
              thaiName = strip (text_of ''prefixTh'' t @ text_of ''firstNameTh'' t @ '' '' @ text_of ''lastNameTh'' t);
              token = (if cleanIdNumber = [] then None else Some (ke_sha256 ke (cleanIdNumber @ userId)))
          in (case encrypt_opt ke 0 cleanIdNumber of
                Inl e \<Rightarrow> (Inl e, s)
              | Inr encryptedId \<Rightarrow>
                  (case encrypt_opt ke 1 thaiName of
                     Inl e \<Rightarrow> (Inl e, s)
                   | Inr encryptedThaiName \<Rightarrow>
                       if find_kyc userId s = None then (Inl (Prisma ''P2025''), s)
                       else if token_taken userId token s then (Inl (Prisma ''P2002''), s)
                       else let s1 = set_kyc rq userId (confirm_columns ke userId dto encryptedId encryptedThaiName) s;
                                s2 = (if truthy (od_registeredAddress dto)
                                      then snd (updateAddress rq (rq_uuid rq 0) userId REGISTERED (od_registeredAddress dto) (Some ''ID_CARD_OCR'') s1) else s1)
                            in advance userId ID_CARD_CONFIRMED () s2)))"

section \<open>The face\<close>

definition is_live :: "kyc_env \<Rightarrow> liveness option \<Rightarrow> bool" where
  "is_live ke r = (case r of None \<Rightarrow> False
     | Some l \<Rightarrow> lv_status l = ''SUCCEEDED'' \<and> ke_minLiveness ke \<le> (case lv_confidence l of None \<Rightarrow> 0 | Some c \<Rightarrow> c))"

definition selfie_source :: "kyc_env \<Rightarrow> liveness option \<Rightarrow> string option \<Rightarrow> string option" where
  "selfie_source ke r selfieImage =
     (if is_live ke r \<and> Option.bind r lv_image \<noteq> None then Option.bind r lv_image else selfieImage)"

definition finalize_selfie :: "identity_request \<Rightarrow> string \<Rightarrow> (kyc_data \<Rightarrow> kyc_data) \<Rightarrow> 'r \<Rightarrow> (kyc_db, 'r) handler" where
  "finalize_selfie rq userId f r s =
     (if find_kyc userId s = None then (Inl (Prisma ''P2025''), s) else advance userId KYC_VERIFIED r (set_kyc rq userId f s))"

definition submitSelfie :: "kyc_env \<Rightarrow> identity_request \<Rightarrow> string \<Rightarrow> string option \<Rightarrow> (kyc_db, bool \<times> kyc_status) handler" where
  "submitSelfie ke rq userId selfieImage s =
     (case validateRegistrationState userId [ID_CARD_CONFIRMED, KYC_VERIFIED] s of
        Some e \<Rightarrow> (Inl e, s)
      | None \<Rightarrow>
          (case find_kyc userId s of
             None \<Rightarrow> (Inl (Http BAD_REQUEST ''ID Card must be uploaded before selfie''), s)
           | Some k \<Rightarrow>
               if \<not> has_text (kd_livenessSessionId k) \<or> \<not> has_text (kd_idCardImageUrl k)
               then (Inl (Http BAD_REQUEST ''ID Card must be uploaded before selfie''), s)
               else (case selfie_source ke (ke_liveness ke (the (kd_livenessSessionId k))) selfieImage of
                  None \<Rightarrow> (Inl (Http BAD_REQUEST ''Face verification data missing. Please capture your face correctly.''), s)
                | Some selfie \<Rightarrow>
                    (case put_object ke (selfie_key userId) selfie s of
                       (Inl e, s1) \<Rightarrow> (Inl e, s1)
                     | (Inr selfieUrl, s1) \<Rightarrow>
                         (case Option.bind (ke_getFile ke (storedObjects s1) (id_card_key userId)) (\<lambda>card. ke_compareFaces ke card selfie) of
                            None \<Rightarrow> (Inl (Http BAD_REQUEST ''Face verification failed. Please try again with better lighting.''), s1)
                          | Some (m, similarity) \<Rightarrow>
                              if \<not> (m \<and> ke_minSimilarity ke \<le> similarity)
                              then (Inl (Http BAD_REQUEST ''Face verification failed (Similarity: [similarity]%). Please ensure your face is clearly visible and matches your ID card.''), s1)
                              else transaction (finalize_selfie rq userId
                                     (\<lambda>k. k\<lparr>kd_selfieImageUrl := Some selfieUrl, kd_selfieImageSha256 := Some (ke_sha256 ke selfie),
                                            kd_faceMatchScore := Some \<lfloor>similarity + 1 / 2\<rfloor>, kd_verificationStatus := KycPending\<rparr>) (True, KycApproved)) s1)))))"

section \<open>Simple mode\<close>

text \<open>
  The routes for tests, which are routes of the service as the others are: a fixed card instead of text
  recognition, no comparison of faces, and no test of the registration state. Thai names stand in brackets.
\<close>

definition simple_columns :: "(string \<times> json) list" where
  "simple_columns = [(''idCardName'', JStr ''(Mr. Somchai Khemklad)''), (''firstNameTh'', JStr ''(Somchai)''), (''lastNameTh'', JStr ''(Khemklad)''),
     (''firstNameEn'', JStr ''John''), (''lastNameEn'', JStr ''Doe''), (''prefix'', JStr ''(Mr.)''), (''religion'', JStr ''(Buddhism)'')]"

definition simple_id :: string where "simple_id = ''1234567890123''"

definition uploadIdCardSimple :: "kyc_env \<Rightarrow> identity_request \<Rightarrow> string \<Rightarrow> string \<Rightarrow> (kyc_db, string) handler" where
  "uploadIdCardSimple ke rq userId idCardImage s =
     (case put_object ke (id_card_key userId) idCardImage s of
        (Inl e, s1) \<Rightarrow> (Inl e, s1)
      | (Inr url, s1) \<Rightarrow>
          let token = Some (ke_sha256 ke (simple_id @ userId)); session = rq_uuid rq 0
          in (case encryptPii ke 0 simple_id of
                Inl e \<Rightarrow> (Inl e, s1)
              | Inr encryptedId \<Rightarrow>
                  (case encryptPii ke 1 ''(Mr. Somchai Khemklad)'' of
                     Inl e \<Rightarrow> (Inl e, s1)
                   | Inr encryptedThaiName \<Rightarrow>
                       let f = (\<lambda>k. k\<lparr>kd_idCardImageUrl := Some url, kd_idCardImageSha256 := Some (ke_sha256 ke idCardImage), kd_idCardNumberEncrypted := Some encryptedId,
                              kd_fields := set_fields simple_columns (kd_fields k), kd_dateOfBirth := parseDate (Some (units ''01/01/1990'')),
                              kd_thaiNameEncrypted := Some encryptedThaiName, kd_idCardToken := token, kd_livenessSessionId := Some session,
                              kd_verificationStatus := KycPending, kd_ocrConfidence := Some (95 / 100)\<rparr>)
                       in if token_taken userId token s1 then (Inl (Prisma ''P2002''), s1)
                          else advance userId ID_CARD_UPLOADED session (upsert_kyc rq userId f f s1))))"

definition submitSelfieSimple :: "kyc_env \<Rightarrow> identity_request \<Rightarrow> string \<Rightarrow> string \<Rightarrow> (kyc_db, bool \<times> kyc_status) handler" where
  "submitSelfieSimple ke rq userId selfieImage s =
     (case find_kyc userId s of
        None \<Rightarrow> (Inl (Http BAD_REQUEST ''ID Card must be uploaded before selfie''), s)
      | Some k \<Rightarrow>
          if \<not> has_text (kd_livenessSessionId k) then (Inl (Http BAD_REQUEST ''ID Card must be uploaded before selfie''), s)
          else (case put_object ke (selfie_key userId) selfieImage s of
             (Inl e, s1) \<Rightarrow> (Inl e, s1)
           | (Inr selfieUrl, s1) \<Rightarrow>
               advance userId KYC_VERIFIED (True, KycPending)
                 (set_kyc rq userId (\<lambda>k. k\<lparr>kd_selfieImageUrl := Some selfieUrl, kd_selfieImageSha256 := Some (ke_sha256 ke selfieImage),
                    kd_verificationStatus := KycPending, kd_verifiedAt := None\<rparr>) s1)))"

end
