(* ===== verification/Identity_Props.thy ===== *)
theory Identity_Props
  imports Identity
begin

text \<open>
  Properties of the identity service: the normal form of phone numbers, one-time passwords, the lock on
  the PIN, sessions and their rotation.
\<close>

section \<open>Phone numbers\<close>

text \<open>
  However a Thai number is written, it is one number. Whatever spaces, dashes or brackets the
  input has, its nine significant digits alone, with a leading 0, with 66 or with +66 normalise to the same
  international form; normalising again changes nothing; and the two forms under which users are looked
  up are the international and the local one.
\<close>

theorem normalizePhone_canonical:
  assumes "list_all is_digit d" and "length d = 9" and "filter is_digit p \<in> {d, ''0'' @ d, ''66'' @ d}"
  shows "normalizePhone p = ''+66'' @ d \<and> normalizePhone (normalizePhone p) = normalizePhone p
     \<and> getPhoneCandidates p = [''+66'' @ d, ''0'' @ d]"
proof -
  have norm: "normalizePhone q = ''+66'' @ d" if "filter is_digit q \<in> {d, ''0'' @ d, ''66'' @ d}" for q
    using that assms(2) by (auto simp: normalizePhone_def Let_def)
  have digits: "filter is_digit (''+66'' @ d) = ''66'' @ d"
    using assms(1) by (simp add: is_digit_def list_all_iff filter_id_conv)
  show ?thesis using norm [OF assms(3)] norm [of "''+66'' @ d"] digits by (simp add: getPhoneCandidates_def)
qed

theorem normalizePhone_canonical_witness: "normalizePhone ''081-234 5678'' = ''+66812345678''"
proof -
  have "list_all is_digit ''812345678''" "length ''812345678'' = (9 :: nat)"
    "filter is_digit ''081-234 5678'' \<in> {''812345678'', ''0'' @ ''812345678'', ''66'' @ ''812345678''}" by code_simp+
  from normalizePhone_canonical [OF this] show ?thesis by simp
qed

section \<open>One-time passwords\<close>

lemma find_set_challenge:
  assumes "\<And>c. oc_id (f c) = oc_id c"
  shows "find_challenge i (set_challenge j f s) = (if i = j then map_option f (find_challenge i s) else find_challenge i s)"
proof -
  have "find_challenge i (set_challenge j f s) = map_option (\<lambda>c. if oc_id c = j then f c else c) (find_challenge i s)"
    unfolding find_challenge_def set_challenge_def by (simp add: find_update_where assms)
  then show ?thesis by (cases "find_challenge i s") (auto simp: find_challenge_def dest: find_SomeD)
qed

lemma find_user_challenge [simp]: "find_user i (set_challenge j f s) = find_user i s"
  by (simp add: find_user_def set_challenge_def)

text \<open>
  Property C17. A one-time password is good for one verification. When \<open>verifyOtpChallenge\<close> succeeds, the
  challenge was issued for that phone number, was not expired and not yet verified, the code matched, and
  the answer is the challenge's user; from then on the challenge is refused for ever, with any code, at any
  time, and nothing changes.
\<close>

theorem verifyOtpChallenge_once:
  assumes "verifyOtpChallenge env rq cid phone otp s = (Inr u, s')"
  shows "\<exists>c. find_challenge cid s = Some c \<and> oc_phoneNumber c \<in> set (getPhoneCandidates phone) \<and> rq_now rq \<le> oc_expiresAt c
     \<and> oc_verifiedAt c = None \<and> ae_compare env otp (oc_code c) \<and> find_user (oc_userId c) s = Some u
     \<and> (\<forall>env' rq' phone' otp'. \<exists>e. verifyOtpChallenge env' rq' cid phone' otp' s' = (Inl e, s'))"
proof -
  from assms obtain c where c: "find_challenge cid s = Some c" "oc_phoneNumber c \<in> set (getPhoneCandidates phone)"
    "\<not> oc_expiresAt c < rq_now rq" "oc_verifiedAt c = None" "ae_compare env otp (oc_code c)" "find_user (oc_userId c) s = Some u"
    and s': "s' = set_challenge cid (\<lambda>c. c\<lparr>oc_verifiedAt := Some (rq_now rq)\<rparr>) s"
    by (auto simp: verifyOtpChallenge_def Let_def split: option.splits if_splits)
  have "find_challenge cid s' = Some (c\<lparr>oc_verifiedAt := Some (rq_now rq)\<rparr>)"
    unfolding s' by (simp add: find_set_challenge c)
  then have "\<exists>e. verifyOtpChallenge env' rq' cid phone' otp' s' = (Inl e, s')" for env' rq' phone' otp'
    by (simp add: verifyOtpChallenge_def)
  with c show ?thesis by auto
qed

text \<open>A sequence of attempts on a challenge, at one time and for one number.\<close>

definition otp_attempts :: "auth_env \<Rightarrow> identity_request \<Rightarrow> string \<Rightarrow> string \<Rightarrow> string list \<Rightarrow> 'a identity_db_scheme \<Rightarrow> 'a identity_db_scheme" where
  "otp_attempts env rq cid phone otps s = fold (\<lambda>otp s. snd (verifyOtpChallenge env rq cid phone otp s)) otps s"

lemma verifyOtp_wrong:
  assumes "find_challenge cid s = Some c" "oc_phoneNumber c \<in> set (getPhoneCandidates phone)" "rq_now rq \<le> oc_expiresAt c"
    "oc_verifiedAt c = None" "\<not> ae_compare env otp (oc_code c)"
  shows "verifyOtpChallenge env rq cid phone otp s =
     (Inl (Http BAD_REQUEST ''Invalid OTP''), set_challenge cid (\<lambda>c. c\<lparr>oc_attempts := oc_attempts c + 1\<rparr>) s)"
  using assms by (simp add: verifyOtpChallenge_def)

text \<open>
  Wrong guesses never lock a challenge. The service counts them, but nothing reads the count:
  after any number of wrong codes the right one is still accepted until the challenge expires, so that
  only the throttling of the route stands between a caller and all the codes.
\<close>

theorem otp_attempts_unlimited:
  assumes "find_challenge cid s = Some c" "oc_phoneNumber c \<in> set (getPhoneCandidates phone)" "rq_now rq \<le> oc_expiresAt c"
    "oc_verifiedAt c = None" "list_all (\<lambda>otp. \<not> ae_compare env otp (oc_code c)) otps" "ae_compare env otp (oc_code c)"
    "find_user (oc_userId c) s = Some u"
  shows "fst (verifyOtpChallenge env rq cid phone otp (otp_attempts env rq cid phone otps s)) = Inr u
     \<and> map_option oc_attempts (find_challenge cid (otp_attempts env rq cid phone otps s)) = Some (oc_attempts c + int (length otps))"
  using assms
proof (induction otps arbitrary: s c)
  case Nil
  then show ?case by (simp add: otp_attempts_def verifyOtpChallenge_def Let_def)
next
  case (Cons w ws)
  let ?c = "c\<lparr>oc_attempts := oc_attempts c + 1\<rparr>" and ?s = "set_challenge cid (\<lambda>c. c\<lparr>oc_attempts := oc_attempts c + 1\<rparr>) s"
  have f: "find_challenge cid ?s = Some ?c" using Cons.prems(1) by (simp add: find_set_challenge)
  have step: "otp_attempts env rq cid phone (w # ws) s = otp_attempts env rq cid phone ws ?s"
    using verifyOtp_wrong [OF Cons.prems(1-4), of env w] Cons.prems(5) by (simp add: otp_attempts_def)
  show ?case unfolding step using Cons.IH [OF f] Cons.prems by (simp add: algebra_simps)
qed

section \<open>The PIN\<close>

lemma find_set_user:
  assumes "\<And>u. us_id (f u) = us_id u"
  shows "find_user i (set_user j f s) = (if i = j then map_option f (find_user i s) else find_user i s)"
proof -
  have "find_user i (set_user j f s) = map_option (\<lambda>u. if us_id u = j then f u else u) (find_user i s)"
    unfolding find_user_def set_user_def by (simp add: find_update_where assms)
  then show ?thesis by (cases "find_user i s") (auto simp: find_user_def dest: find_SomeD)
qed

lemma find_user_frame [simp]:
  "find_user i (logSecurityEvent rq v t m s) = find_user i s" "find_user i (add_session x s) = find_user i s"
  "find_user i (s\<lparr>refreshSessions := xs\<rparr>) = find_user i s" "find_user i (s\<lparr>userDevices := ds\<rparr>) = find_user i s"
  by (simp_all add: find_user_def logSecurityEvent_def add_session_def)

text \<open>A wrong PIN is evaluated only when the PIN is not locked; the third and every later one locks it.\<close>

definition wrong_pin :: "identity_request \<Rightarrow> user \<Rightarrow> user" where
  "wrong_pin rq u = u\<lparr>us_pinAttempts := us_pinAttempts u + 1,
     us_pinLockedUntil := (if 2 \<le> us_pinAttempts u then Some (rq_now rq + PIN_LOCK_DURATION_MS) else us_pinLockedUntil u)\<rparr>"

lemma verifyPin_wrong:
  assumes "find_user i s = Some u" "has_text (us_pinHash u)" "\<not> ae_compare env pin (the (us_pinHash u))"
  shows "find_user i (snd (verifyPin env rq i pin dev s)) = Some (if pin_locked (rq_now rq) u then u else wrong_pin rq u)"
proof (cases "pin_locked (rq_now rq) u")
  case True
  with assms show ?thesis by (simp add: verifyPin_def)
next
  case False
  have "find_user i (snd (verifyPin env rq i pin dev s)) = find_user i (snd (handlePinFailure rq i s))"
    using assms False by (auto simp: verifyPin_def handlePinFailure_def Let_def)
  also have "\<dots> = Some (wrong_pin rq u)"
    using assms by (simp add: handlePinFailure_def Let_def find_set_user wrong_pin_def MAX_PIN_ATTEMPTS_def)
  finally show ?thesis using False by simp
qed

text \<open>The number of guesses of a sequence that the service evaluates, and so answers truthfully.\<close>

record pin_guess =
  pg_rq :: identity_request
  pg_pin :: string
  pg_device :: string

fun evaluated_guesses :: "auth_env \<Rightarrow> string \<Rightarrow> pin_guess list \<Rightarrow> 'a identity_db_scheme \<Rightarrow> nat" where
  "evaluated_guesses env i [] s = 0"
| "evaluated_guesses env i (g # gs) s =
     (case find_user i s of None \<Rightarrow> 0 | Some u \<Rightarrow> if pin_locked (rq_now (pg_rq g)) u then 0 else 1)
     + evaluated_guesses env i gs (snd (verifyPin env (pg_rq g) i (pg_pin g) (pg_device g) s))"

text \<open>
  What is left to an attacker from time \<open>t\<close> to \<open>T\<close>: the guesses before the lock, one guess when the lock is
  over, and one more per five minutes.
\<close>

definition guesses_left :: "int \<Rightarrow> int \<Rightarrow> user \<Rightarrow> int" where
  "guesses_left t T u =
     (let start = (case us_pinLockedUntil u of None \<Rightarrow> t | Some l \<Rightarrow> max t l)
      in max 0 (2 - us_pinAttempts u) + (if start \<le> T then 1 + (T - start) div PIN_LOCK_DURATION_MS else 0))"

lemma guesses_left_locked: "pin_locked t1 u \<Longrightarrow> t \<le> t1 \<Longrightarrow> guesses_left t1 T u = guesses_left t T u"
  by (auto simp: guesses_left_def pin_locked_def Let_def split: option.splits)

lemma guesses_left_wrong:
  assumes "\<not> pin_locked (rq_now rq) u" "t \<le> rq_now rq" "rq_now rq \<le> T"
  shows "1 + guesses_left (rq_now rq) T (wrong_pin rq u) \<le> guesses_left t T u"
proof -
  let ?t = "rq_now rq" and ?D = PIN_LOCK_DURATION_MS
  define start where "start = (case us_pinLockedUntil u of None \<Rightarrow> t | Some l \<Rightarrow> max t l)"
  have start: "start \<le> ?t" using assms by (auto simp: start_def pin_locked_def split: option.splits)
  have D: "0 < ?D" by (simp add: PIN_LOCK_DURATION_MS_def)
  have mono: "(T - ?t) div ?D \<le> (T - start) div ?D" using start D by (intro zdiv_mono1) auto
  have left: "guesses_left t T u = max 0 (2 - us_pinAttempts u) + (1 + (T - start) div ?D)"
    using start assms(3) by (simp add: guesses_left_def start_def Let_def)
  show ?thesis
  proof (cases "2 \<le> us_pinAttempts u")
    case True
    have "guesses_left ?t T (wrong_pin rq u) = (if ?t + ?D \<le> T then 1 + (T - (?t + ?D)) div ?D else 0)"
      using True D by (simp add: guesses_left_def wrong_pin_def Let_def)
    also have "\<dots> \<le> (T - ?t) div ?D"
    proof -
      have "(T - ?t) div ?D = 1 + (T - (?t + ?D)) div ?D"
        using D div_add_self2 [of ?D "T - (?t + ?D)"] by (simp add: algebra_simps)
      moreover have "0 \<le> (T - ?t) div ?D" using assms(3) D by (simp add: pos_imp_zdiv_nonneg_iff)
      ultimately show ?thesis by auto
    qed
    finally show ?thesis using left mono True by simp
  next
    case False
    have "(case us_pinLockedUntil u of None \<Rightarrow> ?t | Some l \<Rightarrow> max ?t l) = ?t"
      using assms(1) by (auto simp: pin_locked_def split: option.splits)
    then have "guesses_left ?t T (wrong_pin rq u) = max 0 (2 - us_pinAttempts u - 1) + (1 + (T - ?t) div ?D)"
      using False assms(3) by (simp add: guesses_left_def wrong_pin_def Let_def)
    then show ?thesis using left mono False by simp
  qed
qed

lemma evaluated_guesses_le:
  assumes "find_user i s = Some u" "has_text (us_pinHash u)"
    and "list_all (\<lambda>g. \<not> ae_compare env (pg_pin g) (the (us_pinHash u)) \<and> rq_now (pg_rq g) \<le> T) gs"
    and "sorted (t # map (rq_now \<circ> pg_rq) gs)"
  shows "int (evaluated_guesses env i gs s) \<le> guesses_left t T u"
  using assms
proof (induction gs arbitrary: s u t)
  case Nil
  have "0 \<le> guesses_left t T u"
    by (simp add: guesses_left_def Let_def PIN_LOCK_DURATION_MS_def pos_imp_zdiv_nonneg_iff)
  then show ?case by simp
next
  case (Cons g gs)
  let ?rq = "pg_rq g" and ?s = "snd (verifyPin env (pg_rq g) i (pg_pin g) (pg_device g) s)"
  let ?u = "if pin_locked (rq_now ?rq) u then u else wrong_pin ?rq u"
  have u': "find_user i ?s = Some ?u" using Cons.prems by (intro verifyPin_wrong) simp_all
  have hash: "us_pinHash ?u = us_pinHash u" by (simp add: wrong_pin_def)
  have IH: "int (evaluated_guesses env i gs ?s) \<le> guesses_left (rq_now ?rq) T ?u"
    using Cons.prems hash by (intro Cons.IH [OF u']) simp_all
  have t: "t \<le> rq_now ?rq" "rq_now ?rq \<le> T" using Cons.prems(3,4) by simp_all
  show ?case
  proof (cases "pin_locked (rq_now ?rq) u")
    case True
    then show ?thesis using IH Cons.prems(1) guesses_left_locked [OF True t(1), of T] by simp
  next
    case False
    then show ?thesis using IH Cons.prems(1) guesses_left_wrong [OF False t] by simp
  qed
qed

text \<open>
  Property C18. A PIN cannot be guessed fast. From a fresh counter, whatever wrong PINs are tried and
  however often, from the first request at \<open>t\<close> to \<open>T\<close> the service evaluates at most three of them plus one
  for every five minutes; every other attempt meets the lock and learns nothing.
\<close>

theorem pin_guesses_bounded:
  assumes "find_user i s = Some u" "us_pinHash u = Some h" "h \<noteq> []" "us_pinAttempts u = 0" "us_pinLockedUntil u = None"
    and "list_all (\<lambda>g. \<not> ae_compare env (pg_pin g) h \<and> rq_now (pg_rq g) \<le> T) gs"
    and "sorted (t # map (rq_now \<circ> pg_rq) gs)" "t \<le> T"
  shows "int (evaluated_guesses env i gs s) \<le> 3 + (T - t) div (5 * 60 * 1000)"
  using evaluated_guesses_le [of i s u env T gs t] assms
  by (simp add: has_text_def guesses_left_def PIN_LOCK_DURATION_MS_def)

section \<open>Sessions\<close>

definition live_sessions :: "string \<Rightarrow> 'a identity_db_scheme \<Rightarrow> refresh_session list" where
  "live_sessions userId s = filter (\<lambda>x. rs_userId x = userId \<and> rs_revokedAt x = None) (refreshSessions s)"

lemma refreshSessions_frame [simp]:
  "refreshSessions (logSecurityEvent rq v t m s) = refreshSessions s" "refreshSessions (set_user i f s) = refreshSessions s"
  "refreshSessions (snd (upsert_device i d g n s)) = refreshSessions s"
  "refreshSessions (add_session x s) = refreshSessions s @ [x]"
  by (simp_all add: logSecurityEvent_def set_user_def upsert_device_def add_session_def split: option.split)

lemma revoked_live:
  "filter (\<lambda>x. rs_userId x = v \<and> rs_revokedAt x = None) (refreshSessions (revoke_sessions now i s)) = (if v = i then [] else live_sessions v s)"
proof -
  have "filter (\<lambda>x. rs_userId x = v \<and> rs_revokedAt x = None)
      (update_where (\<lambda>x. rs_userId x = i \<and> rs_revokedAt x = None) (\<lambda>x. x\<lparr>rs_revokedAt := Some now\<rparr>) xs)
    = (if v = i then [] else filter (\<lambda>x. rs_userId x = v \<and> rs_revokedAt x = None) xs)" for xs :: "refresh_session list"
    by (induction xs) auto
  then show ?thesis by (simp add: revoke_sessions_def live_sessions_def)
qed

lemma upsert_device_sessions: "upsert_device i d g n s = (x, s') \<Longrightarrow> refreshSessions s' = refreshSessions s"
  using refreshSessions_frame(3) [of i d g n s] by simp

lemma login_success:
  assumes "login env rq dto s = (Inr r, s')"
  shows "\<exists>u h did. user_by_phone (normalizePhone (lg_phoneNumber dto)) s = Some u \<and> us_passwordHash u = Some h \<and> ae_compare env (lg_password dto) h
     \<and> us_status u \<in> {UserActive, PendingApproval, UserRejected, UserInactive} \<and> au_user r = u
     \<and> refreshSessions s' = refreshSessions (revoke_sessions (rq_now rq) (us_id u) s) @ [new_session env rq (us_id u) (Some did) (au_refreshToken r)]"
  using assms by (auto simp: login_def Let_def split: option.splits list.splits if_splits prod.splits dest!: upsert_device_sessions)

text \<open>
  Property C19. One user, one session. A login succeeds only with the password of an account that is not
  suspended, blocked or deleted; afterwards the user has exactly one live session, the one of this login,
  whatever sessions existed, and the sessions of other users are as they were.
\<close>

theorem login_single_session:
  assumes "login env rq dto s = (Inr r, s')"
  shows "\<exists>u h did. user_by_phone (normalizePhone (lg_phoneNumber dto)) s = Some u \<and> us_passwordHash u = Some h \<and> ae_compare env (lg_password dto) h
     \<and> us_status u \<notin> {UserSuspended, UserBlocked, UserDeleted}
     \<and> live_sessions (us_id u) s' = [new_session env rq (us_id u) (Some did) (au_refreshToken r)]
     \<and> (\<forall>v. v \<noteq> us_id u \<longrightarrow> live_sessions v s' = live_sessions v s)"
proof -
  from login_success [OF assms] obtain u h did where u: "user_by_phone (normalizePhone (lg_phoneNumber dto)) s = Some u"
    "us_passwordHash u = Some h" "ae_compare env (lg_password dto) h" "us_status u \<in> {UserActive, PendingApproval, UserRejected, UserInactive}"
    and s': "refreshSessions s' = refreshSessions (revoke_sessions (rq_now rq) (us_id u) s) @ [new_session env rq (us_id u) (Some did) (au_refreshToken r)]"
    by blast
  have "live_sessions v s' = (if v = us_id u then [new_session env rq (us_id u) (Some did) (au_refreshToken r)] else live_sessions v s)" for v
    unfolding live_sessions_def s' filter_append revoked_live by (simp add: new_session_def live_sessions_def)
  then show ?thesis using u by auto
qed

text \<open>A refresh looks at the token and the session, never at the status of the account.\<close>

lemma refresh_cases:
  obtains (failed) "refresh env rq tok s = (Inl (Http UNAUTHORIZED ''Invalid refresh token''), s)"
  | (rotated) payload i x dev where "ae_verify env (ae_refreshSecret env) (rq_now rq) tok = Inr payload" "sub_of payload = Inr i"
      "find (session_matches (rq_now rq) i (jget ''did'' payload)) (refreshSessions s) = Some x" "ae_compare env tok (rs_tokenHash x)"
      "dev = (case jget ''did'' payload of JStr d \<Rightarrow> Some d | _ \<Rightarrow> None)"
proof (cases "ae_verify env (ae_refreshSecret env) (rq_now rq) tok")
  case (Inl f)
  then show thesis by (intro failed) (simp add: refresh_def)
next
  case v: (Inr payload)
  show thesis
  proof (cases "sub_of payload")
    case (Inl e)
    with v show thesis by (intro failed) (simp add: refresh_def)
  next
    case i: (Inr i)
    show thesis
    proof (cases "find (session_matches (rq_now rq) i (jget ''did'' payload)) (refreshSessions s)")
      case None
      with v i show thesis by (intro failed) (simp add: refresh_def)
    next
      case x: (Some x)
      show thesis
      proof (cases "ae_compare env tok (rs_tokenHash x)")
        case False
        with v i x show thesis by (intro failed) (simp add: refresh_def)
      next
        case True
        with v i x show thesis by (intro rotated [OF v i x True]) simp
      qed
    qed
  qed
qed

lemma refresh_success:
  assumes "ae_verify env (ae_refreshSecret env) (rq_now rq) tok = Inr payload" "sub_of payload = Inr i"
    "find (session_matches (rq_now rq) i (jget ''did'' payload)) (refreshSessions s) = Some x" "ae_compare env tok (rs_tokenHash x)"
    "find_user i s = Some u"
  shows "\<exists>r. refresh env rq tok s = (Inr r, s\<lparr>refreshSessions := update_where (\<lambda>y. rs_id y = rs_id x)
       (rotate_session env rq (au_refreshToken r)) (refreshSessions s)\<rparr>) \<and> au_user r = u
     \<and> au_accessToken r = signAccessToken env rq (rq_uuid rq 1) i (rq_uuid rq 0) (case jget ''did'' payload of JStr d \<Rightarrow> Some d | _ \<Rightarrow> None) False
     \<and> au_refreshToken r = signRefreshToken env rq (rq_uuid rq 2) i (rq_uuid rq 0) (case jget ''did'' payload of JStr d \<Rightarrow> Some d | _ \<Rightarrow> None)"
  using assms by (simp add: refresh_def Let_def)

text \<open>
  Blocking an account does not end its sessions. Whenever a refresh token is accepted, it is
  accepted as well right after an administrator has blocked or suspended the account, and the answer says
  so: the session is rotated, a new access token is issued, and the guard of the protected routes, which
  asks only whether the user exists, admits whatever token it verifies.
\<close>

theorem blocked_users_refresh:
  assumes "refresh env rq tok s = (Inr r, s1)" "blockUser rq' (us_id (au_user r)) reason s = (Inr v, s2)"
  shows "\<exists>r' s3. refresh env rq tok s2 = (Inr r', s3) \<and> us_status (au_user r') = UserBlocked \<and> us_id (au_user r') = us_id (au_user r)
     \<and> au_accessToken r' = au_accessToken r
     \<and> (\<forall>p. ae_verify env (ae_accessSecret env) (rq_now rq) (au_accessToken r') = Inr p \<and> sub_of p = Inr (us_id (au_user r))
          \<longrightarrow> jwt_validate env rq (au_accessToken r') s3 = Inr p)"
proof (cases rule: refresh_cases [of env rq tok s])
  case failed
  with assms show ?thesis by simp
next
  case (rotated payload i x dev)
  obtain u where u: "find_user i s = Some u" using assms(1) rotated by (auto simp: refresh_def Let_def split: option.splits)
  then have r: "au_user r = u" "us_id u = i"
    using refresh_success [OF rotated(1-4) u] assms(1) by (auto simp: find_user_def dest: find_SomeD)
  note r1 = refresh_success [OF rotated(1-4) u]
  have b: "s2 = logSecurityEvent rq' i ''ACCOUNT_LOCKED'' (se_metadata (last (securityEvents s2))) (set_user i (\<lambda>u. u\<lparr>us_status := UserBlocked\<rparr>) s)"
    using assms(2) u r by (auto simp: blockUser_def change_status_def logSecurityEvent_def split: if_splits)
  have s2: "refreshSessions s2 = refreshSessions s" "find_user i s2 = Some (u\<lparr>us_status := UserBlocked\<rparr>)"
    unfolding b [symmetric] by (subst b, simp, subst b, simp add: find_set_user u)
  obtain r' where r': "refresh env rq tok s2 = (Inr r', s2\<lparr>refreshSessions := update_where (\<lambda>y. rs_id y = rs_id x)
       (rotate_session env rq (au_refreshToken r')) (refreshSessions s2)\<rparr>)" "au_user r' = u\<lparr>us_status := UserBlocked\<rparr>"
     "au_accessToken r' = au_accessToken r"
    using refresh_success [OF rotated(1,2) rotated(3) [folded s2(1)] rotated(4) s2(2)] r1 assms(1) by auto
  have "jwt_validate env rq (au_accessToken r') (s2\<lparr>refreshSessions := xs\<rparr>) = Inr p"
    if "ae_verify env (ae_accessSecret env) (rq_now rq) (au_accessToken r') = Inr p" "sub_of p = Inr i" for p xs
    using that s2(2) by (simp add: jwt_validate_def)
  then show ?thesis using r' r by auto
qed


lemma find_rotated:
  assumes "find P xs = Some x" "distinct (map rs_id xs)" "\<And>y. P' y \<Longrightarrow> P y" "P' (f x)"
  shows "find P' (update_where (\<lambda>y. rs_id y = rs_id x) f xs) = Some (f x)"
  using assms(1,2)
proof (induction xs)
  case (Cons y ys)
  show ?case
  proof (cases "P y")
    case True
    then show ?thesis using Cons.prems assms(4) by simp
  next
    case False
    then have "rs_id y \<noteq> rs_id x" using Cons.prems find_SomeD [of P ys x] by auto
    then show ?thesis using False Cons assms(3) by auto
  qed
qed simp

text \<open>
  A used refresh token can be used again. Rotation is meant to leave only the new token valid:
  the session stores its hash. But the hash function reads 72 bytes (\<open>bcrypt\<close>), and the first 72 bytes of
  a signed token hold its header and the beginning of the user's id, which all refresh tokens of a user
  share (\<open>prefix\<close>). So a token that has been exchanged is accepted again, as long as it has not expired and
  the session has not been revoked.
\<close>

theorem refresh_token_replay:
  assumes bcrypt: "\<forall>salt p q. ae_compare env p (ae_hash env salt q) = (take 72 p = take 72 q)"
    and prefix: "\<forall>rq1 rq2 jti1 jti2 sid1 sid2 did1 did2. take 72 (signRefreshToken env rq1 jti1 i sid1 did1) = take 72 (signRefreshToken env rq2 jti2 i sid2 did2)"
    and token: "tok = signRefreshToken env rq0 jti i sid (Some d)"
    and valid: "\<forall>now < expiry. ae_verify env (ae_refreshSecret env) now tok = Inr (refresh_claims jti i sid (Some d))"
    and first: "refresh env rq tok s = (Inr r, s')" and ids: "distinct (map rs_id (refreshSessions s))"
    and later: "rq_now rq \<le> rq_now rq'" "rq_now rq' < expiry" "rq_now rq' < rq_now rq + REFRESH_TOKEN_TTL_SECONDS * 1000"
  shows "\<exists>r' s''. refresh env rq' tok s' = (Inr r', s'')"
proof -
  let ?p = "refresh_claims jti i sid (Some d)"
  have p: "ae_verify env (ae_refreshSecret env) (rq_now rq) tok = Inr ?p" "ae_verify env (ae_refreshSecret env) (rq_now rq') tok = Inr ?p"
    using valid later by auto
  have claims: "sub_of ?p = Inr i" "jget ''did'' ?p = JStr d" by (simp_all add: refresh_claims_def sub_of_def jopt_def)
  from first obtain x u where x: "find (session_matches (rq_now rq) i (JStr d)) (refreshSessions s) = Some x" "ae_compare env tok (rs_tokenHash x)"
    and u: "find_user i s = Some u"
    using p claims by (auto simp: refresh_def Let_def split: option.splits if_splits)
  from refresh_success [OF p(1) claims(1) x(1) [folded claims(2)] x(2) u] first
  have s': "s' = s\<lparr>refreshSessions := update_where (\<lambda>y. rs_id y = rs_id x) (rotate_session env rq (au_refreshToken r)) (refreshSessions s)\<rparr>"
    and new: "au_refreshToken r = signRefreshToken env rq (rq_uuid rq 2) i (rq_uuid rq 0) (Some d)"
    by (auto simp: claims)
  let ?x = "rotate_session env rq (au_refreshToken r) x"
  have matches: "session_matches (rq_now rq) i (JStr d) x" using find_SomeD [OF x(1)] by simp
  have "find (session_matches (rq_now rq') i (JStr d)) (refreshSessions s') = Some ?x"
    unfolding s' using matches later
    by (simp, intro find_rotated [OF x(1) ids]) (auto simp: session_matches_def rotate_session_def)
  moreover have "ae_compare env tok (rs_tokenHash ?x)"
    using bcrypt prefix unfolding token new by (simp add: rotate_session_def)
  moreover have "find_user i s' = Some u" unfolding s' by (simp add: u)
  ultimately show ?thesis using refresh_success [OF p(2) claims(1), of s' ?x u] claims(2) by auto
qed

text \<open>
  The PIN can be replaced without knowing it. \<open>setupPin\<close> asks for an access token and nothing
  else: whoever holds one, with or without a verified PIN, can set a new PIN, and if the PIN is not locked
  the new one is accepted at once and yields a token marked as PIN-verified, which opens the operations
  that the PIN protects.
\<close>

theorem setupPin_replaces_pin:
  assumes bcrypt: "\<forall>salt p. ae_compare env p (ae_hash env salt p)" "\<forall>salt p. ae_hash env salt p \<noteq> []"
    and "find_user i s = Some u" and "\<not> pin_locked (rq_now rq') u"
  shows "\<exists>s1 s2 acc ref. setupPin env rq i pin s = (Inr (), s1) \<and> verifyPin env rq' i pin dev s1 = (Inr (acc, ref, i), s2)
     \<and> (\<exists>sid did jti. acc = signAccessToken env rq' jti i sid did True) \<and> length (live_sessions i s2) = Suc (length (live_sessions i s))"
proof -
  let ?s1 = "logSecurityEvent rq i ''PIN_SETUP'' (JObj []) (set_user i (\<lambda>u. u\<lparr>us_pinHash := Some (ae_hash env (rq_salt rq 0) pin)\<rparr>) s)"
  have "find_user i ?s1 = Some (u\<lparr>us_pinHash := Some (ae_hash env (rq_salt rq 0) pin)\<rparr>)"
    using assms(3) by (simp add: find_set_user)
  moreover have "setupPin env rq i pin s = (Inr (), ?s1)" using assms(3) by (simp add: setupPin_def)
  ultimately show ?thesis
    using assms by (auto simp: verifyPin_def has_text_def pin_locked_def Let_def generateAuthResponse_def live_sessions_def new_session_def)
qed

section \<open>An example\<close>

text \<open>
  A library that satisfies the hypotheses above: a hash that keeps 72 bytes, tokens whose first 72 bytes
  are the padded user id, and a verification that knows one token.
\<close>

definition demo_sign :: "string \<Rightarrow> int \<Rightarrow> int \<Rightarrow> json \<Rightarrow> string" where
  "demo_sign secret now ttl p = take 72 ((case jget ''sub'' p of JStr u \<Rightarrow> u | _ \<Rightarrow> []) @ replicate 72 CHR ''x'')
     @ (case jget ''jti'' p of JStr u \<Rightarrow> u | _ \<Rightarrow> [])"

definition demo_rq :: "int \<Rightarrow> identity_request" where
  "demo_rq now = \<lparr>rq_now = now, rq_uuid = (\<lambda>n. int_text (now + int n)), rq_salt = (\<lambda>n. []), rq_random = 1 / 2, rq_ip = None, rq_userAgent = None,
     rq_smsUp = True, rq_kafkaUp = True\<rparr>"

definition demo_auth :: auth_env where
  "demo_auth = \<lparr>ae_hash = (\<lambda>salt p. ''h'' @ take 72 p), ae_compare = (\<lambda>p h. h = ''h'' @ take 72 p), ae_sign = demo_sign,
     ae_verify = (\<lambda>secret now t. if now < 1000000000 then Inr (refresh_claims ''j'' ''u1'' ''s'' (Some ''d1'')) else Inl TokenExpired),
     ae_accessSecret = ''a'', ae_refreshSecret = ''r'', ae_registrationSecret = ''g'', ae_jwtSecret = ''w'',
     ae_decrypt = (\<lambda>k iv tag enc. None), ae_piiKey = None\<rparr>"

definition demo_user :: user where
  "demo_user = \<lparr>us_id = ''u1'', us_phoneNumber = ''+66812345678'', us_email = None, us_passwordHash = Some ''hsecret'', us_pinHash = Some ''h123456'',
     us_status = UserActive, us_registrationState = RegCompleted, us_pinAttempts = 0, us_pinLockedUntil = None, us_ledgerAccountId = None,
     us_createdAt = 0\<rparr>"

definition demo_challenge :: otp_challenge where
  "demo_challenge = \<lparr>oc_id = ''c1'', oc_userId = ''u1'', oc_phoneNumber = ''+66812345678'', oc_code = ''h999999'', oc_expiresAt = 180000,
     oc_verifiedAt = None, oc_attempts = 0\<rparr>"

definition demo_token :: string where
  "demo_token = signRefreshToken demo_auth (demo_rq 0) ''j'' ''u1'' ''s'' (Some ''d1'')"

definition demo_identity :: identity_db where
  "demo_identity = \<lparr>users = [demo_user], userDevices = [], refreshSessions = [(new_session demo_auth (demo_rq 0) ''u1'' (Some ''d1'') demo_token)],
     otpChallenges = [demo_challenge], userConsents = [], securityEvents = [], userSettings = [], addresses = [], kycData = [], piiData = [],
     smsOutbox = [], securityTopic = []\<rparr>"

lemma demo_found: "find_user ''u1'' demo_identity = Some demo_user" "find_challenge ''c1'' demo_identity = Some demo_challenge"
  by (simp_all add: find_user_def find_challenge_def demo_identity_def demo_user_def demo_challenge_def)

lemma demo_bcrypt: "ae_compare demo_auth p (ae_hash demo_auth salt q) = (take 72 p = take 72 q)" "ae_hash demo_auth salt p \<noteq> []"
  by (auto simp: demo_auth_def)

lemma demo_prefix: "take 72 (signRefreshToken demo_auth rq1 jti1 i sid1 did1) = take 72 (signRefreshToken demo_auth rq2 jti2 i sid2 did2)"
  by (simp add: signRefreshToken_def demo_auth_def demo_sign_def refresh_claims_def)

theorem verifyOtpChallenge_once_witness:
  "\<exists>u s'. verifyOtpChallenge demo_auth (demo_rq 5) ''c1'' ''0812345678'' ''999999'' demo_identity = (Inr u, s')
     \<and> (\<exists>e. verifyOtpChallenge demo_auth (demo_rq 6) ''c1'' ''0812345678'' ''999999'' s' = (Inl e, s'))"
proof -
  have "case verifyOtpChallenge demo_auth (demo_rq 5) ''c1'' ''0812345678'' ''999999'' demo_identity of (Inr _, _) \<Rightarrow> True | _ \<Rightarrow> False"
    by code_simp
  then obtain u s' where run: "verifyOtpChallenge demo_auth (demo_rq 5) ''c1'' ''0812345678'' ''999999'' demo_identity = (Inr u, s')"
    by (auto split: prod.splits sum.splits)
  from verifyOtpChallenge_once [OF run] run show ?thesis by blast
qed

theorem otp_attempts_unlimited_witness:
  "fst (verifyOtpChallenge demo_auth (demo_rq 5) ''c1'' ''0812345678'' ''999999''
     (otp_attempts demo_auth (demo_rq 5) ''c1'' ''0812345678'' (replicate 100 ''000000'') demo_identity)) = Inr demo_user"
proof -
  have "oc_phoneNumber demo_challenge \<in> set (getPhoneCandidates ''0812345678'')" "rq_now (demo_rq 5) \<le> oc_expiresAt demo_challenge"
    "oc_verifiedAt demo_challenge = None" "ae_compare demo_auth ''999999'' (oc_code demo_challenge)"
    "find_user (oc_userId demo_challenge) demo_identity = Some demo_user" by code_simp+
  moreover have "list_all (\<lambda>otp. \<not> ae_compare demo_auth otp (oc_code demo_challenge)) (replicate 100 ''000000'')"
    by (simp add: list_all_iff demo_auth_def demo_challenge_def)
  ultimately show ?thesis using otp_attempts_unlimited [OF demo_found(2)] by blast
qed

theorem pin_guesses_bounded_witness:
  "int (evaluated_guesses demo_auth ''u1'' [\<lparr>pg_rq = demo_rq 1, pg_pin = ''000000'', pg_device = ''d1''\<rparr>,
     \<lparr>pg_rq = demo_rq 2, pg_pin = ''000001'', pg_device = ''d1''\<rparr>] demo_identity) \<le> 3 + (1000 - 1) div (5 * 60 * 1000)"
  by (rule pin_guesses_bounded [OF demo_found(1), of "''h123456''"])
     (simp_all add: demo_user_def demo_auth_def demo_rq_def)

theorem login_single_session_witness:
  "\<exists>r s' x. login demo_auth (demo_rq 9) \<lparr>lg_phoneNumber = ''0812345678'', lg_password = ''secret'', lg_deviceId = ''d2'', lg_deviceName = None, lg_pushToken = None\<rparr>
     demo_identity = (Inr r, s') \<and> live_sessions ''u1'' s' = [x]"
proof -
  let ?run = "login demo_auth (demo_rq 9) \<lparr>lg_phoneNumber = ''0812345678'', lg_password = ''secret'', lg_deviceId = ''d2'', lg_deviceName = None, lg_pushToken = None\<rparr>
     demo_identity"
  have "case ?run of (Inr _, _) \<Rightarrow> True | _ \<Rightarrow> False" by code_simp
  then obtain r s' where run: "?run = (Inr r, s')" by (auto split: prod.splits sum.splits)
  have "user_by_phone (normalizePhone ''0812345678'') demo_identity = Some demo_user" by code_simp
  with login_single_session [OF run] run show ?thesis by (auto simp: demo_user_def)
qed

lemma demo_refreshed: "\<exists>r s'. refresh demo_auth (demo_rq 7) demo_token demo_identity = (Inr r, s') \<and> au_user r = demo_user"
proof -
  have "case refresh demo_auth (demo_rq 7) demo_token demo_identity of (Inr r, _) \<Rightarrow> au_user r = demo_user | _ \<Rightarrow> False" by code_simp
  then show ?thesis by (auto split: prod.splits sum.splits)
qed

theorem blocked_users_refresh_witness:
  "\<exists>v s2 r' s3. blockUser (demo_rq 8) ''u1'' None demo_identity = (Inr v, s2) \<and> refresh demo_auth (demo_rq 7) demo_token s2 = (Inr r', s3)
     \<and> us_status (au_user r') = UserBlocked"
proof -
  obtain r s1 where run: "refresh demo_auth (demo_rq 7) demo_token demo_identity = (Inr r, s1)" "au_user r = demo_user" using demo_refreshed by blast
  have "\<exists>v s2. blockUser (demo_rq 8) ''u1'' None demo_identity = (Inr v, s2)"
    using demo_found(1) by (simp add: blockUser_def change_status_def demo_user_def)
  then obtain v s2 where b: "blockUser (demo_rq 8) (us_id (au_user r)) None demo_identity = (Inr v, s2)" by (auto simp: run(2) demo_user_def)
  from blocked_users_refresh [OF run(1) b] b show ?thesis by (auto simp: run(2) demo_user_def)
qed

theorem refresh_token_replay_witness:
  "\<exists>r s' r' s''. refresh demo_auth (demo_rq 7) demo_token demo_identity = (Inr r, s') \<and> refresh demo_auth (demo_rq 8) demo_token s' = (Inr r', s'')"
proof -
  obtain r s' where run: "refresh demo_auth (demo_rq 7) demo_token demo_identity = (Inr r, s')" using demo_refreshed by blast
  have "\<exists>r' s''. refresh demo_auth (demo_rq 8) demo_token s' = (Inr r', s'')"
  proof (rule refresh_token_replay [OF _ _ demo_token_def _ run, of 1000000000])
    show "\<forall>salt p q. ae_compare demo_auth p (ae_hash demo_auth salt q) = (take 72 p = take 72 q)" using demo_bcrypt by blast
    show "\<forall>rq1 rq2 jti1 jti2 sid1 sid2 did1 did2. take 72 (signRefreshToken demo_auth rq1 jti1 ''u1'' sid1 did1) =
        take 72 (signRefreshToken demo_auth rq2 jti2 ''u1'' sid2 did2)" using demo_prefix by blast
  qed (simp_all add: demo_auth_def demo_identity_def demo_rq_def REFRESH_TOKEN_TTL_SECONDS_def)
  with run show ?thesis by blast
qed

theorem setupPin_replaces_pin_witness:
  "\<exists>s1 s2 acc ref. setupPin demo_auth (demo_rq 7) ''u1'' ''000000'' demo_identity = (Inr (), s1)
     \<and> verifyPin demo_auth (demo_rq 8) ''u1'' ''000000'' ''d1'' s1 = (Inr (acc, ref, ''u1''), s2)"
proof -
  have "\<not> pin_locked (rq_now (demo_rq 8)) demo_user" by (simp add: pin_locked_def demo_user_def)
  moreover have "\<forall>salt p. ae_compare demo_auth p (ae_hash demo_auth salt p)" "\<forall>salt p. ae_hash demo_auth salt p \<noteq> []" using demo_bcrypt by blast+
  ultimately show ?thesis using setupPin_replaces_pin [OF _ _ demo_found(1)] by blast
qed

end
