(* ===== verification/Kyc_Props.thy ===== *)
theory Kyc_Props
  imports Kyc Identity_Props
begin

text \<open>
  Properties of customer verification: personal data at rest, the dates of a card, the review and what it does
  to an account, and one card for one account.
\<close>

section \<open>Personal data at rest\<close>

lemma split_colon_single: "CHR '':'' \<notin> set b \<Longrightarrow> split_colon b = [b]"
  by (induction b) auto

lemma split_colon_append: "CHR '':'' \<notin> set a \<Longrightarrow> split_colon (a @ CHR '':'' # b) = a # split_colon b"
  by (induction a) auto

definition hex_digit :: "char \<Rightarrow> bool" where
  "hex_digit c \<longleftrightarrow> is_digit c \<or> (97 \<le> (of_char c :: nat) \<and> (of_char c :: nat) \<le> 102)"

lemma hex_no_colon: "list_all hex_digit t \<Longrightarrow> CHR '':'' \<notin> set t"
  by (auto simp: list_all_iff hex_digit_def is_digit_def)

text \<open>
  What the portal encrypts it can read. With the key configured, a cipher that inverts itself and
  hexadecimal outputs of the documented lengths, decrypting an encrypted text gives it back: the three
  parts survive the joining and splitting at colons. One text is lost, the empty one, whose ciphertext is
  taken for a damaged record; without the key nothing is written at all.
\<close>

theorem encryptPii_roundtrip:
  assumes inverse: "\<forall>key iv d. ae_decrypt (ke_auth ke) key iv (fst (ke_encrypt ke key iv d)) (snd (ke_encrypt ke key iv d)) = Some d"
    and lengths: "\<forall>key iv d. length (fst (ke_encrypt ke key iv d)) = 32 \<and> length (snd (ke_encrypt ke key iv d)) = 2 * length d"
    and hex: "\<forall>key iv d. list_all hex_digit (fst (ke_encrypt ke key iv d) @ snd (ke_encrypt ke key iv d))"
    and iv: "\<forall>k. length (ke_iv ke k) = 24 \<and> list_all hex_digit (ke_iv ke k)"
  shows "case encryptPii ke k d of
      Inr c \<Rightarrow> if d = [] then decryptPii (ke_auth ke) c = Inl (Plain ''Could not decrypt PII data'') else decryptPii (ke_auth ke) c = Inr d
    | Inl e \<Rightarrow> ae_piiKey (ke_auth ke) \<in> {None, Some []}"
proof (cases "has_text (ae_piiKey (ke_auth ke))")
  case False
  then show ?thesis by (auto simp: has_text_def encryptPii_def split: option.splits list.splits)
next
  case True
  then obtain c t where key: "ae_piiKey (ke_auth ke) = Some (c # t)" by (cases "ae_piiKey (ke_auth ke)"; cases "the (ae_piiKey (ke_auth ke))") (auto simp: has_text_def)
  obtain tag enc where te: "ke_encrypt ke (c # t) (ke_iv ke k) d = (tag, enc)" by fastforce
  have len: "length tag = 32" "length enc = 2 * length d" "list_all hex_digit tag" "list_all hex_digit enc"
    using lengths [rule_format, of "c # t" "ke_iv ke k" d] hex [rule_format, of "c # t" "ke_iv ke k" d] te by simp_all
  have parts: "split_colon (ke_iv ke k @ '':'' @ tag @ '':'' @ enc) = [ke_iv ke k, tag, enc]"
    using iv len by (simp add: split_colon_append split_colon_single hex_no_colon)
  have ne: "ke_iv ke k \<noteq> []" "tag \<noteq> []" "enc = [] \<longleftrightarrow> d = []" using iv [rule_format, of k] len by auto
  have "ae_decrypt (ke_auth ke) (c # t) (ke_iv ke k) tag enc = Some d" using inverse [rule_format, of "c # t" "ke_iv ke k" d] te by simp
  moreover have "encryptPii ke k d = Inr (ke_iv ke k @ '':'' @ tag @ '':'' @ enc)" by (simp add: encryptPii_def key te)
  ultimately show ?thesis using parts ne by (simp add: decryptPii_def key)
qed

section \<open>Dates of a card\<close>

lemma split_parts_single: "list_all (\<lambda>u. \<not> separator u) a \<Longrightarrow> split_parts a = [a]"
  by (induction a) auto

lemma split_parts_sep: "list_all (\<lambda>u. \<not> separator u) a \<Longrightarrow> separator u \<Longrightarrow> split_parts (a @ u # b) = a # split_parts b"
  by (induction a) auto

lemma date_parts_skip: "list_all separator s \<Longrightarrow> date_parts (s @ b) = date_parts b"
  by (induction s) (auto simp: date_parts_def)

lemma date_parts_part:
  assumes "list_all (\<lambda>u. \<not> separator u) a" "a \<noteq> []" "list_all separator s" "s \<noteq> []"
  shows "date_parts (a @ s @ b) = a # date_parts b"
proof -
  obtain u t where s: "s = u # t" using assms(4) by (cases s) auto
  have "date_parts (a @ s @ b) = a # date_parts (t @ b)"
    using assms(1-3) by (simp add: s date_parts_def split_parts_sep)
  then show ?thesis using assms(3) by (simp add: s date_parts_skip)
qed

lemma date_parts_last: "list_all (\<lambda>u. \<not> separator u) a \<Longrightarrow> a \<noteq> [] \<Longrightarrow> date_parts a = [a]"
  by (simp add: date_parts_def split_parts_single)

lemma digit16_char: "k < 10 \<Longrightarrow> digit16 (48 + k)"
  by (simp add: digit16_def)

lemma units_nat_digits: "list_all digit16 (units (nat_digits n))" "units (nat_digits n) \<noteq> []"
proof -
  show "list_all digit16 (units (nat_digits n))"
    by (induction n rule: nat_digits.induct) (subst nat_digits.simps, auto simp: units_def of_char_of digit16_char)
  show "units (nat_digits n) \<noteq> []" by (subst nat_digits.simps) (simp add: units_def)
qed

lemma digit_no_separator: "list_all digit16 a \<Longrightarrow> list_all (\<lambda>u. \<not> separator u) a"
  by (auto simp: list_all_iff digit16_def separator_def space16_def)

lemma value16_snoc: "value16 b (us @ [u]) = int b * value16 b us + (if digit16 u then int u - 48 else int (lower16 u) - 87)"
  by (simp add: value16_def)

lemma value16_nat_digits: "value16 10 (units (nat_digits n)) = int n"
proof (induction n rule: nat_digits.induct)
  case (1 n)
  have "units (nat_digits n) = (if n < 10 then [] else units (nat_digits (n div 10))) @ [48 + n mod 10]"
    by (subst nat_digits.simps) (auto simp: units_def of_char_of)
  moreover have "int n = 10 * int (n div 10) + int (n mod 10)" by presburger
  moreover have "digit16 (48 + n mod 10)" by (rule digit16_char) simp
  ultimately show ?case using 1
    by (cases "n < 10") (simp_all add: value16_snoc, simp add: value16_def)
qed

lemma parse_digits:
  assumes "list_all digit16 a" "a \<noteq> []"
  shows "parse_int16 a = Some (value16 10 a)"
proof -
  obtain c cs where a: "a = c # cs" using assms(2) by (cases a) auto
  have "take 2 (map lower16 a) \<noteq> [48, 120]"
    using assms(1) by (cases cs) (auto simp: a digit16_def lower16_def split: if_splits)
  moreover have tw: "takeWhile digit16 a = a" using assms(1) by (simp add: takeWhile_eq_all_conv list_all_iff)
  ultimately have "parse_unsigned16 a = Some (value16 10 a)" using assms(2) unfolding parse_unsigned16_def Let_def tw by simp
  moreover have "c \<noteq> 45" "c \<noteq> 43" using assms(1) by (auto simp: a digit16_def)
  ultimately show ?thesis by (simp add: parse_int16_def a)
qed

lemmas parse_nat_digits = parse_digits [OF units_nat_digits, unfolded value16_nat_digits]

lemma starts_with_set: "starts_with m w \<Longrightarrow> set m \<subseteq> set w"
  by (induction m w rule: starts_with.induct) auto

lemma contains_set: "contains m w \<Longrightarrow> set m \<subseteq> set w"
  by (induction m w rule: contains.induct) (use starts_with_set in fastforce)+

lemma mapMonth_no_thai:
  assumes "list_all (\<lambda>u. \<not> separator u) w"
  shows "findIndex (\<lambda>m. contains m w) thaiMonths = None"
proof -
  have c: "contains m w \<Longrightarrow> 46 \<in> set m \<Longrightarrow> False" for m
  proof -
    assume "contains m w" "46 \<in> set m"
    then have "46 \<in> set w" using contains_set [of m w] by (auto simp: subset_iff)
    then show False using assms by (auto simp: list_all_iff separator_def)
  qed
  have "\<forall>m\<in>set thaiMonths. 46 \<in> set m" by (simp add: thaiMonths_def)
  then have "\<forall>m\<in>set thaiMonths. \<not> contains m w" using c by (auto simp del: contains.simps)
  moreover have "\<forall>m\<in>set ms. \<not> p m \<Longrightarrow> findIndex p ms = None" for p :: "utf16 \<Rightarrow> bool" and ms
    by (induction ms) auto
  ultimately show ?thesis by (simp del: contains.simps)
qed

definition month_units :: "utf16 list" where
  "month_units = [[106, 97, 110], [102, 101, 98], [109, 97, 114], [97, 112, 114], [109, 97, 121], [106, 117, 110], [106, 117, 108],
     [97, 117, 103], [115, 101, 112], [111, 99, 116], [110, 111, 118], [100, 101, 99]]"

lemma month_units: "map (\<lambda>m. map lower16 (units m)) engMonths = month_units"
  by (simp add: engMonths_def month_units_def units_def lower16_def)

lemma findIndex_map: "findIndex p (map f xs) = findIndex (\<lambda>x. p (f x)) xs"
  by (induction xs) auto

lemma findIndex_month:
  assumes "m < 12" "starts_with (month_units ! m) w"
  shows "findIndex (\<lambda>u. starts_with u w) month_units = Some m"
proof -
  have m: "m = 0 \<or> m = 1 \<or> m = 2 \<or> m = 3 \<or> m = 4 \<or> m = 5 \<or> m = 6 \<or> m = 7 \<or> m = 8 \<or> m = 9 \<or> m = 10 \<or> m = 11"
    using assms(1) by presburger
  have three: "list_all (\<lambda>u. length u = 3) month_units" by (simp add: month_units_def)
  have "starts_with u w \<Longrightarrow> length u \<le> length w" for u :: utf16 by (induction u w rule: starts_with.induct) auto
  moreover have "length (month_units ! m) = 3" using three assms(1) by (simp add: list_all_length month_units_def)
  ultimately have "3 \<le> length w" using assms(2) by fastforce
  then obtain a b c r where w: "w = a # b # c # r" by (metis Suc_le_length_iff numeral_3_eq_3)
  from m show ?thesis using assms(2) unfolding w by (elim disjE; simp add: month_units_def)
qed

lemma mapMonth_english:
  assumes "list_all (\<lambda>u. \<not> separator u) w" "m < 12" "starts_with (map lower16 (units (engMonths ! m))) (map lower16 w)"
  shows "mapMonth w = m"
proof -
  have len: "length engMonths = 12" by (simp add: engMonths_def)
  have "map lower16 (units (engMonths ! m)) = month_units ! m"
    using assms(2) by (simp add: len flip: month_units)
  then have "findIndex (\<lambda>m. starts_with (map lower16 (units m)) (map lower16 w)) engMonths = Some m"
    using findIndex_month [OF assms(2), of "map lower16 w"] assms(3) by (simp flip: month_units add: findIndex_map)
  then show ?thesis by (simp add: mapMonth_def mapMonth_no_thai [OF assms(1)])
qed

lemma mapMonth_digits:
  assumes "list_all digit16 w"
  shows "mapMonth w = 0"
proof -
  have "\<not> starts_with (map lower16 (units m)) (map lower16 w)" if "m \<in> set engMonths" for m
  proof
    assume s: "starts_with (map lower16 (units m)) (map lower16 w)"
    have "\<exists>u\<in>set (map lower16 (units m)). 57 < u" using that by (auto simp: engMonths_def units_def lower16_def)
    then obtain v where "v \<in> set (map lower16 w)" "57 < v" using starts_with_set [OF s] by blast
    then have "\<exists>u\<in>set w. 57 < lower16 u" by auto
    then show False using assms by (auto simp: list_all_iff digit16_def lower16_def split: if_splits)
  qed
  moreover have "\<forall>m\<in>set ms. \<not> p m \<Longrightarrow> findIndex p ms = None" for p :: "string \<Rightarrow> bool" and ms
    by (induction ms) auto
  ultimately show ?thesis by (simp add: mapMonth_def mapMonth_no_thai [OF digit_no_separator [OF assms]])
qed

lemma new_Date_near:
  assumes "d \<le> 31" "m < 12" "1900 \<le> y" "y \<le> 2400"
  shows "new_Date (int y) (int m) (int d) = Some (MakeDay (int y) (int m) (int d) * msPerDay)"
proof -
  have m: "m = 0 \<or> m = 1 \<or> m = 2 \<or> m = 3 \<or> m = 4 \<or> m = 5 \<or> m = 6 \<or> m = 7 \<or> m = 8 \<or> m = 9 \<or> m = 10 \<or> m = 11"
    using assms(2) by presburger
  have r: "[0..1::int] = [0, 1]" "[0..2::int] = [0, 1, 2]" "[0..3::int] = [0, 1, 2, 3]" "[0..4::int] = [0, 1, 2, 3, 4]" "[0..5::int] = [0, 1, 2, 3, 4, 5]"
    "[0..6::int] = [0, 1, 2, 3, 4, 5, 6]" "[0..7::int] = [0, 1, 2, 3, 4, 5, 6, 7]" "[0..8::int] = [0, 1, 2, 3, 4, 5, 6, 7, 8]"
    "[0..9::int] = [0, 1, 2, 3, 4, 5, 6, 7, 8, 9]" "[0..10::int] = [0, 1, 2, 3, 4, 5, 6, 7, 8, 9, 10]" by (simp_all add: upto_rec1)
  have "0 \<le> days_before (int y) (int m) \<and> days_before (int y) (int m) \<le> 366"
    using m by (auto simp: days_before_def month_days_def r)
  moreover have "365 * (int y - 1970) - 18 \<le> DayFromYear (int y)" "DayFromYear (int y) \<le> 365 * (int y - 1970) + 110"
    using assms(3,4) unfolding DayFromYear_def by linarith+
  ultimately have "\<bar>MakeDay (int y) (int m) (int d)\<bar> \<le> 200000"
    using assms unfolding MakeDay_def Let_def by simp linarith
  then have "\<bar>MakeDay (int y) (int m) (int d) * msPerDay\<bar> \<le> 8640000000000000" by (simp add: msPerDay_def)
  then show ?thesis using assms(3) by (simp add: new_Date_def)
qed

lemma parseDate_parts:
  assumes "list_all (\<lambda>u. \<not> separator u) w" "w \<noteq> []" "list_all separator s1" "s1 \<noteq> []" "list_all separator s2" "s2 \<noteq> []"
  shows "parseDate (Some (units (nat_digits d) @ s1 @ w @ s2 @ units (nat_digits y))) =
     new_Date (if 2400 < y then int y - 543 else int y) (int (mapMonth w)) (int d)"
  using assms units_nat_digits digit_no_separator
  by (simp add: parseDate_def date_parts_part date_parts_last parse_nat_digits)

text \<open>
  A date with an English month is read as it is written. Whatever separates the three parts, with
  the month as a name or an abbreviation in any case, from 1900 to 2400, \<open>parseDate\<close> gives the local
  midnight of that day; the same day written with the year of the Buddhist era gives the same date.
\<close>

theorem parseDate_english:
  assumes "d \<le> 31" "m < 12" "1900 \<le> y" "y \<le> 2400" "w \<noteq> []" "list_all (\<lambda>u. \<not> separator u) w"
    and "starts_with (map lower16 (units (engMonths ! m))) (map lower16 w)"
    and "list_all separator s1" "s1 \<noteq> []" "list_all separator s2" "s2 \<noteq> []"
  shows "parseDate (Some (units (nat_digits d) @ s1 @ w @ s2 @ units (nat_digits y))) = Some (MakeDay (int y) (int m) (int d) * msPerDay)
     \<and> parseDate (Some (units (nat_digits d) @ s1 @ w @ s2 @ units (nat_digits (y + 543)))) =
       parseDate (Some (units (nat_digits d) @ s1 @ w @ s2 @ units (nat_digits y)))"
  using parseDate_parts [OF assms(6,5,8,9,10,11)] new_Date_near [OF assms(1,2,3,4)] mapMonth_english [OF assms(6,2,7)] assms(3,4)
  by simp

lemma parseDate_two_words:
  assumes "list_all (\<lambda>u. \<not> separator u) a" "a \<noteq> []" "list_all (\<lambda>u. \<not> separator u) (b # c)" "58 < b"
  shows "parseDate (Some (units (nat_digits d) @ [32] @ (a @ [46] @ b # c @ [46]) @ [32] @ units (nat_digits y))) = None"
proof -
  have s: "list_all separator [32]" "list_all separator [46]" "list_all separator [46, 32]" by (simp_all add: separator_def space16_def)
  note n = digit_no_separator [OF units_nat_digits(1)] units_nat_digits(2)
  have "date_parts (units (nat_digits d) @ [32] @ a @ [46] @ (b # c) @ [46, 32] @ units (nat_digits y)) =
      [units (nat_digits d), a, b # c, units (nat_digits y)]"
    unfolding date_parts_part [OF n s(1) list.distinct(2)] date_parts_part [OF assms(1,2) s(2) list.distinct(2)]
      date_parts_part [OF assms(3) list.distinct(2) s(3) list.distinct(2)] date_parts_last [OF n] by (rule refl)
  moreover have "parse_int16 (b # c) = None"
    using assms(4) by (simp add: parse_int16_def parse_unsigned16_def digit16_def lower16_def)
  ultimately show ?thesis by (simp add: parseDate_def split: option.splits)
qed

text \<open>
  Other months are lost. A month written as a number, as in 15/08/1990, is always read as January; and
  a date with a Thai month as cards have it is never read, because the text is split at the full stops
  inside the abbreviation before the table of Thai months is consulted.
\<close>

theorem parseDate_loses_months:
  assumes "d \<le> 31" "1900 \<le> y" "y \<le> 2400" "list_all digit16 w" "w \<noteq> []"
  shows "parseDate (Some (units (nat_digits d) @ [47] @ w @ [47] @ units (nat_digits y))) = Some (MakeDay (int y) 0 (int d) * msPerDay)
     \<and> list_all (\<lambda>month. parseDate (Some (units (nat_digits d) @ [32] @ month @ [32] @ units (nat_digits y))) = None) thaiMonths"
proof
  have sep: "list_all separator [47]" by (simp add: separator_def)
  show "parseDate (Some (units (nat_digits d) @ [47] @ w @ [47] @ units (nat_digits y))) = Some (MakeDay (int y) 0 (int d) * msPerDay)"
    using parseDate_parts [OF digit_no_separator [OF assms(4)] assms(5) sep list.distinct(2) sep list.distinct(2), of d y] new_Date_near [of d 0 y] assms
    by (simp add: mapMonth_digits)
  note none = parseDate_two_words [where c = "[]" and d = d and y = y]
  show "list_all (\<lambda>month. parseDate (Some (units (nat_digits d) @ [32] @ month @ [32] @ units (nat_digits y))) = None) thaiMonths"
    unfolding thaiMonths_def list.pred_inject
    using none [of "[0xE21]" "0xE04"] none [of "[0xE01]" "0xE1E"] none [of "[0xE21, 0xE35]" "0xE04"] none [of "[0xE40, 0xE21]" "0xE22"]
      none [of "[0xE1E]" "0xE04"] none [of "[0xE21, 0xE34]" "0xE22"] none [of "[0xE01]" "0xE04"] none [of "[0xE2A]" "0xE04"]
      none [of "[0xE01]" "0xE22"] none [of "[0xE15]" "0xE04"] none [of "[0xE1E]" "0xE22"] none [of "[0xE18]" "0xE04"]
    by (simp add: separator_def space16_def)
qed

section \<open>What the operations leave alone\<close>

lemma find_user_kyc_frame [simp]:
  "find_user i (kyc_emit rq e s) = find_user i s" "find_user i (set_kyc rq j f s') = find_user i s'"
  "find_user i (s\<lparr>financeWire := w\<rparr>) = find_user i s" "find_user i (s\<lparr>storedObjects := os\<rparr>) = find_user i s"
  "find_user i (upsert_kyc rq j f g s') = find_user i s'" "find_user i (upsert_pii j fld a b s') = find_user i s'"
  by (simp_all add: find_user_def kyc_emit_def set_kyc_def upsert_kyc_def upsert_pii_def Let_def)

lemma find_kyc_frame [simp]:
  "find_kyc i (kyc_emit rq e s) = find_kyc i s" "find_kyc i (set_user j h s') = find_kyc i s'"
  "find_kyc i (logSecurityEvent rq v t m s') = find_kyc i s'"
  "find_kyc i (s\<lparr>financeWire := w\<rparr>) = find_kyc i s" "find_kyc i (s\<lparr>storedObjects := os\<rparr>) = find_kyc i s"
  "find_kyc i (upsert_pii j fld a b s') = find_kyc i s'"
  by (simp_all add: find_kyc_def kyc_emit_def set_user_def logSecurityEvent_def upsert_pii_def Let_def)

lemma find_set_kyc:
  assumes "\<And>k. kd_userId (f k) = kd_userId k"
  shows "find_kyc i (set_kyc rq j f s) = (if i = j then map_option (\<lambda>k. (f k)\<lparr>kd_updatedAt := rq_now rq\<rparr>) (find_kyc i s) else find_kyc i s)"
proof -
  have "find_kyc i (set_kyc rq j f s) = map_option (\<lambda>k. if kd_userId k = j then (f k)\<lparr>kd_updatedAt := rq_now rq\<rparr> else k) (find_kyc i s)"
    unfolding find_kyc_def set_kyc_def by (simp add: find_update_where assms)
  then show ?thesis by (cases "find_kyc i s") (auto simp: find_kyc_def dest: find_SomeD)
qed

lemma on_finance_frame:
  "find_user i (snd (on_finance f s)) = find_user i s" "find_kyc i (snd (on_finance f s)) = find_kyc i s"
  by (simp_all add: on_finance_def split: prod.split)

lemma ledger_account_frame [simp]:
  "find_user i (ledger_account ke j u s) = find_user i s" "find_kyc i (ledger_account ke j u s) = find_kyc i s"
  by (simp_all add: ledger_account_def on_finance_frame split: option.split)

lemma link_wallet_user:
  assumes "link_wallet i d s = Some s'"
  shows "(\<exists>w. \<forall>j. find_user j s' = (if j = i then map_option (\<lambda>u. u\<lparr>us_ledgerAccountId := w u\<rparr>) (find_user j s) else find_user j s))
     \<and> (\<forall>j. find_kyc j s' = find_kyc j s)"
proof -
  have "s' = s \<or> (\<exists>w. s' = set_user i (\<lambda>u. u\<lparr>us_ledgerAccountId := w\<rparr>) s)"
    using assms by (auto simp: link_wallet_def split: if_splits json.splits)
  then show ?thesis
  proof (elim disjE exE)
    assume "s' = s"
    then show ?thesis by (intro conjI exI [of _ us_ledgerAccountId]) (auto simp: option.map_ident)
  next
    fix w assume "s' = set_user i (\<lambda>u. u\<lparr>us_ledgerAccountId := w\<rparr>) s"
    then show ?thesis by (intro conjI exI [of _ "\<lambda>_. w"]) (auto simp: find_set_user)
  qed
qed

lemma init_wallet_users:
  "\<exists>w. \<forall>j. find_user j (init_wallet ke i s) = (if j = i then map_option (\<lambda>u. u\<lparr>us_ledgerAccountId := w u\<rparr>) (find_user j s) else find_user j s)"
  (is "\<exists>w. ?P w (init_wallet ke i s)")
proof -
  have same: "\<exists>w. ?P w s'" if "\<And>j. find_user j s' = find_user j s" for s'
    using that by (intro exI [of _ us_ledgerAccountId]) (auto simp: option.map_ident)
  have fin: "find_user j s1 = find_user j s" if "on_finance f s = (r, s1)" for f r s1 j
    using on_finance_frame(1) [of j f s] that by simp
  show ?thesis
  proof (cases "has_text (Option.bind (find_user i s) us_ledgerAccountId)")
    case True
    obtain r s1 where r: "on_finance (activateWallet (ke_http ke) (ke_finance ke) i) s = (r, s1)" by fastforce
    show ?thesis using True r by (intro same) (cases r; simp add: init_wallet_def fin [OF r])
  next
    case False
    obtain r s1 where r: "on_finance (createWallet (ke_http ke) (ke_finance ke) i ''THB'') s = (r, s1)" by fastforce
    show ?thesis
    proof (cases "\<exists>d s2. r = Inr d \<and> link_wallet i d s1 = Some s2")
      case True
      then obtain d s2 where d: "r = Inr d" "link_wallet i d s1 = Some s2" by blast
      then have "init_wallet ke i s = ledger_account ke i (find_user i s) s2" using False r by (simp add: init_wallet_def)
      then show ?thesis using link_wallet_user [OF d(2)] by (auto simp: fin [OF r])
    next
      case no: False
      show ?thesis using False r no by (intro same) (cases r; auto simp: init_wallet_def fin [OF r] split: option.split)
    qed
  qed
qed

lemma init_wallet_kyc [simp]: "find_kyc j (init_wallet ke i s) = find_kyc j s"
proof -
  have fin: "find_kyc j s1 = find_kyc j s" if "on_finance f s = (r, s1)" for f r s1
    using on_finance_frame(2) [of j f s] that by simp
  show ?thesis
    by (auto simp: init_wallet_def Let_def fin dest: link_wallet_user split: prod.split sum.split option.split)
qed

section \<open>The decision\<close>

lemma approveKyc_effect:
  assumes "find_kyc i s = Some k" "kd_verificationStatus k \<noteq> KycApproved" "find_user i s = Some u"
  shows "\<exists>k' s' w. approveKyc ke rq i s = (Inr k', s') \<and> find_kyc i s' = Some k' \<and> kd_verificationStatus k' = KycApproved
     \<and> kd_verifiedAt k' = Some (rq_now rq)
     \<and> find_user i s' = Some (u\<lparr>us_ledgerAccountId := w, us_status := UserActive, us_registrationState := approved_state (us_registrationState u)\<rparr>)
     \<and> (\<forall>j. j \<noteq> i \<longrightarrow> find_user j s' = find_user j s \<and> find_kyc j s' = find_kyc j s)"
proof -
  let ?f = "\<lambda>k. k\<lparr>kd_verificationStatus := KycApproved, kd_verifiedAt := Some (rq_now rq)\<rparr>"
  let ?s1 = "init_wallet ke i (set_kyc rq i ?f s)"
  obtain w where w: "\<And>j. find_user j ?s1 = (if j = i then map_option (\<lambda>u. u\<lparr>us_ledgerAccountId := w u\<rparr>) (find_user j s) else find_user j s)"
  proof -
    obtain w where "\<forall>j. find_user j ?s1 = (if j = i then map_option (\<lambda>u. u\<lparr>us_ledgerAccountId := w u\<rparr>) (find_user j (set_kyc rq i ?f s))
        else find_user j (set_kyc rq i ?f s))" using init_wallet_users [of ke i "set_kyc rq i ?f s"] by blast
    then show ?thesis by (intro that [of w]) (simp only: find_user_kyc_frame)
  qed
  let ?k = "(?f k)\<lparr>kd_updatedAt := rq_now rq\<rparr>"
  obtain s' where run: "approveKyc ke rq i s = (Inr ?k, s')"
    and users: "\<And>j. find_user j s' = (if j = i then Some (u\<lparr>us_ledgerAccountId := w u, us_status := UserActive,
        us_registrationState := approved_state (us_registrationState u)\<rparr>) else find_user j s)"
    and kycs: "\<And>j. find_kyc j s' = (if j = i then Some ?k else find_kyc j s)"
    using assms w by (auto simp: approveKyc_def Let_def find_set_user find_set_kyc)
  show ?thesis using run users kycs by (intro exI [of _ ?k] exI [of _ s'] exI [of _ "w u"]) auto
qed

text \<open>
  Approval always goes through, whatever the account's status. If the customer's verification is
  not approved yet, \<open>approveKyc\<close> succeeds even when the finance service is down: the record is approved at
  that instant, the account becomes active from every status, suspended, blocked or deleted ones too, its
  registration goes on from the state after the face check if it was not there yet, password and PIN stay
  as they were, and nobody else's account or record changes. A second approval is refused.
\<close>

theorem approveKyc_outcome:
  assumes "find_kyc i s = Some k" "kd_verificationStatus k \<noteq> KycApproved" "find_user i s = Some u"
  shows "\<exists>k' s' w. approveKyc ke rq i s = (Inr k', s') \<and> find_kyc i s' = Some k' \<and> kd_verificationStatus k' = KycApproved
     \<and> kd_verifiedAt k' = Some (rq_now rq)
     \<and> find_user i s' = Some (u\<lparr>us_ledgerAccountId := w, us_status := UserActive, us_registrationState := approved_state (us_registrationState u)\<rparr>)
     \<and> (\<forall>j. j \<noteq> i \<longrightarrow> find_user j s' = find_user j s \<and> find_kyc j s' = find_kyc j s)
     \<and> approveKyc ke rq' i s' = (Inl (Plain ''KYC is already approved''), s')"
  using approveKyc_effect [OF assms, of ke rq] by (fastforce simp: approveKyc_def)

lemma login_accepts:
  assumes "check_phone (lg_phoneNumber dto) = None" "user_by_phone (normalizePhone (lg_phoneNumber dto)) s = Some u"
    "us_status u \<in> {UserActive, PendingApproval, UserRejected, UserInactive}" "us_passwordHash u = Some h" "h \<noteq> []" "ae_compare env (lg_password dto) h"
  shows "\<exists>r s'. login env rq dto s = (Inr r, s') \<and> au_user r = u"
  using assms by (cases h) (simp_all add: login_def Let_def split_def)

text \<open>
  Asking for another try lifts a block. \<open>retryKyc\<close> puts every account it is called for into the
  status \<open>REJECTED\<close>, also one that staff have blocked or suspended, and \<open>REJECTED\<close> accounts may log in: a
  blocked user with a session that is still accepted calls it once and logs in again.
\<close>

theorem retryKyc_lifts_block:
  assumes "user_by_phone (normalizePhone (lg_phoneNumber dto)) s = Some u" "check_phone (lg_phoneNumber dto) = None"
    and "us_status u = UserBlocked" "us_passwordHash u = Some h" "h \<noteq> []" "ae_compare env (lg_password dto) h"
    and "find_kyc (us_id u) s \<noteq> None"
  shows "login env rq dto s = (Inl (Http UNAUTHORIZED ''Account is not active''), s)
     \<and> (\<exists>s1 r s2. retryKyc rq1 (us_id u) s = (Inr (), s1) \<and> login env rq dto s1 = (Inr r, s2) \<and> us_id (au_user r) = us_id u)"
proof
  show "login env rq dto s = (Inl (Http UNAUTHORIZED ''Account is not active''), s)"
    using assms(1-3) by (simp add: login_def)
  let ?f = "\<lambda>u. u\<lparr>us_registrationState := TC_ACCEPTED, us_status := UserRejected\<rparr>"
  let ?s = "set_user (us_id u) ?f s"
  let ?s1 = "set_kyc rq1 (us_id u) (\<lambda>k. k\<lparr>kd_verificationStatus := KycRejected, kd_reviewNote := None, kd_verifiedAt := None\<rparr>) ?s"
  have mem: "u \<in> set (users s)" using assms(1) by (auto simp: user_by_phone_def dest: find_SomeD)
  then have "find_user (us_id u) s \<noteq> None" by (auto simp: find_user_def find_None_iff)
  then have retry: "retryKyc rq1 (us_id u) s = (Inr (), ?s1)" using assms(7) by (auto simp: retryKyc_def Let_def)
  have "user_by_phone (normalizePhone (lg_phoneNumber dto)) ?s1 = Some (?f u)"
    using assms(1) by (simp add: user_by_phone_def set_kyc_def set_user_def find_update_where)
  then obtain r s2 where "login env rq dto ?s1 = (Inr r, s2)" "au_user r = ?f u"
    using login_accepts [of dto ?s1 "?f u" h env rq] assms by auto
  with retry show "\<exists>s1 r s2. retryKyc rq1 (us_id u) s = (Inr (), s1) \<and> login env rq dto s1 = (Inr r, s2) \<and> us_id (au_user r) = us_id u" by auto
qed

section \<open>One card, one account\<close>

lemma put_object_cases:
  obtains (stored) "put_object ke key b s = (Inr (ke_bucketUrl ke @ key), s\<lparr>storedObjects := storedObjects s @ [(key, b)]\<rparr>)"
  | (down) "put_object ke key b s = (Inl (Plain ''storage is not available''), s)"
  by (cases "ke_storageUp ke") (simp_all add: put_object_def)

lemma token_taken_frame [simp]: "token_taken i t (s\<lparr>storedObjects := os\<rparr>) = token_taken i t s"
  by (simp add: token_taken_def)

lemma validate_None_user: "validateRegistrationState i st s = None \<Longrightarrow> \<exists>u. find_user i s = Some u \<and> (us_status u = UserRejected \<or> us_registrationState u \<in> set st)"
  by (auto simp: validateRegistrationState_def split: option.splits if_splits)

lemma save_address_frame:
  assumes "save_address ke i a s = (r, s')"
  shows "kycData s' = kycData s" "find_user j s' = find_user j s"
  using assms by (auto simp: save_address_def upsert_pii_def find_user_def Let_def split: option.splits list.splits sum.splits if_splits)

lemma upsert_kyc_tokens:
  assumes "\<And>k. kd_userId (f k) = kd_userId k" "\<And>k. kd_userId (g k) = kd_userId k"
    and "\<And>k. kd_idCardToken (f k) = Some t" "\<And>k. kd_idCardToken (g k) = Some t" and "\<not> token_taken i (Some t) s"
  shows "\<not> token_taken i (Some t) (upsert_kyc rq i f g s) \<and> (\<exists>k\<in>set (kycData (upsert_kyc rq i f g s)). kd_userId k = i \<and> kd_idCardToken k = Some t)"
proof (cases "find_kyc i s")
  case None
  then show ?thesis using assms(2,4,5) by (auto simp: upsert_kyc_def token_taken_def new_kyc_def list_ex_iff)
next
  case (Some k)
  then have "k \<in> set (kycData s)" "kd_userId k = i" by (auto simp: find_kyc_def dest: find_SomeD)
  then show ?thesis
  proof -
    let ?k = "(f k)\<lparr>kd_updatedAt := rq_now rq\<rparr>"
    have "?k \<in> set (kycData (upsert_kyc rq i f g s))" using Some \<open>k \<in> set (kycData s)\<close> \<open>kd_userId k = i\<close>
      by (auto simp: upsert_kyc_def set_kyc_def set_update_where intro!: rev_image_eqI [of k])
    moreover have "\<not> token_taken i (Some t) (upsert_kyc rq i f g s)"
      using Some assms(1,3,5) by (auto simp: upsert_kyc_def set_kyc_def token_taken_def list_ex_iff set_update_where)
    ultimately show ?thesis using assms(1,3) \<open>kd_userId k = i\<close> by (intro conjI bexI [of _ ?k]) simp_all
  qed
qed

lemma save_id_card_users: "save_id_card ke rq i ocr n url h x s = (r, s') \<Longrightarrow> find_user j s' = find_user j s"
  by (auto simp: save_id_card_def Let_def dest: save_address_frame(2) split: sum.splits if_splits)

lemma uploadIdCard_failure:
  assumes "uploadIdCard ke rq i img s = (Inl e, s')"
  shows "s' = s \<or> s' = s\<lparr>storedObjects := storedObjects s @ [(id_card_key i, img)]\<rparr>"
proof (cases rule: put_object_cases [of ke "id_card_key i" img s])
  case down
  then show ?thesis using assms by (auto simp: uploadIdCard_def split: option.splits)
next
  case stored
  let ?s1 = "s\<lparr>storedObjects := storedObjects s @ [(id_card_key i, img)]\<rparr>"
  have "advance i ID_CARD_UPLOADED v s2 = (Inl e, s') \<Longrightarrow> False"
    if "validateRegistrationState i [TC_ACCEPTED, ID_CARD_UPLOADED] s = None" "save_id_card ke rq i ocr n url h x ?s1 = (Inr r, s2)" for v :: "ocr_result \<times> string" and s2 ocr n url h x r
    using validate_None_user [OF that(1)] save_id_card_users [OF that(2), of i] by (auto simp: advance_def)
  note no = this
  show ?thesis
  proof (rule ccontr)
    assume c: "\<not> ?thesis"
    then obtain ocr n url h x r s2 and v :: "ocr_result \<times> string" where "validateRegistrationState i [TC_ACCEPTED, ID_CARD_UPLOADED] s = None"
      "save_id_card ke rq i ocr n url h x ?s1 = (Inr r, s2)" "advance i ID_CARD_UPLOADED v s2 = (Inl e, s')"
      using assms stored
      by (auto simp: uploadIdCard_def Let_def split: option.splits sum.splits if_splits prod.splits dest!: transaction_error)
    then show False using no by blast
  qed
qed

lemma uploadIdCard_success:
  assumes "uploadIdCard ke rq i img s = (Inr (ocr, session), s')"
  shows "validateRegistrationState i [TC_ACCEPTED, ID_CARD_UPLOADED] s = None \<and> ke_ocr ke img = Inr (Some ocr) \<and> has_text (or_idNumber ocr)
     \<and> \<not> token_taken i (Some (ke_sha256 ke (the (or_idNumber ocr)))) s
     \<and> (\<exists>s2. save_id_card ke rq i ocr (the (or_idNumber ocr)) (ke_bucketUrl ke @ id_card_key i) (ke_sha256 ke img) session
          (s\<lparr>storedObjects := storedObjects s @ [(id_card_key i, img)]\<rparr>) = (Inr (), s2)
        \<and> s' = set_user i (\<lambda>u. u\<lparr>us_registrationState := ID_CARD_UPLOADED\<rparr>) s2)"
  using assms
  by (cases rule: put_object_cases [of ke "id_card_key i" img s])
    (auto simp: uploadIdCard_def advance_def Let_def split: option.splits sum.splits if_splits prod.splits)

text \<open>
  One identity card opens one account. An upload succeeds only for a user in the right state and a
  card whose number was read; afterwards the user's record carries the number's token and no record of
  another user does. A card that another account has registered is refused and no record changes.
\<close>

theorem uploadIdCard_one_account:
  assumes "ke_ocr ke img = Inr (Some ocr)" "or_idNumber ocr = Some n" "n \<noteq> []"
  shows "case uploadIdCard ke rq i img s of
      (Inr _, s') \<Rightarrow> \<not> token_taken i (Some (ke_sha256 ke n)) s' \<and> (\<exists>k\<in>set (kycData s'). kd_userId k = i \<and> kd_idCardToken k = Some (ke_sha256 ke n))
        \<and> (\<exists>u v. find_user i s = Some u \<and> (us_status u = UserRejected \<or> us_registrationState u \<in> {TC_ACCEPTED, ID_CARD_UPLOADED})
             \<and> find_user i s' = Some v \<and> us_registrationState v = ID_CARD_UPLOADED)
    | (Inl e, s') \<Rightarrow> kycData s' = kycData s \<and> users s' = users s"
proof (cases "uploadIdCard ke rq i img s")
  case (Pair r s')
  show ?thesis
  proof (cases r)
    case (Inr v)
    obtain ocr' session where v: "v = (ocr', session)" by fastforce
    from uploadIdCard_success [OF Pair [unfolded Inr v]] assms obtain s2 where u: "validateRegistrationState i [TC_ACCEPTED, ID_CARD_UPLOADED] s = None"
      "\<not> token_taken i (Some (ke_sha256 ke n)) s" and sv: "save_id_card ke rq i ocr n (ke_bucketUrl ke @ id_card_key i) (ke_sha256 ke img) session
          (s\<lparr>storedObjects := storedObjects s @ [(id_card_key i, img)]\<rparr>) = (Inr (), s2)"
      and s': "s' = set_user i (\<lambda>u. u\<lparr>us_registrationState := ID_CARD_UPLOADED\<rparr>) s2" by auto
    from sv obtain f g s3 where up: "save_address ke i (or_registeredAddress ocr) (upsert_kyc rq i f g s3) = (Inr (), s2)"
      and fg: "\<And>k. kd_userId (f k) = kd_userId k" "\<And>k. kd_userId (g k) = kd_userId k" "\<And>k. kd_idCardToken (f k) = Some (ke_sha256 ke n)"
        "\<And>k. kd_idCardToken (g k) = Some (ke_sha256 ke n)" and s3: "s3 = s\<lparr>storedObjects := storedObjects s @ [(id_card_key i, img)]\<rparr>"
      unfolding save_id_card_def Let_def by (auto split: sum.splits if_splits)
    have kyc: "kycData s' = kycData (upsert_kyc rq i f g s3)" using save_address_frame(1) [OF up] by (simp add: s' set_user_def)
    have users: "find_user i s' = map_option (\<lambda>u. u\<lparr>us_registrationState := ID_CARD_UPLOADED\<rparr>) (find_user i s)"
      using save_address_frame(2) [OF up] by (simp add: s' find_set_user s3)
    have "\<not> token_taken i (Some (ke_sha256 ke n)) s3" using u(2) by (simp add: s3)
    from upsert_kyc_tokens [OF fg this, of rq] kyc users validate_None_user [OF u(1)] show ?thesis
      using Pair Inr by (auto simp: token_taken_def)
  next
    case (Inl e)
    have "kycData s' = kycData s \<and> users s' = users s" using uploadIdCard_failure [OF Pair [unfolded Inl]] by auto
    then show ?thesis using Pair Inl by simp
  qed
qed

lemma encryptPii_works: "has_text (ae_piiKey (ke_auth ke)) \<Longrightarrow> \<exists>c. encryptPii ke k d = Inr c"
  by (auto simp: encryptPii_def has_text_def split: option.splits list.splits prod.splits)

text \<open>With the services up, a readable and free card is accepted.\<close>

lemma uploadIdCard_accepts:
  assumes "validateRegistrationState i [TC_ACCEPTED, ID_CARD_UPLOADED] s = None" "ke_storageUp ke" "ke_ocr ke img = Inr (Some ocr)"
    "or_idNumber ocr = Some n" "n \<noteq> []" "\<not> token_taken i (Some (ke_sha256 ke n)) s" "ke_createLiveness ke = Inr x" "has_text (ae_piiKey (ke_auth ke))"
  shows "\<exists>s'. uploadIdCard ke rq i img s = (Inr (ocr, x), s')"
proof -
  let ?s1 = "s\<lparr>storedObjects := storedObjects s @ [(id_card_key i, img)]\<rparr>"
  have enc: "\<exists>c. encryptPii ke k d = Inr c" for k d by (rule encryptPii_works [OF assms(8)])
  obtain c0 c1 where c: "encryptPii ke 0 n = Inr c0" "encryptPii ke (Suc 0) n = Inr c1" using enc by meson
  have addr: "\<exists>s2. save_address ke i a s' = (Inr (), s2)" for a s'
    using enc [of 2] enc [of 3] by (auto simp: save_address_def split: option.splits list.splits sum.splits) (metis Inr_not_Inl)+
  have "\<exists>s2. save_id_card ke rq i ocr n url h x ?s1 = (Inr (), s2)" for url h
    using c assms(6) addr by (simp add: save_id_card_def Let_def)
  then obtain s2 where s2: "save_id_card ke rq i ocr n (ke_bucketUrl ke @ id_card_key i) (ke_sha256 ke img) x ?s1 = (Inr (), s2)" by blast
  have "find_user i s2 \<noteq> None" using validate_None_user [OF assms(1)] save_id_card_users [OF s2, of i] by auto
  then show ?thesis using assms(1-7) s2
    by (simp add: uploadIdCard_def put_object_def has_text_def transaction_def advance_def)
qed

lemma updateAddress_frame [simp]: "find_user j (snd (updateAddress rq n i ty dto src s)) = find_user j s"
  by (simp add: updateAddress_def find_user_def logSecurityEvent_def Let_def split: option.split)

lemma confirmOcrData_accepts:
  assumes "validateRegistrationState i [ID_CARD_UPLOADED, ID_CARD_CONFIRMED] s = None" "has_text (ae_piiKey (ke_auth ke))" "find_kyc i s \<noteq> None"
    "\<not> token_taken i (Some (ke_sha256 ke (filter is_digit (od_idNumber dto) @ i))) s"
  shows "\<exists>s'. confirmOcrData ke rq i dto s = (Inr (), s')
     \<and> (\<forall>j. find_user j s' = (if j = i then map_option (\<lambda>u. u\<lparr>us_registrationState := ID_CARD_CONFIRMED\<rparr>) (find_user j s) else find_user j s))"
proof -
  have enc: "\<exists>c. encrypt_opt ke k d = Inr c" for k d using encryptPii_works [OF assms(2), of k d] by (auto simp: encrypt_opt_def)
  let ?t = "od_texts dto"
  obtain c0 c1 where c: "encrypt_opt ke 0 (filter is_digit (od_idNumber dto)) = Inr c0"
    "encrypt_opt ke (Suc 0) (strip (text_of ''prefixTh'' ?t @ text_of ''firstNameTh'' ?t @ '' '' @ text_of ''lastNameTh'' ?t)) = Inr c1"
    using enc by meson
  have "\<not> token_taken i (if filter is_digit (od_idNumber dto) = [] then None else Some (ke_sha256 ke (filter is_digit (od_idNumber dto) @ i))) s"
    using assms(4) by (simp add: token_taken_def)
  then show ?thesis using assms(1,3) c validate_None_user [OF assms(1)]
    by (auto simp: confirmOcrData_def advance_def Let_def find_set_user)
qed

text \<open>
  Confirming the data gives the card free again. The token written by \<open>confirmOcrData\<close> mixes the
  user's id into the number, so it protects nothing: once the first owner has confirmed the data that were
  read, the same card can be uploaded for any other account without a conflict.
\<close>

theorem confirmOcrData_reopens_card:
  assumes "confirmOcrData ke rq i dto s = (Inr (), s')" "filter is_digit (od_idNumber dto) = n" "n \<noteq> []" "ke_sha256 ke (n @ i) \<noteq> ke_sha256 ke n"
    and "list_all (\<lambda>k. kd_idCardToken k = Some (ke_sha256 ke n) \<longrightarrow> kd_userId k = i) (kycData s)"
    and "validateRegistrationState j [TC_ACCEPTED, ID_CARD_UPLOADED] s' = None" "ke_storageUp ke" "ke_ocr ke img = Inr (Some ocr)"
    "or_idNumber ocr = Some n" "ke_createLiveness ke = Inr x" "has_text (ae_piiKey (ke_auth ke))"
  shows "\<exists>s''. uploadIdCard ke rq' j img s' = (Inr (ocr, x), s'')"
proof -
  obtain e1 e2 where kd: "kycData s' = kycData (set_kyc rq i (confirm_columns ke i dto e1 e2) s)"
    using assms(1) by (auto simp: confirmOcrData_def advance_def Let_def updateAddress_def logSecurityEvent_def set_user_def
        split: option.splits sum.splits if_splits prod.splits)
  have "\<not> token_taken j (Some (ke_sha256 ke n)) s'"
    using assms(2-5) unfolding token_taken_def kd
    by (auto simp: list_ex_iff list_all_iff set_kyc_def set_update_where confirm_columns_def Let_def)
  then show ?thesis by (rule uploadIdCard_accepts [OF assms(6-9,3) _ assms(10,11)])
qed

section \<open>An example\<close>

text \<open>A cipher with hexadecimal output that inverts itself, and services that answer.\<close>

definition hex_char :: "nat \<Rightarrow> char" where
  "hex_char n = char_of (if n < 10 then 48 + n else 87 + n)"

definition hex_value :: "char \<Rightarrow> nat" where
  "hex_value c = (if of_char c < (58 :: nat) then of_char c - 48 else of_char c - 87)"

definition hex_encode :: "string \<Rightarrow> string" where
  "hex_encode d = concat (map (\<lambda>c. [hex_char (of_char c div 16), hex_char (of_char c mod 16)]) d)"

fun hex_decode :: "string \<Rightarrow> string" where
  "hex_decode (a # b # r) = char_of (16 * hex_value a + hex_value b) # hex_decode r"
| "hex_decode _ = []"

lemma hex_char: "n < 16 \<Longrightarrow> hex_value (hex_char n) = n \<and> hex_digit (hex_char n)"
  by (auto simp: hex_value_def hex_char_def hex_digit_def is_digit_def of_char_of)

lemma hex_nibbles: "of_char c div 16 < (16 :: nat)" "of_char c mod 16 < (16 :: nat)"
proof -
  have "of_char c < (256 :: nat)" using of_char_mod_256 [of c, where 'a = nat] by (metis mod_less_divisor zero_less_numeral)
  then show "of_char c div 16 < (16 :: nat)" by (simp add: less_mult_imp_div_less)
qed simp

lemma hex_encode: "hex_decode (hex_encode d) = d" "list_all hex_digit (hex_encode d)" "length (hex_encode d) = 2 * length d"
proof -
  show "hex_decode (hex_encode d) = d"
    by (induction d) (auto simp: hex_encode_def hex_char [OF hex_nibbles(1)] hex_char [OF hex_nibbles(2)])
  show "list_all hex_digit (hex_encode d)"
    by (induction d) (auto simp: hex_encode_def hex_char [OF hex_nibbles(1)] hex_char [OF hex_nibbles(2)])
  show "length (hex_encode d) = 2 * length d" by (induction d) (auto simp: hex_encode_def)
qed

definition demo_ocr :: ocr_result where
  "demo_ocr = \<lparr>or_idNumber = Some ''1100200300401'', or_texts = [], or_dateOfBirth = None, or_idCardIssueDate = None, or_idCardExpiryDate = None,
     or_registeredAddress = None\<rparr>"

definition demo_kyc_env :: kyc_env where
  "demo_kyc_env = \<lparr>ke_auth = demo_auth\<lparr>ae_piiKey := Some ''k'', ae_decrypt := (\<lambda>key iv tag enc. Some (hex_decode enc))\<rparr>,
     ke_http = (\<lambda>w c. HttpDown ''down''), ke_finance = \<lparr>fe_url = [], fe_secret = None\<rparr>, ke_sha256 = (\<lambda>t. ''#'' @ t),
     ke_encrypt = (\<lambda>key iv d. (replicate 32 CHR ''0'', hex_encode d)), ke_iv = (\<lambda>k. replicate 24 CHR ''0''), ke_bucketUrl = ''s3/'', ke_storageUp = True,
     ke_getFile = (\<lambda>os key. map_of os key), ke_presign = (\<lambda>key. None), ke_ocr = (\<lambda>img. Inr (Some demo_ocr)), ke_createLiveness = Inr ''l1'',
     ke_liveness = (\<lambda>x. None), ke_compareFaces = (\<lambda>a b. Some (True, 99)), ke_minLiveness = 90, ke_minSimilarity = 80\<rparr>"

definition demo_owner :: user where
  "demo_owner = demo_user\<lparr>us_status := UserBlocked\<rparr>"

definition demo_applicant :: "string \<Rightarrow> registration_state \<Rightarrow> user" where
  "demo_applicant i st = demo_user\<lparr>us_id := i, us_phoneNumber := i, us_status := UserInactive, us_registrationState := st, us_passwordHash := None, us_pinHash := None\<rparr>"

definition demo_kyc :: kyc_db where
  "demo_kyc = \<lparr>users = [demo_owner, demo_applicant ''u2'' ID_CARD_UPLOADED, demo_applicant ''u3'' TC_ACCEPTED], userDevices = [], refreshSessions = [],
     otpChallenges = [], userConsents = [], securityEvents = [], userSettings = [], addresses = [],
     kycData = [new_kyc (demo_rq 0) ''u1'', (new_kyc (demo_rq 0) ''u2'')\<lparr>kd_idCardToken := Some ''#1100200300401''\<rparr>], piiData = [],
     smsOutbox = [], securityTopic = [], kycDocuments = [], storedObjects = [], kycTopic = [], financeWire = []\<rparr>"

lemma demo_kyc_found: "find_user ''u1'' demo_kyc = Some demo_owner" "find_kyc ''u1'' demo_kyc = Some (new_kyc (demo_rq 0) ''u1'')"
  by (simp_all add: find_user_def find_kyc_def demo_kyc_def demo_owner_def demo_user_def new_kyc_def)

theorem encryptPii_roundtrip_witness:
  "\<exists>c. encryptPii demo_kyc_env 0 ''1100200300401'' = Inr c \<and> decryptPii (ke_auth demo_kyc_env) c = Inr ''1100200300401''"
proof -
  have "case encryptPii demo_kyc_env 0 ''1100200300401'' of
      Inr c \<Rightarrow> if ''1100200300401'' = [] then decryptPii (ke_auth demo_kyc_env) c = Inl (Plain ''Could not decrypt PII data'')
        else decryptPii (ke_auth demo_kyc_env) c = Inr ''1100200300401''
    | Inl e \<Rightarrow> ae_piiKey (ke_auth demo_kyc_env) \<in> {None, Some []}"
    by (rule encryptPii_roundtrip) (simp_all add: demo_kyc_env_def hex_encode hex_digit_def is_digit_def list_all_iff [of _ "replicate n x" for n x])
  moreover have "ae_piiKey (ke_auth demo_kyc_env) = Some ''k''" by (simp add: demo_kyc_env_def)
  ultimately show ?thesis by (auto split: sum.splits)
qed

theorem parseDate_english_witness: "parseDate (Some (units ''9 august 1990'')) = parseDate (Some (units ''9 august 2533''))"
proof -
  have "parseDate (Some (units (nat_digits 9) @ units '' '' @ units ''august'' @ units '' '' @ units (nat_digits (1990 + 543)))) =
       parseDate (Some (units (nat_digits 9) @ units '' '' @ units ''august'' @ units '' '' @ units (nat_digits 1990)))"
    by (rule parseDate_english [of 9 7 1990, THEN conjunct2]) (simp_all add: units_def separator_def space16_def engMonths_def lower16_def)
  moreover have "nat_digits 9 = ''9''" "nat_digits (1990 + 543) = ''2533''" "nat_digits 1990 = ''1990''" by code_simp+
  ultimately show ?thesis by (simp add: units_def)
qed

theorem parseDate_loses_months_witness: "parseDate (Some (units ''9/08/1990'')) = Some (MakeDay 1990 0 9 * msPerDay)"
proof -
  have "parseDate (Some (units (nat_digits 9) @ [47] @ units ''08'' @ [47] @ units (nat_digits 1990))) = Some (MakeDay (int 1990) 0 (int 9) * msPerDay)"
    by (rule parseDate_loses_months [of 9 1990, THEN conjunct1]) (simp_all add: units_def digit16_def)
  moreover have "nat_digits 9 = ''9''" "nat_digits 1990 = ''1990''" by code_simp+
  ultimately show ?thesis by (simp add: units_def)
qed

theorem approveKyc_outcome_witness:
  "\<exists>k s' v. approveKyc demo_kyc_env (demo_rq 5) ''u1'' demo_kyc = (Inr k, s') \<and> find_user ''u1'' s' = Some v \<and> us_status v = UserActive"
proof -
  have "kd_verificationStatus (new_kyc (demo_rq 0) ''u1'') \<noteq> KycApproved" by (simp add: new_kyc_def)
  from approveKyc_outcome [OF demo_kyc_found(2) this demo_kyc_found(1), of demo_kyc_env "demo_rq 5" "demo_rq 6"] show ?thesis by auto
qed

theorem retryKyc_lifts_block_witness:
  "\<exists>s1 r s2. retryKyc (demo_rq 5) ''u1'' demo_kyc = (Inr (), s1)
     \<and> login demo_auth (demo_rq 9) \<lparr>lg_phoneNumber = ''0812345678'', lg_password = ''secret'', lg_deviceId = ''d2'', lg_deviceName = None, lg_pushToken = None\<rparr> s1 = (Inr r, s2)"
proof -
  let ?dto = "\<lparr>lg_phoneNumber = ''0812345678'', lg_password = ''secret'', lg_deviceId = ''d2'', lg_deviceName = None, lg_pushToken = None\<rparr> :: login_dto"
  have "user_by_phone (normalizePhone (lg_phoneNumber ?dto)) demo_kyc = Some demo_owner" "check_phone (lg_phoneNumber ?dto) = None"
    "us_status demo_owner = UserBlocked" "us_passwordHash demo_owner = Some ''hsecret''" "ae_compare demo_auth (lg_password ?dto) ''hsecret''" by code_simp+
  from retryKyc_lifts_block [OF this(1-4) _ this(5), of "demo_rq 9" "demo_rq 5"] demo_kyc_found(2)
  show ?thesis by (auto simp: demo_owner_def demo_user_def)
qed

theorem uploadIdCard_one_account_witness:
  "fst (uploadIdCard demo_kyc_env (demo_rq 5) ''u3'' ''img'' demo_kyc) = Inl (Http CONFLICT ''This ID card is already registered with another account'')
     \<and> kycData (snd (uploadIdCard demo_kyc_env (demo_rq 5) ''u3'' ''img'' demo_kyc)) = kycData demo_kyc"
proof
  show c: "fst (uploadIdCard demo_kyc_env (demo_rq 5) ''u3'' ''img'' demo_kyc) = Inl (Http CONFLICT ''This ID card is already registered with another account'')"
    by code_simp
  have "ke_ocr demo_kyc_env ''img'' = Inr (Some demo_ocr)" "or_idNumber demo_ocr = Some ''1100200300401''" by (simp_all add: demo_kyc_env_def demo_ocr_def)
  from uploadIdCard_one_account [OF this, where rq = "demo_rq 5" and i = "''u3''" and s = demo_kyc] c
  show "kycData (snd (uploadIdCard demo_kyc_env (demo_rq 5) ''u3'' ''img'' demo_kyc)) = kycData demo_kyc"
    by (cases "uploadIdCard demo_kyc_env (demo_rq 5) ''u3'' ''img'' demo_kyc") auto
qed

theorem confirmOcrData_reopens_card_witness:
  "\<exists>s' s''. confirmOcrData demo_kyc_env (demo_rq 5) ''u2'' \<lparr>od_idNumber = ''1-1002-00300-40-1'', od_texts = JObj [], od_dateOfBirth = None,
       od_issueDate = None, od_expiryDate = None, od_registeredAddress = JUndef\<rparr> demo_kyc = (Inr (), s')
     \<and> uploadIdCard demo_kyc_env (demo_rq 6) ''u3'' ''img'' s' = (Inr (demo_ocr, ''l1''), s'')"
proof -
  let ?dto = "\<lparr>od_idNumber = ''1-1002-00300-40-1'', od_texts = JObj [], od_dateOfBirth = None,
       od_issueDate = None, od_expiryDate = None, od_registeredAddress = JUndef\<rparr> :: ocr_dto"
  let ?run = "confirmOcrData demo_kyc_env (demo_rq 5) ''u2'' ?dto demo_kyc"
  have v: "validateRegistrationState ''u2'' [ID_CARD_UPLOADED, ID_CARD_CONFIRMED] demo_kyc = None" "find_kyc ''u2'' demo_kyc \<noteq> None"
    "\<not> token_taken ''u2'' (Some (ke_sha256 demo_kyc_env (filter is_digit (od_idNumber ?dto) @ ''u2''))) demo_kyc" by code_simp+
  have key: "has_text (ae_piiKey (ke_auth demo_kyc_env))" by (simp add: demo_kyc_env_def has_text_def)
  from confirmOcrData_accepts [OF v(1) key v(2,3), of "demo_rq 5"]
  obtain s' where run: "?run = (Inr (), s')" and other: "find_user ''u3'' s' = find_user ''u3'' demo_kyc" by auto
  have "validateRegistrationState ''u3'' [TC_ACCEPTED, ID_CARD_UPLOADED] demo_kyc = None" by code_simp
  then have ok: "validateRegistrationState ''u3'' [TC_ACCEPTED, ID_CARD_UPLOADED] s' = None" by (simp add: validateRegistrationState_def other)
  have n: "filter is_digit (od_idNumber ?dto) = ''1100200300401''" "''1100200300401'' \<noteq> []" by code_simp+
  have h: "ke_sha256 demo_kyc_env (''1100200300401'' @ ''u2'') \<noteq> ke_sha256 demo_kyc_env ''1100200300401''" by (simp add: demo_kyc_env_def)
  have l: "list_all (\<lambda>k. kd_idCardToken k = Some (ke_sha256 demo_kyc_env ''1100200300401'') \<longrightarrow> kd_userId k = ''u2'') (kycData demo_kyc)" by code_simp
  have e: "ke_storageUp demo_kyc_env" "ke_ocr demo_kyc_env ''img'' = Inr (Some demo_ocr)" "or_idNumber demo_ocr = Some ''1100200300401''"
    "ke_createLiveness demo_kyc_env = Inr ''l1''" "has_text (ae_piiKey (ke_auth demo_kyc_env))"
    by (simp_all add: demo_kyc_env_def demo_ocr_def has_text_def)
  from confirmOcrData_reopens_card [OF run n h l ok e]
  have "\<exists>s''. uploadIdCard demo_kyc_env (demo_rq 6) ''u3'' ''img'' s' = (Inr (demo_ocr, ''l1''), s'')" .
  with run show ?thesis by blast
qed

end
