(* ===== verification/Registration.thy ===== *)
theory Registration
  imports Kyc_Props
begin

text \<open>
  Registration as a whole: the steps of \<open>identity.service.ts\<close> and \<open>kyc.service.ts\<close> and the staff's decisions as one
  step relation, against the flow that \<open>ONBOARDING_FLOW.md\<close> documents.
\<close>

section \<open>What an operation does to accounts\<close>

text \<open>An account is what its primary key finds. \<open>R\<close> relates the account before, if there was one, to the one after.\<close>

definition account_changes :: "(user option \<Rightarrow> user \<Rightarrow> bool) \<Rightarrow> 'a identity_db_scheme \<Rightarrow> 'a identity_db_scheme \<Rightarrow> bool" where
  "account_changes R s s' \<longleftrightarrow> (\<forall>j. find_user j s' = find_user j s \<or> (\<exists>v. find_user j s' = Some v \<and> R (find_user j s) v))"

definition accounts :: "(user \<Rightarrow> bool) \<Rightarrow> 'a identity_db_scheme \<Rightarrow> bool" where
  "accounts P s \<longleftrightarrow> (\<forall>j u. find_user j s = Some u \<longrightarrow> P u)"

definition on_account :: "string \<Rightarrow> (user \<Rightarrow> user \<Rightarrow> bool) \<Rightarrow> user option \<Rightarrow> user \<Rightarrow> bool" where
  "on_account i R before after = (case before of None \<Rightarrow> False | Some u \<Rightarrow> us_id u = i \<and> R u after)"

lemma account_changes_mono:
  assumes "account_changes R s s'" "\<And>b v. R b v \<Longrightarrow> R' b v"
  shows "account_changes R' s s'"
  using assms by (fastforce simp: account_changes_def)

lemma account_changes_keep:
  assumes "account_changes R s s'" "accounts P s" "\<And>v. R None v \<Longrightarrow> P v" "\<And>u v. P u \<Longrightarrow> R (Some u) v \<Longrightarrow> P v"
  shows "accounts P s'"
  unfolding accounts_def
proof (intro allI impI)
  fix j v assume v: "find_user j s' = Some v"
  from assms(1) [unfolded account_changes_def, rule_format, of j] v
  consider "find_user j s = Some v" | "R (find_user j s) v" by auto
  then show "P v"
  proof cases
    case 1
    then show ?thesis using assms(2) by (simp add: accounts_def)
  next
    case 2
    then show ?thesis using assms(2-4) by (cases "find_user j s") (simp_all add: accounts_def, blast)
  qed
qed

text \<open>
  The contract of an operation: which changes of an account it can make. What follows for invariants of
  accounts and for the life of one account is proved once.
\<close>

locale account_operation =
  fixes op :: "kyc_db \<Rightarrow> 'r result \<times> kyc_db" and change :: "user option \<Rightarrow> user \<Rightarrow> bool"
  assumes changes: "account_changes change s (snd (op s))"
begin

lemma refines:
  assumes "\<And>b v. change b v \<Longrightarrow> R b v"
  shows "account_changes R s (snd (op s))"
  by (rule account_changes_mono [OF changes assms])

end

lemma find_user_id: "find_user i s = Some u \<Longrightarrow> us_id u = i"
  by (auto simp: find_user_def dest: find_SomeD)

lemma account_changes_refl [simp]: "account_changes R s s"
  by (simp add: account_changes_def)

lemma account_changes_same: "(\<And>j. find_user j s' = find_user j s) \<Longrightarrow> account_changes R s s'"
  by (simp add: account_changes_def)

lemma account_changes_set:
  assumes "\<And>j. find_user j s' = (if j = i then map_option f (find_user j s) else find_user j s)"
    and "\<And>u. find_user i s = Some u \<Longrightarrow> R u (f u)"
  shows "account_changes (on_account i R) s s'"
  unfolding account_changes_def
proof
  fix j
  show "find_user j s' = find_user j s \<or> (\<exists>v. find_user j s' = Some v \<and> on_account i R (find_user j s) v)"
  proof (cases "j = i \<and> find_user i s \<noteq> None")
    case True
    then obtain u where u: "find_user i s = Some u" by auto
    then have "us_id u = i" by (auto simp: find_user_def dest: find_SomeD)
    then show ?thesis using u True assms by (auto simp: on_account_def)
  qed (use assms in auto)
qed

definition allowed :: "registration_state list \<Rightarrow> user \<Rightarrow> bool" where
  "allowed st u \<longleftrightarrow> us_status u = UserRejected \<or> us_registrationState u \<in> set st"

lemma validate_allowed: "validateRegistrationState i st s = None \<longleftrightarrow> (\<exists>u. find_user i s = Some u \<and> allowed st u)"
  by (auto simp: validateRegistrationState_def allowed_def split: option.split)

definition token_subject :: "auth_env \<Rightarrow> identity_request \<Rightarrow> string option \<Rightarrow> string" where
  "token_subject env rq authorization = (case registration_user env rq authorization of Inl _ \<Rightarrow> [] | Inr i \<Rightarrow> i)"

text \<open>A step behind a registration token whose work ends in one update of the account.\<close>

lemma registration_step_changes:
  assumes "\<And>u s s'. find_user (us_id u) s = Some u \<Longrightarrow> allowed st u \<Longrightarrow> s' = snd (body u s) \<Longrightarrow>
     (\<forall>j. find_user j s' = find_user j s)
     \<or> (\<forall>j. find_user j s' = (if j = us_id u then map_option (f u) (find_user j s) else find_user j s)) \<and> R u (f u u)"
  shows "account_changes (on_account (token_subject env rq auth) (\<lambda>u v. allowed st u \<and> R u v)) s (snd (registration_step env rq auth st body s))"
proof (cases "registration_user env rq auth")
  case (Inr i)
  show ?thesis
  proof (cases "validateRegistrationState i st s")
    case None
    then obtain u where u: "find_user i s = Some u" "allowed st u" by (auto simp: validate_allowed)
    then have i: "us_id u = i" by (auto simp: find_user_def dest: find_SomeD)
    have run: "registration_step env rq auth st body s = body u s" using Inr None u by (simp add: registration_step_def)
    from assms [of u s "snd (body u s)"] u i consider "\<forall>j. find_user j (snd (body u s)) = find_user j s"
      | "\<forall>j. find_user j (snd (body u s)) = (if j = i then map_option (f u) (find_user j s) else find_user j s)" "R u (f u u)" by blast
    then have "account_changes (on_account i (\<lambda>u v. allowed st u \<and> R u v)) s (snd (body u s))"
    proof cases
      case 1
      then show ?thesis by (intro account_changes_same) simp
    next
      case 2
      then show ?thesis using u by (intro account_changes_set [where f = "f u"]) auto
    qed
    then show ?thesis by (simp add: run token_subject_def Inr)
  next
    case (Some e)
    then show ?thesis using Inr by (simp add: registration_step_def)
  qed
qed (simp add: registration_step_def)

section \<open>The operations\<close>

lemma find_user_tables [simp]:
  "find_user j (s\<lparr>userConsents := cs\<rparr>) = find_user j s" "find_user j (upsert_setting i k v s) = find_user j s"
  "find_user j (sync_kyc rq i st s) = find_user j s" "find_user j (snd (upsert_device i d f n s)) = find_user j s"
  "find_user j (revoke_sessions t i s) = find_user j s" "find_user j (s\<lparr>users := users s\<rparr>) = find_user j s"
  by (simp_all add: find_user_def upsert_setting_def sync_kyc_def upsert_device_def revoke_sessions_def Let_def split: option.split)

lemma find_user_address [simp]: "find_user j (register_address rq i dto s) = find_user j s"
  by (simp add: register_address_def Let_def split: option.split)

text \<open>The user's change of one column, behind the test of the registration state.\<close>

definition to_state :: "registration_state list \<Rightarrow> registration_state \<Rightarrow> user \<Rightarrow> user \<Rightarrow> bool" where
  "to_state st target u v \<longleftrightarrow> allowed st u \<and> v = u\<lparr>us_registrationState := target\<rparr>"

interpretation accept_terms: account_operation "acceptTerms env rq auth"
  "on_account (token_subject env rq auth) (to_state [OTP_VERIFIED, TC_ACCEPTED] TC_ACCEPTED)" for env rq auth
  unfolding to_state_def
proof
  fix s
  show "account_changes (on_account (token_subject env rq auth) (\<lambda>u v. allowed [OTP_VERIFIED, TC_ACCEPTED] u \<and> v = u\<lparr>us_registrationState := TC_ACCEPTED\<rparr>))
      s (snd (acceptTerms env rq auth s))"
    unfolding acceptTerms_def
    by (rule registration_step_changes [where f = "\<lambda>u v. v\<lparr>us_registrationState := TC_ACCEPTED\<rparr>"]) (auto simp: Let_def find_set_user)
qed

definition profile_done :: "user \<Rightarrow> user \<Rightarrow> bool" where
  "profile_done u v \<longleftrightarrow> allowed [KYC_VERIFIED, PROFILE_COMPLETED] u
     \<and> v = u\<lparr>us_registrationState := if has_text (us_passwordHash u) \<and> has_text (us_pinHash u) then RegCompleted else PROFILE_COMPLETED,
             us_status := status_after (us_status u)\<rparr>"

interpretation register_profile: account_operation "registerProfile env rq auth dto" "on_account (token_subject env rq auth) profile_done" for env rq auth dto
  unfolding profile_done_def
proof
  fix s
  let ?f = "\<lambda>u v. v\<lparr>us_registrationState := if has_text (us_passwordHash u) \<and> has_text (us_pinHash u) then RegCompleted else PROFILE_COMPLETED,
     us_status := status_after (us_status u)\<rparr>"
  show "account_changes (on_account (token_subject env rq auth) (\<lambda>u v. allowed [KYC_VERIFIED, PROFILE_COMPLETED] u \<and> v = ?f u u)) s (snd (registerProfile env rq auth dto s))"
    unfolding registerProfile_def
    by (rule registration_step_changes [where f = ?f]) (simp add: Let_def find_set_user)
qed

definition password_set :: "auth_env \<Rightarrow> identity_request \<Rightarrow> string \<Rightarrow> user \<Rightarrow> user \<Rightarrow> bool" where
  "password_set env rq password u v \<longleftrightarrow> allowed [PROFILE_COMPLETED, PASSWORD_SET] u
     \<and> v = u\<lparr>us_passwordHash := Some (ae_hash env (rq_salt rq 0) password), us_registrationState := PASSWORD_SET\<rparr>"

interpretation register_password: account_operation "registerPassword env rq auth password" "on_account (token_subject env rq auth) (password_set env rq password)"
  for env rq auth password
  unfolding password_set_def
proof
  fix s
  let ?f = "\<lambda>u v. v\<lparr>us_passwordHash := Some (ae_hash env (rq_salt rq 0) password), us_registrationState := PASSWORD_SET\<rparr>"
  show "account_changes (on_account (token_subject env rq auth) (\<lambda>u v. allowed [PROFILE_COMPLETED, PASSWORD_SET] u \<and> v = ?f u u)) s
      (snd (registerPassword env rq auth password s))"
    unfolding registerPassword_def
    by (rule registration_step_changes [where f = ?f]) (simp add: find_set_user)
qed

definition pin_set :: "auth_env \<Rightarrow> identity_request \<Rightarrow> string \<Rightarrow> user \<Rightarrow> user \<Rightarrow> bool" where
  "pin_set env rq pin u v \<longleftrightarrow> allowed [PASSWORD_SET, CREDENTIALS_SET] u
     \<and> v = u\<lparr>us_pinHash := Some (ae_hash env (rq_salt rq 0) pin), us_registrationState := CREDENTIALS_SET\<rparr>"

lemma upsert_device_users: "upsert_device i d f n s = (x, s') \<Longrightarrow> find_user j s' = find_user j s"
  using find_user_tables(4) [of j i d f n s] by simp

interpretation register_pin: account_operation "registerPin env rq auth dto" "on_account (token_subject env rq auth) (pin_set env rq (pn_pin dto))" for env rq auth dto
  unfolding pin_set_def
proof
  fix s
  let ?f = "\<lambda>u v. v\<lparr>us_pinHash := Some (ae_hash env (rq_salt rq 0) (pn_pin dto)), us_registrationState := CREDENTIALS_SET\<rparr>"
  show "account_changes (on_account (token_subject env rq auth) (\<lambda>u v. allowed [PASSWORD_SET, CREDENTIALS_SET] u \<and> v = ?f u u)) s (snd (registerPin env rq auth dto s))"
    unfolding registerPin_def
    by (rule registration_step_changes [where f = ?f]) (simp add: find_set_user upsert_device_users split: prod.split)
qed

definition completed :: "user \<Rightarrow> user \<Rightarrow> bool" where
  "completed u v \<longleftrightarrow> allowed [CREDENTIALS_SET, RegCompleted] u \<and> v = u\<lparr>us_registrationState := RegCompleted, us_status := status_after (us_status u)\<rparr>"

interpretation complete_registration: account_operation "completeRegistration env rq auth dev" "on_account (token_subject env rq auth) completed" for env rq auth dev
  unfolding completed_def
proof
  fix s
  let ?f = "\<lambda>u v. v\<lparr>us_registrationState := RegCompleted, us_status := status_after (us_status u)\<rparr>"
  show "account_changes (on_account (token_subject env rq auth) (\<lambda>u v. allowed [CREDENTIALS_SET, RegCompleted] u \<and> v = ?f u u)) s (snd (completeRegistration env rq auth dev s))"
    unfolding completeRegistration_def
    by (rule registration_step_changes [where f = ?f]) (simp add: Let_def find_set_user)
qed

lemma advance_changes:
  assumes "\<And>j. find_user j s1 = find_user j s" "validateRegistrationState i st s = None"
  shows "account_changes (on_account i (to_state st target)) s (snd (advance i target r s1))"
proof (cases "find_user i s1")
  case None
  then show ?thesis using assms(1) by (intro account_changes_same) (simp add: advance_def)
next
  case (Some u)
  have "\<And>u. find_user i s = Some u \<Longrightarrow> allowed st u" using assms(2) by (auto simp: validate_allowed)
  then show ?thesis using Some assms(1)
    by (intro account_changes_set [where f = "\<lambda>u. u\<lparr>us_registrationState := target\<rparr>"]) (auto simp: advance_def find_set_user to_state_def)
qed

lemma put_object_users: "put_object ke key b s = (r, s') \<Longrightarrow> find_user j s' = find_user j s"
  by (auto simp: put_object_def split: if_splits)

lemma put_object_changes: "put_object ke key b s = (r, s') \<Longrightarrow> account_changes R s s'"
  by (intro account_changes_same) (rule put_object_users)

interpretation upload_id_card: account_operation "uploadIdCard ke rq i img"
  "on_account i (to_state [TC_ACCEPTED, ID_CARD_UPLOADED] ID_CARD_UPLOADED)" for ke rq i img
proof
  fix s
  show "account_changes (on_account i (to_state [TC_ACCEPTED, ID_CARD_UPLOADED] ID_CARD_UPLOADED)) s (snd (uploadIdCard ke rq i img s))"
  proof (cases "uploadIdCard ke rq i img s")
    case (Pair r s')
    show ?thesis
    proof (cases r)
      case (Inl e)
      from uploadIdCard_failure [OF Pair [unfolded Inl]] show ?thesis using Pair by (intro account_changes_same) auto
    next
      case (Inr v)
      obtain ocr x where v: "v = (ocr, x)" by fastforce
      from uploadIdCard_success [OF Pair [unfolded Inr v]] obtain s2 where
        val: "validateRegistrationState i [TC_ACCEPTED, ID_CARD_UPLOADED] s = None"
        and sv: "save_id_card ke rq i ocr (the (or_idNumber ocr)) (ke_bucketUrl ke @ id_card_key i) (ke_sha256 ke img) x
          (s\<lparr>storedObjects := storedObjects s @ [(id_card_key i, img)]\<rparr>) = (Inr (), s2)"
        and s': "s' = set_user i (\<lambda>u. u\<lparr>us_registrationState := ID_CARD_UPLOADED\<rparr>) s2" by blast
      have "find_user j s2 = find_user j s" for j using save_id_card_users [OF sv] by simp
      then show ?thesis using val Pair s'
        by (auto simp: find_set_user to_state_def validate_allowed intro!: account_changes_set [where f = "\<lambda>u. u\<lparr>us_registrationState := ID_CARD_UPLOADED\<rparr>"])
    qed
  qed
qed

interpretation confirm_ocr: account_operation "confirmOcrData ke rq i dto"
  "on_account i (to_state [ID_CARD_UPLOADED, ID_CARD_CONFIRMED] ID_CARD_CONFIRMED)" for ke rq i dto
proof
  fix s
  show "account_changes (on_account i (to_state [ID_CARD_UPLOADED, ID_CARD_CONFIRMED] ID_CARD_CONFIRMED)) s (snd (confirmOcrData ke rq i dto s))"
  proof (cases "validateRegistrationState i [ID_CARD_UPLOADED, ID_CARD_CONFIRMED] s")
    case None
    show ?thesis unfolding confirmOcrData_def Let_def None option.case
      by (split sum.split; intro conjI allI impI; (split sum.split)?; (intro conjI allI impI)?; (simp split del: if_split)?)
        (auto intro!: advance_changes None)
  qed (simp add: confirmOcrData_def)
qed

interpretation submit_selfie: account_operation "submitSelfie ke rq i img"
  "on_account i (to_state [ID_CARD_CONFIRMED, KYC_VERIFIED] KYC_VERIFIED)" for ke rq i img
proof
  fix s
  let ?C = "on_account i (to_state [ID_CARD_CONFIRMED, KYC_VERIFIED] KYC_VERIFIED)"
  show "account_changes ?C s (snd (submitSelfie ke rq i img s))"
  proof (cases "validateRegistrationState i [ID_CARD_CONFIRMED, KYC_VERIFIED] s")
    case None
    have fin: "account_changes ?C s (snd (transaction (finalize_selfie rq i f r) s1))" if "\<And>j. find_user j s1 = find_user j s" for f s1 and r :: "bool \<times> kyc_status"
    proof (cases "finalize_selfie rq i f r s1")
      case (Pair x s2)
      show ?thesis
      proof (cases x)
        case (Inl e)
        then show ?thesis using Pair that by (intro account_changes_same) (simp add: transaction_def)
      next
        case (Inr v)
        then have "snd (transaction (finalize_selfie rq i f r) s1) = snd (advance i KYC_VERIFIED r (set_kyc rq i f s1))"
          using Pair by (auto simp: transaction_def finalize_selfie_def split: if_splits)
        then show ?thesis using advance_changes [OF _ None, of "set_kyc rq i f s1" KYC_VERIFIED r] that by simp
      qed
    qed
    show ?thesis unfolding submitSelfie_def None option.case
      by (auto split: option.split prod.split sum.split simp: put_object_users put_object_changes fin)
  qed (simp add: submitSelfie_def)
qed

text \<open>The simple mode tests no state.\<close>

definition state_set :: "registration_state \<Rightarrow> user \<Rightarrow> user \<Rightarrow> bool" where
  "state_set target u v \<longleftrightarrow> v = u\<lparr>us_registrationState := target\<rparr>"

lemma advance_any:
  assumes "\<And>j. find_user j s1 = find_user j s"
  shows "account_changes (on_account i (state_set target)) s (snd (advance i target r s1))"
  using assms
  by (cases "find_user i s = None")
    (auto simp: advance_def find_set_user state_set_def intro!: account_changes_set [where f = "\<lambda>u. u\<lparr>us_registrationState := target\<rparr>"])

interpretation upload_simple: account_operation "uploadIdCardSimple ke rq i img" "on_account i (state_set ID_CARD_UPLOADED)" for ke rq i img
proof
  fix s :: kyc_db
  have adv: "account_changes (on_account i (state_set ID_CARD_UPLOADED)) s (snd (advance i ID_CARD_UPLOADED r (upsert_kyc rq i f g s1)))"
    if "\<And>j. find_user j s1 = find_user j s" for r :: string and f g s1
    using that by (intro advance_any) simp
  show "account_changes (on_account i (state_set ID_CARD_UPLOADED)) s (snd (uploadIdCardSimple ke rq i img s))"
    unfolding uploadIdCardSimple_def Let_def
    by (auto split: prod.split sum.split simp: put_object_users put_object_changes adv)
qed

interpretation selfie_simple: account_operation "submitSelfieSimple ke rq i img" "on_account i (state_set KYC_VERIFIED)" for ke rq i img
proof
  fix s :: kyc_db
  have adv: "account_changes (on_account i (state_set KYC_VERIFIED)) s (snd (advance i KYC_VERIFIED r (set_kyc rq i f s1)))"
    if "\<And>j. find_user j s1 = find_user j s" for r :: "bool \<times> kyc_status" and f s1
    using that by (intro advance_any) simp
  show "account_changes (on_account i (state_set KYC_VERIFIED)) s (snd (submitSelfieSimple ke rq i img s))"
    unfolding submitSelfieSimple_def
    by (auto split: option.split prod.split sum.split simp: put_object_users put_object_changes adv)
qed

text \<open>The staff's decisions.\<close>

definition approved :: "user \<Rightarrow> user \<Rightarrow> bool" where
  "approved u v \<longleftrightarrow> (\<exists>w. v = u\<lparr>us_ledgerAccountId := w, us_status := UserActive, us_registrationState := approved_state (us_registrationState u)\<rparr>)"

interpretation approve_kyc: account_operation "approveKyc ke rq i" "on_account i approved" for ke rq i
proof
  fix s
  show "account_changes (on_account i approved) s (snd (approveKyc ke rq i s))"
  proof (cases "\<exists>k u. find_kyc i s = Some k \<and> kd_verificationStatus k \<noteq> KycApproved \<and> find_user i s = Some u")
    case True
    then obtain k u where k: "find_kyc i s = Some k" "kd_verificationStatus k \<noteq> KycApproved" "find_user i s = Some u" by blast
    obtain k' s' w where run: "approveKyc ke rq i s = (Inr k', s')"
      and users: "find_user i s' = Some (u\<lparr>us_ledgerAccountId := w, us_status := UserActive, us_registrationState := approved_state (us_registrationState u)\<rparr>)"
        "\<And>j. j \<noteq> i \<Longrightarrow> find_user j s' = find_user j s"
      using approveKyc_effect [OF k, of ke rq] by blast
    show ?thesis unfolding run snd_conv
      by (rule account_changes_set [where f = "\<lambda>_. u\<lparr>us_ledgerAccountId := w, us_status := UserActive, us_registrationState := approved_state (us_registrationState u)\<rparr>"])
        (use users k in \<open>auto simp: approved_def\<close>)
  next
    case False
    have same: "find_user j (init_wallet ke i s1) = find_user j s1" if "find_user i s1 = None" for j and s1 :: kyc_db
      using init_wallet_users [of ke i s1] that by (cases "j = i") auto
    show ?thesis
    proof (cases "find_user i s")
      case None
      then show ?thesis by (intro account_changes_same) (auto simp: approveKyc_def Let_def same split: option.split)
    next
      case (Some u)
      with False have "snd (approveKyc ke rq i s) = s" by (auto simp: approveKyc_def split: option.split)
      then show ?thesis by simp
    qed
  qed
qed

definition status_set :: "user_status \<Rightarrow> user \<Rightarrow> user \<Rightarrow> bool" where
  "status_set st u v \<longleftrightarrow> v = u\<lparr>us_status := st\<rparr>"

interpretation reject_kyc: account_operation "rejectKyc rq i reason" "on_account i (status_set UserRejected)" for rq i reason
proof
  fix s
  show "account_changes (on_account i (status_set UserRejected)) s (snd (rejectKyc rq i reason s))"
    by (cases "find_user i s = None")
      (auto simp: rejectKyc_def Let_def status_set_def find_set_user split: option.split
        intro!: account_changes_set [where f = "\<lambda>u. u\<lparr>us_status := UserRejected\<rparr>"])
qed

interpretation change_account: account_operation "change_status rq i from refusal st event m" "on_account i (status_set st)" for rq i "from" refusal st event m
proof
  fix s
  show "account_changes (on_account i (status_set st)) s (snd (change_status rq i from refusal st event m s))"
    by (auto simp: change_status_def status_set_def find_set_user split: option.split
        intro!: account_changes_set [where f = "\<lambda>u. u\<lparr>us_status := st\<rparr>"])
qed

definition pin_replaced :: "auth_env \<Rightarrow> identity_request \<Rightarrow> string \<Rightarrow> user \<Rightarrow> user \<Rightarrow> bool" where
  "pin_replaced env rq pin u v \<longleftrightarrow> v = u\<lparr>us_pinHash := Some (ae_hash env (rq_salt rq 0) pin)\<rparr>"

interpretation setup_pin: account_operation "setupPin env rq i pin" "on_account i (pin_replaced env rq pin)" for env rq i pin
proof
  fix s
  show "account_changes (on_account i (pin_replaced env rq pin)) s (snd (setupPin env rq i pin s))"
    by (auto simp: setupPin_def pin_replaced_def find_set_user split: option.split
        intro!: account_changes_set [where f = "\<lambda>u. u\<lparr>us_pinHash := Some (ae_hash env (rq_salt rq 0) pin)\<rparr>"])
qed

text \<open>The beginning of a registration may create the account.\<close>

definition init_change :: "user option \<Rightarrow> user \<Rightarrow> bool" where
  "init_change before v = (case before of
      None \<Rightarrow> us_passwordHash v = None \<and> us_pinHash v = None \<and> us_status v = UserInactive \<and> us_registrationState v = PENDING_OTP
    | Some u \<Rightarrow> \<not> has_text (us_passwordHash u) \<and> us_registrationState u \<noteq> RegCompleted \<and> v = u\<lparr>us_registrationState := PENDING_OTP\<rparr>)"

lemma find_user_otp [simp]: "find_user j (snd (createOtpChallenge env rq i phone s)) = find_user j s"
  by (simp add: createOtpChallenge_def find_user_def Let_def)

text \<open>The primary key of the table of users, which the database enforces.\<close>

definition ids_are_keys :: "'a identity_db_scheme \<Rightarrow> bool" where
  "ids_are_keys s \<longleftrightarrow> distinct (map us_id (users s))"

lemma find_distinct: "distinct (map us_id us) \<Longrightarrow> u \<in> set us \<Longrightarrow> find (\<lambda>v. us_id v = us_id u) us = Some u"
  by (induction us) auto

lemma registerInit_changes:
  assumes "ids_are_keys s"
  shows "account_changes init_change s (snd (registerInit env rq phone s))"
proof (cases "check_phone phone")
  case None
  note check = None
  show ?thesis
  proof (cases "user_by_phone (normalizePhone phone) s")
    case None
    let ?u = "\<lparr>us_id = rq_uuid rq 1, us_phoneNumber = normalizePhone phone, us_email = None, us_passwordHash = None, us_pinHash = None,
      us_status = UserInactive, us_registrationState = PENDING_OTP, us_pinAttempts = 0, us_pinLockedUntil = None,
      us_ledgerAccountId = None, us_createdAt = rq_now rq\<rparr>"
    have "find_user j (snd (registerInit env rq phone s)) = find_user j (s\<lparr>users := users s @ [?u]\<rparr>)" for j
      using check None find_user_otp [of j env rq] by (simp add: registerInit_def Let_def split_def)
    then show ?thesis
      by (auto simp: account_changes_def find_user_def find_append init_change_def split: option.split)
  next
    case (Some u)
    then have "u \<in> set (users s)" by (auto simp: user_by_phone_def dest: find_SomeD)
    then have u: "find_user (us_id u) s = Some u" using assms by (simp add: find_user_def ids_are_keys_def find_distinct)
    show ?thesis
    proof (cases "has_text (us_passwordHash u) \<or> us_registrationState u = RegCompleted")
      case True
      then have "snd (registerInit env rq phone s) = s" using check Some by (auto simp: registerInit_def Let_def has_text_def)
      then show ?thesis by simp
    next
      case False
      let ?f = "\<lambda>u. u\<lparr>us_registrationState := PENDING_OTP\<rparr>"
      have users: "find_user j (snd (registerInit env rq phone s)) = find_user j (set_user (us_id u) ?f s)" for j
        using check Some False find_user_otp [of j env rq] by (auto simp: registerInit_def Let_def has_text_def split_def)
      show ?thesis unfolding account_changes_def users using u False by (auto simp: find_set_user init_change_def)
    qed
  qed
qed (simp add: registerInit_def)

definition otp_verified :: "user \<Rightarrow> user \<Rightarrow> bool" where
  "otp_verified u v \<longleftrightarrow> us_registrationState u \<in> {PENDING_OTP, RegPending} \<and> v = u\<lparr>us_registrationState := OTP_VERIFIED\<rparr>"

lemma registerVerifyOtp_changes: "\<exists>i. account_changes (on_account i otp_verified) s (snd (registerVerifyOtp env rq phone cid otp s))"
proof (cases "verifyOtpChallenge env rq cid (normalizePhone phone) otp s")
  case (Pair r s1)
  have users: "find_user j s1 = find_user j s" for j
    using Pair by (auto simp: verifyOtpChallenge_def Let_def split: option.splits if_splits)
  show ?thesis
  proof (cases r)
    case (Inl e)
    then show ?thesis using Pair users by (intro exI account_changes_same) (simp add: registerVerifyOtp_def)
  next
    case (Inr u)
    have u: "find_user (us_id u) s = Some u"
    proof -
      obtain c :: otp_challenge where "find_user (oc_userId c) s = Some u"
        using Pair Inr by (auto simp: verifyOtpChallenge_def Let_def split: option.splits if_splits)
      then show ?thesis using find_user_id by fastforce
    qed
    show ?thesis
    proof (cases "us_registrationState u \<in> {PENDING_OTP, RegPending}")
      case True
      then show ?thesis using Pair Inr users u
        by (intro exI [of _ "us_id u"] account_changes_set [where f = "\<lambda>u. u\<lparr>us_registrationState := OTP_VERIFIED\<rparr>"])
          (auto simp: registerVerifyOtp_def Let_def find_set_user otp_verified_def)
    next
      case False
      then show ?thesis using Pair Inr users by (intro exI account_changes_same) (simp add: registerVerifyOtp_def Let_def)
    qed
  qed
qed

section \<open>Registration as a step relation\<close>

text \<open>
  The requests that change an account during registration, in any order, by any user: the steps themselves, the
  review, the staff's suspension, blocking and reactivation, a new PIN. The flag says whether the routes of
  the simple mode are used. Refused requests are steps too. Rejection by staff and the retry after it are
  added below (\<open>registration_request\<close>).
\<close>

inductive onboarding :: "auth_env \<Rightarrow> bool \<Rightarrow> kyc_db \<Rightarrow> kyc_db \<Rightarrow> bool" for env where
  init: "ids_are_keys s \<Longrightarrow> onboarding env m s (snd (registerInit env rq phone s))"
| verify_otp: "onboarding env m s (snd (registerVerifyOtp env rq phone cid otp s))"
| terms: "onboarding env m s (snd (acceptTerms env rq auth s))"
| upload: "onboarding env m s (snd (uploadIdCard ke rq i img s))"
| confirm: "onboarding env m s (snd (confirmOcrData ke rq i dto s))"
| selfie: "onboarding env m s (snd (submitSelfie ke rq i face s))"
| profile: "onboarding env m s (snd (registerProfile env rq auth pdto s))"
| password: "onboarding env m s (snd (registerPassword env rq auth pw s))"
| pin: "onboarding env m s (snd (registerPin env rq auth pindto s))"
| complete: "onboarding env m s (snd (completeRegistration env rq auth dev s))"
| upload_simple: "onboarding env True s (snd (uploadIdCardSimple ke rq i img s))"
| selfie_simple: "onboarding env True s (snd (submitSelfieSimple ke rq i img s))"
| approve: "onboarding env m s (snd (approveKyc ke rq i s))"
| suspend: "onboarding env m s (snd (suspendUser rq i s))"
| activate: "onboarding env m s (snd (activateUser rq i s))"
| block: "onboarding env m s (snd (blockUser rq i reason s))"
| setup_pin: "onboarding env m s (snd (setupPin env rq i newpin s))"

text \<open>What a step does to one account.\<close>

inductive account_step :: "auth_env \<Rightarrow> bool \<Rightarrow> user option \<Rightarrow> user \<Rightarrow> bool" for env m where
  begun: "init_change before v \<Longrightarrow> account_step env m before v"
| otp: "otp_verified u v \<Longrightarrow> account_step env m (Some u) v"
| terms: "to_state [OTP_VERIFIED, TC_ACCEPTED] TC_ACCEPTED u v \<Longrightarrow> account_step env m (Some u) v"
| card: "to_state [TC_ACCEPTED, ID_CARD_UPLOADED] ID_CARD_UPLOADED u v \<Longrightarrow> account_step env m (Some u) v"
| confirmed: "to_state [ID_CARD_UPLOADED, ID_CARD_CONFIRMED] ID_CARD_CONFIRMED u v \<Longrightarrow> account_step env m (Some u) v"
| face: "to_state [ID_CARD_CONFIRMED, KYC_VERIFIED] KYC_VERIFIED u v \<Longrightarrow> account_step env m (Some u) v"
| profile: "profile_done u v \<Longrightarrow> account_step env m (Some u) v"
| password: "password_set env rq pw u v \<Longrightarrow> account_step env m (Some u) v"
| pin: "pin_set env rq p u v \<Longrightarrow> account_step env m (Some u) v"
| done_all: "completed u v \<Longrightarrow> account_step env m (Some u) v"
| simple: "m \<Longrightarrow> st \<in> {ID_CARD_UPLOADED, KYC_VERIFIED} \<Longrightarrow> state_set st u v \<Longrightarrow> account_step env m (Some u) v"
| approved: "approved u v \<Longrightarrow> account_step env m (Some u) v"
| status: "st \<in> {UserSuspended, UserActive, UserBlocked} \<Longrightarrow> status_set st u v \<Longrightarrow> account_step env m (Some u) v"
| new_pin: "pin_replaced env rq p u v \<Longrightarrow> account_step env m (Some u) v"

lemma on_accountE: "on_account i R b v \<Longrightarrow> (\<And>u. b = Some u \<Longrightarrow> R u v \<Longrightarrow> thesis) \<Longrightarrow> thesis"
  by (auto simp: on_account_def split: option.splits)

lemma onboarding_account: "onboarding env m s s' \<Longrightarrow> account_changes (account_step env m) s s'"
proof (induction rule: onboarding.induct)
  case init
  then show ?case by (rule account_changes_mono [OF registerInit_changes]) (rule account_step.begun)
next
  case (verify_otp m s rq phone cid otp)
  obtain i where "account_changes (on_account i otp_verified) s (snd (registerVerifyOtp env rq phone cid otp s))" using registerVerifyOtp_changes by blast
  then show ?case by (rule account_changes_mono) (auto elim!: on_accountE intro: account_step.otp)
next
  case terms
  show ?case by (rule accept_terms.refines) (auto elim!: on_accountE intro: account_step.terms)
next
  case upload
  show ?case by (rule upload_id_card.refines) (auto elim!: on_accountE intro: account_step.card)
next
  case confirm
  show ?case by (rule confirm_ocr.refines) (auto elim!: on_accountE intro: account_step.confirmed)
next
  case selfie
  show ?case by (rule submit_selfie.refines) (auto elim!: on_accountE intro: account_step.face)
next
  case profile
  show ?case by (rule register_profile.refines) (auto elim!: on_accountE intro: account_step.profile)
next
  case password
  show ?case by (rule register_password.refines) (auto elim!: on_accountE intro: account_step.password)
next
  case pin
  show ?case by (rule register_pin.refines) (auto elim!: on_accountE intro: account_step.pin)
next
  case complete
  show ?case by (rule complete_registration.refines) (auto elim!: on_accountE intro: account_step.done_all)
next
  case upload_simple
  show ?case by (rule upload_simple.refines) (auto elim!: on_accountE intro: account_step.simple)
next
  case selfie_simple
  show ?case by (rule selfie_simple.refines) (auto elim!: on_accountE intro: account_step.simple)
next
  case approve
  show ?case by (rule approve_kyc.refines) (auto elim!: on_accountE intro: account_step.approved)
next
  case suspend
  show ?case unfolding suspendUser_def by (rule change_account.refines) (auto elim!: on_accountE intro: account_step.status)
next
  case activate
  show ?case unfolding activateUser_def by (rule change_account.refines) (auto elim!: on_accountE intro: account_step.status)
next
  case block
  show ?case unfolding blockUser_def by (rule change_account.refines) (auto elim!: on_accountE intro: account_step.status)
next
  case setup_pin
  show ?case by (rule setup_pin.refines) (auto elim!: on_accountE intro: account_step.new_pin)
qed

section \<open>Credentials\<close>

definition has_credentials :: "user \<Rightarrow> bool" where
  "has_credentials u \<longleftrightarrow> us_status u \<noteq> UserRejected
     \<and> (us_registrationState u \<in> {PASSWORD_SET, CREDENTIALS_SET, RegCompleted} \<longrightarrow> has_text (us_passwordHash u))
     \<and> (us_registrationState u \<in> {CREDENTIALS_SET, RegCompleted} \<longrightarrow> has_text (us_pinHash u))"

lemma has_credentials_state:
  "has_credentials u \<Longrightarrow> st \<notin> {PASSWORD_SET, CREDENTIALS_SET, RegCompleted} \<Longrightarrow> has_credentials (u\<lparr>us_registrationState := st\<rparr>)"
  by (simp add: has_credentials_def)

lemma approved_state_late:
  "approved_state st = PASSWORD_SET \<longleftrightarrow> st = PASSWORD_SET" "approved_state st = CREDENTIALS_SET \<longleftrightarrow> st = CREDENTIALS_SET"
  "approved_state st = RegCompleted \<longleftrightarrow> st = RegCompleted"
  by (cases st; simp add: approved_state_def statesBeforeKycVerified_def)+

lemma account_step_credentials:
  assumes "account_step env m b v" "case b of None \<Rightarrow> True | Some u \<Rightarrow> has_credentials u" "\<forall>salt p. ae_hash env salt p \<noteq> []"
  shows "has_credentials v"
  using assms(1)
proof cases
  case begun
  then show ?thesis using assms(2) by (cases b) (simp_all add: init_change_def has_credentials_state, simp add: has_credentials_def)
next
  case (otp u)
  then show ?thesis using assms(2) by (simp add: otp_verified_def has_credentials_state)
next
  case (terms u)
  then show ?thesis using assms(2) by (simp add: to_state_def has_credentials_state)
next
  case (card u)
  then show ?thesis using assms(2) by (simp add: to_state_def has_credentials_state)
next
  case (confirmed u)
  then show ?thesis using assms(2) by (simp add: to_state_def has_credentials_state)
next
  case (face u)
  then show ?thesis using assms(2) by (simp add: to_state_def has_credentials_state)
next
  case (profile u)
  then show ?thesis using assms(2) by (simp add: profile_done_def has_credentials_def status_after_def)
next
  case (password rq pw u)
  then show ?thesis using assms(2,3) by (simp add: password_set_def has_credentials_def has_text_def)
next
  case (pin rq p u)
  then show ?thesis using assms(2,3) by (auto simp: pin_set_def has_credentials_def has_text_def [of "Some _"] allowed_def)
next
  case (done_all u)
  then show ?thesis using assms(2) by (auto simp: completed_def has_credentials_def allowed_def status_after_def)
next
  case (simple st u)
  then show ?thesis using assms(2) has_credentials_state [of u st] by (auto simp: state_set_def)
next
  case (approved u)
  then obtain w where "v = u\<lparr>us_ledgerAccountId := w, us_status := UserActive, us_registrationState := approved_state (us_registrationState u)\<rparr>"
    by (auto simp: approved_def)
  then show ?thesis using assms(2) approved(1) by (simp add: has_credentials_def approved_state_late)
next
  case (status st u)
  then show ?thesis using assms(2) by (auto simp: status_set_def has_credentials_def)
next
  case (new_pin rq p u)
  then show ?thesis using assms(2,3) by (simp add: pin_replaced_def has_credentials_def has_text_def)
qed

lemma onboarding_credentials_step:
  assumes "onboarding env m s s'" "accounts has_credentials s" "\<forall>salt p. ae_hash env salt p \<noteq> []"
  shows "accounts has_credentials s'"
  by (rule account_changes_keep [OF onboarding_account [OF assms(1)] assms(2)]) (erule account_step_credentials, simp_all add: assms(3))+

lemma onboarding_credentials_reachable:
  assumes "(onboarding env m)\<^sup>*\<^sup>* s0 s" "users s0 = []" "\<forall>salt p. ae_hash env salt p \<noteq> []"
  shows "accounts has_credentials s"
  using assms(1)
proof (induction rule: rtranclp_induct)
  case base
  then show ?case using assms(2) by (simp add: accounts_def find_user_def)
next
  case (step s s')
  then show ?case using onboarding_credentials_step assms(3) by blast
qed

text \<open>
  Property C14. Who has completed a registration can log in. From an empty database, after any requests of any
  users in any order, the simple mode included, staff's approvals, suspensions and reactivations included,
  as long as nobody has been rejected: an account whose registration is complete has a password and a PIN,
  and one that is past the password step has a password.
\<close>

theorem onboarding_credentials:
  assumes "(onboarding env m)\<^sup>*\<^sup>* s0 s" "users s0 = []" "\<forall>salt p. ae_hash env salt p \<noteq> []" "find_user i s = Some u"
  shows "(us_registrationState u = RegCompleted \<longrightarrow> has_text (us_passwordHash u) \<and> has_text (us_pinHash u))
     \<and> (us_registrationState u \<in> {PASSWORD_SET, CREDENTIALS_SET} \<longrightarrow> has_text (us_passwordHash u))"
  using onboarding_credentials_reachable [OF assms(1-3)] assms(4) by (auto simp: accounts_def has_credentials_def)

section \<open>The documented flow\<close>

text \<open>
  The arrows of the state diagram of \<open>ONBOARDING_FLOW.md\<close> (diagram 1), and no others. The composite state of the
  diagram, with the arrow back to the accepted terms, has four members.
\<close>

fun documented_next :: "registration_state \<Rightarrow> registration_state list" where
  "documented_next RegPending = [PENDING_OTP]"
| "documented_next PENDING_OTP = [OTP_VERIFIED]"
| "documented_next INITIATED = []"
| "documented_next OTP_VERIFIED = [TC_ACCEPTED]"
| "documented_next TC_ACCEPTED = [ID_CARD_UPLOADED]"
| "documented_next ID_CARD_UPLOADED = [ID_CARD_CONFIRMED]"
| "documented_next ID_CARD_CONFIRMED = [KYC_VERIFIED]"
| "documented_next KYC_VERIFIED = [PROFILE_COMPLETED]"
| "documented_next PROFILE_COMPLETED = [PASSWORD_SET, RegCompleted, TC_ACCEPTED]"
| "documented_next PASSWORD_SET = [CREDENTIALS_SET, TC_ACCEPTED]"
| "documented_next CREDENTIALS_SET = [RegCompleted, TC_ACCEPTED]"
| "documented_next RegCompleted = [TC_ACCEPTED]"

text \<open>
  The moves that the code makes besides. \<open>starts_anew\<close>: the first step resets a registration without a password.
  \<open>code_without_begin\<close>: a one-time password is accepted in the state before the first step. \<open>skips_early\<close>: an
  applicant with both credentials skips from the face check, one state before the documented skip.
  \<open>approved_early\<close>: an approval moves an account that has not reached the face check behind it.
  \<open>retries\<close>: a retry goes back to the accepted terms from any state and marks the account as rejected.
  \<open>rejected_jumps\<close>: for a rejected account every step runs in every state. \<open>simple_jumps\<close>: so do the two
  routes of the simple mode, for everybody.
\<close>

definition starts_anew :: "user \<Rightarrow> user \<Rightarrow> bool" where
  "starts_anew u v \<longleftrightarrow> \<not> has_text (us_passwordHash u) \<and> us_registrationState u \<noteq> RegCompleted \<and> us_registrationState v = PENDING_OTP"

definition code_without_begin :: "user \<Rightarrow> user \<Rightarrow> bool" where
  "code_without_begin u v \<longleftrightarrow> us_registrationState u = RegPending \<and> us_registrationState v = OTP_VERIFIED"

definition skips_early :: "user \<Rightarrow> user \<Rightarrow> bool" where
  "skips_early u v \<longleftrightarrow> us_registrationState u = KYC_VERIFIED \<and> us_registrationState v = RegCompleted
     \<and> has_text (us_passwordHash u) \<and> has_text (us_pinHash u)"

definition approved_early :: "user \<Rightarrow> user \<Rightarrow> bool" where
  "approved_early u v \<longleftrightarrow> us_registrationState u \<in> set statesBeforeKycVerified \<and> us_registrationState v = KYC_VERIFIED \<and> us_status v = UserActive"

definition retries :: "user \<Rightarrow> user \<Rightarrow> bool" where
  "retries u v \<longleftrightarrow> us_registrationState v = TC_ACCEPTED \<and> us_status v = UserRejected"

definition rejected_jumps :: "user \<Rightarrow> user \<Rightarrow> bool" where
  "rejected_jumps u v \<longleftrightarrow> us_status u = UserRejected \<and> us_registrationState v \<notin> {RegPending, PENDING_OTP, INITIATED, OTP_VERIFIED}"

definition simple_jumps :: "user \<Rightarrow> user \<Rightarrow> bool" where
  "simple_jumps u v \<longleftrightarrow> us_registrationState v \<in> {ID_CARD_UPLOADED, KYC_VERIFIED}"

definition may_follow :: "bool \<Rightarrow> user \<Rightarrow> user \<Rightarrow> bool" where
  "may_follow simple u v \<longleftrightarrow> us_registrationState v = us_registrationState u
     \<or> us_registrationState v \<in> set (documented_next (us_registrationState u))
     \<or> starts_anew u v \<or> code_without_begin u v \<or> skips_early u v \<or> approved_early u v \<or> retries u v \<or> rejected_jumps u v
     \<or> simple \<and> simple_jumps u v"

lemmas deviations = starts_anew_def code_without_begin_def skips_early_def approved_early_def retries_def rejected_jumps_def simple_jumps_def

lemma to_state_follows:
  assumes "to_state [a, b] b u v" "b \<in> set (documented_next a)" "b \<notin> {RegPending, PENDING_OTP, INITIATED, OTP_VERIFIED}"
  shows "may_follow m u v"
  using assms by (auto simp: to_state_def allowed_def may_follow_def deviations)

lemma account_step_follows:
  assumes "account_step env m (Some u) v"
  shows "may_follow m u v"
  using assms
proof cases
  case begun
  then show ?thesis by (simp add: init_change_def may_follow_def deviations)
next
  case otp
  then show ?thesis by (auto simp: otp_verified_def may_follow_def deviations)
next
  case terms
  then show ?thesis by (rule to_state_follows) simp_all
next
  case card
  then show ?thesis by (rule to_state_follows) simp_all
next
  case confirmed
  then show ?thesis by (rule to_state_follows) simp_all
next
  case face
  then show ?thesis by (rule to_state_follows) simp_all
next
  case profile
  then show ?thesis by (auto simp: profile_done_def allowed_def may_follow_def deviations)
next
  case password
  then show ?thesis by (auto simp: password_set_def allowed_def may_follow_def deviations)
next
  case pin
  then show ?thesis by (auto simp: pin_set_def allowed_def may_follow_def deviations)
next
  case done_all
  then show ?thesis by (auto simp: completed_def allowed_def may_follow_def deviations)
next
  case simple
  then show ?thesis by (auto simp: state_set_def may_follow_def deviations)
next
  case approved
  then obtain w where v: "v = u\<lparr>us_ledgerAccountId := w, us_status := UserActive, us_registrationState := approved_state (us_registrationState u)\<rparr>"
    by (auto simp: approved_def)
  then show ?thesis by (cases "us_registrationState u \<in> set statesBeforeKycVerified") (simp_all add: approved_state_def may_follow_def deviations)
qed (auto simp: status_set_def pin_replaced_def may_follow_def)

text \<open>Rejection by staff and the retry after it; a retry tests nothing.\<close>

definition sent_back :: "user \<Rightarrow> user \<Rightarrow> bool" where
  "sent_back u v \<longleftrightarrow> v = u\<lparr>us_registrationState := TC_ACCEPTED, us_status := UserRejected\<rparr>"

interpretation retry_kyc: account_operation "retryKyc rq i" "on_account i sent_back" for rq i
proof
  fix s
  show "account_changes (on_account i sent_back) s (snd (retryKyc rq i s))"
    by (cases "find_user i s = None")
      (auto simp: retryKyc_def Let_def sent_back_def find_set_user split: option.split
        intro!: account_changes_set [where f = "\<lambda>u. u\<lparr>us_registrationState := TC_ACCEPTED, us_status := UserRejected\<rparr>"])
qed

inductive registration_request :: "auth_env \<Rightarrow> bool \<Rightarrow> kyc_db \<Rightarrow> kyc_db \<Rightarrow> bool" for env m where
  flow: "onboarding env m s s' \<Longrightarrow> registration_request env m s s'"
| reject: "registration_request env m s (snd (rejectKyc rq i reason s))"
| retry: "registration_request env m s (snd (retryKyc rq i s))"

lemma registration_request_changes:
  assumes "registration_request env m s s'"
  shows "account_changes (\<lambda>b v. case b of None \<Rightarrow> True | Some u \<Rightarrow> may_follow m u v) s s'"
  using assms
proof cases
  case flow
  then show ?thesis by (rule account_changes_mono [OF onboarding_account]) (auto simp: account_step_follows split: option.split)
next
  case reject
  then show ?thesis
    by (auto intro!: reject_kyc.refines elim!: on_accountE simp: status_set_def may_follow_def)
next
  case retry
  then show ?thesis
    by (auto intro!: retry_kyc.refines elim!: on_accountE simp: sent_back_def may_follow_def retries_def)
qed

text \<open>
  Property C15. The documented flow, and the ways around it. Whatever the state of the database, every request of
  registration by anybody (the steps, the simple mode where \<open>simple\<close> is set, approval, rejection, retry, suspension,
  blocking, reactivation, a new PIN) keeps every account, and leaves its registration where it is, takes it
  along one arrow of the documented diagram, or makes one of seven moves that the diagram does not have, each under its
  condition: a new beginning without a password, a code accepted before the first step, the skip one state too
  early, an approval before the face check, a retry, a step of a rejected account, a step of the simple mode.
\<close>

theorem registration_follows_flow:
  assumes "registration_request env simple s s'" "find_user i s = Some u"
  shows "\<exists>v. find_user i s' = Some v
     \<and> (us_registrationState v = us_registrationState u
        \<or> us_registrationState v \<in> set (documented_next (us_registrationState u))
        \<or> starts_anew u v \<or> code_without_begin u v \<or> skips_early u v \<or> approved_early u v \<or> retries u v \<or> rejected_jumps u v
        \<or> simple \<and> simple_jumps u v)"
proof -
  from registration_request_changes [OF assms(1)] assms(2)
  have "find_user i s' = Some u \<or> (\<exists>v. find_user i s' = Some v \<and> may_follow simple u v)"
    unfolding account_changes_def by (metis option.case(2))
  then show ?thesis unfolding may_follow_def by auto
qed

text \<open>For an account that nobody has rejected, away from the simple mode, the steps of the user are the documented ones.\<close>

lemma user_steps_documented:
  assumes "account_step env False (Some u) v" "us_status u \<noteq> UserRejected" "us_status v \<noteq> UserRejected"
  shows "us_registrationState v = us_registrationState u \<or> us_registrationState v \<in> set (documented_next (us_registrationState u))
     \<or> starts_anew u v \<or> code_without_begin u v \<or> skips_early u v \<or> approved_early u v"
  using account_step_follows [OF assms(1)] assms(2,3) by (auto simp: may_follow_def retries_def rejected_jumps_def)

section \<open>Ways around the flow\<close>

lemma submitSelfieSimple_works:
  assumes "find_user i s = Some u" "find_kyc i s = Some k" "has_text (kd_livenessSessionId k)" "ke_storageUp ke"
  shows "\<exists>r s'. submitSelfieSimple ke rq i face s = (Inr r, s') \<and> find_user i s' = Some (u\<lparr>us_registrationState := KYC_VERIFIED\<rparr>)
     \<and> userConsents s' = userConsents s"
  using assms by (auto simp: submitSelfieSimple_def put_object_def advance_def find_set_user) (auto simp: set_user_def set_kyc_def)

text \<open>
  The simple mode skips the terms. Two calls of the simple routes, which are open to any holder of a
  token, take an account from any registration state to the one behind the face check: without accepted
  terms, without a card that anybody has read and without a face compared.
\<close>

theorem simple_mode_skips_steps:
  assumes "find_user i s = Some u" "ke_storageUp ke" "has_text (ae_piiKey (ke_auth ke))" "rq_uuid rq 0 \<noteq> []"
    and "\<not> token_taken i (Some (ke_sha256 ke (simple_id @ i))) s"
  shows "\<exists>x r s1 s2. uploadIdCardSimple ke rq i img s = (Inr x, s1) \<and> submitSelfieSimple ke rq i face s1 = (Inr r, s2)
     \<and> find_user i s2 = Some (u\<lparr>us_registrationState := KYC_VERIFIED\<rparr>) \<and> userConsents s2 = userConsents s"
proof -
  obtain c0 c1 where c: "encryptPii ke 0 simple_id = Inr c0" "encryptPii ke (Suc 0) ''(Mr. Somchai Khemklad)'' = Inr c1"
    using encryptPii_works [OF assms(3)] by meson
  let ?s = "s\<lparr>storedObjects := storedObjects s @ [(id_card_key i, img)]\<rparr>"
  obtain f where f: "uploadIdCardSimple ke rq i img s = advance i ID_CARD_UPLOADED (rq_uuid rq 0) (upsert_kyc rq i f f ?s)"
    and live: "\<And>k. kd_livenessSessionId (f k) = Some (rq_uuid rq 0)" "\<And>k. kd_userId (f k) = kd_userId k"
    using assms(2,5) c by (simp add: uploadIdCardSimple_def put_object_def Let_def)
  let ?s1 = "set_user i (\<lambda>u. u\<lparr>us_registrationState := ID_CARD_UPLOADED\<rparr>) (upsert_kyc rq i f f ?s)"
  have up: "uploadIdCardSimple ke rq i img s = (Inr (rq_uuid rq 0), ?s1)" using f assms(1) by (simp add: advance_def)
  have u1: "find_user i ?s1 = Some (u\<lparr>us_registrationState := ID_CARD_UPLOADED\<rparr>)" using assms(1) by (simp add: find_set_user)
  obtain k where k: "find_kyc i ?s1 = Some k" "kd_livenessSessionId k = Some (rq_uuid rq 0)"
  proof (cases "find_kyc i s")
    case None
    then show ?thesis using live that by (simp add: upsert_kyc_def find_kyc_def set_user_def find_append new_kyc_def)
  next
    case (Some k0)
    then have "find_kyc i ?s1 = Some ((f k0)\<lparr>kd_updatedAt := rq_now rq\<rparr>)" using live(2) by (simp add: upsert_kyc_def find_set_kyc)
    then show ?thesis using live(1) that by simp
  qed
  have "userConsents ?s1 = userConsents s" by (simp add: set_user_def upsert_kyc_def set_kyc_def)
  then show ?thesis using up submitSelfieSimple_works [OF u1 k(1) _ assms(2), of rq face] k(2) assms(4) by (auto simp: has_text_def)
qed

text \<open>A retry is open to every account, rejected or not, approved and active ones included, and rejects it.\<close>

lemma retry_from_any_state:
  assumes "find_user i s = Some u"
  shows "find_user i (snd (retryKyc rq i s)) = Some (u\<lparr>us_registrationState := TC_ACCEPTED, us_status := UserRejected\<rparr>)"
  using assms by (auto simp: retryKyc_def Let_def find_set_user split: option.split)

text \<open>A registration step of a user whose token is valid and whose state is right runs its work.\<close>

lemma registration_step_runs:
  assumes "registration_user env rq auth = Inr i" "find_user i s = Some u" "allowed st u"
  shows "registration_step env rq auth st body s = body u s"
  using assms by (auto simp: registration_step_def validateRegistrationState_def allowed_def)

lemma find_kyc_tables [simp]:
  "find_kyc j (upsert_setting i k v s) = find_kyc j s" "find_kyc j (snd (upsert_device i d f n s)) = find_kyc j s"
  "find_kyc j (add_session x s) = find_kyc j s" "find_kyc j (snd (updateAddress rq m i ty dto src s)) = find_kyc j s"
  by (simp_all add: find_kyc_def upsert_setting_def upsert_device_def add_session_def updateAddress_def logSecurityEvent_def Let_def split: option.split)

lemma find_kyc_address [simp]: "find_kyc j (register_address rq i dto s) = find_kyc j s"
  by (simp add: register_address_def Let_def split: option.split)

lemma find_kyc_sync: "find_kyc j (sync_kyc rq i st s)
   = (if st = PendingApproval \<and> j = i then map_option (\<lambda>k. k\<lparr>kd_verificationStatus := KycPending, kd_updatedAt := rq_now rq\<rparr>) (find_kyc j s) else find_kyc j s)"
proof (cases "st = PendingApproval")
  case True
  have "find_kyc j (sync_kyc rq i st s)
      = map_option (\<lambda>k. if kd_userId k = i then k\<lparr>kd_verificationStatus := KycPending, kd_updatedAt := rq_now rq\<rparr> else k) (find_kyc j s)"
    using True by (simp add: sync_kyc_def find_kyc_def find_update_where)
  then show ?thesis using True by (cases "find_kyc j s") (auto simp: find_kyc_def dest: find_SomeD)
qed (simp add: sync_kyc_def)

lemma completeRegistration_works:
  assumes "registration_user env rq auth = Inr i" "find_user i s = Some u" "allowed [CREDENTIALS_SET, RegCompleted] u"
    "us_registrationState u = RegCompleted \<longrightarrow> us_status u \<noteq> UserActive"
  shows "\<exists>r s'. completeRegistration env rq auth dev s = (Inr r, s') \<and> find_user i s' = Some (u\<lparr>us_registrationState := RegCompleted, us_status := status_after (us_status u)\<rparr>)
     \<and> find_kyc i s' = find_kyc i (sync_kyc rq i (status_after (us_status u)) s)"
proof -
  have "us_id u = i" by (rule find_user_id [OF assms(2)])
  then show ?thesis unfolding completeRegistration_def registration_step_runs [OF assms(1-3)]
    using assms(2,4) by (simp add: Let_def find_set_user find_kyc_sync)
qed

definition applicant :: "user \<Rightarrow> bool" where
  "applicant u \<longleftrightarrow> us_status u \<in> {UserInactive, UserRejected, PendingApproval}"

lemma applicant_waits: "applicant u \<Longrightarrow> status_after (us_status u) = PendingApproval"
  by (auto simp: applicant_def status_after_def)

lemma completeRegistration_waits:
  assumes "registration_user env rq auth = Inr i" "find_user i s = Some u" "allowed [CREDENTIALS_SET, RegCompleted] u" "applicant u" "find_kyc i s = Some k"
  shows "\<exists>r s' k'. completeRegistration env rq auth dev s = (Inr r, s') \<and> find_user i s' = Some (u\<lparr>us_registrationState := RegCompleted, us_status := PendingApproval\<rparr>)
     \<and> find_kyc i s' = Some k' \<and> kd_verificationStatus k' \<noteq> KycApproved"
  using completeRegistration_works [OF assms(1-3), of dev] assms(4,5)
  by (auto simp: applicant_waits find_kyc_sync) (auto simp: applicant_def)

text \<open>
  A rejected applicant may skip every step. After a rejection a valid registration token completes
  the registration from any state: the account waits for approval again and the record is pending, with
  whatever password and PIN there were, none at all included. An approval then makes it active.
\<close>

theorem rejected_skips_steps:
  assumes "find_user i s = Some u" "us_status u = UserRejected" "registration_user env rq auth = Inr i" "find_kyc i s = Some k"
  shows "\<exists>r s1 k' s2 w. completeRegistration env rq auth dev s = (Inr r, s1)
     \<and> find_user i s1 = Some (u\<lparr>us_registrationState := RegCompleted, us_status := PendingApproval\<rparr>)
     \<and> approveKyc ke rq' i s1 = (Inr k', s2)
     \<and> find_user i s2 = Some (u\<lparr>us_ledgerAccountId := w, us_status := UserActive, us_registrationState := RegCompleted\<rparr>)"
proof -
  obtain r s1 k1 where run: "completeRegistration env rq auth dev s = (Inr r, s1)"
    and u1: "find_user i s1 = Some (u\<lparr>us_registrationState := RegCompleted, us_status := PendingApproval\<rparr>)"
    and k1: "find_kyc i s1 = Some k1" "kd_verificationStatus k1 \<noteq> KycApproved"
    using completeRegistration_waits [OF assms(3,1) _ _ assms(4), of dev] assms(2) by (auto simp: allowed_def applicant_def)
  from approveKyc_effect [OF k1 u1, of ke rq'] run u1 show ?thesis by (auto simp: approved_state_def statesBeforeKycVerified_def)
qed

section \<open>The way to an active account\<close>

text \<open>The last four requests of a registration, one after the other, each only if the one before succeeded.\<close>

definition finish_registration :: "auth_env \<Rightarrow> (nat \<Rightarrow> identity_request) \<Rightarrow> string option \<Rightarrow> profile_dto \<Rightarrow> string \<Rightarrow> pin_dto \<Rightarrow> string option \<Rightarrow> (kyc_db, auth_response) handler" where
  "finish_registration env rq auth profile password pin dev s =
     (case registerProfile env (rq 0) auth profile s of
        (Inl e, s1) \<Rightarrow> (Inl e, s1)
      | (Inr _, s1) \<Rightarrow>
          (case registerPassword env (rq 1) auth password s1 of
             (Inl e, s2) \<Rightarrow> (Inl e, s2)
           | (Inr _, s2) \<Rightarrow>
               (case registerPin env (rq 2) auth pin s2 of
                  (Inl e, s3) \<Rightarrow> (Inl e, s3)
                | (Inr _, s3) \<Rightarrow> completeRegistration env (rq 3) auth dev s3)))"

lemma registerProfile_works:
  assumes "registration_user env rq auth = Inr i" "find_user i s = Some u" "us_registrationState u = KYC_VERIFIED"
    "\<not> (has_text (us_passwordHash u) \<and> has_text (us_pinHash u))"
  shows "\<exists>s'. registerProfile env rq auth dto s = (Inr PROFILE_COMPLETED, s')
     \<and> find_user i s' = Some (u\<lparr>us_registrationState := PROFILE_COMPLETED, us_status := status_after (us_status u)\<rparr>) \<and> (find_kyc i s' = None \<longleftrightarrow> find_kyc i s = None)"
proof -
  have "allowed [KYC_VERIFIED, PROFILE_COMPLETED] u" "us_id u = i" using assms find_user_id [OF assms(2)] by (auto simp: allowed_def)
  then show ?thesis unfolding registerProfile_def using assms
    by (subst registration_step_runs [OF assms(1,2)]) (auto simp: Let_def find_set_user find_kyc_sync)
qed

lemma registerPassword_works:
  assumes "registration_user env rq auth = Inr i" "find_user i s = Some u" "us_registrationState u = PROFILE_COMPLETED"
  shows "\<exists>s'. registerPassword env rq auth password s = (Inr (), s')
     \<and> find_user i s' = Some (u\<lparr>us_passwordHash := Some (ae_hash env (rq_salt rq 0) password), us_registrationState := PASSWORD_SET\<rparr>) \<and> find_kyc i s' = find_kyc i s"
proof -
  have "allowed [PROFILE_COMPLETED, PASSWORD_SET] u" "us_id u = i" using assms find_user_id [OF assms(2)] by (auto simp: allowed_def)
  then show ?thesis unfolding registerPassword_def using assms
    by (subst registration_step_runs [OF assms(1,2)]) (auto simp: find_set_user)
qed

lemma registerPin_works:
  assumes "registration_user env rq auth = Inr i" "find_user i s = Some u" "us_registrationState u = PASSWORD_SET"
  shows "\<exists>s'. registerPin env rq auth dto s = (Inr (), s')
     \<and> find_user i s' = Some (u\<lparr>us_pinHash := Some (ae_hash env (rq_salt rq 0) (pn_pin dto)), us_registrationState := CREDENTIALS_SET\<rparr>) \<and> find_kyc i s' = find_kyc i s"
proof -
  have "allowed [PASSWORD_SET, CREDENTIALS_SET] u" "us_id u = i" using assms find_user_id [OF assms(2)] by (auto simp: allowed_def)
  then show ?thesis unfolding registerPin_def using assms
    by (subst registration_step_runs [OF assms(1,2)]) (simp_all add: find_set_user split_def)
qed

text \<open>
  Property C16. A registration reaches its end. An applicant behind the face check, without credentials yet and
  with a token that is valid for the four requests, gets through them: the profile, the password, the PIN
  and the completion all succeed, the account then holds the hashes of that password and that PIN and waits
  for approval with its record pending; approval succeeds and makes it active with those credentials.
\<close>

theorem registration_completes:
  assumes "\<And>n. registration_user env (rq n) auth = Inr i" "find_user i s = Some u" "us_registrationState u = KYC_VERIFIED" "applicant u"
    "\<not> (has_text (us_passwordHash u) \<and> has_text (us_pinHash u))" "find_kyc i s \<noteq> None"
  shows "\<exists>r s1 v k' s2 w. finish_registration env rq auth profile password pin dev s = (Inr r, s1) \<and> find_user i s1 = Some v
     \<and> v = u\<lparr>us_passwordHash := Some (ae_hash env (rq_salt (rq 1) 0) password), us_pinHash := Some (ae_hash env (rq_salt (rq 2) 0) (pn_pin pin)),
            us_status := PendingApproval, us_registrationState := RegCompleted\<rparr>
     \<and> approveKyc ke rq' i s1 = (Inr k', s2) \<and> find_user i s2 = Some (v\<lparr>us_ledgerAccountId := w, us_status := UserActive\<rparr>)"
proof -
  let ?u1 = "u\<lparr>us_registrationState := PROFILE_COMPLETED, us_status := PendingApproval\<rparr>"
  let ?u2 = "?u1\<lparr>us_passwordHash := Some (ae_hash env (rq_salt (rq 1) 0) password), us_registrationState := PASSWORD_SET\<rparr>"
  let ?u3 = "?u2\<lparr>us_pinHash := Some (ae_hash env (rq_salt (rq 2) 0) (pn_pin pin)), us_registrationState := CREDENTIALS_SET\<rparr>"
  obtain s1 where s1: "registerProfile env (rq 0) auth profile s = (Inr PROFILE_COMPLETED, s1)" "find_user i s1 = Some ?u1" "find_kyc i s1 \<noteq> None"
    using registerProfile_works [OF assms(1-3,5), of 0 profile] assms(6) applicant_waits [OF assms(4)] by auto
  obtain s2 where s2: "registerPassword env (rq 1) auth password s1 = (Inr (), s2)" "find_user i s2 = Some ?u2" "find_kyc i s2 \<noteq> None"
    using registerPassword_works [OF assms(1) s1(2), of 1 password] s1(3) by auto
  obtain s3 where s3: "registerPin env (rq 2) auth pin s2 = (Inr (), s3)" "find_user i s3 = Some ?u3" "find_kyc i s3 \<noteq> None"
    using registerPin_works [OF assms(1) s2(2), of 2 pin] s2(3) by auto
  obtain k3 where k3: "find_kyc i s3 = Some k3" using s3(3) by auto
  obtain r s4 k4 where s4: "completeRegistration env (rq 3) auth dev s3 = (Inr r, s4)" "find_user i s4 = Some (?u3\<lparr>us_registrationState := RegCompleted, us_status := PendingApproval\<rparr>)"
    "find_kyc i s4 = Some k4" "kd_verificationStatus k4 \<noteq> KycApproved"
    using completeRegistration_waits [OF assms(1) s3(2) _ _ k3, of 3 dev] by (auto simp: allowed_def applicant_def)
  from approveKyc_effect [OF s4(3,4,2), of ke rq'] obtain k' s5 w where ok: "approveKyc ke rq' i s4 = (Inr k', s5)"
    "find_user i s5 = Some (?u3\<lparr>us_ledgerAccountId := w, us_status := UserActive, us_registrationState := RegCompleted\<rparr>)"
    by (auto simp: approved_state_def statesBeforeKycVerified_def)
  have run: "finish_registration env rq auth profile password pin dev s = (Inr r, s4)" using s1(1) s2(1) s3(1) s4(1) by (simp add: finish_registration_def)
  let ?v = "u\<lparr>us_passwordHash := Some (ae_hash env (rq_salt (rq 1) 0) password), us_pinHash := Some (ae_hash env (rq_salt (rq 2) 0) (pn_pin pin)),
            us_status := PendingApproval, us_registrationState := RegCompleted\<rparr>"
  have "find_user i s4 = Some ?v" using s4(2) by simp
  moreover have "find_user i s5 = Some (?v\<lparr>us_ledgerAccountId := w, us_status := UserActive\<rparr>)" using ok(2) by (cases u) simp
  ultimately show ?thesis using run ok(1) by blast
qed

section \<open>An example\<close>

text \<open>
  A library whose registration token belongs to the user \<open>2\<close>, and a database without users where a record for
  that user exists: the registration below is approved before its profile is there.
\<close>

definition demo_registrar :: auth_env where
  "demo_registrar = demo_auth\<lparr>ae_verify := (\<lambda>secret now t. Inr (JObj [(''typ'', JStr ''registration''), (''sub'', JStr ''2'')]))\<rparr>"

definition demo_start :: kyc_db where
  "demo_start = demo_kyc\<lparr>users := [], kycData := [new_kyc (demo_rq 0) ''2'']\<rparr>"

definition demo_profile :: profile_dto where
  "demo_profile = \<lparr>pd_occupation = None, pd_incomeRange = [], pd_sourceOfFunds = [], pd_purposeOfAccount = [], pd_currentAddress = JUndef, pd_useIdentityAddress = False\<rparr>"

definition demo_pin :: pin_dto where
  "demo_pin = \<lparr>pn_pin = ''123456'', pn_deviceId = ''d1'', pn_deviceName = None, pn_pushToken = None\<rparr>"

lemma demo_registrar: "users demo_start = []" "\<forall>salt p. ae_hash demo_registrar salt p \<noteq> []" "registration_user demo_registrar rq (Some ''t'') = Inr ''2''"
  "find_kyc ''2'' (demo_start\<lparr>users := us\<rparr>) = Some (new_kyc (demo_rq 0) ''2'')"
  by (simp_all add: demo_start_def demo_registrar_def demo_auth_def registration_user_def jget.simps sub_of_def find_kyc_def new_kyc_def)

lemma demo_profile_reached:
  "\<exists>s u. (onboarding demo_registrar False)\<^sup>*\<^sup>* demo_start s \<and> find_user ''2'' s = Some u \<and> us_registrationState u = PROFILE_COMPLETED"
proof -
  let ?s1 = "snd (registerInit demo_registrar (demo_rq 1) ''0812345678'' demo_start)"
  have c: "check_phone ''0812345678'' = None" "rq_uuid (demo_rq 1) 1 = ''2''" by code_simp+
  have k: "find_kyc ''2'' ?s1 = Some (new_kyc (demo_rq 0) ''2'')" "kd_verificationStatus (new_kyc (demo_rq 0) ''2'') \<noteq> KycApproved"
    by (simp_all add: registerInit_def c Let_def user_by_phone_def createOtpChallenge_def logSecurityEvent_def demo_start_def find_kyc_def new_kyc_def)
  obtain u where u: "find_user ''2'' ?s1 = Some u" "us_registrationState u = PENDING_OTP" "us_passwordHash u = None"
    by (simp add: registerInit_def c(1) c(2) [simplified] Let_def user_by_phone_def createOtpChallenge_def logSecurityEvent_def demo_start_def find_user_def)
  obtain k' s2 w where s2: "approveKyc demo_kyc_env (demo_rq 2) ''2'' ?s1 = (Inr k', s2)"
    "find_user ''2'' s2 = Some (u\<lparr>us_ledgerAccountId := w, us_status := UserActive, us_registrationState := KYC_VERIFIED\<rparr>)"
    using approveKyc_effect [OF k u(1), of demo_kyc_env "demo_rq 2"] u(2) by (auto simp: approved_state_def statesBeforeKycVerified_def)
  obtain s3 v where s3: "registerProfile demo_registrar (demo_rq 3) (Some ''t'') demo_profile s2 = (Inr PROFILE_COMPLETED, s3)"
    "find_user ''2'' s3 = Some v" "us_registrationState v = PROFILE_COMPLETED"
    using registerProfile_works [OF demo_registrar(3) s2(2), of "demo_rq 3" demo_profile] u(3) by (auto simp: has_text_def)
  have "ids_are_keys demo_start" by (simp add: ids_are_keys_def demo_start_def)
  then have "onboarding demo_registrar False demo_start ?s1" by (rule onboarding.init)
  moreover have "onboarding demo_registrar False ?s1 s2" using onboarding.approve [of demo_registrar False ?s1 demo_kyc_env "demo_rq 2" "''2''"] s2(1) by simp
  moreover have "onboarding demo_registrar False s2 s3" using onboarding.profile [of demo_registrar False s2 "demo_rq 3" "Some ''t''" demo_profile] s3(1) by simp
  ultimately show ?thesis using s3(2,3) by (meson rtranclp.rtrancl_refl rtranclp.rtrancl_into_rtrancl)
qed

theorem onboarding_credentials_witness:
  "\<exists>s u. (onboarding demo_registrar False)\<^sup>*\<^sup>* demo_start s \<and> find_user ''2'' s = Some u \<and> us_registrationState u = RegCompleted
     \<and> has_text (us_passwordHash u) \<and> has_text (us_pinHash u)"
proof -
  obtain s u where s: "(onboarding demo_registrar False)\<^sup>*\<^sup>* demo_start s" "find_user ''2'' s = Some u" "us_registrationState u = PROFILE_COMPLETED"
    using demo_profile_reached by blast
  obtain s1 v where s1: "registerPassword demo_registrar (demo_rq 4) (Some ''t'') ''secret'' s = (Inr (), s1)" "find_user ''2'' s1 = Some v" "us_registrationState v = PASSWORD_SET"
    using registerPassword_works [OF demo_registrar(3) s(2,3), of "demo_rq 4" "''secret''"] by auto
  obtain s2 w where s2: "registerPin demo_registrar (demo_rq 5) (Some ''t'') demo_pin s1 = (Inr (), s2)" "find_user ''2'' s2 = Some w" "us_registrationState w = CREDENTIALS_SET"
    using registerPin_works [OF demo_registrar(3) s1(2,3), of "demo_rq 5" demo_pin] by auto
  obtain r s3 x where s3: "completeRegistration demo_registrar (demo_rq 6) (Some ''t'') None s2 = (Inr r, s3)" "find_user ''2'' s3 = Some x" "us_registrationState x = RegCompleted"
    using completeRegistration_works [OF demo_registrar(3) s2(2), of "demo_rq 6" None] s2(3) by (auto simp: allowed_def)
  have "onboarding demo_registrar False s s1" using onboarding.password [of demo_registrar False s "demo_rq 4" "Some ''t''" "''secret''"] s1(1) by simp
  moreover have "onboarding demo_registrar False s1 s2" using onboarding.pin [of demo_registrar False s1 "demo_rq 5" "Some ''t''" demo_pin] s2(1) by simp
  moreover have "onboarding demo_registrar False s2 s3" using onboarding.complete [of demo_registrar False s2 "demo_rq 6" "Some ''t''" None] s3(1) by simp
  ultimately have run: "(onboarding demo_registrar False)\<^sup>*\<^sup>* demo_start s3" using s(1) by (meson rtranclp.rtrancl_into_rtrancl)
  from onboarding_credentials [OF run demo_registrar(1,2) s3(2)] s3 run show ?thesis by blast
qed

text \<open>A documented step, and a retry, which is a move of its own.\<close>

theorem registration_follows_flow_witness:
  "(\<exists>s u s' v. (onboarding demo_registrar False)\<^sup>*\<^sup>* demo_start s \<and> find_user ''2'' s = Some u \<and> us_registrationState u = PROFILE_COMPLETED
     \<and> registration_request demo_registrar False s s' \<and> find_user ''2'' s' = Some v \<and> us_registrationState v = PASSWORD_SET \<and> may_follow False u v)
   \<and> (\<exists>s s' u v. registration_request demo_registrar False s s' \<and> find_user ''2'' s = Some u \<and> us_registrationState u = OTP_VERIFIED
     \<and> find_user ''2'' s' = Some v \<and> us_registrationState v = TC_ACCEPTED \<and> may_follow False u v)"
proof
  obtain s u where s: "(onboarding demo_registrar False)\<^sup>*\<^sup>* demo_start s" "find_user ''2'' s = Some u" "us_registrationState u = PROFILE_COMPLETED"
    using demo_profile_reached by blast
  obtain s1 v where s1: "registerPassword demo_registrar (demo_rq 4) (Some ''t'') ''secret'' s = (Inr (), s1)" "find_user ''2'' s1 = Some v" "us_registrationState v = PASSWORD_SET"
    using registerPassword_works [OF demo_registrar(3) s(2,3), of "demo_rq 4" "''secret''"] by auto
  have step: "registration_request demo_registrar False s s1"
    using registration_request.flow [OF onboarding.password [of demo_registrar False s "demo_rq 4" "Some ''t''" "''secret''"]] s1(1) by simp
  from registration_follows_flow [OF step s(2)] s1(2) have "may_follow False u v" by (auto simp: may_follow_def)
  then show "\<exists>s u s' v. (onboarding demo_registrar False)\<^sup>*\<^sup>* demo_start s \<and> find_user ''2'' s = Some u \<and> us_registrationState u = PROFILE_COMPLETED
     \<and> registration_request demo_registrar False s s' \<and> find_user ''2'' s' = Some v \<and> us_registrationState v = PASSWORD_SET \<and> may_follow False u v"
    using s s1 step by blast
next
  let ?s = "demo_start\<lparr>users := [demo_applicant ''2'' OTP_VERIFIED]\<rparr>" and ?s' = "snd (retryKyc (demo_rq 5) ''2'' (demo_start\<lparr>users := [demo_applicant ''2'' OTP_VERIFIED]\<rparr>))"
  have u: "find_user ''2'' ?s = Some (demo_applicant ''2'' OTP_VERIFIED)" "us_registrationState (demo_applicant ''2'' OTP_VERIFIED) = OTP_VERIFIED"
    by (simp_all add: find_user_def demo_applicant_def)
  have step: "registration_request demo_registrar False ?s ?s'" by (rule registration_request.retry)
  obtain v where v: "find_user ''2'' ?s' = Some v" "us_registrationState v = TC_ACCEPTED"
    using retry_from_any_state [OF u(1), of "demo_rq 5"] by auto
  from registration_follows_flow [OF step u(1)] v(1) have "may_follow False (demo_applicant ''2'' OTP_VERIFIED) v" by (auto simp: may_follow_def)
  then show "\<exists>s s' u v. registration_request demo_registrar False s s' \<and> find_user ''2'' s = Some u \<and> us_registrationState u = OTP_VERIFIED
     \<and> find_user ''2'' s' = Some v \<and> us_registrationState v = TC_ACCEPTED \<and> may_follow False u v"
    using step u v by blast
qed

definition demo_rejected :: user where
  "demo_rejected = (demo_applicant ''2'' OTP_VERIFIED)\<lparr>us_status := UserRejected\<rparr>"

lemma demo_at: "find_user ''2'' (demo_start\<lparr>users := [demo_rejected]\<rparr>) = Some demo_rejected"
  "find_user ''2'' (demo_start\<lparr>users := [demo_applicant ''2'' st]\<rparr>) = Some (demo_applicant ''2'' st)"
  by (simp_all add: find_user_def demo_rejected_def demo_applicant_def)

theorem simple_mode_skips_steps_witness:
  "\<exists>x r s1 s2. uploadIdCardSimple demo_kyc_env (demo_rq 5) ''2'' ''img'' (demo_start\<lparr>users := [demo_applicant ''2'' OTP_VERIFIED]\<rparr>) = (Inr x, s1)
     \<and> submitSelfieSimple demo_kyc_env (demo_rq 5) ''2'' ''face'' s1 = (Inr r, s2)
     \<and> find_user ''2'' s2 = Some (demo_applicant ''2'' KYC_VERIFIED) \<and> userConsents s2 = []"
proof -
  let ?s = "demo_start\<lparr>users := [demo_applicant ''2'' OTP_VERIFIED]\<rparr>"
  have e: "ke_storageUp demo_kyc_env" "has_text (ae_piiKey (ke_auth demo_kyc_env))" by (simp_all add: demo_kyc_env_def has_text_def)
  have "rq_uuid (demo_rq 5) 0 \<noteq> []" "\<not> token_taken ''2'' (Some (ke_sha256 demo_kyc_env (simple_id @ ''2''))) ?s" "userConsents ?s = []" by code_simp+
  from simple_mode_skips_steps [OF demo_at(2) e this(1,2), of "''img''" "''face''"] this(3) show ?thesis
    by (simp add: demo_applicant_def demo_user_def)
qed

theorem rejected_skips_steps_witness:
  "\<exists>r s1 v. completeRegistration demo_registrar (demo_rq 5) (Some ''t'') None (demo_start\<lparr>users := [demo_rejected]\<rparr>) = (Inr r, s1)
     \<and> find_user ''2'' s1 = Some v \<and> us_registrationState v = RegCompleted \<and> us_passwordHash v = None"
proof -
  have "us_status demo_rejected = UserRejected" by (simp add: demo_rejected_def)
  from rejected_skips_steps [OF demo_at(1) this demo_registrar(3,4), of "demo_rq 5" None demo_kyc_env "demo_rq 6"] show ?thesis
    by (auto simp: demo_rejected_def demo_applicant_def)
qed

theorem registration_completes_witness:
  "\<exists>r s1 v. finish_registration demo_registrar (\<lambda>n. demo_rq (int n)) (Some ''t'') demo_profile ''secret'' demo_pin None
      (demo_start\<lparr>users := [demo_applicant ''2'' KYC_VERIFIED]\<rparr>) = (Inr r, s1)
     \<and> find_user ''2'' s1 = Some v \<and> us_registrationState v = RegCompleted \<and> us_status v = PendingApproval \<and> us_passwordHash v = Some ''hsecret''"
proof -
  have "us_registrationState (demo_applicant ''2'' KYC_VERIFIED) = KYC_VERIFIED" "applicant (demo_applicant ''2'' KYC_VERIFIED)"
    "\<not> (has_text (us_passwordHash (demo_applicant ''2'' KYC_VERIFIED)) \<and> has_text (us_pinHash (demo_applicant ''2'' KYC_VERIFIED)))"
    "find_kyc ''2'' (demo_start\<lparr>users := [demo_applicant ''2'' KYC_VERIFIED]\<rparr>) \<noteq> None"
    by (simp_all add: demo_registrar applicant_def demo_applicant_def has_text_def)
  from registration_completes [of demo_registrar "\<lambda>n. demo_rq (int n)" "Some ''t''" "''2''", OF demo_registrar(3) demo_at(2) this,
      of demo_profile "''secret''" demo_pin None demo_kyc_env "demo_rq 9"] show ?thesis
    by (fastforce simp: demo_registrar_def demo_auth_def)
qed

end
