(* ===== verification/Billing.thy ===== *)
theory Billing
  imports Payment_Props
begin

text \<open>
  Invoices (\<open>modules/billing/billing.service.ts\<close>): what an invoice adds up to, the three tables in which an
  identifier is looked for, and the payment of an invoice in up to four transfers. An answer that is put
  together from a top-up order or a merchant payment comes without its time stamps.
\<close>

section \<open>Tables\<close>

datatype invoice_status = InvoicePending | InvoicePaid | InvoiceOverdue | InvoiceCancelled

record invoice_item =
  it_name :: string
  it_quantity :: int
  it_unitPrice :: rat
  it_amount :: rat

record invoice =
  iv_id :: string
  iv_invoiceNumber :: string
  iv_userId :: string
  iv_senderName :: "string option"
  iv_senderDetail :: "string option"
  iv_amount :: rat
  iv_tax :: rat
  iv_feeRate :: "rat option"
  iv_feeAmount :: "rat option"
  iv_feeTax :: "rat option"
  iv_total :: rat
  iv_currency :: string
  iv_status :: invoice_status
  iv_dueDate :: "date option"
  iv_paidAt :: "date option"
  iv_partnerId :: "string option"
  iv_referenceId :: "string option"
  iv_note :: "string option"
  iv_items :: "invoice_item list"
  iv_createdAt :: date
  iv_updatedAt :: date

datatype topup_status = TopupPending | TopupProcessing | TopupPaid | TopupFailed | TopupCanceled

record topup_order =
  to_id :: string
  to_userId :: string
  to_amount :: rat
  to_currency :: string
  to_status :: topup_status
  to_stripePaymentIntentId :: "string option"
  to_clientSecretRef :: "string option"
  to_idempotencyKey :: string
  to_financeTransactionId :: "string option"
  to_processedEventId :: "string option"
  to_createdAt :: date
  to_updatedAt :: date

record billing_db = merchant_db +
  invoices :: "invoice list"
  topupOrders :: "topup_order list"

text \<open>
  What a request draws from outside: the clock in the server's zone and in UTC, new identifiers, the digits of
  \<open>Math.random().toString(36).substring(2, 6)\<close>.
\<close>

record billing_request =
  bq_now :: date
  bq_utc :: date
  bq_id :: string
  bq_random :: string

section \<open>Creating an invoice\<close>

record item_dto =
  id_name :: string
  id_quantity :: jsnum
  id_unitPrice :: jsnum

record invoice_dto =
  iw_userId :: string
  iw_senderName :: "string option"
  iw_senderDetail :: "string option"
  iw_note :: "string option"
  iw_dueDate :: "date option"
  iw_referenceId :: "string option"
  iw_items :: "item_dto list"
  iw_partnerId :: "string option"

text \<open>A text is truthy when it is there and not empty.\<close>

definition given_text :: "string option \<Rightarrow> bool" where
  "given_text v \<longleftrightarrow> v \<noteq> None \<and> v \<noteq> Some []"

definition padStart :: "nat \<Rightarrow> string \<Rightarrow> string" where
  "padStart n t = replicate (n - length t) CHR ''0'' @ t"

definition iso_day :: "date \<Rightarrow> string" where
  "iso_day d = padStart 4 (int_text (d_year d)) @ padStart 2 (int_text (d_month d + 1)) @ padStart 2 (int_text (d_day d))"

definition invoice_number :: "billing_request \<Rightarrow> nat \<Rightarrow> string" where
  "invoice_number rq n = ''INV-'' @ iso_day (bq_utc rq) @ ''-'' @ padStart 4 (int_text (int n + 1)) @ ''-'' @ map upper (bq_random rq)"

definition subtotal_of :: "item_dto list \<Rightarrow> jsnum" where
  "subtotal_of items = foldl (\<lambda>s i. nadd s (nmul (id_unitPrice i) (id_quantity i))) (Fin 0) items"

text \<open>\<open>Number(settings.x || d)\<close>\<close>

definition setting_number :: "string \<Rightarrow> rat \<Rightarrow> json \<Rightarrow> jsnum" where
  "setting_number k d settings = Number_json (jor (jget k settings) (JNum (Fin (fl64 d))))"

text \<open>Whole numbers of 32 bits.\<close>

definition int_column :: "jsnum \<Rightarrow> int option" where
  "int_column n = (case n of Fin x \<Rightarrow> if x = of_int \<lfloor>x\<rfloor> \<and> - (2 ^ 31) \<le> \<lfloor>x\<rfloor> \<and> \<lfloor>x\<rfloor> < 2 ^ 31 then Some \<lfloor>x\<rfloor> else None | _ \<Rightarrow> None)"

definition item_row :: "item_dto \<Rightarrow> invoice_item option" where
  "item_row i = (case (int_column (id_quantity i), decimal_column (JNum (id_unitPrice i)), decimal_column (JNum (nmul (id_unitPrice i) (id_quantity i)))) of
      (Some q, Some u, Some a) \<Rightarrow> Some \<lparr>it_name = id_name i, it_quantity = q, it_unitPrice = u, it_amount = a\<rparr>
    | _ \<Rightarrow> None)"

fun item_rows :: "item_dto list \<Rightarrow> invoice_item list option" where
  "item_rows [] = Some []"
| "item_rows (i # is) = (case (item_row i, item_rows is) of (Some r, Some rs) \<Rightarrow> Some (r # rs) | _ \<Rightarrow> None)"

text \<open>The fee of the partner, if there is one: its rate, the fee on the gross total and the VAT on the fee.\<close>

definition invoice_fees :: "jsnum \<Rightarrow> jsnum \<Rightarrow> partner option \<Rightarrow> (rat \<times> jsnum \<times> jsnum) option" where
  "invoice_fees gross vatRate p = map_option (\<lambda>p. let fee = round2 (nmul gross (mk_num (pt_feeRate p)))
     in (pt_feeRate p, fee, round2 (nmul fee vatRate))) p"

definition opt_decimal :: "jsnum option \<Rightarrow> rat option option" where
  "opt_decimal v = (case v of None \<Rightarrow> Some None | Some n \<Rightarrow> map_option Some (decimal_column (JNum n)))"

definition insert_invoice :: "invoice \<Rightarrow> ('a billing_db_scheme, invoice) handler" where
  "insert_invoice v s =
     (if iv_partnerId v \<noteq> None \<and> find_partner (the (iv_partnerId v)) s = None then (Inl (Prisma ''P2003''), s)
      else if \<exists>w\<in>set (invoices s). iv_id w = iv_id v \<or> iv_invoiceNumber w = iv_invoiceNumber v then (Inl (Prisma ''P2002''), s)
      else (Inr v, s\<lparr>invoices := invoices s @ [v]\<rparr>))"

text \<open>The row of a new invoice, from the settings, the number of invoices there are and the partner, if the request names one.\<close>

definition draft_invoice :: "billing_request \<Rightarrow> invoice_dto \<Rightarrow> json \<Rightarrow> nat \<Rightarrow> partner option \<Rightarrow> invoice result" where
  "draft_invoice rq dto settings n partner =
     (let partnered = given_text (iw_partnerId dto);
          vatRate = (if partnered then setting_number ''vatRate'' (7 / 100) settings else Fin 0);
          minAmount = setting_number ''minMerchantPayment'' 5 settings;
          subtotal = subtotal_of (iw_items dto);
          tax = (if partnered then round2 (nmul subtotal vatRate) else Fin 0);
          gross = nadd subtotal tax
      in if partnered \<and> nlt gross minAmount then Inl (Http BAD_REQUEST ''Minimum invoice amount'')
         else let fees = invoice_fees gross vatRate partner
              in (case (decimal_column (JNum subtotal), decimal_column (JNum tax), decimal_column (JNum gross),
                        opt_decimal (map_option (fst \<circ> snd) fees), opt_decimal (map_option (snd \<circ> snd) fees), item_rows (iw_items dto)) of
                    (Some a, Some t, Some g, Some fee, Some feeTax, Some items) \<Rightarrow> Inr
                      \<lparr>iv_id = bq_id rq, iv_invoiceNumber = invoice_number rq n, iv_userId = iw_userId dto,
                       iv_senderName = iw_senderName dto, iv_senderDetail = iw_senderDetail dto, iv_amount = a, iv_tax = t,
                       iv_feeRate = map_option fst fees, iv_feeAmount = fee, iv_feeTax = feeTax, iv_total = g, iv_currency = ''THB'',
                       iv_status = InvoicePending, iv_dueDate = iw_dueDate dto, iv_paidAt = None, iv_partnerId = iw_partnerId dto,
                       iv_referenceId = iw_referenceId dto, iv_note = iw_note dto, iv_items = items, iv_createdAt = bq_now rq,
                       iv_updatedAt = bq_now rq\<rparr>
                  | _ \<Rightarrow> Inl (Plain ''Invalid value for a column'')))"

definition createInvoice :: "http \<Rightarrow> finance_env \<Rightarrow> billing_request \<Rightarrow> invoice_dto \<Rightarrow> ('a billing_db_scheme, invoice) handler" where
  "createInvoice http env rq dto s =
     (case finance (getSystemSettings http env) s of
        (Inl e, s1) \<Rightarrow> (Inl e, s1)
      | (Inr settings, s1) \<Rightarrow>
          if nullish settings then (Inl (Plain ''Cannot read properties of null''), s1)
          else (case draft_invoice rq dto settings (length (invoices s1))
                       (if given_text (iw_partnerId dto) then find_partner (the (iw_partnerId dto)) s1 else None) of
             Inl e \<Rightarrow> (Inl e, s1)
           | Inr v \<Rightarrow> insert_invoice v s1))"

section \<open>Finding an invoice\<close>

definition getInvoices :: "string \<Rightarrow> 'a billing_db_scheme \<Rightarrow> invoice list" where
  "getInvoices userId s = sort_key (\<lambda>v. - time_value (iv_createdAt v)) (filter (\<lambda>v. iv_userId v = userId) (invoices s))"

text \<open>An amount of a row is a decimal, one of an answer put together is a number.\<close>

datatype money = Dec rat | Num jsnum

fun Number_money :: "money \<Rightarrow> jsnum" where
  "Number_money (Dec x) = mk_num x"
| "Number_money (Num n) = n"

record item_view =
  vi_name :: string
  vi_quantity :: int
  vi_unitPrice :: money
  vi_amount :: money

record invoice_view =
  vw_id :: string
  vw_invoiceNumber :: string
  vw_userId :: string
  vw_senderName :: "string option"
  vw_senderDetail :: "string option"
  vw_amount :: money
  vw_tax :: money
  vw_feeAmount :: "money option"
  vw_feeTax :: "money option"
  vw_total :: money
  vw_currency :: string
  vw_status :: invoice_status
  vw_partnerId :: "string option"
  vw_referenceId :: "string option"
  vw_note :: "string option"
  vw_items :: "item_view list"

definition row_view :: "invoice \<Rightarrow> invoice_view" where
  "row_view v = \<lparr>vw_id = iv_id v, vw_invoiceNumber = iv_invoiceNumber v, vw_userId = iv_userId v, vw_senderName = iv_senderName v,
     vw_senderDetail = iv_senderDetail v, vw_amount = Dec (iv_amount v), vw_tax = Dec (iv_tax v), vw_feeAmount = map_option Dec (iv_feeAmount v),
     vw_feeTax = map_option Dec (iv_feeTax v), vw_total = Dec (iv_total v), vw_currency = iv_currency v, vw_status = iv_status v,
     vw_partnerId = iv_partnerId v, vw_referenceId = iv_referenceId v, vw_note = iv_note v,
     vw_items = map (\<lambda>i. \<lparr>vi_name = it_name i, vi_quantity = it_quantity i, vi_unitPrice = Dec (it_unitPrice i), vi_amount = Dec (it_amount i)\<rparr>) (iv_items v)\<rparr>"

definition short_id :: "string \<Rightarrow> string" where
  "short_id i = map upper (take 8 i)"

definition one_item :: "string \<Rightarrow> jsnum \<Rightarrow> item_view list" where
  "one_item name n = [\<lparr>vi_name = name, vi_quantity = 1, vi_unitPrice = Num n, vi_amount = Num n\<rparr>]"

text \<open>\<open>stripeNote\<close> is the note in the metadata of a payment intent, if Stripe is configured and answers with one.\<close>

definition topup_view :: "(string \<Rightarrow> string option) \<Rightarrow> topup_order \<Rightarrow> invoice_view" where
  "topup_view stripeNote t =
     (let n = mk_num (to_amount t);
          note = (case to_stripePaymentIntentId t of Some (c # x) \<Rightarrow> (case stripeNote (c # x) of Some (d # y) \<Rightarrow> d # y | _ \<Rightarrow> ''Top-up'') | _ \<Rightarrow> ''Top-up'')
      in \<lparr>vw_id = to_id t, vw_invoiceNumber = ''INV-TOPUP-'' @ short_id (to_id t), vw_userId = to_userId t, vw_senderName = Some ''Top-up via Stripe'',
          vw_senderDetail = Some ''Direct Bank Deposit'', vw_amount = Num n, vw_tax = Num (Fin 0), vw_feeAmount = Some (Num (Fin 0)),
          vw_feeTax = Some (Num (Fin 0)), vw_total = Num n, vw_currency = to_currency t,
          vw_status = (if to_status t = TopupPaid then InvoicePaid else InvoicePending), vw_partnerId = None,
          vw_referenceId = Some (case to_financeTransactionId t of Some (c # x) \<Rightarrow> c # x
            | _ \<Rightarrow> ''PAY-'' @ (case to_stripePaymentIntentId t of None \<Rightarrow> ''null'' | Some i \<Rightarrow> i)),
          vw_note = Some note, vw_items = one_item ''Top-up funds'' n\<rparr>)"

definition payment_view :: "string \<Rightarrow> merchant \<Rightarrow> merchant_payment \<Rightarrow> invoice_view" where
  "payment_view userId m p =
     (let n = mk_num (mp_amount p); vatRate = Fin (fl64 (7 / 100))
      in \<lparr>vw_id = mp_id p, vw_invoiceNumber = ''INV-PAY-'' @ short_id (mp_id p), vw_userId = userId, vw_senderName = Some (mc_name m),
          vw_senderDetail = Some (case mc_category m of Some (c # x) \<Rightarrow> c # x | _ \<Rightarrow> ''Partner Store''), vw_amount = Num n,
          vw_tax = Num (round2 (nmul n (ndiv vatRate (nadd (Fin 1) vatRate)))), vw_feeAmount = Some (Num (Fin 0)), vw_feeTax = Some (Num (Fin 0)),
          vw_total = Num n, vw_currency = mp_currency p, vw_status = (if mp_status p = PaymentCompleted then InvoicePaid else InvoicePending),
          vw_partnerId = Some (mc_partnerId m), vw_referenceId = Some (case mp_referenceId p of Some (c # x) \<Rightarrow> c # x | _ \<Rightarrow> mp_id p),
          vw_note = Some (case mp_note p of Some (c # x) \<Rightarrow> c # x | _ \<Rightarrow> ''Merchant Payment''),
          vw_items = one_item (''Payment to '' @ mc_name m) n\<rparr>)"

text \<open>\<open>id.replace('PAY-', '')\<close> of a text that starts so.\<close>

definition without_pay :: "string \<Rightarrow> string" where
  "without_pay i = (if starts_with ''PAY-'' i then drop 4 i else i)"

text \<open>
  The references under which a \<open>TXN\<close> identifier may be stored: what the finance service knows as its reference, with
  and without the prefix. Its failures are swallowed; a reference that is no text breaks the query.
\<close>

definition resolve_txn :: "http \<Rightarrow> finance_env \<Rightarrow> string \<Rightarrow> ('a billing_db_scheme, string list) handler" where
  "resolve_txn http env i s =
     (if \<not> starts_with ''TXN'' i then (Inr [], s)
      else case finance (getTransactionByUuid http env i) s of
        (Inl e, s1) \<Rightarrow> (Inr [], s1)
      | (Inr txn, s1) \<Rightarrow>
          let ref = jget ''referenceId'' txn
          in if \<not> truthy txn \<or> \<not> truthy ref then (Inr [], s1)
             else (case ref of
                JStr r \<Rightarrow> (Inr [r, if starts_with ''PAY-'' r then drop 4 r else ''PAY-'' @ r], s1)
              | _ \<Rightarrow> (Inl (Plain ''Invalid value for referenceId''), s1)))"

definition matches_invoice :: "string \<Rightarrow> string \<Rightarrow> string list \<Rightarrow> invoice \<Rightarrow> bool" where
  "matches_invoice userId i refs v \<longleftrightarrow> iv_userId v = userId
     \<and> (iv_id v = i \<or> iv_invoiceNumber v = i \<or> list_ex (\<lambda>r. iv_referenceId v = Some r) refs)"

definition matches_topup :: "string \<Rightarrow> string \<Rightarrow> topup_order \<Rightarrow> bool" where
  "matches_topup userId i t \<longleftrightarrow> to_userId t = userId
     \<and> (to_id t = i \<or> to_stripePaymentIntentId t = Some (without_pay i) \<or> to_financeTransactionId t = Some i \<or> to_financeTransactionId t = Some (without_pay i))"

text \<open>\<open>Number(txn.fromWalletId) === Number(userWallet.id)\<close>; \<open>NaN\<close> equals nothing.\<close>

definition num_same :: "jsnum \<Rightarrow> jsnum \<Rightarrow> bool" where
  "num_same a b \<longleftrightarrow> a = b \<and> a \<noteq> NaN"

definition paid_by :: "http \<Rightarrow> finance_env \<Rightarrow> string \<Rightarrow> string \<Rightarrow> ('a billing_db_scheme, bool) handler" where
  "paid_by http env userId ref s =
     (case finance (getWallet http env userId) s of
        (Inl e, s1) \<Rightarrow> (Inr False, s1)
      | (Inr wallet, s1) \<Rightarrow>
          (case finance (getTransactionByUuid http env ref) s1 of
             (Inl e, s2) \<Rightarrow> (Inr False, s2)
           | (Inr txn, s2) \<Rightarrow>
               (Inr (truthy wallet \<and> truthy txn \<and> num_same (Number_json (jget ''fromWalletId'' txn)) (Number_json (jget ''id'' wallet))), s2)))"

definition getInvoiceById :: "http \<Rightarrow> finance_env \<Rightarrow> (string \<Rightarrow> string option) \<Rightarrow> string \<Rightarrow> string \<Rightarrow> ('a billing_db_scheme, invoice_view) handler" where
  "getInvoiceById http env stripeNote i userId s =
     (let direct = i # (if starts_with ''PAY-'' i then [drop 4 i] else [])
      in case resolve_txn http env i s of
        (Inl e, s1) \<Rightarrow> (Inl e, s1)
      | (Inr resolved, s1) \<Rightarrow>
          (case find (matches_invoice userId i (direct @ resolved)) (invoices s1) of
             Some v \<Rightarrow> (Inr (row_view v), s1)
           | None \<Rightarrow>
               (case find (matches_topup userId i) (topupOrders s1) of
                  Some t \<Rightarrow> (Inr (topup_view stripeNote t), s1)
                | None \<Rightarrow>
                    (case find (\<lambda>p. mp_id p = i \<or> mp_referenceId p = Some i) (merchantPayment s1) of
                       None \<Rightarrow> (Inl (Http NOT_FOUND ''Invoice not found''), s1)
                     | Some p \<Rightarrow>
                         (case paid_by http env userId (case mp_referenceId p of Some (c # x) \<Rightarrow> c # x | _ \<Rightarrow> i) s1 of
                            (Inl e, s2) \<Rightarrow> (Inl e, s2)
                          | (Inr isOwner, s2) \<Rightarrow>
                              if \<not> isOwner then (Inl (Http NOT_FOUND ''Invoice not found''), s2)
                              else (case find_merchant (mp_merchantId p) s2 of
                                 None \<Rightarrow> (Inl (Plain ''merchant is required''), s2)
                               | Some m \<Rightarrow> (Inr (payment_view userId m p), s2)))))))"

section \<open>Paying an invoice\<close>

definition invoice_net :: "invoice_view \<Rightarrow> jsnum" where
  "invoice_net v = nsub (nsub (nsub (Number_money (vw_total v)) (Number_money (vw_tax v)))
     (case vw_feeAmount v of None \<Rightarrow> Fin 0 | Some x \<Rightarrow> Number_money x)) (case vw_feeTax v of None \<Rightarrow> Fin 0 | Some x \<Rightarrow> Number_money x)"

definition net_key :: "invoice_view \<Rightarrow> string" where
  "net_key v = ''pay_leg_net_'' @ vw_id v"

definition pay_leg :: "json \<Rightarrow> json \<Rightarrow> jsnum \<Rightarrow> string \<Rightarrow> json \<Rightarrow> transfer_payload" where
  "pay_leg wallet to n key meta = \<lparr>tp_fromAccountId = jget ''walletId'' wallet, tp_toAccountId = to, tp_amount = JText (toFixed 2 n),
     tp_idempotencyKey = key, tp_type = Some ''MERCHANT_PAYMENT'', tp_currency = None, tp_metadata = meta\<rparr>"

definition side_leg :: "invoice_view \<Rightarrow> json \<Rightarrow> json \<Rightarrow> jsnum \<Rightarrow> string \<Rightarrow> transfer_payload list" where
  "side_leg v wallet to n name =
     (if positive2 n \<and> truthy to
      then [pay_leg wallet to n (''pay_leg_'' @ name @ ''_'' @ vw_id v) (JObj [(''silent'', JBool True), (''isMerchantPayment'', JBool True),
              (''parentIdempotencyKey'', JStr (net_key v))])] else [])"

definition invoice_legs :: "invoice_view \<Rightarrow> json \<Rightarrow> json \<Rightarrow> json \<Rightarrow> transfer_payload list" where
  "invoice_legs v wallet mAcc sAcc =
     [pay_leg wallet (jget ''pending'' mAcc) (invoice_net v) (net_key v)
        (JObj [(''isMerchantPayment'', JBool True), (''totalAmount'', JText (toFixed 2 (Number_money (vw_total v))))])]
     @ side_leg v wallet (jget ''vat'' mAcc) (Number_money (vw_tax v)) ''vat''
     @ side_leg v wallet (jget ''revenue'' sAcc) (case vw_feeAmount v of None \<Rightarrow> Fin 0 | Some x \<Rightarrow> Number_money x) ''fee''
     @ side_leg v wallet (jget ''vat_payable'' sAcc) (case vw_feeTax v of None \<Rightarrow> Fin 0 | Some x \<Rightarrow> Number_money x) ''svat''"

text \<open>The transfers go out one after the other; the first that fails ends the payment.\<close>

fun send_legs :: "http \<Rightarrow> finance_env \<Rightarrow> transfer_payload list \<Rightarrow> ('a merchant_db_scheme, unit) handler" where
  "send_legs http env [] s = (Inr (), s)"
| "send_legs http env (l # ls) s =
     (case finance (performTransfer http env l) s of
        (Inl e, s1) \<Rightarrow> (Inl e, s1)
      | (Inr _, s1) \<Rightarrow> send_legs http env ls s1)"

definition settle_invoice :: "http \<Rightarrow> finance_env \<Rightarrow> string \<Rightarrow> invoice_view \<Rightarrow> ('a merchant_db_scheme, unit) handler" where
  "settle_invoice http env userId v s =
     (if \<not> given_text (vw_partnerId v) then (Inr (), s)
      else case finance (getWallet http env userId) s of
        (Inl e, s1) \<Rightarrow> (Inl e, s1)
      | (Inr wallet, s1) \<Rightarrow>
          if \<not> truthy wallet then (Inl (Http BAD_REQUEST ''Customer wallet not found''), s1)
          else (case find_partner (the (vw_partnerId v)) s1 of
             None \<Rightarrow> (Inl (Http BAD_REQUEST ''Merchant accounts not found''), s1)
           | Some p \<Rightarrow>
               if \<not> truthy (pt_financeAccounts p) then (Inl (Http BAD_REQUEST ''Merchant accounts not found''), s1)
               else (case find (\<lambda>q. pt_taxId q = Some SYSTEM_TAX_ID) (partners s1) of
                  None \<Rightarrow> (Inl (Http BAD_REQUEST ''System accounts not found''), s1)
                | Some sys \<Rightarrow>
                    if \<not> truthy (pt_financeAccounts sys) then (Inl (Http BAD_REQUEST ''System accounts not found''), s1)
                    else send_legs http env (invoice_legs v wallet (pt_financeAccounts p) (pt_financeAccounts sys)) s1)))"

text \<open>The update names the row by the identifier of the request.\<close>

definition payInvoice :: "http \<Rightarrow> finance_env \<Rightarrow> (string \<Rightarrow> string option) \<Rightarrow> date \<Rightarrow> string \<Rightarrow> string \<Rightarrow> ('a billing_db_scheme, invoice) handler" where
  "payInvoice http env stripeNote now i userId s =
     (case getInvoiceById http env stripeNote i userId s of
        (Inl e, s1) \<Rightarrow> (Inl e, s1)
      | (Inr v, s1) \<Rightarrow>
          if vw_status v = InvoicePaid then (Inl (Http BAD_REQUEST ''Invoice is already paid''), s1)
          else (case settle_invoice http env userId v s1 of
             (Inl e, s2) \<Rightarrow> (Inl e, s2)
           | (Inr _, s2) \<Rightarrow>
               (case find (\<lambda>w. iv_id w = i) (invoices s2) of
                  None \<Rightarrow> (Inl (Prisma ''P2025''), s2)
                | Some w \<Rightarrow>
                    let f = (\<lambda>w. w\<lparr>iv_status := InvoicePaid, iv_paidAt := Some now, iv_referenceId := Some (''SPLIT_PAY_'' @ vw_id v), iv_updatedAt := now\<rparr>)
                    in (Inr (f w), s2\<lparr>invoices := update_where (\<lambda>w. iv_id w = i) f (invoices s2)\<rparr>))))"

end
