(* ===== verification/Json_Text.thy ===== *)
theory Json_Text
  imports Finance_Client
begin

text \<open>
  JSON texts, which the services store and exchange: \<open>JSON.parse\<close> by the grammar of ECMA-404. A text is a list
  of bytes; an escape of four hexadecimal digits stands for the UTF-8 bytes of its character.
\<close>

section \<open>Reading\<close>

definition json_space :: "char \<Rightarrow> bool" where
  "json_space c \<longleftrightarrow> (of_char c :: nat) \<in> {32, 9, 10, 13}"

definition skip_ws :: "string \<Rightarrow> string" where
  "skip_ws t = dropWhile json_space t"

text \<open>A member that is given again keeps its place and gets the new value.\<close>

fun jset :: "string \<Rightarrow> json \<Rightarrow> (string \<times> json) list \<Rightarrow> (string \<times> json) list" where
  "jset k v [] = [(k, v)]"
| "jset k v ((k', v') # fs) = (if k' = k then (k, v) # fs else (k', v') # jset k v fs)"

definition utf8 :: "nat \<Rightarrow> string" where
  "utf8 n = (if n < 128 then [char_of n]
     else if n < 2048 then [char_of (192 + n div 64), char_of (128 + n mod 64)]
     else if n < 65536 then [char_of (224 + n div 4096), char_of (128 + n div 64 mod 64), char_of (128 + n mod 64)]
     else [char_of (240 + n div 262144), char_of (128 + n div 4096 mod 64), char_of (128 + n div 64 mod 64), char_of (128 + n mod 64)])"

definition hex4 :: "string \<Rightarrow> (nat \<times> string) option" where
  "hex4 t = (if length t < 4 then None else map_option (\<lambda>n. (nat n, drop 4 t)) (radix_value 16 0 (take 4 t)))"

text \<open>A high surrogate takes the low one that follows with it.\<close>

definition unicode_escape :: "string \<Rightarrow> (string \<times> string) option" where
  "unicode_escape t = (case hex4 t of None \<Rightarrow> None
     | Some (n, r) \<Rightarrow>
         if 55296 \<le> n \<and> n < 56320 \<and> starts_with [CHR 0x5C, CHR ''u''] r
         then (case hex4 (drop 2 r) of
                 Some (m, r') \<Rightarrow> if 56320 \<le> m \<and> m < 57344 then Some (utf8 (65536 + (n - 55296) * 1024 + (m - 56320)), r') else Some (utf8 n, r)
               | None \<Rightarrow> Some (utf8 n, r))
         else Some (utf8 n, r))"

definition simple_escape :: "char \<Rightarrow> char option" where
  "simple_escape c = map_of [(CHR 0x22, CHR 0x22), (CHR 0x5C, CHR 0x5C), (CHR ''/'', CHR ''/''), (CHR ''b'', CHR 0x08), (CHR ''f'', CHR 0x0C),
     (CHR ''n'', CHR 0x0A), (CHR ''r'', CHR 0x0D), (CHR ''t'', CHR 0x09)] c"

text \<open>The rest of a text literal, behind the opening quote. The fuel bounds the number of characters.\<close>

fun read_text :: "nat \<Rightarrow> string \<Rightarrow> (string \<times> string) option" where
  "read_text 0 t = None"
| "read_text (Suc n) t = (case t of [] \<Rightarrow> None
     | c # r \<Rightarrow>
         if c = CHR 0x22 then Some ([], r)
         else if of_char c < (32 :: nat) then None
         else if c = CHR 0x5C then
           (case r of [] \<Rightarrow> None
            | e # r' \<Rightarrow>
                if e = CHR ''u'' then (case unicode_escape r' of None \<Rightarrow> None
                  | Some (x, r'') \<Rightarrow> map_option (\<lambda>(y, q). (x @ y, q)) (read_text n r''))
                else (case simple_escape e of None \<Rightarrow> None
                  | Some x \<Rightarrow> map_option (\<lambda>(y, q). (x # y, q)) (read_text n r')))
         else map_option (\<lambda>(y, q). (c # y, q)) (read_text n r))"

text \<open>A number: no sign but minus, no leading zero, digits on both sides of a point. First what follows the digits.\<close>

definition fraction_of :: "string \<Rightarrow> string \<times> string \<times> bool" where
  "fraction_of r = (case r of c # u \<Rightarrow> if c = CHR ''.'' then (takeWhile is_digit u, dropWhile is_digit u, takeWhile is_digit u \<noteq> []) else ([], r, True)
                          | [] \<Rightarrow> ([], [], True))"

definition exponent_of :: "string \<Rightarrow> int \<times> string \<times> bool" where
  "exponent_of r1 = (case r1 of c # u \<Rightarrow>
              if c = CHR ''e'' \<or> c = CHR ''E''
              then (let (neg, v) = (case u of d # w \<Rightarrow> if d = CHR ''-'' then (True, w) else if d = CHR ''+'' then (False, w) else (False, u) | [] \<Rightarrow> (False, []));
                        es = takeWhile is_digit v
                    in (if neg then - digits_value es else digits_value es, dropWhile is_digit v, es \<noteq> []))
              else (0, r1, True)
            | [] \<Rightarrow> (0, [], True))"

definition number_rest :: "string \<Rightarrow> string \<Rightarrow> (rat \<times> string) option" where
  "number_rest ds r =
     (let (fs, r1, ok) = fraction_of r; (ex, r2, ok2) = exponent_of r1
      in if ds = [] \<or> (1 < length ds \<and> hd ds = CHR ''0'') \<or> \<not> ok \<or> \<not> ok2 then None
         else Some (of_int (digits_value (ds @ fs)) * 10 powi (ex - int (length fs)), r2))"

definition read_number :: "string \<Rightarrow> (json \<times> string) option" where
  "read_number t = (case t of [] \<Rightarrow> None
     | c # u \<Rightarrow>
         if c = CHR ''-'' then map_option (\<lambda>(x, r). (JNum (nneg (mk_num x)), r)) (number_rest (takeWhile is_digit u) (dropWhile is_digit u))
         else map_option (\<lambda>(x, r). (JNum (mk_num x), r)) (number_rest (takeWhile is_digit t) (dropWhile is_digit t)))"

definition read_word :: "string \<Rightarrow> (json \<times> string) option" where
  "read_word t = (if starts_with ''true'' t then Some (JBool True, drop 4 t)
     else if starts_with ''false'' t then Some (JBool False, drop 5 t)
     else if starts_with ''null'' t then Some (JNull, drop 4 t) else read_number t)"

text \<open>Behind a value inside brackets: another one follows or the bracket closes.\<close>

fun read_value :: "nat \<Rightarrow> string \<Rightarrow> (json \<times> string) option"
  and read_members :: "nat \<Rightarrow> (string \<times> json) list \<Rightarrow> string \<Rightarrow> (json \<times> string) option"
  and read_elements :: "nat \<Rightarrow> json list \<Rightarrow> string \<Rightarrow> (json \<times> string) option" where
  "read_value 0 t = None"
| "read_value (Suc n) t = (case skip_ws t of [] \<Rightarrow> None
     | c # r \<Rightarrow>
         if c = CHR 0x7B then (case skip_ws r of d # r' \<Rightarrow> if d = CHR 0x7D then Some (JObj [], r') else read_members n [] r | [] \<Rightarrow> None)
         else if c = CHR 0x5B then (case skip_ws r of d # r' \<Rightarrow> if d = CHR 0x5D then Some (JArr [], r') else read_elements n [] r | [] \<Rightarrow> None)
         else if c = CHR 0x22 then map_option (\<lambda>(x, q). (JStr x, q)) (read_text (Suc (length r)) r)
         else read_word (c # r))"
| "read_members 0 fs t = None"
| "read_members (Suc n) fs t = (case skip_ws t of [] \<Rightarrow> None
     | c # r \<Rightarrow>
         if c \<noteq> CHR 0x22 then None
         else (case read_text (Suc (length r)) r of None \<Rightarrow> None
           | Some (k, r1) \<Rightarrow> (case skip_ws r1 of [] \<Rightarrow> None
               | d # r2 \<Rightarrow>
                   if d \<noteq> CHR 0x3A then None
                   else (case read_value n r2 of None \<Rightarrow> None
                     | Some (v, r3) \<Rightarrow> (case skip_ws r3 of [] \<Rightarrow> None
                         | e # r4 \<Rightarrow> if e = CHR 0x2C then read_members n (jset k v fs) r4
                             else if e = CHR 0x7D then Some (JObj (jset k v fs), r4) else None)))))"
| "read_elements 0 vs t = None"
| "read_elements (Suc n) vs t = (case read_value n t of None \<Rightarrow> None
     | Some (v, r) \<Rightarrow> (case skip_ws r of [] \<Rightarrow> None
         | e # r' \<Rightarrow> if e = CHR 0x2C then read_elements n (vs @ [v]) r' else if e = CHR 0x5D then Some (JArr (vs @ [v]), r') else None))"

text \<open>\<open>JSON.parse\<close>; \<open>None\<close> is its exception. Every call within brackets is behind one more character.\<close>

definition JSON_parse :: "string \<Rightarrow> json option" where
  "JSON_parse t = (case read_value (2 * length t + 2) t of None \<Rightarrow> None | Some (v, r) \<Rightarrow> if skip_ws r = [] then Some v else None)"

section \<open>The fuel is enough\<close>

lemma skip_ws_length: "skip_ws t = c # r \<Longrightarrow> length r < length t"
  by (metis skip_ws_def length_Cons length_dropWhile_le less_eq_Suc_le)

lemma hex4_rest: "hex4 t = Some (n, r) \<Longrightarrow> length r \<le> length t"
  by (auto simp: hex4_def split: if_splits)

lemma unicode_escape_rest:
  assumes "unicode_escape t = Some (x, r)"
  shows "length r \<le> length t"
proof -
  obtain n r1 where h: "hex4 t = Some (n, r1)" using assms by (auto simp: unicode_escape_def split: option.splits)
  have r1: "length r1 \<le> length t" by (rule hex4_rest [OF h])
  show ?thesis
  proof (cases "55296 \<le> n \<and> n < 56320 \<and> starts_with [CHR 0x5C, CHR ''u''] r1")
    case False
    then have "r = r1" using assms h by (auto simp: unicode_escape_def split: if_splits)
    then show ?thesis using r1 by simp
  next
    case True
    show ?thesis
    proof (cases "hex4 (drop 2 r1)")
      case None
      then have "r = r1" using assms h True by (auto simp: unicode_escape_def split: if_splits)
      then show ?thesis using r1 by simp
    next
      case (Some p)
      then obtain m r2 where p: "hex4 (drop 2 r1) = Some (m, r2)" by (cases p) auto
      have "length r2 \<le> length t" using hex4_rest [OF p] r1 by simp
      moreover have "r = r2 \<or> r = r1" using assms h True p by (auto simp: unicode_escape_def split: if_splits)
      ultimately show ?thesis using r1 by auto
    qed
  qed
qed

lemma read_text_rest: "read_text n t = Some (x, r) \<Longrightarrow> length r < length t"
proof (induction n t arbitrary: x r rule: read_text.induct)
  case (2 n t)
  show ?case
  proof (cases t)
    case (Cons c u)
    then show ?thesis using 2
      by (fastforce split: if_splits list.splits option.splits dest: unicode_escape_rest)
  qed (use 2 in simp)
qed simp

lemma read_text_fuel: "length t < n \<Longrightarrow> length t < m \<Longrightarrow> read_text n t = read_text m t"
proof (induction n t arbitrary: m rule: read_text.induct)
  case (2 n t)
  obtain k where m: "m = Suc k" using 2 by (cases m) auto
  show ?case
  proof (cases t)
    case t: (Cons c r)
    have short: "length r < n" "length r < k" using 2(4,5) by (simp_all add: t m)
    have plain: "read_text n r = read_text k r" if "c \<noteq> CHR 0x22" "\<not> of_char c < (32 :: nat)" "c \<noteq> CHR 0x5C"
      using 2(3) [OF t that short] .
    show ?thesis
    proof (cases "c = CHR 0x5C")
      case c: True
      show ?thesis
      proof (cases r)
        case Nil
        then show ?thesis by (simp add: m t c)
      next
        case (Cons e r')
        have u: "read_text n q = read_text k q" if "e = CHR ''u''" "unicode_escape r' = Some (x, q)" for x q
          using 2(1) [OF t _ _ c Cons that(1) that(2) refl] c short unicode_escape_rest [OF that(2)] Cons by simp
        have v: "read_text n r' = read_text k r'" if "e \<noteq> CHR ''u''" "simple_escape e = Some x" for x
          using 2(2) [OF t _ _ c Cons that] c short Cons by simp
        show ?thesis using u v by (simp add: m t c Cons split: option.split)
      qed
    next
      case False
      then show ?thesis using plain by (simp add: m t)
    qed
  qed (simp add: m)
qed simp

lemma span_rest: "takeWhile P t \<noteq> [] \<Longrightarrow> length (dropWhile P t) < length t"
  by (cases t) (auto simp: le_imp_less_Suc length_dropWhile_le split: if_splits)

lemma drop_while_le: "length (dropWhile P t) \<le> length t"
  by (rule length_dropWhile_le)

lemma fraction_rest: "fraction_of r = (fs, r1, ok) \<Longrightarrow> length r1 \<le> length r"
  by (cases r) (auto simp: fraction_of_def le_SucI drop_while_le split: if_splits)

lemma exponent_rest: "exponent_of r1 = (ex, r2, ok) \<Longrightarrow> length r2 \<le> length r1"
  by (cases r1; cases "tl r1") (auto simp: exponent_of_def Let_def le_SucI drop_while_le split: if_splits)

lemma number_rest_rest: "number_rest ds r = Some (x, r') \<Longrightarrow> ds \<noteq> [] \<and> length r' \<le> length r"
proof -
  assume h: "number_rest ds r = Some (x, r')"
  obtain fs r1 ok where f: "fraction_of r = (fs, r1, ok)" by (cases "fraction_of r")
  obtain ex r2 ok2 where e: "exponent_of r1 = (ex, r2, ok2)" by (cases "exponent_of r1")
  have "ds \<noteq> [] \<and> r' = r2" using h by (auto simp: number_rest_def f e split: if_splits)
  then show ?thesis using fraction_rest [OF f] exponent_rest [OF e] by simp
qed

lemma read_number_rest:
  assumes "read_number t = Some (v, r)"
  shows "length r < length t"
proof (cases t)
  case (Cons c u)
  have n: "length q < length w" if "number_rest (takeWhile is_digit w) (dropWhile is_digit w) = Some (x, q)" for x q w
    using number_rest_rest [OF that] span_rest [of is_digit w] by simp
  show ?thesis
  proof (cases "c = CHR ''-''")
    case True
    then show ?thesis using assms n [of u] by (auto simp: read_number_def Cons less_Suc_eq)
  next
    case False
    then obtain x where "number_rest (takeWhile is_digit t) (dropWhile is_digit t) = Some (x, r)" using assms by (auto simp: read_number_def Cons)
    then show ?thesis by (rule n)
  qed
qed (use assms in \<open>simp add: read_number_def\<close>)

lemma starts_with_length: "starts_with xs ys \<Longrightarrow> length xs \<le> length ys"
  by (induction xs ys rule: starts_with.induct) auto

lemma read_word_rest:
  assumes "read_word t = Some (v, r)"
  shows "length r < length t"
proof -
  have "length r < length t" if "starts_with (x # xs) t" "r = drop (Suc k) t" for x xs k
    using starts_with_length [OF that(1)] that(2) by simp
  then show ?thesis using assms read_number_rest [of t v r]
    by (auto simp: read_word_def eval_nat_numeral split: if_splits)
qed

lemma read_rest:
  "read_value n t = Some (v, r) \<Longrightarrow> length r < length t"
  "read_members n fs t = Some (v, r) \<Longrightarrow> length r < length t"
  "read_elements n vs t = Some (v, r) \<Longrightarrow> length r < length t"
proof (induction n t and n fs t and n vs t arbitrary: v r and v r and v r rule: read_value_read_members_read_elements.induct)
  case (2 n t)
  obtain c u where t: "skip_ws t = c # u" using 2(3) by (cases "skip_ws t") auto
  have l: "length u < length t" by (rule skip_ws_length [OF t])
  consider "c = CHR 0x7B" | "c = CHR 0x5B" | "c = CHR 0x22" | "c \<notin> {CHR 0x7B, CHR 0x5B, CHR 0x22}" by blast
  then show ?case
  proof cases
    case 1
    then obtain d w where d: "skip_ws u = d # w" using 2(3) t by (cases "skip_ws u") auto
    show ?thesis
    proof (cases "d = CHR 0x7D")
      case True
      then show ?thesis using 2(3) t 1 d l skip_ws_length [OF d] by simp
    next
      case False
      then have "read_members n [] u = Some (v, r)" using 2(3) t 1 d by simp
      then show ?thesis using 2(1) [OF t 1 d False] l by simp
    qed
  next
    case b: 2
    then obtain d w where d: "skip_ws u = d # w" using 2(3) t by (cases "skip_ws u") auto
    show ?thesis
    proof (cases "d = CHR 0x5D")
      case True
      then show ?thesis using 2(3) t b d l skip_ws_length [OF d] by simp
    next
      case False
      then have "read_elements n [] u = Some (v, r)" using 2(3) t b d by simp
      then show ?thesis using 2(2) [OF t _ b d False] b l by simp
    qed
  next
    case 3
    then obtain x where "read_text (Suc (length u)) u = Some (x, r)" using 2(3) t by auto
    then show ?thesis using read_text_rest l by fastforce
  next
    case 4
    then have "read_word (c # u) = Some (v, r)" using 2(3) t by simp
    then show ?thesis using read_word_rest [of "c # u"] l by fastforce
  qed
next
  case (4 n fs t)
  obtain c u where t: "skip_ws t = c # u" "c = CHR 0x22" using 4(3) by (cases "skip_ws t") (auto split: if_splits)
  obtain k r1 where k: "read_text (Suc (length u)) u = Some (k, r1)" using 4(3) t by (cases "read_text (Suc (length u)) u") auto
  obtain d r2 where d: "skip_ws r1 = d # r2" "d = CHR 0x3A" using 4(3) t k by (cases "skip_ws r1") (auto split: if_splits)
  obtain x r3 where x: "read_value n r2 = Some (x, r3)" using 4(3) t k d by (cases "read_value n r2") auto
  obtain e r4 where e: "skip_ws r3 = e # r4" using 4(3) t k d x by (cases "skip_ws r3") auto
  have l3: "length r3 < length r2" using 4(1) [OF t(1) _ k refl d(1) _ x] t(2) d(2) by simp
  have l4: "length r4 < length t"
    using skip_ws_length [OF t(1)] read_text_rest [OF k] skip_ws_length [OF d(1)] l3 skip_ws_length [OF e] by simp
  show ?case
  proof (cases "e = CHR 0x2C")
    case True
    then have "read_members n (jset k x fs) r4 = Some (v, r)" using 4(3) t k d x e by simp
    then have "length r < length r4" using 4(2) [OF t(1) _ k refl d(1) _ x refl e True] t(2) d(2) by simp
    then show ?thesis using l4 by simp
  next
    case False
    then show ?thesis using 4(3) t k d x e l4 by (simp split: if_splits)
  qed
next
  case (6 n vs t)
  obtain x r1 where x: "read_value n t = Some (x, r1)" using 6(3) by (cases "read_value n t") auto
  obtain e r2 where e: "skip_ws r1 = e # r2" using 6(3) x by (cases "skip_ws r1") auto
  have l: "length r2 < length t" using 6(1) [OF x] skip_ws_length [OF e] by simp
  show ?case
  proof (cases "e = CHR 0x2C")
    case True
    then have "read_elements n (vs @ [x]) r2 = Some (v, r)" using 6(3) x e by simp
    then show ?thesis using 6(2) [OF x refl e True] l by fastforce
  next
    case False
    then show ?thesis using 6(3) x e l by (simp split: if_splits)
  qed
qed simp_all

lemma read_fuel:
  "2 * length t + 1 \<le> n \<Longrightarrow> 2 * length t + 1 \<le> m \<Longrightarrow> read_value n t = read_value m t"
  "2 * length t + 1 \<le> n \<Longrightarrow> 2 * length t + 1 \<le> m \<Longrightarrow> read_members n fs t = read_members m fs t"
  "2 * length t + 2 \<le> n \<Longrightarrow> 2 * length t + 2 \<le> m \<Longrightarrow> read_elements n vs t = read_elements m vs t"
proof (induction n t and n fs t and n vs t arbitrary: m and m and m rule: read_value_read_members_read_elements.induct)
  case (2 n t)
  obtain k where m: "m = Suc k" using 2(4) by (cases m) auto
  show ?case
  proof (cases "skip_ws t")
    case t: (Cons c u)
    have l: "2 * length u + 2 \<le> n" "2 * length u + 2 \<le> k" using skip_ws_length [OF t] 2(3,4) m by simp_all
    have a: "read_members n [] u = read_members k [] u" if "c = CHR 0x7B" "skip_ws u = d # w" "d \<noteq> CHR 0x7D" for d w
      using 2(1) [OF t that(1,2,3), of k] l by simp
    have b: "read_elements n [] u = read_elements k [] u" if "c = CHR 0x5B" "skip_ws u = d # w" "d \<noteq> CHR 0x5D" for d w
      using 2(2) [OF t _ that(1,2,3), of k] l that(1) by simp
    show ?thesis using a b by (simp add: m t split: list.split)
  qed (simp add: m)
next
  case (4 n fs t)
  obtain k where m: "m = Suc k" using 4(4) by (cases m) auto
  show ?case
  proof (cases "skip_ws t")
    case t: (Cons c u)
    show ?thesis
    proof (cases "c = CHR 0x22 \<and> read_text (Suc (length u)) u \<noteq> None")
      case False
      then have "c \<noteq> CHR 0x22 \<or> read_text (Suc (length u)) u = None" by blast
      then show ?thesis by (elim disjE) (simp_all add: m t del: read_text.simps)
    next
      case True
      then obtain key r1 where c: "c = CHR 0x22" and key: "read_text (Suc (length u)) u = Some (key, r1)" by auto
      have l1: "length r1 < length t" using read_text_rest [OF key] skip_ws_length [OF t] by simp
      show ?thesis
      proof (cases "skip_ws r1")
        case d: (Cons d r2)
        show ?thesis
        proof (cases "d = CHR 0x3A")
          case colon: True
          have l2: "length r2 < length r1" by (rule skip_ws_length [OF d])
          have v: "read_value n r2 = read_value k r2"
            using 4(1) [OF t _ key refl d _, of k] c colon l1 l2 4(3,4) m by simp
          show ?thesis
          proof (cases "read_value n r2")
            case (Some p)
            then obtain x r3 where x: "read_value n r2 = Some (x, r3)" by (cases p) auto
            have l3: "length r3 < length r2" by (rule read_rest(1) [OF x])
            have rest: "read_members n (jset key x fs) r4 = read_members k (jset key x fs) r4" if "skip_ws r3 = e # r4" "e = CHR 0x2C" for e r4
              using 4(2) [OF t _ key refl d _ x refl that, of k] c colon skip_ws_length [OF that(1)] l1 l2 l3 4(3,4) m by simp
            show ?thesis using rest by (simp add: m t c key d colon x v [symmetric] del: read_text.simps split: list.split)
          next
            case None
            then show ?thesis by (simp add: m t c key d colon v [symmetric] del: read_text.simps)
          qed
        qed (simp add: m t c key d del: read_text.simps)
      qed (simp add: m t c key del: read_text.simps)
    qed
  qed (simp add: m)
next
  case (6 n vs t)
  obtain k where m: "m = Suc k" using 6(4) by (cases m) auto
  have v: "read_value n t = read_value k t" using 6(1) [of k] 6(3,4) m by simp
  show ?case
  proof (cases "read_value n t")
    case (Some p)
    then obtain x r where x: "read_value n t = Some (x, r)" by (cases p) auto
    have l: "length r < length t" by (rule read_rest(1) [OF x])
    have rest: "read_elements n (vs @ [x]) r' = read_elements k (vs @ [x]) r'" if "skip_ws r = e # r'" "e = CHR 0x2C" for e r'
      using 6(2) [OF x refl that, of k] skip_ws_length [OF that(1)] l 6(3,4) m by simp
    show ?thesis using rest by (simp add: m x v [symmetric] split: list.split)
  next
    case None
    then show ?thesis by (simp add: m v [symmetric])
  qed
qed simp_all

text \<open>
  Reading always ends by the grammar. The fuel with which a text is read, twice its length and two,
  never runs out: any more of it gives the same answer, so a text is refused only because it is not JSON.
\<close>

theorem JSON_parse_ends:
  "JSON_parse t = (case read_value (2 * length t + 2 + k) t of None \<Rightarrow> None | Some (v, r) \<Rightarrow> if skip_ws r = [] then Some v else None)
     \<and> read_text (Suc (length t)) t = read_text (Suc (length t) + k) t"
  using read_fuel(1) [of t "2 * length t + 2" "2 * length t + 2 + k"] read_text_fuel [of t "Suc (length t)" "Suc (length t) + k"]
  by (simp add: JSON_parse_def)

end
