(* ===== verification/Wallet_History.thy ===== *)
theory Wallet_History
  imports Billing Json_Text Identity
begin

text \<open>
  The transactions of a wallet as the app shows them (\<open>modules/integration/integration.service.ts\<close>): the metadata of
  a transaction, its title and direction, the list with its pages, and the details of one transaction. Also
  the tables of the integration service and the banners of the dashboard
  (\<open>modules/banners/banner.service.ts\<close>). The baht sign of a title is written \<open>THB\<close>, and ids are texts or
  whole numbers.
\<close>

section \<open>Tables\<close>

record banner =
  bn_id :: string
  bn_fields :: "(string \<times> json) list"
  bn_priority :: int
  bn_isActive :: bool
  bn_startDate :: "date option"
  bn_endDate :: "date option"
  bn_createdAt :: date

record notification_row =
  nr_id :: string
  nr_userId :: string
  nr_referenceId :: "string option"
  nr_metadata :: json
  nr_createdAt :: date

text \<open>The audit rows that the transfer writes past the audit service: its \<open>changes\<close> are not a pair of images.\<close>

record transfer_audit =
  ta_userId :: string
  ta_resourceId :: "string option"
  ta_requestPayload :: json
  ta_transactionId :: "string option"
  ta_createdAt :: date

record integration_db = billing_db +
  userRows :: "user list"
  kycRows :: "kyc_data list"
  bannerRows :: "banner list"
  notificationRows :: "notification_row list"
  transferAudit :: "transfer_audit list"

section \<open>Banners\<close>

definition banner_shown :: "date \<Rightarrow> banner \<Rightarrow> bool" where
  "banner_shown now b \<longleftrightarrow> bn_isActive b
     \<and> (case bn_startDate b of None \<Rightarrow> True | Some d \<Rightarrow> time_value d \<le> time_value now)
     \<and> (case bn_endDate b of None \<Rightarrow> True | Some d \<Rightarrow> time_value now \<le> time_value d)"

definition getActiveBanners :: "date \<Rightarrow> 'a integration_db_scheme \<Rightarrow> banner list" where
  "getActiveBanners now s = sort_key (\<lambda>b. - bn_priority b) (filter (banner_shown now) (bannerRows s))"

definition getAllBanners :: "'a integration_db_scheme \<Rightarrow> banner list" where
  "getAllBanners s = sort_key (\<lambda>b. - time_value (bn_createdAt b)) (bannerRows s)"

definition createBanner :: "banner \<Rightarrow> ('a integration_db_scheme, banner) handler" where
  "createBanner b s = (if \<exists>c\<in>set (bannerRows s). bn_id c = bn_id b then (Inl (Prisma ''P2002''), s)
     else (Inr b, s\<lparr>bannerRows := bannerRows s @ [b]\<rparr>))"

definition updateBanner :: "string \<Rightarrow> (banner \<Rightarrow> banner) \<Rightarrow> ('a integration_db_scheme, banner) handler" where
  "updateBanner i f s = (case find (\<lambda>b. bn_id b = i) (bannerRows s) of None \<Rightarrow> (Inl (Prisma ''P2025''), s)
     | Some b \<Rightarrow> (Inr (f b), s\<lparr>bannerRows := update_where (\<lambda>b. bn_id b = i) f (bannerRows s)\<rparr>))"

definition deleteBanner :: "string \<Rightarrow> ('a integration_db_scheme, banner) handler" where
  "deleteBanner i s = (case find (\<lambda>b. bn_id b = i) (bannerRows s) of None \<Rightarrow> (Inl (Prisma ''P2025''), s)
     | Some b \<Rightarrow> (Inr b, s\<lparr>bannerRows := filter (\<lambda>b. bn_id b \<noteq> i) (bannerRows s)\<rparr>))"

section \<open>Metadata\<close>

text \<open>What \<open>{...v}\<close> takes from a value.\<close>

fun spread_fields :: "json \<Rightarrow> (string \<times> json) list" where
  "spread_fields (JObj fs) = fs"
| "spread_fields (JInst fs) = fs"
| "spread_fields (JArr vs) = zip (map (\<lambda>i. int_text (int i)) [0..<length vs]) vs"
| "spread_fields (JStr t) = zip (map (\<lambda>i. int_text (int i)) [0..<length t]) (map (\<lambda>c. JStr [c]) t)"
| "spread_fields _ = []"

definition merge_objects :: "json \<Rightarrow> json \<Rightarrow> json" where
  "merge_objects a b = JObj (foldl (\<lambda>fs (k, v). jset k v fs) [] (spread_fields a @ spread_fields b))"

definition raw_metadata :: "json \<Rightarrow> json" where
  "raw_metadata raw = (if \<not> truthy raw then JObj []
     else case raw of
       JObj fs \<Rightarrow> raw | JInst fs \<Rightarrow> raw | JArr vs \<Rightarrow> raw | JDate d \<Rightarrow> raw
     | JStr t \<Rightarrow> (case JSON_parse t of None \<Rightarrow> JObj [] | Some v \<Rightarrow> v)
     | JText f \<Rightarrow> JNum (Number_fixed f)
     | _ \<Rightarrow> JObj [])"

definition parseMetadata :: "json \<Rightarrow> json result" where
  "parseMetadata raw =
     (let parsed = raw_metadata raw
      in if nullish parsed then Inl (Plain ''Cannot read properties of null'')
         else case jget ''extra'' parsed of
           JStr (c # t) \<Rightarrow> Inr (case JSON_parse (c # t) of None \<Rightarrow> parsed | Some extra \<Rightarrow> merge_objects parsed extra)
         | _ \<Rightarrow> Inr parsed)"

section \<open>Texts of values\<close>

definition digits_padded :: "nat \<Rightarrow> int \<Rightarrow> string" where
  "digits_padded d n = (let t = int_text \<bar>n\<bar> in replicate (Suc d - length t) CHR ''0'' @ t)"

text \<open>The text of \<open>toFixed(2)\<close>. Amounts from \<open>10 ^ 21\<close> on are beyond every column.\<close>

fun fixed_text :: "fixed \<Rightarrow> string" where
  "fixed_text FNaN = ''NaN''"
| "fixed_text (FInf s) = (if s then ''-Infinity'' else ''Infinity'')"
| "fixed_text (FFix d n) = (let t = digits_padded d n; k = length t - d
     in (if n < 0 then ''-'' else []) @ take k t @ (if d = 0 then [] else ''.'' @ drop k t))"
| "fixed_text (FExp x) = int_text \<lfloor>x\<rfloor>"

text \<open>\<open>String(x)\<close> of a number that is whole or has a short decimal notation.\<close>

definition number_string :: "jsnum \<Rightarrow> string" where
  "number_string n = (case n of NaN \<Rightarrow> ''NaN'' | Infinity s \<Rightarrow> (if s then ''-Infinity'' else ''Infinity'')
     | Fin x \<Rightarrow> (let y = shortest x; d = (case find (\<lambda>d. y * 10 ^ d = of_int \<lfloor>y * 10 ^ d\<rfloor>) [0..<21] of Some d \<Rightarrow> d | None \<Rightarrow> 21)
                in fixed_text (FFix d \<lfloor>y * 10 ^ d\<rfloor>)))"

text \<open>\<open>String(v)\<close>\<close>

fun String_json :: "json \<Rightarrow> string" where
  "String_json (JStr t) = t"
| "String_json (JNum n) = number_string n"
| "String_json (JText f) = fixed_text f"
| "String_json (JBool b) = (if b then ''true'' else ''false'')"
| "String_json JNull = ''null''"
| "String_json JUndef = ''undefined''"
| "String_json (JArr vs) = (case vs of [] \<Rightarrow> [] | v # r \<Rightarrow> String_json v @ concat (map (\<lambda>w. '','' @ String_json w) r))"
| "String_json _ = ''[object Object]''"

definition maskPhone :: "string \<Rightarrow> string" where
  "maskPhone phone = (if length phone < 6 then phone else take 3 phone @ ''-***-'' @ drop (length phone - 3) phone)"

text \<open>Of a value that is no text, \<open>slice\<close> is not a function.\<close>

definition mask_value :: "json \<Rightarrow> string result" where
  "mask_value v = (case v of JStr t \<Rightarrow> Inr (maskPhone t) | _ \<Rightarrow> Inl (Plain ''phone.slice is not a function''))"

section \<open>One item of the history\<close>

definition transfer_title :: "json \<Rightarrow> string \<Rightarrow> bool \<Rightarrow> string result" where
  "transfer_title metadata amount isIncome =
     (if isIncome
      then (case mask_value (jor (jget ''senderPhone'' metadata) (JStr ''0xx-xxx-xxxx'')) of Inl e \<Rightarrow> Inl e
            | Inr p \<Rightarrow> Inr (''Receive '' @ amount @ ''THB from '' @ p))
      else (case mask_value (jor (jget ''recipientPhone'' metadata) (JStr ''0xx-xxx-xxxx'')) of Inl e \<Rightarrow> Inl e
            | Inr p \<Rightarrow> Inr (''Transfer '' @ amount @ ''THB to '' @ p)))"

definition formatTransactionTitle :: "json \<Rightarrow> bool \<Rightarrow> string result" where
  "formatTransactionTitle tx isIncome =
     (if nullish tx then Inl (Plain ''Cannot read properties of null'')
      else case parseMetadata (jget ''metadata'' tx) of
        Inl e \<Rightarrow> Inl e
      | Inr metadata \<Rightarrow>
          let type = jor (jget ''type'' tx) (jget ''transactionType'' tx);
              amount = fixed_text (toFixed 2 (Number_json (jor (jor (jget ''totalAmount'' metadata) (jget ''amount'' tx)) (JNum (Fin 0)))))
          in if type = JStr ''TOPUP'' then Inr (''Top up '' @ amount @ ''THB to wallet'')
             else if type = JStr ''PAYMENT'' \<or> type = JStr ''MERCHANT_PAYMENT''
             then Inr (''Purchase '' @ amount @ ''THB to '' @ String_json (jor (jor (jget ''merchantName'' metadata) (jget ''merchant_name'' metadata)) (JStr ''Merchant'')))
             else if type = JStr ''TRANSFER'' then transfer_title metadata amount isIncome
             else if type = JStr ''WITHDRAWAL'' then Inr (''Withdraw '' @ amount @ ''THB from wallet'')
             else Inr (String_json (jor (jget ''description'' tx) (JStr ''Other Transaction''))))"

record history_item =
  hi_id :: json
  hi_type :: json
  hi_title :: string
  hi_description :: json
  hi_amount :: fixed
  hi_netAmount :: fixed
  hi_feeAmount :: "fixed option"
  hi_currency :: json
  hi_incoming :: bool
  hi_failed :: bool
  hi_createdAt :: json
  hi_provider :: json
  hi_paymentIntentId :: json
  hi_orderId :: json
  hi_reference :: json
  hi_idempotencyKey :: json

definition same_id :: "json \<Rightarrow> json \<Rightarrow> bool" where
  "same_id a b \<longleftrightarrow> truthy b \<and> String_json a = String_json b"

definition is_income :: "json \<Rightarrow> json \<Rightarrow> json \<Rightarrow> bool" where
  "is_income tx walletId walletPk =
     (if truthy walletId \<or> truthy walletPk then same_id (jget ''toWalletId'' tx) walletId \<or> same_id (jget ''toWalletId'' tx) walletPk
      else jor (jor (jget ''type'' tx) (jget ''transactionType'' tx)) (JStr ''PAYMENT'') = JStr ''TOPUP''
        \<or> \<not> truthy (jget ''fromWalletId'' tx) \<and> truthy (jget ''toWalletId'' tx))"

definition or_undefined :: "json \<Rightarrow> json" where
  "or_undefined v = jor v JUndef"

text \<open>
  \<open>uuid\<close> is a new random id. The time of the transaction is passed on as it came: the finance service writes
  times that a date can hold.
\<close>

definition mapWalletTransactionToHistoryItem :: "date \<Rightarrow> string \<Rightarrow> json \<Rightarrow> json \<Rightarrow> json \<Rightarrow> history_item result" where
  "mapWalletTransactionToHistoryItem now uuid tx walletId walletPk =
     (case parseMetadata (jget ''metadata'' tx) of
        Inl e \<Rightarrow> Inl e
      | Inr metadata \<Rightarrow>
          let type = jor (jor (jget ''type'' tx) (jget ''transactionType'' tx)) (JStr ''PAYMENT'');
              isIncome = is_income tx walletId walletPk;
              rawAmount = Number_json (jor (jget ''amount'' tx) (JNum (Fin 0)));
              grossAmount = Number_json (jor (jget ''totalAmount'' metadata) (JNum rawAmount));
              isPayment = (type = JStr ''PAYMENT'' \<or> type = JStr ''MERCHANT_PAYMENT'');
              fee = (if isPayment then Fin 0 else nsub grossAmount rawAmount)
          in (case formatTransactionTitle tx isIncome of
                Inl e \<Rightarrow> Inl e
              | Inr title \<Rightarrow> Inr
                  \<lparr>hi_id = jor (jget ''transactionId'' tx) (JStr (String_json (jor (jget ''id'' tx) (JStr uuid)))), hi_type = type, hi_title = title,
                   hi_description = or_undefined (jget ''description'' tx), hi_amount = toFixed 2 grossAmount,
                   hi_netAmount = toFixed 2 (if isPayment then grossAmount else rawAmount),
                   hi_feeAmount = (if nlt (Fin 0) fee then Some (toFixed 2 fee) else None),
                   hi_currency = jor (jget ''currency'' tx) (JStr ''THB''), hi_incoming = isIncome,
                   hi_failed = (jget ''status'' tx = JStr ''FAILED''), hi_createdAt = jor (jget ''createdAt'' tx) (JDate now),
                   hi_provider = or_undefined (jget ''provider'' metadata), hi_paymentIntentId = or_undefined (jget ''paymentIntentId'' metadata),
                   hi_orderId = or_undefined (jget ''orderId'' metadata), hi_reference = or_undefined (jget ''transactionId'' tx),
                   hi_idempotencyKey = or_undefined (jor (jget ''idempotencyKey'' metadata) (jget ''idempotencyKey'' tx))\<rparr>))"

section \<open>The list\<close>

fun map_result :: "('a \<Rightarrow> 'b result) \<Rightarrow> 'a list \<Rightarrow> 'b list result" where
  "map_result f [] = Inr []"
| "map_result f (x # xs) = (case f x of Inl e \<Rightarrow> Inl e | Inr y \<Rightarrow> (case map_result f xs of Inl e \<Rightarrow> Inl e | Inr ys \<Rightarrow> Inr (y # ys)))"

definition group_key :: "history_item \<Rightarrow> json" where
  "group_key i = jor (jor (hi_idempotencyKey i) (hi_reference i)) (hi_id i)"

text \<open>The loop that keeps the first item of every group.\<close>

fun unique_items :: "json list \<Rightarrow> history_item list \<Rightarrow> history_item list" where
  "unique_items seen [] = []"
| "unique_items seen (i # is) = (if group_key i \<in> set seen then unique_items seen is else i # unique_items (group_key i # seen) is)"

definition applyHistorySearch :: "history_item list \<Rightarrow> string option \<Rightarrow> history_item list" where
  "applyHistorySearch items query = (case query of None \<Rightarrow> items
     | Some t \<Rightarrow>
         if strip t = [] then items
         else filter (\<lambda>i. list_ex (\<lambda>v. truthy v \<and> contains (map lower (strip t)) (map lower (String_json v)))
                [JStr (hi_title i), hi_reference i, hi_paymentIntentId i, hi_orderId i]) items)"

fun nmax :: "jsnum \<Rightarrow> jsnum \<Rightarrow> jsnum" where
  "nmax a b = (if a = NaN \<or> b = NaN then NaN else if nlt a b then b else a)"

fun nmin :: "jsnum \<Rightarrow> jsnum \<Rightarrow> jsnum" where
  "nmin a b = (if a = NaN \<or> b = NaN then NaN else if nlt b a then b else a)"

text \<open>The index \<open>slice\<close> makes of a number.\<close>

definition slice_index :: "nat \<Rightarrow> jsnum \<Rightarrow> nat" where
  "slice_index len n = (case n of NaN \<Rightarrow> 0 | Infinity s \<Rightarrow> (if s then 0 else len)
     | Fin x \<Rightarrow> (let k = (if x < 0 then - \<lfloor>- x\<rfloor> else \<lfloor>x\<rfloor>) in if k < 0 then nat (int len + k) else min (nat k) len))"

definition js_slice :: "jsnum \<Rightarrow> jsnum \<Rightarrow> 'b list \<Rightarrow> 'b list" where
  "js_slice a b xs = drop (slice_index (length xs) a) (take (slice_index (length xs) b) xs)"

record history_query =
  hq_page :: json
  hq_size :: json
  hq_type :: "string option"
  hq_q :: "string option"
  hq_from :: "string option"
  hq_to :: "string option"

record history_page =
  hp_items :: "history_item list"
  hp_page :: jsnum
  hp_size :: jsnum
  hp_hasMore :: bool

definition HISTORY_SIZE_MAX :: rat where "HISTORY_SIZE_MAX = 100"

definition history_page_of :: "history_query \<Rightarrow> jsnum" where
  "history_page_of q = nmax (Number_json (if nullish (hq_page q) then JNum (Fin 0) else hq_page q)) (Fin 0)"

definition history_size_of :: "history_query \<Rightarrow> jsnum" where
  "history_size_of q = nmin (nmax (Number_json (if nullish (hq_size q) then JNum (Fin 20) else hq_size q)) (Fin 1)) (Fin HISTORY_SIZE_MAX)"

text \<open>The errors of the services as the handlers pass them on.\<close>

fun passed_on :: "string \<Rightarrow> error \<Rightarrow> error" where
  "passed_on fallback (Http st m) = Http (if st = 0 then BAD_GATEWAY else st) (if m = [] then fallback else m)"
| "passed_on fallback (Plain m) = Http BAD_GATEWAY (if m = [] then fallback else m)"
| "passed_on fallback (Prisma c) = Http BAD_GATEWAY c"

definition json_list :: "json \<Rightarrow> json list result" where
  "json_list v = (if \<not> truthy v then Inr [] else case v of JArr vs \<Rightarrow> Inr vs | _ \<Rightarrow> Inl (Plain ''map is not a function''))"

text \<open>The request for the transactions: always the first page, of three times the size.\<close>

definition history_query_text :: "history_query \<Rightarrow> transactions_query" where
  "history_query_text q = \<lparr>tq_page = Some ''0'', tq_size = Some (number_string (nmul (history_size_of q) (Fin 3))), tq_type = hq_type q,
     tq_from = hq_from q, tq_to = hq_to q\<rparr>"

definition history_items :: "http \<Rightarrow> finance_env \<Rightarrow> date \<Rightarrow> (nat \<Rightarrow> string) \<Rightarrow> string \<Rightarrow> history_query \<Rightarrow> ('a merchant_db_scheme, history_item list) handler" where
  "history_items http env now uuid userId q s =
     (case finance (getWallet http env userId) s of
        (Inl e, s1) \<Rightarrow> (Inl e, s1)
      | (Inr wallet, s1) \<Rightarrow>
          (case finance (getTransactions http env userId (history_query_text q)) s1 of
             (Inl e, s2) \<Rightarrow> (Inl e, s2)
           | (Inr txs, s2) \<Rightarrow>
               ((case json_list txs of Inl e \<Rightarrow> Inl e
                 | Inr ts \<Rightarrow> map_result (\<lambda>(k, tx). mapWalletTransactionToHistoryItem now (uuid k) tx (jget ''walletId'' wallet) (jget ''id'' wallet)) (enumerate 0 ts)), s2)))"

definition getHistory :: "http \<Rightarrow> finance_env \<Rightarrow> date \<Rightarrow> (nat \<Rightarrow> string) \<Rightarrow> string \<Rightarrow> history_query \<Rightarrow> ('a merchant_db_scheme, history_page) handler" where
  "getHistory http env now uuid userId q s =
     (if userId = [] then (Inl (Http UNAUTHORIZED ''Unauthorized''), s)
      else let page = history_page_of q; size = history_size_of q
           in case history_items http env now uuid userId q s of
             (Inl e, s1) \<Rightarrow> (Inl (passed_on ''Failed to fetch history'' e), s1)
           | (Inr items, s1) \<Rightarrow>
               let searched = applyHistorySearch (unique_items [] items) (hq_q q); offset = nmul page size
               in (Inr \<lparr>hp_items = js_slice offset (nadd offset size) searched, hp_page = page, hp_size = size,
                        hp_hasMore = nlt (nadd offset size) (Fin (of_nat (length searched)))\<rparr>, s1))"

end
