(* ===== verification/Integration.thy ===== *)
theory Integration
  imports Wallet_History
begin

text \<open>
  The bank integration (\<open>modules/integration/integration.service.ts\<close>): top-ups through Stripe with their web hooks and
  the polling that stands in for them, transfers between users, the dashboard, the details of a transaction,
  and the proxy to the finance service. Stripe is a parameter, read anew for every request. Texts of messages
  around amounts keep their fixed words.
\<close>

section \<open>Stripe and the request\<close>

record stripe_env =
  se_configured :: bool
  se_balance :: "json option"
  se_create :: "jsnum \<Rightarrow> string \<Rightarrow> json \<Rightarrow> string \<Rightarrow> (string \<times> string option) result"
  se_retrieve :: "string \<Rightarrow> json option"
  se_constructEvent :: "string \<Rightarrow> string \<Rightarrow> string \<Rightarrow> json result"
  se_webhookSecret :: string
  se_publishableKey :: string

record integration_request =
  nq_now :: date
  nq_uuid :: "nat \<Rightarrow> string"
  nq_kafkaUp :: bool
  nq_billing :: billing_request

text \<open>\<open>balance.available.find((b) => b.currency === 'thb')?.amount || 0\<close>, in baht\<close>

definition thb_amount :: "json \<Rightarrow> jsnum option" where
  "thb_amount list = (case list of
      JArr bs \<Rightarrow> Some (ndiv (Number_json (jor (case find (\<lambda>b. jget ''currency'' b = JStr ''thb'') bs of None \<Rightarrow> JUndef | Some b \<Rightarrow> jget ''amount'' b)
        (JNum (Fin 0)))) (Fin 100))
    | _ \<Rightarrow> None)"

definition getStripeBalance :: "stripe_env \<Rightarrow> (jsnum \<times> jsnum) option" where
  "getStripeBalance se = (if \<not> se_configured se then None
     else case se_balance se of None \<Rightarrow> None
       | Some b \<Rightarrow> (case (thb_amount (jget ''available'' b), thb_amount (jget ''pending'' b)) of
           (Some a, Some p) \<Rightarrow> Some (a, p) | _ \<Rightarrow> None))"

section \<open>The proxy to the finance service\<close>

text \<open>Its errors are those of the HTTP client, which the callers read themselves.\<close>

definition forwardToGateway :: "http \<Rightarrow> finance_env \<Rightarrow> http_method \<Rightarrow> string \<Rightarrow> json \<Rightarrow> string option \<Rightarrow> (string \<times> json) list
    \<Rightarrow> wire \<Rightarrow> http_result \<times> wire" where
  "forwardToGateway http env meth path data customer extra =
     send http \<lparr>hc_method = meth, hc_url = fe_url env @ path, hc_body = data,
       hc_headers = [(''X-Internal-Secret'', JStr (case fe_secret env of None \<Rightarrow> ''default-secret'' | Some t \<Rightarrow> t))]
         @ (case customer of Some (c # t) \<Rightarrow> [(''X-Customer-Account-Id'', JStr (c # t))] | _ \<Rightarrow> []) @ extra\<rparr>"

definition gateway :: "(wire \<Rightarrow> http_result \<times> wire) \<Rightarrow> 'a merchant_db_scheme \<Rightarrow> http_result \<times> 'a merchant_db_scheme" where
  "gateway op s = (case op (net s) of (r, w) \<Rightarrow> (r, s\<lparr>net := w\<rparr>))"

text \<open>The exception of the HTTP client, as an error that nobody maps.\<close>

fun axios_error :: "http_result \<Rightarrow> error" where
  "axios_error (HttpError st m) = Plain ''Request failed with status code''"
| "axios_error (HttpDown m) = Plain m"
| "axios_error (HttpOk d) = Plain []"

definition getAccountByUserId :: "http \<Rightarrow> finance_env \<Rightarrow> string \<Rightarrow> ('a merchant_db_scheme, json) handler" where
  "getAccountByUserId http env userId s =
     (case gateway (forwardToGateway http env GET (''/api/v1/accounts/user/'' @ userId) JUndef None []) s of
        (HttpOk d, s1) \<Rightarrow>
          if nullish d then (Inl (Plain ''Cannot read properties of null''), s1)
          else (Inr (JObj [(''data'', case d of JArr (v # vs) \<Rightarrow> v | _ \<Rightarrow> jget ''0'' d)]), s1)
      | (e, s1) \<Rightarrow> (Inl (axios_error e), s1))"

definition get_path :: "http \<Rightarrow> finance_env \<Rightarrow> string \<Rightarrow> ('a merchant_db_scheme, json) handler" where
  "get_path http env path s =
     (case gateway (forwardToGateway http env GET path JUndef None []) s of
        (HttpOk d, s1) \<Rightarrow> (Inr (JObj [(''data'', d)]), s1)
      | (e, s1) \<Rightarrow> (Inl (axios_error e), s1))"

section \<open>Phones\<close>

text \<open>This service has its own spelling of phone numbers: the local one.\<close>

definition wallet_normalizePhone :: "string \<Rightarrow> string" where
  "wallet_normalizePhone phone = (let digits = filter is_digit phone in if length digits = 9 then ''0'' @ digits else digits)"

definition wallet_phoneCandidates :: "string \<Rightarrow> string list" where
  "wallet_phoneCandidates phone =
     (let digits = filter is_digit phone
      in [phone]
         @ (if length digits = 10 \<and> starts_with ''0'' digits then [digits, ''+66'' @ drop 1 digits] else [])
         @ (if length digits = 11 \<and> starts_with ''66'' digits then [''+'' @ digits, ''0'' @ drop 2 digits] else []))"

definition findUserByPhone :: "string \<Rightarrow> 'a integration_db_scheme \<Rightarrow> user option" where
  "findUserByPhone phone s = find (\<lambda>u. us_phoneNumber u \<in> set (wallet_phoneCandidates phone)) (userRows s)"

definition kyc_row :: "string \<Rightarrow> 'a integration_db_scheme \<Rightarrow> kyc_data option" where
  "kyc_row userId s = find (\<lambda>k. kd_userId k = userId) (kycRows s)"

definition idCardName :: "kyc_data option \<Rightarrow> json" where
  "idCardName k = (case k of None \<Rightarrow> JUndef | Some k \<Rightarrow> jget ''idCardName'' (JObj (kd_fields k)))"

section \<open>The details of a transaction\<close>

definition topup_by_key :: "string \<Rightarrow> 'a billing_db_scheme \<Rightarrow> string option" where
  "topup_by_key key s = (case find (\<lambda>t. to_idempotencyKey t = key) (topupOrders s) of
     Some t \<Rightarrow> (case to_financeTransactionId t of Some (c # x) \<Rightarrow> Some (c # x) | _ \<Rightarrow> None) | None \<Rightarrow> None)"

definition notified_id :: "json \<Rightarrow> string option" where
  "notified_id meta =
     (let resolved = jor (jor (jget ''transactionId'' meta) (jget ''financeTransactionId'' meta)) (jget ''id'' meta); t = String_json resolved
      in if nullish resolved \<or> t = [] \<or> starts_with ''p2p_'' t then None else Some t)"

definition by_notification :: "string \<Rightarrow> 'a integration_db_scheme \<Rightarrow> string option" where
  "by_notification i s =
     (let rows = sort_key (\<lambda>n. - time_value (nr_createdAt n)) (filter (\<lambda>n. nr_referenceId n = Some i) (notificationRows s))
      in Option.bind (find (\<lambda>n. notified_id (nr_metadata n) \<noteq> None) rows) (\<lambda>n. notified_id (nr_metadata n)))"

definition names_key :: "string \<Rightarrow> json \<Rightarrow> bool" where
  "names_key i payload \<longleftrightarrow> jget ''idempotencyKey'' payload = JStr i \<or> jget ''idempotencyKey'' (jget ''body'' payload) = JStr i"

text \<open>The newest audit row that names the key: its resource, or the transaction among its changes.\<close>

definition by_audit :: "string \<Rightarrow> 'a integration_db_scheme \<Rightarrow> string option" where
  "by_audit i s =
     (let rows = map (\<lambda>l. (al_createdAt l, Some (al_resourceId l), None)) (filter (\<lambda>l. names_key i (al_requestPayload l)) (auditLog s))
               @ map (\<lambda>l. (ta_createdAt l, ta_resourceId l, ta_transactionId l)) (filter (\<lambda>l. names_key i (ta_requestPayload l)) (transferAudit s))
      in case sort_key (\<lambda>(d, _). - time_value d) rows of
           (d, r, t) # _ \<Rightarrow> if given_text r then r else if given_text t then t else None
         | [] \<Rightarrow> None)"

definition resolve_transaction :: "string \<Rightarrow> 'a integration_db_scheme \<Rightarrow> string" where
  "resolve_transaction i s =
     (let try = (\<lambda>r a. if a = i then (case r of None \<Rightarrow> a | Some x \<Rightarrow> x) else a)
      in if \<not> starts_with ''topup_'' i \<and> \<not> starts_with ''p2p_'' i then i
         else try (by_audit i s) (try (by_notification i s) (if starts_with ''topup_'' i then try (topup_by_key i s) i else i)))"

definition INTERNAL_ERROR :: nat where "INTERNAL_ERROR = 500"

definition getTransactionDetails :: "http \<Rightarrow> finance_env \<Rightarrow> date \<Rightarrow> string \<Rightarrow> string \<Rightarrow> string option \<Rightarrow> ('a integration_db_scheme, history_item) handler" where
  "getTransactionDetails http env now uuid i userId s =
     (let failed = (\<lambda>st. Http st ''(transaction not found or wrong reference)'')
      in case gateway (forwardToGateway http env GET (''/api/finance/wallets/transactions/'' @ resolve_transaction i s) JUndef None []) s of
        (HttpError st m, s1) \<Rightarrow> (Inl (failed st), s1)
      | (HttpDown m, s1) \<Rightarrow> (Inl (failed INTERNAL_ERROR), s1)
      | (HttpOk raw, s1) \<Rightarrow>
          (case (if given_text userId then finance (getWallet http env (the userId)) s1 else (Inr JUndef, s1)) of
             (w, s2) \<Rightarrow>
               let wallet = (case w of Inl e \<Rightarrow> JUndef | Inr d \<Rightarrow> d)
               in (case mapWalletTransactionToHistoryItem now uuid raw (jget ''walletId'' wallet) (jget ''id'' wallet) of
                     Inl e \<Rightarrow> (Inl (failed INTERNAL_ERROR), s2)
                   | Inr item \<Rightarrow> (Inr item, s2))))"

section \<open>The dashboard\<close>

record user_dashboard =
  da_name :: json
  da_kycStatus :: "kyc_status option"
  da_points :: int
  da_birthDate :: "int option"
  da_phone :: "string option"
  da_wallet :: "json option"
  da_banners :: "banner list"
  da_recentTransactions :: "history_item list"

text \<open>The birth date of a record without one: the seventeenth of November 2003, in milliseconds.\<close>

definition DEFAULT_BIRTH :: int where "DEFAULT_BIRTH = MakeDay 2003 10 17 * msPerDay"

definition wallet_view :: "json \<Rightarrow> json" where
  "wallet_view w = JObj [(''balance'', jor (jget ''balance'' w) (JNum (Fin 0))), (''currency'', jor (jget ''currency'' w) (JStr ''THB'')),
     (''status'', jor (jget ''status'' w) (JStr ''ACTIVE'')), (''walletId'', jget ''walletId'' w)]"

definition no_query :: transactions_query where
  "no_query = \<lparr>tq_page = None, tq_size = None, tq_type = None, tq_from = None, tq_to = None\<rparr>"

definition getDashboardData :: "http \<Rightarrow> finance_env \<Rightarrow> date \<Rightarrow> (nat \<Rightarrow> string) \<Rightarrow> string \<Rightarrow> ('a integration_db_scheme, user_dashboard) handler" where
  "getDashboardData http env now uuid userId s =
     (case finance (getWallet http env userId) s of
        (w, s1) \<Rightarrow>
          (case finance (getTransactions http env userId no_query) s1 of
             (t, s2) \<Rightarrow>
               let k = kyc_row userId s2; wallet = (case w of Inl e \<Rightarrow> JNull | Inr d \<Rightarrow> d); txs = (case t of Inl e \<Rightarrow> JArr [] | Inr d \<Rightarrow> d)
               in (case json_list txs of
                     Inl e \<Rightarrow> (Inl e, s2)
                   | Inr ts \<Rightarrow>
                       (case map_result (\<lambda>(n, tx). mapWalletTransactionToHistoryItem now (uuid n) tx (jget ''walletId'' wallet) (jget ''id'' wallet))
                               (enumerate 0 (take 10 ts)) of
                          Inl e \<Rightarrow> (Inl e, s2)
                        | Inr recent \<Rightarrow> (Inr
                            \<lparr>da_name = jor (idCardName k) (JStr ''J-Ledger User''), da_kycStatus = map_option kd_verificationStatus k,
                             da_points = fst (getUserBalance userId s2),
                             da_birthDate = (case k of None \<Rightarrow> None | Some d \<Rightarrow> Some (case kd_dateOfBirth d of None \<Rightarrow> DEFAULT_BIRTH | Some b \<Rightarrow> b)),
                             da_phone = (case find (\<lambda>u. us_id u = userId) (userRows s2) of None \<Rightarrow> None | Some u \<Rightarrow> Some (us_phoneNumber u)),
                             da_wallet = (if truthy wallet then Some (wallet_view wallet) else None), da_banners = getActiveBanners now s2,
                             da_recentTransactions = recent\<rparr>, s2)))))"

definition wallet_getLinkedBankAccounts :: "http \<Rightarrow> finance_env \<Rightarrow> string \<Rightarrow> ('a merchant_db_scheme, json list) handler" where
  "wallet_getLinkedBankAccounts http env userId s =
     (case finance (Finance_Client.getLinkedBankAccounts http env userId) s of
        (Inl e, s1) \<Rightarrow> (Inl e, s1)
      | (Inr d, s1) \<Rightarrow>
          (case json_list d of
             Inl e \<Rightarrow> (Inl e, s1)
           | Inr accounts \<Rightarrow>
               if list_ex nullish accounts then (Inl (Plain ''Cannot read properties of null''), s1)
               else (Inr (map (\<lambda>a. JObj ([(''accountNumberMasked'', jget ''accountNumber'' a)]
                      @ map (\<lambda>k. (k, jget k a)) [''id'', ''bankCode'', ''bankName'', ''accountName'', ''accountType'', ''isDefault'', ''isVerified''])) accounts), s1)))"

section \<open>Top-ups\<close>

text \<open>\<open>!amount || amount <= 0\<close> for whatever the body has.\<close>

definition bad_amount :: "json \<Rightarrow> bool" where
  "bad_amount a \<longleftrightarrow> \<not> truthy a \<or> nle (Number_json a) (Fin 0)"

text \<open>The immediate top-up. \<open>reference\<close> is what the finance client makes of clock and random number.\<close>

definition wallet_topUp :: "http \<Rightarrow> finance_env \<Rightarrow> string \<Rightarrow> string \<Rightarrow> jsnum \<Rightarrow> json \<Rightarrow> ('a merchant_db_scheme, json) handler" where
  "wallet_topUp http env reference userId amount bankAccountId s =
     (if bad_amount (JNum amount) then (Inl (Http BAD_REQUEST ''Invalid top-up amount''), s)
      else case finance (Finance_Client.topUp http env userId amount reference) s of
        (Inl e, s1) \<Rightarrow> (Inl e, s1)
      | (Inr tx, s1) \<Rightarrow>
          (case finance (Finance_Client.getLinkedBankAccounts http env userId) s1 of
             (Inl e, s2) \<Rightarrow> (Inl e, s2)
           | (Inr d, s2) \<Rightarrow>
               (case d of
                  JArr accounts \<Rightarrow>
                    let bank = (case find (\<lambda>a. jget ''id'' a = bankAccountId) accounts of None \<Rightarrow> JUndef | Some a \<Rightarrow> a)
                    in (Inr (JObj [(''transactionId'', jopt (tx_reference tx)), (''amount'', jget ''amount'' tx), (''status'', jget ''status'' tx),
                          (''createdAt'', jget ''createdAt'' tx), (''bankName'', jor (jget ''bankName'' bank) JNull),
                          (''accountNumberMasked'', jor (jget ''accountNumber'' bank) JNull), (''metadata'', jor (jget ''metadata'' tx) JNull)]), s2)
                | _ \<Rightarrow> (Inl (Plain ''bankAccounts.find is not a function''), s2))))"

definition set_topup :: "string \<Rightarrow> (topup_order \<Rightarrow> topup_order) \<Rightarrow> 'a billing_db_scheme \<Rightarrow> 'a billing_db_scheme" where
  "set_topup i f s = s\<lparr>topupOrders := update_where (\<lambda>t. to_id t = i) f (topupOrders s)\<rparr>"

definition insert_topup :: "topup_order \<Rightarrow> ('a billing_db_scheme, topup_order) handler" where
  "insert_topup t s = (if \<exists>x\<in>set (topupOrders s). to_id x = to_id t \<or> to_idempotencyKey x = to_idempotencyKey t then (Inl (Prisma ''P2002''), s)
     else (Inr t, s\<lparr>topupOrders := topupOrders s @ [t]\<rparr>))"

definition new_topup :: "integration_request \<Rightarrow> string \<Rightarrow> rat \<Rightarrow> string \<Rightarrow> topup_order" where
  "new_topup rq userId amount currency = \<lparr>to_id = nq_uuid rq 1, to_userId = userId, to_amount = amount, to_currency = map upper currency, to_status = TopupPending,
     to_stripePaymentIntentId = None, to_clientSecretRef = None, to_idempotencyKey = ''topup_'' @ userId @ ''_'' @ nq_uuid rq 0,
     to_financeTransactionId = None, to_processedEventId = None, to_createdAt = nq_now rq, to_updatedAt = nq_now rq\<rparr>"

text \<open>\<open>Math.round\<close>: halves go up.\<close>

fun nround :: "jsnum \<Rightarrow> jsnum" where
  "nround (Fin x) = Fin (of_int \<lfloor>x + 1 / 2\<rfloor>)"
| "nround n = n"

record topup_answer =
  ti_orderId :: string
  ti_clientSecret :: "string option"
  ti_paymentIntentId :: string
  ti_publishableKey :: string

text \<open>The intent is written into the order and announced to the finance service, whose refusal is swallowed.\<close>

definition register_intent :: "http \<Rightarrow> finance_env \<Rightarrow> integration_request \<Rightarrow> string \<Rightarrow> jsnum \<Rightarrow> topup_order \<Rightarrow> string \<Rightarrow> string option
    \<Rightarrow> ('a billing_db_scheme, unit) handler" where
  "register_intent http env rq userId n order intent secret s =
     (if \<exists>t\<in>set (topupOrders s). to_id t \<noteq> to_id order \<and> to_stripePaymentIntentId t = Some intent then (Inl (Prisma ''P2002''), s)
      else case finance (getWallet http env userId) (set_topup (to_id order) (\<lambda>t. t\<lparr>to_stripePaymentIntentId := Some intent,
                   to_clientSecretRef := Some (case secret of None \<Rightarrow> [] | Some c \<Rightarrow> c), to_updatedAt := nq_now rq\<rparr>) s) of
        (Inl e, s1) \<Rightarrow> (Inl e, s1)
      | (Inr wallet, s1) \<Rightarrow>
          (Inr (), if truthy wallet then snd (finance (createPaymentIntent http env (jget ''accountId'' wallet) intent (JText (toFixed 4 n)) ''TOPUP'') s1) else s1))"

definition createStripeTopupIntent :: "stripe_env \<Rightarrow> http \<Rightarrow> finance_env \<Rightarrow> integration_request \<Rightarrow> string \<Rightarrow> json \<Rightarrow> string \<Rightarrow> string option
    \<Rightarrow> ('a billing_db_scheme, topup_answer) handler" where
  "createStripeTopupIntent se http env rq userId amount currency note s =
     (if \<not> se_configured se then (Inl (Http SERVICE_UNAVAILABLE ''Stripe is not configured''), s)
      else if bad_amount amount then (Inl (Plain ''Invalid top-up amount''), s)
      else case amount of
        JNum n \<Rightarrow>
          (case decimal_column (JText (toFixed 4 n)) of
             None \<Rightarrow> (Inl (Plain ''Invalid value for amount''), s)
           | Some x \<Rightarrow>
               (case insert_topup (new_topup rq userId x currency) s of
                  (Inl e, s1) \<Rightarrow> (Inl e, s1)
                | (Inr order, s1) \<Rightarrow>
                    (case se_create se (nround (nmul n (Fin 100))) (map lower currency)
                            (JObj [(''userId'', JStr userId), (''orderId'', JStr (to_id order)), (''note'', JStr (case note of None \<Rightarrow> [] | Some t \<Rightarrow> t))])
                            (to_idempotencyKey order) of
                       Inl e \<Rightarrow> (Inl e, s1)
                     | Inr (intent, secret) \<Rightarrow>
                         (case register_intent http env rq userId n order intent secret s1 of
                            (Inl e, s2) \<Rightarrow> (Inl e, s2)
                          | (Inr _, s2) \<Rightarrow> (Inr \<lparr>ti_orderId = to_id order, ti_clientSecret = secret, ti_paymentIntentId = intent,
                                             ti_publishableKey = se_publishableKey se\<rparr>, s2)))))
      | _ \<Rightarrow> (Inl (Plain ''amount.toFixed is not a function''), s))"

section \<open>Events of Stripe\<close>

definition topup_by_intent :: "string \<Rightarrow> 'a billing_db_scheme \<Rightarrow> topup_order option" where
  "topup_by_intent intent s = find (\<lambda>t. to_stripePaymentIntentId t = Some intent) (topupOrders s)"

definition mark_topup :: "integration_request \<Rightarrow> topup_order \<Rightarrow> topup_status \<Rightarrow> string \<Rightarrow> 'a billing_db_scheme \<Rightarrow> 'a billing_db_scheme" where
  "mark_topup rq order st event = set_topup (to_id order) (\<lambda>t. t\<lparr>to_status := st, to_processedEventId := Some event, to_updatedAt := nq_now rq\<rparr>)"

definition topup_invoice :: "topup_order \<Rightarrow> string \<Rightarrow> json \<Rightarrow> invoice_dto" where
  "topup_invoice order intent pay = \<lparr>iw_userId = to_userId order, iw_senderName = Some ''J-Ledger Top-up'', iw_senderDetail = None,
     iw_note = Some (case jget ''note'' (jget ''metadata'' pay) of JStr (c # t) \<Rightarrow> c # t | _ \<Rightarrow> ''Top-up via '' @ to_currency order),
     iw_dueDate = None, iw_referenceId = Some intent,
     iw_items = [\<lparr>id_name = ''Wallet Top-up ('' @ to_currency order @ '')'', id_quantity = Fin 1, id_unitPrice = mk_num (to_amount order)\<rparr>],
     iw_partnerId = None\<rparr>"

text \<open>Once the money is credited: the status, the points, the invoice. Failures of the last two are swallowed.\<close>

definition topup_rewards :: "http \<Rightarrow> finance_env \<Rightarrow> integration_request \<Rightarrow> topup_order \<Rightarrow> string \<Rightarrow> json \<Rightarrow> 'a billing_db_scheme \<Rightarrow> 'a billing_db_scheme" where
  "topup_rewards http env rq order intent pay s =
     (let s1 = snd (earnPoints (nq_kafkaUp rq) (nq_now rq) (to_userId order) (mk_num (to_amount order)) ''TOPUP'' (''Top-up via '' @ to_currency order)
                (Some (to_id order)) s)
      in snd (createInvoice http env (nq_billing rq) (topup_invoice order intent pay) s1))"

text \<open>What a handler does after it has read the order: nothing of it looks at the row again.\<close>

definition fulfil_topup :: "http \<Rightarrow> finance_env \<Rightarrow> integration_request \<Rightarrow> topup_order \<Rightarrow> string \<Rightarrow> string \<Rightarrow> json \<Rightarrow> ('a billing_db_scheme, unit) handler" where
  "fulfil_topup http env rq order event intent pay s =
     (if to_status order = TopupPaid then (Inr (), s)
      else if to_status order = TopupProcessing \<and> to_processedEventId order = Some event then (Inr (), s)
      else case finance (processPaymentWebhook http env intent ''SUCCESS'') (mark_topup rq order TopupProcessing event s) of
        (Inl e, s1) \<Rightarrow> (Inl e, mark_topup rq order TopupFailed event s1)
      | (Inr _, s1) \<Rightarrow>
          (Inr (), topup_rewards http env rq order intent pay (set_topup (to_id order) (\<lambda>t. t\<lparr>to_financeTransactionId := Some (''PAY-'' @ intent)\<rparr>)
             (mark_topup rq order TopupPaid event s1))))"

definition handlePaymentIntentSucceeded :: "http \<Rightarrow> finance_env \<Rightarrow> integration_request \<Rightarrow> string \<Rightarrow> json \<Rightarrow> ('a billing_db_scheme, unit) handler" where
  "handlePaymentIntentSucceeded http env rq event pay s =
     (case jget ''id'' pay of
        JStr intent \<Rightarrow> (case topup_by_intent intent s of None \<Rightarrow> (Inr (), s) | Some order \<Rightarrow> fulfil_topup http env rq order event intent pay s)
      | _ \<Rightarrow> (Inl (Plain ''Argument stripePaymentIntentId is missing''), s))"

definition handlePaymentIntentFailed :: "http \<Rightarrow> finance_env \<Rightarrow> integration_request \<Rightarrow> bool \<Rightarrow> string \<Rightarrow> json \<Rightarrow> ('a billing_db_scheme, unit) handler" where
  "handlePaymentIntentFailed http env rq canceled event pay s =
     (case jget ''id'' pay of
        JStr intent \<Rightarrow>
          (case topup_by_intent intent s of
             None \<Rightarrow> (Inr (), s)
           | Some order \<Rightarrow>
               if to_status order = TopupPaid then (Inr (), s)
               else let s1 = snd (finance (processPaymentWebhook http env intent ''FAILED'') s)
                    in (Inr (), mark_topup rq order (if canceled then TopupCanceled else TopupFailed) event s1))
      | _ \<Rightarrow> (Inl (Plain ''Argument stripePaymentIntentId is missing''), s))"

text \<open>The arrival date is sent in milliseconds; one that no date can hold ends the attempt, which is swallowed.\<close>

definition handlePayoutPaid :: "http \<Rightarrow> finance_env \<Rightarrow> json \<Rightarrow> 'a merchant_db_scheme \<Rightarrow> 'a merchant_db_scheme" where
  "handlePayoutPaid http env payout s =
     (case nmul (Number_json (jget ''arrival_date'' payout)) (Fin 1000) of
        Fin ms \<Rightarrow>
          if \<bar>ms\<bar> \<le> 8640000000000000
          then snd (gateway (forwardToGateway http env POST ''/api/admin/treasury/internal/payouts/stripe-confirmed''
                 (JObj [(''stripePayoutId'', jget ''id'' payout), (''amount'', JText (toFixed 4 (ndiv (Number_json (jget ''amount'' payout)) (Fin 100)))),
                        (''arrivalDate'', JNum (Fin ms))]) None []) s)
          else s
      | _ \<Rightarrow> s)"

definition processStripeWebhook :: "stripe_env \<Rightarrow> http \<Rightarrow> finance_env \<Rightarrow> integration_request \<Rightarrow> string option \<Rightarrow> string \<Rightarrow> ('a billing_db_scheme, unit) handler" where
  "processStripeWebhook se http env rq signature rawBody s =
     (if \<not> se_configured se then (Inl (Http SERVICE_UNAVAILABLE ''Stripe is not configured''), s)
      else case signature of
        Some (c # t) \<Rightarrow>
          (case se_constructEvent se rawBody (c # t) (se_webhookSecret se) of
             Inl e \<Rightarrow> (Inl e, s)
           | Inr event \<Rightarrow>
               let kind = jget ''type'' event; obj = jget ''object'' (jget ''data'' event); i = String_json (jget ''id'' event)
               in if kind = JStr ''payment_intent.succeeded'' then handlePaymentIntentSucceeded http env rq i obj s
                  else if kind = JStr ''payout.paid'' then (Inr (), handlePayoutPaid http env obj s)
                  else if kind = JStr ''payment_intent.payment_failed'' then handlePaymentIntentFailed http env rq False i obj s
                  else if kind = JStr ''payment_intent.canceled'' then handlePaymentIntentFailed http env rq True i obj s
                  else (Inr (), s))
      | _ \<Rightarrow> (Inl (Plain ''Missing stripe signature''), s))"

text \<open>The status of an order; while it is pending, Stripe is asked and a success is handled on the spot.\<close>

definition current_topup :: "stripe_env \<Rightarrow> http \<Rightarrow> finance_env \<Rightarrow> integration_request \<Rightarrow> string \<Rightarrow> string \<Rightarrow> ('a billing_db_scheme, topup_order) handler" where
  "current_topup se http env rq userId orderId s =
     (let mine = (\<lambda>s. find (\<lambda>t. to_id t = orderId \<and> to_userId t = userId) (topupOrders s))
      in case mine s of
        None \<Rightarrow> (Inl (Plain ''Top-up order not found''), s)
      | Some order \<Rightarrow>
          if to_status order = TopupPending \<and> given_text (to_stripePaymentIntentId order) \<and> se_configured se
          then (case se_retrieve se (the (to_stripePaymentIntentId order)) of
                  None \<Rightarrow> (Inr order, s)
                | Some pay \<Rightarrow>
                    if jget ''status'' pay \<noteq> JStr ''succeeded'' then (Inr order, s)
                    else (case handlePaymentIntentSucceeded http env rq (''direct_recon_'' @ nq_uuid rq 0) pay s of
                       (Inl e, s1) \<Rightarrow> (Inr order, s1)
                     | (Inr _, s1) \<Rightarrow> (Inr (case mine s1 of None \<Rightarrow> order | Some u \<Rightarrow> u), s1)))
          else (Inr order, s))"

record topup_status_view =
  tv_orderId :: string
  tv_status :: topup_status
  tv_amount :: rat
  tv_currency :: string
  tv_transactionId :: string
  tv_createdAt :: date

definition topup_status_view_of :: "topup_order \<Rightarrow> topup_status_view" where
  "topup_status_view_of t = \<lparr>tv_orderId = to_id t, tv_status = to_status t, tv_amount = to_amount t, tv_currency = to_currency t,
     tv_transactionId = (if given_text (to_financeTransactionId t) then the (to_financeTransactionId t) else to_id t), tv_createdAt = to_updatedAt t\<rparr>"

definition getTopupOrderStatus :: "stripe_env \<Rightarrow> http \<Rightarrow> finance_env \<Rightarrow> integration_request \<Rightarrow> string \<Rightarrow> string
    \<Rightarrow> ('a billing_db_scheme, topup_status_view) handler" where
  "getTopupOrderStatus se http env rq userId orderId s =
     (case current_topup se http env rq userId orderId s of
        (Inl e, s1) \<Rightarrow> (Inl e, s1)
      | (Inr order, s1) \<Rightarrow> (Inr (topup_status_view_of order), s1))"

section \<open>Transfers between users\<close>

record p2p_body =
  pb_recipientPhone :: string
  pb_amount :: json
  pb_note :: "string option"
  pb_idempotencyKey :: "string option"

text \<open>The limits, which the preview and the transfer test alike.\<close>

definition transfer_limits :: "http \<Rightarrow> finance_env \<Rightarrow> string \<Rightarrow> jsnum \<Rightarrow> ('a merchant_db_scheme, unit) handler" where
  "transfer_limits http env userId amount s =
     (if amount = NaN \<or> nle amount (Fin 0) then (Inl (Http BAD_REQUEST ''Invalid transfer amount''), s)
      else case finance (getSystemSettings http env) s of
        (Inl e, s1) \<Rightarrow> (Inl e, s1)
      | (Inr settings, s1) \<Rightarrow>
          if \<not> truthy settings then (Inl (Http INTERNAL_SERVER_ERROR ''System settings could not be retrieved''), s1)
          else if nullish (jget ''minP2pTransfer'' settings) then (Inl (Http INTERNAL_SERVER_ERROR ''P2P minimum transfer limit is not configured''), s1)
          else if nlt amount (Number_json (jget ''minP2pTransfer'' settings)) then (Inl (Http BAD_REQUEST ''Minimum transfer amount''), s1)
          else if \<not> truthy (jget ''perTransactionLimit'' settings) then (Inl (Http INTERNAL_SERVER_ERROR ''System transaction limit is not configured''), s1)
          else if nlt (Number_json (jget ''perTransactionLimit'' settings)) amount then (Inl (Http BAD_REQUEST ''Transfer exceeds system limit''), s1)
          else (case finance (getWallet http env userId) s1 of
             (Inl e, s2) \<Rightarrow> (Inl e, s2)
           | (Inr wallet, s2) \<Rightarrow>
               if truthy (jget ''dailyLimit'' wallet) \<and> nlt (Number_json (jget ''dailyLimit'' wallet)) amount
               then (Inl (Http BAD_REQUEST ''Transfer exceeds your wallet's daily limit''), s2)
               else (Inr (), s2)))"

definition recipient_missing :: error where
  "recipient_missing = Http NOT_FOUND ''Recipient not found. This phone number is not registered in the system.''"

text \<open>How an error of the finance service reaches the user.\<close>

definition p2p_error :: "string \<Rightarrow> error \<Rightarrow> error" where
  "p2p_error fallback e = (case passed_on fallback e of
      Http st m \<Rightarrow> if contains ''recipient not found'' (map lower m) then recipient_missing else Http st m
    | e' \<Rightarrow> e')"

definition jcoalesce :: "json \<Rightarrow> json \<Rightarrow> json" where
  "jcoalesce v d = (if nullish v then d else v)"

definition wallet_previewP2PTransfer :: "http \<Rightarrow> finance_env \<Rightarrow> string \<Rightarrow> p2p_body \<Rightarrow> ('a integration_db_scheme, json) handler" where
  "wallet_previewP2PTransfer http env userId body s =
     (let phone = wallet_normalizePhone (pb_recipientPhone body); amount = Number_json (pb_amount body); text = JText (toFixed 4 amount)
      in case transfer_limits http env userId amount s of
        (Inl e, s1) \<Rightarrow> (Inl e, s1)
      | (Inr _, s1) \<Rightarrow>
          if findUserByPhone phone s1 = None then (Inl recipient_missing, s1)
          else (case finance (Finance_Client.previewP2PTransfer http env userId (JObj [(''recipientPhone'', JStr phone), (''amount'', text)])) s1 of
             (Inl e, s2) \<Rightarrow> (Inl (p2p_error ''Failed to preview transfer'' e), s2)
           | (Inr preview, s2) \<Rightarrow>
               let r = jget ''recipient'' preview;
                   profile = (case jget ''userId'' r of JStr (c # t) \<Rightarrow> kyc_row (c # t) s2 | _ \<Rightarrow> None)
               in (Inr (JObj [(''recipient'', JObj [(''userId'', jget ''userId'' r), (''phoneMasked'', jor (jget ''phoneMasked'' r) (JStr (maskPhone phone))),
                          (''displayName'', jor (idCardName profile) JNull)]),
                        (''amount'', jcoalesce (jget ''amount'' preview) text), (''fee'', jcoalesce (jget ''fee'' preview) (JStr ''0.0000'')),
                        (''totalDebit'', jcoalesce (jget ''totalDebit'' preview) text), (''currency'', jcoalesce (jget ''currency'' preview) (JStr ''THB''))]), s2)))"

record transfer_result =
  tr_transactionId :: "string option"
  tr_status :: json
  tr_amount :: fixed
  tr_recipientUserId :: json
  tr_phoneMasked :: string
  tr_displayName :: json
  tr_createdAt :: json

definition p2p_payload :: "string \<Rightarrow> string \<Rightarrow> json \<Rightarrow> json \<Rightarrow> json \<Rightarrow> p2p_body \<Rightarrow> json" where
  "p2p_payload phone key senderName recipientName senderPhone body =
     JObj [(''recipientPhone'', JStr phone), (''amount'', JText (toFixed 4 (Number_json (pb_amount body)))), (''note'', jopt (pb_note body)),
       (''idempotencyKey'', JStr key),
       (''metadata'', JObj [(''senderName'', senderName), (''recipientName'', recipientName), (''senderPhone'', senderPhone), (''recipientPhone'', JStr phone)])]"

definition p2p_audit :: "integration_request \<Rightarrow> string \<Rightarrow> string \<Rightarrow> string option \<Rightarrow> p2p_body \<Rightarrow> 'a integration_db_scheme \<Rightarrow> 'a integration_db_scheme" where
  "p2p_audit rq userId key ref body s = s\<lparr>transferAudit := transferAudit s @
     [\<lparr>ta_userId = userId, ta_resourceId = ref,
       ta_requestPayload = JObj [(''recipientPhone'', JStr (pb_recipientPhone body)), (''amount'', pb_amount body), (''note'', jopt (pb_note body)),
         (''idempotencyKey'', JStr key)],
       ta_transactionId = ref, ta_createdAt = nq_now rq\<rparr>]\<rparr>"

definition p2p_invoice :: "string \<Rightarrow> string option \<Rightarrow> string \<Rightarrow> p2p_body \<Rightarrow> invoice_dto" where
  "p2p_invoice userId ref to body = \<lparr>iw_userId = userId, iw_senderName = Some ''J-Ledger Wallet'', iw_senderDetail = None, iw_note = pb_note body,
     iw_dueDate = None, iw_referenceId = ref,
     iw_items = [\<lparr>id_name = ''P2P Transfer to '' @ to, id_quantity = Fin 1, id_unitPrice = Number_json (pb_amount body)\<rparr>], iw_partnerId = None\<rparr>"

text \<open>After the finance service has moved the money: the audit row, the invoice, the points. All failures are swallowed.\<close>

definition p2p_records :: "http \<Rightarrow> finance_env \<Rightarrow> integration_request \<Rightarrow> string \<Rightarrow> string \<Rightarrow> string \<Rightarrow> string option \<Rightarrow> p2p_body
    \<Rightarrow> 'a integration_db_scheme \<Rightarrow> 'a integration_db_scheme" where
  "p2p_records http env rq userId key to ref body s =
     (let s1 = p2p_audit rq userId key ref body s;
          s2 = snd (createInvoice http env (nq_billing rq) (p2p_invoice userId ref to body) s1)
      in snd (earnPoints (nq_kafkaUp rq) (nq_now rq) userId (Number_json (pb_amount body)) ''P2P_TRANSFER'' (''P2P Transfer to '' @ to) ref s2))"

definition transferP2P :: "http \<Rightarrow> finance_env \<Rightarrow> integration_request \<Rightarrow> string \<Rightarrow> p2p_body \<Rightarrow> ('a integration_db_scheme, transfer_result) handler" where
  "transferP2P http env rq userId body s =
     (let phone = wallet_normalizePhone (pb_recipientPhone body); amount = Number_json (pb_amount body)
      in case transfer_limits http env userId amount s of
        (Inl e, s1) \<Rightarrow> (Inl e, s1)
      | (Inr _, s1) \<Rightarrow>
          if \<not> given_text (pb_idempotencyKey body) then (Inl (Http BAD_REQUEST ''idempotencyKey is required''), s1)
          else (case findUserByPhone phone s1 of
             None \<Rightarrow> (Inl recipient_missing, s1)
           | Some recipient \<Rightarrow>
               let key = the (pb_idempotencyKey body);
                   sender = jor (idCardName (kyc_row userId s1)) (JStr ''User'');
                   profile = kyc_row (us_id recipient) s1;
                   name = jor (idCardName profile) (JStr phone);
                   senderPhone = (case find (\<lambda>u. us_id u = userId) (userRows s1) of None \<Rightarrow> JUndef | Some u \<Rightarrow> JStr (us_phoneNumber u))
               in (case finance (transferByPhone http env userId (p2p_payload phone key sender name senderPhone body)) s1 of
                     (Inl e, s2) \<Rightarrow> (Inl (p2p_error ''Failed to transfer'' e), s2)
                   | (Inr tx, s2) \<Rightarrow>
                       (case parseMetadata (jget ''metadata'' tx) of
                          Inl e \<Rightarrow> (Inl (p2p_error ''Failed to transfer'' e), s2)
                        | Inr metadata \<Rightarrow>
                            let ref = tx_reference tx; sent = toFixed 4 (Number_json (jor (jget ''amount'' tx) (JNum amount)))
                            in (Inr \<lparr>tr_transactionId = ref, tr_status = jor (jget ''status'' tx) (JStr ''COMPLETED''), tr_amount = sent,
                                   tr_recipientUserId = jor (jget ''recipientUserId'' metadata) (JStr (us_id recipient)), tr_phoneMasked = maskPhone phone,
                                   tr_displayName = jor (idCardName profile) JNull, tr_createdAt = jor (jget ''createdAt'' tx) (JDate (nq_now rq))\<rparr>,
                                p2p_records http env rq userId key (String_json name) ref body s2)))))"

end
