(* ===== verification/Billing_Props.thy ===== *)
theory Billing_Props
  imports Billing
begin

text \<open>
  Properties of invoices: a payment moves what the invoice says, once, and what happens when the invoice is
  named by its number.
\<close>

section \<open>What the transfers of a payment send\<close>

definition transfer_call :: "finance_env \<Rightarrow> transfer_payload \<Rightarrow> http_call" where
  "transfer_call env l = \<lparr>hc_method = POST, hc_url = fe_url env @ ''/api/finance/transactions/merchant-pay'',
     hc_body = JObj [(''fromWalletId'', tp_fromAccountId l), (''toWalletId'', tp_toAccountId l), (''amount'', tp_amount l),
       (''currency'', JStr ''THB''), (''metadata'', tp_metadata l)],
     hc_headers = getInternalHeaders env @ [(''Idempotency-Key'', JStr (tp_idempotencyKey l))]\<rparr>"

definition merchant_leg :: "transfer_payload \<Rightarrow> bool" where
  "merchant_leg l \<longleftrightarrow> tp_type l = Some ''MERCHANT_PAYMENT'' \<and> tp_currency l = None"

lemma performTransfer_sends:
  assumes "merchant_leg l"
  obtains (ok) d where "performTransfer http env l w = (Inr d, w @ [transfer_call env l])" "http w (transfer_call env l) = HttpOk d"
  | (error) e where "performTransfer http env l w = (Inl e, w @ [transfer_call env l])"
  using assms that by (cases "http w (transfer_call env l)") (auto simp: performTransfer_def merchant_leg_def request_def send_def transfer_call_def Let_def)

text \<open>A run over the legs sends a prefix of them, and all of them when it succeeds; it changes nothing else.\<close>

lemma send_legs_effect:
  assumes "list_all merchant_leg ls" "send_legs http env ls s = (r, s')"
  shows "\<exists>k\<le>length ls. s' = s\<lparr>net := net s @ map (transfer_call env) (take k ls)\<rparr> \<and> (r = Inr () \<longrightarrow> k = length ls)"
  using assms
proof (induction ls arbitrary: s)
  case Nil
  then show ?case by simp
next
  case (Cons l ls)
  have m: "merchant_leg l" "list_all merchant_leg ls" using Cons.prems(1) by simp_all
  from m(1) show ?case
  proof (cases rule: performTransfer_sends [of l http env "net s"])
    case (ok d)
    then have "send_legs http env ls (s\<lparr>net := net s @ [transfer_call env l]\<rparr>) = (r, s')" using Cons.prems(2) by (simp add: finance_def)
    from Cons.IH [OF m(2) this] obtain k where "k \<le> length ls"
      "s' = s\<lparr>net := net s @ transfer_call env l # map (transfer_call env) (take k ls)\<rparr>" "r = Inr () \<longrightarrow> k = length ls" by auto
    then show ?thesis by (intro exI [of _ "Suc k"]) simp
  next
    case (error e)
    then show ?thesis using Cons.prems(2) by (intro exI [of _ "Suc 0"]) (auto simp: finance_def)
  qed
qed

lemma invoice_legs_merchant: "list_all merchant_leg (invoice_legs v wallet mAcc sAcc)"
  by (simp add: invoice_legs_def side_leg_def pay_leg_def merchant_leg_def)

section \<open>What they add up to\<close>

definition payload_satang :: "transfer_payload \<Rightarrow> int" where
  "payload_satang l = (case tp_amount l of JText (FFix d k) \<Rightarrow> if d = 2 then k else 0 | _ \<Rightarrow> 0)"

definition satang_money :: "int \<Rightarrow> money option" where
  "satang_money a = Some (Dec (of_int a / 100))"

lemma Number_satang: "\<bar>a\<bar> \<le> 10 ^ 13 \<Longrightarrow> mk_num (of_int a / 100) = satang_num a"
proof -
  assume "\<bar>a\<bar> \<le> 10 ^ 13"
  then have "\<bar>of_int a / 100 :: rat\<bar> \<le> 10 ^ 11" by (rule satang_double)
  then show ?thesis unfolding satang_num_def by (intro mk_num_Fin) simp
qed

lemma side_leg_satang:
  assumes "0 \<le> a" "a \<le> 10 ^ 13"
  shows "sum_list (map payload_satang (side_leg v wallet to (satang_num a) name)) = (if truthy to then a else 0)"
  using positive2_satang [OF assms] toFixed_satang [of a] assms by (simp add: side_leg_def pay_leg_def payload_satang_def)

lemma invoice_legs_total:
  assumes "vw_total v = Dec (of_int t / 100)" "vw_tax v = Dec (of_int a / 100)" "vw_feeAmount v = satang_money b" "vw_feeTax v = satang_money c"
    "0 \<le> t" "t \<le> 10 ^ 13" "0 \<le> a" "a \<le> 10 ^ 13" "0 \<le> b" "b \<le> 10 ^ 13" "0 \<le> c" "c \<le> 10 ^ 13"
  shows "sum_list (map payload_satang (invoice_legs v wallet mAcc sAcc)) =
     t - (if truthy (jget ''vat'' mAcc) then 0 else a) - (if truthy (jget ''revenue'' sAcc) then 0 else b) - (if truthy (jget ''vat_payable'' sAcc) then 0 else c)"
proof -
  have n: "mk_num (of_int t / 100) = satang_num t" "mk_num (of_int a / 100) = satang_num a" "mk_num (of_int b / 100) = satang_num b"
    "mk_num (of_int c / 100) = satang_num c" using assms(5-12) by (simp_all add: Number_satang)
  have net: "toFixed 2 (invoice_net v) = FFix 2 (t - a - b - c)"
    using nsub_satang [of t a b c] assms by (simp add: invoice_net_def satang_money_def n satang_num_def [symmetric])
  show ?thesis
    using side_leg_satang [OF assms(7,8)] side_leg_satang [OF assms(9,10)] side_leg_satang [OF assms(11,12)] assms(1-4)
    by (simp add: invoice_legs_def pay_leg_def payload_satang_def [of "\<lparr>tp_fromAccountId = x, tp_toAccountId = y, tp_amount = z, tp_idempotencyKey = k, tp_type = ty, tp_currency = cu, tp_metadata = me\<rparr>" for x y z k ty cu me] net satang_money_def n)
qed

section \<open>Finding the invoice that was asked for\<close>

text \<open>An identifier that is neither a reference of a payment nor a transaction of the finance service.\<close>

definition plain_id :: "string \<Rightarrow> bool" where
  "plain_id i \<longleftrightarrow> \<not> starts_with ''PAY-'' i \<and> \<not> starts_with ''TXN'' i"

lemma getInvoiceById_row:
  assumes "plain_id i" "find (matches_invoice u i [i]) (invoices s) = Some v"
  shows "getInvoiceById http env nt i u s = (Inr (row_view v), s)"
  using assms by (simp add: getInvoiceById_def plain_id_def resolve_txn_def)

text \<open>What the settlement of an invoice with a partner does when all parties have their accounts.\<close>

lemma settle_invoice_effect:
  assumes "settle_invoice http env u v s = (r, s')" "given_text (vw_partnerId v)" "find_partner (the (vw_partnerId v)) s = Some p"
    "find (\<lambda>q. pt_taxId q = Some SYSTEM_TAX_ID) (partners s) = Some sys"
  shows "\<exists>cs. s' = s\<lparr>net := net s @ cs\<rparr> \<and> (r = Inr () \<longrightarrow> (\<exists>wallet c. http (net s) c = HttpOk wallet \<and> truthy wallet
     \<and> cs = c # map (transfer_call env) (invoice_legs v wallet (pt_financeAccounts p) (pt_financeAccounts sys))))"
proof -
  obtain rw w where w: "getWallet http env u (net s) = (rw, w)" by fastforce
  then obtain c where c: "w = net s @ [c]" "\<And>d. rw = Inr d \<Longrightarrow> truthy d \<Longrightarrow> http (net s) c = HttpOk d"
    using getWallet_no_transfer [of http env u "net s"] getWallet_ok [of http env u "net s"] by (metis last_snoc prod.inject)
  let ?s1 = "s\<lparr>net := net s @ [c]\<rparr>"
  have keep: "find_partner (the (vw_partnerId v)) ?s1 = Some p" "find (\<lambda>q. pt_taxId q = Some SYSTEM_TAX_ID) (partners ?s1) = Some sys"
    using assms(3,4) by (simp_all add: find_partner_def)
  show ?thesis
  proof (cases "\<exists>d. rw = Inr d \<and> truthy d \<and> truthy (pt_financeAccounts p) \<and> truthy (pt_financeAccounts sys)")
    case True
    then obtain d where d: "rw = Inr d" "truthy d" "truthy (pt_financeAccounts p)" "truthy (pt_financeAccounts sys)" by blast
    let ?ls = "invoice_legs v d (pt_financeAccounts p) (pt_financeAccounts sys)"
    have "send_legs http env ?ls ?s1 = (r, s')"
      using assms(1,2) w c(1) d keep by (simp add: settle_invoice_def finance_def)
    from send_legs_effect [OF invoice_legs_merchant this] obtain k where
      "s' = s\<lparr>net := net s @ c # map (transfer_call env) (take k ?ls)\<rparr>" "r = Inr () \<longrightarrow> k = length ?ls" by auto
    then show ?thesis using c(2) [OF d(1,2)] d(2) by (intro exI [of _ "c # map (transfer_call env) (take k ?ls)"]) auto
  next
    case False
    then have "s' = ?s1 \<and> r \<noteq> Inr ()"
      using assms(1,2) w c(1) keep by (cases rw) (auto simp: settle_invoice_def finance_def split: if_splits)
    then show ?thesis by (intro exI [of _ "[c]"]) simp
  qed
qed

definition paid_row :: "date \<Rightarrow> invoice \<Rightarrow> invoice" where
  "paid_row now v = v\<lparr>iv_status := InvoicePaid, iv_paidAt := Some now, iv_referenceId := Some (''SPLIT_PAY_'' @ iv_id v), iv_updatedAt := now\<rparr>"

lemma settle_invoice_tables:
  assumes "settle_invoice http env u v s = (r, s')"
  shows "invoices s' = invoices s"
proof -
  have legs: "invoices s2 = invoices s1" if "send_legs http env ls s1 = (q, s2)" for ls q and s1 s2 :: "'a billing_db_scheme"
    using that by (induction ls arbitrary: s1) (auto simp: finance_def split: prod.splits sum.splits)
  show ?thesis using assms by (auto simp: settle_invoice_def finance_def dest!: legs split: if_splits prod.splits sum.splits option.splits)
qed

text \<open>A payment by the invoice's own id.\<close>

lemma payInvoice_by_id:
  assumes "plain_id i" "find (matches_invoice u i [i]) (invoices s) = Some v" "iv_id v = i" "payInvoice http env nt now i u s = (Inr w, s')"
  shows "iv_status v \<noteq> InvoicePaid \<and> (\<exists>s1. settle_invoice http env u (row_view v) s = (Inr (), s1) \<and> net s' = net s1)
     \<and> invoices s' = update_where (\<lambda>w. iv_id w = i) (paid_row now) (invoices s)"
proof -
  obtain r s1 where settle: "settle_invoice http env u (row_view v) s = (r, s1)" by fastforce
  have id: "vw_id (row_view v) = i" "vw_status (row_view v) = iv_status v" using assms(3) by (simp_all add: row_view_def)
  have upd: "update_where (\<lambda>w. iv_id w = i) (\<lambda>w. w\<lparr>iv_status := InvoicePaid, iv_paidAt := Some now, iv_referenceId := Some (''SPLIT_PAY_'' @ i), iv_updatedAt := now\<rparr>) ws
      = update_where (\<lambda>w. iv_id w = i) (paid_row now) ws" for ws
    by (induction ws) (simp_all add: paid_row_def)
  show ?thesis using assms(4) getInvoiceById_row [OF assms(1,2), of http env nt] settle settle_invoice_tables [OF settle]
    by (auto simp: payInvoice_def id Let_def upd [simplified] split: if_splits sum.splits option.splits)
qed

text \<open>
  Property C20. A paid invoice moved exactly its total. When a payment by the invoice's id succeeds, on an invoice
  of a partner whose amounts are whole satang up to a hundred billion baht, then one call asked for the
  customer's wallet, every other call is a transfer out of that wallet, and the transfers, whose texts are
  computed in doubles, add up to the total, less the VAT or the fees for which an account is missing. The
  invoice is marked as paid at that time and no other row changes.
\<close>

theorem payInvoice_moves_total:
  assumes "plain_id i" "find (matches_invoice u i [i]) (invoices s) = Some v" "iv_id v = i" "iv_partnerId v = Some pid" "pid \<noteq> []"
    and "find_partner pid s = Some p" "find (\<lambda>q. pt_taxId q = Some SYSTEM_TAX_ID) (partners s) = Some sys"
    and "iv_total v = of_int t / 100" "iv_tax v = of_int a / 100" "iv_feeAmount v = Some (of_int b / 100)" "iv_feeTax v = Some (of_int c / 100)"
    and "0 \<le> t" "t \<le> 10 ^ 13" "0 \<le> a" "a \<le> 10 ^ 13" "0 \<le> b" "b \<le> 10 ^ 13" "0 \<le> c" "c \<le> 10 ^ 13"
    and "payInvoice http env nt now i u s = (Inr w, s')"
  shows "\<exists>wallet call legs. http (net s) call = HttpOk wallet \<and> net s' = net s @ call # map (transfer_call env) legs
     \<and> (\<forall>l\<in>set legs. tp_fromAccountId l = jget ''walletId'' wallet)
     \<and> sum_list (map payload_satang legs) = t - (if truthy (jget ''vat'' (pt_financeAccounts p)) then 0 else a)
         - (if truthy (jget ''revenue'' (pt_financeAccounts sys)) then 0 else b) - (if truthy (jget ''vat_payable'' (pt_financeAccounts sys)) then 0 else c)
     \<and> invoices s' = update_where (\<lambda>w. iv_id w = i) (paid_row now) (invoices s)"
proof -
  let ?v = "row_view v"
  obtain s1 where s1: "settle_invoice http env u ?v s = (Inr (), s1)" "net s' = net s1"
    and rows: "invoices s' = update_where (\<lambda>w. iv_id w = i) (paid_row now) (invoices s)"
    using payInvoice_by_id [OF assms(1-3,20)] by blast
  have "given_text (vw_partnerId ?v)" "find_partner (the (vw_partnerId ?v)) s = Some p"
    using assms(4-6) by (simp_all add: row_view_def given_text_def)
  from settle_invoice_effect [OF s1(1) this assms(7)] obtain wallet call where w: "http (net s) call = HttpOk wallet"
    and net: "net s1 = net s @ call # map (transfer_call env) (invoice_legs ?v wallet (pt_financeAccounts p) (pt_financeAccounts sys))"
    by fastforce
  have sum: "sum_list (map payload_satang (invoice_legs ?v wallet (pt_financeAccounts p) (pt_financeAccounts sys))) = t
      - (if truthy (jget ''vat'' (pt_financeAccounts p)) then 0 else a) - (if truthy (jget ''revenue'' (pt_financeAccounts sys)) then 0 else b)
      - (if truthy (jget ''vat_payable'' (pt_financeAccounts sys)) then 0 else c)"
    by (rule invoice_legs_total) (use assms(8-19) in \<open>simp_all add: row_view_def satang_money_def\<close>)
  have "\<forall>l\<in>set (invoice_legs ?v wallet (pt_financeAccounts p) (pt_financeAccounts sys)). tp_fromAccountId l = jget ''walletId'' wallet"
    by (auto simp: invoice_legs_def side_leg_def pay_leg_def)
  with w net sum rows s1(2) show ?thesis by metis
qed

text \<open>
  An invoice is paid once. After a payment by the invoice's id went through, every further attempt of
  that user under the same id, at any later time and whatever the services answer, is refused as already
  paid and does nothing: no call is sent and no table changes.
\<close>

theorem payInvoice_once:
  assumes "plain_id i" "find (matches_invoice u i [i]) (invoices s) = Some v" "iv_id v = i"
    and "list_all (\<lambda>w. iv_id w \<noteq> i \<longrightarrow> iv_invoiceNumber w \<noteq> i \<and> iv_referenceId w \<noteq> Some i) (invoices s)"
    and "payInvoice http env nt now i u s = (Inr w, s')"
  shows "payInvoice http' env' nt' now' i u s' = (Inl (Http BAD_REQUEST ''Invoice is already paid''), s')"
proof -
  have rows: "invoices s' = update_where (\<lambda>w. iv_id w = i) (paid_row now) (invoices s)" using payInvoice_by_id [OF assms(1-3,5)] by blast
  have only: "matches_invoice u i [i] x = (iv_id x = i \<and> iv_userId x = u)" if "x \<in> set (invoices s)" for x
    using assms(4) that by (auto simp: matches_invoice_def list_all_iff)
  have "find (matches_invoice u i [i]) (update_where (\<lambda>w. iv_id w = i) (paid_row now) ws) = map_option (paid_row now) (find (matches_invoice u i [i]) ws)"
    if "set ws \<subseteq> set (invoices s)" for ws
    using that by (induction ws) (auto simp: only, auto simp: matches_invoice_def paid_row_def)
  then have "find (matches_invoice u i [i]) (invoices s') = Some (paid_row now v)" using assms(2) by (simp add: rows)
  from getInvoiceById_row [OF assms(1) this] show ?thesis by (simp add: payInvoice_def row_view_def paid_row_def)
qed

text \<open>
  Paying by number takes the money and fails. \<open>getInvoiceById\<close> accepts an invoice's number, but the
  update names the row by the identifier of the request: when the transfers have all gone through, the
  payment ends with an error of the database, the invoice stays unpaid, and so it does again on every retry.
\<close>

theorem payInvoice_by_number_fails:
  assumes "plain_id n" "find (matches_invoice u n [n]) (invoices s) = Some v" "iv_status v \<noteq> InvoicePaid"
    and "list_all (\<lambda>w. iv_id w \<noteq> n) (invoices s)" "settle_invoice http env u (row_view v) s = (Inr (), s1)"
  shows "payInvoice http env nt now n u s = (Inl (Prisma ''P2025''), s1) \<and> invoices s1 = invoices s
     \<and> (\<exists>s2 e. payInvoice http' env' nt' now' n u s1 = (Inl e, s2) \<and> invoices s2 = invoices s)"
proof -
  have rows: "invoices s1 = invoices s" by (rule settle_invoice_tables [OF assms(5)])
  have none: "find (\<lambda>w. iv_id w = n) (invoices s) = None" using assms(4) by (induction "invoices s") (auto simp: find_None_iff list_all_iff)
  have st: "vw_status (row_view v) \<noteq> InvoicePaid" using assms(3) by (simp add: row_view_def)
  obtain r s2 where settle: "settle_invoice http' env' u (row_view v) s1 = (r, s2)" by fastforce
  have "invoices s2 = invoices s" using settle_invoice_tables [OF settle] rows by simp
  moreover have "find (matches_invoice u n [n]) (invoices s1) = Some v" using assms(2) rows by simp
  ultimately have "\<exists>s2 e. payInvoice http' env' nt' now' n u s1 = (Inl e, s2) \<and> invoices s2 = invoices s"
    using getInvoiceById_row [OF assms(1), of u s1 v http' env' nt'] st settle none by (cases r) (auto simp: payInvoice_def)
  then show ?thesis using getInvoiceById_row [OF assms(1,2), of http env nt] st assms(5) none rows by (simp add: payInvoice_def)
qed

text \<open>An invoice without a partner is marked as paid although nothing is sent.\<close>

theorem payInvoice_without_partner:
  assumes "plain_id i" "find (matches_invoice u i [i]) (invoices s) = Some v" "iv_id v = i" "iv_partnerId v = None" "iv_status v \<noteq> InvoicePaid"
  shows "\<exists>w s'. payInvoice http env nt now i u s = (Inr w, s') \<and> iv_status w = InvoicePaid \<and> net s' = net s"
proof -
  have "find (\<lambda>w. iv_id w = i) (invoices s) \<noteq> None" using find_SomeD [OF assms(2)] assms(3) by (auto simp: find_None_iff)
  then show ?thesis using getInvoiceById_row [OF assms(1,2), of http env nt] assms(4,5)
    by (auto simp: payInvoice_def settle_invoice_def row_view_def given_text_def Let_def)
qed

section \<open>An example\<close>

definition demo_invoice :: invoice where
  "demo_invoice = \<lparr>iv_id = ''i1'', iv_invoiceNumber = ''INV-1'', iv_userId = ''alice'', iv_senderName = None, iv_senderDetail = None,
     iv_amount = of_int 10000 / 100, iv_tax = of_int 700 / 100, iv_feeRate = Some (3 / 100), iv_feeAmount = Some (of_int 321 / 100),
     iv_feeTax = Some (of_int 22 / 100), iv_total = of_int 10700 / 100, iv_currency = ''THB'', iv_status = InvoicePending, iv_dueDate = None,
     iv_paidAt = None, iv_partnerId = Some ''p1'', iv_referenceId = None, iv_note = None, iv_items = [], iv_createdAt = demo_now, iv_updatedAt = demo_now\<rparr>"

definition demo_books :: billing_db where
  "demo_books = merchant_db.extend demo_till (billing_db.fields [demo_invoice] [])"

lemma demo_books_found:
  "plain_id ''i1''" "find (matches_invoice ''alice'' ''i1'' [''i1'']) (invoices demo_books) = Some demo_invoice" "iv_id demo_invoice = ''i1''"
  "plain_id ''INV-1''" "find (matches_invoice ''alice'' ''INV-1'' [''INV-1'']) (invoices demo_books) = Some demo_invoice"
  "find_partner ''p1'' demo_books = Some demo_partner" "find (\<lambda>q. pt_taxId q = Some SYSTEM_TAX_ID) (partners demo_books) = Some demo_system"
  by (simp_all add: plain_id_def matches_invoice_def demo_books_def demo_invoice_def merchant_db.defs billing_db.defs find_partner_def demo_till_def
      demo_system_def demo_partner_def new_partner_def SYSTEM_TAX_ID_def)

lemma demo_paid:
  obtains w s' where "payInvoice demo_finance demo_env (\<lambda>_. None) demo_now ''i1'' ''alice'' demo_books = (Inr w, s')"
proof -
  have "case payInvoice demo_finance demo_env (\<lambda>_. None) demo_now ''i1'' ''alice'' demo_books of (Inr _, _) \<Rightarrow> True | _ \<Rightarrow> False" by code_simp
  then show thesis using that by (auto split: prod.splits sum.splits)
qed

theorem payInvoice_moves_total_witness:
  "\<exists>w s' call legs. payInvoice demo_finance demo_env (\<lambda>_. None) demo_now ''i1'' ''alice'' demo_books = (Inr w, s')
     \<and> net s' = call # map (transfer_call demo_env) legs
     \<and> sum_list (map payload_satang legs) = 10700 - (if truthy (jget ''vat'' (pt_financeAccounts demo_partner)) then 0 else 700)"
proof -
  obtain w s' where run: "payInvoice demo_finance demo_env (\<lambda>_. None) demo_now ''i1'' ''alice'' demo_books = (Inr w, s')" by (rule demo_paid)
  have "iv_partnerId demo_invoice = Some ''p1''" "''p1'' \<noteq> []" "iv_total demo_invoice = of_int 10700 / 100" "iv_tax demo_invoice = of_int 700 / 100"
    "iv_feeAmount demo_invoice = Some (of_int 321 / 100)" "iv_feeTax demo_invoice = Some (of_int 22 / 100)" by (simp_all add: demo_invoice_def)
  moreover have "net demo_books = []" "truthy (jget ''revenue'' (pt_financeAccounts demo_system))" "truthy (jget ''vat_payable'' (pt_financeAccounts demo_system))"
    by (simp_all add: demo_books_def merchant_db.defs billing_db.defs demo_till_def demo_market_def demo_system_def)
  ultimately show ?thesis
    using payInvoice_moves_total [OF demo_books_found(1-3) _ _ demo_books_found(6,7) _ _ _ _ _ _ _ _ _ _ _ _ run, of 10700 700 321 22] run by auto
qed

theorem payInvoice_once_witness:
  "\<exists>w s'. payInvoice demo_finance demo_env (\<lambda>_. None) demo_now ''i1'' ''alice'' demo_books = (Inr w, s')
     \<and> payInvoice demo_finance demo_env (\<lambda>_. None) demo_now ''i1'' ''alice'' s' = (Inl (Http BAD_REQUEST ''Invoice is already paid''), s')"
proof -
  obtain w s' where run: "payInvoice demo_finance demo_env (\<lambda>_. None) demo_now ''i1'' ''alice'' demo_books = (Inr w, s')" by (rule demo_paid)
  have "list_all (\<lambda>w. iv_id w \<noteq> ''i1'' \<longrightarrow> iv_invoiceNumber w \<noteq> ''i1'' \<and> iv_referenceId w \<noteq> Some ''i1'') (invoices demo_books)"
    by (simp add: demo_books_def merchant_db.defs billing_db.defs demo_invoice_def)
  from payInvoice_once [OF demo_books_found(1-3) this run] run show ?thesis by blast
qed

theorem payInvoice_by_number_fails_witness:
  "\<exists>s1. payInvoice demo_finance demo_env (\<lambda>_. None) demo_now ''INV-1'' ''alice'' demo_books = (Inl (Prisma ''P2025''), s1)
     \<and> invoices s1 = [demo_invoice] \<and> net s1 \<noteq> []"
proof -
  have "case settle_invoice demo_finance demo_env ''alice'' (row_view demo_invoice) demo_books of (Inr _, s1) \<Rightarrow> net s1 \<noteq> [] | _ \<Rightarrow> False" by code_simp
  then obtain s1 where s1: "settle_invoice demo_finance demo_env ''alice'' (row_view demo_invoice) demo_books = (Inr (), s1)" "net s1 \<noteq> []"
    by (auto split: prod.splits sum.splits)
  have "list_all (\<lambda>w. iv_id w \<noteq> ''INV-1'') (invoices demo_books)" "invoices demo_books = [demo_invoice]" "iv_status demo_invoice \<noteq> InvoicePaid"
    by (simp_all add: demo_books_def merchant_db.defs billing_db.defs demo_invoice_def)
  with payInvoice_by_number_fails [OF demo_books_found(4,5) this(3,1) s1(1)] s1(2) show ?thesis by auto
qed

end
