(* ===== verification/Integration_Props.thy ===== *)
theory Integration_Props
  imports Integration Billing_Props Identity_Props
begin

text \<open>
  Properties of the integration service: a top-up is rewarded once in every sequence of events and polls, though not
  when two handlers run at the same time; transfers respect the limits and fail without a trace in the
  tables, but a retry is rewarded again; the history ends after three pages; both services find the same
  user for a phone number.
\<close>

section \<open>What rewards and invoices change\<close>

lemma earnPoints_frame:
  fixes s :: "'a billing_db_scheme"
  obtains hs where "pointHistory (snd (earnPoints k now u a ev d r s)) = pointHistory s @ hs" "length hs \<le> 1" "\<forall>h\<in>set hs. ph_referenceId h = r"
    "topupOrders (snd (earnPoints k now u a ev d r s)) = topupOrders s" "invoices (snd (earnPoints k now u a ev d r s)) = invoices s"
    "net (snd (earnPoints k now u a ev d r s)) = net s"
proof (cases "earnPoints k now u a ev d r s")
  case (Pair x s')
  show thesis
  proof (cases "\<exists>res. x = Inr (Some res)")
    case True
    then obtain res where "earnPoints k now u a ev d r s = (Inr (Some res), s')" using Pair by blast
    then have "s' = emit_earn k u r ev res (post (earn_entry now u (er_pointsEarned res) d r) (ensure_account u s))"
      by (rule earnPoints_posts) simp
    then show thesis using Pair
      by (intro that [of "[earn_entry now u (er_pointsEarned res) d r]"]) (simp_all add: emit_earn_def post_def ensure_account_def open_account_def earn_entry_def)
  next
    case False
    have "s' = s"
    proof (cases x)
      case (Inl e)
      then show ?thesis using earnPoints_no_points(1) Pair by blast
    next
      case (Inr y)
      then have "x = Inr None" using False by (cases y) auto
      then show ?thesis using earnPoints_no_points(2) Pair by blast
    qed
    then show thesis using Pair by (intro that [of "[]"]) simp_all
  qed
qed

lemma insert_invoice_frame: "\<exists>vs. snd (insert_invoice v s) = s\<lparr>invoices := invoices s @ vs\<rparr> \<and> length vs \<le> 1"
proof -
  have "snd (insert_invoice v s) = s\<lparr>invoices := invoices s @ []\<rparr> \<or> snd (insert_invoice v s) = s\<lparr>invoices := invoices s @ [v]\<rparr>"
    unfolding insert_invoice_def by (simp only: if_distrib [of snd] snd_conv append_Nil2) simp
  then show ?thesis
  proof
    assume "snd (insert_invoice v s) = s\<lparr>invoices := invoices s @ []\<rparr>"
    then show ?thesis by (intro exI [of _ "[]"]) simp
  next
    assume "snd (insert_invoice v s) = s\<lparr>invoices := invoices s @ [v]\<rparr>"
    then show ?thesis by (intro exI [of _ "[v]"]) simp
  qed
qed

lemma createInvoice_cases:
  assumes "getSystemSettings http env (net s) = (r, w)"
  shows "snd (createInvoice http env rq dto s) = s\<lparr>net := w\<rparr> \<or> (\<exists>v. snd (createInvoice http env rq dto s) = snd (insert_invoice v (s\<lparr>net := w\<rparr>)))"
proof (cases r)
  case (Inl e)
  then show ?thesis using assms by (simp add: createInvoice_def finance_def)
next
  case (Inr d)
  then show ?thesis using assms by (cases "nullish d") (auto simp: createInvoice_def finance_def split: sum.split)
qed

lemma createInvoice_frame:
  fixes s :: "'a billing_db_scheme"
  obtains ws vs where "snd (createInvoice http env rq dto s) = s\<lparr>net := net s @ ws, invoices := invoices s @ vs\<rparr>" "length vs \<le> 1" "ws \<noteq> []"
proof -
  obtain r c where g: "getSystemSettings http env (net s) = (r, net s @ [c])" using getSystemSettings_no_transfer [of http env "net s"] by blast
  let ?s1 = "s\<lparr>net := net s @ [c]\<rparr>"
  from createInvoice_cases [OF g, of rq dto] show thesis
  proof
    assume "snd (createInvoice http env rq dto s) = ?s1"
    then show thesis by (intro that [of "[]" "[c]"]) simp_all
  next
    assume "\<exists>v. snd (createInvoice http env rq dto s) = snd (insert_invoice v ?s1)"
    then obtain v where v: "snd (createInvoice http env rq dto s) = snd (insert_invoice v ?s1)" by blast
    obtain vs where "snd (insert_invoice v ?s1) = ?s1\<lparr>invoices := invoices ?s1 @ vs\<rparr>" "length vs \<le> 1" using insert_invoice_frame [of v ?s1] by blast
    then show thesis using v by (intro that [of vs "[c]"]) simp_all
  qed
qed

section \<open>The life of a top-up order\<close>

text \<open>What may happen to the orders and to the ledger of points, one write at a time.\<close>

type_synonym topup_books = "topup_order list \<times> point_history list"

inductive topup_change :: "topup_books \<Rightarrow> topup_books \<Rightarrow> bool" where
  kept: "(\<And>u. to_id (f u) = to_id u \<and> to_status (f u) = to_status u) \<Longrightarrow> topup_change (os, hs) (update_where p f os, hs)"
| moved: "t \<in> set os \<Longrightarrow> to_status t \<noteq> TopupPaid \<Longrightarrow> (\<And>u. to_id (f u) = to_id u \<and> to_status (f u) \<noteq> TopupPaid)
    \<Longrightarrow> topup_change (os, hs) (update_where (\<lambda>u. to_id u = to_id t) f os, hs)"
| paid: "t \<in> set os \<Longrightarrow> to_status t \<noteq> TopupPaid \<Longrightarrow> (\<And>u. to_id (f u) = to_id u \<and> to_status (f u) = TopupPaid)
    \<Longrightarrow> length ps \<le> 1 \<Longrightarrow> \<forall>h\<in>set ps. ph_referenceId h = Some (to_id t)
    \<Longrightarrow> topup_change (os, hs) (update_where (\<lambda>u. to_id u = to_id t) f os, hs @ ps)"
| created: "to_id t \<notin> to_id ` set os \<Longrightarrow> to_status t \<noteq> TopupPaid \<Longrightarrow> topup_change (os, hs) (os @ [t], hs)"

definition rewards :: "string \<Rightarrow> point_history list \<Rightarrow> nat" where
  "rewards i hs = length (filter (\<lambda>h. ph_referenceId h = Some i) hs)"

fun topups_ok :: "topup_books \<Rightarrow> bool" where
  "topups_ok (os, hs) \<longleftrightarrow> distinct (map to_id os) \<and> (\<forall>t\<in>set os. rewards (to_id t) hs \<le> (if to_status t = TopupPaid then 1 else 0))
     \<and> (\<forall>h\<in>set hs. \<exists>t\<in>set os. ph_referenceId h = Some (to_id t))"

text \<open>An order that is paid stays so, with the points it has brought.\<close>

fun paid_order :: "string \<Rightarrow> nat \<Rightarrow> topup_books \<Rightarrow> bool" where
  "paid_order i n (os, hs) \<longleftrightarrow> (\<exists>t\<in>set os. to_id t = i \<and> to_status t = TopupPaid) \<and> rewards i hs = n"

lemma rewards_append [simp]: "rewards i (hs @ ps) = rewards i hs + rewards i ps"
  by (simp add: rewards_def)

lemma rewards_other: "\<forall>h\<in>set ps. ph_referenceId h = Some j \<Longrightarrow> i \<noteq> j \<Longrightarrow> rewards i ps = 0"
  by (auto simp: rewards_def filter_empty_conv)

lemma rewards_le: "rewards i ps \<le> length ps"
  by (simp add: rewards_def)

lemma ids_of_update: "(\<And>u. to_id (f u) = to_id u) \<Longrightarrow> to_id ` set (update_where p f os) = to_id ` set os"
  using map_update_where [of to_id f p os] by (metis set_map)

lemma known_update:
  assumes "\<forall>h\<in>set hs. \<exists>t\<in>set os. ph_referenceId h = Some (to_id t)" "\<And>u. to_id (f u) = to_id u"
  shows "\<forall>h\<in>set hs. \<exists>t\<in>set (update_where p f os). ph_referenceId h = Some (to_id t)"
proof
  fix h assume "h \<in> set hs"
  then obtain t where "t \<in> set os" "ph_referenceId h = Some (to_id t)" using assms(1) by blast
  moreover then have "to_id t \<in> to_id ` set (update_where p f os)" using ids_of_update [of f p os, OF assms(2)] by auto
  ultimately show "\<exists>t\<in>set (update_where p f os). ph_referenceId h = Some (to_id t)" by auto
qed

lemma topup_change_ok:
  assumes "topup_change b b'" "topups_ok b"
  shows "topups_ok b'"
  using assms
proof (induction rule: topup_change.induct)
  case (kept f os hs p)
  have ids: "\<And>u. to_id (f u) = to_id u" using kept(1) by blast
  have "rewards (to_id x) hs \<le> (if to_status x = TopupPaid then 1 else 0)" if "x \<in> set (update_where p f os)" for x
    using that kept by (auto simp: set_update_where)
  moreover have "\<forall>h\<in>set hs. \<exists>t\<in>set (update_where p f os). ph_referenceId h = Some (to_id t)"
    using kept(2) by (intro known_update [OF _ ids]) simp
  ultimately show ?case using kept(2) map_update_where [of to_id f p os, OF ids] by simp
next
  case (moved t os f hs)
  have ids: "\<And>u. to_id (f u) = to_id u" using moved(3) by blast
  have zero: "rewards (to_id t) hs = 0" using moved(1,2,4) by auto
  have "rewards (to_id x) hs \<le> (if to_status x = TopupPaid then 1 else 0)" if "x \<in> set (update_where (\<lambda>u. to_id u = to_id t) f os)" for x
    using that moved(3,4) zero by (auto simp: set_update_where)
  moreover have "\<forall>h\<in>set hs. \<exists>u\<in>set (update_where (\<lambda>u. to_id u = to_id t) f os). ph_referenceId h = Some (to_id u)"
    using moved(4) by (intro known_update [OF _ ids]) simp
  ultimately show ?case using moved(4) map_update_where [of to_id f _ os, OF ids] by simp
next
  case (paid t os f ps hs)
  have ids: "\<And>u. to_id (f u) = to_id u" using paid(3) by blast
  have zero: "rewards (to_id t) hs = 0" using paid(1,2,6) by auto
  have "rewards (to_id x) (hs @ ps) \<le> (if to_status x = TopupPaid then 1 else 0)" if x: "x \<in> set (update_where (\<lambda>u. to_id u = to_id t) f os)" for x
  proof (cases "to_id x = to_id t")
    case True
    then have "to_status x = TopupPaid" using x paid(3) by (auto simp: set_update_where)
    then show ?thesis using True zero rewards_le [of "to_id t" ps] paid(4) by simp
  next
    case False
    then have "x \<in> set os" using x paid(3) by (auto simp: set_update_where)
    then show ?thesis using False rewards_other [OF paid(5)] paid(6) by auto
  qed
  moreover have "\<forall>h\<in>set (hs @ ps). \<exists>u\<in>set (update_where (\<lambda>u. to_id u = to_id t) f os). ph_referenceId h = Some (to_id u)"
    using paid(1,5,6) by (intro known_update [OF _ ids]) auto
  ultimately show ?case using paid(6) map_update_where [of to_id f _ os, OF ids] by simp
next
  case (created t os hs)
  have "ph_referenceId h \<noteq> Some (to_id t)" if h: "h \<in> set hs" for h
  proof
    assume r: "ph_referenceId h = Some (to_id t)"
    obtain u where "u \<in> set os" "ph_referenceId h = Some (to_id u)" using created(3) h by auto
    then have "to_id t \<in> to_id ` set os" using r by auto
    then show False using created(1) by simp
  qed
  then have "rewards (to_id t) hs = 0" by (simp add: rewards_def filter_empty_conv)
  then show ?case using created by auto
qed

lemma topup_change_paid:
  assumes "topup_change b b'" "topups_ok b" "paid_order i n b"
  shows "paid_order i n b'"
  using assms
proof (induction rule: topup_change.induct)
  case (kept f os hs p)
  then obtain t where "t \<in> set os" "to_id t = i" "to_status t = TopupPaid" by auto
  then have "(if p t then f t else t) \<in> set (update_where p f os)" "to_id (if p t then f t else t) = i" "to_status (if p t then f t else t) = TopupPaid"
    using kept(1) by (auto simp: set_update_where)
  then show ?case using kept(3) by auto
next
  case (moved t os f hs)
  then obtain u where u: "u \<in> set os" "to_id u = i" "to_status u = TopupPaid" by auto
  have "to_id u \<noteq> to_id t" using u moved(1,2,4) by (auto simp: distinct_map dest: inj_onD)
  then have "u \<in> set (update_where (\<lambda>u. to_id u = to_id t) f os)" using u(1) by (auto simp: set_update_where)
  then show ?case using u moved(5) by auto
next
  case (paid t os f ps hs)
  then obtain u where u: "u \<in> set os" "to_id u = i" "to_status u = TopupPaid" by auto
  have ne: "to_id u \<noteq> to_id t" using u paid(1,2,6) by (auto simp: distinct_map dest: inj_onD)
  then have "u \<in> set (update_where (\<lambda>u. to_id u = to_id t) f os)" using u(1) by (auto simp: set_update_where)
  then show ?case using u paid(7) rewards_other [OF paid(5), of i] ne by auto
next
  case (created t os hs)
  then show ?case by auto
qed

text \<open>The contract of an operation on the books of top-ups, and what follows for every number of them.\<close>

definition topup_books_of :: "'a billing_db_scheme \<Rightarrow> topup_books" where
  "topup_books_of s = (topupOrders s, pointHistory s)"

locale topup_operation =
  fixes op :: "billing_db \<Rightarrow> 'r result \<times> billing_db"
  assumes writes: "topup_change\<^sup>*\<^sup>* (topup_books_of s) (topup_books_of (snd (op s)))"
begin

lemma keeps_ok: "topups_ok (topup_books_of s) \<Longrightarrow> topups_ok (topup_books_of (snd (op s)))"
  using writes [of s] by (induction rule: rtranclp_induct) (auto dest: topup_change_ok)

lemma keeps_paid:
  assumes "topups_ok (topup_books_of s)" "paid_order i n (topup_books_of s)"
  shows "paid_order i n (topup_books_of (snd (op s)))"
proof -
  have "topups_ok (topup_books_of (snd (op s))) \<and> paid_order i n (topup_books_of (snd (op s)))"
    using writes [of s] by (induction rule: rtranclp_induct) (use assms in \<open>auto dest: topup_change_ok topup_change_paid\<close>)
  then show ?thesis by blast
qed

end

lemma books_finance: "finance op s = (r, s1) \<Longrightarrow> topup_books_of s1 = topup_books_of s"
  by (auto simp: finance_def topup_books_of_def split: prod.splits)

definition marked :: "integration_request \<Rightarrow> topup_status \<Rightarrow> string \<Rightarrow> topup_order \<Rightarrow> topup_order" where
  "marked rq st event t = t\<lparr>to_status := st, to_processedEventId := Some event, to_updatedAt := nq_now rq\<rparr>"

lemma marked_simps [simp]: "to_id (marked rq st event t) = to_id t" "to_status (marked rq st event t) = st"
  by (simp_all add: marked_def)

lemma books_set_topup: "topup_books_of (set_topup i f s) = (update_where (\<lambda>t. to_id t = i) f (topupOrders s), pointHistory s)"
  by (simp add: set_topup_def topup_books_of_def)

lemma books_mark: "topup_books_of (mark_topup rq order st event s) = (update_where (\<lambda>t. to_id t = to_id order) (marked rq st event) (topupOrders s), pointHistory s)"
  by (simp add: mark_topup_def books_set_topup marked_def [abs_def])

lemma topup_rewards_books:
  fixes s :: "'a billing_db_scheme"
  obtains ps where "topup_books_of (topup_rewards http env rq order intent pay s) = (topupOrders s, pointHistory s @ ps)" "length ps \<le> 1"
    "\<forall>h\<in>set ps. ph_referenceId h = Some (to_id order)"
proof -
  let ?s1 = "snd (earnPoints (nq_kafkaUp rq) (nq_now rq) (to_userId order) (mk_num (to_amount order)) ''TOPUP'' (''Top-up via '' @ to_currency order)
                (Some (to_id order)) s)"
  obtain ps where ps: "pointHistory ?s1 = pointHistory s @ ps" "length ps \<le> 1" "\<forall>h\<in>set ps. ph_referenceId h = Some (to_id order)" "topupOrders ?s1 = topupOrders s"
    by (rule earnPoints_frame)
  obtain ws vs where "snd (createInvoice http env (nq_billing rq) (topup_invoice order intent pay) ?s1) = ?s1\<lparr>net := net ?s1 @ ws, invoices := invoices ?s1 @ vs\<rparr>"
    by (rule createInvoice_frame)
  then show thesis using ps by (intro that [of ps]) (simp_all add: topup_rewards_def Let_def topup_books_of_def)
qed

lemma fulfil_topup_writes:
  fixes s :: "'a billing_db_scheme"
  assumes "order \<in> set (topupOrders s)"
  shows "topup_change\<^sup>*\<^sup>* (topup_books_of s) (topup_books_of (snd (fulfil_topup http env rq order event intent pay s)))"
proof (cases "to_status order = TopupPaid \<or> to_status order = TopupProcessing \<and> to_processedEventId order = Some event")
  case True
  then show ?thesis by (auto simp: fulfil_topup_def)
next
  case False
  let ?p = "\<lambda>t. to_id t = to_id order" and ?m = "marked rq TopupProcessing event"
  let ?os = "update_where ?p ?m (topupOrders s)" and ?s1 = "mark_topup rq order TopupProcessing event s"
  have "topup_change (topupOrders s, pointHistory s) (?os, pointHistory s)"
    by (rule topup_change.moved [OF assms]) (use False in simp_all)
  then have first: "topup_change\<^sup>*\<^sup>* (topup_books_of s) (?os, pointHistory s)" by (simp add: topup_books_of_def)
  have mem: "?m order \<in> set ?os" using assms by (force simp: set_update_where)
  obtain r s2 where fin: "finance (processPaymentWebhook http env intent ''SUCCESS'') ?s1 = (r, s2)" by fastforce
  then have b2: "topup_books_of s2 = (?os, pointHistory s)" using books_finance [OF fin] by (simp add: books_mark)
  then have os2: "topupOrders s2 = ?os" "pointHistory s2 = pointHistory s" by (simp_all add: topup_books_of_def)
  show ?thesis
  proof (cases r)
    case (Inl e)
    then have "topup_books_of (snd (fulfil_topup http env rq order event intent pay s)) = (update_where ?p (marked rq TopupFailed event) ?os, pointHistory s)"
      using False fin os2 by (auto simp: fulfil_topup_def books_mark)
    moreover have "topup_change (?os, pointHistory s) (update_where ?p (marked rq TopupFailed event) ?os, pointHistory s)"
      using topup_change.moved [OF mem, of "marked rq TopupFailed event" "pointHistory s"] by simp
    ultimately show ?thesis using first by simp
  next
    case (Inr d)
    let ?g = "\<lambda>t. t\<lparr>to_financeTransactionId := Some (''PAY-'' @ intent)\<rparr>"
    let ?s3 = "set_topup (to_id order) ?g (mark_topup rq order TopupPaid event s2)"
    obtain ps where ps: "topup_books_of (topup_rewards http env rq order intent pay ?s3) = (topupOrders ?s3, pointHistory ?s3 @ ps)" "length ps \<le> 1"
      "\<forall>h\<in>set ps. ph_referenceId h = Some (to_id order)" by (rule topup_rewards_books)
    have "snd (fulfil_topup http env rq order event intent pay s) = topup_rewards http env rq order intent pay ?s3"
      using False fin Inr by (auto simp: fulfil_topup_def)
    then have "topup_books_of (snd (fulfil_topup http env rq order event intent pay s))
        = (update_where ?p ?g (update_where ?p (marked rq TopupPaid event) ?os), pointHistory s @ ps)"
      using ps(1) os2 by (simp add: set_topup_def mark_topup_def marked_def [abs_def])
    moreover have "topup_change (?os, pointHistory s) (update_where ?p (marked rq TopupPaid event) ?os, pointHistory s @ ps)"
      using topup_change.paid [OF mem, of "marked rq TopupPaid event" ps "pointHistory s"] ps(2,3) by simp
    moreover have "topup_change (update_where ?p (marked rq TopupPaid event) ?os, pointHistory s @ ps)
        (update_where ?p ?g (update_where ?p (marked rq TopupPaid event) ?os), pointHistory s @ ps)"
      by (rule topup_change.kept) simp
    ultimately show ?thesis using first by (metis (no_types, lifting) rtranclp.rtrancl_into_rtrancl)
  qed
qed

lemma topup_by_intent_mem: "topup_by_intent intent s = Some order \<Longrightarrow> order \<in> set (topupOrders s)"
  by (auto simp: topup_by_intent_def dest: find_SomeD)

interpretation succeeded: topup_operation "handlePaymentIntentSucceeded http env rq event pay" for http env rq event pay
proof
  fix s :: billing_db
  show "topup_change\<^sup>*\<^sup>* (topup_books_of s) (topup_books_of (snd (handlePaymentIntentSucceeded http env rq event pay s)))"
    by (auto simp: handlePaymentIntentSucceeded_def fulfil_topup_writes topup_by_intent_mem split: json.split option.split)
qed

interpretation failed: topup_operation "handlePaymentIntentFailed http env rq canceled event pay" for http env rq canceled event pay
proof
  fix s :: billing_db
  have one: "topup_change\<^sup>*\<^sup>* (topup_books_of s) (topup_books_of (mark_topup rq order st event (snd (finance op s))))"
    if "topup_by_intent intent s = Some order" "to_status order \<noteq> TopupPaid" "st \<noteq> TopupPaid" for intent order st and op :: "(wire, json) handler"
  proof -
    obtain r s1 where fin: "finance op s = (r, s1)" by fastforce
    have "topup_change (topupOrders s, pointHistory s) (update_where (\<lambda>t. to_id t = to_id order) (marked rq st event) (topupOrders s), pointHistory s)"
      by (rule topup_change.moved [OF topup_by_intent_mem [OF that(1)] that(2)]) (use that(3) in simp)
    moreover have "topupOrders s1 = topupOrders s" "pointHistory s1 = pointHistory s" using books_finance [OF fin] by (simp_all add: topup_books_of_def)
    ultimately show ?thesis using fin by (simp add: books_mark) (simp add: topup_books_of_def)
  qed
  show "topup_change\<^sup>*\<^sup>* (topup_books_of s) (topup_books_of (snd (handlePaymentIntentFailed http env rq canceled event pay s)))"
    by (auto simp: handlePaymentIntentFailed_def Let_def one split: json.split option.split)
qed

lemma polled_state: "snd (getTopupOrderStatus se http env rq userId orderId s) = snd (current_topup se http env rq userId orderId s)"
  by (auto simp: getTopupOrderStatus_def split: prod.split sum.split)

interpretation polled: topup_operation "getTopupOrderStatus se http env rq userId orderId" for se http env rq userId orderId
proof
  fix s :: billing_db
  have run: "topup_change\<^sup>*\<^sup>* (topup_books_of s) (topup_books_of s1)" if "handlePaymentIntentSucceeded http env rq event pay s = (r, s1)" for event pay r s1
    using succeeded.writes [of s http env rq event pay] that by simp
  show "topup_change\<^sup>*\<^sup>* (topup_books_of s) (topup_books_of (snd (getTopupOrderStatus se http env rq userId orderId s)))"
    unfolding polled_state by (auto simp: current_topup_def Let_def run split: option.split prod.split sum.split)
qed

lemma insert_topup_books:
  assumes "insert_topup t s = (r, s1)" "to_status t \<noteq> TopupPaid"
  shows "topup_change\<^sup>*\<^sup>* (topup_books_of s) (topup_books_of s1)"
proof (cases "\<exists>x\<in>set (topupOrders s). to_id x = to_id t \<or> to_idempotencyKey x = to_idempotencyKey t")
  case True
  then show ?thesis using assms(1) by (auto simp: insert_topup_def)
next
  case False
  then have "topup_change (topupOrders s, pointHistory s) (topupOrders s @ [t], pointHistory s)"
    using assms(2) by (intro topup_change.created) auto
  then show ?thesis using False assms(1) by (auto simp: insert_topup_def topup_books_of_def split: if_splits)
qed

lemma snd_finance_books: "topup_books_of (snd (finance op s)) = topup_books_of s"
  by (cases "finance op s") (simp add: books_finance)

lemma register_intent_books:
  assumes "register_intent http env rq userId n order intent secret s = (r, s1)"
  shows "topup_change\<^sup>*\<^sup>* (topup_books_of s) (topup_books_of s1)"
proof (cases "\<exists>t\<in>set (topupOrders s). to_id t \<noteq> to_id order \<and> to_stripePaymentIntentId t = Some intent")
  case True
  then show ?thesis using assms by (simp add: register_intent_def)
next
  case False
  let ?f = "\<lambda>t. t\<lparr>to_stripePaymentIntentId := Some intent, to_clientSecretRef := Some (case secret of None \<Rightarrow> [] | Some c \<Rightarrow> c), to_updatedAt := nq_now rq\<rparr>"
  obtain q s2 where fin: "finance (getWallet http env userId) (set_topup (to_id order) ?f s) = (q, s2)" by fastforce
  have "topup_books_of s1 = topup_books_of s2" using assms fin False
    by (cases q) (auto simp: register_intent_def snd_finance_books)
  also have "\<dots> = topup_books_of (set_topup (to_id order) ?f s)" by (rule books_finance [OF fin])
  also have "topup_change (topup_books_of s) \<dots>" unfolding books_set_topup topup_books_of_def [of s] by (rule topup_change.kept) simp
  finally show ?thesis by blast
qed

interpretation intent: topup_operation "createStripeTopupIntent se http env rq userId amount currency nt" for se http env rq userId amount currency nt
proof
  fix s :: billing_db
  let ?run = "createStripeTopupIntent se http env rq userId amount currency nt s"
  show "topup_change\<^sup>*\<^sup>* (topup_books_of s) (topup_books_of (snd ?run))"
  proof (cases "\<exists>n x. se_configured se \<and> \<not> bad_amount amount \<and> amount = JNum n \<and> decimal_column (JText (toFixed 4 n)) = Some x")
    case True
    then obtain n x where a: "se_configured se" "\<not> bad_amount (JNum n)" "amount = JNum n" "decimal_column (JText (toFixed 4 n)) = Some x" by blast
    obtain r s1 where ins: "insert_topup (new_topup rq userId x currency) s = (r, s1)" by fastforce
    have one: "topup_change\<^sup>*\<^sup>* (topup_books_of s) (topup_books_of s1)" by (rule insert_topup_books [OF ins]) (simp add: new_topup_def)
    have two: "topup_change\<^sup>*\<^sup>* (topup_books_of s) (topup_books_of s2)" if "register_intent http env rq userId n order intent secret s1 = (q, s2)" for order intent secret q s2
      using one register_intent_books [OF that] by (rule rtranclp_trans)
    show ?thesis unfolding createStripeTopupIntent_def a(3)
      by (simp add: a(1,2,4) ins one two split: sum.split prod.split)
  next
    case False
    then have "snd ?run = s" by (auto simp: createStripeTopupIntent_def split: json.split option.split)
    then show ?thesis by simp
  qed
qed

section \<open>Top-ups, one request after the other\<close>

inductive topup_step :: "billing_db \<Rightarrow> billing_db \<Rightarrow> bool" where
  "topup_step s (snd (createStripeTopupIntent se http env rq userId amount currency nt s))"
| "topup_step s (snd (handlePaymentIntentSucceeded http env rq event pay s))"
| "topup_step s (snd (handlePaymentIntentFailed http env rq canceled event pay s))"
| "topup_step s (snd (getTopupOrderStatus se http env rq userId orderId s))"

lemma topup_step_keeps:
  assumes "topup_step s s'" "topups_ok (topup_books_of s)"
  shows "topups_ok (topup_books_of s') \<and> (paid_order i n (topup_books_of s) \<longrightarrow> paid_order i n (topup_books_of s'))"
  using assms(1)
proof cases
  case 1
  show ?thesis unfolding 1 by (intro conjI impI intent.keeps_ok intent.keeps_paid assms(2))
next
  case 2
  show ?thesis unfolding 2 by (intro conjI impI succeeded.keeps_ok succeeded.keeps_paid assms(2))
next
  case 3
  show ?thesis unfolding 3 by (intro conjI impI failed.keeps_ok failed.keeps_paid assms(2))
next
  case 4
  show ?thesis unfolding 4 by (intro conjI impI polled.keeps_ok polled.keeps_paid assms(2))
qed

lemma topup_steps_keep:
  assumes "topup_step\<^sup>*\<^sup>* s s'" "topups_ok (topup_books_of s)"
  shows "topups_ok (topup_books_of s') \<and> (paid_order i n (topup_books_of s) \<longrightarrow> paid_order i n (topup_books_of s'))"
  using assms(1)
proof (induction rule: rtranclp_induct)
  case base
  then show ?case using assms(2) by simp
next
  case (step s1 s2)
  then show ?case using topup_step_keeps [OF step(2), of i n] by simp
qed

text \<open>
  Property C21. A top-up is rewarded once. From empty tables, after any number of intents, web hooks of success,
  failure and cancellation, genuine or repeated, and polls, handled one after the other, the ledger of points
  holds at most one row for every order and none for an order that is not paid; and a paid order stays paid,
  with no further row, whatever comes later.
\<close>

theorem topup_rewarded_once:
  assumes "topup_step\<^sup>*\<^sup>* s0 s" "topupOrders s0 = []" "pointHistory s0 = []" "t \<in> set (topupOrders s)"
  shows "rewards (to_id t) (pointHistory s) \<le> (if to_status t = TopupPaid then 1 else 0)
     \<and> (\<forall>s'. to_status t = TopupPaid \<and> topup_step\<^sup>*\<^sup>* s s' \<longrightarrow>
          (\<exists>u\<in>set (topupOrders s'). to_id u = to_id t \<and> to_status u = TopupPaid \<and> rewards (to_id t) (pointHistory s') = rewards (to_id t) (pointHistory s)))"
proof -
  have "topups_ok (topup_books_of s0)" using assms(2,3) by (simp add: topup_books_of_def)
  then have ok: "topups_ok (topup_books_of s)" using topup_steps_keep [OF assms(1)] by blast
  have "\<exists>u\<in>set (topupOrders s'). to_id u = to_id t \<and> to_status u = TopupPaid \<and> rewards (to_id t) (pointHistory s') = rewards (to_id t) (pointHistory s)"
    if "to_status t = TopupPaid" "topup_step\<^sup>*\<^sup>* s s'" for s'
  proof -
    have "paid_order (to_id t) (rewards (to_id t) (pointHistory s)) (topup_books_of s)" using that(1) assms(4) by (auto simp: topup_books_of_def)
    then have "paid_order (to_id t) (rewards (to_id t) (pointHistory s)) (topup_books_of s')" using topup_steps_keep [OF that(2) ok] by blast
    then show ?thesis by (auto simp: topup_books_of_def)
  qed
  then show ?thesis using ok assms(4) by (simp add: topup_books_of_def)
qed

section \<open>Two handlers at the same time\<close>

definition success_report :: "finance_env \<Rightarrow> string \<Rightarrow> http_call" where
  "success_report env intent = \<lparr>hc_method = POST, hc_url = fe_url env @ ''/api/finance/webhooks/payment'',
      hc_body = JObj [(''reference_id'', JStr intent), (''status'', JStr ''SUCCESS''), (''signature'', JStr ''mock_signature_verified'')],
      hc_headers = getInternalHeaders env @ []\<rparr>"

text \<open>The finance service takes the report of a success whenever it comes.\<close>

definition accepts_report :: "http \<Rightarrow> finance_env \<Rightarrow> string \<Rightarrow> bool" where
  "accepts_report http env intent \<longleftrightarrow> (\<forall>w. \<exists>d. http w (success_report env intent) = HttpOk d)"

lemma fulfil_topup_accepted:
  fixes s :: "'a billing_db_scheme"
  assumes "to_status order = TopupPending" "accepts_report http env intent"
  shows "\<exists>s2. pointHistory s2 = pointHistory s \<and> loyaltyRule s2 = loyaltyRule s \<and> userPoint s2 = userPoint s
     \<and> fulfil_topup http env rq order event intent pay s = (Inr (), topup_rewards http env rq order intent pay s2)"
proof -
  let ?c = "success_report env intent"
  let ?s1 = "mark_topup rq order TopupProcessing event s"
  obtain d where d: "http (net ?s1) ?c = HttpOk d" using assms(2) by (auto simp: accepts_report_def)
  then have "finance (processPaymentWebhook http env intent ''SUCCESS'') ?s1 = (Inr d, ?s1\<lparr>net := net ?s1 @ [?c]\<rparr>)"
    by (simp add: finance_def processPaymentWebhook_def request_def send_def success_report_def)
  then show ?thesis using assms(1)
    by (intro exI [of _ "set_topup (to_id order) (\<lambda>t. t\<lparr>to_financeTransactionId := Some (''PAY-'' @ intent)\<rparr>)
         (mark_topup rq order TopupPaid event (?s1\<lparr>net := net ?s1 @ [?c]\<rparr>))"])
      (simp add: fulfil_topup_def mark_topup_def set_topup_def)
qed

text \<open>The account of a user has room for so many more points.\<close>

definition room_for :: "int \<Rightarrow> string \<Rightarrow> 'a loyalty_db_scheme \<Rightarrow> bool" where
  "room_for n u s \<longleftrightarrow> (case getUserBalance u s of (b, l) \<Rightarrow> 0 \<le> b \<and> 0 \<le> l \<and> b + n < 2 ^ 31 \<and> l + n < 2 ^ 31)"

definition rule_gives :: "string \<Rightarrow> jsnum \<Rightarrow> int \<Rightarrow> 'a loyalty_db_scheme \<Rightarrow> bool" where
  "rule_gives ev a n s \<longleftrightarrow> (\<exists>rule. find (\<lambda>r. lr_eventType r = ev) (loyaltyRule s) = Some rule \<and> lr_isActive rule \<and> \<not> nlt a (lr_minAmount rule)
     \<and> points_to_earn rule a = Fin (of_int n)) \<and> 0 < n"

lemma earnPoints_works:
  fixes s :: "'a loyalty_db_scheme"
  assumes "rule_gives ev a n s" "room_for (n + m) u s" "0 \<le> m"
  shows "\<exists>h. pointHistory (snd (earnPoints k now u a ev d r s)) = pointHistory s @ [h] \<and> ph_userId h = u \<and> ph_amount h = n \<and> ph_referenceId h = r
     \<and> rule_gives ev a n (snd (earnPoints k now u a ev d r s)) \<and> room_for m u (snd (earnPoints k now u a ev d r s))"
proof -
  obtain rule where rule: "find (\<lambda>r. lr_eventType r = ev) (loyaltyRule s) = Some rule" "lr_isActive rule" "\<not> nlt a (lr_minAmount rule)"
    "points_to_earn rule a = Fin (of_int n)" "0 < n" using assms(1) by (auto simp: rule_gives_def)
  show ?thesis
  proof (cases "find_point u s")
    case None
    then have "int4 n" using assms(2,3) rule(5) by (simp add: room_for_def getUserBalance_def int4_def)
    then show ?thesis using None rule assms
      by (simp add: earnPoints_def earn_tx_def transaction_def Let_def emit_earn_def rule_gives_def room_for_def getUserBalance_def find_point_def find_append)
  next
    case (Some p)
    have u: "up_userId p = u" using Some by (auto simp: find_point_def dest: find_SomeD)
    have i: "int4 n" "int4 (up_balance p + n)" "int4 (up_lifetimePoints p + n)"
      using assms(2,3) rule(5) Some by (simp_all add: room_for_def getUserBalance_def int4_def)
    have f: "find_point u (s\<lparr>userPoint := update_where (\<lambda>r. up_userId r = u) (\<lambda>r. r\<lparr>up_balance := up_balance r + n, up_lifetimePoints := up_lifetimePoints r + n\<rparr>) (userPoint s)\<rparr>)
        = Some (p\<lparr>up_balance := up_balance p + n, up_lifetimePoints := up_lifetimePoints p + n\<rparr>)"
      using Some u by (simp add: find_point_def find_update_where)
    show ?thesis using Some rule assms i f
      by (simp add: earnPoints_def earn_tx_def transaction_def Let_def emit_earn_def rule_gives_def room_for_def getUserBalance_def find_point_def algebra_simps)
  qed
qed

lemma rewards_frame:
  fixes s :: "'a billing_db_scheme"
  assumes "rule_gives ''TOPUP'' (mk_num (to_amount order)) n s" "room_for (n + m) (to_userId order) s" "0 \<le> m"
  shows "\<exists>h. pointHistory (topup_rewards http env rq order intent pay s) = pointHistory s @ [h] \<and> ph_amount h = n \<and> ph_referenceId h = Some (to_id order)
     \<and> rule_gives ''TOPUP'' (mk_num (to_amount order)) n (topup_rewards http env rq order intent pay s)
     \<and> room_for m (to_userId order) (topup_rewards http env rq order intent pay s)"
proof -
  let ?s1 = "snd (earnPoints (nq_kafkaUp rq) (nq_now rq) (to_userId order) (mk_num (to_amount order)) ''TOPUP'' (''Top-up via '' @ to_currency order)
                (Some (to_id order)) s)"
  obtain ws vs where inv: "snd (createInvoice http env (nq_billing rq) (topup_invoice order intent pay) ?s1) = ?s1\<lparr>net := net ?s1 @ ws, invoices := invoices ?s1 @ vs\<rparr>"
    by (rule createInvoice_frame)
  show ?thesis using earnPoints_works [OF assms, of "nq_kafkaUp rq" "nq_now rq" "''Top-up via '' @ to_currency order" "Some (to_id order)"] inv
    by (auto simp: topup_rewards_def Let_def rule_gives_def room_for_def getUserBalance_def find_point_def)
qed

lemma fulfil_topup_rewards:
  fixes s :: "'a billing_db_scheme"
  assumes "to_status order = TopupPending" "accepts_report http env intent"
    and "rule_gives ''TOPUP'' (mk_num (to_amount order)) n s" "room_for (n + m) (to_userId order) s" "0 \<le> m"
    and "fulfil_topup http env rq order event intent pay s = (r, s1)"
  shows "r = Inr () \<and> rewards (to_id order) (pointHistory s1) = rewards (to_id order) (pointHistory s) + 1
     \<and> rule_gives ''TOPUP'' (mk_num (to_amount order)) n s1 \<and> room_for m (to_userId order) s1"
proof -
  obtain t where t: "pointHistory t = pointHistory s" "loyaltyRule t = loyaltyRule s" "userPoint t = userPoint s"
    and run: "fulfil_topup http env rq order event intent pay s = (Inr (), topup_rewards http env rq order intent pay t)"
    using fulfil_topup_accepted [OF assms(1,2)] by meson
  have p: "rule_gives ''TOPUP'' (mk_num (to_amount order)) n t" "room_for (n + m) (to_userId order) t"
    using assms(3,4) t(2,3) by (simp_all add: rule_gives_def room_for_def getUserBalance_def find_point_def)
  have s1: "r = Inr ()" "s1 = topup_rewards http env rq order intent pay t" using run assms(6) by simp_all
  obtain h where "pointHistory s1 = pointHistory t @ [h]" "ph_referenceId h = Some (to_id order)"
    "rule_gives ''TOPUP'' (mk_num (to_amount order)) n s1" "room_for m (to_userId order) s1"
    unfolding s1(2) using rewards_frame [OF p assms(5)] by meson
  then show ?thesis using s1(1) t(1) by (simp add: rewards_def)
qed

text \<open>
  Two handlers at once reward twice. A handler reads the order first and never looks again. When a
  web hook and a poll have both read an order as pending before either writes, and the finance service accepts
  both reports, both credit the points: the ledger holds two rows for the one order.
\<close>

theorem topup_race_rewards_twice:
  assumes "to_status order = TopupPending" "accepts_report http env intent"
    and "rule_gives ''TOPUP'' (mk_num (to_amount order)) n s" "room_for (2 * n) (to_userId order) s"
    and "fulfil_topup http env rq1 order event1 intent pay s = (r1, s1)" "fulfil_topup http env rq2 order event2 intent pay s1 = (r2, s2)"
  shows "r1 = Inr () \<and> r2 = Inr () \<and> rewards (to_id order) (pointHistory s2) = rewards (to_id order) (pointHistory s) + 2"
proof -
  have n: "0 \<le> n" "2 * n = n + n" using assms(3) by (auto simp: rule_gives_def)
  have first: "r1 = Inr () \<and> rewards (to_id order) (pointHistory s1) = rewards (to_id order) (pointHistory s) + 1
     \<and> rule_gives ''TOPUP'' (mk_num (to_amount order)) n s1 \<and> room_for n (to_userId order) s1"
    by (rule fulfil_topup_rewards [OF assms(1-3) assms(4) [unfolded n(2)] n(1) assms(5)])
  then have "room_for (n + 0) (to_userId order) s1" by simp
  with first have "r2 = Inr () \<and> rewards (to_id order) (pointHistory s2) = rewards (to_id order) (pointHistory s1) + 1"
    using fulfil_topup_rewards [OF assms(1,2) _ _ _ assms(6), of n 0] by blast
  then show ?thesis using first by simp
qed

section \<open>Transfers\<close>

lemma finance_call: "op (net s) = (r, net s @ [c]) \<Longrightarrow> finance op s = (r, s\<lparr>net := net s @ [c]\<rparr>)"
  by (simp add: finance_def)

text \<open>What an amount has passed.\<close>

definition within_limits :: "jsnum \<Rightarrow> json \<Rightarrow> json \<Rightarrow> bool" where
  "within_limits amount settings wallet \<longleftrightarrow> nlt (Fin 0) amount \<and> \<not> nlt amount (Number_json (jget ''minP2pTransfer'' settings))
     \<and> \<not> nlt (Number_json (jget ''perTransactionLimit'' settings)) amount
     \<and> (truthy (jget ''dailyLimit'' wallet) \<longrightarrow> \<not> nlt (Number_json (jget ''dailyLimit'' wallet)) amount)"

lemma positive_number: "a \<noteq> NaN \<Longrightarrow> \<not> nle a (Fin 0) \<Longrightarrow> nlt (Fin 0) a"
  by (cases a) auto

lemma transfer_limits_effect:
  assumes "transfer_limits http env u amount s = (r, s')"
  shows "\<exists>cs. s' = s\<lparr>net := net s @ cs\<rparr> \<and> (r = Inr () \<longrightarrow> (\<exists>settings wallet c1 c2. cs = [c1, c2] \<and> http (net s) c1 = HttpOk settings
     \<and> getWallet http env u (net s @ [c1]) = (Inr wallet, net s @ [c1, c2]) \<and> within_limits amount settings wallet))"
proof (cases "amount = NaN \<or> nle amount (Fin 0)")
  case True
  then show ?thesis using assms by (intro exI [of _ "[]"]) (auto simp: transfer_limits_def)
next
  case False
  note pos = positive_number [of amount]
  obtain rs c1 where g1: "getSystemSettings http env (net s) = (rs, net s @ [c1])"
    using getSystemSettings_no_transfer [of http env "net s"] by blast
  note f1 = finance_call [where op = "getSystemSettings http env", OF g1] g1
  let ?s1 = "s\<lparr>net := net s @ [c1]\<rparr>"
  obtain rw c2 where g2: "getWallet http env u (net ?s1) = (rw, net ?s1 @ [c2])" using getWallet_no_transfer [of http env u "net ?s1"] by blast
  note f2 = finance_call [where op = "getWallet http env u", OF g2] g2
  show ?thesis
  proof (cases "\<exists>d. r = Inr ()")
    case True
    then obtain d w where d: "rs = Inr d" "rw = Inr w" "within_limits amount d w" "s' = s\<lparr>net := net s @ [c1, c2]\<rparr>"
      using assms False f1(1) f2(1) pos
      by (auto simp: transfer_limits_def within_limits_def split: sum.splits if_splits)
    have "http (net s) c1 = HttpOk d" using getSystemSettings_ok [of http env "net s" d] f1(2) d(1) by auto
    then show ?thesis using d f2(2) by (intro exI [of _ "[c1, c2]"]) auto
  next
    case no: False
    have "s' = s\<lparr>net := net s @ [c1]\<rparr> \<or> s' = s\<lparr>net := net s @ [c1, c2]\<rparr>"
      using assms False f1(1) f2(1) by (auto simp: transfer_limits_def split: sum.splits if_splits)
    then show ?thesis using no by blast
  qed
qed

lemma transferByPhone_call: "\<exists>r c. transferByPhone http env u p w = (r, w @ [c])"
  by (auto simp: transferByPhone_def request_def send_def split: http_result.split)

text \<open>A transfer fails without a trace in the tables or ends in its records.\<close>

lemma transferP2P_cases:
  assumes "transferP2P http env rq u body s = (r, s')"
  obtains (failed) e cs where "r = Inl e" "s' = s\<lparr>net := net s @ cs\<rparr>"
  | (sent) key to x settings wallet c1 c2 c3 recipient where "r = Inr x" "pb_idempotencyKey body = Some key" "key \<noteq> []"
      "http (net s) c1 = HttpOk settings" "getWallet http env u (net s @ [c1]) = (Inr wallet, net s @ [c1, c2])"
      "within_limits (Number_json (pb_amount body)) settings wallet"
      "findUserByPhone (wallet_normalizePhone (pb_recipientPhone body)) s = Some recipient"
      "s' = p2p_records http env rq u key to (tr_transactionId x) body (s\<lparr>net := net s @ [c1, c2, c3]\<rparr>)"
proof -
  let ?phone = "wallet_normalizePhone (pb_recipientPhone body)" and ?amount = "Number_json (pb_amount body)"
  obtain rl s1 where lim: "transfer_limits http env u ?amount s = (rl, s1)" by fastforce
  obtain cs where cs: "s1 = s\<lparr>net := net s @ cs\<rparr>" and ok: "rl = Inr () \<Longrightarrow> \<exists>settings wallet c1 c2. cs = [c1, c2] \<and> http (net s) c1 = HttpOk settings
     \<and> getWallet http env u (net s @ [c1]) = (Inr wallet, net s @ [c1, c2]) \<and> within_limits ?amount settings wallet"
    using transfer_limits_effect [OF lim] by blast
  show thesis
  proof (cases "rl = Inr () \<and> given_text (pb_idempotencyKey body) \<and> findUserByPhone ?phone s1 \<noteq> None")
    case False
    then have "(\<exists>e. r = Inl e) \<and> s' = s1" using assms lim by (cases rl) (auto simp: transferP2P_def Let_def split: option.splits if_splits)
    then show thesis using cs failed by blast
  next
    case True
    then obtain key recipient where k: "pb_idempotencyKey body = Some key" "key \<noteq> []" "findUserByPhone ?phone s1 = Some recipient" by (auto simp: given_text_def)
    obtain settings wallet c1 c2 where w: "cs = [c1, c2]" "http (net s) c1 = HttpOk settings"
      "getWallet http env u (net s @ [c1]) = (Inr wallet, net s @ [c1, c2])" "within_limits ?amount settings wallet" using ok True by blast
    let ?name = "jor (idCardName (kyc_row (us_id recipient) s1)) (JStr ?phone)"
    let ?p = "p2p_payload ?phone key (jor (idCardName (kyc_row u s1)) (JStr ''User'')) ?name
       (case find (\<lambda>x. us_id x = u) (userRows s1) of None \<Rightarrow> JUndef | Some x \<Rightarrow> JStr (us_phoneNumber x)) body"
    obtain rt c3 where g3: "transferByPhone http env u ?p (net s1) = (rt, net s1 @ [c3])" using transferByPhone_call [of http env u ?p "net s1"] by blast
    note t = finance_call [where op = "transferByPhone http env u ?p", OF g3]
    let ?s2 = "s1\<lparr>net := net s1 @ [c3]\<rparr>"
    have given: "given_text (pb_idempotencyKey body)" "rl = Inr ()" using True by blast+
    consider e where "r = Inl e" "s' = ?s2" | x where "r = Inr x" "s' = p2p_records http env rq u key (String_json ?name) (tr_transactionId x) body ?s2"
      using assms lim given k(1,3) t by (auto simp: transferP2P_def Let_def split: sum.splits)
    then show thesis
    proof cases
      case 1
      then show thesis using cs by (intro failed [of e "cs @ [c3]"]) simp_all
    next
      case 2
      have "findUserByPhone ?phone s = Some recipient" using k(3) cs by (simp add: findUserByPhone_def)
      then show thesis using 2 cs w k by (intro sent [of x key c1 settings wallet c2 recipient "String_json ?name" c3]) simp_all
    qed
  qed
qed

lemma earnPoints_transferAudit:
  fixes s :: "'a integration_db_scheme"
  shows "transferAudit (snd (earnPoints k now u a ev d r s)) = transferAudit s"
proof (cases "earnPoints k now u a ev d r s")
  case (Pair x s')
  show ?thesis
  proof (cases "\<exists>res. x = Inr (Some res)")
    case True
    then obtain res where "earnPoints k now u a ev d r s = (Inr (Some res), s')" using Pair by blast
    then have "s' = emit_earn k u r ev res (post (earn_entry now u (er_pointsEarned res) d r) (ensure_account u s))"
      by (rule earnPoints_posts) simp
    then show ?thesis using Pair by (simp add: emit_earn_def post_def ensure_account_def open_account_def)
  next
    case False
    have "s' = s"
    proof (cases x)
      case (Inl e)
      then show ?thesis using earnPoints_no_points(1) Pair by blast
    next
      case (Inr y)
      then have "x = Inr None" using False by (cases y) auto
      then show ?thesis using earnPoints_no_points(2) Pair by blast
    qed
    then show ?thesis using Pair by simp
  qed
qed

lemma p2p_records_effect:
  fixes s :: "'a integration_db_scheme"
  obtains cs vs hs where "net (p2p_records http env rq u key to ref body s) = net s @ cs" "invoices (p2p_records http env rq u key to ref body s) = invoices s @ vs" "length vs \<le> 1"
    "pointHistory (p2p_records http env rq u key to ref body s) = pointHistory s @ hs" "length hs \<le> 1"
    "transferAudit (p2p_records http env rq u key to ref body s) = transferAudit (p2p_audit rq u key ref body s)"
proof -
  let ?s1 = "p2p_audit rq u key ref body s"
  obtain ws vs where inv: "snd (createInvoice http env (nq_billing rq) (p2p_invoice u ref to body) ?s1) = ?s1\<lparr>net := net ?s1 @ ws, invoices := invoices ?s1 @ vs\<rparr>" "length vs \<le> 1"
    by (rule createInvoice_frame)
  let ?s2 = "?s1\<lparr>net := net ?s1 @ ws, invoices := invoices ?s1 @ vs\<rparr>"
  obtain hs where "pointHistory (snd (earnPoints (nq_kafkaUp rq) (nq_now rq) u (Number_json (pb_amount body)) ''P2P_TRANSFER'' (''P2P Transfer to '' @ to) ref ?s2))
      = pointHistory ?s2 @ hs" "length hs \<le> 1"
    "invoices (snd (earnPoints (nq_kafkaUp rq) (nq_now rq) u (Number_json (pb_amount body)) ''P2P_TRANSFER'' (''P2P Transfer to '' @ to) ref ?s2)) = invoices ?s2"
    "net (snd (earnPoints (nq_kafkaUp rq) (nq_now rq) u (Number_json (pb_amount body)) ''P2P_TRANSFER'' (''P2P Transfer to '' @ to) ref ?s2)) = net ?s2"
    by (rule earnPoints_frame)
  then show thesis using inv by (intro that [of ws vs hs]) (simp_all add: p2p_records_def Let_def earnPoints_transferAudit p2p_audit_def)
qed

text \<open>
  Property C22. What a transfer does. A transfer that fails, at whatever point, has changed no table; it may only
  have asked the finance service. One that succeeds had an idempotency key and a registered recipient, and
  its amount was positive and within the minimum and the limit of freshly read settings and the daily limit
  of the freshly read wallet; after the two questions it sent one call to move the money, and it recorded
  one audit row under the key, at most one invoice and at most one row of points.
\<close>

theorem transferP2P_outcome:
  "case transferP2P http env rq u body s of
     (Inl e, s') \<Rightarrow> (\<exists>cs. s' = s\<lparr>net := net s @ cs\<rparr>)
   | (Inr x, s') \<Rightarrow> (\<exists>key settings wallet c1 c2 c3 cs vs hs a. pb_idempotencyKey body = Some key \<and> key \<noteq> [] \<and> http (net s) c1 = HttpOk settings
       \<and> getWallet http env u (net s @ [c1]) = (Inr wallet, net s @ [c1, c2]) \<and> within_limits (Number_json (pb_amount body)) settings wallet
       \<and> findUserByPhone (wallet_normalizePhone (pb_recipientPhone body)) s \<noteq> None
       \<and> net s' = net s @ [c1, c2, c3] @ cs \<and> transferAudit s' = transferAudit s @ [a] \<and> ta_userId a = u
       \<and> jget ''idempotencyKey'' (ta_requestPayload a) = JStr key \<and> invoices s' = invoices s @ vs \<and> length vs \<le> 1
       \<and> pointHistory s' = pointHistory s @ hs \<and> length hs \<le> 1)"
proof (cases "transferP2P http env rq u body s")
  case (Pair r s')
  then show ?thesis
  proof (cases rule: transferP2P_cases)
    case (failed e cs)
    then show ?thesis using Pair by auto
  next
    case (sent key to x settings wallet c1 c2 c3 recipient)
    let ?s1 = "s\<lparr>net := net s @ [c1, c2, c3]\<rparr>"
    obtain cs vs hs where e: "net s' = net ?s1 @ cs" "invoices s' = invoices ?s1 @ vs" "length vs \<le> 1"
      "pointHistory s' = pointHistory ?s1 @ hs" "length hs \<le> 1" "transferAudit s' = transferAudit (p2p_audit rq u key (tr_transactionId x) body ?s1)"
      unfolding sent(8) by (rule p2p_records_effect)
    define a where "a = \<lparr>ta_userId = u, ta_resourceId = tr_transactionId x,
       ta_requestPayload = JObj [(''recipientPhone'', JStr (pb_recipientPhone body)), (''amount'', pb_amount body), (''note'', jopt (pb_note body)),
         (''idempotencyKey'', JStr key)],
       ta_transactionId = tr_transactionId x, ta_createdAt = nq_now rq\<rparr>"
    have a: "transferAudit s' = transferAudit s @ [a]" "ta_userId a = u" "jget ''idempotencyKey'' (ta_requestPayload a) = JStr key"
      unfolding e(6) by (simp_all add: a_def p2p_audit_def)
    have e': "net s' = net s @ [c1, c2, c3] @ cs" "invoices s' = invoices s @ vs" "pointHistory s' = pointHistory s @ hs" using e(1,2,4) by simp_all
    have found: "findUserByPhone (wallet_normalizePhone (pb_recipientPhone body)) s \<noteq> None" using sent(7) by simp
    show ?thesis unfolding Pair sent(1) prod.case sum.case
      by (intro exI conjI) (rule sent(2) sent(3) sent(4) sent(5) sent(6) found e'(1) a e'(2) e(3) e'(3) e(5))+
  qed
qed

lemma transferP2P_sent:
  assumes "transferP2P http env rq u body s = (Inr x, s')"
  shows "\<exists>key to cs. s' = p2p_records http env rq u key to (tr_transactionId x) body (s\<lparr>net := net s @ cs\<rparr>)"
  using assms
proof (cases rule: transferP2P_cases)
  case (failed e cs)
  then show ?thesis by simp
next
  case (sent key to y settings wallet c1 c2 c3 recipient)
  then have "y = x" by simp
  then show ?thesis using sent(8) by blast
qed

lemma p2p_records_rewards:
  fixes s :: "'a integration_db_scheme"
  assumes "rule_gives ''P2P_TRANSFER'' (Number_json (pb_amount body)) n s" "room_for (n + m) u s" "0 \<le> m"
  shows "\<exists>h. pointHistory (p2p_records http env rq u key to ref body s) = pointHistory s @ [h] \<and> ph_userId h = u \<and> ph_amount h = n \<and> ph_referenceId h = ref
     \<and> rule_gives ''P2P_TRANSFER'' (Number_json (pb_amount body)) n (p2p_records http env rq u key to ref body s)
     \<and> room_for m u (p2p_records http env rq u key to ref body s)"
proof -
  let ?s1 = "p2p_audit rq u key ref body s"
  obtain ws vs where inv: "snd (createInvoice http env (nq_billing rq) (p2p_invoice u ref to body) ?s1) = ?s1\<lparr>net := net ?s1 @ ws, invoices := invoices ?s1 @ vs\<rparr>"
    by (rule createInvoice_frame)
  have p: "rule_gives ''P2P_TRANSFER'' (Number_json (pb_amount body)) n (?s1\<lparr>net := net ?s1 @ ws, invoices := invoices ?s1 @ vs\<rparr>)"
    "room_for (n + m) u (?s1\<lparr>net := net ?s1 @ ws, invoices := invoices ?s1 @ vs\<rparr>)"
    using assms(1,2) by (simp_all add: rule_gives_def room_for_def getUserBalance_def find_point_def p2p_audit_def)
  show ?thesis using earnPoints_works [OF p assms(3), of "nq_kafkaUp rq" "nq_now rq" "''P2P Transfer to '' @ to" ref]
    by (simp add: p2p_records_def Let_def inv) (simp add: p2p_audit_def)
qed

lemma transferP2P_rewards:
  assumes "transferP2P http env rq u body s = (Inr x, s')" "rule_gives ''P2P_TRANSFER'' (Number_json (pb_amount body)) n s" "room_for (n + m) u s" "0 \<le> m"
  shows "\<exists>h. pointHistory s' = pointHistory s @ [h] \<and> ph_userId h = u \<and> ph_amount h = n \<and> ph_referenceId h = tr_transactionId x
     \<and> rule_gives ''P2P_TRANSFER'' (Number_json (pb_amount body)) n s' \<and> room_for m u s'"
proof -
  obtain key to cs where s': "s' = p2p_records http env rq u key to (tr_transactionId x) body (s\<lparr>net := net s @ cs\<rparr>)"
    using transferP2P_sent [OF assms(1)] by blast
  have p: "rule_gives ''P2P_TRANSFER'' (Number_json (pb_amount body)) n (s\<lparr>net := net s @ cs\<rparr>)" "room_for (n + m) u (s\<lparr>net := net s @ cs\<rparr>)"
    using assms(2,3) by (simp_all add: rule_gives_def room_for_def getUserBalance_def find_point_def)
  have "pointHistory (s\<lparr>net := net s @ cs\<rparr>) = pointHistory s" by simp
  then show ?thesis unfolding s' using p2p_records_rewards [OF p assms(4), of http env rq key to "tr_transactionId x"] by (simp only:)
qed

text \<open>
  A repeated transfer is rewarded again. The idempotency key goes to the finance service only: when
  the same request is sent twice and answered twice, even if the finance service moved the money once and
  answers with the same transaction, the sender earns the points of the amount twice.
\<close>

theorem transferP2P_retry_rewards:
  assumes "transferP2P http env rq1 u body s = (Inr x1, s1)" "transferP2P http' env rq2 u body s1 = (Inr x2, s2)"
    and "rule_gives ''P2P_TRANSFER'' (Number_json (pb_amount body)) n s" "room_for (2 * n) u s"
  shows "\<exists>h1 h2. pointHistory s2 = pointHistory s @ [h1, h2] \<and> ph_userId h1 = u \<and> ph_userId h2 = u \<and> ph_amount h1 = n \<and> ph_amount h2 = n
     \<and> ph_referenceId h1 = tr_transactionId x1 \<and> ph_referenceId h2 = tr_transactionId x2"
proof -
  have n: "0 \<le> n" "2 * n = n + n" using assms(3) by (auto simp: rule_gives_def)
  obtain h1 where h1: "pointHistory s1 = pointHistory s @ [h1]" "ph_userId h1 = u" "ph_amount h1 = n" "ph_referenceId h1 = tr_transactionId x1"
    and p: "rule_gives ''P2P_TRANSFER'' (Number_json (pb_amount body)) n s1" "room_for n u s1"
    using transferP2P_rewards [OF assms(1,3) assms(4) [unfolded n(2)] n(1)] by blast
  have "room_for (n + 0) u s1" using p(2) by simp
  then obtain h2 where h2: "pointHistory s2 = pointHistory s1 @ [h2]" "ph_userId h2 = u" "ph_amount h2 = n" "ph_referenceId h2 = tr_transactionId x2"
    using transferP2P_rewards [OF assms(2) p(1) _ order_refl] by blast
  have "pointHistory s2 = pointHistory s @ [h1, h2]" using h1(1) h2(1) by simp
  then show ?thesis using h1(2-4) h2(2-4) by blast
qed

section \<open>The pages of the history\<close>

lemma fl_pos_whole:
  assumes "0 < n" "n < (2 ^ 53 :: int)"
  shows "fl_pos (of_int n) = of_int n"
proof -
  let ?e = "ulp_exp (of_int n)"
  have "(2 :: rat) powi exponent (of_int n) \<le> of_int n" using assms(1) by (intro exponent_lower) simp
  also have "of_int n < (of_int (2 ^ 53) :: rat)" using assms(2) by (simp only: of_int_less_iff)
  also have "(of_int (2 ^ 53) :: rat) = 2 powi 53" by simp
  finally have "exponent (of_int n) < 53" by (metis linorder_not_less one_le_numeral power_int_increasing)
  then have e: "?e \<le> 0" by (simp add: ulp_exp_def)
  have inv: "(2 :: rat) powi ?e * 2 ^ nat (- ?e) = 1" using e by (simp add: power_int_def field_simps)
  have "of_int n / (2 :: rat) powi ?e = of_int n * 2 ^ nat (- ?e)" using inv by (simp add: field_simps)
  also have "\<dots> = of_int (n * 2 ^ nat (- ?e))" by simp
  finally have "fl_pos (of_int n) = of_int (n * 2 ^ nat (- ?e)) * 2 powi ?e"
    unfolding fl_pos_def by (simp only: round_half_even_of_int)
  also have "\<dots> = of_int n * (2 powi ?e * 2 ^ nat (- ?e))" by simp
  finally show ?thesis using inv by simp
qed

lemma mk_num_whole:
  assumes "0 \<le> n" "n < (2 ^ 53 :: int)"
  shows "mk_num (of_int n) = Fin (of_int n)"
proof -
  have "fl64 (of_int n) = of_int n" using fl_pos_whole [of n] assms by (simp add: fl64_def)
  moreover have "\<bar>of_int n :: rat\<bar> \<le> 10 ^ 30"
  proof -
    have "(of_int n :: rat) \<le> of_int (2 ^ 53)" using assms(2) by (simp only: of_int_le_iff)
    also have "\<dots> \<le> 10 ^ 30" by simp
    finally show ?thesis using assms(1) by simp
  qed
  ultimately show ?thesis by (simp add: mk_num_Fin)
qed

lemma js_slice_whole: "js_slice (Fin (of_nat a)) (Fin (of_nat (a + b))) xs = take b (drop a xs)"
proof -
  have i: "slice_index (length xs) (Fin (of_nat k)) = min k (length xs)" for k by (simp add: slice_index_def)
  show ?thesis unfolding js_slice_def i by (auto simp: min_def drop_take)
qed

lemma unique_items_distinct: "distinct (map group_key (unique_items seen is)) \<and> set (map group_key (unique_items seen is)) \<inter> set seen = {}"
  by (induction seen "is" rule: unique_items.induct) auto

lemma unique_items_length: "length (unique_items seen is) \<le> length is"
  by (induction seen "is" rule: unique_items.induct) auto

lemma search_sub: "\<exists>P. applyHistorySearch items q = filter P items"
proof (cases q)
  case None
  then show ?thesis by (intro exI [of _ "\<lambda>_. True"]) (simp add: applyHistorySearch_def)
next
  case (Some t)
  show ?thesis
  proof (cases "strip t = []")
    case True
    then show ?thesis using Some by (intro exI [of _ "\<lambda>_. True"]) (simp add: applyHistorySearch_def)
  next
    case False
    show ?thesis unfolding applyHistorySearch_def Some option.case if_not_P [OF False] by (rule exI, rule refl)
  qed
qed

lemma map_result_length: "map_result f xs = Inr ys \<Longrightarrow> length ys = length xs"
  by (induction xs arbitrary: ys) (auto split: sum.splits)

lemma getTransactions_ok: "getTransactions http env u q w = (Inr d, w') \<Longrightarrow> d = JArr [] \<or> (\<exists>c. http w c = HttpOk d)"
  by (auto simp: getTransactions_def null_if_missing_def send_def split: http_result.splits if_splits)

lemma history_items_bound:
  assumes "history_items http env now uuid u q s = (Inr items, s')" "\<forall>w c ts. http w c = HttpOk (JArr ts) \<longrightarrow> length ts \<le> n"
  shows "length items \<le> n"
proof -
  obtain wallet txs ts s1 w w' where t: "getTransactions http env u (history_query_text q) w = (Inr txs, w')" and l: "json_list txs = Inr ts"
    and m: "map_result (\<lambda>(k, tx). mapWalletTransactionToHistoryItem now (uuid k) tx (jget ''walletId'' wallet) (jget ''id'' wallet)) (enumerate 0 ts) = Inr items"
    using assms(1) by (auto simp: history_items_def finance_def split: prod.splits sum.splits)
  have "length ts \<le> n" using getTransactions_ok [OF t] l assms(2) by (auto simp: json_list_def split: if_splits json.splits)
  then show ?thesis using map_result_length [OF m] by simp
qed

definition history_request :: "nat \<Rightarrow> nat \<Rightarrow> string option \<Rightarrow> history_query" where
  "history_request page z q = \<lparr>hq_page = JNum (Fin (of_nat page)), hq_size = JNum (Fin (of_nat z)), hq_type = None, hq_q = q, hq_from = None, hq_to = None\<rparr>"

text \<open>
  The history ends after three pages. The service always asks for the first \<open>3 * size\<close> transactions and
  pages through what is left of them after merging and searching: a page is the part of that list that its
  number says, no two entries of the list belong to one payment, and \<open>hasMore\<close> tells whether the list goes
  on. So when the finance service honours the size, every page from the fourth on is empty and the third
  says that there is nothing more, however many transactions the wallet has.
\<close>

theorem getHistory_pages:
  assumes "getHistory http env now uuid u (history_request page z q) s = (Inr h, s')" "1 \<le> z" "z \<le> 100" "page < 2 ^ 40"
    and "\<forall>w c ts. http w c = HttpOk (JArr ts) \<longrightarrow> length ts \<le> 3 * z"
  shows "\<exists>list. length list \<le> 3 * z \<and> distinct (map group_key list) \<and> hp_items h = take z (drop (page * z) list)
     \<and> (hp_hasMore h \<longleftrightarrow> page * z + z < length list) \<and> (3 \<le> page \<longrightarrow> hp_items h = []) \<and> (2 \<le> page \<longrightarrow> \<not> hp_hasMore h)"
proof -
  let ?q = "history_request page z q"
  have page: "history_page_of ?q = Fin (of_nat page)" by (simp add: history_page_of_def history_request_def nullish_def)
  have siz: "history_size_of ?q = Fin (of_nat z)" using assms(2,3) by (simp add: history_size_of_def history_request_def nullish_def HISTORY_SIZE_MAX_def)
  have small: "page * z + z < 2 ^ 53"
  proof -
    have "page * z \<le> 2 ^ 40 * 100" using assms(3,4) by (intro mult_mono) auto
    then show ?thesis using assms(3) by simp
  qed
  have "int (page * z + z) < 2 ^ 53" using small by (metis of_nat_less_iff of_nat_numeral of_nat_power)
  then have whole: "int page * int z < 9007199254740992" "int page * int z + int z < 9007199254740992" by simp_all
  have num: "nmul (Fin (of_nat page)) (Fin (of_nat z)) = Fin (of_nat (page * z))"
    "nadd (Fin (of_nat (page * z))) (Fin (of_nat z)) = Fin (of_nat (page * z + z))"
    using mk_num_whole [of "int (page * z)"] mk_num_whole [of "int (page * z + z)"] small whole by simp_all
  obtain items where items: "history_items http env now uuid u ?q s = (Inr items, s')"
    and h: "h = \<lparr>hp_items = js_slice (Fin (of_nat (page * z))) (Fin (of_nat (page * z + z))) (applyHistorySearch (unique_items [] items) (hq_q ?q)),
      hp_page = Fin (of_nat page), hp_size = Fin (of_nat z),
      hp_hasMore = nlt (Fin (of_nat (page * z + z))) (Fin (of_nat (length (applyHistorySearch (unique_items [] items) (hq_q ?q)))))\<rparr>"
    using assms(1) unfolding getHistory_def Let_def page siz num by (auto split: if_splits prod.splits sum.splits)
  let ?list = "applyHistorySearch (unique_items [] items) (hq_q ?q)"
  obtain P where P: "?list = filter P (unique_items [] items)" using search_sub by blast
  have "length ?list \<le> length items" unfolding P using unique_items_length [of "[]" items] length_filter_le [of P] le_trans by blast
  then have len: "length ?list \<le> 3 * z" using history_items_bound [OF items assms(5)] by simp
  have dist: "distinct (map group_key ?list)" unfolding P using unique_items_distinct [of "[]" items] by (simp add: distinct_map_filter)
  have it: "hp_items h = take z (drop (page * z) ?list)" unfolding h by (simp add: js_slice_whole del: of_nat_add of_nat_mult)
  have more: "hp_hasMore h \<longleftrightarrow> page * z + z < length ?list" unfolding h by (simp del: of_nat_add of_nat_mult)
  have "hp_items h = []" if "3 \<le> page"
  proof -
    have "3 * z \<le> page * z" using that by simp
    then have "length ?list \<le> page * z" using len by (rule order_trans [rotated])
    then show ?thesis using it by (simp only: drop_all take_Nil)
  qed
  moreover have "\<not> hp_hasMore h" if "2 \<le> page"
  proof -
    have "2 * z \<le> page * z" using that by (rule mult_le_mono1)
    then have "length ?list \<le> page * z + z" using len by linarith
    then show ?thesis using more by (simp only: linorder_not_less)
  qed
  ultimately show ?thesis using len dist it more by blast
qed

section \<open>Phones\<close>

definition thai_digits :: "string \<Rightarrow> bool" where
  "thai_digits d \<longleftrightarrow> length d = 9 \<or> length d = 10 \<and> starts_with ''0'' d \<or> length d = 11 \<and> starts_with ''66'' d"

lemma digits_tail: "filter is_digit p = xs @ t \<Longrightarrow> filter is_digit t = t"
proof -
  assume h: "filter is_digit p = xs @ t"
  have "\<forall>c\<in>set (filter is_digit p). is_digit c" by simp
  then show "filter is_digit t = t" unfolding h by (simp add: filter_id_conv)
qed

lemma thai_digits_cases:
  assumes "thai_digits (filter is_digit p)"
  obtains (nine) r where "filter is_digit p = r" "length r = 9" "filter is_digit r = r"
  | (local_form) r where "filter is_digit p = CHR ''0'' # r" "length r = 9" "filter is_digit r = r"
  | (country) r where "filter is_digit p = CHR ''6'' # CHR ''6'' # r" "length r = 9" "filter is_digit r = r"
proof -
  let ?d = "filter is_digit p"
  consider "length ?d = 9" | "length ?d = 10" "starts_with ''0'' ?d" | "length ?d = 11" "starts_with ''66'' ?d"
    using assms by (auto simp: thai_digits_def)
  then show thesis
  proof cases
    case 1 then show ?thesis by (intro nine [of ?d]) simp_all
  next
    case 2
    then obtain t where "?d = CHR ''0'' # t" by (cases ?d) auto
    then show ?thesis using 2 digits_tail [of p "[CHR ''0'']" t] by (intro local_form [of t]) simp_all
  next
    case 3
    then obtain t where "?d = CHR ''6'' # CHR ''6'' # t" by (cases ?d; cases "tl ?d") auto
    then show ?thesis using 3 digits_tail [of p "[CHR ''6'', CHR ''6'']" t] by (intro country [of t]) simp_all
  qed
qed

lemma both_normal:
  assumes "thai_digits (filter is_digit p)"
  shows "\<exists>r. wallet_normalizePhone p \<in> {CHR ''0'' # r, CHR ''6'' # CHR ''6'' # r} \<and> normalizePhone p = ''+66'' @ r \<and> length r = 9 \<and> filter is_digit r = r"
  using assms
proof (cases rule: thai_digits_cases)
  case (nine r)
  then show ?thesis by (intro exI [of _ r]) (simp add: wallet_normalizePhone_def normalizePhone_def Let_def)
next
  case (local_form r)
  then show ?thesis by (intro exI [of _ r]) (simp add: wallet_normalizePhone_def normalizePhone_def Let_def)
next
  case (country r)
  then show ?thesis by (intro exI [of _ r]) (simp add: wallet_normalizePhone_def normalizePhone_def Let_def)
qed

lemma wallet_candidates:
  assumes "n \<in> {CHR ''0'' # r, CHR ''6'' # CHR ''6'' # r}" "length r = 9" "filter is_digit r = r"
  shows "CHR ''+'' # t \<in> set (wallet_phoneCandidates n) \<longleftrightarrow> CHR ''+'' # t = ''+66'' @ r"
proof -
  have z: "is_digit (CHR ''0'')" "is_digit (CHR ''6'')" by (simp_all add: is_digit_def)
  show ?thesis using assms z by (auto simp: wallet_phoneCandidates_def Let_def)
qed

lemma identity_candidates:
  assumes "normalizePhone p = ''+66'' @ r"
  shows "CHR ''+'' # t \<in> set (getPhoneCandidates p) \<longleftrightarrow> CHR ''+'' # t = ''+66'' @ r"
  using assms by (auto simp: getPhoneCandidates_def Let_def)

text \<open>
  Both services mean the same user. The wallet service spells phone numbers in the local form and
  has its own list of spellings to look for; the identity service uses the international form. For every
  spelling of a Thai mobile number, nine digits, ten with the leading zero or eleven with the country code,
  and a table that stores numbers as registration writes them, the two lookups find the same user.
\<close>

theorem findUserByPhone_agrees:
  assumes "thai_digits (filter is_digit phone)" "\<forall>x\<in>set (userRows s). \<exists>t. us_phoneNumber x = CHR ''+'' # t"
  shows "findUserByPhone (wallet_normalizePhone phone) s = find (\<lambda>x. us_phoneNumber x \<in> set (getPhoneCandidates phone)) (userRows s)"
proof -
  obtain r where r: "wallet_normalizePhone phone \<in> {CHR ''0'' # r, CHR ''6'' # CHR ''6'' # r}" "normalizePhone phone = ''+66'' @ r"
    "length r = 9" "filter is_digit r = r" using both_normal [OF assms(1)] by blast
  have "us_phoneNumber x \<in> set (wallet_phoneCandidates (wallet_normalizePhone phone)) \<longleftrightarrow> us_phoneNumber x \<in> set (getPhoneCandidates phone)"
    if "x \<in> set (userRows s)" for x
  proof -
    obtain t where "us_phoneNumber x = CHR ''+'' # t" using assms(2) \<open>x \<in> set (userRows s)\<close> by blast
    then show ?thesis using wallet_candidates [OF r(1,3,4)] identity_candidates [OF r(2)] by metis
  qed
  then show ?thesis unfolding findUserByPhone_def by (rule find_cong [OF refl])
qed

section \<open>Examples\<close>

definition demo_turn :: "nat \<Rightarrow> integration_request" where
  "demo_turn n = \<lparr>nq_now = demo_now, nq_uuid = (\<lambda>k. replicate (n + k) (CHR ''x'')), nq_kafkaUp = True,
     nq_billing = \<lparr>bq_now = demo_now, bq_utc = demo_now, bq_id = replicate n (CHR ''i''), bq_random = ''ab12''\<rparr>\<rparr>"

definition demo_stripe :: stripe_env where
  "demo_stripe = \<lparr>se_configured = True, se_balance = None, se_create = (\<lambda>_ _ _ _. Inr (''pi_1'', Some ''secret'')),
     se_retrieve = (\<lambda>_. Some (JObj [(''id'', JStr ''pi_1''), (''status'', JStr ''succeeded'')])),
     se_constructEvent = (\<lambda>_ _ _. Inl (Plain ''No signatures found'')), se_webhookSecret = ''whsec'', se_publishableKey = ''pk''\<rparr>"

definition demo_wallet :: billing_db where
  "demo_wallet = merchant_db.extend (demo_till\<lparr>loyaltyRule := [demo_rule]\<rparr>) (billing_db.fields [] [])"

definition demo_order :: topup_order where
  "demo_order = \<lparr>to_id = ''t1'', to_userId = ''alice'', to_amount = 10, to_currency = ''THB'', to_status = TopupPending,
     to_stripePaymentIntentId = Some ''pi_1'', to_clientSecretRef = None, to_idempotencyKey = ''k'',
     to_financeTransactionId = None, to_processedEventId = None, to_createdAt = demo_now, to_updatedAt = demo_now\<rparr>"

text \<open>An order is opened, a poll finds it paid; the settings, and so the invoice, cannot be had.\<close>

definition demo_credit :: http where
  "demo_credit w c = HttpOk (if contains ''settings'' (hc_url c) then JNull else JObj [(''walletId'', JStr ''w1'')])"

definition demo_opened :: billing_db where
  "demo_opened = snd (createStripeTopupIntent demo_stripe demo_credit demo_env (demo_turn 1) ''alice'' (JNum (Fin 10)) ''thb'' None demo_wallet)"

definition demo_polled :: billing_db where
  "demo_polled = snd (getTopupOrderStatus demo_stripe demo_credit demo_env (demo_turn 3) ''alice'' ''xx'' demo_opened)"

lemma demo_polled_paid:
  "\<exists>t\<in>set (topupOrders demo_polled). to_status t = TopupPaid \<and> rewards (to_id t) (pointHistory demo_polled) = 1"
proof -
  have "case topupOrders demo_polled of [t] \<Rightarrow> to_status t = TopupPaid \<and> to_id t = ''xx'' | _ \<Rightarrow> False" by code_simp
  moreover have "case pointHistory demo_polled of [h] \<Rightarrow> ph_referenceId h = Some ''xx'' | _ \<Rightarrow> False" by code_simp
  ultimately show ?thesis by (auto simp: rewards_def split: list.splits)
qed

theorem topup_rewarded_once_witness:
  "\<exists>t\<in>set (topupOrders demo_polled). to_status t = TopupPaid
     \<and> rewards (to_id t) (pointHistory (snd (handlePaymentIntentSucceeded demo_credit demo_env (demo_turn 5) ''evt_1'' (JObj [(''id'', JStr ''pi_1'')]) demo_polled))) = 1"
proof -
  have s: "topup_step\<^sup>*\<^sup>* demo_wallet demo_polled" unfolding demo_polled_def demo_opened_def
    by (rule rtranclp.rtrancl_into_rtrancl [OF r_into_rtranclp]) (rule topup_step.intros)+
  have e: "topupOrders demo_wallet = []" "pointHistory demo_wallet = []"
    by (simp_all add: demo_wallet_def merchant_db.defs billing_db.defs demo_till_def demo_market_def)
  obtain t where t: "t \<in> set (topupOrders demo_polled)" "to_status t = TopupPaid" "rewards (to_id t) (pointHistory demo_polled) = 1"
    using demo_polled_paid by blast
  let ?s' = "snd (handlePaymentIntentSucceeded demo_credit demo_env (demo_turn 5) ''evt_1'' (JObj [(''id'', JStr ''pi_1'')]) demo_polled)"
  have "topup_step\<^sup>*\<^sup>* demo_polled ?s'" by (intro r_into_rtranclp topup_step.intros)
  with topup_rewarded_once [OF s e t(1)] t(2,3) have "rewards (to_id t) (pointHistory ?s') = 1" by auto
  then show ?thesis using t(1,2) by blast
qed

lemma demo_accepts: "accepts_report demo_finance demo_env i"
  by (simp add: accepts_report_def demo_finance_def)

theorem topup_race_rewards_twice_witness:
  "\<exists>s2. snd (fulfil_topup demo_finance demo_env (demo_turn 9) demo_order ''poll'' ''pi_1'' JNull
        (snd (fulfil_topup demo_finance demo_env (demo_turn 7) demo_order ''evt_1'' ''pi_1'' JNull (demo_wallet\<lparr>topupOrders := [demo_order]\<rparr>)))) = s2
     \<and> rewards ''t1'' (pointHistory s2) = 2"
proof -
  let ?s = "demo_wallet\<lparr>topupOrders := [demo_order]\<rparr>"
  have g: "points_to_earn demo_rule (mk_num (to_amount demo_order)) = Fin (of_int 5)" by code_simp
  have l: "\<not> nlt (mk_num (to_amount demo_order)) (lr_minAmount demo_rule)" by code_simp
  have r: "rule_gives ''TOPUP'' (mk_num (to_amount demo_order)) 5 ?s" using g l
    by (simp add: rule_gives_def demo_wallet_def merchant_db.defs billing_db.defs demo_till_def demo_market_def) (simp add: demo_rule_def)
  have m: "room_for (2 * 5) (to_userId demo_order) ?s"
    by (simp add: room_for_def getUserBalance_def find_point_def demo_wallet_def merchant_db.defs billing_db.defs demo_till_def demo_market_def)
  have p: "to_status demo_order = TopupPending" "to_id demo_order = ''t1''" by (simp_all add: demo_order_def)
  have z: "pointHistory ?s = []" by (simp add: demo_wallet_def merchant_db.defs billing_db.defs demo_till_def demo_market_def)
  obtain r1 s1 where r1: "fulfil_topup demo_finance demo_env (demo_turn 7) demo_order ''evt_1'' ''pi_1'' JNull ?s = (r1, s1)" by fastforce
  obtain r2 s2 where r2: "fulfil_topup demo_finance demo_env (demo_turn 9) demo_order ''poll'' ''pi_1'' JNull s1 = (r2, s2)" by fastforce
  have "rewards ''t1'' (pointHistory s2) = 2"
    using topup_race_rewards_twice [OF p(1) demo_accepts r m r1 r2] p(2) z by (simp add: rewards_def)
  then show ?thesis by (simp add: r1 r2)
qed

definition demo_people :: integration_db where
  "demo_people = billing_db.extend (demo_wallet\<lparr>loyaltyRule := [demo_rule\<lparr>lr_eventType := ''P2P_TRANSFER''\<rparr>]\<rparr>)
     (integration_db.fields [demo_user] [] [] [] [])"

definition demo_transfer :: p2p_body where
  "demo_transfer = \<lparr>pb_recipientPhone = ''081-234-5678'', pb_amount = JNum (Fin 10), pb_note = None, pb_idempotencyKey = Some ''k7''\<rparr>"

definition demo_bank :: http where
  "demo_bank w c = HttpOk (JObj [(''walletId'', JStr ''w1''), (''minP2pTransfer'', JNum (Fin 1)), (''perTransactionLimit'', JNum (Fin 10000)), (''transactionId'', JStr ''tx'')])"

theorem transferP2P_retry_rewards_witness:
  "\<exists>x1 s1 x2 s2. transferP2P demo_bank demo_env (demo_turn 1) ''u1'' demo_transfer demo_people = (Inr x1, s1)
     \<and> transferP2P demo_bank demo_env (demo_turn 3) ''u1'' demo_transfer s1 = (Inr x2, s2) \<and> length (pointHistory s2) = 2"
proof -
  have "case transferP2P demo_bank demo_env (demo_turn 1) ''u1'' demo_transfer demo_people of (Inr _, s1) \<Rightarrow>
      (case transferP2P demo_bank demo_env (demo_turn 3) ''u1'' demo_transfer s1 of (Inr _, s2) \<Rightarrow> True | _ \<Rightarrow> False) | _ \<Rightarrow> False" by code_simp
  then obtain x1 s1 x2 s2 where run: "transferP2P demo_bank demo_env (demo_turn 1) ''u1'' demo_transfer demo_people = (Inr x1, s1)"
    "transferP2P demo_bank demo_env (demo_turn 3) ''u1'' demo_transfer s1 = (Inr x2, s2)"
    by (auto split: prod.splits sum.splits)
  have g: "points_to_earn (demo_rule\<lparr>lr_eventType := ''P2P_TRANSFER''\<rparr>) (Number_json (pb_amount demo_transfer)) = Fin (of_int 5)"
    "\<not> nlt (Number_json (pb_amount demo_transfer)) (lr_minAmount demo_rule)" by code_simp+
  have r: "rule_gives ''P2P_TRANSFER'' (Number_json (pb_amount demo_transfer)) 5 demo_people" using g
    by (simp add: rule_gives_def demo_people_def billing_db.defs integration_db.defs) (simp add: demo_rule_def)
  have m: "room_for (2 * 5) ''u1'' demo_people" "pointHistory demo_people = []"
    by (simp_all add: room_for_def getUserBalance_def find_point_def demo_people_def integration_db.defs demo_wallet_def merchant_db.defs billing_db.defs
        demo_till_def demo_market_def)
  show ?thesis using transferP2P_retry_rewards [OF run r m(1)] run m(2) by auto
qed

definition demo_history :: http where
  "demo_history w c = HttpOk (if contains ''transactions'' (hc_url c) then JArr [JObj [(''transactionId'', JStr ''a'')], JObj [(''transactionId'', JStr ''b'')]]
     else JObj [(''walletId'', JStr ''w1'')])"

theorem getHistory_pages_witness:
  "\<exists>h s'. getHistory demo_history demo_env demo_now (\<lambda>_. ''n'') ''alice'' (history_request 3 1 None) demo_till = (Inr h, s') \<and> hp_items h = [] \<and> \<not> hp_hasMore h"
proof -
  have "case getHistory demo_history demo_env demo_now (\<lambda>_. ''n'') ''alice'' (history_request 3 1 None) demo_till of (Inr _, _) \<Rightarrow> True | _ \<Rightarrow> False" by code_simp
  then obtain h s' where run: "getHistory demo_history demo_env demo_now (\<lambda>_. ''n'') ''alice'' (history_request 3 1 None) demo_till = (Inr h, s')"
    by (auto split: prod.splits sum.splits)
  have "\<forall>w c ts. demo_history w c = HttpOk (JArr ts) \<longrightarrow> length ts \<le> 3 * 1" by (auto simp: demo_history_def split: if_splits)
  from getHistory_pages [OF run _ _ _ this] run show ?thesis by auto
qed

theorem findUserByPhone_agrees_witness:
  "findUserByPhone (wallet_normalizePhone ''081-234-5678'') demo_people = Some demo_user
     \<and> find (\<lambda>x. us_phoneNumber x \<in> set (getPhoneCandidates ''081-234-5678'')) (userRows demo_people) = Some demo_user"
proof -
  have d: "thai_digits (filter is_digit ''081-234-5678'')" by code_simp
  have u: "userRows demo_people = [demo_user]" by (simp add: demo_people_def integration_db.defs billing_db.defs)
  have "findUserByPhone (wallet_normalizePhone ''081-234-5678'') demo_people = Some demo_user" unfolding findUserByPhone_def u by code_simp
  then show ?thesis using findUserByPhone_agrees [OF d, of demo_people] u by (simp add: demo_user_def)
qed

end
