(* ===== verification/Staff.thy ===== *)
theory Staff
  imports Finance_Client
begin

text \<open>
  The administrators (\<open>admin/services/admin.service.ts\<close>): staff accounts with invitations and password resets,
  roles and their permissions; and who may do what: the token strategy, the guards on roles and permissions,
  the routes of \<open>admin/auth\<close> and \<open>admin/staff\<close> with their decorators.

  Instants are milliseconds. \<open>bcrypt\<close>, JSON web tokens, random tokens and Kafka are parameters. Rows of a
  relation come in the order they were written. Several routes type their body \<open>any\<close> and pass it on to the
  database client unchecked. A body that holds columns of the table only is written here; any other (a nested
  write to another table, an operator, a column of the wrong type) is in the client's own language, and what the
  client does with it is a parameter of the model, which may change every table.
\<close>

section \<open>Data\<close>

record staff =
  sf_id :: string
  sf_username :: string
  sf_password :: string
  sf_email :: string
  sf_firstName :: string
  sf_lastName :: string
  sf_isActive :: bool
  sf_refreshTokenHash :: "string option"
  sf_createdAt :: int
  sf_updatedAt :: int
  sf_resetToken :: "string option"
  sf_resetTokenExpiry :: "int option"

record role =
  rl_id :: string
  rl_name :: string
  rl_description :: "string option"
  rl_isSystem :: bool
  rl_createdAt :: int
  rl_updatedAt :: int

record permission =
  pm_id :: string
  pm_name :: string
  pm_description :: "string option"
  pm_resource :: string
  pm_action :: string
  pm_createdAt :: int
  pm_updatedAt :: int

record staff_role =
  sl_id :: string
  sl_staffId :: string
  sl_roleId :: string
  sl_createdAt :: int

record role_permission =
  gr_id :: string
  gr_roleId :: string
  gr_permissionId :: string
  gr_createdAt :: int

datatype mail_kind = ADMIN_INVITE | ADMIN_PASSWORD_RESET

text \<open>A message to Kafka that the notification worker turns into a mail with a link that carries the token.\<close>

record mail =
  ml_kind :: mail_kind
  ml_email :: string
  ml_token :: string

record admin_db =
  staffs :: "staff list"
  roles :: "role list"
  permissions :: "permission list"
  staffRoles :: "staff_role list"
  rolePermissions :: "role_permission list"
  mails :: "mail list"

text \<open>\<open>wq_token\<close> and \<open>wq_password\<close> are the texts of \<open>randomBytes\<close>.\<close>

record staff_request =
  wq_now :: int
  wq_uuid :: "nat \<Rightarrow> string"
  wq_salt :: string
  wq_token :: string
  wq_password :: string
  wq_kafkaUp :: bool

type_synonym body = "(string \<times> json) list"

text \<open>
  The last three fields are the database client on a body that is not made of columns: \<open>update\<close> of the member
  with an id, and \<open>create\<close> (\<open>None\<close>) or \<open>update\<close> of a role and of a permission. One call is one transaction, so
  an error changes nothing.
\<close>

type_synonym 'r client_call = "body \<Rightarrow> admin_db \<Rightarrow> ('r \<times> admin_db) result"

record staff_env =
  we_hash :: "string \<Rightarrow> string \<Rightarrow> string"
  we_compare :: "string \<Rightarrow> string \<Rightarrow> bool"
  we_sign :: "string \<Rightarrow> int \<Rightarrow> int \<Rightarrow> json \<Rightarrow> string"
  we_verify :: "string \<Rightarrow> int \<Rightarrow> string \<Rightarrow> json option"
  we_secret :: string
  we_refreshSecret :: string
  we_writeStaff :: "staff_request \<Rightarrow> string \<Rightarrow> staff client_call"
  we_writeRole :: "staff_request \<Rightarrow> string option \<Rightarrow> role client_call"
  we_writePermission :: "staff_request \<Rightarrow> string option \<Rightarrow> permission client_call"

definition client_write :: "'r client_call \<Rightarrow> body \<Rightarrow> (admin_db, 'r) handler" where
  "client_write call b s = (case call b s of Inl e \<Rightarrow> (Inl e, s) | Inr (r, s1) \<Rightarrow> (Inr r, s1))"

definition field :: "string \<Rightarrow> body \<Rightarrow> json" where
  "field k b = jget k (JObj b)"

definition ADMIN_TTL :: int where "ADMIN_TTL = 12 * 60 * 60"
definition ADMIN_REFRESH_TTL :: int where "ADMIN_REFRESH_TTL = 7 * 24 * 60 * 60"
definition RESET_TTL_MS :: int where "RESET_TTL_MS = 24 * 60 * 60 * 1000"

definition invalid :: error where
  "invalid = Plain ''Invalid invocation''"

section \<open>Reading\<close>

definition find_staff :: "string \<Rightarrow> admin_db \<Rightarrow> staff option" where
  "find_staff i s = find (\<lambda>u. sf_id u = i) (staffs s)"

definition find_role :: "string \<Rightarrow> admin_db \<Rightarrow> role option" where
  "find_role i s = find (\<lambda>r. rl_id r = i) (roles s)"

text \<open>The roles of a member, and the permissions of a role, through the relations.\<close>

definition roles_of :: "string \<Rightarrow> admin_db \<Rightarrow> role list" where
  "roles_of i s = concat (map (\<lambda>l. case find_role (sl_roleId l) s of None \<Rightarrow> [] | Some r \<Rightarrow> [r]) (filter (\<lambda>l. sl_staffId l = i) (staffRoles s)))"

definition permissions_of :: "string \<Rightarrow> admin_db \<Rightarrow> permission list" where
  "permissions_of r s = concat (map (\<lambda>g. case find (\<lambda>p. pm_id p = gr_permissionId g) (permissions s) of None \<Rightarrow> [] | Some p \<Rightarrow> [p])
     (filter (\<lambda>g. gr_roleId g = r) (rolePermissions s)))"

definition staff_findByUsername :: "string \<Rightarrow> admin_db \<Rightarrow> (staff \<times> (role \<times> permission list) list) option" where
  "staff_findByUsername name s = map_option (\<lambda>u. (u, map (\<lambda>r. (r, permissions_of (rl_id r) s)) (roles_of (sf_id u) s)))
     (find (\<lambda>u. sf_username u = name) (staffs s))"

definition staff_findByEmail :: "string \<Rightarrow> admin_db \<Rightarrow> (staff \<times> (role \<times> permission list) list) option" where
  "staff_findByEmail email s = map_option (\<lambda>u. (u, map (\<lambda>r. (r, permissions_of (rl_id r) s)) (roles_of (sf_id u) s)))
     (find (\<lambda>u. sf_email u = email) (staffs s))"

definition findByIdInternal :: "string \<Rightarrow> admin_db \<Rightarrow> (staff \<times> role list) option" where
  "findByIdInternal i s = map_option (\<lambda>u. (u, roles_of i s)) (find_staff i s)"

record staff_view =
  sv_id :: string
  sv_username :: string
  sv_email :: string
  sv_firstName :: string
  sv_lastName :: string
  sv_isActive :: bool
  sv_isInvited :: bool
  sv_inviteExpiry :: "int option"
  sv_role :: string
  sv_createdAt :: int
  sv_updatedAt :: int

definition first_name_of :: "role list \<Rightarrow> string \<Rightarrow> string" where
  "first_name_of rs d = (case rs of r # _ \<Rightarrow> if rl_name r = [] then d else rl_name r | [] \<Rightarrow> d)"

definition staff_view_of :: "admin_db \<Rightarrow> staff \<Rightarrow> staff_view" where
  "staff_view_of s u = \<lparr>sv_id = sf_id u, sv_username = sf_username u, sv_email = sf_email u, sv_firstName = sf_firstName u,
     sv_lastName = sf_lastName u, sv_isActive = sf_isActive u, sv_isInvited = (case sf_resetToken u of Some (c # t) \<Rightarrow> True | _ \<Rightarrow> False),
     sv_inviteExpiry = sf_resetTokenExpiry u, sv_role = first_name_of (roles_of (sf_id u) s) ''N/A'', sv_createdAt = sf_createdAt u,
     sv_updatedAt = sf_updatedAt u\<rparr>"

definition staff_findById :: "string \<Rightarrow> admin_db \<Rightarrow> staff_view option" where
  "staff_findById i s = map_option (staff_view_of s) (find_staff i s)"

text \<open>A set keeps the first of equal names.\<close>

definition getStaffPermissions :: "string \<Rightarrow> admin_db \<Rightarrow> string list" where
  "getStaffPermissions i s = (case find_staff i s of None \<Rightarrow> []
     | Some _ \<Rightarrow> rev (remdups (rev (map pm_name (concat (map (\<lambda>r. permissions_of (rl_id r) s) (roles_of i s)))))))"

record staff_filter =
  ff_search :: "string option"
  ff_role :: "string option"
  ff_status :: "string option"

definition staff_matches :: "string \<Rightarrow> staff \<Rightarrow> bool" where
  "staff_matches q u \<longleftrightarrow> icontains q (sf_username u) \<or> icontains q (sf_email u) \<or> icontains q (sf_firstName u) \<or> icontains q (sf_lastName u)"

definition staff_listed :: "staff_filter \<Rightarrow> admin_db \<Rightarrow> staff \<Rightarrow> bool" where
  "staff_listed f s u \<longleftrightarrow>
     (case ff_search f of Some q \<Rightarrow> strip q = [] \<or> staff_matches q u | None \<Rightarrow> True)
     \<and> (case ff_status f of Some (c # t) \<Rightarrow> c # t = ''ALL'' \<or> sf_isActive u = (c # t = ''ACTIVE'') | _ \<Rightarrow> True)
     \<and> (case ff_role f of Some (c # t) \<Rightarrow> c # t = ''ALL'' \<or> list_ex (\<lambda>r. rl_name r = c # t) (roles_of (sf_id u) s) | _ \<Rightarrow> True)"

text \<open>A page number of zero makes a negative offset, which the client refuses; limits are positive.\<close>

definition list_page :: "nat \<Rightarrow> nat \<Rightarrow> 'r list \<Rightarrow> ('r list \<times> pagination) result" where
  "list_page page limit rows = (if page = 0 then Inl invalid
     else Inr (page_slice page limit rows, \<lparr>pg_total = length rows, pg_page = page, pg_limit = limit, pg_totalPages = total_pages (length rows) limit\<rparr>))"

definition findAllStaff :: "nat \<Rightarrow> nat \<Rightarrow> staff_filter \<Rightarrow> admin_db \<Rightarrow> (staff_view list \<times> pagination) result" where
  "findAllStaff page limit f s =
     (case list_page page limit (sort_key (\<lambda>u. - sf_createdAt u) (filter (staff_listed f s) (staffs s))) of
        Inl e \<Rightarrow> Inl e
      | Inr (us, p) \<Rightarrow> Inr (map (staff_view_of s) us, p))"

definition searchStaff :: "string \<Rightarrow> admin_db \<Rightarrow> (staff \<times> role list) list" where
  "searchStaff q s = map (\<lambda>u. (u, roles_of (sf_id u) s)) (filter (staff_matches q) (staffs s))"

definition findAllRoles :: "nat \<Rightarrow> nat \<Rightarrow> admin_db \<Rightarrow> ((role \<times> permission list) list \<times> pagination) result" where
  "findAllRoles page limit s =
     (case list_page page limit (sort_key rl_name (roles s)) of
        Inl e \<Rightarrow> Inl e
      | Inr (rs, p) \<Rightarrow> Inr (map (\<lambda>r. (r, permissions_of (rl_id r) s)) rs, p))"

definition findRoleById :: "string \<Rightarrow> admin_db \<Rightarrow> (role \<times> permission list) option" where
  "findRoleById i s = map_option (\<lambda>r. (r, permissions_of i s)) (find_role i s)"

definition findAllPermissions :: "admin_db \<Rightarrow> permission list" where
  "findAllPermissions s = permissions s"

definition findPermissionById :: "string \<Rightarrow> admin_db \<Rightarrow> permission option" where
  "findPermissionById i s = find (\<lambda>p. pm_id p = i) (permissions s)"

section \<open>Passwords and tokens\<close>

definition set_staff :: "string \<Rightarrow> (staff \<Rightarrow> staff) \<Rightarrow> admin_db \<Rightarrow> admin_db" where
  "set_staff i f s = s\<lparr>staffs := update_where (\<lambda>u. sf_id u = i) f (staffs s)\<rparr>"

text \<open>\<open>update\<close> of one row: the row must exist.\<close>

definition update_staff :: "string \<Rightarrow> (staff \<Rightarrow> staff) \<Rightarrow> (admin_db, staff) handler" where
  "update_staff i f s = (case find_staff i s of None \<Rightarrow> (Inl (Prisma ''P2025''), s) | Some u \<Rightarrow> (Inr (f u), set_staff i f s))"

definition updateRefreshTokenHash :: "staff_env \<Rightarrow> staff_request \<Rightarrow> string \<Rightarrow> string \<Rightarrow> (admin_db, staff) handler" where
  "updateRefreshTokenHash env rq i token =
     update_staff i (\<lambda>u. u\<lparr>sf_refreshTokenHash := Some (we_hash env (wq_salt rq) token), sf_updatedAt := wq_now rq\<rparr>)"

definition clearRefreshToken :: "staff_request \<Rightarrow> string \<Rightarrow> (admin_db, staff) handler" where
  "clearRefreshToken rq i = update_staff i (\<lambda>u. u\<lparr>sf_refreshTokenHash := None, sf_updatedAt := wq_now rq\<rparr>)"

text \<open>A message that Kafka does not take is given up.\<close>

definition send_mail :: "staff_request \<Rightarrow> mail_kind \<Rightarrow> string \<Rightarrow> string \<Rightarrow> admin_db \<Rightarrow> admin_db" where
  "send_mail rq k email token s = (if wq_kafkaUp rq then s\<lparr>mails := mails s @ [\<lparr>ml_kind = k, ml_email = email, ml_token = token\<rparr>]\<rparr> else s)"

definition requestPasswordReset :: "staff_request \<Rightarrow> string \<Rightarrow> bool \<Rightarrow> (admin_db, string) handler" where
  "requestPasswordReset rq i isInvite s =
     (case find_staff i s of
        None \<Rightarrow> (Inl (Plain ''Staff not found''), s)
      | Some u \<Rightarrow>
          if \<exists>v\<in>set (staffs s). sf_id v \<noteq> i \<and> sf_resetToken v = Some (wq_token rq) then (Inl (Prisma ''P2002''), s)
          else let s1 = set_staff i (\<lambda>u. u\<lparr>sf_resetToken := Some (wq_token rq), sf_resetTokenExpiry := Some (wq_now rq + RESET_TTL_MS),
                          sf_updatedAt := wq_now rq\<rparr>) s
               in (Inr (if isInvite then ''Invitation link resent'' else ''Password reset link sent to email''),
                   send_mail rq (if isInvite then ADMIN_INVITE else ADMIN_PASSWORD_RESET) (sf_email u) (wq_token rq) s1))"

definition is_upper :: "char \<Rightarrow> bool" where
  "is_upper c \<longleftrightarrow> 65 \<le> (of_char c :: nat) \<and> (of_char c :: nat) \<le> 90"

definition is_lower :: "char \<Rightarrow> bool" where
  "is_lower c \<longleftrightarrow> 97 \<le> (of_char c :: nat) \<and> (of_char c :: nat) \<le> 122"

definition special_chars :: string where
  "special_chars = ''!@#$%^&*(),.?:{}|<>'' @ [CHR 0x22]"

definition validatePasswordComplexity :: "string \<Rightarrow> error option" where
  "validatePasswordComplexity p =
     (if length p < 8 \<or> \<not> list_ex is_upper p \<or> \<not> list_ex is_lower p \<or> \<not> list_ex (\<lambda>c. c \<in> set special_chars) p
      then Some (Plain ''Password must be at least 8 characters long and contain uppercase, lowercase, and at least one special character.'')
      else None)"

text \<open>
  The token of a body as a condition on the row. A token that is not there is no condition at all; one that is
  an object would be a condition of the client's own language, which is left out.
\<close>

fun token_condition :: "json \<Rightarrow> staff \<Rightarrow> bool" where
  "token_condition JUndef u = True"
| "token_condition (JStr t) u = (sf_resetToken u = Some t)"
| "token_condition JNull u = (sf_resetToken u = None)"
| "token_condition _ u = False"

definition token_open :: "int \<Rightarrow> json \<Rightarrow> staff \<Rightarrow> bool" where
  "token_open now token u \<longleftrightarrow> token_condition token u \<and> sf_isActive u \<and> (case sf_resetTokenExpiry u of None \<Rightarrow> False | Some t \<Rightarrow> now < t)"

definition validateResetToken :: "int \<Rightarrow> json \<Rightarrow> admin_db \<Rightarrow> bool" where
  "validateResetToken now token s \<longleftrightarrow> find (token_open now token) (staffs s) \<noteq> None"

definition resetPasswordWithToken :: "staff_env \<Rightarrow> staff_request \<Rightarrow> json \<Rightarrow> json \<Rightarrow> (admin_db, unit) handler" where
  "resetPasswordWithToken env rq token newPassword s =
     (case find (token_open (wq_now rq) token) (staffs s) of
        None \<Rightarrow> (Inl (Plain ''Invalid or expired reset token''), s)
      | Some u \<Rightarrow>
          (case newPassword of
             JStr p \<Rightarrow>
               (case validatePasswordComplexity p of
                  Some e \<Rightarrow> (Inl e, s)
                | None \<Rightarrow> (Inr (), set_staff (sf_id u) (\<lambda>u. u\<lparr>sf_password := we_hash env (wq_salt rq) p, sf_resetToken := None,
                            sf_resetTokenExpiry := None, sf_isActive := True, sf_updatedAt := wq_now rq\<rparr>) s))
           | _ \<Rightarrow> (Inl (Plain ''Illegal arguments''), s)))"

section \<open>Managing the staff\<close>

text \<open>Columns of a body: of the right type, and written into a row. A column that is undefined is left alone.\<close>

fun staff_column_ok :: "string \<times> json \<Rightarrow> bool" where
  "staff_column_ok (k, JUndef) = (k \<in> set [''id'', ''username'', ''password'', ''email'', ''firstName'', ''lastName'', ''isActive'', ''refreshTokenHash'', ''resetToken'', ''resetTokenExpiry''])"
| "staff_column_ok (k, JStr t) = (k \<in> set [''id'', ''username'', ''password'', ''email'', ''firstName'', ''lastName'', ''refreshTokenHash'', ''resetToken''])"
| "staff_column_ok (k, JBool b) = (k = ''isActive'')"
| "staff_column_ok (k, JNull) = (k \<in> set [''refreshTokenHash'', ''resetToken'', ''resetTokenExpiry''])"
| "staff_column_ok (k, _) = False"

fun set_staff_column :: "string \<times> json \<Rightarrow> staff \<Rightarrow> staff" where
  "set_staff_column (k, JStr t) u =
     (if k = ''id'' then u\<lparr>sf_id := t\<rparr> else if k = ''username'' then u\<lparr>sf_username := t\<rparr> else if k = ''password'' then u\<lparr>sf_password := t\<rparr>
      else if k = ''email'' then u\<lparr>sf_email := t\<rparr> else if k = ''firstName'' then u\<lparr>sf_firstName := t\<rparr> else if k = ''lastName'' then u\<lparr>sf_lastName := t\<rparr>
      else if k = ''refreshTokenHash'' then u\<lparr>sf_refreshTokenHash := Some t\<rparr> else if k = ''resetToken'' then u\<lparr>sf_resetToken := Some t\<rparr> else u)"
| "set_staff_column (k, JBool b) u = (if k = ''isActive'' then u\<lparr>sf_isActive := b\<rparr> else u)"
| "set_staff_column (k, JNull) u = (if k = ''refreshTokenHash'' then u\<lparr>sf_refreshTokenHash := None\<rparr>
     else if k = ''resetToken'' then u\<lparr>sf_resetToken := None\<rparr> else if k = ''resetTokenExpiry'' then u\<lparr>sf_resetTokenExpiry := None\<rparr> else u)"
| "set_staff_column _ u = u"

definition set_columns :: "('c \<Rightarrow> 'r \<Rightarrow> 'r) \<Rightarrow> 'c list \<Rightarrow> 'r \<Rightarrow> 'r" where
  "set_columns f cs r = foldl (\<lambda>r c. f c r) r cs"

definition staff_clash :: "staff \<Rightarrow> staff \<Rightarrow> bool" where
  "staff_clash u v \<longleftrightarrow> sf_id u = sf_id v \<or> sf_username u = sf_username v \<or> sf_email u = sf_email v \<or> (sf_resetToken u \<noteq> None \<and> sf_resetToken u = sf_resetToken v)"

text \<open>The first write of \<open>updateStaff\<close>; a new id is carried over to the rows that refer to the old one.\<close>

definition write_staff_columns :: "staff_request \<Rightarrow> string \<Rightarrow> body \<Rightarrow> (admin_db, staff) handler" where
  "write_staff_columns rq i fs s =
     (case find_staff i s of
        None \<Rightarrow> (Inl (Prisma ''P2025''), s)
      | Some u \<Rightarrow>
          let u' = (set_columns set_staff_column fs u)\<lparr>sf_updatedAt := wq_now rq\<rparr>
          in if \<exists>v\<in>set (staffs s). sf_id v \<noteq> i \<and> staff_clash u' v then (Inl (Prisma ''P2002''), s)
             else (Inr u', s\<lparr>staffs := update_where (\<lambda>v. sf_id v = i) (\<lambda>_. u') (staffs s),
                             staffRoles := update_where (\<lambda>l. sl_staffId l = i) (\<lambda>l. l\<lparr>sl_staffId := sf_id u'\<rparr>) (staffRoles s)\<rparr>))"

definition write_staff :: "staff_env \<Rightarrow> staff_request \<Rightarrow> string \<Rightarrow> body \<Rightarrow> (admin_db, staff) handler" where
  "write_staff env rq i fs s =
     (if list_all staff_column_ok fs then write_staff_columns rq i fs s else client_write (we_writeStaff env rq i) fs s)"

definition drop_roles :: "string \<Rightarrow> admin_db \<Rightarrow> admin_db" where
  "drop_roles i s = s\<lparr>staffRoles := filter (\<lambda>l. sl_staffId l \<noteq> i) (staffRoles s)\<rparr>"

text \<open>A new row of the relation, with a role found by its name.\<close>

definition connect_role :: "staff_request \<Rightarrow> string \<Rightarrow> json \<Rightarrow> (admin_db, unit) handler" where
  "connect_role rq i name s =
     (case name of
        JStr n \<Rightarrow>
          (case find (\<lambda>r. rl_name r = n) (roles s) of
             None \<Rightarrow> (Inl (Prisma ''P2025''), s)
           | Some r \<Rightarrow>
               if find_staff i s = None then (Inl (Prisma ''P2025''), s)
               else (Inr (), s\<lparr>staffRoles := staffRoles s @ [\<lparr>sl_id = wq_uuid rq 1, sl_staffId = i, sl_roleId = rl_id r, sl_createdAt = wq_now rq\<rparr>]\<rparr>))
      | _ \<Rightarrow> (Inl invalid, s))"

definition update_tx :: "staff_env \<Rightarrow> staff_request \<Rightarrow> string \<Rightarrow> body \<Rightarrow> json \<Rightarrow> (admin_db, staff) handler" where
  "update_tx env rq i fs name s =
     (case write_staff env rq i fs s of
        (Inl e, s1) \<Rightarrow> (Inl e, s1)
      | (Inr u, s1) \<Rightarrow>
          if truthy name
          then (case connect_role rq i name (drop_roles i s1) of (Inl e, s2) \<Rightarrow> (Inl e, s2) | (Inr _, s2) \<Rightarrow> (Inr u, s2))
          else (Inr u, s1))"

text \<open>A password that is given is checked and hashed; the empty one passes through.\<close>

definition hash_password :: "staff_env \<Rightarrow> staff_request \<Rightarrow> body \<Rightarrow> body result" where
  "hash_password env rq fs =
     (if \<not> truthy (field ''password'' fs) then Inr fs
      else case field ''password'' fs of
        JStr p \<Rightarrow> (case validatePasswordComplexity p of
            Some e \<Rightarrow> Inl e
          | None \<Rightarrow> Inr (map (\<lambda>(k, v). if k = ''password'' then (k, JStr (we_hash env (wq_salt rq) p)) else (k, v)) fs))
      | _ \<Rightarrow> Inl (Plain ''Illegal arguments''))"

definition updateStaff :: "staff_env \<Rightarrow> staff_request \<Rightarrow> string \<Rightarrow> body \<Rightarrow> (admin_db, staff) handler" where
  "updateStaff env rq i b s =
     (case hash_password env rq (filter (\<lambda>(k, _). k \<noteq> ''role'') b) of
        Inl e \<Rightarrow> (Inl e, s)
      | Inr fs \<Rightarrow> transaction (update_tx env rq i fs (field ''role'' b)) s)"

text \<open>The password of a new member; without one a random one is drawn that nobody learns.\<close>

definition new_password :: "staff_env \<Rightarrow> staff_request \<Rightarrow> body \<Rightarrow> string option" where
  "new_password env rq b = (case field ''password'' b of
      JStr (c # t) \<Rightarrow> Some (we_hash env (wq_salt rq) (c # t))
    | v \<Rightarrow> if truthy v then None else Some (we_hash env (wq_salt rq) (wq_password rq)))"

definition new_staff :: "staff_request \<Rightarrow> string \<Rightarrow> body \<Rightarrow> staff option" where
  "new_staff rq pw b = (case (field ''username'' b, field ''email'' b, field ''firstName'' b, field ''lastName'' b) of
      (JStr n, JStr e, JStr f, JStr l) \<Rightarrow> Some \<lparr>sf_id = wq_uuid rq 0, sf_username = n, sf_password = pw, sf_email = e, sf_firstName = f, sf_lastName = l,
         sf_isActive = True, sf_refreshTokenHash = None, sf_createdAt = wq_now rq, sf_updatedAt = wq_now rq, sf_resetToken = Some (wq_token rq),
         sf_resetTokenExpiry = Some (wq_now rq + RESET_TTL_MS)\<rparr>
    | _ \<Rightarrow> None)"

definition create_tx :: "staff_request \<Rightarrow> staff \<Rightarrow> json \<Rightarrow> (admin_db, unit) handler" where
  "create_tx rq u name s =
     (if list_ex (staff_clash u) (staffs s) then (Inl (Prisma ''P2002''), s)
      else let s1 = s\<lparr>staffs := staffs s @ [u]\<rparr>
           in if truthy name then connect_role rq (sf_id u) name s1 else (Inr (), s1))"

definition createStaff :: "staff_env \<Rightarrow> staff_request \<Rightarrow> body \<Rightarrow> (admin_db, staff \<times> role list) handler" where
  "createStaff env rq b s =
     (case new_password env rq b of
        None \<Rightarrow> (Inl (Plain ''Illegal arguments''), s)
      | Some pw \<Rightarrow>
          (case new_staff rq pw b of
             None \<Rightarrow> (Inl invalid, s)
           | Some u \<Rightarrow>
               (case transaction (create_tx rq u (field ''role'' b)) s of
                  (Inl e, s1) \<Rightarrow> (Inl e, s1)
                | (Inr _, s1) \<Rightarrow> (Inr (u, roles_of (sf_id u) s1), send_mail rq ADMIN_INVITE (sf_email u) (wq_token rq) s1))))"

definition removeStaff :: "string \<Rightarrow> (admin_db, staff) handler" where
  "removeStaff i s =
     (case find_staff i s of
        None \<Rightarrow> (Inl (Prisma ''P2025''), s)
      | Some u \<Rightarrow>
          if sf_email u = ''admin@jledger.com'' then (Inl (Plain ''Cannot delete primary system administrator''), s)
          else (Inr u, (drop_roles i s)\<lparr>staffs := filter (\<lambda>v. sf_id v \<noteq> i) (staffs s)\<rparr>))"

definition deactivateStaff :: "staff_request \<Rightarrow> string \<Rightarrow> (admin_db, staff) handler" where
  "deactivateStaff rq i = update_staff i (\<lambda>u. u\<lparr>sf_isActive := False, sf_refreshTokenHash := None, sf_updatedAt := wq_now rq\<rparr>)"

definition reactivateStaff :: "staff_request \<Rightarrow> string \<Rightarrow> (admin_db, staff) handler" where
  "reactivateStaff rq i = update_staff i (\<lambda>u. u\<lparr>sf_isActive := True, sf_updatedAt := wq_now rq\<rparr>)"

section \<open>Roles and permissions\<close>

definition assignRole :: "staff_request \<Rightarrow> string \<Rightarrow> string \<Rightarrow> (admin_db, staff_role) handler" where
  "assignRole rq i r s =
     (if \<exists>l\<in>set (staffRoles s). sl_staffId l = i \<and> sl_roleId l = r then (Inl (Prisma ''P2002''), s)
      else if find_staff i s = None \<or> find_role r s = None then (Inl (Prisma ''P2003''), s)
      else let l = \<lparr>sl_id = wq_uuid rq 0, sl_staffId = i, sl_roleId = r, sl_createdAt = wq_now rq\<rparr>
           in (Inr l, s\<lparr>staffRoles := staffRoles s @ [l]\<rparr>))"

definition removeRole :: "string \<Rightarrow> string \<Rightarrow> (admin_db, nat) handler" where
  "removeRole i r s = (Inr (count_where (\<lambda>l. sl_staffId l = i \<and> sl_roleId l = r) (staffRoles s)),
     s\<lparr>staffRoles := filter (\<lambda>l. \<not> (sl_staffId l = i \<and> sl_roleId l = r)) (staffRoles s)\<rparr>)"

fun role_column_ok :: "string \<times> json \<Rightarrow> bool" where
  "role_column_ok (k, JUndef) = (k \<in> set [''id'', ''name'', ''description'', ''isSystem''])"
| "role_column_ok (k, JStr t) = (k \<in> set [''id'', ''name'', ''description''])"
| "role_column_ok (k, JBool b) = (k = ''isSystem'')"
| "role_column_ok (k, JNull) = (k = ''description'')"
| "role_column_ok (k, _) = False"

fun set_role_column :: "string \<times> json \<Rightarrow> role \<Rightarrow> role" where
  "set_role_column (k, JStr t) r = (if k = ''id'' then r\<lparr>rl_id := t\<rparr> else if k = ''name'' then r\<lparr>rl_name := t\<rparr>
     else if k = ''description'' then r\<lparr>rl_description := Some t\<rparr> else r)"
| "set_role_column (k, JBool b) r = (if k = ''isSystem'' then r\<lparr>rl_isSystem := b\<rparr> else r)"
| "set_role_column (k, JNull) r = (if k = ''description'' then r\<lparr>rl_description := None\<rparr> else r)"
| "set_role_column _ r = r"

definition create_role_columns :: "staff_request \<Rightarrow> body \<Rightarrow> (admin_db, role) handler" where
  "create_role_columns rq b s =
     (if (case field ''name'' b of JStr _ \<Rightarrow> False | _ \<Rightarrow> True) then (Inl invalid, s)
      else let r = set_columns set_role_column b \<lparr>rl_id = wq_uuid rq 0, rl_name = [], rl_description = None, rl_isSystem = False, rl_createdAt = wq_now rq,
                     rl_updatedAt = wq_now rq\<rparr>
           in if \<exists>q\<in>set (roles s). rl_id q = rl_id r \<or> rl_name q = rl_name r then (Inl (Prisma ''P2002''), s)
              else (Inr r, s\<lparr>roles := roles s @ [r]\<rparr>))"

definition createRole :: "staff_env \<Rightarrow> staff_request \<Rightarrow> body \<Rightarrow> (admin_db, role) handler" where
  "createRole env rq b s =
     (if list_all role_column_ok b then create_role_columns rq b s else client_write (we_writeRole env rq None) b s)"

text \<open>\<open>role?.isSystem\<close>\<close>

definition is_system :: "string \<Rightarrow> admin_db \<Rightarrow> bool" where
  "is_system i s \<longleftrightarrow> (case find_role i s of None \<Rightarrow> False | Some r \<Rightarrow> rl_isSystem r)"

definition update_role_columns :: "staff_request \<Rightarrow> string \<Rightarrow> body \<Rightarrow> (admin_db, role) handler" where
  "update_role_columns rq i b s =
     (case find_role i s of
        None \<Rightarrow> (Inl (Prisma ''P2025''), s)
      | Some r \<Rightarrow>
          let r' = (set_columns set_role_column b r)\<lparr>rl_updatedAt := wq_now rq\<rparr>
          in if \<exists>q\<in>set (roles s). rl_id q \<noteq> i \<and> (rl_id q = rl_id r' \<or> rl_name q = rl_name r') then (Inl (Prisma ''P2002''), s)
             else (Inr r', s\<lparr>roles := update_where (\<lambda>q. rl_id q = i) (\<lambda>_. r') (roles s),
                             staffRoles := update_where (\<lambda>l. sl_roleId l = i) (\<lambda>l. l\<lparr>sl_roleId := rl_id r'\<rparr>) (staffRoles s),
                             rolePermissions := update_where (\<lambda>g. gr_roleId g = i) (\<lambda>g. g\<lparr>gr_roleId := rl_id r'\<rparr>) (rolePermissions s)\<rparr>))"

definition updateRole :: "staff_env \<Rightarrow> staff_request \<Rightarrow> string \<Rightarrow> body \<Rightarrow> (admin_db, role) handler" where
  "updateRole env rq i b s =
     (if is_system i s then (Inl (Plain ''Cannot modify system roles''), s)
      else if list_all role_column_ok b then update_role_columns rq i b s else client_write (we_writeRole env rq (Some i)) b s)"

definition frozen_role :: error where
  "frozen_role = Plain ''Cannot modify permissions for system roles''"

definition grant :: "staff_request \<Rightarrow> nat \<Rightarrow> string \<Rightarrow> string \<Rightarrow> (admin_db, role_permission) handler" where
  "grant rq k r p s =
     (if \<exists>g\<in>set (rolePermissions s). gr_roleId g = r \<and> gr_permissionId g = p then (Inl (Prisma ''P2002''), s)
      else if find_role r s = None \<or> findPermissionById p s = None then (Inl (Prisma ''P2003''), s)
      else let g = \<lparr>gr_id = wq_uuid rq k, gr_roleId = r, gr_permissionId = p, gr_createdAt = wq_now rq\<rparr>
           in (Inr g, s\<lparr>rolePermissions := rolePermissions s @ [g]\<rparr>))"

definition assignPermission :: "staff_request \<Rightarrow> string \<Rightarrow> string \<Rightarrow> (admin_db, role_permission) handler" where
  "assignPermission rq r p s = (if is_system r s then (Inl frozen_role, s) else grant rq 0 r p s)"

definition removePermission :: "string \<Rightarrow> string \<Rightarrow> (admin_db, nat) handler" where
  "removePermission r p s =
     (if is_system r s then (Inl frozen_role, s)
      else (Inr (count_where (\<lambda>g. gr_roleId g = r \<and> gr_permissionId g = p) (rolePermissions s)),
            s\<lparr>rolePermissions := filter (\<lambda>g. \<not> (gr_roleId g = r \<and> gr_permissionId g = p)) (rolePermissions s)\<rparr>))"

text \<open>\<open>createMany\<close>: one row after the other, all or none.\<close>

fun grant_all :: "staff_request \<Rightarrow> nat \<Rightarrow> string \<Rightarrow> string list \<Rightarrow> (admin_db, unit) handler" where
  "grant_all rq k r [] s = (Inr (), s)"
| "grant_all rq k r (p # ps) s = (case grant rq k r p s of (Inl e, s1) \<Rightarrow> (Inl e, s1) | (Inr _, s1) \<Rightarrow> grant_all rq (Suc k) r ps s1)"

definition syncRolePermissions :: "staff_request \<Rightarrow> string \<Rightarrow> string list \<Rightarrow> (admin_db, unit) handler" where
  "syncRolePermissions rq r ps s =
     (if is_system r s then (Inl frozen_role, s)
      else transaction (\<lambda>s. grant_all rq 0 r ps (s\<lparr>rolePermissions := filter (\<lambda>g. gr_roleId g \<noteq> r) (rolePermissions s)\<rparr>)) s)"

fun permission_column_ok :: "string \<times> json \<Rightarrow> bool" where
  "permission_column_ok (k, JUndef) = (k \<in> set [''id'', ''name'', ''description'', ''resource'', ''action''])"
| "permission_column_ok (k, JStr t) = (k \<in> set [''id'', ''name'', ''description'', ''resource'', ''action''])"
| "permission_column_ok (k, JNull) = (k = ''description'')"
| "permission_column_ok (k, _) = False"

fun set_permission_column :: "string \<times> json \<Rightarrow> permission \<Rightarrow> permission" where
  "set_permission_column (k, JStr t) p = (if k = ''id'' then p\<lparr>pm_id := t\<rparr> else if k = ''name'' then p\<lparr>pm_name := t\<rparr>
     else if k = ''description'' then p\<lparr>pm_description := Some t\<rparr> else if k = ''resource'' then p\<lparr>pm_resource := t\<rparr>
     else if k = ''action'' then p\<lparr>pm_action := t\<rparr> else p)"
| "set_permission_column (k, JNull) p = (if k = ''description'' then p\<lparr>pm_description := None\<rparr> else p)"
| "set_permission_column _ p = p"

definition create_permission_columns :: "staff_request \<Rightarrow> body \<Rightarrow> (admin_db, permission) handler" where
  "create_permission_columns rq b s =
     (if list_ex (\<lambda>k. case field k b of JStr _ \<Rightarrow> False | _ \<Rightarrow> True) [''name'', ''resource'', ''action'']
      then (Inl invalid, s)
      else let p = set_columns set_permission_column b \<lparr>pm_id = wq_uuid rq 0, pm_name = [], pm_description = None, pm_resource = [], pm_action = [],
                     pm_createdAt = wq_now rq, pm_updatedAt = wq_now rq\<rparr>
           in if \<exists>q\<in>set (permissions s). pm_id q = pm_id p \<or> pm_name q = pm_name p then (Inl (Prisma ''P2002''), s)
              else (Inr p, s\<lparr>permissions := permissions s @ [p]\<rparr>))"

definition createPermission :: "staff_env \<Rightarrow> staff_request \<Rightarrow> body \<Rightarrow> (admin_db, permission) handler" where
  "createPermission env rq b s =
     (if list_all permission_column_ok b then create_permission_columns rq b s else client_write (we_writePermission env rq None) b s)"

definition update_permission_columns :: "staff_request \<Rightarrow> string \<Rightarrow> body \<Rightarrow> (admin_db, permission) handler" where
  "update_permission_columns rq i b s =
     (case findPermissionById i s of
        None \<Rightarrow> (Inl (Prisma ''P2025''), s)
      | Some p \<Rightarrow>
          let p' = (set_columns set_permission_column b p)\<lparr>pm_updatedAt := wq_now rq\<rparr>
          in if \<exists>q\<in>set (permissions s). pm_id q \<noteq> i \<and> (pm_id q = pm_id p' \<or> pm_name q = pm_name p') then (Inl (Prisma ''P2002''), s)
             else (Inr p', s\<lparr>permissions := update_where (\<lambda>q. pm_id q = i) (\<lambda>_. p') (permissions s),
                             rolePermissions := update_where (\<lambda>g. gr_permissionId g = i) (\<lambda>g. g\<lparr>gr_permissionId := pm_id p'\<rparr>) (rolePermissions s)\<rparr>))"

definition updatePermission :: "staff_env \<Rightarrow> staff_request \<Rightarrow> string \<Rightarrow> body \<Rightarrow> (admin_db, permission) handler" where
  "updatePermission env rq i b s =
     (if list_all permission_column_ok b then update_permission_columns rq i b s else client_write (we_writePermission env rq (Some i)) b s)"

section \<open>Sessions\<close>

definition admin_claims :: "staff \<Rightarrow> role list \<Rightarrow> json" where
  "admin_claims u rs = JObj [(''sub'', JStr (sf_id u)), (''email'', JStr (sf_email u)), (''role'', JStr (first_name_of rs ''SUPPORT_STAFF''))]"

record admin_session =
  as_token :: string
  as_refreshToken :: string
  as_userId :: string
  as_role :: string
  as_permissions :: "string list"

text \<open>The end of a login and of a refresh: two tokens, the hash of the second, the permissions.\<close>

definition open_session :: "staff_env \<Rightarrow> staff_request \<Rightarrow> staff \<Rightarrow> role list \<Rightarrow> (admin_db, admin_session) handler" where
  "open_session env rq u rs s =
     (let claims = admin_claims u rs; token = we_sign env (we_secret env) (wq_now rq) ADMIN_TTL claims;
          fresh = we_sign env (we_refreshSecret env) (wq_now rq) ADMIN_REFRESH_TTL claims
      in case updateRefreshTokenHash env rq (sf_id u) fresh s of
        (Inl e, s1) \<Rightarrow> (Inl e, s1)
      | (Inr _, s1) \<Rightarrow> (Inr \<lparr>as_token = token, as_refreshToken = fresh, as_userId = sf_id u, as_role = first_name_of rs ''SUPPORT_STAFF'',
                            as_permissions = getStaffPermissions (sf_id u) s1\<rparr>, s1))"

definition admin_login :: "staff_env \<Rightarrow> staff_request \<Rightarrow> string \<Rightarrow> string \<Rightarrow> (admin_db, admin_session) handler" where
  "admin_login env rq email password s =
     (case staff_findByEmail email s of
        None \<Rightarrow> (Inl (Http UNAUTHORIZED ''Invalid credentials or account inactive''), s)
      | Some (u, rs) \<Rightarrow>
          if \<not> sf_isActive u then (Inl (Http UNAUTHORIZED ''Invalid credentials or account inactive''), s)
          else if \<not> we_compare env password (sf_password u) then (Inl (Http UNAUTHORIZED ''Invalid credentials''), s)
          else open_session env rq u (map fst rs) s)"

definition refresh_failed :: error where
  "refresh_failed = Http UNAUTHORIZED ''Invalid or expired refresh token''"

definition admin_refresh :: "staff_env \<Rightarrow> staff_request \<Rightarrow> string \<Rightarrow> string \<Rightarrow> (admin_db, admin_session) handler" where
  "admin_refresh env rq userId token s =
     (case findByIdInternal userId s of
        None \<Rightarrow> (Inl (Http UNAUTHORIZED ''Invalid session''), s)
      | Some (u, rs) \<Rightarrow>
          (case sf_refreshTokenHash u of
             Some (c # t) \<Rightarrow>
               if \<not> sf_isActive u then (Inl (Http UNAUTHORIZED ''Invalid session''), s)
               else (case we_verify env (we_secret env) (wq_now rq) token of
                  None \<Rightarrow> (Inl refresh_failed, s)
                | Some claims \<Rightarrow>
                    if jget ''sub'' claims \<noteq> JStr (sf_id u) then (Inl refresh_failed, s)
                    else if \<not> we_compare env token (c # t) then (Inl refresh_failed, s)
                    else (case open_session env rq u rs s of (Inl e, s1) \<Rightarrow> (Inl refresh_failed, s1) | (Inr x, s1) \<Rightarrow> (Inr x, s1)))
           | _ \<Rightarrow> (Inl (Http UNAUTHORIZED ''Invalid session''), s)))"

section \<open>Guards and routes\<close>

text \<open>The strategy: the token is verified, its owner exists and is active.\<close>

definition admin_jwt :: "staff_env \<Rightarrow> int \<Rightarrow> string \<Rightarrow> admin_db \<Rightarrow> json result" where
  "admin_jwt env now token s =
     (case we_verify env (we_secret env) now token of
        None \<Rightarrow> Inl (Http UNAUTHORIZED ''Unauthorized'')
      | Some claims \<Rightarrow>
          (case jget ''sub'' claims of
             JStr i \<Rightarrow> (case find_staff i s of
                 None \<Rightarrow> Inl (Http UNAUTHORIZED ''Unauthorized'')
               | Some u \<Rightarrow> if sf_isActive u then Inr claims else Inl (Http UNAUTHORIZED ''Unauthorized''))
           | _ \<Rightarrow> Inl invalid))"

definition roles_guard :: "string list option \<Rightarrow> json \<Rightarrow> bool" where
  "roles_guard required claims = (case required of None \<Rightarrow> True | Some rs \<Rightarrow> (case jget ''role'' claims of JStr r \<Rightarrow> r \<in> set rs | _ \<Rightarrow> False))"

definition permissions_guard :: "string list \<Rightarrow> json \<Rightarrow> admin_db \<Rightarrow> bool" where
  "permissions_guard required claims s =
     (required = [] \<or> (case jget ''sub'' claims of JStr i \<Rightarrow> i \<noteq> [] \<and> set required \<subseteq> set (getStaffPermissions i s) | _ \<Rightarrow> False))"

text \<open>The requests of \<open>admin/staff\<close>, \<open>admin/roles\<close> and \<open>admin/permissions\<close> that write, and those of \<open>admin/auth\<close> behind a token.\<close>

datatype staff_call = CreateStaff body | UpdateStaff string body | RemoveStaff string | ResetPassword string | ResendInvite string
  | DeactivateStaff string | ReactivateStaff string | AssignRole string string | RemoveRole string string
  | CreateRole body | UpdateRole string body | SyncPermissions string "string list" | RemovePermission string string
  | CreatePermission body | UpdatePermission string body | UpdateMe body | Logout

text \<open>The decorators \<open>@Roles\<close>. The class has no guard for permissions, so \<open>@RequirePermissions\<close> decides nothing here.\<close>

fun required_roles :: "staff_call \<Rightarrow> string list option" where
  "required_roles (CreateStaff b) = Some [''SUPER_ADMIN'']"
| "required_roles (UpdateStaff i b) = Some [''SUPER_ADMIN'']"
| "required_roles (RemoveStaff i) = Some [''SUPER_ADMIN'']"
| "required_roles (ResetPassword i) = Some [''SUPER_ADMIN'']"
| "required_roles (ResendInvite i) = Some [''SUPER_ADMIN'']"
| "required_roles (CreateRole b) = Some [''SUPER_ADMIN'']"
| "required_roles (SyncPermissions r ps) = Some [''SUPER_ADMIN'']"
| "required_roles (CreatePermission b) = Some [''SUPER_ADMIN'']"
| "required_roles _ = None"

definition outcome :: "'a result \<times> admin_db \<Rightarrow> unit result \<times> admin_db" where
  "outcome x = (case x of (Inl e, s) \<Rightarrow> (Inl e, s) | (Inr _, s) \<Rightarrow> (Inr (), s))"

fun perform :: "staff_env \<Rightarrow> staff_request \<Rightarrow> string \<Rightarrow> staff_call \<Rightarrow> (admin_db, unit) handler" where
  "perform env rq me (CreateStaff b) s = outcome (createStaff env rq b s)"
| "perform env rq me (UpdateStaff i b) s = outcome (updateStaff env rq i b s)"
| "perform env rq me (RemoveStaff i) s =
     (if me = i then (Inl (Http BAD_REQUEST ''You cannot remove your own account''), s) else outcome (removeStaff i s))"
| "perform env rq me (ResetPassword i) s = outcome (requestPasswordReset rq i False s)"
| "perform env rq me (ResendInvite i) s = outcome (requestPasswordReset rq i True s)"
| "perform env rq me (DeactivateStaff i) s =
     (if me = i then (Inl (Http BAD_REQUEST ''You cannot deactivate your own account''), s) else outcome (deactivateStaff rq i s))"
| "perform env rq me (ReactivateStaff i) s = outcome (reactivateStaff rq i s)"
| "perform env rq me (AssignRole i r) s = outcome (assignRole rq i r s)"
| "perform env rq me (RemoveRole i r) s = outcome (removeRole i r s)"
| "perform env rq me (CreateRole b) s = outcome (createRole env rq b s)"
| "perform env rq me (UpdateRole i b) s = outcome (updateRole env rq i b s)"
| "perform env rq me (SyncPermissions r ps) s = outcome (syncRolePermissions rq r ps s)"
| "perform env rq me (RemovePermission r p) s = outcome (removePermission r p s)"
| "perform env rq me (CreatePermission b) s = outcome (createPermission env rq b s)"
| "perform env rq me (UpdatePermission i b) s = outcome (updatePermission env rq i b s)"
| "perform env rq me (UpdateMe b) s = outcome (updateStaff env rq me b s)"
| "perform env rq me Logout s = outcome (clearRefreshToken rq me s)"

definition serve :: "staff_env \<Rightarrow> staff_request \<Rightarrow> string \<Rightarrow> staff_call \<Rightarrow> (admin_db, unit) handler" where
  "serve env rq token c s =
     (case admin_jwt env (wq_now rq) token s of
        Inl e \<Rightarrow> (Inl e, s)
      | Inr claims \<Rightarrow>
          if \<not> roles_guard (required_roles c) claims then (Inl (Http FORBIDDEN ''Forbidden resource''), s)
          else (case jget ''sub'' claims of JStr me \<Rightarrow> perform env rq me c s | _ \<Rightarrow> (Inl invalid, s)))"

text \<open>The routes of a reset and of an activation, which need no token.\<close>

definition confirmReset :: "staff_env \<Rightarrow> staff_request \<Rightarrow> json \<Rightarrow> json \<Rightarrow> (admin_db, unit) handler" where
  "confirmReset env rq token password s =
     (case resetPasswordWithToken env rq token password s of
        (Inl e, s1) \<Rightarrow> (Inl (Http BAD_REQUEST (case e of Http _ m \<Rightarrow> m | Plain m \<Rightarrow> m | Prisma c \<Rightarrow> c)), s1)
      | (Inr _, s1) \<Rightarrow> (Inr (), s1))"

end
