(* ===== verification/Staff_Props.thy ===== *)
theory Staff_Props
  imports Staff
begin

text \<open>
  Properties of the administrators' accounts, as long as the bodies of requests hold columns only: the unique
  columns, the relations and the hashed passwords of every reachable state, and the system roles that no request
  changes. Reset tokens and deactivation. And the ways around the guards: a body that is handed to the database
  client whole, a reset without a token, a profile update that makes its author a super administrator, and refresh
  tokens that are never accepted.
\<close>

section \<open>Tables without clashes\<close>

text \<open>No two rows of the table clash in a unique column.\<close>

lemma sorted_wrt_update_row:
  assumes "sorted_wrt (\<lambda>u v. \<not> clash u v) rows" "\<And>u v. clash u v = clash v u" "\<And>u v. key u = key v \<Longrightarrow> clash u v"
    and "\<And>r v. r \<in> set rows \<Longrightarrow> key r = i \<Longrightarrow> v \<in> set rows \<Longrightarrow> key v \<noteq> i \<Longrightarrow> \<not> clash (f r) v"
  shows "sorted_wrt (\<lambda>u v. \<not> clash u v) (update_where (\<lambda>r. key r = i) f rows)"
  using assms(1,4)
proof (induction rows)
  case (Cons r rows)
  have tail: "sorted_wrt (\<lambda>u v. \<not> clash u v) (update_where (\<lambda>r. key r = i) f rows)"
    using Cons.prems by (intro Cons.IH) auto
  have other: "\<not> clash r v" if "v \<in> set rows" for v using Cons.prems(1) that by simp
  show ?case
  proof (cases "key r = i")
    case True
    have k: "key v \<noteq> i" if "v \<in> set rows" for v using other [OF that] assms(3) [of r v] True by auto
    then have same: "update_where (\<lambda>r. key r = i) f rows = rows" by (rule update_where_none)
    have "\<not> clash (f r) v" if "v \<in> set rows" for v using Cons.prems(2) [of r v] True that k by simp
    then show ?thesis using True same Cons.prems(1) by simp
  next
    case False
    have "\<not> clash r v" if "v \<in> set (update_where (\<lambda>r. key r = i) f rows)" for v
    proof -
      obtain w where w: "w \<in> set rows" "v = (if key w = i then f w else w)" using \<open>v \<in> set _\<close> by (auto simp: set_update_where)
      show ?thesis
      proof (cases "key w = i")
        case True
        then have "\<not> clash (f w) r" using Cons.prems(2) [of w r] w(1) False by simp
        then show ?thesis using w(2) True assms(2) by metis
      next
        case False
        then show ?thesis using w other by simp
      qed
    qed
    then show ?thesis using tail False by simp
  qed
qed simp

lemma staff_clash_sym: "staff_clash u v = staff_clash v u"
  unfolding staff_clash_def by metis

lemma staff_clash_id: "sf_id u = sf_id v \<Longrightarrow> staff_clash u v"
  by (simp add: staff_clash_def)

definition role_clash :: "role \<Rightarrow> role \<Rightarrow> bool" where
  "role_clash p q \<longleftrightarrow> rl_id p = rl_id q \<or> rl_name p = rl_name q"

lemma role_clash_sym: "role_clash p q = role_clash q p"
  by (auto simp: role_clash_def)

definition staff_unique :: "staff list \<Rightarrow> bool" where
  "staff_unique us \<longleftrightarrow> sorted_wrt (\<lambda>u v. \<not> staff_clash u v) us"

definition role_unique :: "role list \<Rightarrow> bool" where
  "role_unique rs \<longleftrightarrow> sorted_wrt (\<lambda>p q. \<not> role_clash p q) rs"

lemma clash_member:
  assumes "sorted_wrt (\<lambda>u v. \<not> clash u v) rows" "\<And>u v. clash u v = clash v u" "u \<in> set rows" "v \<in> set rows" "clash u v"
  shows "u = v"
  using assms(1,3-5)
proof (induction rows)
  case (Cons r rows)
  have "clash v u" using assms(2) Cons.prems(4) by blast
  then show ?case using Cons by auto
qed simp

lemma staff_unique_member: "staff_unique us \<Longrightarrow> u \<in> set us \<Longrightarrow> v \<in> set us \<Longrightarrow> staff_clash u v \<Longrightarrow> u = v"
  unfolding staff_unique_def by (rule clash_member [OF _ staff_clash_sym])

lemma role_unique_member: "role_unique rs \<Longrightarrow> p \<in> set rs \<Longrightarrow> q \<in> set rs \<Longrightarrow> role_clash p q \<Longrightarrow> p = q"
  unfolding role_unique_def by (rule clash_member [OF _ role_clash_sym])

text \<open>A row found by its id is the only one.\<close>

lemma find_staff_member: "find_staff i s = Some u \<Longrightarrow> u \<in> set (staffs s) \<and> sf_id u = i"
  by (auto simp: find_staff_def dest: find_SomeD)

lemma find_role_member: "find_role i s = Some r \<Longrightarrow> r \<in> set (roles s) \<and> rl_id r = i"
  by (auto simp: find_role_def dest: find_SomeD)

lemma find_unique:
  assumes "x \<in> set xs" "P x" "\<And>y. y \<in> set xs \<Longrightarrow> P y \<Longrightarrow> y = x"
  shows "find P xs = Some x"
proof -
  obtain y where "find P xs = Some y" using assms(1,2) by (cases "find P xs") (auto simp: find_None_iff)
  then show ?thesis using assms(3) find_SomeD by metis
qed

lemma find_role_unique: "role_unique (roles s) \<Longrightarrow> r \<in> set (roles s) \<Longrightarrow> find_role (rl_id r) s = Some r"
  unfolding find_role_def by (rule find_unique) (simp_all add: role_unique_member role_clash_def)

lemma find_staff_unique: "staff_unique (staffs s) \<Longrightarrow> u \<in> set (staffs s) \<Longrightarrow> find_staff (sf_id u) s = Some u"
  unfolding find_staff_def by (rule find_unique) (simp_all add: staff_unique_member staff_clash_def)

section \<open>The state of every table\<close>

definition hashed :: "staff_env \<Rightarrow> string \<Rightarrow> bool" where
  "hashed env p \<longleftrightarrow> p = [] \<or> (\<exists>salt t. p = we_hash env salt t)"

definition relations_ok :: "admin_db \<Rightarrow> bool" where
  "relations_ok s \<longleftrightarrow> (\<forall>l\<in>set (staffRoles s). sl_staffId l \<in> sf_id ` set (staffs s) \<and> sl_roleId l \<in> rl_id ` set (roles s))"

definition admin_ok :: "staff_env \<Rightarrow> admin_db \<Rightarrow> bool" where
  "admin_ok env s \<longleftrightarrow> staff_unique (staffs s) \<and> role_unique (roles s) \<and> relations_ok s \<and> (\<forall>u\<in>set (staffs s). hashed env (sf_password u))"

text \<open>A write to one row that keeps the unique columns, or empties the token.\<close>

lemma update_one_staff:
  assumes "admin_ok env s" "\<And>u. sf_id (f u) = sf_id u \<and> sf_username (f u) = sf_username u \<and> sf_email (f u) = sf_email u"
    and "\<And>u. sf_resetToken (f u) = sf_resetToken u \<or> sf_resetToken (f u) = None \<or> (\<forall>v\<in>set (staffs s). sf_id v \<noteq> i \<longrightarrow> sf_resetToken v \<noteq> sf_resetToken (f u))"
    and "\<And>u. hashed env (sf_password u) \<Longrightarrow> hashed env (sf_password (f u))"
  shows "admin_ok env (set_staff i f s)"
proof -
  have u: "staff_unique (staffs s)" using assms(1) by (simp add: admin_ok_def)
  have "staff_unique (update_where (\<lambda>u. sf_id u = i) f (staffs s))"
    unfolding staff_unique_def
  proof (rule sorted_wrt_update_row [OF _ staff_clash_sym staff_clash_id])
    show "sorted_wrt (\<lambda>u v. \<not> staff_clash u v) (staffs s)" using u by (simp add: staff_unique_def)
    fix r v assume r: "r \<in> set (staffs s)" "sf_id r = i" "v \<in> set (staffs s)" "sf_id v \<noteq> i"
    have "\<not> staff_clash r v" using staff_unique_member [OF u r(1,3)] r by auto
    then show "\<not> staff_clash (f r) v" using assms(2,3) [of r] r by (auto simp: staff_clash_def)
  qed
  moreover have "sf_id ` set (update_where (\<lambda>u. sf_id u = i) f (staffs s)) = sf_id ` set (staffs s)"
    using map_update_where [of sf_id f _ "staffs s"] assms(2) by (metis set_map)
  moreover have "\<forall>u\<in>set (update_where (\<lambda>u. sf_id u = i) f (staffs s)). hashed env (sf_password u)"
    using assms(1,4) by (auto simp: set_update_where admin_ok_def)
  ultimately show ?thesis using assms(1) by (simp add: admin_ok_def relations_ok_def set_staff_def)
qed

text \<open>A system role with its grants and the permissions they give.\<close>

definition frozen :: "role \<Rightarrow> (role_permission \<times> permission) list \<Rightarrow> admin_db \<Rightarrow> bool" where
  "frozen r gs s \<longleftrightarrow> role_unique (roles s) \<and> r \<in> set (roles s) \<and> rl_isSystem r
     \<and> filter (\<lambda>g. gr_roleId g = rl_id r) (rolePermissions s) = map fst gs
     \<and> (\<forall>(g, p)\<in>set gs. find (\<lambda>p. pm_id p = gr_permissionId g) (permissions s) = Some p)"

lemma frozen_cong: "frozen r gs s \<Longrightarrow> roles s' = roles s \<Longrightarrow> rolePermissions s' = rolePermissions s \<Longrightarrow> permissions s' = permissions s \<Longrightarrow> frozen r gs s'"
  by (simp add: frozen_def)

lemma frozen_system: "frozen r gs s \<Longrightarrow> is_system (rl_id r) s"
  by (auto simp: frozen_def is_system_def find_role_unique)

lemma admin_ok_cong:
  "admin_ok env s \<Longrightarrow> staffs s' = staffs s \<Longrightarrow> roles s' = roles s \<Longrightarrow> staffRoles s' = staffRoles s \<Longrightarrow> admin_ok env s'"
  by (simp add: admin_ok_def relations_ok_def)

text \<open>The contract of every operation on the accounts.\<close>

locale table_operation =
  fixes env :: staff_env and run :: "(admin_db, 'r) handler"
  assumes tables: "admin_ok env s \<Longrightarrow> admin_ok env (snd (run s))"
begin

lemma tables_outcome: "admin_ok env s \<Longrightarrow> admin_ok env (snd (outcome (run s)))"
  using tables [of s] by (cases "run s") (auto simp: outcome_def split: sum.split)

end

text \<open>The contract of those that leave system roles and their permissions alone: all but \<open>updatePermission\<close>.\<close>

locale admin_operation = table_operation env run
  for env :: staff_env and run :: "(admin_db, 'r) handler" +
  assumes system: "frozen r gs s \<Longrightarrow> frozen r gs (snd (run s))"
begin

lemma system_outcome: "frozen r gs s \<Longrightarrow> frozen r gs (snd (outcome (run s)))"
  using system [of r gs s] by (cases "run s") (auto simp: outcome_def split: sum.split)

end

lemma set_staff_frozen: "frozen r gs s \<Longrightarrow> frozen r gs (set_staff i f s)"
  by (erule frozen_cong) (simp_all add: set_staff_def)

lemma hashed_hash [simp]: "hashed env (we_hash env salt p)"
  by (auto simp: hashed_def)

text \<open>Updates of columns that are neither unique nor the password.\<close>

lemma update_staff_ok:
  assumes "admin_ok env s" "\<And>u. sf_id (f u) = sf_id u \<and> sf_username (f u) = sf_username u \<and> sf_email (f u) = sf_email u \<and> sf_resetToken (f u) = sf_resetToken u \<and> sf_password (f u) = sf_password u"
  shows "admin_ok env (snd (update_staff i f s))"
proof -
  have "admin_ok env (set_staff i f s)" by (rule update_one_staff) (use assms in simp_all)
  then show ?thesis using assms(1) by (simp add: update_staff_def split: option.split)
qed

lemma update_staff_frozen: "frozen r gs s \<Longrightarrow> frozen r gs (snd (update_staff i f s))"
  using set_staff_frozen [of r gs s i f] by (simp add: update_staff_def split: option.split)

interpretation remember: admin_operation env "updateRefreshTokenHash env rq i token" for env rq i token
  by unfold_locales (auto simp: updateRefreshTokenHash_def intro!: update_staff_ok update_staff_frozen)

interpretation forget: admin_operation env "clearRefreshToken rq i" for env rq i
  by unfold_locales (auto simp: clearRefreshToken_def intro!: update_staff_ok update_staff_frozen)

interpretation deactivate: admin_operation env "deactivateStaff rq i" for env rq i
  by unfold_locales (auto simp: deactivateStaff_def intro!: update_staff_ok update_staff_frozen)

interpretation reactivate: admin_operation env "reactivateStaff rq i" for env rq i
  by unfold_locales (auto simp: reactivateStaff_def intro!: update_staff_ok update_staff_frozen)

lemma send_mail_ok [simp]: "admin_ok env (send_mail rq k e t s) = admin_ok env s" "frozen r gs (send_mail rq k e t s) = frozen r gs s"
  by (simp_all add: send_mail_def admin_ok_def relations_ok_def frozen_def)

interpretation reset_request: admin_operation env "requestPasswordReset rq i inv" for env rq i inv
proof
  fix s assume ok: "admin_ok env s"
  show "admin_ok env (snd (requestPasswordReset rq i inv s))"
  proof (cases "find_staff i s = None \<or> (\<exists>v\<in>set (staffs s). sf_id v \<noteq> i \<and> sf_resetToken v = Some (wq_token rq))")
    case True
    then show ?thesis using ok by (auto simp: requestPasswordReset_def split: option.split)
  next
    case False
    have "admin_ok env (set_staff i (\<lambda>u. u\<lparr>sf_resetToken := Some (wq_token rq), sf_resetTokenExpiry := Some (wq_now rq + RESET_TTL_MS), sf_updatedAt := wq_now rq\<rparr>) s)"
      by (rule update_one_staff [OF ok]) (use False in auto)
    then show ?thesis using False ok by (auto simp: requestPasswordReset_def Let_def split: option.split)
  qed
next
  fix r gs s assume "frozen r gs s"
  then show "frozen r gs (snd (requestPasswordReset rq i inv s))"
    using set_staff_frozen [of r gs s] by (auto simp: requestPasswordReset_def Let_def split: option.split)
qed

lemma complexity_ok_reset: "admin_ok env s \<Longrightarrow> admin_ok env (set_staff i (\<lambda>u. u\<lparr>sf_password := we_hash env salt p, sf_resetToken := None,
    sf_resetTokenExpiry := None, sf_isActive := True, sf_updatedAt := now\<rparr>) s)"
  by (rule update_one_staff) simp_all

interpretation reset: admin_operation env "resetPasswordWithToken env rq token p" for env rq token p
  by unfold_locales (auto simp: resetPasswordWithToken_def intro: complexity_ok_reset set_staff_frozen split: option.split json.split)

subsection \<open>Updates from a body\<close>

text \<open>The keys of a JSON object are distinct, so a password is written as it was checked.\<close>

definition password_written :: "staff_env \<Rightarrow> body \<Rightarrow> bool" where
  "password_written env fs \<longleftrightarrow> (\<forall>t. (''password'', JStr t) \<in> set fs \<longrightarrow> hashed env t)"

lemma hash_password_written:
  assumes "hash_password env rq b = Inr fs" "distinct (map fst b)"
  shows "password_written env fs"
proof (cases "truthy (field ''password'' b)")
  case False
  then have "fs = b" using assms(1) by (simp add: hash_password_def)
  moreover have "t = []" if "(''password'', JStr t) \<in> set b" for t
    using False map_of_is_SomeI [OF assms(2) that] by (simp add: field_def)
  ultimately show ?thesis by (auto simp: password_written_def hashed_def)
next
  case True
  then obtain p where "fs = map (\<lambda>(k, v). if k = ''password'' then (k, JStr (we_hash env (wq_salt rq) p)) else (k, v)) b"
    using assms(1) by (auto simp: hash_password_def split: json.splits option.splits)
  then show ?thesis by (auto simp: password_written_def split: if_splits)
qed

lemma set_staff_column_password: "sf_password (set_staff_column (k, v) u) = (case v of JStr t \<Rightarrow> if k = ''password'' then t else sf_password u | _ \<Rightarrow> sf_password u)"
  by (cases v) simp_all

lemma set_columns_password:
  "password_written env fs \<Longrightarrow> hashed env (sf_password u) \<Longrightarrow> hashed env (sf_password (set_columns set_staff_column fs u))"
proof (induction fs arbitrary: u)
  case (Cons c fs)
  have "hashed env (sf_password (set_staff_column c u))"
    using Cons.prems by (cases c; cases "snd c") (auto simp: set_staff_column_password password_written_def)
  then show ?case using Cons by (simp add: set_columns_def password_written_def)
qed (simp add: set_columns_def)

lemma write_staff_columns_ok:
  assumes ok: "admin_ok env s" and "password_written env fs"
  shows "admin_ok env (snd (write_staff_columns rq i fs s))"
proof (cases "find_staff i s \<noteq> None")
  case False
  then show ?thesis using ok by (auto simp: write_staff_columns_def split: option.split)
next
  case True
  then obtain u where u: "find_staff i s = Some u" by blast
  define u' where "u' = (set_columns set_staff_column fs u)\<lparr>sf_updatedAt := wq_now rq\<rparr>"
  show ?thesis
  proof (cases "\<exists>v\<in>set (staffs s). sf_id v \<noteq> i \<and> staff_clash u' v")
    case clash: True
    then show ?thesis using ok True u by (simp add: write_staff_columns_def u'_def [symmetric] Let_def)
  next
    case False
    let ?us = "update_where (\<lambda>v. sf_id v = i) (\<lambda>_. u') (staffs s)"
    have run: "snd (write_staff_columns rq i fs s) = s\<lparr>staffs := ?us,
        staffRoles := update_where (\<lambda>l. sl_staffId l = i) (\<lambda>l. l\<lparr>sl_staffId := sf_id u'\<rparr>) (staffRoles s)\<rparr>"
      using True u False by (auto simp: write_staff_columns_def u'_def [symmetric] Let_def)
    have m: "u \<in> set (staffs s)" "sf_id u = i" using find_staff_member [OF u] by auto
    have "sorted_wrt (\<lambda>u v. \<not> staff_clash u v) ?us"
      by (rule sorted_wrt_update_row [OF _ staff_clash_sym staff_clash_id]) (use ok False in \<open>auto simp: admin_ok_def staff_unique_def\<close>)
    moreover have "hashed env (sf_password u')" using set_columns_password [OF assms(2)] ok m(1) by (simp add: u'_def admin_ok_def)
    moreover have "sf_id u' \<in> sf_id ` set ?us" using m by (force simp: set_update_where)
    moreover have "sf_id v \<in> sf_id ` set ?us" if "v \<in> set (staffs s)" "sf_id v \<noteq> i" for v
      using that by (force simp: set_update_where)
    ultimately show ?thesis using ok unfolding run
      by (fastforce simp: admin_ok_def relations_ok_def staff_unique_def set_update_where split: if_splits)
  qed
qed

lemma write_staff_columns_frozen: "frozen r gs s \<Longrightarrow> frozen r gs (snd (write_staff_columns rq i fs s))"
  by (erule frozen_cong) (auto simp: write_staff_columns_def Let_def split: option.split)

lemma drop_roles_ok [simp]: "admin_ok env s \<Longrightarrow> admin_ok env (drop_roles i s)" "frozen r gs s \<Longrightarrow> frozen r gs (drop_roles i s)"
  by (auto simp: drop_roles_def admin_ok_def relations_ok_def frozen_def)

lemma connect_role_ok: "admin_ok env s \<Longrightarrow> admin_ok env (snd (connect_role rq i name s))"
  by (auto simp: connect_role_def admin_ok_def relations_ok_def dest!: find_SomeD find_staff_member split: json.split option.split)

lemma connect_role_frozen: "frozen r gs s \<Longrightarrow> frozen r gs (snd (connect_role rq i name s))"
  by (erule frozen_cong) (auto simp: connect_role_def split: json.split option.split)

lemma update_tx_ok:
  assumes "admin_ok env s" "password_written env fs" and plain: "list_all staff_column_ok fs"
  shows "admin_ok env (snd (update_tx env rq i fs name s))"
proof (cases "write_staff env rq i fs s")
  case (Pair r s1)
  then have "admin_ok env s1" using write_staff_columns_ok [OF assms(1,2), of rq i] plain by (simp add: write_staff_def)
  then show ?thesis using connect_role_ok [of env "drop_roles i s1" rq i name] Pair
    by (auto simp: update_tx_def split: sum.split prod.split)
qed

lemma update_tx_frozen: "list_all staff_column_ok fs \<Longrightarrow> frozen r gs s \<Longrightarrow> frozen r gs (snd (update_tx env rq i fs name s))"
proof (cases "write_staff env rq i fs s")
  case (Pair x s1)
  assume "list_all staff_column_ok fs" "frozen r gs s"
  then have "frozen r gs s1" using write_staff_columns_frozen [of r gs s rq i fs] Pair by (simp add: write_staff_def)
  then show ?thesis using connect_role_frozen [of r gs "drop_roles i s1" rq i name] Pair
    by (auto simp: update_tx_def split: sum.split prod.split)
qed

lemma transaction_keeps: "I s \<Longrightarrow> I (snd (f s)) \<Longrightarrow> I (snd (transaction f s))"
  by (rule transaction_invariant) auto

definition staff_columns :: "body \<Rightarrow> bool" where
  "staff_columns b \<longleftrightarrow> list_all staff_column_ok (filter (\<lambda>(k, _). k \<noteq> ''role'') b)"

lemma hash_password_columns: "hash_password env rq b = Inr fs \<Longrightarrow> list_all staff_column_ok b \<Longrightarrow> list_all staff_column_ok fs"
  by (auto simp: hash_password_def list_all_iff split: if_splits json.splits option.splits)

lemma updateStaff_ok:
  assumes ok: "admin_ok env s" and "distinct (map fst b)" "staff_columns b"
  shows "admin_ok env (snd (updateStaff env rq i b s))"
proof -
  have d: "distinct (map fst (filter (\<lambda>(k, _). k \<noteq> ''role'') b))" using assms(2) by (simp add: distinct_map_filter)
  show ?thesis
  proof (cases "hash_password env rq (filter (\<lambda>(k, _). k \<noteq> ''role'') b)")
    case (Inr fs)
    have "list_all staff_column_ok fs" using hash_password_columns [OF Inr] assms(3) by (simp add: staff_columns_def)
    from transaction_keeps [of "admin_ok env" s "update_tx env rq i fs (field ''role'' b)", OF ok update_tx_ok [OF ok hash_password_written [OF Inr d] this]]
    show ?thesis using Inr by (simp add: updateStaff_def)
  qed (simp add: updateStaff_def ok)
qed

lemma updateStaff_frozen:
  assumes f: "frozen r gs s" and b: "staff_columns b"
  shows "frozen r gs (snd (updateStaff env rq i b s))"
proof (cases "hash_password env rq (filter (\<lambda>(k, _). k \<noteq> ''role'') b)")
  case (Inr fs)
  have "list_all staff_column_ok fs" using hash_password_columns [OF Inr] b by (simp add: staff_columns_def)
  from transaction_keeps [of "frozen r gs" s "update_tx env rq i fs (field ''role'' b)", OF f update_tx_frozen [OF this f]]
  show ?thesis using Inr by (simp add: updateStaff_def)
qed (simp add: updateStaff_def f)

subsection \<open>New and removed members\<close>

lemma create_tx_ok:
  assumes "admin_ok env s" "hashed env (sf_password u)"
  shows "admin_ok env (snd (create_tx rq u name s))"
proof (cases "list_ex (staff_clash u) (staffs s)")
  case True
  then show ?thesis using assms(1) by (simp add: create_tx_def)
next
  case False
  then have "\<forall>v\<in>set (staffs s). \<not> staff_clash v u" by (metis list_ex_iff staff_clash_sym)
  then have "admin_ok env (s\<lparr>staffs := staffs s @ [u]\<rparr>)"
    using assms by (auto simp: admin_ok_def staff_unique_def sorted_wrt_append relations_ok_def)
  then show ?thesis using False connect_role_ok [of env "s\<lparr>staffs := staffs s @ [u]\<rparr>" rq "sf_id u" name] by (simp add: create_tx_def Let_def)
qed

lemma create_tx_frozen: "frozen r gs s \<Longrightarrow> frozen r gs (snd (create_tx rq u name s))"
  using connect_role_frozen [of r gs "s\<lparr>staffs := staffs s @ [u]\<rparr>" rq "sf_id u" name] by (auto simp: create_tx_def Let_def frozen_def)

lemma new_password_hashed: "new_password env rq b = Some pw \<Longrightarrow> hashed env pw"
  by (auto simp: new_password_def split: json.splits list.splits if_splits)

lemma new_staff_password: "new_staff rq pw b = Some u \<Longrightarrow> sf_password u = pw"
  by (auto simp: new_staff_def split: json.splits)

lemma createStaff_cases:
  assumes "I s" "\<And>pw u. new_password env rq b = Some pw \<Longrightarrow> new_staff rq pw b = Some u \<Longrightarrow> I (snd (create_tx rq u (field ''role'' b) s))"
    and "\<And>x :: staff. \<And>t. I (send_mail rq ADMIN_INVITE (sf_email x) (wq_token rq) t) = I t"
  shows "I (snd (createStaff env rq b s))"
proof (cases "\<exists>pw u. new_password env rq b = Some pw \<and> new_staff rq pw b = Some u")
  case False
  then show ?thesis using assms(1) by (auto simp: createStaff_def split: option.split)
next
  case True
  then obtain pw u where n: "new_password env rq b = Some pw" "new_staff rq pw b = Some u" by blast
  obtain r s1 where t: "transaction (create_tx rq u (field ''role'' b)) s = (r, s1)" by fastforce
  have "I s1" using transaction_keeps [of I s "create_tx rq u (field ''role'' b)", OF assms(1) assms(2) [OF n]] t by simp
  then show ?thesis using assms(3) by (simp add: createStaff_def n t split: sum.split)
qed

interpretation create: admin_operation env "createStaff env rq b" for env rq b
proof
  fix s assume ok: "admin_ok env s"
  show "admin_ok env (snd (createStaff env rq b s))"
    by (rule createStaff_cases [where I = "admin_ok env"]) (simp_all add: ok create_tx_ok new_password_hashed new_staff_password)
next
  fix r gs s assume "frozen r gs s"
  then show "frozen r gs (snd (createStaff env rq b s))"
    by (intro createStaff_cases [where I = "frozen r gs"]) (simp_all add: create_tx_frozen)
qed

interpretation remove: admin_operation env "removeStaff i" for env i
proof
  fix s assume "admin_ok env s"
  then show "admin_ok env (snd (removeStaff i s))"
    by (auto simp: removeStaff_def drop_roles_def admin_ok_def staff_unique_def sorted_wrt_filter relations_ok_def split: option.split)
next
  fix r gs s assume "frozen r gs s"
  then show "frozen r gs (snd (removeStaff i s))" by (auto simp: removeStaff_def drop_roles_def frozen_def split: option.split)
qed


subsection \<open>Roles and permissions\<close>

interpretation assign: admin_operation env "assignRole rq i r" for env rq i r
proof
  fix s assume "admin_ok env s"
  then show "admin_ok env (snd (assignRole rq i r s))"
    by (auto simp: assignRole_def Let_def admin_ok_def relations_ok_def dest!: find_staff_member find_role_member)
next
  fix q gs s assume "frozen q gs s"
  then show "frozen q gs (snd (assignRole rq i r s))" by (auto simp: assignRole_def Let_def frozen_def)
qed

interpretation unassign: admin_operation env "removeRole i r" for env i r
  by unfold_locales (auto simp: removeRole_def admin_ok_def relations_ok_def frozen_def)

lemma role_unique_append: "role_unique rs \<Longrightarrow> \<not> (\<exists>q\<in>set rs. rl_id q = rl_id r \<or> rl_name q = rl_name r) \<Longrightarrow> role_unique (rs @ [r])"
  by (auto simp: role_unique_def sorted_wrt_append role_clash_def)

text \<open>A body of columns is one that is left alone when the others are taken out.\<close>

lemma columns_filter: "list_all ok b \<Longrightarrow> filter ok b = b" "list_all ok (filter ok b)"
  by (simp_all add: list_all_iff)

interpretation new_role: admin_operation env "createRole env rq (filter role_column_ok b)" for env rq b
proof
  fix s assume "admin_ok env s"
  then show "admin_ok env (snd (createRole env rq (filter role_column_ok b) s))"
    by (auto simp: createRole_def create_role_columns_def columns_filter Let_def admin_ok_def relations_ok_def role_unique_append)
next
  fix r gs s assume "frozen r gs s"
  then show "frozen r gs (snd (createRole env rq (filter role_column_ok b) s))"
    by (auto simp: createRole_def create_role_columns_def columns_filter Let_def frozen_def role_unique_append)
qed

lemma updateRole_run:
  assumes plain: "list_all role_column_ok b" and "snd (updateRole env rq i b s) \<noteq> s"
  obtains q where "snd (updateRole env rq i b s) = s\<lparr>roles := update_where (\<lambda>r. rl_id r = i) (\<lambda>_. q) (roles s),
      staffRoles := update_where (\<lambda>l. sl_roleId l = i) (\<lambda>l. l\<lparr>sl_roleId := rl_id q\<rparr>) (staffRoles s),
      rolePermissions := update_where (\<lambda>g. gr_roleId g = i) (\<lambda>g. g\<lparr>gr_roleId := rl_id q\<rparr>) (rolePermissions s)\<rparr>"
    "\<not> is_system i s" "find_role i s \<noteq> None" "\<forall>v\<in>set (roles s). rl_id v \<noteq> i \<longrightarrow> \<not> role_clash q v"
proof -
  have c: "\<not> is_system i s" "find_role i s \<noteq> None" using assms by (auto simp: updateRole_def update_role_columns_def split: if_splits option.splits)
  then obtain r where r: "find_role i s = Some r" by blast
  define q where "q = (set_columns set_role_column b r)\<lparr>rl_updatedAt := wq_now rq\<rparr>"
  have n: "\<not> (\<exists>v\<in>set (roles s). rl_id v \<noteq> i \<and> (rl_id v = rl_id q \<or> rl_name v = rl_name q))"
    using assms c r by (auto simp: updateRole_def update_role_columns_def q_def [symmetric] Let_def split: if_splits)
  show thesis
  proof (rule that [of q])
    show "snd (updateRole env rq i b s) = s\<lparr>roles := update_where (\<lambda>r. rl_id r = i) (\<lambda>_. q) (roles s),
      staffRoles := update_where (\<lambda>l. sl_roleId l = i) (\<lambda>l. l\<lparr>sl_roleId := rl_id q\<rparr>) (staffRoles s),
      rolePermissions := update_where (\<lambda>g. gr_roleId g = i) (\<lambda>g. g\<lparr>gr_roleId := rl_id q\<rparr>) (rolePermissions s)\<rparr>"
      using plain c r n by (auto simp: updateRole_def update_role_columns_def q_def Let_def)
  qed (use c n in \<open>auto simp: role_clash_def\<close>)
qed

lemma update_role_unique:
  assumes "role_unique rs" "\<forall>v\<in>set rs. rl_id v \<noteq> i \<longrightarrow> \<not> role_clash q v"
  shows "role_unique (update_where (\<lambda>r. rl_id r = i) (\<lambda>_. q) rs)"
  unfolding role_unique_def
  by (rule sorted_wrt_update_row [where key = rl_id, OF _ role_clash_sym]) (use assms in \<open>auto simp: role_unique_def role_clash_def\<close>)


interpretation edit_role: admin_operation env "updateRole env rq i (filter role_column_ok b)" for env rq i b
proof
  let ?b = "filter role_column_ok b"
  fix s assume ok: "admin_ok env s"
  show "admin_ok env (snd (updateRole env rq i ?b s))"
  proof (cases "snd (updateRole env rq i ?b s) = s")
    case False
    then show ?thesis
    proof (rule updateRole_run [OF columns_filter(2)])
      fix q assume run: "snd (updateRole env rq i ?b s) = s\<lparr>roles := update_where (\<lambda>r. rl_id r = i) (\<lambda>_. q) (roles s),
          staffRoles := update_where (\<lambda>l. sl_roleId l = i) (\<lambda>l. l\<lparr>sl_roleId := rl_id q\<rparr>) (staffRoles s),
          rolePermissions := update_where (\<lambda>g. gr_roleId g = i) (\<lambda>g. g\<lparr>gr_roleId := rl_id q\<rparr>) (rolePermissions s)\<rparr>"
        and e: "find_role i s \<noteq> None" and n: "\<forall>v\<in>set (roles s). rl_id v \<noteq> i \<longrightarrow> \<not> role_clash q v"
      let ?rs = "update_where (\<lambda>r. rl_id r = i) (\<lambda>_. q) (roles s)"
      obtain r where "r \<in> set (roles s)" "rl_id r = i" using e find_role_member by blast
      then have "rl_id q \<in> rl_id ` set ?rs" by (force simp: set_update_where)
      moreover have "rl_id v \<in> rl_id ` set ?rs" if "v \<in> set (roles s)" "rl_id v \<noteq> i" for v using that by (force simp: set_update_where)
      moreover have "role_unique ?rs" using update_role_unique [OF _ n] ok by (simp add: admin_ok_def)
      ultimately show ?thesis using ok unfolding run by (fastforce simp: admin_ok_def relations_ok_def set_update_where split: if_splits)
    qed
  qed (simp add: ok)
next
  let ?b = "filter role_column_ok b"
  fix r gs s assume f: "frozen r gs s"
  show "frozen r gs (snd (updateRole env rq i ?b s))"
  proof (cases "snd (updateRole env rq i ?b s) = s")
    case False
    then show ?thesis
    proof (rule updateRole_run [OF columns_filter(2)])
      fix q assume run: "snd (updateRole env rq i ?b s) = s\<lparr>roles := update_where (\<lambda>r. rl_id r = i) (\<lambda>_. q) (roles s),
          staffRoles := update_where (\<lambda>l. sl_roleId l = i) (\<lambda>l. l\<lparr>sl_roleId := rl_id q\<rparr>) (staffRoles s),
          rolePermissions := update_where (\<lambda>g. gr_roleId g = i) (\<lambda>g. g\<lparr>gr_roleId := rl_id q\<rparr>) (rolePermissions s)\<rparr>"
        and sys: "\<not> is_system i s" and n: "\<forall>v\<in>set (roles s). rl_id v \<noteq> i \<longrightarrow> \<not> role_clash q v"
      have i: "rl_id r \<noteq> i" using frozen_system [OF f] sys by auto
      then have q: "rl_id q \<noteq> rl_id r" using n f by (auto simp: frozen_def role_clash_def)
      have "filter (\<lambda>g. gr_roleId g = rl_id r) (update_where (\<lambda>g. gr_roleId g = i) (\<lambda>g. g\<lparr>gr_roleId := rl_id q\<rparr>) gs')
          = filter (\<lambda>g. gr_roleId g = rl_id r) gs'" for gs' :: "role_permission list" using i q by (induction gs') auto
      moreover have "r \<in> set (update_where (\<lambda>r. rl_id r = i) (\<lambda>_. q) (roles s))" using f i by (force simp: frozen_def set_update_where)
      moreover have "role_unique (update_where (\<lambda>r. rl_id r = i) (\<lambda>_. q) (roles s))" using update_role_unique [OF _ n] f by (simp add: frozen_def)
      ultimately show ?thesis using f unfolding run by (simp add: frozen_def)
    qed
  qed (simp add: f)
qed

text \<open>Grants leave the other tables alone, and every role but their own.\<close>

lemma grant_effect: "grant rq k r p s = (x, s') \<Longrightarrow> \<exists>gs. s' = s\<lparr>rolePermissions := rolePermissions s @ gs\<rparr> \<and> (\<forall>g\<in>set gs. gr_roleId g = r)"
  by (auto simp: grant_def Let_def split: if_splits intro: exI [of _ "[]"])

lemma grant_all_effect: "grant_all rq k r ps s = (x, s') \<Longrightarrow> \<exists>gs. s' = s\<lparr>rolePermissions := rolePermissions s @ gs\<rparr> \<and> (\<forall>g\<in>set gs. gr_roleId g = r)"
proof (induction rq k r ps s rule: grant_all.induct)
  case (1 rq k r s)
  then show ?case by (auto intro: exI [of _ "[]"])
next
  case (2 rq k r p ps s)
  obtain y s1 where g: "grant rq k r p s = (y, s1)" by fastforce
  obtain gs where gs: "s1 = s\<lparr>rolePermissions := rolePermissions s @ gs\<rparr>" "\<forall>g\<in>set gs. gr_roleId g = r" using grant_effect [OF g] by blast
  show ?case
  proof (cases y)
    case (Inl e)
    then show ?thesis using 2(2) g gs by auto
  next
    case (Inr v)
    then have "grant_all rq (Suc k) r ps s1 = (x, s')" using 2(2) g by simp
    then obtain hs where "s' = s1\<lparr>rolePermissions := rolePermissions s1 @ hs\<rparr>" "\<forall>g\<in>set hs. gr_roleId g = r" using 2(1) [OF g [symmetric] Inr] by blast
    then show ?thesis using gs by (intro exI [of _ "gs @ hs"]) auto
  qed
qed

interpretation sync: admin_operation env "syncRolePermissions rq r ps" for env rq r ps
proof
  fix s assume ok: "admin_ok env s"
  let ?t = "s\<lparr>rolePermissions := filter (\<lambda>g. gr_roleId g \<noteq> r) (rolePermissions s)\<rparr>"
  obtain x s' where run: "grant_all rq 0 r ps ?t = (x, s')" by fastforce
  have "admin_ok env s'" using grant_all_effect [OF run] ok by (auto simp: admin_ok_def relations_ok_def)
  then show "admin_ok env (snd (syncRolePermissions rq r ps s))"
    using transaction_keeps [of "admin_ok env" s "\<lambda>s. grant_all rq 0 r ps (s\<lparr>rolePermissions := filter (\<lambda>g. gr_roleId g \<noteq> r) (rolePermissions s)\<rparr>)", OF ok] run ok
    by (simp add: syncRolePermissions_def)
next
  fix q gs s assume f: "frozen q gs s"
  show "frozen q gs (snd (syncRolePermissions rq r ps s))"
  proof (cases "is_system r s")
    case False
    then have r: "rl_id q \<noteq> r" using frozen_system [OF f] by auto
    let ?t = "s\<lparr>rolePermissions := filter (\<lambda>g. gr_roleId g \<noteq> r) (rolePermissions s)\<rparr>"
    obtain x s' where run: "grant_all rq 0 r ps ?t = (x, s')" by fastforce
    obtain hs where hs: "s' = ?t\<lparr>rolePermissions := rolePermissions ?t @ hs\<rparr>" "\<forall>g\<in>set hs. gr_roleId g = r" using grant_all_effect [OF run] by blast
    have "filter (\<lambda>g. gr_roleId g = rl_id q) hs = []" using hs(2) r by (auto simp: filter_empty_conv)
    moreover have "filter (\<lambda>g. gr_roleId g = rl_id q) (filter (\<lambda>g. gr_roleId g \<noteq> r) (rolePermissions s)) = filter (\<lambda>g. gr_roleId g = rl_id q) (rolePermissions s)"
      using r by (auto intro: filter_cong)
    ultimately have "frozen q gs s'" using f hs(1) by (simp add: frozen_def)
    then show ?thesis
      using transaction_keeps [of "frozen q gs" s "\<lambda>s. grant_all rq 0 r ps (s\<lparr>rolePermissions := filter (\<lambda>g. gr_roleId g \<noteq> r) (rolePermissions s)\<rparr>)", OF f] run f
      by (simp add: syncRolePermissions_def)
  qed (simp add: syncRolePermissions_def f)
qed

interpretation allow: admin_operation env "assignPermission rq r p" for env rq r p
proof
  fix s assume ok: "admin_ok env s"
  obtain x s' where run: "grant rq 0 r p s = (x, s')" by fastforce
  then have "admin_ok env s'" using grant_effect [OF run] ok by (auto simp: admin_ok_def relations_ok_def)
  then show "admin_ok env (snd (assignPermission rq r p s))" using run ok by (simp add: assignPermission_def)
next
  fix q gs s assume f: "frozen q gs s"
  obtain x s' where run: "grant rq 0 r p s = (x, s')" by fastforce
  then obtain hs where hs: "s' = s\<lparr>rolePermissions := rolePermissions s @ hs\<rparr>" "\<forall>g\<in>set hs. gr_roleId g = r" using grant_effect by blast
  show "frozen q gs (snd (assignPermission rq r p s))"
  proof (cases "is_system r s")
    case False
    then have "filter (\<lambda>g. gr_roleId g = rl_id q) hs = []" using hs(2) frozen_system [OF f] by (auto simp: filter_empty_conv)
    then show ?thesis using f hs(1) run False by (simp add: assignPermission_def frozen_def)
  qed (simp add: assignPermission_def f)
qed

interpretation disallow: admin_operation env "removePermission r p" for env r p
proof
  fix s assume "admin_ok env s"
  then show "admin_ok env (snd (removePermission r p s))" by (simp add: removePermission_def admin_ok_def relations_ok_def)
next
  fix q gs s assume f: "frozen q gs s"
  show "frozen q gs (snd (removePermission r p s))"
  proof (cases "is_system r s")
    case False
    then have "rl_id q \<noteq> r" using frozen_system [OF f] by auto
    then have "filter (\<lambda>g. gr_roleId g = rl_id q) (filter (\<lambda>g. \<not> (gr_roleId g = r \<and> gr_permissionId g = p)) (rolePermissions s))
        = filter (\<lambda>g. gr_roleId g = rl_id q) (rolePermissions s)" by (auto intro: filter_cong)
    then show ?thesis using f False by (simp add: removePermission_def frozen_def)
  qed (simp add: removePermission_def f)
qed

lemma find_append_some: "find P xs = Some x \<Longrightarrow> find P (xs @ ys) = Some x"
  by (induction xs) (auto split: if_splits)

interpretation new_permission: admin_operation env "createPermission env rq (filter permission_column_ok b)" for env rq b
  by unfold_locales
    (auto simp: createPermission_def create_permission_columns_def columns_filter Let_def admin_ok_def relations_ok_def frozen_def find_append_some)

interpretation edit_permission: table_operation env "updatePermission env rq i (filter permission_column_ok b)" for env rq i b
  by unfold_locales (auto simp: updatePermission_def update_permission_columns_def columns_filter Let_def admin_ok_def relations_ok_def split: option.split)

section \<open>Every request\<close>

lemma open_session_state: "snd (open_session env rq u rs s) = snd (updateRefreshTokenHash env rq (sf_id u) (we_sign env (we_refreshSecret env) (wq_now rq) ADMIN_REFRESH_TTL (admin_claims u rs)) s)"
  by (simp add: open_session_def Let_def split: sum.split prod.split)

interpretation session: admin_operation env "open_session env rq u rs" for env rq u rs
  by unfold_locales (simp_all add: open_session_state remember.tables remember.system)

interpretation login: admin_operation env "admin_login env rq email p" for env rq email p
  by unfold_locales (auto simp: admin_login_def session.tables session.system split: option.split)

lemma admin_refresh_state: "snd (admin_refresh env rq i token s) = s \<or> (\<exists>u rs. snd (admin_refresh env rq i token s) = snd (open_session env rq u rs s))"
proof -
  have "snd (case x of (Inl e, s1) \<Rightarrow> (Inl refresh_failed, s1) | (Inr v, s1) \<Rightarrow> (Inr v, s1)) = snd x" for x :: "admin_session result \<times> admin_db"
    by (simp split: sum.split prod.split)
  then show ?thesis unfolding admin_refresh_def by (simp split: option.split list.split) blast
qed

interpretation refresh: admin_operation env "admin_refresh env rq i token" for env rq i token
proof
  fix s assume "admin_ok env s"
  then show "admin_ok env (snd (admin_refresh env rq i token s))" using admin_refresh_state [of env rq i token s] session.tables by metis
next
  fix r gs s assume "frozen r gs s"
  then show "frozen r gs (snd (admin_refresh env rq i token s))" using admin_refresh_state [of env rq i token s] session.system by metis
qed

interpretation confirm: admin_operation env "confirmReset env rq token p" for env rq token p
proof -
  have "snd (confirmReset env rq token p s) = snd (resetPasswordWithToken env rq token p s)" for s
    by (simp add: confirmReset_def split: sum.split prod.split)
  then show "admin_operation env (confirmReset env rq token p)" by unfold_locales (simp_all add: reset.tables reset.system)
qed

fun body_of :: "staff_call \<Rightarrow> body" where
  "body_of (CreateStaff b) = b"
| "body_of (UpdateStaff i b) = b"
| "body_of (CreateRole b) = b"
| "body_of (UpdateRole i b) = b"
| "body_of (CreatePermission b) = b"
| "body_of (UpdatePermission i b) = b"
| "body_of (UpdateMe b) = b"
| "body_of _ = []"

text \<open>Requests whose body holds columns only, and the one request that edits permissions.\<close>

fun columns_only :: "staff_call \<Rightarrow> bool" where
  "columns_only (UpdateStaff i b) = staff_columns b"
| "columns_only (UpdateMe b) = staff_columns b"
| "columns_only (CreateRole b) = list_all role_column_ok b"
| "columns_only (UpdateRole i b) = list_all role_column_ok b"
| "columns_only (CreatePermission b) = list_all permission_column_ok b"
| "columns_only (UpdatePermission i b) = list_all permission_column_ok b"
| "columns_only _ = True"

fun edits_permission :: "staff_call \<Rightarrow> bool" where
  "edits_permission (UpdatePermission i b) = True"
| "edits_permission _ = False"

text \<open>A request, a login, a refresh or a reset. \<open>edits\<close> says whether permissions are edited.\<close>

inductive staff_step :: "staff_env \<Rightarrow> bool \<Rightarrow> admin_db \<Rightarrow> admin_db \<Rightarrow> bool" for env edits where
  served: "distinct (map fst (body_of c)) \<Longrightarrow> columns_only c \<Longrightarrow> edits \<or> \<not> edits_permission c \<Longrightarrow> staff_step env edits s (snd (serve env rq token c s))"
| logged_in: "staff_step env edits s (snd (admin_login env rq email p s))"
| refreshed: "staff_step env edits s (snd (admin_refresh env rq i token s))"
| confirmed: "staff_step env edits s (snd (confirmReset env rq t p s))"

lemma snd_outcome [simp]: "snd (outcome x) = snd x"
  by (simp add: outcome_def split: prod.split sum.split)

lemmas tables_kept = create.tables remove.tables reset_request.tables deactivate.tables reactivate.tables assign.tables unassign.tables
  sync.tables disallow.tables forget.tables updateStaff_ok

lemmas system_kept = create.system remove.system reset_request.system deactivate.system reactivate.system assign.system unassign.system
  sync.system disallow.system forget.system updateStaff_frozen

lemma perform_tables: "admin_ok env s \<Longrightarrow> distinct (map fst (body_of c)) \<Longrightarrow> columns_only c \<Longrightarrow> admin_ok env (snd (perform env rq me c s))"
proof (cases c)
  case (CreateRole b)
  assume "admin_ok env s" "columns_only c"
  then show ?thesis using new_role.tables [of env s rq b] CreateRole by (simp add: columns_filter)
next
  case (UpdateRole i b)
  assume "admin_ok env s" "columns_only c"
  then show ?thesis using edit_role.tables [of env s rq i b] UpdateRole by (simp add: columns_filter)
next
  case (CreatePermission b)
  assume "admin_ok env s" "columns_only c"
  then show ?thesis using new_permission.tables [of env s rq b] CreatePermission by (simp add: columns_filter)
next
  case (UpdatePermission i b)
  assume "admin_ok env s" "columns_only c"
  then show ?thesis using edit_permission.tables [of env s rq i b] UpdatePermission by (simp add: columns_filter)
qed (simp_all add: tables_kept)

lemma perform_system: "frozen r gs s \<Longrightarrow> columns_only c \<Longrightarrow> \<not> edits_permission c \<Longrightarrow> frozen r gs (snd (perform env rq me c s))"
proof (cases c)
  case (CreateRole b)
  assume "frozen r gs s" "columns_only c"
  then show ?thesis using new_role.system [of r gs s env rq b] CreateRole by (simp add: columns_filter)
next
  case (UpdateRole i b)
  assume "frozen r gs s" "columns_only c"
  then show ?thesis using edit_role.system [of r gs s env rq i b] UpdateRole by (simp add: columns_filter)
next
  case (CreatePermission b)
  assume "frozen r gs s" "columns_only c"
  then show ?thesis using new_permission.system [of r gs s env rq b] CreatePermission by (simp add: columns_filter)
qed (simp_all add: system_kept)

lemma serve_state: "snd (serve env rq token c s) = s \<or> (\<exists>me. snd (serve env rq token c s) = snd (perform env rq me c s))"
  unfolding serve_def by (simp split: sum.split json.split) blast

lemma staff_step_keeps:
  assumes "staff_step env edits s s'"
  shows "admin_ok env s \<Longrightarrow> admin_ok env s'" "\<not> edits \<Longrightarrow> frozen r gs s \<Longrightarrow> frozen r gs s'"
  using assms
proof (induction rule: staff_step.cases)
  case (served c t rq token)
  { case 1 then show ?case using served serve_state [of env rq token c t] perform_tables by metis
  next case 2 then show ?case using served serve_state [of env rq token c t] perform_system by metis }
next
  case (logged_in s rq email p)
  { case 1 then show ?case using logged_in login.tables by blast
  next case 2 then show ?case using logged_in login.system by blast }
next
  case (refreshed s rq i token)
  { case 1 then show ?case using refreshed refresh.tables by blast
  next case 2 then show ?case using refreshed refresh.system by blast }
next
  case (confirmed s rq t p)
  { case 1 then show ?case using confirmed confirm.tables by blast
  next case 2 then show ?case using confirmed confirm.system by blast }
qed

lemma staff_steps_keep:
  assumes "(staff_step env edits)\<^sup>*\<^sup>* s s'"
  shows "admin_ok env s \<Longrightarrow> admin_ok env s'" "\<not> edits \<Longrightarrow> frozen r gs s \<Longrightarrow> frozen r gs s'"
  using assms by (induction rule: rtranclp_induct) (use staff_step_keeps in blast)+

lemma unique_columns:
  assumes "staff_unique us"
  shows "distinct (map sf_id us)" "distinct (map sf_username us)" "distinct (map sf_email us)"
  using assms by (induction us) (auto simp: staff_unique_def staff_clash_def)

text \<open>
  Property C24. The tables of the administrators keep their types. After any requests whose bodies hold columns
  only, and any logins, refreshes and
  resets, ids, user names and mail addresses are unique, no two members share a reset token, every assignment
  joins an existing member and an existing role, and a stored password is a hash or empty, never what was typed.
\<close>

theorem staff_tables_typed:
  assumes "(staff_step env edits)\<^sup>*\<^sup>* s0 s" "admin_ok env s0"
  shows "distinct (map sf_id (staffs s)) \<and> distinct (map sf_username (staffs s)) \<and> distinct (map sf_email (staffs s))
     \<and> (\<forall>u\<in>set (staffs s). \<forall>v\<in>set (staffs s). sf_resetToken u \<noteq> None \<and> sf_resetToken u = sf_resetToken v \<longrightarrow> u = v)
     \<and> (\<forall>l\<in>set (staffRoles s). find_staff (sl_staffId l) s \<noteq> None \<and> find_role (sl_roleId l) s \<noteq> None)
     \<and> (\<forall>u\<in>set (staffs s). sf_password u = [] \<or> (\<exists>salt p. sf_password u = we_hash env salt p))"
proof -
  have ok: "admin_ok env s" by (rule staff_steps_keep(1) [OF assms])
  have u: "staff_unique (staffs s)" using ok by (simp add: admin_ok_def)
  have "u = v" if "u \<in> set (staffs s)" "v \<in> set (staffs s)" "sf_resetToken u \<noteq> None \<and> sf_resetToken u = sf_resetToken v" for u v
    using staff_unique_member [OF u that(1,2)] that(3) unfolding staff_clash_def by blast
  moreover have "\<forall>l\<in>set (staffRoles s). find_staff (sl_staffId l) s \<noteq> None \<and> find_role (sl_roleId l) s \<noteq> None"
    using ok by (simp add: admin_ok_def relations_ok_def find_staff_def find_role_def find_key_None)
  moreover have "\<forall>u\<in>set (staffs s). sf_password u = [] \<or> (\<exists>salt p. sf_password u = we_hash env salt p)"
    using ok by (simp add: admin_ok_def hashed_def)
  ultimately show ?thesis using unique_columns [OF u] by blast
qed

text \<open>
  Property C25. System roles are out of reach. Whatever requests are made, by whomever, a role that is marked as a
  system role keeps its row and gives exactly the permissions it gave, each with its name, as long as the bodies
  hold columns only and no permission itself is edited.
\<close>

theorem system_roles_frozen:
  assumes "(staff_step env False)\<^sup>*\<^sup>* s0 s" "role_unique (roles s0)" "r \<in> set (roles s0)" "rl_isSystem r"
    and "\<forall>g\<in>set (rolePermissions s0). findPermissionById (gr_permissionId g) s0 \<noteq> None"
  shows "findRoleById (rl_id r) s = Some (r, permissions_of (rl_id r) s0)"
proof -
  let ?G = "\<lambda>s. filter (\<lambda>g. gr_roleId g = rl_id r) (rolePermissions s)"
  let ?p = "\<lambda>g. the (find (\<lambda>p. pm_id p = gr_permissionId g) (permissions s0))"
  have "frozen r (map (\<lambda>g. (g, ?p g)) (?G s0)) s0"
    using assms(2-5) by (fastforce simp: frozen_def findPermissionById_def o_def)
  from staff_steps_keep(2) [OF assms(1) _ this] have f: "frozen r (map (\<lambda>g. (g, ?p g)) (?G s0)) s" by simp
  then have g: "?G s = ?G s0" by (simp add: frozen_def o_def)
  have given: "permissions_of (rl_id r) t = map ?p (?G s0)" if "frozen r (map (\<lambda>g. (g, ?p g)) (?G s0)) t" for t
  proof -
    have "?G t = ?G s0" "\<forall>g\<in>set (?G s0). find (\<lambda>p. pm_id p = gr_permissionId g) (permissions t) = Some (?p g)"
      using that by (auto simp: frozen_def o_def)
    then have "permissions_of (rl_id r) t = concat (map (\<lambda>g. [?p g]) (?G s0))"
      unfolding permissions_of_def by (intro arg_cong [where f = concat]) simp
    then show ?thesis by (simp add: concat_map_singleton)
  qed
  have "find_role (rl_id r) s = Some r" using f by (simp add: frozen_def find_role_unique)
  moreover have "permissions_of (rl_id r) s = permissions_of (rl_id r) s0" using given [OF f] given [OF \<open>frozen r _ s0\<close>] by simp
  ultimately show ?thesis by (simp add: findRoleById_def)
qed

text \<open>
  Neither holds of a body that is not made of columns. The route on which members change their own names hands
  such a body to the database client as it is: whatever the client makes of it is done, for every member, with no
  look at the roles.
\<close>

lemma profile_reaches_client:
  assumes "admin_jwt env (wq_now rq) token s = Inr claims" "jget ''sub'' claims = JStr me"
    and "\<not> staff_columns b" "\<not> truthy (field ''password'' b)" "field ''role'' b = JUndef"
    and "we_writeStaff env rq me (filter (\<lambda>(k, _). k \<noteq> ''role'') b) s = Inr (u, s1)"
  shows "serve env rq token (UpdateMe b) s = (Inr (), s1)"
proof -
  have "field ''password'' (filter (\<lambda>(k, _). k \<noteq> ''role'') b) = field ''password'' b"
    by (induction b) (auto simp: field_def)
  then have "hash_password env rq (filter (\<lambda>(k, _). k \<noteq> ''role'') b) = Inr (filter (\<lambda>(k, _). k \<noteq> ''role'') b)"
    using assms(4) by (simp add: hash_password_def)
  then show ?thesis
    using assms by (simp add: serve_def roles_guard_def updateStaff_def transaction_def update_tx_def write_staff_def client_write_def staff_columns_def outcome_def)
qed

section \<open>Resets\<close>

lemma find_set_staff: "(\<And>u. sf_id (f u) = sf_id u) \<Longrightarrow> find_staff i (set_staff i f s) = map_option f (find_staff i s)"
  by (auto simp: find_staff_def set_staff_def find_update_where option.map_comp o_def dest: find_SomeD split: option.split intro!: map_option_cong)

text \<open>
  Property C26. A reset token works once. A reset that went through found an active member with that token in time,
  changes no other row, and afterwards nobody can use the token again, at any time and whatever the password.
\<close>

theorem reset_token_once:
  assumes "admin_ok env s" "resetPasswordWithToken env rq (JStr t) p s = (Inr (), s1)"
  shows "(\<exists>u\<in>set (staffs s). sf_resetToken u = Some t \<and> sf_isActive u \<and> (\<exists>e. sf_resetTokenExpiry u = Some e \<and> wq_now rq < e)
      \<and> (\<forall>v\<in>set (staffs s). v \<noteq> u \<longrightarrow> v \<in> set (staffs s1)))
     \<and> (\<forall>rq2 p2. resetPasswordWithToken env rq2 (JStr t) p2 s1 = (Inl (Plain ''Invalid or expired reset token''), s1))"
proof -
  obtain u q where u: "find (token_open (wq_now rq) (JStr t)) (staffs s) = Some u" and q: "p = JStr q" "validatePasswordComplexity q = None"
    and s1: "s1 = set_staff (sf_id u) (\<lambda>u. u\<lparr>sf_password := we_hash env (wq_salt rq) q, sf_resetToken := None, sf_resetTokenExpiry := None,
      sf_isActive := True, sf_updatedAt := wq_now rq\<rparr>) s"
    using assms(2) by (auto simp: resetPasswordWithToken_def split: option.splits json.splits)
  have m: "u \<in> set (staffs s)" "token_open (wq_now rq) (JStr t) u" using find_SomeD [OF u] by auto
  have uniq: "staff_unique (staffs s)" using assms(1) by (simp add: admin_ok_def)
  have other: "v \<in> set (staffs s1)" if "v \<in> set (staffs s)" "v \<noteq> u" for v
  proof -
    have "sf_id v \<noteq> sf_id u" using staff_unique_member [OF uniq that(1) m(1)] that(2) by (auto simp: staff_clash_def)
    then show ?thesis using that(1) by (force simp: s1 set_staff_def set_update_where)
  qed
  have gone: "\<not> token_open now (JStr t) v" if "v \<in> set (staffs s1)" for now v
  proof
    assume "token_open now (JStr t) v"
    then have v: "sf_resetToken v = Some t" by (simp add: token_open_def)
    obtain w where w: "w \<in> set (staffs s)" "sf_id w \<noteq> sf_id u" "v = w"
      using \<open>v \<in> set (staffs s1)\<close> v by (auto simp: s1 set_staff_def set_update_where split: if_splits)
    then show False using staff_unique_member [OF uniq w(1) m(1)] m(2) v by (auto simp: staff_clash_def token_open_def)
  qed
  have "find (token_open now (JStr t)) (staffs s1) = None" for now using gone by (auto simp: find_None_iff)
  then have "resetPasswordWithToken env rq2 (JStr t) p2 s1 = (Inl (Plain ''Invalid or expired reset token''), s1)" for rq2 p2
    by (simp add: resetPasswordWithToken_def)
  moreover have "sf_resetToken u = Some t \<and> sf_isActive u \<and> (\<exists>e. sf_resetTokenExpiry u = Some e \<and> wq_now rq < e)"
    using m(2) by (auto simp: token_open_def split: option.splits)
  ultimately show ?thesis using m(1) other by blast
qed

text \<open>
  Property C23. A reset without a token. The body of the reset is not validated and a token that is left out is no
  condition of the search: as soon as one active member has an open invitation or reset, a request with nothing
  but a password sets the password of such a member, and whoever sent it can log in with it.
\<close>

theorem reset_without_token:
  assumes "admin_ok env s" "v \<in> set (staffs s)" "sf_isActive v" "sf_resetTokenExpiry v = Some e" "wq_now rq < e"
    and "validatePasswordComplexity p = None" "\<And>salt t. we_compare env t (we_hash env salt t)"
  shows "\<exists>u s1. u \<in> set (staffs s) \<and> confirmReset env rq JUndef (JStr p) s = (Inr (), s1)
     \<and> (\<exists>x s2. admin_login env rq2 (sf_email u) p s1 = (Inr x, s2) \<and> as_userId x = sf_id u)"
proof -
  have open_v: "token_open (wq_now rq) JUndef v" using assms(3-5) by (simp add: token_open_def)
  then obtain u where u: "find (token_open (wq_now rq) JUndef) (staffs s) = Some u" using assms(2) by (cases "find (token_open (wq_now rq) JUndef) (staffs s)") (auto simp: find_None_iff)
  have m: "u \<in> set (staffs s)" using find_SomeD [OF u] by simp
  define f :: "staff \<Rightarrow> staff" where "f = (\<lambda>u. u\<lparr>sf_password := we_hash env (wq_salt rq) p, sf_resetToken := None, sf_resetTokenExpiry := None, sf_isActive := True,
      sf_updatedAt := wq_now rq\<rparr>)"
  let ?s1 = "set_staff (sf_id u) f s"
  have run: "resetPasswordWithToken env rq JUndef (JStr p) s = (Inr (), ?s1)" using u assms(6) by (simp add: resetPasswordWithToken_def f_def)
  have ok1: "admin_ok env ?s1" using reset.tables [OF assms(1), of rq JUndef "JStr p"] run by simp
  have fu: "f u \<in> set (staffs ?s1)" using m by (force simp: set_staff_def set_update_where)
  have uniq: "staff_unique (staffs ?s1)" using ok1 by (simp add: admin_ok_def)
  have "find (\<lambda>w. sf_email w = sf_email u) (staffs ?s1) = Some (f u)"
    by (rule find_unique [OF fu]) (use staff_unique_member [OF uniq _ fu] in \<open>auto simp: f_def staff_clash_def\<close>)
  then obtain rs where found: "staff_findByEmail (sf_email u) ?s1 = Some (f u, rs)" by (simp add: staff_findByEmail_def)
  have "find_staff (sf_id u) ?s1 = Some (f u)" using find_staff_unique [OF uniq fu] by (simp add: f_def)
  then have "\<exists>x s2. admin_login env rq2 (sf_email u) p ?s1 = (Inr x, s2) \<and> as_userId x = sf_id u"
    using found assms(7) by (simp add: admin_login_def f_def open_session_def updateRefreshTokenHash_def update_staff_def Let_def)
  then show ?thesis using m run by (auto simp: confirmReset_def)
qed

section \<open>Sessions and deactivation\<close>

lemma deactivated_state:
  assumes "deactivateStaff rq i s = (Inr u, s1)"
  shows "\<exists>w. find_staff i s1 = Some w \<and> sf_refreshTokenHash w = None \<and> \<not> sf_isActive w" "\<forall>v\<in>set (staffs s1). sf_id v = i \<longrightarrow> \<not> sf_isActive v"
proof -
  define f :: "staff \<Rightarrow> staff" where "f = (\<lambda>u. u\<lparr>sf_isActive := False, sf_refreshTokenHash := None, sf_updatedAt := wq_now rq\<rparr>)"
  have f: "sf_id (f v) = sf_id v" "\<not> sf_isActive (f v)" "sf_refreshTokenHash (f v) = None" for v by (simp_all add: f_def)
  have s1: "s1 = set_staff i f s" "find_staff i s \<noteq> None" using assms by (auto simp: deactivateStaff_def update_staff_def f_def split: option.splits)
  obtain w where "find_staff i s = Some w" using s1(2) by blast
  then have "find_staff i s1 = Some (f w)" using find_set_staff [of f i s, OF f(1)] by (simp add: s1(1))
  then show "\<exists>w. find_staff i s1 = Some w \<and> sf_refreshTokenHash w = None \<and> \<not> sf_isActive w" using f by blast
  show "\<forall>v\<in>set (staffs s1). sf_id v = i \<longrightarrow> \<not> sf_isActive v" using f by (auto simp: s1(1) set_staff_def set_update_where)
qed

lemma login_active:
  assumes "admin_login env rq email p s = (Inr x, s2)"
  obtains v where "v \<in> set (staffs s)" "sf_id v = as_userId x" "sf_isActive v"
proof -
  obtain v rs where v: "staff_findByEmail email s = Some (v, rs)" "sf_isActive v" "open_session env rq v (map fst rs) s = (Inr x, s2)"
    using assms by (auto simp: admin_login_def split: option.splits if_splits)
  have "v \<in> set (staffs s)" using v(1) by (auto simp: staff_findByEmail_def dest: find_SomeD)
  moreover have "as_userId x = sf_id v" using v(3) by (auto simp: open_session_def Let_def split: sum.splits prod.splits)
  ultimately show thesis using v(2) that by metis
qed

text \<open>
  Property C27. A deactivated member is locked out at once. In the state after a deactivation no token of that
  member passes the guard, whatever the request, no login and no refresh opens a session of that member, and
  the refused requests and refreshes change nothing.
\<close>

theorem deactivated_locked_out:
  assumes "deactivateStaff rq i s = (Inr u, s1)"
  shows "(\<forall>rq2 token claims c. we_verify env (we_secret env) (wq_now rq2) token = Some claims \<and> jget ''sub'' claims = JStr i
       \<longrightarrow> serve env rq2 token c s1 = (Inl (Http UNAUTHORIZED ''Unauthorized''), s1))
     \<and> (\<forall>rq2 email p x s2. admin_login env rq2 email p s1 = (Inr x, s2) \<longrightarrow> as_userId x \<noteq> i)
     \<and> (\<forall>rq2 token. \<exists>e. admin_refresh env rq2 i token s1 = (Inl e, s1))"
proof (intro conjI allI impI)
  obtain w where w: "find_staff i s1 = Some w" "sf_refreshTokenHash w = None" "\<not> sf_isActive w" using deactivated_state(1) [OF assms] by blast
  show "serve env rq2 token c s1 = (Inl (Http UNAUTHORIZED ''Unauthorized''), s1)"
    if "we_verify env (we_secret env) (wq_now rq2) token = Some claims \<and> jget ''sub'' claims = JStr i" for rq2 token claims c
    using that w by (simp add: serve_def admin_jwt_def)
  show "as_userId x \<noteq> i" if "admin_login env rq2 email p s1 = (Inr x, s2)" for rq2 email p x s2
    using login_active [OF that] deactivated_state(2) [OF assms] by metis
  show "\<exists>e. admin_refresh env rq2 i token s1 = (Inl e, s1)" for rq2 token
    using w by (simp add: admin_refresh_def findByIdInternal_def)
qed

text \<open>
  No session is ever refreshed. The refresh token is signed with a secret of its own but verified
  with that of the access tokens: as long as the secrets differ, the token of a login is refused by every refresh,
  in every state and at every time, and nothing changes.
\<close>

theorem admin_refresh_never:
  assumes "admin_login env rq email p s = (Inr x, s1)" "we_refreshSecret env \<noteq> we_secret env"
    and "\<And>k k' now now' ttl c. k \<noteq> k' \<Longrightarrow> we_verify env k' now' (we_sign env k now ttl c) = None"
  shows "\<exists>e. admin_refresh env rq2 i (as_refreshToken x) s2 = (Inl e, s2)"
proof -
  obtain u rs where "open_session env rq u rs s = (Inr x, s1)" using assms(1) by (auto simp: admin_login_def split: option.splits if_splits)
  then have "as_refreshToken x = we_sign env (we_refreshSecret env) (wq_now rq) ADMIN_REFRESH_TTL (admin_claims u rs)"
    by (auto simp: open_session_def Let_def split: sum.splits prod.splits)
  then have "we_verify env (we_secret env) (wq_now rq2) (as_refreshToken x) = None" using assms(3) [OF assms(2)] by simp
  then show ?thesis by (simp add: admin_refresh_def split: option.split list.split)
qed

section \<open>Escalation\<close>

lemma roles_of_only:
  assumes "role_unique (roles s)" "r \<in> set (roles s)" "staffRoles s = filter (\<lambda>l. sl_staffId l \<noteq> i) ls @ [l]" "sl_staffId l = i" "sl_roleId l = rl_id r"
  shows "roles_of i s = [r]"
  using assms(3-5) find_role_unique [OF assms(1,2)] by (simp add: roles_of_def)

text \<open>The state after a member gave itself a role.\<close>

lemma take_role:
  assumes ok: "admin_ok env s" and u: "find_staff i s = Some u" and r: "r \<in> set (roles s)" "rl_name r = n" "n \<noteq> []"
  obtains s1 where "updateStaff env rq i [(''role'', JStr n)] s = (Inr (u\<lparr>sf_updatedAt := wq_now rq\<rparr>), s1)" "roles_of i s1 = [r]"
    "find_staff i s1 = Some (u\<lparr>sf_updatedAt := wq_now rq\<rparr>)"
proof -
  have m: "u \<in> set (staffs s)" "sf_id u = i" using find_staff_member [OF u] by auto
  let ?u = "u\<lparr>sf_updatedAt := wq_now rq\<rparr>"
  let ?us = "update_where (\<lambda>v. sf_id v = i) (\<lambda>_. ?u) (staffs s)"
  let ?l = "\<lparr>sl_id = wq_uuid rq 1, sl_staffId = i, sl_roleId = rl_id r, sl_createdAt = wq_now rq\<rparr>"
  have uniq: "staff_unique (staffs s)" "role_unique (roles s)" using ok by (simp_all add: admin_ok_def)
  have "\<not> staff_clash ?u v" if "v \<in> set (staffs s)" "sf_id v \<noteq> i" for v
  proof -
    have "\<not> staff_clash u v" using staff_unique_member [OF uniq(1) m(1) that(1)] that(2) m(2) by blast
    then show ?thesis by (simp add: staff_clash_def)
  qed
  then have w: "write_staff env rq i [] s = (Inr ?u, s\<lparr>staffs := ?us, staffRoles := update_where (\<lambda>l. sl_staffId l = i) (\<lambda>l. l\<lparr>sl_staffId := i\<rparr>) (staffRoles s)\<rparr>)"
    using u m(2) by (auto simp: write_staff_def write_staff_columns_def set_columns_def Let_def)
  have same: "update_where (\<lambda>l. sl_staffId l = i) (\<lambda>l. l\<lparr>sl_staffId := i\<rparr>) ls = ls" for ls by (induction ls) auto
  let ?t = "s\<lparr>staffs := ?us\<rparr>"
  have wt: "write_staff env rq i [] s = (Inr ?u, ?t)" using w by (simp add: same)
  have here: "find_staff i ?t = Some ?u"
  proof -
    have "find (\<lambda>v. sf_id v = i) (update_where (\<lambda>v. sf_id v = i) (\<lambda>_. ?u) us) = map_option (\<lambda>v. if sf_id v = i then ?u else v) (find (\<lambda>v. sf_id v = i) us)"
      if "sf_id ?u = i" for us using that by (induction us) auto
    then show ?thesis using u m(2) by (simp add: find_staff_def)
  qed
  have name: "find (\<lambda>r. rl_name r = n) (roles s) = Some r"
    by (rule find_unique [where P = "\<lambda>r. rl_name r = n", OF r(1,2)]) (use role_unique_member [OF uniq(2) _ r(1)] r(2) in \<open>auto simp: role_clash_def\<close>)
  let ?s1 = "?t\<lparr>staffRoles := filter (\<lambda>l. sl_staffId l \<noteq> i) (staffRoles s) @ [?l]\<rparr>"
  have hs: "find_staff i (?t\<lparr>staffRoles := ls\<rparr>) = Some ?u" for ls using here by (simp add: find_staff_def)
  have "connect_role rq i (JStr n) (drop_roles i ?t) = (Inr (), ?s1)"
    using name hs by (simp add: connect_role_def drop_roles_def)
  then have tx: "update_tx env rq i [] (JStr n) s = (Inr ?u, ?s1)" using wt r(3) by (simp add: update_tx_def)
  show thesis
  proof (rule that [of ?s1])
    show "updateStaff env rq i [(''role'', JStr n)] s = (Inr ?u, ?s1)" using tx by (simp add: updateStaff_def hash_password_def field_def)
    have l: "sl_staffId ?l = i" "sl_roleId ?l = rl_id r" by simp_all
    show "roles_of i ?s1 = [r]" by (rule roles_of_only [OF _ _ _ l, where ls = "staffRoles s"]) (simp_all add: uniq(2) r(1))
    show "find_staff i ?s1 = Some ?u" by (rule hs)
  qed
qed

text \<open>
  Property C28. Whoever may log in may become a super administrator. The route that lets members change their own
  names passes the body on whole: with a role in it, it takes the sender's roles away and gives it that role. The
  next login is one of a super administrator, whom the guard lets through everywhere.
\<close>

theorem updateMe_escalates:
  assumes "admin_ok env s" "admin_jwt env (wq_now rq) token s = Inr claims" "jget ''sub'' claims = JStr i" "find_staff i s = Some u"
    and "r \<in> set (roles s)" "rl_name r = ''SUPER_ADMIN''" "we_compare env p (sf_password u)"
  shows "\<exists>s1 x s2. serve env rq token (UpdateMe [(''role'', JStr ''SUPER_ADMIN'')]) s = (Inr (), s1)
     \<and> admin_login env rq2 (sf_email u) p s1 = (Inr x, s2) \<and> as_userId x = i \<and> as_role x = ''SUPER_ADMIN''
     \<and> (\<forall>c. roles_guard (required_roles c) (admin_claims u (roles_of i s1)))"
proof -
  let ?b = "[(''role'', JStr ''SUPER_ADMIN'')]" and ?u = "u\<lparr>sf_updatedAt := wq_now rq\<rparr>"
  obtain s1 where s1: "updateStaff env rq i ?b s = (Inr ?u, s1)" "roles_of i s1 = [r]" "find_staff i s1 = Some ?u"
    by (rule take_role [OF assms(1,4-6), of rq]) simp
  have served: "serve env rq token (UpdateMe ?b) s = (Inr (), s1)"
    using assms(2,3) s1(1) by (simp add: serve_def roles_guard_def outcome_def)
  have "admin_ok env s1" using updateStaff_ok [OF assms(1), of ?b rq i] s1(1) by (simp add: staff_columns_def)
  then have uniq: "staff_unique (staffs s1)" by (simp add: admin_ok_def)
  have m: "?u \<in> set (staffs s1)" "sf_id u = i" using find_staff_member [OF s1(3)] by auto
  have active: "sf_isActive u" using assms(2-4) by (auto simp: admin_jwt_def split: option.splits json.splits if_splits)
  have "find (\<lambda>w. sf_email w = sf_email u) (staffs s1) = Some ?u"
    by (rule find_unique [OF m(1)]) (use staff_unique_member [OF uniq _ m(1)] in \<open>auto simp: staff_clash_def\<close>)
  then have found: "staff_findByEmail (sf_email u) s1 = Some (?u, [(r, permissions_of (rl_id r) s1)])" using s1(2) m(2) by (simp add: staff_findByEmail_def)
  have first: "first_name_of [r] ''SUPPORT_STAFF'' = ''SUPER_ADMIN''" using assms(6) by (simp add: first_name_of_def)
  have login: "\<exists>x s2. admin_login env rq2 (sf_email u) p s1 = (Inr x, s2) \<and> as_userId x = i \<and> as_role x = ''SUPER_ADMIN''"
    using found active assms(7) m(2) s1(3) first
    by (simp add: admin_login_def open_session_def updateRefreshTokenHash_def update_staff_def Let_def)
  have "roles_guard (required_roles c) (admin_claims u (roles_of i s1))" for c
    using first s1(2) by (cases c) (simp_all add: roles_guard_def admin_claims_def)
  then show ?thesis using served login by blast
qed

section \<open>Examples\<close>

definition demo_member :: staff where
  "demo_member = \<lparr>sf_id = ''s1'', sf_username = ''sam'', sf_password = ''#Secret-123'', sf_email = ''sam@x'', sf_firstName = ''Sam'', sf_lastName = ''S'',
     sf_isActive = True, sf_refreshTokenHash = None, sf_createdAt = 0, sf_updatedAt = 0, sf_resetToken = Some ''tok'', sf_resetTokenExpiry = Some 100\<rparr>"

definition demo_super :: role where
  "demo_super = \<lparr>rl_id = ''r0'', rl_name = ''SUPER_ADMIN'', rl_description = None, rl_isSystem = True, rl_createdAt = 0, rl_updatedAt = 0\<rparr>"

definition demo_support :: role where
  "demo_support = demo_super\<lparr>rl_id := ''r1'', rl_name := ''SUPPORT_AGENT'', rl_isSystem := False\<rparr>"

definition demo_admin :: admin_db where
  "demo_admin = \<lparr>staffs = [demo_member], roles = [demo_super, demo_support],
     permissions = [\<lparr>pm_id = ''p1'', pm_name = ''staff.read'', pm_description = None, pm_resource = ''staff'', pm_action = ''read'', pm_createdAt = 0, pm_updatedAt = 0\<rparr>],
     staffRoles = [\<lparr>sl_id = ''l1'', sl_staffId = ''s1'', sl_roleId = ''r1'', sl_createdAt = 0\<rparr>],
     rolePermissions = [\<lparr>gr_id = ''g1'', gr_roleId = ''r0'', gr_permissionId = ''p1'', gr_createdAt = 0\<rparr>], mails = []\<rparr>"

text \<open>A toy \<open>bcrypt\<close>, and tokens that are the length of their secret in strokes, the secret and the owner's id.\<close>

definition demo_secret :: "string \<Rightarrow> string" where
  "demo_secret t = (let n = length (takeWhile (\<lambda>c. c = CHR ''1'') t) in take n (drop (n + 1) t))"

lemma demo_secret_back: "demo_secret (replicate (length k) (CHR ''1'') @ CHR ''.'' # k @ r) = k"
proof -
  have "takeWhile (\<lambda>c. c = CHR ''1'') (replicate n (CHR ''1'') @ CHR ''.'' # r') = replicate n (CHR ''1'')" for n r' by (induction n) auto
  then show ?thesis by (simp add: demo_secret_def)
qed

definition demo_staff_env :: staff_env where
  "demo_staff_env = \<lparr>we_hash = (\<lambda>_ t. CHR ''#'' # t), we_compare = (\<lambda>t h. h = CHR ''#'' # t),
     we_sign = (\<lambda>k _ _ c. replicate (length k) (CHR ''1'') @ CHR ''.'' # k @ (case jget ''sub'' c of JStr i \<Rightarrow> i | _ \<Rightarrow> [])),
     we_verify = (\<lambda>k _ t. if demo_secret t = k then Some (JObj [(''sub'', JStr (drop (2 * length k + 1) t)), (''role'', JStr ''SUPPORT_AGENT'')]) else None),
     we_secret = ''a'', we_refreshSecret = ''b'', we_writeStaff = (\<lambda>_ _ _ _. Inl invalid), we_writeRole = (\<lambda>_ _ _ _. Inl invalid),
     we_writePermission = (\<lambda>_ _ _ _. Inl invalid)\<rparr>"

definition demo_at :: "int \<Rightarrow> staff_request" where
  "demo_at t = \<lparr>wq_now = t, wq_uuid = (\<lambda>k. replicate (nat t + k) (CHR ''u'')), wq_salt = [], wq_token = ''new'', wq_password = ''x'', wq_kafkaUp = True\<rparr>"

lemma demo_hashes: "we_compare demo_staff_env t (we_hash demo_staff_env salt t)"
  by (simp add: demo_staff_env_def)

lemma demo_admin_ok: "admin_ok demo_staff_env demo_admin"
  by (auto simp: admin_ok_def demo_admin_def demo_member_def demo_super_def demo_support_def staff_unique_def role_unique_def role_clash_def relations_ok_def
      hashed_def demo_staff_env_def)

lemma demo_member_found: "find_staff ''s1'' demo_admin = Some demo_member" "demo_member \<in> set (staffs demo_admin)"
  by (simp_all add: find_staff_def demo_admin_def demo_member_def)

lemma demo_guard: "admin_jwt demo_staff_env (wq_now (demo_at t)) ''1.as1'' demo_admin = Inr (JObj [(''sub'', JStr ''s1''), (''role'', JStr ''SUPPORT_AGENT'')])"
  by (simp add: admin_jwt_def demo_staff_env_def demo_secret_def demo_member_found) (simp add: demo_member_def)

definition demo_renamed :: admin_db where
  "demo_renamed = snd (serve demo_staff_env (demo_at 5) ''1.as1'' (UpdateRole ''r1'' [(''name'', JStr ''HELP'')]) demo_admin)"

lemma demo_steps: "(staff_step demo_staff_env edits)\<^sup>*\<^sup>* demo_admin demo_renamed"
  unfolding demo_renamed_def by (rule r_into_rtranclp, rule staff_step.served) simp_all

theorem staff_tables_typed_witness: "distinct (map sf_id (staffs demo_renamed))"
  using staff_tables_typed [OF demo_steps demo_admin_ok] by blast

theorem system_roles_frozen_witness:
  "find_role ''r1'' demo_renamed = Some (demo_support\<lparr>rl_name := ''HELP'', rl_updatedAt := 5\<rparr>)
     \<and> map_option (\<lambda>(r, ps). (r, map pm_name ps)) (findRoleById ''r0'' demo_renamed) = Some (demo_super, [''staff.read''])"
proof -
  have r: "role_unique (roles demo_admin)" "demo_super \<in> set (roles demo_admin)" "rl_isSystem demo_super" "rl_id demo_super = ''r0''"
    using demo_admin_ok by (simp_all add: admin_ok_def) (simp_all add: demo_admin_def demo_super_def)
  have "\<forall>g\<in>set (rolePermissions demo_admin). findPermissionById (gr_permissionId g) demo_admin \<noteq> None"
    by (simp add: demo_admin_def findPermissionById_def)
  from system_roles_frozen [OF demo_steps r(1-3) this]
  have "findRoleById ''r0'' demo_renamed = Some (demo_super, permissions_of ''r0'' demo_admin)" by (simp add: r(4))
  moreover have "map pm_name (permissions_of ''r0'' demo_admin) = [''staff.read'']" by (simp add: permissions_of_def demo_admin_def)
  moreover have "find_role ''r1'' demo_renamed = Some (demo_support\<lparr>rl_name := ''HELP'', rl_updatedAt := 5\<rparr>)" by code_simp
  ultimately show ?thesis by simp
qed

text \<open>Editing a permission changes what a system role gives; any member may.\<close>

lemma system_permission_renamed:
  "serve demo_staff_env (demo_at 5) ''1.as1'' (UpdatePermission ''p1'' [(''name'', JStr ''staff.write'')]) demo_admin = (Inr (), s1)
     \<Longrightarrow> map_option (\<lambda>(r, ps). map pm_name ps) (findRoleById ''r0'' s1) = Some [''staff.write'']"
proof -
  let ?run = "serve demo_staff_env (demo_at 5) ''1.as1'' (UpdatePermission ''p1'' [(''name'', JStr ''staff.write'')]) demo_admin"
  have "map_option (\<lambda>(r, ps). map pm_name ps) (findRoleById ''r0'' (snd ?run)) = Some [''staff.write'']" by code_simp
  then show "?run = (Inr (), s1) \<Longrightarrow> map_option (\<lambda>(r, ps). map pm_name ps) (findRoleById ''r0'' s1) = Some [''staff.write'']" by simp
qed

theorem reset_token_once_witness:
  "\<exists>s1. resetPasswordWithToken demo_staff_env (demo_at 5) (JStr ''tok'') (JStr ''Better!1x'') demo_admin = (Inr (), s1)
     \<and> resetPasswordWithToken demo_staff_env (demo_at 6) (JStr ''tok'') (JStr ''Other!1xx'') s1 = (Inl (Plain ''Invalid or expired reset token''), s1)"
proof -
  have "case resetPasswordWithToken demo_staff_env (demo_at 5) (JStr ''tok'') (JStr ''Better!1x'') demo_admin of (Inr _, _) \<Rightarrow> True | _ \<Rightarrow> False" by code_simp
  then obtain s1 where run: "resetPasswordWithToken demo_staff_env (demo_at 5) (JStr ''tok'') (JStr ''Better!1x'') demo_admin = (Inr (), s1)"
    by (auto split: prod.splits sum.splits)
  from reset_token_once [OF demo_admin_ok run] run show ?thesis by blast
qed

theorem reset_without_token_witness:
  "\<exists>u s1. u \<in> set (staffs demo_admin) \<and> confirmReset demo_staff_env (demo_at 5) JUndef (JStr ''Mine!1234'') demo_admin = (Inr (), s1)"
proof -
  have "sf_isActive demo_member" "sf_resetTokenExpiry demo_member = Some 100" "wq_now (demo_at 5) < 100" by (simp_all add: demo_member_def demo_at_def)
  moreover have "validatePasswordComplexity ''Mine!1234'' = None" by code_simp
  ultimately show ?thesis using reset_without_token [OF demo_admin_ok demo_member_found(2) _ _ _ _ demo_hashes] by blast
qed

theorem deactivated_locked_out_witness:
  "\<exists>u s1. deactivateStaff (demo_at 5) ''s1'' demo_admin = (Inr u, s1)
     \<and> serve demo_staff_env (demo_at 6) ''1.as1'' (ReactivateStaff ''s1'') s1 = (Inl (Http UNAUTHORIZED ''Unauthorized''), s1)"
proof -
  obtain u s1 where run: "deactivateStaff (demo_at 5) ''s1'' demo_admin = (Inr u, s1)" by (simp add: deactivateStaff_def update_staff_def demo_member_found)
  have "we_verify demo_staff_env (we_secret demo_staff_env) (wq_now (demo_at 6)) ''1.as1'' = Some (JObj [(''sub'', JStr ''s1''), (''role'', JStr ''SUPPORT_AGENT'')])
     \<and> jget ''sub'' (JObj [(''sub'', JStr ''s1''), (''role'', JStr ''SUPPORT_AGENT'')]) = JStr ''s1''" by (simp add: demo_staff_env_def demo_secret_def)
  with deactivated_locked_out [OF run] run show ?thesis by blast
qed

theorem admin_refresh_never_witness:
  "\<exists>x s1 e. admin_login demo_staff_env (demo_at 5) ''sam@x'' ''Secret-123'' demo_admin = (Inr x, s1)
     \<and> admin_refresh demo_staff_env (demo_at 6) ''s1'' (as_refreshToken x) s1 = (Inl e, s1)"
proof -
  have "case admin_login demo_staff_env (demo_at 5) ''sam@x'' ''Secret-123'' demo_admin of (Inr _, _) \<Rightarrow> True | _ \<Rightarrow> False" by code_simp
  then obtain x s1 where run: "admin_login demo_staff_env (demo_at 5) ''sam@x'' ''Secret-123'' demo_admin = (Inr x, s1)"
    by (auto split: prod.splits sum.splits)
  have law: "we_verify demo_staff_env k' now' (we_sign demo_staff_env k now ttl c) = None" if "k \<noteq> k'" for k k' now now' ttl c
    using that by (simp add: demo_staff_env_def demo_secret_back)
  show ?thesis using admin_refresh_never [OF run _ law] run by (auto simp: demo_staff_env_def)
qed

theorem updateMe_escalates_witness:
  "\<exists>s1 x s2. serve demo_staff_env (demo_at 5) ''1.as1'' (UpdateMe [(''role'', JStr ''SUPER_ADMIN'')]) demo_admin = (Inr (), s1)
     \<and> admin_login demo_staff_env (demo_at 6) ''sam@x'' ''Secret-123'' s1 = (Inr x, s2) \<and> as_role x = ''SUPER_ADMIN''"
proof -
  have "jget ''sub'' (JObj [(''sub'', JStr ''s1''), (''role'', JStr ''SUPPORT_AGENT'')]) = JStr ''s1''" "demo_super \<in> set (roles demo_admin)" "rl_name demo_super = ''SUPER_ADMIN''"
    "we_compare demo_staff_env ''Secret-123'' (sf_password demo_member)" "sf_email demo_member = ''sam@x''"
    by (simp_all add: demo_admin_def demo_super_def demo_member_def demo_staff_env_def)
  with updateMe_escalates [OF demo_admin_ok demo_guard this(1) demo_member_found(1) this(2-4)] show ?thesis by metis
qed

end
