(* ===== verification/Js_Text.thy ===== *)
theory Js_Text
  imports Finance_Client
begin

text \<open>
  Operations of JavaScript on texts that several components use: \<open>split\<close> on a character and on a word,
  \<open>encodeURIComponent\<close>, \<open>slice(-n)\<close> and \<open>parseInt\<close>. Texts are ASCII.
\<close>

text \<open>\<open>text.split(c)\<close> for a separator of one character: always at least one part.\<close>

fun split_char :: "char \<Rightarrow> string \<Rightarrow> string list" where
  "split_char c [] = [[]]"
| "split_char c (x # t) = (if x = c then [] # split_char c t else (x # hd (split_char c t)) # tl (split_char c t))"

text \<open>The text before the first occurrence of a word, and what follows it.\<close>

fun until :: "string \<Rightarrow> string \<Rightarrow> string \<times> string option" where
  "until w [] = ([], None)"
| "until w (c # t) = (if starts_with w (c # t) then ([], Some (drop (length w) (c # t)))
     else (case until w t of (a, r) \<Rightarrow> (c # a, r)))"

text \<open>\<open>text.split(word)[1]\<close>: the part between the first two occurrences.\<close>

definition second_part :: "string \<Rightarrow> string \<Rightarrow> string option" where
  "second_part w t = (case snd (until w t) of None \<Rightarrow> None | Some r \<Rightarrow> Some (fst (until w r)))"

text \<open>\<open>text.slice(-n)\<close>\<close>

definition last_part :: "nat \<Rightarrow> string \<Rightarrow> string" where
  "last_part n t = drop (length t - n) t"

definition hex_digit :: "nat \<Rightarrow> char" where
  "hex_digit n = (if n < 10 then char_of (48 + n) else char_of (55 + n))"

definition uri_plain :: "char \<Rightarrow> bool" where
  "uri_plain c \<longleftrightarrow> is_digit c \<or> (65 \<le> (of_char c :: nat) \<and> (of_char c :: nat) \<le> 90) \<or> (97 \<le> (of_char c :: nat) \<and> (of_char c :: nat) \<le> 122)
     \<or> c \<in> set ''-_.!~*()'' \<or> (of_char c :: nat) = 39"

definition encodeURIComponent :: "string \<Rightarrow> string" where
  "encodeURIComponent t = concat (map (\<lambda>c. if uri_plain c then [c]
     else [CHR ''%'', hex_digit (of_char c div 16), hex_digit (of_char c mod 16)]) t)"

section \<open>Laws\<close>

lemma split_char_nonempty [simp]: "split_char c t \<noteq> []"
  by (cases t) auto

lemma split_char_none: "c \<notin> set t \<Longrightarrow> split_char c t = [t]"
  by (induction t) auto

lemma split_char_join: "c \<notin> set a \<Longrightarrow> split_char c (a @ c # t) = a # split_char c t"
  by (induction a) auto

lemma split_char_parts: "p \<in> set (split_char c t) \<Longrightarrow> c \<notin> set p"
proof (induction t arbitrary: p)
  case (Cons x t)
  show ?case
  proof (cases "x = c")
    case False
    then consider "p = x # hd (split_char c t)" | "p \<in> set (tl (split_char c t))" using Cons.prems by auto
    then show ?thesis
    proof cases
      case 1
      then show ?thesis using False Cons.IH [OF hd_in_set] by simp
    qed (auto intro!: Cons.IH list.set_sel(2))
  qed (use Cons in auto)
qed simp

lemma starts_with_append [simp]: "starts_with p (p @ t)"
  by (induction p) auto

lemma starts_with_iff: "starts_with p t \<longleftrightarrow> (\<exists>r. t = p @ r)"
  by (induction p t rule: starts_with.induct) auto

end
