(* ===== verification/Notifications.thy ===== *)
theory Notifications
  imports Wallet_History Js_Text Staff
begin

text \<open>
  Notifications: the list in the portal (\<open>modules/notification/notification.service.ts\<close>) and the worker that
  fills it from Kafka (\<open>notification-worker/src/kafka/kafka.service.ts\<close>,
  \<open>notification/notification.service.ts\<close>, \<open>push/push.service.ts\<close>). Both work on the tables of the identity
  service. An event is handled in two halves, the reading and the writing, because Kafka may give one event
  to two workers; \<open>handleEvent\<close> is one after the other. What the push service and the mail server take is in
  \<open>pushes\<close> and \<open>letters\<close>. Texts that are not ASCII stand as their meaning in brackets, the baht sign as \<open>THB\<close>.
\<close>

section \<open>Tables\<close>

record inbox_row =
  ib_id :: string
  ib_userId :: string
  ib_title :: string
  ib_category :: "string option"
  ib_isRead :: bool
  ib_createdAt :: int
  ib_idempotencyKey :: string
  ib_message :: string
  ib_metadata :: json
  ib_path :: "string option"
  ib_referenceId :: "string option"
  ib_type :: string
  ib_updatedAt :: int

record preference =
  np_userId :: string
  np_pushEnabled :: bool
  np_emailEnabled :: bool
  np_securityForceEmail :: bool

record push =
  ps_token :: string
  ps_title :: string
  ps_body :: string
  ps_data :: json

record letter =
  lt_to :: string
  lt_subject :: string
  lt_html :: string

record notify_db = identity_db +
  inbox :: "inbox_row list"
  preferences :: "preference list"
  pushes :: "push list"
  letters :: "letter list"

text \<open>
  The libraries: the number format of the host (\<open>toLocaleString\<close> with two digits) and the form of push
  tokens; and the turn of a handler: its clock, a new id, which tokens the push service serves, the mail server.
\<close>

record worker_env =
  wk_locale :: "jsnum \<Rightarrow> string"
  wk_isExpoPushToken :: "string \<Rightarrow> bool"

record turn =
  tn_now :: int
  tn_uuid :: string
  tn_pushUp :: "string \<Rightarrow> bool"
  tn_mailUp :: bool

definition SECURITY_EVENTS :: string where "SECURITY_EVENTS = ''security-events''"
definition KYC_EVENTS :: string where "KYC_EVENTS = ''kyc-events''"
definition FINANCIAL_EVENTS_V1 :: string where "FINANCIAL_EVENTS_V1 = ''financial-events-v1''"
definition TRANSACTION_EVENTS :: string where "TRANSACTION_EVENTS = ''transaction-events''"
definition LOYALTY_EVENTS :: string where "LOYALTY_EVENTS = ''loyalty-events''"

definition subscribed :: "string list" where
  "subscribed = [FINANCIAL_EVENTS_V1, TRANSACTION_EVENTS, KYC_EVENTS, SECURITY_EVENTS, LOYALTY_EVENTS]"

section \<open>The portal\<close>

fun legacy_types :: "string \<Rightarrow> string list" where
  "legacy_types c =
     (if c = ''FINANCE'' then [''TRANSFER'', ''TOPUP'', ''PAYMENT'', ''FINANCE'']
      else if c = ''SYSTEM'' then [''SECURITY'', ''KYC_STATUS'', ''SYSTEM'']
      else if c = ''PROMO'' then [''PROMO'', ''OFFER'']
      else if c = ''NEWS'' then [''NEWS'', ''ANNOUNCEMENT'']
      else [])"

definition in_category :: "string option \<Rightarrow> inbox_row \<Rightarrow> bool" where
  "in_category category n = (case category of
      Some (c # t) \<Rightarrow> c # t = ''ALL'' \<or> ib_category n = Some (c # t) \<or> (ib_category n = None \<and> ib_type n \<in> set (legacy_types (c # t)))
    | _ \<Rightarrow> True)"

definition getNotifications :: "string \<Rightarrow> nat \<Rightarrow> nat \<Rightarrow> string option \<Rightarrow> 'a notify_db_scheme \<Rightarrow> (inbox_row list \<times> pagination \<times> nat) result" where
  "getNotifications userId page limit category s =
     (case list_page page limit (sort_key (\<lambda>n. - ib_createdAt n) (filter (\<lambda>n. ib_userId n = userId \<and> in_category category n) (inbox s))) of
        Inl e \<Rightarrow> Inl e
      | Inr (rows, p) \<Rightarrow> Inr (rows, p, count_where (\<lambda>n. ib_userId n = userId \<and> \<not> ib_isRead n) (inbox s)))"

definition markAsRead :: "int \<Rightarrow> string \<Rightarrow> string \<Rightarrow> ('a notify_db_scheme, inbox_row) handler" where
  "markAsRead now userId i s =
     (case find (\<lambda>n. ib_id n = i \<and> ib_userId n = userId) (inbox s) of
        None \<Rightarrow> (Inl (Http NOT_FOUND ''Notification not found''), s)
      | Some n \<Rightarrow> let f = (\<lambda>n. n\<lparr>ib_isRead := True, ib_updatedAt := now\<rparr>)
                  in (Inr (f n), s\<lparr>inbox := update_where (\<lambda>n. ib_id n = i) f (inbox s)\<rparr>))"

text \<open>The device is registered and every other device of the user is deleted.\<close>

definition updateDevicePushToken :: "turn \<Rightarrow> string \<Rightarrow> string \<Rightarrow> string \<Rightarrow> ('a notify_db_scheme, user_device) handler" where
  "updateDevicePushToken tn userId deviceIdentifier pushToken s =
     (if find_user userId s = None then (Inl (Prisma ''P2003''), s)
      else case upsert_device userId deviceIdentifier
             (\<lambda>d. d\<lparr>ud_pushToken := Some pushToken, ud_lastSeenAt := Some (tn_now tn)\<rparr>)
             \<lparr>ud_id = tn_uuid tn, ud_userId = userId, ud_deviceIdentifier = deviceIdentifier, ud_deviceName = None,
              ud_trustLevel = TRUSTED, ud_lastSeenAt = Some (tn_now tn), ud_pushToken = Some pushToken\<rparr> s of
        (d, s1) \<Rightarrow> (Inr d, s1\<lparr>userDevices := filter (\<lambda>d. \<not> (ud_userId d = userId \<and> ud_deviceIdentifier d \<noteq> deviceIdentifier)) (userDevices s1)\<rparr>))"

definition find_preference :: "string \<Rightarrow> 'a notify_db_scheme \<Rightarrow> preference option" where
  "find_preference userId s = find (\<lambda>p. np_userId p = userId) (preferences s)"

definition default_preference :: "string \<Rightarrow> preference" where
  "default_preference userId = \<lparr>np_userId = userId, np_pushEnabled = True, np_emailEnabled = True, np_securityForceEmail = True\<rparr>"

definition create_preference :: "preference \<Rightarrow> ('a notify_db_scheme, preference) handler" where
  "create_preference p s = (if find_user (np_userId p) s = None then (Inl (Prisma ''P2003''), s)
     else (Inr p, s\<lparr>preferences := preferences s @ [p]\<rparr>))"

definition set_preference :: "bool option \<Rightarrow> bool option \<Rightarrow> preference \<Rightarrow> preference" where
  "set_preference push email p = p\<lparr>np_pushEnabled := (case push of None \<Rightarrow> np_pushEnabled p | Some b \<Rightarrow> b),
     np_emailEnabled := (case email of None \<Rightarrow> np_emailEnabled p | Some b \<Rightarrow> b)\<rparr>"

definition updatePreferences :: "string \<Rightarrow> bool option \<Rightarrow> bool option \<Rightarrow> ('a notify_db_scheme, preference) handler" where
  "updatePreferences userId push email s =
     (case find_preference userId s of
        Some p \<Rightarrow> (Inr (set_preference push email p), s\<lparr>preferences := update_where (\<lambda>p. np_userId p = userId) (set_preference push email) (preferences s)\<rparr>)
      | None \<Rightarrow> create_preference (set_preference push email (default_preference userId)) s)"

definition getPreferences :: "string \<Rightarrow> ('a notify_db_scheme, preference) handler" where
  "getPreferences userId s =
     (case find_preference userId s of Some p \<Rightarrow> (Inr p, s) | None \<Rightarrow> create_preference (default_preference userId) s)"

section \<open>The texts of a notification\<close>

definition type_error :: error where
  "type_error = Plain ''TypeError''"

definition either :: "string list \<Rightarrow> string \<Rightarrow> json \<Rightarrow> string" where
  "either ks d m = String_json (foldr (\<lambda>k v. jor (jget k m) v) ks (JStr d))"

definition flag :: "string \<Rightarrow> json \<Rightarrow> bool" where
  "flag k m = truthy (jget k m)"

definition generateTitle :: "string \<Rightarrow> string \<Rightarrow> json \<Rightarrow> string" where
  "generateTitle topic eventType m =
     (let type = map upper eventType in
      if topic = SECURITY_EVENTS then
        (if type = ''LOGIN_FAILURE'' then ''Security Alert: Failed Login''
         else if type = ''PASSWORD_CHANGE'' then ''Security Alert: Password Updated''
         else if type = ''REGISTRATION_COMPLETED'' then ''Welcome to J-Ledger!''
         else ''Security Alert'')
      else if topic = KYC_EVENTS \<or> type = ''KYC_SUBMITTED'' then ''Identity Verification''
      else if type = ''TOPUP'' then ''Wallet Top-up''
      else if type = ''TRANSFER'' then
        (if flag ''isMerchantPayment'' m then ''Merchant Payment''
         else if flag ''isReceiver'' m then ''Money Received'' else ''Payment Sent'')
      else if type = ''LOYALTY_EARN'' then ''(Points received!)''
      else if type = ''FINANCE'' then
        (if flag ''isMerchantPayment'' m then ''Merchant Payment Successful'' else ''Account Activity Update'')
      else ''J-Ledger Notification'')"

definition amount_text :: "worker_env \<Rightarrow> json \<Rightarrow> json \<Rightarrow> string" where
  "amount_text we m amt = wk_locale we (Number_json (jor (jget ''totalAmount'' m) (jor (jget ''amount'' m) (jor amt (JNum (Fin 0))))))"

definition ref_text :: "json \<Rightarrow> string" where
  "ref_text m = (let ref = either [''transactionId'', ''referenceId''] [] m
     in if ref = [] then [] else '' (Ref: '' @ map upper (last_part 8 ref) @ '')'')"

definition topup_source :: "json \<Rightarrow> string result" where
  "topup_source m = (if flag ''source'' m then Inr (String_json (jget ''source'' m))
     else case jor (jget ''description'' m) (JStr []) of
       JStr desc \<Rightarrow> Inr (if contains ''STRIPE'' (map upper desc) then ''Credit Card (Stripe)''
                         else case second_part ''via '' desc of Some (c # t) \<Rightarrow> c # t | _ \<Rightarrow> ''Bank Transfer'')
     | _ \<Rightarrow> Inl type_error)"

text \<open>The name on the card of a sender, when the event has only the id.\<close>

definition profile_name :: "json \<Rightarrow> 'a notify_db_scheme \<Rightarrow> json" where
  "profile_name i s = (case i of
      JStr u \<Rightarrow> (case find (\<lambda>k. kd_userId k = u) (kycData s) of Some k \<Rightarrow> jget ''idCardName'' (JObj (kd_fields k)) | None \<Rightarrow> JUndef)
    | _ \<Rightarrow> JUndef)"

definition sender_name :: "json \<Rightarrow> 'a notify_db_scheme \<Rightarrow> json" where
  "sender_name m s =
     (let name = jor (jget ''senderName'' m) (jget ''senderPhone'' m)
      in if \<not> truthy name \<and> flag ''senderUserId'' m \<and> truthy (profile_name (jget ''senderUserId'' m) s)
         then profile_name (jget ''senderUserId'' m) s else name)"

definition transfer_body :: "worker_env \<Rightarrow> json \<Rightarrow> json \<Rightarrow> 'a notify_db_scheme \<Rightarrow> string" where
  "transfer_body we m amt s =
     (let amount = ''THB'' @ amount_text we m amt; ref = ref_text m in
      if flag ''isReceiver'' m
      then let sender = String_json (jor (sender_name m s) (JStr ''a J-Ledger user''))
           in if flag ''isMerchantPayment'' m then ''You have received a payment of '' @ amount @ '' from '' @ sender @ ''.'' @ ref
              else ''You have received '' @ amount @ '' from '' @ sender @ ''.'' @ ref
      else let recipient = either [''recipientName'', ''recipientPhone''] ''Recipient'' m
           in if flag ''isMerchantPayment'' m then ''Payment of '' @ amount @ '' to '' @ recipient @ '' was successful.'' @ ref
              else ''Payment of '' @ amount @ '' to '' @ recipient @ '' has been processed successfully.'' @ ref)"

definition loyalty_body :: "json \<Rightarrow> string" where
  "loyalty_body m =
     ''(You received) '' @ String_json (jor (jget ''points'' m) (JNum (Fin 0))) @ '' (points from) ''
     @ (if jget ''source'' m = JStr ''TOPUP'' then ''(a amt-up)'' else ''(a transfer)'')
     @ '' (in total) '' @ String_json (jor (jget ''totalBalance'' m) (JNum (Fin 0))) @ '' (points, expiring) ''
     @ either [''expiresPeriod''] ''(soon)'' m"

definition generateBody :: "worker_env \<Rightarrow> string \<Rightarrow> json \<Rightarrow> json \<Rightarrow> 'a notify_db_scheme \<Rightarrow> string result" where
  "generateBody we eventType m amt s =
     (let type = map upper eventType; amount = ''THB'' @ amount_text we m amt; ref = ref_text m in
      if type = ''LOGIN_SUCCESS'' then Inr (''Secure login detected from '' @ either [''deviceName'', ''ipAddress''] ''a new device'' m
        @ ''. If this wasn't you, please secure your account immediately.'')
      else if type = ''LOGIN_FAILURE'' then Inr (''A failed login attempt was detected for your account from ''
        @ either [''deviceName''] ''an unknown device'' m @ ''. If this wasn't you, we recommend monitoring your account.'')
      else if type = ''PASSWORD_CHANGE'' then Inr ''Your account password has been successfully updated. If you did not perform this change, please contact support immediately to secure your wallet.''
      else if type = ''KYC_SUBMITTED'' then Inr ''We've received your identity documents! Our team is currently reviewing your application. This usually takes 1-3 business days.''
      else if type = ''REGISTRATION_COMPLETED'' then Inr ''Welcome to the family! Your J-Ledger account is now fully active. You can now start managing your digital assets securely.''
      else if type = ''KYC_APPROVED'' then Inr ''Congratulations! Your identity verification has been successfully approved. You now have full access to all features.''
      else if type = ''KYC_REJECTED'' then Inr (''Identity verification was not successful. Reason: '' @ either [''reason''] ''Document clarity issue'' m
        @ ''. Please try again or contact support.'')
      else if type = ''TOPUP'' then (case topup_source m of Inl e \<Rightarrow> Inl e
        | Inr source \<Rightarrow> Inr (''Your wallet has been successfully topped up with '' @ amount @ '' via '' @ source @ ''.'' @ ref))
      else if type = ''TRANSFER'' then Inr (transfer_body we m amt s)
      else if type = ''LOYALTY_EARN'' then Inr (loyalty_body m)
      else if type = ''FINANCE'' then
        (if flag ''isMerchantPayment'' m then Inr (''Payment of '' @ amount @ '' to '' @ either [''recipientName''] ''Merchant'' m @ '' was successful.'' @ ref)
         else Inr (''Your transaction of '' @ amount @ '' has been processed successfully.'' @ ref))
      else Inr ''You have a new update regarding your account activities.'')"

definition getCategoryAndPath :: "string \<Rightarrow> json \<Rightarrow> string \<times> string option" where
  "getCategoryAndPath eventType m =
     (let type = map upper eventType in
      if type \<in> set [''TRANSFER'', ''TOPUP'', ''WITHDRAW'', ''PAYMENT'', ''FINANCE''] then
        (let i = either [''transactionId'', ''referenceId''] [] m in (''FINANCE'', if flag ''transactionId'' m \<or> flag ''referenceId'' m then Some (''/transaction/'' @ i) else None))
      else if type \<in> set [''SECURITY'', ''LOGIN_SUCCESS'', ''PASSWORD_CHANGE''] then (''SYSTEM'', Some ''/profile/security'')
      else if type \<in> set [''KYC_STATUS'', ''KYC_APPROVED'', ''KYC_REJECTED'', ''KYC_SUBMITTED''] then (''SYSTEM'', Some ''/profile/information'')
      else if type = ''REGISTRATION_COMPLETED'' then (''SYSTEM'', Some ''/'')
      else if type = ''LOYALTY_EARN'' then (''PROMO'', Some ''/loyalty'')
      else if type \<in> set [''PROMO'', ''OFFER'', ''CAMPAIGN''] then (''PROMO'', None)
      else if type \<in> set [''NEWS'', ''ANNOUNCEMENT''] then (''NEWS'', None)
      else (''SYSTEM'', None))"

section \<open>Pushes and letters\<close>

definition sendPushNotification :: "worker_env \<Rightarrow> turn \<Rightarrow> string \<Rightarrow> string \<Rightarrow> string \<Rightarrow> json \<Rightarrow> 'a notify_db_scheme \<Rightarrow> bool \<times> 'a notify_db_scheme" where
  "sendPushNotification we tn token title body data s =
     (if \<not> wk_isExpoPushToken we token then (False, s)
      else if tn_pushUp tn token then (True, s\<lparr>pushes := pushes s @ [\<lparr>ps_token = token, ps_title = title, ps_body = body, ps_data = data\<rparr>]\<rparr>)
      else (False, s))"

fun push_all :: "worker_env \<Rightarrow> turn \<Rightarrow> string list \<Rightarrow> string \<Rightarrow> string \<Rightarrow> json \<Rightarrow> 'a notify_db_scheme \<Rightarrow> bool \<times> 'a notify_db_scheme" where
  "push_all we tn [] title body data s = (False, s)"
| "push_all we tn (t # ts) title body data s =
     (case sendPushNotification we tn t title body data s of
        (ok, s1) \<Rightarrow> (case push_all we tn ts title body data s1 of (oks, s2) \<Rightarrow> (ok \<or> oks, s2)))"

definition sendEmail :: "turn \<Rightarrow> string \<Rightarrow> string \<Rightarrow> string \<Rightarrow> ('a notify_db_scheme, unit) handler" where
  "sendEmail tn to subject html s =
     (if tn_mailUp tn then (Inr (), s\<lparr>letters := letters s @ [\<lparr>lt_to = to, lt_subject = subject, lt_html = html\<rparr>]\<rparr>)
      else (Inl (Plain ''Failed to send email''), s))"

text \<open>The lines of the page; \<open>unlines\<close> ends each with a line feed.\<close>

definition unlines :: "string list \<Rightarrow> string" where
  "unlines ls = concat (map (\<lambda>l. l @ [char_of (10 :: nat)]) ls)"

definition wrapEmailHtml :: "string \<Rightarrow> string \<Rightarrow> string" where
  "wrapEmailHtml title body = [char_of (10 :: nat)] @ unlines
     [''      <div style=\"font-family: sans-serif; padding: 20px; color: #333;\">'',
      ''        <h2 style=\"color: #007bff;\">'' @ title @ ''</h2>'',
      ''        <p>'' @ body @ ''</p>'',
      ''        <hr />'',
      ''        <p style=\"font-size: 12px; color: #999;\">This is an automated message from J-Ledger. Please do not reply.</p>'',
      ''      </div>''] @ ''    ''"

section \<open>Handling an event\<close>

text \<open>What the reading half of the handler leaves in its local variables.\<close>

record event_job =
  ej_topic :: string
  ej_userId :: string
  ej_type :: string
  ej_reference :: json
  ej_key :: string
  ej_existing :: bool
  ej_metadata :: json
  ej_email :: "string option"
  ej_prefs :: "preference option"
  ej_tokens :: "string list"
  ej_title :: string
  ej_body :: string
  ej_category :: string
  ej_path :: "string option"

definition event_metadata :: "json \<Rightarrow> json" where
  "event_metadata payload = (case jget ''metadata'' payload of
      JStr t \<Rightarrow> (case JSON_parse t of None \<Rightarrow> JStr t | Some v \<Rightarrow> v)
    | m \<Rightarrow> m)"

definition silent :: "json \<Rightarrow> bool" where
  "silent m \<longleftrightarrow> jget ''silent'' m = JBool True \<or> jget ''silent'' m = JStr ''true''"

definition event_type :: "json \<Rightarrow> json" where
  "event_type payload = jor (jget ''eventType'' payload) (jor (jget ''status'' payload) (JStr ''NOTIFICATION''))"

definition given_reference :: "json \<Rightarrow> json" where
  "given_reference payload = jor (jget ''referenceId'' payload) (jor (jget ''documentId'' payload) (jget ''transactionId'' payload))"

definition event_reference :: "int \<Rightarrow> json \<Rightarrow> json" where
  "event_reference now payload = jor (given_reference payload) (JStr (int_text now))"

definition idempotency_key :: "string \<Rightarrow> string \<Rightarrow> json \<Rightarrow> string" where
  "idempotency_key userId type reference = userId @ '':'' @ type @ '':'' @ String_json reference"

definition push_tokens :: "string \<Rightarrow> 'a notify_db_scheme \<Rightarrow> string list" where
  "push_tokens userId s = concat (map (\<lambda>d. case ud_pushToken d of Some t \<Rightarrow> [t] | None \<Rightarrow> []) (filter (\<lambda>d. ud_userId d = userId) (userDevices s)))"

definition read_event :: "worker_env \<Rightarrow> turn \<Rightarrow> string \<Rightarrow> json \<Rightarrow> 'a notify_db_scheme \<Rightarrow> event_job option" where
  "read_event we tn topic payload s =
     (let m = event_metadata payload; reference = event_reference (tn_now tn) payload in
      if silent m then None
      else case (jget ''userId'' payload, event_type payload) of
        (JStr userId, JStr type) \<Rightarrow>
          (case find_user userId s of
             None \<Rightarrow> None
           | Some u \<Rightarrow>
               (case generateBody we type m (jget ''amount'' payload) s of
                  Inl e \<Rightarrow> None
                | Inr body \<Rightarrow>
                    let key = idempotency_key userId type reference
                    in Some \<lparr>ej_topic = topic, ej_userId = userId, ej_type = type, ej_reference = reference, ej_key = key,
                             ej_existing = list_ex (\<lambda>n. ib_idempotencyKey n = key) (inbox s), ej_metadata = m, ej_email = us_email u,
                             ej_prefs = find_preference userId s, ej_tokens = push_tokens userId s,
                             ej_title = generateTitle topic type m, ej_body = body,
                             ej_category = fst (getCategoryAndPath type m), ej_path = snd (getCategoryAndPath type m)\<rparr>))
      | _ \<Rightarrow> None)"

definition inbox_entry :: "turn \<Rightarrow> event_job \<Rightarrow> string \<Rightarrow> inbox_row" where
  "inbox_entry tn j reference = \<lparr>ib_id = tn_uuid tn, ib_userId = ej_userId j, ib_title = ej_title j, ib_category = Some (ej_category j),
     ib_isRead = False, ib_createdAt = tn_now tn, ib_idempotencyKey = ej_key j, ib_message = ej_body j,
     ib_metadata = jor (ej_metadata j) (JObj []), ib_path = ej_path j, ib_referenceId = Some reference, ib_type = ej_type j, ib_updatedAt = tn_now tn\<rparr>"

text \<open>The insertion: a reference that is no text is refused, so is a key or a user that is gone.\<close>

definition insert_inbox :: "turn \<Rightarrow> event_job \<Rightarrow> ('a notify_db_scheme, unit) handler" where
  "insert_inbox tn j s = (case ej_reference j of
      JStr reference \<Rightarrow>
        if list_ex (\<lambda>n. ib_idempotencyKey n = ej_key j) (inbox s) then (Inl (Prisma ''P2002''), s)
        else if find_user (ej_userId j) s = None then (Inl (Prisma ''P2003''), s)
        else (Inr (), s\<lparr>inbox := inbox s @ [inbox_entry tn j reference]\<rparr>)
    | _ \<Rightarrow> (Inl (Plain ''PrismaClientValidationError''), s))"

definition push_data :: "event_job \<Rightarrow> json" where
  "push_data j = merge_objects (ej_metadata j) (JObj [(''topic'', JStr (ej_topic j)), (''eventType'', JStr (ej_type j)),
     (''url'', if ej_type j \<in> set [''TRANSFER'', ''TOPUP''] \<and> flag ''transactionId'' (ej_metadata j)
               then JStr (''/transaction/'' @ String_json (jget ''transactionId'' (ej_metadata j))) else JUndef)])"

definition is_security :: "event_job \<Rightarrow> bool" where
  "is_security j \<longleftrightarrow> ej_topic j = SECURITY_EVENTS"

definition wants_push :: "event_job \<Rightarrow> bool" where
  "wants_push j \<longleftrightarrow> is_security j
     \<or> ((case ej_prefs j of Some p \<Rightarrow> np_pushEnabled p | None \<Rightarrow> True) \<and> jget ''silent'' (ej_metadata j) \<noteq> JBool True)"

definition wants_email :: "event_job \<Rightarrow> bool" where
  "wants_email j \<longleftrightarrow> (case ej_prefs j of Some p \<Rightarrow> np_emailEnabled p | None \<Rightarrow> True)"

definition push_event :: "worker_env \<Rightarrow> turn \<Rightarrow> event_job \<Rightarrow> 'a notify_db_scheme \<Rightarrow> (bool \<times> bool) \<times> 'a notify_db_scheme" where
  "push_event we tn j s =
     (if wants_push j \<and> ej_tokens j \<noteq> []
      then (case push_all we tn (ej_tokens j) (ej_title j) (ej_body j) (push_data j) s of (ok, s1) \<Rightarrow> ((True, ok), s1))
      else ((False, False), s))"

definition mail_event :: "turn \<Rightarrow> event_job \<Rightarrow> bool \<times> bool \<Rightarrow> 'a notify_db_scheme \<Rightarrow> 'a notify_db_scheme" where
  "mail_event tn j r s =
     (case r of (attempted, ok) \<Rightarrow>
        if is_security j \<or> (attempted \<and> \<not> ok \<and> wants_email j) \<or> (\<not> attempted \<and> wants_email j)
        then (case ej_email j of
                Some (c # t) \<Rightarrow> snd (sendEmail tn (c # t) (ej_title j) (wrapEmailHtml (ej_title j) (ej_body j)) s)
              | _ \<Rightarrow> s)
        else s)"

text \<open>An error ends the handler; it is logged and what was done before stays.\<close>

definition write_event :: "worker_env \<Rightarrow> turn \<Rightarrow> event_job \<Rightarrow> 'a notify_db_scheme \<Rightarrow> 'a notify_db_scheme" where
  "write_event we tn j s =
     (case (if ej_existing j then (Inr (), s) else insert_inbox tn j s) of
        (Inl e, s1) \<Rightarrow> s1
      | (Inr _, s1) \<Rightarrow> (case push_event we tn j s1 of (r, s2) \<Rightarrow> mail_event tn j r s2))"

definition handleEvent :: "worker_env \<Rightarrow> turn \<Rightarrow> string \<Rightarrow> json \<Rightarrow> 'a notify_db_scheme \<Rightarrow> 'a notify_db_scheme" where
  "handleEvent we tn topic payload s = (case read_event we tn topic payload s of None \<Rightarrow> s | Some j \<Rightarrow> write_event we tn j s)"

section \<open>Messages\<close>

text \<open>
  The two mails of the administration. Their pages differ in the heading, the sentence and the label of the
  button; each shows the link three times. \<open>admin_page\<close> keeps these parts and leaves out the fixed markup.
\<close>

definition admin_page :: "string \<Rightarrow> string \<Rightarrow> string \<Rightarrow> string \<Rightarrow> string" where
  "admin_page heading sentence button link =
     unlines [heading, sentence, ''<a href=\"'' @ link @ ''\">'' @ button @ ''</a>'', ''<a href=\"'' @ link @ ''\">'' @ link @ ''</a>'',
       ''This link will expire in 24 hours for security purposes.'']"

definition invite_page :: "string \<Rightarrow> string" where
  "invite_page = admin_page ''Welcome to J-Ledger'' ''You have been invited to join the J-Ledger administrator team. Please click the button below to set up your password and activate your account.''
     ''Set Up Your Account''"

definition reset_page :: "string \<Rightarrow> string" where
  "reset_page = admin_page ''Password Reset Request'' ''We received a request to reset the password for your administrator account. Please click the button below to define a new password.''
     ''Reset Password''"

definition admin_mail :: "turn \<Rightarrow> json \<Rightarrow> string \<Rightarrow> (string \<Rightarrow> string) \<Rightarrow> string \<Rightarrow> 'a notify_db_scheme \<Rightarrow> 'a notify_db_scheme" where
  "admin_mail tn m subject page link_key s =
     (case jget ''email'' m of
        JStr (c # t) \<Rightarrow> snd (sendEmail tn (c # t) subject (page (String_json (jget link_key m))) s)
      | _ \<Rightarrow> s)"

definition handleMessage :: "worker_env \<Rightarrow> turn \<Rightarrow> string \<Rightarrow> json \<Rightarrow> 'a notify_db_scheme \<Rightarrow> 'a notify_db_scheme" where
  "handleMessage we tn topic payload s =
     (if nullish payload then s
      else if topic = SECURITY_EVENTS \<and> jget ''eventType'' payload = JStr ''ADMIN_INVITE''
      then admin_mail tn (jget ''metadata'' payload) ''Welcome to J-Ledger Admin Portal!'' invite_page ''setupLink'' s
      else if topic = SECURITY_EVENTS \<and> jget ''eventType'' payload = JStr ''ADMIN_PASSWORD_RESET''
      then admin_mail tn (jget ''metadata'' payload) ''Reset your J-Ledger Admin Password'' reset_page ''resetLink'' s
      else handleEvent we tn topic payload s)"

definition eachMessage :: "worker_env \<Rightarrow> turn \<Rightarrow> string \<Rightarrow> string option \<Rightarrow> 'a notify_db_scheme \<Rightarrow> 'a notify_db_scheme" where
  "eachMessage we tn topic value s =
     (case value of
        Some (c # t) \<Rightarrow> (case JSON_parse (c # t) of None \<Rightarrow> s | Some payload \<Rightarrow> handleMessage we tn topic payload s)
      | _ \<Rightarrow> s)"

text \<open>What the portal publishes for a mail (\<open>admin/services/mail.service.ts\<close>) and for points (\<open>modules/loyalty\<close>).\<close>

definition mail_link :: "string \<Rightarrow> mail \<Rightarrow> string" where
  "mail_link url m = url @ (case ml_kind m of ADMIN_INVITE \<Rightarrow> ''/setup-account'' | ADMIN_PASSWORD_RESET \<Rightarrow> ''/reset-password'')
     @ ''?token='' @ ml_token m @ ''&email='' @ encodeURIComponent (ml_email m)"

definition mail_payload :: "string \<Rightarrow> int \<Rightarrow> string \<Rightarrow> mail \<Rightarrow> json" where
  "mail_payload url now stamp m = JObj [(''userId'', JStr ''SYSTEM''),
     (''eventType'', JStr (case ml_kind m of ADMIN_INVITE \<Rightarrow> ''ADMIN_INVITE'' | ADMIN_PASSWORD_RESET \<Rightarrow> ''ADMIN_PASSWORD_RESET'')),
     (''metadata'', JObj [(''email'', JStr (ml_email m)), (case ml_kind m of ADMIN_INVITE \<Rightarrow> ''setupLink'' | ADMIN_PASSWORD_RESET \<Rightarrow> ''resetLink'', JStr (mail_link url m))]),
     (''timestamp'', JStr stamp),
     (''referenceId'', JStr ((case ml_kind m of ADMIN_INVITE \<Rightarrow> ''invite-'' | ADMIN_PASSWORD_RESET \<Rightarrow> ''reset-'') @ int_text now))]"

definition earn_payload :: "loyalty_event \<Rightarrow> json" where
  "earn_payload e = JObj ([(''userId'', JStr (le_userId e)), (''eventType'', JStr ''LOYALTY_EARN'')]
     @ (case le_referenceId e of None \<Rightarrow> [] | Some r \<Rightarrow> [(''referenceId'', JStr r)])
     @ [(''metadata'', JObj [(''points'', JNum (Fin (of_int (le_points e)))), (''totalBalance'', JNum (Fin (of_int (le_totalBalance e)))),
          (''source'', JStr (le_source e)), (''expiresPeriod'', JStr (padStart 2 (int_text (fst (le_expiresPeriod e))) @ ''/'' @ int_text (snd (le_expiresPeriod e))))])])"

end
