(* ===== verification/Notifications_Props.thy ===== *)
theory Notifications_Props
  imports Notifications Staff_Props
begin

text \<open>
  Properties of notifications. The locale \<open>inbox_operation\<close> is the contract of everything that touches the
  tables of the worker: messages are only added, under keys of their own, and nothing of them changes but the
  mark that they were read. It is interpreted on the operations of the portal and on both ends of a handler;
  a step relation puts them together, with any number of events being handled at a time.
\<close>

section \<open>The contract\<close>

definition message_core :: "inbox_row \<Rightarrow> inbox_row" where
  "message_core n = n\<lparr>ib_isRead := False, ib_updatedAt := 0\<rparr>"

definition inbox_keys :: "notify_db \<Rightarrow> string list" where
  "inbox_keys s = map ib_idempotencyKey (inbox s)"

definition inbox_kept :: "notify_db \<Rightarrow> notify_db \<Rightarrow> bool" where
  "inbox_kept s s' \<longleftrightarrow> (\<exists>new. map message_core (inbox s') = map message_core (inbox s) @ new) \<and> (distinct (inbox_keys s) \<longrightarrow> distinct (inbox_keys s'))"

lemma core_key: "map ib_idempotencyKey ns = map ib_idempotencyKey (map message_core ns)"
  by (simp add: message_core_def o_def)

lemma inbox_kept_same: "inbox s' = inbox s \<Longrightarrow> inbox_kept s s'"
  by (simp add: inbox_kept_def inbox_keys_def)

lemma inbox_kept_trans: "inbox_kept s t \<Longrightarrow> inbox_kept t u \<Longrightarrow> inbox_kept s u"
  by (auto simp: inbox_kept_def)

lemma inbox_kept_add: "ib_idempotencyKey n \<notin> set (inbox_keys s) \<Longrightarrow> inbox s' = inbox s @ [n] \<Longrightarrow> inbox_kept s s'"
  by (auto simp: inbox_kept_def inbox_keys_def)

locale inbox_operation =
  fixes run :: "'i \<Rightarrow> notify_db \<Rightarrow> notify_db"
  assumes kept: "inbox_kept s (run i s)"
begin

lemma runs_kept: "inbox_kept s (fold run is s)"
  by (induction "is" arbitrary: s) (auto intro: inbox_kept_same inbox_kept_trans kept)

lemma row_stays:
  assumes "n \<in> set (inbox s)"
  shows "\<exists>m\<in>set (inbox (fold run is s)). message_core m = message_core n"
proof -
  obtain new where "map message_core (inbox (fold run is s)) = map message_core (inbox s) @ new" using runs_kept by (auto simp: inbox_kept_def)
  then have "message_core n \<in> message_core ` set (inbox (fold run is s))" using assms by (metis UnCI image_eqI list.set_map set_append)
  then show ?thesis by auto
qed

end

section \<open>The operations\<close>

lemma push_all_tables:
  "push_all we tn ts title body data s = (ok, s') \<Longrightarrow> inbox s' = inbox s \<and> letters s' = letters s \<and> preferences s' = preferences s
     \<and> userDevices s' = userDevices s \<and> users s' = users s
     \<and> (\<exists>ps. pushes s' = pushes s @ ps \<and> ps_token ` set ps = {t \<in> set ts. wk_isExpoPushToken we t \<and> tn_pushUp tn t}) \<and> (ok \<longleftrightarrow> (\<exists>t\<in>set ts. wk_isExpoPushToken we t \<and> tn_pushUp tn t))"
proof (induction ts arbitrary: s ok s')
  case (Cons t ts)
  obtain o1 s1 where 1: "sendPushNotification we tn t title body data s = (o1, s1)" by fastforce
  obtain o2 s2 where 2: "push_all we tn ts title body data s1 = (o2, s2)" by fastforce
  have r: "s' = s2" "ok = (o1 \<or> o2)" using Cons.prems 1 2 by simp_all
  from Cons.IH [OF 2] obtain ps where ps: "pushes s2 = pushes s1 @ ps" "ps_token ` set ps = {t \<in> set ts. wk_isExpoPushToken we t \<and> tn_pushUp tn t}" by blast
  have one: "inbox s1 = inbox s \<and> letters s1 = letters s \<and> preferences s1 = preferences s \<and> userDevices s1 = userDevices s \<and> users s1 = users s
      \<and> pushes s1 = pushes s @ (if wk_isExpoPushToken we t \<and> tn_pushUp tn t then [\<lparr>ps_token = t, ps_title = title, ps_body = body, ps_data = data\<rparr>] else [])
      \<and> (o1 \<longleftrightarrow> wk_isExpoPushToken we t \<and> tn_pushUp tn t)"
    using 1 by (auto simp: sendPushNotification_def split: if_splits)
  show ?case using Cons.IH [OF 2] one r ps by (auto intro!: exI [of _ "(if wk_isExpoPushToken we t \<and> tn_pushUp tn t then [_] else []) @ ps"])
qed simp

lemma key_taken: "list_ex (\<lambda>n. ib_idempotencyKey n = k) (inbox s) \<longleftrightarrow> k \<in> set (inbox_keys s)"
  by (auto simp: list_ex_iff inbox_keys_def)

lemma insert_inbox_result:
  assumes "insert_inbox tn j s = (r, s1)"
  shows "(\<exists>e. r = Inl e \<and> s1 = s)
     \<or> (\<exists>t. r = Inr () \<and> ej_reference j = JStr t \<and> ej_key j \<notin> set (inbox_keys s) \<and> s1 = s\<lparr>inbox := inbox s @ [inbox_entry tn j t]\<rparr>)"
  using assms by (auto simp: insert_inbox_def key_taken split: json.splits if_splits)

definition served :: "worker_env \<Rightarrow> turn \<Rightarrow> event_job \<Rightarrow> string set" where
  "served we tn j = {t \<in> set (ej_tokens j). wk_isExpoPushToken we t \<and> tn_pushUp tn t}"

definition event_letter :: "event_job \<Rightarrow> string \<Rightarrow> letter" where
  "event_letter j to = \<lparr>lt_to = to, lt_subject = ej_title j, lt_html = wrapEmailHtml (ej_title j) (ej_body j)\<rparr>"

lemma push_event_effect:
  assumes "push_event we tn j s = (r, s1)"
  shows "inbox s1 = inbox s \<and> letters s1 = letters s \<and> preferences s1 = preferences s \<and> userDevices s1 = userDevices s \<and> users s1 = users s"
    and "\<exists>ps. pushes s1 = pushes s @ ps \<and> ps_token ` set ps = (if wants_push j then served we tn j else {})"
    and "r = (wants_push j \<and> ej_tokens j \<noteq> [], wants_push j \<and> served we tn j \<noteq> {})"
proof -
  consider "wants_push j \<and> ej_tokens j \<noteq> []" "push_all we tn (ej_tokens j) (ej_title j) (ej_body j) (push_data j) s = (snd r, s1)" "fst r"
    | "\<not> (wants_push j \<and> ej_tokens j \<noteq> [])" "r = (False, False)" "s1 = s"
    using assms by (auto simp: push_event_def split: if_splits prod.splits)
  then have "(inbox s1 = inbox s \<and> letters s1 = letters s \<and> preferences s1 = preferences s \<and> userDevices s1 = userDevices s \<and> users s1 = users s)
    \<and> (\<exists>ps. pushes s1 = pushes s @ ps \<and> ps_token ` set ps = (if wants_push j then served we tn j else {}))
    \<and> r = (wants_push j \<and> ej_tokens j \<noteq> [], wants_push j \<and> served we tn j \<noteq> {})"
  proof cases
    case 1
    from push_all_tables [OF 1(2)] 1(1,3) show ?thesis by (auto simp: served_def prod_eq_iff)
  next
    case 2
    then show ?thesis by (auto simp: served_def)
  qed
  then show "inbox s1 = inbox s \<and> letters s1 = letters s \<and> preferences s1 = preferences s \<and> userDevices s1 = userDevices s \<and> users s1 = users s"
    "\<exists>ps. pushes s1 = pushes s @ ps \<and> ps_token ` set ps = (if wants_push j then served we tn j else {})"
    "r = (wants_push j \<and> ej_tokens j \<noteq> [], wants_push j \<and> served we tn j \<noteq> {})" by blast+
qed

text \<open>A letter is owed for security, and otherwise where no push came through and letters are wanted.\<close>

definition owes_letter :: "worker_env \<Rightarrow> turn \<Rightarrow> event_job \<Rightarrow> bool" where
  "owes_letter we tn j \<longleftrightarrow> is_security j \<or> (wants_email j \<and> (wants_push j \<longrightarrow> served we tn j = {}))"

lemma mail_event_effect:
  assumes "r = (wants_push j \<and> ej_tokens j \<noteq> [], wants_push j \<and> served we tn j \<noteq> {})"
  shows "letters (mail_event tn j r s) = letters s @ (case ej_email j of
       Some (c # t) \<Rightarrow> if owes_letter we tn j \<and> tn_mailUp tn then [event_letter j (c # t)] else [] | _ \<Rightarrow> [])"
    and "inbox (mail_event tn j r s) = inbox s \<and> pushes (mail_event tn j r s) = pushes s \<and> preferences (mail_event tn j r s) = preferences s
       \<and> userDevices (mail_event tn j r s) = userDevices s \<and> users (mail_event tn j r s) = users s"
  using assms by (auto simp: mail_event_def owes_letter_def served_def event_letter_def sendEmail_def split: option.splits list.splits)

definition goes_through :: "event_job \<Rightarrow> notify_db \<Rightarrow> bool" where
  "goes_through j s \<longleftrightarrow> ej_existing j \<or> ((\<exists>t. ej_reference j = JStr t) \<and> ej_key j \<notin> set (inbox_keys s) \<and> find_user (ej_userId j) s \<noteq> None)"

lemma write_event_fails: "\<not> goes_through j s \<Longrightarrow> write_event we tn j s = s"
  by (auto simp: write_event_def goes_through_def insert_inbox_def key_taken split: json.splits if_splits)

lemma write_event_effect:
  assumes "goes_through j s"
  shows "inbox (write_event we tn j s) = inbox s @ (if ej_existing j then [] else [inbox_entry tn j (case ej_reference j of JStr t \<Rightarrow> t | _ \<Rightarrow> [])])"
    and "\<exists>ps. pushes (write_event we tn j s) = pushes s @ ps \<and> ps_token ` set ps = (if wants_push j then served we tn j else {})"
    and "letters (write_event we tn j s) = letters s @ (case ej_email j of
       Some (c # t) \<Rightarrow> if owes_letter we tn j \<and> tn_mailUp tn then [event_letter j (c # t)] else [] | _ \<Rightarrow> [])"
    and "userDevices (write_event we tn j s) = userDevices s \<and> users (write_event we tn j s) = users s"
proof -
  define s1 where "s1 = (if ej_existing j then s else s\<lparr>inbox := inbox s @ [inbox_entry tn j (case ej_reference j of JStr t \<Rightarrow> t | _ \<Rightarrow> [])]\<rparr>)"
  have "(if ej_existing j then (Inr (), s) else insert_inbox tn j s) = (Inr (), s1)"
    using assms by (auto simp: goes_through_def insert_inbox_def s1_def key_taken)
  moreover obtain r s2 where p: "push_event we tn j s1 = (r, s2)" by fastforce
  ultimately have w: "write_event we tn j s = mail_event tn j r s2" by (simp add: write_event_def)
  note e = push_event_effect [OF p] and m = mail_event_effect [OF push_event_effect(3) [OF p], of s2]
  have base: "pushes s1 = pushes s" "letters s1 = letters s" "userDevices s1 = userDevices s" "users s1 = users s" by (simp_all add: s1_def)
  show "inbox (write_event we tn j s) = inbox s @ (if ej_existing j then [] else [inbox_entry tn j (case ej_reference j of JStr t \<Rightarrow> t | _ \<Rightarrow> [])])"
    unfolding w using e(1) m(2) by (simp add: s1_def)
  show "\<exists>ps. pushes (write_event we tn j s) = pushes s @ ps \<and> ps_token ` set ps = (if wants_push j then served we tn j else {})"
    unfolding w using e(2) m(2) base by simp
  show "letters (write_event we tn j s) = letters s @ (case ej_email j of
       Some (c # t) \<Rightarrow> if owes_letter we tn j \<and> tn_mailUp tn then [event_letter j (c # t)] else [] | _ \<Rightarrow> [])"
    unfolding w using e(1) m(1) base by simp
  show "userDevices (write_event we tn j s) = userDevices s \<and> users (write_event we tn j s) = users s"
    unfolding w using e(1) m(2) base by simp
qed

lemma write_event_kept: "inbox_kept s (write_event we tn j s)"
proof (cases "goes_through j s")
  case True
  show ?thesis
  proof (cases "ej_existing j")
    case False
    then have "ej_key j \<notin> set (inbox_keys s)" using True by (simp add: goes_through_def)
    then show ?thesis using write_event_effect(1) [OF True, of we tn] False by (intro inbox_kept_add) (auto simp: inbox_entry_def)
  qed (simp add: write_event_effect(1) [OF True] inbox_kept_same)
qed (simp add: write_event_fails inbox_kept_same)

lemma admin_mail_effect:
  "inbox (admin_mail tn m subject page k s) = inbox s" "pushes (admin_mail tn m subject page k s) = pushes s"
  "jget ''email'' m = JStr (c # t) \<Longrightarrow> tn_mailUp tn \<Longrightarrow>
     letters (admin_mail tn m subject page k s) = letters s @ [\<lparr>lt_to = c # t, lt_subject = subject, lt_html = page (String_json (jget k m))\<rparr>]"
  by (auto simp: admin_mail_def sendEmail_def split: json.splits list.splits)

lemma handleEvent_kept: "inbox_kept s (handleEvent we tn topic payload s)"
  by (auto simp: handleEvent_def write_event_kept inbox_kept_same split: option.splits)

lemma handleMessage_kept: "inbox_kept s (handleMessage we tn topic payload s)"
  by (simp add: handleMessage_def handleEvent_kept inbox_kept_same admin_mail_effect)

lemma markAsRead_kept: "inbox_kept s (snd (markAsRead now u i s))"
  by (auto simp: markAsRead_def inbox_kept_def inbox_keys_def message_core_def update_where_def o_def split: option.splits intro!: exI [of _ "[]"]
    cong: map_cong) (simp_all add: if_distrib cong: if_cong)

lemma updateDevicePushToken_inbox: "inbox (snd (updateDevicePushToken tn u i t s)) = inbox s"
  by (auto simp: updateDevicePushToken_def upsert_device_def split: option.splits prod.splits if_splits)

lemma preferences_inbox:
  "inbox (snd (updatePreferences u p e s)) = inbox s" "inbox (snd (getPreferences u s)) = inbox s"
  by (simp_all add: updatePreferences_def getPreferences_def create_preference_def split: option.splits)

interpretation message_inbox: inbox_operation "\<lambda>(tn, topic, payload). handleMessage we tn topic payload" for we
  by unfold_locales (auto intro: handleMessage_kept)

interpretation write_inbox: inbox_operation "\<lambda>(tn, j). write_event we tn j" for we
  by unfold_locales (auto intro: write_event_kept)

interpretation read_inbox: inbox_operation "\<lambda>(now, u, i) s. snd (markAsRead now u i s)"
  by unfold_locales (auto intro: markAsRead_kept)

interpretation device_inbox: inbox_operation "\<lambda>(tn, u, i, t) s. snd (updateDevicePushToken tn u i t s)"
  by unfold_locales (auto intro: inbox_kept_same updateDevicePushToken_inbox)

interpretation update_inbox: inbox_operation "\<lambda>(u, p, e) s. snd (updatePreferences u p e s)"
  by unfold_locales (auto intro: inbox_kept_same preferences_inbox)

interpretation preference_inbox: inbox_operation "\<lambda>u s. snd (getPreferences u s)"
  by unfold_locales (auto intro: inbox_kept_same preferences_inbox)

text \<open>
  The system: events are read and written by any number of handlers in any order, messages are handled, users
  work with their inbox, and other services change what is not the inbox.
\<close>

inductive notify_step :: "worker_env \<Rightarrow> event_job list \<times> notify_db \<Rightarrow> event_job list \<times> notify_db \<Rightarrow> bool" for we where
  read_half: "read_event we tn topic payload s = Some j \<Longrightarrow> notify_step we (js, s) (js @ [j], s)"
| write_half: "j \<in> set js \<Longrightarrow> notify_step we (js, s) (remove1 j js, write_event we tn j s)"
| message: "notify_step we (js, s) (js, handleMessage we tn topic payload s)"
| mark: "notify_step we (js, s) (js, snd (markAsRead now u i s))"
| device: "notify_step we (js, s) (js, snd (updateDevicePushToken tn u i t s))"
| update_prefs: "notify_step we (js, s) (js, snd (updatePreferences u p e s))"
| show_prefs: "notify_step we (js, s) (js, snd (getPreferences u s))"
| elsewhere: "inbox s' = inbox s \<Longrightarrow> notify_step we (js, s) (js, s')"

lemma notify_steps_kept: "(notify_step we)\<^sup>*\<^sup>* a b \<Longrightarrow> inbox_kept (snd a) (snd b)"
proof (induction rule: rtranclp_induct)
  case (step b c)
  from step.hyps(2) have "inbox_kept (snd b) (snd c)"
    by cases (simp_all add: write_event_kept handleMessage_kept markAsRead_kept inbox_kept_same updateDevicePushToken_inbox preferences_inbox)
  with step.IH show ?case by (rule inbox_kept_trans)
qed (simp add: inbox_kept_same)

lemma filter_key_one: "distinct (map k rows) \<Longrightarrow> m \<in> set rows \<Longrightarrow> filter (\<lambda>x. k x = k m) rows = [m]"
proof (induction rows)
  case (Cons x xs)
  have out: "k y \<noteq> k x" if "y \<in> set xs" for y using Cons.prems(1) that by (metis distinct.simps(2) image_eqI list.set_map list.simps(9))
  show ?case
  proof (cases "m = x")
    case True
    then show ?thesis using out by (simp add: filter_empty_conv)
  next
    case False
    then have "m \<in> set xs" using Cons.prems(2) by simp
    moreover from this have "k x \<noteq> k m" using out [of m] by simp
    moreover have "distinct (map k xs)" using Cons.prems(1) by simp
    ultimately show ?thesis using Cons.IH by simp
  qed
qed simp

lemma core_same_key: "message_core m = message_core n \<Longrightarrow> ib_idempotencyKey m = ib_idempotencyKey n"
  by (drule arg_cong [of _ _ ib_idempotencyKey]) (simp add: message_core_def)

section \<open>Where a notification goes\<close>

definition push_on :: "string \<Rightarrow> notify_db \<Rightarrow> bool" where
  "push_on u s \<longleftrightarrow> (case find_preference u s of Some p \<Rightarrow> np_pushEnabled p | None \<Rightarrow> True)"

definition email_on :: "string \<Rightarrow> notify_db \<Rightarrow> bool" where
  "email_on u s \<longleftrightarrow> (case find_preference u s of Some p \<Rightarrow> np_emailEnabled p | None \<Rightarrow> True)"

definition reached :: "worker_env \<Rightarrow> turn \<Rightarrow> string \<Rightarrow> notify_db \<Rightarrow> string set" where
  "reached we tn u s = {t \<in> set (push_tokens u s). wk_isExpoPushToken we t \<and> tn_pushUp tn t}"

lemma read_event_result:
  assumes "read_event we tn topic payload s = Some j"
  shows "jget ''userId'' payload = JStr (ej_userId j)" "event_type payload = JStr (ej_type j)" "ej_topic j = topic"
    "ej_reference j = event_reference (tn_now tn) payload" "ej_key j = idempotency_key (ej_userId j) (ej_type j) (ej_reference j)"
    "ej_existing j \<longleftrightarrow> ej_key j \<in> set (inbox_keys s)" "ej_tokens j = push_tokens (ej_userId j) s" "ej_prefs j = find_preference (ej_userId j) s"
    "\<exists>u. find_user (ej_userId j) s = Some u \<and> ej_email j = us_email u" "\<not> silent (ej_metadata j)"
    "ej_title j = generateTitle topic (ej_type j) (ej_metadata j)" "ej_metadata j = event_metadata payload"
    "(ej_category j, ej_path j) = getCategoryAndPath (ej_type j) (ej_metadata j)"
  using assms by (auto simp: read_event_def Let_def key_taken split: if_splits json.splits option.splits sum.splits)

lemma read_goes_through:
  assumes "read_event we tn topic payload s = Some j" "event_reference (tn_now tn) payload = JStr r"
  shows "goes_through j s"
  using read_event_result(4,6,9) [OF assms(1)] assms(2) by (auto simp: goes_through_def)

lemma read_wants:
  assumes "read_event we tn topic payload s = Some j"
  shows "wants_push j \<longleftrightarrow> topic = SECURITY_EVENTS \<or> push_on (ej_userId j) s" "wants_email j = email_on (ej_userId j) s"
    "served we tn j = reached we tn (ej_userId j) s" "is_security j \<longleftrightarrow> topic = SECURITY_EVENTS"
  using read_event_result(3,7,8,10) [OF assms]
  by (auto simp: wants_push_def wants_email_def is_security_def push_on_def email_on_def served_def reached_def silent_def split: option.splits)

text \<open>An event that carries a reference has one key, whenever it is handled.\<close>

lemma read_event_key:
  assumes "read_event we tn topic payload (s :: notify_db) = Some j" "given_reference payload = JStr (c # r)"
    and "jget ''userId'' payload = JStr u" "event_type payload = JStr ty"
  shows "ej_key j = idempotency_key u ty (JStr (c # r))" "ej_reference j = JStr (c # r)"
  using read_event_result(1,2,4,5) [OF assms(1)] assms(2-4) by (auto simp: event_reference_def jor_def)

lemma key_stays:
  assumes "(notify_step we)\<^sup>*\<^sup>* (js0, s0) (js, s)" "distinct (inbox_keys s0)" "n \<in> set (inbox s0)"
  shows "\<exists>m. filter (\<lambda>m. ib_idempotencyKey m = ib_idempotencyKey n) (inbox s) = [m] \<and> message_core m = message_core n"
proof -
  have k: "inbox_kept s0 s" using notify_steps_kept [OF assms(1)] by simp
  obtain new where "map message_core (inbox s) = map message_core (inbox s0) @ new" using k by (auto simp: inbox_kept_def)
  then have "message_core n \<in> message_core ` set (inbox s)" using assms(3) by (metis UnCI image_eqI list.set_map set_append)
  then obtain m where m: "m \<in> set (inbox s)" "message_core m = message_core n" by auto
  have key: "ib_idempotencyKey m = ib_idempotencyKey n" by (rule core_same_key [OF m(2)])
  have d: "distinct (map ib_idempotencyKey (inbox s))" using k assms(2) by (simp add: inbox_kept_def inbox_keys_def)
  show ?thesis using filter_key_one [OF d m(1)] key m(2) by auto
qed

lemma taken_key_stores_nothing: "ej_key j \<in> set (inbox_keys s) \<Longrightarrow> ej_existing j \<longrightarrow> ej_key j \<in> set (inbox_keys s) \<Longrightarrow> inbox (write_event we tn j s) = inbox s"
  by (cases "goes_through j s") (auto simp: write_event_fails goes_through_def write_event_effect(1))

lemma handled_stores:
  assumes "read_event we tn topic payload (s :: notify_db) = Some j" "ej_reference j = JStr r"
  shows "\<exists>n\<in>set (inbox (handleEvent we tn topic payload s)). ib_idempotencyKey n = ej_key j"
proof -
  have "goes_through j s" using read_event_result(6,9) [OF assms(1)] assms(2) by (auto simp: goes_through_def)
  from write_event_effect(1) [OF this, of we tn] show ?thesis
    using read_event_result(6) [OF assms(1)] assms
    by (cases "ej_existing j") (auto simp: handleEvent_def inbox_keys_def inbox_entry_def)
qed

text \<open>
  Property C29. An event that carries a reference is in the inbox once, and stays. Kafka may deliver it any number of
  times, to several workers at once, at any time. After a first handling that got past the reading, and
  after any further work of the workers and the portal (short of the deletion of its user), exactly one message is
  under its key and says what that message said; handling the event again stores nothing, at whatever time
  and under whatever topic, and neither does a handler that had read the tables before the message was there.
\<close>

theorem inbox_exactly_once:
  assumes "given_reference payload = JStr (c # r)" "read_event we tn topic payload s0 = Some j" "distinct (inbox_keys s0)"
    and "(notify_step we)\<^sup>*\<^sup>* (js1, handleEvent we tn topic payload s0) (js, s)"
  shows "(\<exists>n m. n \<in> set (inbox (handleEvent we tn topic payload s0)) \<and> ib_idempotencyKey n = ej_key j
        \<and> filter (\<lambda>m. ib_idempotencyKey m = ej_key j) (inbox s) = [m] \<and> message_core m = message_core n)
     \<and> (\<forall>later topic2. inbox (handleMessage we later topic2 payload s) = inbox s)
     \<and> (\<forall>tn2 topic2 (s2 :: notify_db) j2 later. read_event we tn2 topic2 payload s2 = Some j2 \<longrightarrow> inbox (write_event we later j2 s) = inbox s)"
proof -
  note p = read_event_result(1,2) [OF assms(2)]
  note k = read_event_key [OF assms(2,1) p]
  have d: "distinct (inbox_keys (handleEvent we tn topic payload s0))"
    using handleEvent_kept [of s0 we tn topic payload] assms(3) by (simp add: inbox_kept_def)
  obtain n where n: "n \<in> set (inbox (handleEvent we tn topic payload s0))" "ib_idempotencyKey n = ej_key j"
    using handled_stores [OF assms(2) k(2)] by blast
  obtain m where m: "filter (\<lambda>m. ib_idempotencyKey m = ej_key j) (inbox s) = [m]" "message_core m = message_core n"
    using key_stays [OF assms(4) d n(1)] n(2) by auto
  then have taken: "ej_key j \<in> set (inbox_keys s)" by (auto simp: inbox_keys_def filter_eq_Cons_iff)
  have again: "inbox (write_event we later j2 s) = inbox s" if "read_event we tn2 topic2 payload s2 = Some j2" for tn2 topic2 j2 later and s2 :: notify_db
    using taken_key_stores_nothing [of j2 s] read_event_key(1) [OF that assms(1) p] k(1) taken by simp
  have "inbox (handleEvent we later topic2 payload s) = inbox s" for later topic2
    using again by (simp add: handleEvent_def split: option.split)
  then have "inbox (handleMessage we later topic2 payload s) = inbox s" for later topic2
    by (simp add: handleMessage_def admin_mail_effect)
  with n m again show ?thesis by blast
qed

text \<open>An event without a reference is keyed by the clock of its handler: it is stored at every delivery.\<close>

lemma unreferenced_stored_again:
  assumes "\<not> truthy (given_reference payload)" "int_text (tn_now tn) \<noteq> int_text (tn_now tn2)"
    and "read_event we tn topic payload (s :: notify_db) = Some j"
    and "read_event we tn2 topic payload (handleEvent we tn topic payload s) = Some j2"
    and "ej_key j2 \<notin> set (inbox_keys s)"
  shows "\<exists>n. inbox (handleEvent we tn2 topic payload (handleEvent we tn topic payload s)) = inbox (handleEvent we tn topic payload s) @ [n]"
proof -
  let ?s1 = "handleEvent we tn topic payload s"
  have ref: "ej_reference j = JStr (int_text (tn_now tn))" "ej_reference j2 = JStr (int_text (tn_now tn2))"
    using read_event_result(4) [OF assms(3)] read_event_result(4) [OF assms(4)] assms(1) by (simp_all add: event_reference_def jor_def)
  have same: "ej_userId j2 = ej_userId j" "ej_type j2 = ej_type j"
    using read_event_result(1,2) [OF assms(3)] read_event_result(1,2) [OF assms(4)] by simp_all
  have "ej_key j2 \<noteq> ej_key j"
    using read_event_result(5) [OF assms(3)] read_event_result(5) [OF assms(4)] assms(2) by (simp add: idempotency_key_def same ref)
  moreover have g: "goes_through j s" using read_event_result(6,9) [OF assms(3)] ref by (auto simp: goes_through_def)
  ultimately have "ej_key j2 \<notin> set (inbox_keys ?s1)"
    using write_event_effect(1) [OF g, of we tn] assms(3,5) by (auto simp: handleEvent_def inbox_keys_def inbox_entry_def)
  then have e: "\<not> ej_existing j2" using read_event_result(6) [OF assms(4)] by simp
  have "goes_through j2 ?s1" using read_event_result(6,9) [OF assms(4)] ref by (auto simp: goes_through_def)
  from write_event_effect(1) [OF this, of we tn2] e assms(4) show ?thesis by (simp add: handleEvent_def)
qed

lemma event_channels:
  assumes "read_event we tn topic payload s = Some j" "event_reference (tn_now tn) payload = JStr r" "jget ''userId'' payload = JStr i"
  shows "\<exists>u ps. find_user i s = Some u \<and> pushes (handleEvent we tn topic payload s) = pushes s @ ps
     \<and> ps_token ` set ps = (if topic = SECURITY_EVENTS \<or> push_on i s then reached we tn i s else {})
     \<and> map lt_to (letters (handleEvent we tn topic payload s)) = map lt_to (letters s) @ (case us_email u of
         Some (c # t) \<Rightarrow> if tn_mailUp tn \<and> (topic = SECURITY_EVENTS \<or> (email_on i s \<and> (push_on i s \<longrightarrow> reached we tn i s = {}))) then [c # t] else []
       | _ \<Rightarrow> [])"
proof -
  have i: "ej_userId j = i" using read_event_result(1) [OF assms(1)] assms(3) by simp
  have h: "handleEvent we tn topic payload s = write_event we tn j s" using assms(1) by (simp add: handleEvent_def)
  have g: "goes_through j s" by (rule read_goes_through [OF assms(1,2)])
  obtain u where u: "find_user i s = Some u" "ej_email j = us_email u" using read_event_result(9) [OF assms(1)] i by auto
  obtain ps where ps: "pushes (write_event we tn j s) = pushes s @ ps" "ps_token ` set ps = (if wants_push j then served we tn j else {})"
    using write_event_effect(2) [OF g] by blast
  have "owes_letter we tn j \<longleftrightarrow> topic = SECURITY_EVENTS \<or> (email_on i s \<and> (push_on i s \<longrightarrow> reached we tn i s = {}))"
    using read_wants [OF assms(1)] by (auto simp: owes_letter_def i)
  then have "map lt_to (letters (write_event we tn j s)) = map lt_to (letters s) @ (case us_email u of
         Some (c # t) \<Rightarrow> if tn_mailUp tn \<and> (topic = SECURITY_EVENTS \<or> (email_on i s \<and> (push_on i s \<longrightarrow> reached we tn i s = {}))) then [c # t] else []
       | _ \<Rightarrow> [])"
    using write_event_effect(3) [OF g] u(2) by (auto simp: event_letter_def split: option.splits list.splits)
  then show ?thesis using u(1) ps read_wants(1,3) [OF assms(1)] unfolding h by (auto simp: i)
qed

lemma read_event_some:
  assumes "jget ''userId'' payload = JStr i" "event_type payload = JStr ty" "find_user i s = Some u"
    and "generateBody we ty (event_metadata payload) (jget ''amount'' payload) s = Inr body"
  shows "read_event we tn topic payload s = None \<longleftrightarrow> silent (event_metadata payload)"
  using assms by (simp add: read_event_def Let_def)

text \<open>
  Property C30. An event goes where its user wants it. For an event of a known user, with a reference and a text to show:
  if it is marked as silent, it goes nowhere, an event of security included. Otherwise it is pushed to
  every device of the user that the push service serves, and to no other, unless the user turned pushes off; it is
  mailed to the user when no push came through, unless the user turned mails off; and a security event that
  is not silent is pushed and mailed whatever the preferences.
\<close>

theorem channels_respected:
  assumes "jget ''userId'' payload = JStr i" "event_type payload = JStr ty" "event_reference (tn_now tn) payload = JStr r"
    and "find_user i s = Some u" "generateBody we ty (event_metadata payload) (jget ''amount'' payload) s = Inr body"
  shows "if silent (event_metadata payload) then handleEvent we tn topic payload s = s
     else (\<exists>ps. pushes (handleEvent we tn topic payload s) = pushes s @ ps
         \<and> ps_token ` set ps = (if topic = SECURITY_EVENTS \<or> push_on i s then reached we tn i s else {}))
       \<and> map lt_to (letters (handleEvent we tn topic payload s)) = map lt_to (letters s) @ (case us_email u of
           Some (c # t) \<Rightarrow> if tn_mailUp tn \<and> (topic = SECURITY_EVENTS \<or> (email_on i s \<and> (push_on i s \<longrightarrow> reached we tn i s = {}))) then [c # t] else []
         | _ \<Rightarrow> [])"
proof (cases "silent (event_metadata payload)")
  case True
  then show ?thesis using read_event_some [OF assms(1,2,4,5), of tn topic] by (simp add: handleEvent_def)
next
  case False
  then obtain j where "read_event we tn topic payload s = Some j"
    using read_event_some [OF assms(1,2,4,5), of tn topic] by (cases "read_event we tn topic payload s") auto
  from event_channels [OF this assms(3,1)] False show ?thesis using assms(4) by auto
qed

lemma push_tokens_set: "set (push_tokens u s) = {t. \<exists>d\<in>set (userDevices s). ud_userId d = u \<and> ud_pushToken d = Some t}"
  by (fastforce simp: push_tokens_def split: option.splits)

lemma device_tokens:
  assumes "updateDevicePushToken tn u i t s = (Inr d, s1)"
  shows "set (push_tokens u s1) = {t}" "v \<noteq> u \<Longrightarrow> set (push_tokens v s1) = set (push_tokens v s)" "preferences s1 = preferences s"
proof -
  let ?f = "\<lambda>d. d\<lparr>ud_pushToken := Some t, ud_lastSeenAt := Some (tn_now tn)\<rparr>"
  obtain e s0 where up: "upsert_device u i ?f
             \<lparr>ud_id = tn_uuid tn, ud_userId = u, ud_deviceIdentifier = i, ud_deviceName = None,
              ud_trustLevel = TRUSTED, ud_lastSeenAt = Some (tn_now tn), ud_pushToken = Some t\<rparr> s = (e, s0)"
    and s1: "s1 = s0\<lparr>userDevices := filter (\<lambda>d. \<not> (ud_userId d = u \<and> ud_deviceIdentifier d \<noteq> i)) (userDevices s0)\<rparr>"
    using assms by (auto simp: updateDevicePushToken_def split: prod.splits if_splits)
  let ?P = "\<lambda>d. ud_userId d = u \<and> ud_deviceIdentifier d = i"
  consider d0 where "d0 \<in> set (userDevices s)" "?P d0" "userDevices s0 = update_where ?P ?f (userDevices s)" "preferences s0 = preferences s"
    | n where "\<And>d. d \<in> set (userDevices s) \<Longrightarrow> \<not> ?P d" "userDevices s0 = userDevices s @ [n]" "?P n" "ud_pushToken n = Some t" "preferences s0 = preferences s"
  proof (cases "find_device u i s")
    case None
    then have "\<not> ?P d" if "d \<in> set (userDevices s)" for d using that by (auto simp: find_device_def find_None_iff)
    moreover from up None obtain n where "s0 = s\<lparr>userDevices := userDevices s @ [n]\<rparr>" "?P n" "ud_pushToken n = Some t"
      by (auto simp: upsert_device_def)
    ultimately show thesis using that(2) [of n] by simp
  next
    case (Some d0)
    then show thesis using up that(1) find_SomeD [of ?P "userDevices s" d0] by (auto simp: upsert_device_def find_device_def)
  qed
  then have "(\<forall>d\<in>set (userDevices s0). ?P d \<longrightarrow> ud_pushToken d = Some t) \<and> (\<exists>d\<in>set (userDevices s0). ?P d)
     \<and> (\<forall>v. v \<noteq> u \<longrightarrow> {d \<in> set (userDevices s0). ud_userId d = v} = {d \<in> set (userDevices s). ud_userId d = v}) \<and> preferences s0 = preferences s"
  proof cases
    case 1
    have "?f d0 \<in> set (userDevices s0)" using 1(1-3) by (auto simp: set_update_where image_iff intro!: bexI [of _ d0])
    then have "\<exists>d\<in>set (userDevices s0). ?P d" using 1(2) by (intro bexI [of _ "?f d0"]) simp_all
    moreover have mem: "\<exists>x\<in>set (userDevices s). d = (if ?P x then ?f x else x)" if "d \<in> set (userDevices s0)" for d
      using that by (auto simp: 1(3) set_update_where)
    have "ud_pushToken d = Some t" if m: "d \<in> set (userDevices s0)" and p: "?P d" for d
    proof -
      obtain x where x: "d = (if ?P x then ?f x else x)" using mem [OF m] by blast
      show ?thesis
      proof (cases "?P x")
        case False
        then have "d = x" unfolding x by (rule if_not_P)
        then show ?thesis using p False by blast
      qed (use x in simp)
    qed
    moreover have "{d \<in> set (userDevices s0). ud_userId d = v} = {d \<in> set (userDevices s). ud_userId d = v}" if "v \<noteq> u" for v
    proof (intro set_eqI iffI)
      fix d
      assume "d \<in> {d \<in> set (userDevices s0). ud_userId d = v}"
      then show "d \<in> {d \<in> set (userDevices s). ud_userId d = v}" using mem [of d] that by (auto split: if_splits)
    next
      fix d
      assume "d \<in> {d \<in> set (userDevices s). ud_userId d = v}"
      then show "d \<in> {d \<in> set (userDevices s0). ud_userId d = v}" using that by (auto simp: 1(3) set_update_where image_iff intro!: bexI [of _ d])
    qed
    ultimately show ?thesis using 1(4) by blast
  next
    case 2
    then show ?thesis by auto
  qed
  then have mine: "\<And>d. d \<in> set (userDevices s0) \<Longrightarrow> ud_userId d = u \<Longrightarrow> ud_deviceIdentifier d = i \<Longrightarrow> ud_pushToken d = Some t"
    and some: "\<exists>d\<in>set (userDevices s0). ?P d" and prefs: "preferences s0 = preferences s"
    and other: "\<And>v. v \<noteq> u \<Longrightarrow> {d \<in> set (userDevices s0). ud_userId d = v} = {d \<in> set (userDevices s). ud_userId d = v}" by blast+
  show "set (push_tokens u s1) = {t}" using mine some by (fastforce simp: push_tokens_set s1)
  show "set (push_tokens v s1) = set (push_tokens v s)" if "v \<noteq> u" using other [OF that] that by (auto simp: push_tokens_set s1)
  show "preferences s1 = preferences s" by (simp add: s1 prefs)
qed

text \<open>
  A user has one device. After a device was registered the pushes of that user go to its token
  and to no other, and those of other users go where they went.
\<close>

theorem one_device_pushed:
  assumes "updateDevicePushToken tn u i t s = (Inr d, s1 :: notify_db)" "read_event we tn2 topic payload s1 = Some j"
    and "event_reference (tn_now tn2) payload = JStr r" "jget ''userId'' payload = JStr v"
  shows "\<exists>ps. pushes (handleEvent we tn2 topic payload s1) = pushes s1 @ ps
     \<and> ps_token ` set ps \<subseteq> (if v = u then {t} else set (push_tokens v s))"
proof -
  obtain ps where "pushes (handleEvent we tn2 topic payload s1) = pushes s1 @ ps"
    "ps_token ` set ps = (if topic = SECURITY_EVENTS \<or> push_on v s1 then reached we tn2 v s1 else {})"
    using event_channels [OF assms(2-4)] by blast
  moreover have "reached we tn2 v s1 \<subseteq> (if v = u then {t} else set (push_tokens v s))"
    using device_tokens(1,2) [OF assms(1)] by (auto simp: reached_def)
  ultimately show ?thesis by (intro exI [of _ ps]) auto
qed

section \<open>From the portal to the reader\<close>

lemma contains_right: "contains sub t \<Longrightarrow> contains sub (a @ t)"
  by (induction a) auto

lemma contains_prefix: "contains sub (sub @ b)"
  by (cases "sub @ b") (simp_all, metis starts_with_append)

lemma contains_left: "contains sub y \<Longrightarrow> contains sub (y @ b)"
proof (induction y)
  case Nil
  then show ?case by (cases b) simp_all
next
  case (Cons c y)
  then show ?case by (auto simp: starts_with_iff) (metis append_Cons append_assoc)
qed

lemma contains_middle: "contains sub y \<Longrightarrow> contains sub (a @ y @ b)"
  by (intro contains_right contains_left)

lemma contains_self: "contains sub sub"
  using contains_prefix [of sub "[]"] by simp

lemma admin_page_link: "contains sub y \<Longrightarrow> contains sub (admin_page h p q y)"
proof -
  let ?n = "[char_of (10 :: nat)]"
  assume "contains sub y"
  moreover have "admin_page h p q y = (h @ ?n @ p @ ?n @ ''<a href=\"'') @ y @ (''\">'' @ q @ ''</a>'' @ ?n @ ''<a href=\"'' @ y @ ''\">'' @ y @ ''</a>'' @ ?n
    @ ''This link will expire in 24 hours for security purposes.'' @ ?n)" by (simp add: admin_page_def unlines_def)
  ultimately show ?thesis using contains_middle by metis
qed

definition earn_key :: "string \<Rightarrow> string \<Rightarrow> string" where
  "earn_key u r = u @ '':LOYALTY_EARN:'' @ r"

lemma earn_read:
  assumes "le_referenceId e = Some r" "r \<noteq> []" "find_user (le_userId e) w = Some usr"
  shows "\<exists>j. read_event we tn LOYALTY_EVENTS (earn_payload e) w = Some j \<and> ej_userId j = le_userId e \<and> ej_type j = ''LOYALTY_EARN'' \<and> ej_reference j = JStr r
     \<and> ej_key j = earn_key (le_userId e) r"
proof -
  obtain c t where r: "r = c # t" using assms(2) by (cases r) auto
  have ty: "map upper ''LOYALTY_EARN'' = ''LOYALTY_EARN''" by code_simp
  show ?thesis using assms(1,3)
    by (simp add: read_event_def earn_payload_def event_metadata_def silent_def event_type_def event_reference_def given_reference_def jor_def r
      generateBody_def ty Let_def idempotency_key_def earn_key_def)
qed

lemma earn_result:
  assumes "le_referenceId e = Some r" "r \<noteq> []" "find_user (le_userId e) w = Some usr"
  shows "\<exists>j. handleMessage we tn LOYALTY_EVENTS (earn_payload e) w = write_event we tn j w \<and> goes_through j w \<and> ej_key j = earn_key (le_userId e) r
     \<and> ej_userId j = le_userId e \<and> ej_category j = ''PROMO'' \<and> ej_path j = Some ''/loyalty'' \<and> (ej_existing j \<longleftrightarrow> earn_key (le_userId e) r \<in> set (inbox_keys w))"
proof -
  obtain j where j: "read_event we tn LOYALTY_EVENTS (earn_payload e) w = Some j" "ej_userId j = le_userId e" "ej_type j = ''LOYALTY_EARN''" "ej_reference j = JStr r"
    "ej_key j = earn_key (le_userId e) r" using earn_read [OF assms] by blast
  have "handleMessage we tn LOYALTY_EVENTS (earn_payload e) w = write_event we tn j w"
    using j(1) by (simp add: handleMessage_def handleEvent_def nullish_def earn_payload_def LOYALTY_EVENTS_def SECURITY_EVENTS_def)
  moreover have "map upper ''LOYALTY_EARN'' = ''LOYALTY_EARN''" by code_simp
  then have "getCategoryAndPath (ej_type j) (ej_metadata j) = (''PROMO'', Some ''/loyalty'')" by (simp add: j(3) getCategoryAndPath_def)
  then have "ej_category j = ''PROMO''" "ej_path j = Some ''/loyalty''" using read_event_result(13) [OF j(1)] by simp_all
  moreover have "event_reference (tn_now tn) (earn_payload e) = JStr r" using read_event_result(4) [OF j(1)] j(4) by metis
  then have "goes_through j w" by (rule read_goes_through [OF j(1)])
  ultimately show ?thesis using j(2,5) read_event_result(6) [OF j(1)] by auto
qed

text \<open>
  Property C31. Whoever earns points is told so, once. The points that a purchase with a reference earns are
  announced to Kafka; when the worker handles the announcement the message is in the inbox of that user, in the
  category of promotions, and delivering the announcement again adds nothing.
\<close>

theorem earned_points_notified:
  assumes "earnPoints True now u a ev d (Some r) s = (Inr (Some res), s1)" "r \<noteq> []" "find_user u (w :: notify_db) = Some usr"
  shows "\<exists>e. kafka s1 = kafka s @ [e] \<and> (let w1 = handleMessage we tn LOYALTY_EVENTS (earn_payload e) w in
     u @ '':LOYALTY_EARN:'' @ r \<in> ib_idempotencyKey ` set (inbox w1)
     \<and> (u @ '':LOYALTY_EARN:'' @ r \<notin> ib_idempotencyKey ` set (inbox w) \<longrightarrow>
          (\<exists>n. inbox w1 = inbox w @ [n] \<and> ib_userId n = u \<and> ib_category n = Some ''PROMO'' \<and> ib_path n = Some ''/loyalty''))
     \<and> (\<forall>tn2. inbox (handleMessage we tn2 LOYALTY_EVENTS (earn_payload e) w1) = inbox w1))"
proof -
  obtain e where e: "kafka s1 = kafka s @ [e]" "le_userId e = u" "le_referenceId e = Some r"
  proof -
    have "kafka (post h (ensure_account u s)) = kafka s" for h by (simp add: post_def ensure_account_def open_account_def)
    moreover obtain h where "s1 = emit_earn True u (Some r) ev res (post h (ensure_account u s))" using earnPoints_posts [OF assms(1)] by blast
    ultimately show thesis using that by (simp add: emit_earn_def)
  qed
  obtain j where j: "handleMessage we tn LOYALTY_EVENTS (earn_payload e) w = write_event we tn j w" "goes_through j w" "ej_key j = earn_key u r" "ej_userId j = u"
    "ej_category j = ''PROMO''" "ej_path j = Some ''/loyalty''" "ej_existing j \<longleftrightarrow> earn_key u r \<in> set (inbox_keys w)"
    using earn_result [OF e(3) assms(2)] assms(3) e(2) by blast
  let ?w1 = "write_event we tn j w"
  have k: "earn_key u r \<in> set (inbox_keys ?w1)"
    using j(7) by (cases "ej_existing j") (simp_all add: inbox_keys_def write_event_effect(1) [OF j(2)] inbox_entry_def j(3))
  have fresh: "\<exists>n. inbox ?w1 = inbox w @ [n] \<and> ib_userId n = u \<and> ib_category n = Some ''PROMO'' \<and> ib_path n = Some ''/loyalty''" if "earn_key u r \<notin> set (inbox_keys w)"
    using that j(7) by (simp add: write_event_effect(1) [OF j(2)] inbox_entry_def j(4-6))
  have "find_user u ?w1 = Some usr" using assms(3) write_event_effect(4) [OF j(2), of we tn] by (simp add: find_user_def)
  then have again: "inbox (handleMessage we tn2 LOYALTY_EVENTS (earn_payload e) ?w1) = inbox ?w1" for tn2
    using earn_result [OF e(3) assms(2), of ?w1 usr we tn2] k e(2) by (auto simp: write_event_effect(1))
  show ?thesis using e(1) k fresh again by (intro exI [of _ e]) (simp add: j(1) Let_def inbox_keys_def earn_key_def)
qed

text \<open>
  A link that was asked for arrives and works. When an administrator asks for the reset of a
  password or repeats an invitation, and Kafka and the mail server are up, the worker sends one letter to the
  address of that member; it carries the token, and for 24 hours the token is accepted.
\<close>

theorem reset_link_arrives:
  assumes "requestPasswordReset rq i invite s = (Inr x, s1)" "wq_kafkaUp rq" "tn_mailUp tn" "find_staff i s = Some u" "sf_isActive u" "sf_email u \<noteq> []"
  shows "\<exists>m l. mails s1 = mails s @ [m] \<and> letters (handleMessage we tn SECURITY_EVENTS (mail_payload url now stamp m) w) = letters w @ [l]
     \<and> lt_to l = sf_email u \<and> contains (''?token='' @ wq_token rq @ ''&email='') (lt_html l)
     \<and> (\<forall>t < wq_now rq + RESET_TTL_MS. validateResetToken t (JStr (wq_token rq)) s1)"
proof -
  define kind where "kind = (if invite then ADMIN_INVITE else ADMIN_PASSWORD_RESET)"
  define m where "m = \<lparr>ml_kind = kind, ml_email = sf_email u, ml_token = wq_token rq\<rparr>"
  let ?f = "\<lambda>u. u\<lparr>sf_resetToken := Some (wq_token rq), sf_resetTokenExpiry := Some (wq_now rq + RESET_TTL_MS), sf_updatedAt := wq_now rq\<rparr>"
  have s1: "s1 = send_mail rq kind (sf_email u) (wq_token rq) (set_staff i ?f s)"
    using assms(1,4) by (auto simp: requestPasswordReset_def kind_def Let_def split: if_splits)
  have mails: "mails s1 = mails s @ [m]" using assms(2) by (simp add: s1 send_mail_def set_staff_def m_def)
  obtain c t where to: "sf_email u = c # t" using assms(6) by (cases "sf_email u") auto
  define l where "l = \<lparr>lt_to = sf_email u, lt_subject = (if invite then ''Welcome to J-Ledger Admin Portal!'' else ''Reset your J-Ledger Admin Password''),
     lt_html = (if invite then invite_page (mail_link url m) else reset_page (mail_link url m))\<rparr>"
  have sent: "letters (handleMessage we tn SECURITY_EVENTS (mail_payload url now stamp m) w) = letters w @ [l]"
    using assms(3) by (cases invite) (simp_all add: handleMessage_def mail_payload_def nullish_def m_def kind_def l_def to admin_mail_effect)
  have link: "contains (''?token='' @ wq_token rq @ ''&email='') (mail_link url m)"
    using contains_middle [OF contains_self, of "''?token='' @ wq_token rq @ ''&email=''" "url @ (if invite then ''/setup-account'' else ''/reset-password'')" "encodeURIComponent (sf_email u)"]
    by (cases invite) (simp_all add: mail_link_def m_def kind_def)
  have body: "contains (''?token='' @ wq_token rq @ ''&email='') (lt_html l)" using link by (simp add: l_def invite_page_def reset_page_def admin_page_link)
  have "u \<in> set (staffs s)" "sf_id u = i" using find_SomeD [OF assms(4) [unfolded find_staff_def]] by simp_all
  then have "?f u \<in> set (staffs s1)" by (auto simp: s1 send_mail_def set_staff_def set_update_where image_iff intro!: bexI [of _ u])
  then have "validateResetToken t (JStr (wq_token rq)) s1" if "t < wq_now rq + RESET_TTL_MS" for t
  proof -
    have "token_open t (JStr (wq_token rq)) (?f u)" using that assms(5) by (simp add: token_open_def)
    then show ?thesis using \<open>?f u \<in> set (staffs s1)\<close> unfolding validateResetToken_def find_None_iff by blast
  qed
  then show ?thesis using mails sent body by (intro exI [of _ m] exI [of _ l]) (simp add: l_def)
qed

section \<open>Examples\<close>

definition demo_worker :: worker_env where
  "demo_worker = \<lparr>wk_locale = (\<lambda>_. ''10.00''), wk_isExpoPushToken = (\<lambda>t. take 4 t = ''Expo'')\<rparr>"

definition demo_turn :: "int \<Rightarrow> turn" where
  "demo_turn t = \<lparr>tn_now = t, tn_uuid = ''n'' @ int_text t, tn_pushUp = (\<lambda>_. True), tn_mailUp = True\<rparr>"

definition demo_reader :: user where
  "demo_reader = \<lparr>us_id = ''alice'', us_phoneNumber = ''+66812345678'', us_email = Some ''alice@x'', us_passwordHash = None, us_pinHash = None,
     us_status = UserActive, us_registrationState = RegCompleted, us_pinAttempts = 0, us_pinLockedUntil = None, us_ledgerAccountId = None,
     us_createdAt = 0\<rparr>"

definition demo_notify :: notify_db where
  "demo_notify = \<lparr>users = [demo_reader], userDevices = [], refreshSessions = [], otpChallenges = [], userConsents = [], securityEvents = [],
     userSettings = [], addresses = [], kycData = [], piiData = [], smsOutbox = [], securityTopic = [], inbox = [], preferences = [], pushes = [], letters = []\<rparr>"

definition demo_event :: json where
  "demo_event = JObj [(''userId'', JStr ''alice''), (''eventType'', JStr ''TOPUP''), (''referenceId'', JStr ''t1''), (''metadata'', JObj [(''amount'', JNum (Fin 10))])]"

definition demo_registered :: notify_db where
  "demo_registered = snd (updateDevicePushToken (demo_turn 1) ''alice'' ''phone'' ''ExpoA'' demo_notify)"

definition demo_told :: notify_db where
  "demo_told = handleMessage demo_worker (demo_turn 2) TRANSACTION_EVENTS demo_event demo_registered"

lemma demo_told_inbox: "map ib_idempotencyKey (inbox demo_told) = [''alice:TOPUP:t1'']"
  by code_simp

lemma demo_read: "\<exists>j. read_event demo_worker (demo_turn 2) TRANSACTION_EVENTS demo_event demo_registered = Some j"
proof -
  have "case read_event demo_worker (demo_turn 2) TRANSACTION_EVENTS demo_event demo_registered of None \<Rightarrow> False | Some _ \<Rightarrow> True" by code_simp
  then show ?thesis by (cases "read_event demo_worker (demo_turn 2) TRANSACTION_EVENTS demo_event demo_registered") simp_all
qed

lemma demo_reference: "event_reference (tn_now (demo_turn t)) demo_event = JStr ''t1''" "jget ''userId'' demo_event = JStr ''alice''"
  by (simp_all add: event_reference_def given_reference_def demo_event_def jor_def)

theorem inbox_exactly_once_witness:
  "\<exists>m. filter (\<lambda>m. ib_idempotencyKey m = ''alice:TOPUP:t1'') (inbox (handleMessage demo_worker (demo_turn 3) TRANSACTION_EVENTS demo_event demo_told)) = [m]
     \<and> inbox (handleMessage demo_worker (demo_turn 4) TRANSACTION_EVENTS demo_event (handleMessage demo_worker (demo_turn 3) TRANSACTION_EVENTS demo_event demo_told))
        = inbox (handleMessage demo_worker (demo_turn 3) TRANSACTION_EVENTS demo_event demo_told)"
proof -
  obtain j where j: "read_event demo_worker (demo_turn 2) TRANSACTION_EVENTS demo_event demo_registered = Some j" using demo_read by blast
  have ref: "given_reference demo_event = JStr ''t1''" and ty: "event_type demo_event = JStr ''TOPUP''"
    by (simp_all add: given_reference_def event_type_def demo_event_def jor_def)
  have key: "ej_key j = ''alice:TOPUP:t1''"
    using read_event_key(1) [OF j ref demo_reference(2) ty] by (simp add: idempotency_key_def String_json.simps)
  have d: "distinct (inbox_keys demo_registered)" by code_simp
  have told: "demo_told = handleEvent demo_worker (demo_turn 2) TRANSACTION_EVENTS demo_event demo_registered"
    by (simp add: demo_told_def handleMessage_def nullish_def demo_event_def TRANSACTION_EVENTS_def SECURITY_EVENTS_def)
  have "(notify_step demo_worker)\<^sup>*\<^sup>* ([], demo_told) ([], handleMessage demo_worker (demo_turn 3) TRANSACTION_EVENTS demo_event demo_told)"
    by (rule r_into_rtranclp) (rule notify_step.message)
  from inbox_exactly_once [OF ref j d this [unfolded told]] key show ?thesis unfolding told by auto
qed

definition demo_alarm :: json where
  "demo_alarm = JObj [(''userId'', JStr ''alice''), (''eventType'', JStr ''LOGIN''), (''referenceId'', JStr ''t2''), (''metadata'', JObj [(''silent'', JBool True)])]"

text \<open>A top-up is pushed to the only device; a silent event of security is dropped.\<close>

theorem channels_respected_witness:
  "(\<exists>ps. pushes (handleEvent demo_worker (demo_turn 2) TRANSACTION_EVENTS demo_event demo_registered) = pushes demo_registered @ ps
      \<and> ps_token ` set ps = {''ExpoA''})
   \<and> handleEvent demo_worker (demo_turn 2) SECURITY_EVENTS demo_alarm demo_registered = demo_registered"
proof
  have u: "\<exists>u. find_user ''alice'' demo_registered = Some u"
    by (simp add: demo_registered_def updateDevicePushToken_def upsert_device_def find_device_def find_user_def demo_notify_def demo_reader_def)
  then obtain u where u: "find_user ''alice'' demo_registered = Some u" by blast
  have "case generateBody demo_worker ''TOPUP'' (event_metadata demo_event) (jget ''amount'' demo_event) demo_registered of Inr _ \<Rightarrow> True | _ \<Rightarrow> False"
    by code_simp
  then obtain b where b: "generateBody demo_worker ''TOPUP'' (event_metadata demo_event) (jget ''amount'' demo_event) demo_registered = Inr b"
    by (auto split: sum.splits)
  have t: "event_type demo_event = JStr ''TOPUP''" by (simp add: event_type_def demo_event_def jor_def)
  have on: "push_on ''alice'' demo_registered" "reached demo_worker (demo_turn 2) ''alice'' demo_registered = {''ExpoA''}" "\<not> silent (event_metadata demo_event)"
    by code_simp+
  from channels_respected [OF demo_reference(2) t demo_reference(1) [of 2] u b, where topic = TRANSACTION_EVENTS] on
  show "\<exists>ps. pushes (handleEvent demo_worker (demo_turn 2) TRANSACTION_EVENTS demo_event demo_registered) = pushes demo_registered @ ps
      \<and> ps_token ` set ps = {''ExpoA''}" by simp
  have "case generateBody demo_worker ''LOGIN'' (event_metadata demo_alarm) (jget ''amount'' demo_alarm) demo_registered of Inr _ \<Rightarrow> True | _ \<Rightarrow> False"
    by code_simp
  then obtain b' where b': "generateBody demo_worker ''LOGIN'' (event_metadata demo_alarm) (jget ''amount'' demo_alarm) demo_registered = Inr b'"
    by (auto split: sum.splits)
  have a: "jget ''userId'' demo_alarm = JStr ''alice''" "event_type demo_alarm = JStr ''LOGIN''" "event_reference (tn_now (demo_turn 2)) demo_alarm = JStr ''t2''"
    "silent (event_metadata demo_alarm)"
    by (simp_all add: event_type_def event_reference_def given_reference_def demo_alarm_def jor_def silent_def event_metadata_def)
  from channels_respected [OF a(1-3) u b', where topic = SECURITY_EVENTS] a(4)
  show "handleEvent demo_worker (demo_turn 2) SECURITY_EVENTS demo_alarm demo_registered = demo_registered" by simp
qed

theorem one_device_pushed_witness:
  "\<exists>ps. pushes (handleEvent demo_worker (demo_turn 2) TRANSACTION_EVENTS demo_event demo_registered) = pushes demo_registered @ ps \<and> ps_token ` set ps \<subseteq> {''ExpoA''}"
proof -
  obtain j where j: "read_event demo_worker (demo_turn 2) TRANSACTION_EVENTS demo_event demo_registered = Some j" using demo_read by blast
  obtain d where "updateDevicePushToken (demo_turn 1) ''alice'' ''phone'' ''ExpoA'' demo_notify = (Inr d, demo_registered)"
    by (simp add: demo_registered_def updateDevicePushToken_def upsert_device_def find_device_def find_user_def demo_notify_def demo_reader_def)
  from one_device_pushed [OF this j demo_reference] show ?thesis by simp
qed

theorem earned_points_notified_witness:
  "\<exists>e. ''alice:LOYALTY_EARN:r1'' \<in> ib_idempotencyKey ` set (inbox (handleMessage demo_worker (demo_turn 2) LOYALTY_EVENTS (earn_payload e) demo_notify))"
proof -
  have "case earnPoints True demo_now ''alice'' (Fin 10) ''TOPUP'' ''Top up'' (Some ''r1'') demo_empty of (Inr (Some _), _) \<Rightarrow> True | _ \<Rightarrow> False" by code_simp
  then obtain res s1 where run: "earnPoints True demo_now ''alice'' (Fin 10) ''TOPUP'' ''Top up'' (Some ''r1'') demo_empty = (Inr (Some res), s1)"
    by (auto split: prod.splits sum.splits option.splits)
  have "find_user ''alice'' demo_notify = Some demo_reader" by (simp add: find_user_def demo_notify_def demo_reader_def)
  from earned_points_notified [OF run _ this, of demo_worker "demo_turn 2"] show ?thesis by (auto simp: Let_def)
qed

theorem reset_link_arrives_witness:
  "\<exists>m l. letters (handleMessage demo_worker (demo_turn 6) SECURITY_EVENTS (mail_payload ''https://admin'' 5 ''1970-01-01'' m) demo_notify) = [l]
     \<and> lt_to l = ''sam@x'' \<and> contains ''?token=new&email='' (lt_html l)"
proof -
  have "case requestPasswordReset (demo_at 5) ''s1'' False demo_admin of (Inr _, _) \<Rightarrow> True | _ \<Rightarrow> False" by code_simp
  then obtain x s1 where run: "requestPasswordReset (demo_at 5) ''s1'' False demo_admin = (Inr x, s1)" by (auto split: prod.splits sum.splits)
  have "wq_kafkaUp (demo_at 5)" "tn_mailUp (demo_turn 6)" "sf_isActive demo_member" "sf_email demo_member = ''sam@x''" "wq_token (demo_at 5) = ''new''"
    "letters demo_notify = []" by (simp_all add: demo_at_def demo_turn_def demo_member_def demo_notify_def)
  with reset_link_arrives [OF run this(1,2) demo_member_found(1) this(3), of demo_worker "''https://admin''" 5 "''1970-01-01''" demo_notify] show ?thesis by auto
qed
end
