(* ===== verification/Wallet_App.thy ===== *)
theory Wallet_App
  imports Payments Identity Js_Text
begin

text \<open>
  The library of the wallet app (\<open>wallet-app/src/lib\<close>, \<open>src/store/notifications.ts\<close>) that decides something on
  its own: the codes it shows and scans, the checks of a connection and its time limits, the reading of the
  server's errors, and the logs in memory. Parsing of URLs is a parameter.
\<close>

section \<open>Codes\<close>

datatype qr_type = QrInternal | QrMerchantPayment | QrMerchantStatic | QrUnsupported

record parsed_qr =
  pq_type :: qr_type
  pq_recipient :: string
  pq_amount :: "string option"
  pq_paymentId :: "string option"
  pq_merchantId :: "string option"
  pq_error :: "string option"

text \<open>\<open>v || undefined\<close>\<close>

definition non_empty :: "string option \<Rightarrow> string option" where
  "non_empty v = (case v of Some (c # t) \<Rightarrow> Some (c # t) | _ \<Rightarrow> None)"

definition part :: "nat \<Rightarrow> string list \<Rightarrow> string option" where
  "part n ps = (if n < length ps then Some (ps ! n) else None)"

text \<open>The parameter \<open>id\<close> of the query of a code.\<close>

definition id_param :: "string \<Rightarrow> string option" where
  "id_param data =
     (let params = (case part 1 (split_char (CHR ''?'') data) of None \<Rightarrow> [] | Some q \<Rightarrow> split_char (CHR ''&'') q)
      in case find (starts_with ''id='') params of None \<Rightarrow> None | Some p \<Rightarrow> non_empty (part 1 (split_char (CHR ''='') p)))"

definition unsupported :: "string \<Rightarrow> parsed_qr" where
  "unsupported e = \<lparr>pq_type = QrUnsupported, pq_recipient = [], pq_amount = None, pq_paymentId = None, pq_merchantId = None, pq_error = Some e\<rparr>"

definition parseQRData :: "string \<Rightarrow> parsed_qr" where
  "parseQRData data =
     (if starts_with ''JLEDGER:'' data
      then let parts = split_char (CHR '':'') data
           in \<lparr>pq_type = QrInternal, pq_recipient = (case part 1 parts of Some r \<Rightarrow> r | None \<Rightarrow> []), pq_amount = non_empty (part 2 parts),
               pq_paymentId = None, pq_merchantId = None, pq_error = None\<rparr>
      else if starts_with ''jledger://merchant'' data \<and> id_param data \<noteq> None
      then \<lparr>pq_type = QrMerchantStatic, pq_recipient = ''MERCHANT'', pq_amount = None, pq_paymentId = None, pq_merchantId = id_param data, pq_error = None\<rparr>
      else if starts_with ''jledger://pay'' data \<and> id_param data \<noteq> None
      then \<lparr>pq_type = QrMerchantPayment, pq_recipient = ''MERCHANT'', pq_amount = None, pq_paymentId = id_param data, pq_merchantId = None, pq_error = None\<rparr>
      else if starts_with ''000201'' data then unsupported ''PromptPay QR is not supported yet. Please use JLEDGER QR codes only.''
      else unsupported ''Invalid QR format. Only JLEDGER QR codes are supported.'')"

text \<open>\<open>parseFloat\<close>: the longest decimal literal at the beginning, after white space.\<close>

definition exponent_prefix :: "string \<Rightarrow> int" where
  "exponent_prefix r = (case r of
      c # d # u \<Rightarrow>
        if c \<noteq> CHR ''e'' \<and> c \<noteq> CHR ''E'' then 0
        else if d = CHR ''-'' then - digits_value (takeWhile is_digit u)
        else if d = CHR ''+'' then digits_value (takeWhile is_digit u)
        else digits_value (takeWhile is_digit (d # u))
    | _ \<Rightarrow> 0)"

definition float_prefix :: "string \<Rightarrow> jsnum" where
  "float_prefix u =
     (let ds = takeWhile is_digit u; r = dropWhile is_digit u;
          (fs, r') = (case r of c # v \<Rightarrow> if c = CHR ''.'' then (takeWhile is_digit v, dropWhile is_digit v) else ([], r) | [] \<Rightarrow> ([], []))
      in if starts_with ''Infinity'' u then Infinity False
         else if ds @ fs = [] then NaN
         else mk_num (of_int (digits_value (ds @ fs)) * 10 powi (exponent_prefix r' - int (length fs))))"

definition parseFloat :: "string \<Rightarrow> jsnum" where
  "parseFloat t = (case dropWhile is_space t of
      c # v \<Rightarrow> if c = CHR ''-'' then nneg (float_prefix v) else if c = CHR ''+'' then float_prefix v else float_prefix (c # v)
    | [] \<Rightarrow> NaN)"

text \<open>\<open>TransferParamsSchema\<close>: the recipient is not empty, the amount is a number above zero.\<close>

definition amount_ok :: "string \<Rightarrow> bool" where
  "amount_ok a \<longleftrightarrow> nlt (Fin 0) (parseFloat a)"

record transfer_params =
  tp_type :: "qr_type option"
  tp_recipient :: string
  tp_amount :: string
  tp_paymentId :: "string option"
  tp_merchantId :: "string option"

datatype qr_code = INVALID_QR | INVALID_RECIPIENT | INVALID_AMOUNT | PARSE_ERROR

record qr_error =
  qe_code :: qr_code
  qe_message :: string
  qe_field :: "string option"

definition qr_fail :: "qr_code \<Rightarrow> string \<Rightarrow> string \<Rightarrow> qr_error + transfer_params" where
  "qr_fail c m f = Inl \<lparr>qe_code = c, qe_message = m, qe_field = Some f\<rparr>"

definition validateAndParseQR :: "string \<Rightarrow> qr_error + transfer_params" where
  "validateAndParseQR rawData =
     (let parsed = parseQRData rawData; amount = (case pq_amount parsed of Some a \<Rightarrow> a | None \<Rightarrow> []);
          digits = filter is_digit (pq_recipient parsed); recipient = (if length digits = 9 then CHR ''0'' # digits else digits) in
      if pq_type parsed = QrUnsupported
      then qr_fail INVALID_QR (case pq_error parsed of Some (c # t) \<Rightarrow> c # t
             | _ \<Rightarrow> ''This QR code format is not supported. Only JLEDGER QR codes are accepted.'') ''format''
      else if strip (pq_recipient parsed) = [] then qr_fail INVALID_RECIPIENT ''QR code does not contain a valid recipient'' ''recipient''
      else if pq_type parsed = QrMerchantPayment
      then Inr \<lparr>tp_type = Some QrMerchantPayment, tp_recipient = ''MERCHANT'', tp_amount = amount, tp_paymentId = pq_paymentId parsed, tp_merchantId = None\<rparr>
      else if pq_type parsed = QrMerchantStatic
      then Inr \<lparr>tp_type = Some QrMerchantStatic, tp_recipient = ''MERCHANT'', tp_amount = [], tp_paymentId = None, tp_merchantId = pq_merchantId parsed\<rparr>
      else if length recipient \<noteq> 10 then qr_fail INVALID_RECIPIENT ''Recipient phone number is invalid (must be 10 digits)'' ''recipient''
      else if \<not> amount_ok (if amount = [] then ''1'' else amount) then qr_fail INVALID_QR ''Amount must be greater than 0'' ''amount''
      else Inr \<lparr>tp_type = None, tp_recipient = recipient, tp_amount = amount, tp_paymentId = None, tp_merchantId = None\<rparr>)"

definition getErrorMessage :: "qr_error + transfer_params \<Rightarrow> string" where
  "getErrorMessage r = (case r of
      Inr _ \<Rightarrow> []
    | Inl e \<Rightarrow> (case qe_code e of
         INVALID_QR \<Rightarrow> ''This QR code is not valid. Please try scanning another code.''
       | INVALID_RECIPIENT \<Rightarrow> ''The QR code does not contain a valid recipient. Please try another code.''
       | INVALID_AMOUNT \<Rightarrow> ''The QR code contains an invalid amount. Please enter an amount manually.''
       | PARSE_ERROR \<Rightarrow> ''Unable to read the QR code. Please try again.''))"

text \<open>The code that the app shows for its user (\<open>app/my-qr.tsx\<close>).\<close>

definition MOCK_PHONE :: string where
  "MOCK_PHONE = ''0812345678''"

definition toLocalPhone :: "string \<Rightarrow> string" where
  "toLocalPhone phone =
     (let digits = filter is_digit phone in
      if starts_with ''66'' digits \<and> length digits = 11 then CHR ''0'' # drop 2 digits
      else if starts_with ''0'' digits \<and> length digits = 10 then digits
      else MOCK_PHONE)"

definition my_qr :: "string option \<Rightarrow> string \<Rightarrow> string" where
  "my_qr phone amount =
     (let phoneNumber = (case phone of Some (c # t) \<Rightarrow> toLocalPhone (c # t) | _ \<Rightarrow> MOCK_PHONE)
      in if amount \<noteq> [] \<and> amount_ok amount then ''JLEDGER:'' @ phoneNumber @ '':'' @ amount else ''JLEDGER:'' @ phoneNumber)"

section \<open>Logs in memory\<close>

record qr_log =
  ql_timestamp :: int
  ql_type :: string
  ql_recipient :: "string option"
  ql_amount :: "string option"
  ql_success :: bool
  ql_error :: "string option"
  ql_userId :: "string option"

definition logQRScan :: "qr_log \<Rightarrow> qr_log list \<Rightarrow> qr_log list" where
  "logQRScan entry qrScanLogs = take 100 (entry # qrScanLogs)"

record transaction_log =
  xl_id :: string
  xl_timestamp :: int
  xl_type :: string
  xl_success :: bool
  xl_recipient :: "string option"
  xl_amount :: "string option"
  xl_error :: json
  xl_userId :: "string option"
  xl_details :: json

definition logTransaction :: "string \<Rightarrow> transaction_log \<Rightarrow> transaction_log list \<Rightarrow> transaction_log list" where
  "logTransaction fresh entry transactionLogs =
     take 500 ((if xl_id entry = [] then entry\<lparr>xl_id := fresh\<rparr> else entry) # transactionLogs)"

text \<open>The notifications that the app shows (\<open>store/notifications.ts\<close>).\<close>

datatype notice_type = NoticePayment | NoticeSecurity | NoticePoints | NoticeInfo | NoticeTransfer | NoticeError

record notice =
  nc_id :: string
  nc_title :: string
  nc_body :: string
  nc_type :: notice_type
  nc_timestamp :: int
  nc_read :: bool
  nc_data :: json

definition addNotification :: "int \<Rightarrow> string \<Rightarrow> notice \<Rightarrow> notice list \<Rightarrow> notice list" where
  "addNotification now fresh n notifications = take 50 (n\<lparr>nc_id := fresh, nc_timestamp := now, nc_read := False\<rparr> # notifications)"

definition removeNotification :: "string \<Rightarrow> notice list \<Rightarrow> notice list" where
  "removeNotification i = filter (\<lambda>n. nc_id n \<noteq> i)"

definition markNoticeAsRead :: "string \<Rightarrow> notice list \<Rightarrow> notice list" where
  "markNoticeAsRead i = map (\<lambda>n. if nc_id n = i then n\<lparr>nc_read := True\<rparr> else n)"

definition markAllAsRead :: "notice list \<Rightarrow> notice list" where
  "markAllAsRead = map (\<lambda>n. n\<lparr>nc_read := True\<rparr>)"

definition getUnreadCount :: "notice list \<Rightarrow> nat" where
  "getUnreadCount ns = length (filter (\<lambda>n. \<not> nc_read n) ns)"

section \<open>Errors of the server\<close>

datatype error_code = NETWORK_ERROR | ERR_INVALID_QR | ERR_INVALID_RECIPIENT | ERR_INVALID_AMOUNT | BIOMETRIC_FAILED | PIN_FAILED
  | TRANSFER_FAILED | SERVER_ERROR | TIMEOUT | INSUFFICIENT_FUNDS | UNKNOWN

datatype recovery = RETRY | EDIT | FALLBACK | CANCEL

record transfer_error =
  te_code :: error_code
  te_message :: json
  te_details :: json
  te_recovery :: "recovery option"

definition plain_error :: "error_code \<Rightarrow> string \<Rightarrow> transfer_error" where
  "plain_error c m = \<lparr>te_code = c, te_message = JStr m, te_details = JUndef, te_recovery = None\<rparr>"

text \<open>The word that the source also looks for in Thai is written in brackets.\<close>

definition insufficient :: "json \<Rightarrow> bool" where
  "insufficient m = (case m of JStr t \<Rightarrow> contains ''insufficient'' (map lower t) \<or> contains ''not enough)'' t | _ \<Rightarrow> False)"

definition first_message :: "json \<Rightarrow> json" where
  "first_message raw = (case raw of JArr (m # ms) \<Rightarrow> m | JArr [] \<Rightarrow> JUndef | m \<Rightarrow> m)"

definition status_is :: "nat \<Rightarrow> json \<Rightarrow> bool" where
  "status_is n v \<longleftrightarrow> v = JNum (Fin (of_nat n))"

definition no_response :: "json \<Rightarrow> transfer_error" where
  "no_response e =
     (if jget ''code'' e = JStr ''ECONNABORTED'' then plain_error TIMEOUT ''Request timeout. Please try again.''
      else if jget ''message'' e = JStr ''Network Error'' \<or> \<not> truthy (jget ''response'' e)
      then plain_error NETWORK_ERROR ''Network connection error. Please check your connection.''
      else \<lparr>te_code = UNKNOWN, te_message = jor (jget ''message'' e) (JStr ''An unexpected error occurred''), te_details = JUndef, te_recovery = None\<rparr>)"

text \<open>A response without a body is a type error where the code reads a field of it.\<close>

definition parseBackendError :: "json \<Rightarrow> transfer_error result" where
  "parseBackendError e =
     (let response = jget ''response'' e; status = jget ''status'' response; data = jget ''data'' response in
      if \<not> truthy e then Inr (plain_error UNKNOWN ''An unexpected error occurred'')
      else if truthy response \<and> status_is 400 status then
        (if nullish data then Inl (Plain ''TypeError'')
         else let message = first_message (jor (jget ''message'' data) (JStr []))
              in Inr \<lparr>te_code = (if insufficient message then INSUFFICIENT_FUNDS else ERR_INVALID_QR), te_message = jor message (JStr ''Invalid request''),
                      te_details = jget ''details'' data, te_recovery = Some (if insufficient message then EDIT else RETRY)\<rparr>)
      else if truthy response \<and> status_is 401 status then Inr (plain_error BIOMETRIC_FAILED ''Authentication required'')
      else if truthy response \<and> status_is 404 status then Inr (plain_error ERR_INVALID_RECIPIENT ''Recipient not found'')
      else if truthy response \<and> status_is 422 status then
        (if nullish data then Inl (Plain ''TypeError'')
         else Inr \<lparr>te_code = ERR_INVALID_AMOUNT, te_message = JStr ''Invalid transfer amount'', te_details = jget ''message'' data, te_recovery = None\<rparr>)
      else if truthy response \<and> nle (Fin 500) (Number_json status) then Inr (plain_error SERVER_ERROR ''Server error. Please try again later.'')
      else Inr (no_response e))"

fun errorMap :: "error_code \<Rightarrow> string \<times> string \<times> string" where
  "errorMap NETWORK_ERROR = (''Connection Problem'', ''Unable to connect to the server. Please check your internet connection and try again.'', ''Retry'')"
| "errorMap ERR_INVALID_QR = (''Invalid QR Code'', ''This QR code could not be read. Please try scanning another code or enter the recipient manually.'', ''Back to Scan'')"
| "errorMap ERR_INVALID_RECIPIENT = (''Invalid Recipient'', ''The recipient information from the QR code is invalid. Please verify and try again.'', ''Edit Recipient'')"
| "errorMap ERR_INVALID_AMOUNT = (''Invalid Amount'', ''The amount specified is invalid. Please enter a valid amount and try again.'', ''Edit Amount'')"
| "errorMap BIOMETRIC_FAILED = (''Authentication Failed'', ''Biometric authentication failed. Please try again or use PIN instead.'', ''Try Again'')"
| "errorMap PIN_FAILED = (''Invalid PIN'', ''The PIN you entered is incorrect. Please try again.'', ''Try Again'')"
| "errorMap TRANSFER_FAILED = (''Transfer Failed'', ''The transfer could not be completed. Please verify the details and try again.'', ''Retry Transfer'')"
| "errorMap SERVER_ERROR = (''Server Error'', ''The server encountered an error. Please try again in a few moments.'', ''Retry'')"
| "errorMap TIMEOUT = (''Request Timeout'', ''The request took too long. Please check your connection and try again.'', ''Retry'')"
| "errorMap INSUFFICIENT_FUNDS = (''Insufficient Balance'', ''Your wallet balance is not enough for this transaction.'', ''Top Up'')"
| "errorMap UNKNOWN = (''Unexpected Error'', ''An unexpected error occurred. Please try again.'', ''Try Again'')"

definition getErrorInfo :: "transfer_error \<Rightarrow> string \<times> json \<times> string" where
  "getErrorInfo e = (case errorMap (te_code e) of (title, message, label) \<Rightarrow> (title, jor (te_message e) (JStr message), label))"

fun getRecoveryPath :: "error_code \<Rightarrow> string" where
  "getRecoveryPath c =
     (if c \<in> {ERR_INVALID_QR, ERR_INVALID_RECIPIENT} then ''back''
      else if c = ERR_INVALID_AMOUNT then ''edit''
      else if c \<in> {BIOMETRIC_FAILED, PIN_FAILED, NETWORK_ERROR, TIMEOUT, TRANSFER_FAILED} then ''retry''
      else if c = INSUFFICIENT_FUNDS then ''edit''
      else ''home'')"

section \<open>Connections\<close>

definition QUICK :: nat where "QUICK = 5000"
definition STANDARD :: nat where "STANDARD = 10000"
definition SLOW :: nat where "SLOW = 30000"
definition VERY_SLOW :: nat where "VERY_SLOW = 60000"

definition REQUEST_TIMEOUTS :: "(string \<times> nat) list" where
  "REQUEST_TIMEOUTS = [(''/api/auth/login'', QUICK), (''/api/auth/register'', QUICK), (''/api/auth/refresh'', QUICK), (''/api/auth/logout'', QUICK),
     (''/api/auth/pin'', QUICK), (''/api/auth/biometric'', QUICK), (''/api/finance/wallets'', QUICK), (''/api/finance/wallets/'', STANDARD),
     (''/kyc/upload-id-card'', VERY_SLOW), (''/kyc/submit-selfie'', VERY_SLOW), (''/kyc/confirm-ocr'', SLOW)]"

definition getTimeoutForRequest :: "string option \<Rightarrow> nat" where
  "getTimeoutForRequest url = (case url of
      Some (c # t) \<Rightarrow> (case find (\<lambda>(endpoint, ms). contains endpoint (c # t)) REQUEST_TIMEOUTS of Some (_, ms) \<Rightarrow> ms | None \<Rightarrow> STANDARD)
    | _ \<Rightarrow> STANDARD)"

definition ends_with :: "string \<Rightarrow> string \<Rightarrow> bool" where
  "ends_with p t = starts_with (rev p) (rev t)"

definition getBaseUrl :: "bool \<Rightarrow> string option \<Rightarrow> string" where
  "getBaseUrl dev env =
     (let baseUrl = (case env of Some (c # t) \<Rightarrow> c # t | _ \<Rightarrow> if dev then ''http://localhost:3000'' else ''https://api.jledger.io'')
      in if ends_with ''/api'' baseUrl then baseUrl else baseUrl @ ''/api'')"

text \<open>\<open>hostname\<close> is the reader of URLs, \<open>None\<close> where \<open>new URL\<close> throws.\<close>

definition validateHttpsUrl :: "(string \<Rightarrow> string option) \<Rightarrow> bool \<Rightarrow> string \<Rightarrow> string option" where
  "validateHttpsUrl hostname dev url =
     (if \<not> starts_with ''https://'' url then Some ''API URL must use HTTPS''
      else case hostname url of
        None \<Rightarrow> Some ''Invalid URL format''
      | Some h \<Rightarrow> if \<not> dev \<and> \<not> list_ex (\<lambda>domain. contains domain h) [''api.jledger.io'', ''jledger.io''] then Some ''Unknown production domain'' else None)"

definition validateConnectionSecurity :: "(string \<Rightarrow> string option) \<Rightarrow> bool \<Rightarrow> string \<Rightarrow> string option" where
  "validateConnectionSecurity hostname dev url = (if dev then None else validateHttpsUrl hostname dev url)"

end
