(* ===== verification/Wallet_App_Props.thy ===== *)
theory Wallet_App_Props
  imports Wallet_App Payment_Props Identity_Props
begin

text \<open>
  Properties of the library of the wallet app. Codes are read back as what they were made for, against the
  service that makes them and the service that looks a phone number up. The locale \<open>capped_log\<close> is the
  contract of a log of bounded length; the three logs of the app interpret it.
\<close>

section \<open>Logs\<close>

locale capped_log =
  fixes add :: "'e \<Rightarrow> 'r list \<Rightarrow> 'r list" and row :: "'e \<Rightarrow> 'r" and cap :: nat
  assumes add_row: "add e rows = take cap (row e # rows)"
begin

lemma adds: "length rows \<le> cap \<Longrightarrow> fold add es rows = take cap (rev (map row es) @ rows)"
proof (induction es arbitrary: rows)
  case (Cons e es)
  have "take cap (rev (map row es) @ take cap (row e # rows)) = take cap (rev (map row es) @ row e # rows)"
    by (simp add: min_def)
  then show ?case using Cons.IH [of "add e rows"] by (simp add: add_row)
qed simp

lemma newest_kept: "length es \<le> cap \<Longrightarrow> length rows \<le> cap \<Longrightarrow> take (length es) (fold add es rows) = rev (map row es)"
  by (simp add: adds min_def)

lemma bounded: "length rows \<le> cap \<Longrightarrow> length (fold add es rows) \<le> cap"
  by (simp add: adds)

end

interpretation scan_log: capped_log logQRScan "\<lambda>e. e" 100
  by unfold_locales (simp add: logQRScan_def)

interpretation money_log: capped_log "\<lambda>(fresh, entry). logTransaction fresh entry" "\<lambda>(fresh, entry). if xl_id entry = [] then entry\<lparr>xl_id := fresh\<rparr> else entry" 500
  by unfold_locales (auto simp: logTransaction_def)

interpretation notice_log: capped_log "\<lambda>(now, fresh, n). addNotification now fresh n" "\<lambda>(now, fresh, n). n\<lparr>nc_id := fresh, nc_timestamp := now, nc_read := False\<rparr>" 50
  by unfold_locales (auto simp: addNotification_def)

section \<open>Codes\<close>

definition uuid_char :: "char \<Rightarrow> bool" where
  "uuid_char c \<longleftrightarrow> is_digit c \<or> c \<in> set ''abcdef-''"

definition uuid_like :: "string \<Rightarrow> bool" where
  "uuid_like i \<longleftrightarrow> i \<noteq> [] \<and> list_all uuid_char i"

lemma uuid_like_free: "uuid_like i \<Longrightarrow> CHR ''?'' \<notin> set i \<and> CHR ''&'' \<notin> set i \<and> CHR ''='' \<notin> set i"
  by (auto simp: uuid_like_def list_all_iff uuid_char_def is_digit_def)

lemma id_param_of:
  assumes "uuid_like i" "CHR ''?'' \<notin> set a"
  shows "id_param (a @ ''?id='' @ i) = Some i"
proof -
  have f: "CHR ''?'' \<notin> set i" "CHR ''&'' \<notin> set i" "CHR ''='' \<notin> set i" using uuid_like_free [OF assms(1)] by simp_all
  have "split_char (CHR ''?'') (a @ CHR ''?'' # ''id='' @ i) = [a, ''id='' @ i]" using split_char_join [OF assms(2)] split_char_none [of "CHR ''?''" "''id='' @ i"] f(1) by simp
  moreover have "split_char (CHR ''&'') (''id='' @ i) = [''id='' @ i]" using f(2) by (intro split_char_none) simp
  moreover have "split_char (CHR ''='') (''id'' @ CHR ''='' # i) = [''id'', i]" using split_char_join [of "CHR ''=''" "''id''"] split_char_none [OF f(3)] by simp
  moreover obtain c t where "i = c # t" using assms(1) by (cases i) (auto simp: uuid_like_def)
  ultimately show ?thesis by (simp add: id_param_def part_def non_empty_def)
qed

lemma shop_code_read:
  assumes "uuid_like i"
  shows "validateAndParseQR (''jledger://pay?id='' @ i) = Inr \<lparr>tp_type = Some QrMerchantPayment, tp_recipient = ''MERCHANT'', tp_amount = [], tp_paymentId = Some i, tp_merchantId = None\<rparr>"
    and "validateAndParseQR (''jledger://merchant?id='' @ i) = Inr \<lparr>tp_type = Some QrMerchantStatic, tp_recipient = ''MERCHANT'', tp_amount = [], tp_paymentId = None, tp_merchantId = Some i\<rparr>"
  using id_param_of [OF assms, of "''jledger://pay''"] id_param_of [OF assms, of "''jledger://merchant''"]
  by (simp_all add: validateAndParseQR_def parseQRData_def Let_def strip_def is_space_def)

text \<open>
  Property C32. The code of a shop is read as the payment it asks for. Whatever code the service makes for a
  payment or for a shop, the app that scans it opens exactly that payment, or that shop; ids are UUIDs.
\<close>

theorem shop_code_roundtrip:
  assumes "generatePaymentQR now newId uuid userId merchantId amount terminalId s = (Inr (p, url), s1)" "uuid_like newId"
    and "generateStaticQR userId shopId s2 = (Inr (shop, static_url), s3)" "uuid_like shopId"
  shows "validateAndParseQR url = Inr \<lparr>tp_type = Some QrMerchantPayment, tp_recipient = ''MERCHANT'', tp_amount = [], tp_paymentId = Some (mp_id p), tp_merchantId = None\<rparr>
     \<and> p \<in> set (merchantPayment s1)
     \<and> validateAndParseQR static_url = Inr \<lparr>tp_type = Some QrMerchantStatic, tp_recipient = ''MERCHANT'', tp_amount = [], tp_paymentId = None, tp_merchantId = Some shopId\<rparr>"
proof -
  have 1: "url = ''jledger://pay?id='' @ newId" "mp_id p = newId" "p \<in> set (merchantPayment s1)"
    using assms(1) by (auto simp: generatePaymentQR_def insert_payment_def split: if_splits option.splits json.splits prod.splits sum.splits)
  have 2: "static_url = ''jledger://merchant?id='' @ shopId"
    using assms(3) by (auto simp: generateStaticQR_def owns_merchant_def split: option.splits dest!: find_SomeD)
  show ?thesis using shop_code_read(1) [OF assms(2)] shop_code_read(2) [OF assms(4)] 1 2 by simp
qed

lemma own_code_text:
  assumes "CHR '':'' \<notin> set p" "CHR '':'' \<notin> set a"
  shows "split_char (CHR '':'') (''JLEDGER:'' @ p @ '':'' @ a) = [''JLEDGER'', p, a]" "split_char (CHR '':'') (''JLEDGER:'' @ p) = [''JLEDGER'', p]"
  using split_char_join [of "CHR '':''" "''JLEDGER''"] split_char_join [OF assms(1)] split_char_none [OF assms(1)] split_char_none [OF assms(2)] by simp_all

lemma toLocalPhone_own:
  assumes "list_all is_digit d" "length d = 9"
  shows "toLocalPhone (''+66'' @ d) = CHR ''0'' # d"
proof -
  have "filter is_digit (''+66'' @ d) = ''66'' @ d" using assms(1) by (simp add: is_digit_def list_all_iff filter_id_conv)
  then show ?thesis using assms(2) by (simp add: toLocalPhone_def)
qed

text \<open>
  The code of a user leads to that user. What the app shows for a Thai number, with any amount
  that has no colon, is read by another app as that number in its local form, which the service looks up under
  the stored international form; the amount is the one entered if it is a number above zero, and left open
  otherwise.
\<close>

theorem own_code_roundtrip:
  assumes "list_all is_digit d" "length d = 9" "CHR '':'' \<notin> set amount"
  shows "validateAndParseQR (my_qr (Some (''+66'' @ d)) amount) = Inr \<lparr>tp_type = None, tp_recipient = CHR ''0'' # d,
       tp_amount = (if amount \<noteq> [] \<and> amount_ok amount then amount else []), tp_paymentId = None, tp_merchantId = None\<rparr>
     \<and> ''+66'' @ d \<in> set (getPhoneCandidates (CHR ''0'' # d))"
proof -
  let ?p = "CHR ''0'' # d"
  have digits: "filter is_digit ?p = ?p" using assms(1) by (simp add: is_digit_def list_all_iff filter_id_conv)
  have colon: "CHR '':'' \<notin> set ?p" using assms(1) by (auto simp: list_all_iff is_digit_def)
  have strip: "strip ?p \<noteq> []"
  proof -
    have "\<not> is_space (CHR ''0'')" by (simp add: is_space_def)
    then show ?thesis by (auto simp: strip_def)
  qed
  have one: "amount_ok ''1''" by code_simp
  have "my_qr (Some (''+66'' @ d)) amount = (if amount \<noteq> [] \<and> amount_ok amount then ''JLEDGER:'' @ ?p @ '':'' @ amount else ''JLEDGER:'' @ ?p)"
    using toLocalPhone_own [OF assms(1,2)] by (simp add: my_qr_def)
  moreover have "validateAndParseQR (''JLEDGER:'' @ ?p @ '':'' @ amount) = Inr \<lparr>tp_type = None, tp_recipient = ?p, tp_amount = amount, tp_paymentId = None, tp_merchantId = None\<rparr>"
    if "amount \<noteq> []" "amount_ok amount"
  proof -
    from \<open>amount \<noteq> []\<close> obtain c t where "amount = c # t" by (cases amount) auto
    then show ?thesis using own_code_text(1) [OF colon assms(3)] that digits strip assms(2)
      by (simp add: validateAndParseQR_def parseQRData_def part_def non_empty_def Let_def)
  qed
  moreover have "validateAndParseQR (''JLEDGER:'' @ ?p) = Inr \<lparr>tp_type = None, tp_recipient = ?p, tp_amount = [], tp_paymentId = None, tp_merchantId = None\<rparr>"
    using own_code_text(2) [OF colon assms(3)] digits strip assms(2) one
    by (simp add: validateAndParseQR_def parseQRData_def part_def non_empty_def Let_def)
  moreover have "getPhoneCandidates ?p = [''+66'' @ d, ''0'' @ d]" using normalizePhone_canonical [OF assms(1,2), of ?p] digits by simp
  ultimately show ?thesis by simp
qed

section \<open>Defects\<close>

text \<open>A profile whose number has another form, or none yet, is shown with a number of somebody else.\<close>

lemma my_qr_mock: "my_qr None [] = ''JLEDGER:0812345678''" "my_qr (Some ''+4915112345678'') [] = ''JLEDGER:0812345678''"
  by code_simp+

text \<open>The longer path comes after the shorter one that it contains, so the standard limit is never used for it.\<close>

lemma contains_shorter: "contains (p @ q) t \<Longrightarrow> contains p t"
proof (induction t)
  case (Cons c t)
  then show ?case by (auto simp: starts_with_iff)
qed simp

lemma wallet_operations_quick:
  assumes "contains ''/api/finance/wallets/'' url"
  shows "getTimeoutForRequest (Some url) = QUICK"
proof -
  have "contains ''/api/finance/wallets'' url" using contains_shorter [of "''/api/finance/wallets''" "''/''"] assms by simp
  moreover obtain c t where "url = c # t" using assms by (cases url) auto
  ultimately show ?thesis by (auto simp: getTimeoutForRequest_def REQUEST_TIMEOUTS_def)
qed

text \<open>Any host whose name contains the domain passes.\<close>

lemma foreign_host_accepted: "validateConnectionSecurity (\<lambda>_. Some ''jledger.io.example.com'') False ''https://jledger.io.example.com'' = None"
  by code_simp

text \<open>The test of the repository expects a network error here.\<close>

lemma timeout_before_network: "map_sum (\<lambda>_. ()) te_code (parseBackendError (JObj [(''message'', JStr ''Network Error''), (''code'', JStr ''ECONNABORTED'')])) = Inr TIMEOUT"
  by code_simp

section \<open>Examples\<close>

definition demo_street :: merchant_db where
  "demo_street = demo_market\<lparr>merchants := [demo_merchant\<lparr>mc_id := ''a1''\<rparr>]\<rparr>"

theorem shop_code_roundtrip_witness:
  "\<exists>p url. fst (generatePaymentQR demo_now ''b2'' ''u'' ''bob'' ''a1'' (JNum (Fin 100)) None demo_street) = Inr (p, url)
     \<and> validateAndParseQR url = Inr \<lparr>tp_type = Some QrMerchantPayment, tp_recipient = ''MERCHANT'', tp_amount = [], tp_paymentId = Some (mp_id p), tp_merchantId = None\<rparr>"
proof -
  have "case generatePaymentQR demo_now ''b2'' ''u'' ''bob'' ''a1'' (JNum (Fin 100)) None demo_street of (Inr _, _) \<Rightarrow> True | _ \<Rightarrow> False" by code_simp
  then obtain p url s1 where 1: "generatePaymentQR demo_now ''b2'' ''u'' ''bob'' ''a1'' (JNum (Fin 100)) None demo_street = (Inr (p, url), s1)"
    by (auto split: prod.splits sum.splits)
  have "case generateStaticQR ''bob'' ''a1'' demo_street of (Inr _, _) \<Rightarrow> True | _ \<Rightarrow> False" by code_simp
  then obtain shop static_url s3 where 2: "generateStaticQR ''bob'' ''a1'' demo_street = (Inr (shop, static_url), s3)"
    by (auto split: prod.splits sum.splits)
  have "uuid_like ''b2''" "uuid_like ''a1''" by code_simp+
  with shop_code_roundtrip [OF 1 this(1) 2 this(2)] 1 show ?thesis by simp
qed

theorem own_code_roundtrip_witness:
  "validateAndParseQR (my_qr (Some ''+66812345678'') ''120.50'') = Inr \<lparr>tp_type = None, tp_recipient = ''0812345678'',
     tp_amount = ''120.50'', tp_paymentId = None, tp_merchantId = None\<rparr>"
proof -
  have "list_all is_digit ''812345678''" "length ''812345678'' = (9 :: nat)" "CHR '':'' \<notin> set ''120.50''" "amount_ok ''120.50''" by code_simp+
  with own_code_roundtrip [OF this(1-3)] show ?thesis by simp
qed
end
