(* ===== verification/Wallet_Session.thy ===== *)
theory Wallet_Session
  imports Identity Js_Text
begin

text \<open>
  The session of the wallet app: the stores \<open>src/store/auth.ts\<close> and \<open>src/store/registration.ts\<close>, the lock of
  \<open>src/hooks/useAppLock.ts\<close>, the guard of \<open>src/app/_layout.tsx\<close> and the id of the device
  (\<open>src/lib/device.utils.ts\<close>). What is kept on the device is in \<open>kv_\<close> fields, one for each key; the rest is
  lost when the app is closed. The secure storage works; its failures are caught and logged.
\<close>

section \<open>State\<close>

datatype app_state = AppActive | AppInactive | AppBackground

record wallet_user =
  wu_id :: string
  wu_status :: "user_status option"
  wu_registrationState :: "registration_state option"

record wallet_app =
  kv_auth_token :: "string option"
  kv_refresh_token :: "string option"
  kv_wallet_user :: "wallet_user option"
  kv_biometric :: "string option"
  kv_session_locked :: "string option"
  kv_registration_token :: "string option"
  kv_device_id :: "string option"
  au_token :: "string option"
  au_refreshToken :: "string option"
  au_isAuthenticated :: bool
  au_isLoading :: bool
  au_hasSession :: bool
  au_needsPinVerification :: bool
  au_user :: "wallet_user option"
  au_biometricEnabled :: bool
  au_lastActiveAt :: int
  rg_token :: "string option"
  rg_currentState :: registration_state
  rg_status :: json
  rg_reviewNote :: json
  rg_prefillData :: json
  rg_isSyncing :: bool
  ap_state :: app_state

text \<open>The memory of an app that was just opened.\<close>

definition fresh_memory :: "int \<Rightarrow> wallet_app \<Rightarrow> wallet_app" where
  "fresh_memory now s = s\<lparr>au_token := None, au_refreshToken := None, au_isAuthenticated := False, au_isLoading := True, au_hasSession := False,
     au_needsPinVerification := False, au_user := None, au_biometricEnabled := False, au_lastActiveAt := now,
     rg_token := None, rg_currentState := PENDING_OTP, rg_status := JNull, rg_reviewNote := JNull, rg_prefillData := JNull, rg_isSyncing := False,
     ap_state := AppActive\<rparr>"

definition given :: "string option \<Rightarrow> string option" where
  "given v = (case v of Some (c # t) \<Rightarrow> Some (c # t) | _ \<Rightarrow> None)"

section \<open>The registration store\<close>

definition setRegToken :: "string option \<Rightarrow> wallet_app \<Rightarrow> wallet_app" where
  "setRegToken token s = (case given token of
      Some t \<Rightarrow> s\<lparr>kv_registration_token := Some t, rg_token := Some t\<rparr>
    | None \<Rightarrow> s\<lparr>kv_registration_token := None, rg_token := None, rg_prefillData := JNull, rg_currentState := PENDING_OTP\<rparr>)"

definition reset_registration :: "wallet_app \<Rightarrow> wallet_app" where
  "reset_registration s = s\<lparr>kv_registration_token := None, rg_token := None, rg_currentState := PENDING_OTP, rg_prefillData := JNull\<rparr>"

text \<open>
  \<open>answer\<close> is the status that the service gives to a token, or the HTTP status of its refusal (\<open>None\<close> where
  there is no response). The key \<open>access_token\<close> of the fallback is written nowhere, so there is no other token.
\<close>

record reg_status =
  rs_state :: registration_state
  rs_status :: json
  rs_reviewNote :: json
  rs_prefilledData :: json

definition syncStatus :: "(string \<Rightarrow> nat option + reg_status) \<Rightarrow> wallet_app \<Rightarrow> registration_state \<times> wallet_app" where
  "syncStatus answer s =
     (case given (rg_token s) of
        None \<Rightarrow> (PENDING_OTP, s\<lparr>rg_isSyncing := False\<rparr>)
      | Some t \<Rightarrow> (case answer t of
            Inr r \<Rightarrow> (rs_state r, s\<lparr>rg_currentState := rs_state r, rg_status := jor (rs_status r) JNull, rg_reviewNote := jor (rs_reviewNote r) JNull,
                           rg_prefillData := jor (rs_prefilledData r) JNull, rg_isSyncing := False\<rparr>)
          | Inl status \<Rightarrow> (PENDING_OTP, (if status = Some 401 then reset_registration s else s)\<lparr>rg_isSyncing := False\<rparr>)))"

definition initialize_registration :: "(string \<Rightarrow> nat option + reg_status) \<Rightarrow> wallet_app \<Rightarrow> wallet_app" where
  "initialize_registration answer s = (case given (kv_registration_token s) of
      None \<Rightarrow> s | Some t \<Rightarrow> snd (syncStatus answer (s\<lparr>rg_token := Some t\<rparr>)))"

section \<open>The session store\<close>

definition setToken :: "int \<Rightarrow> string option \<Rightarrow> string option \<Rightarrow> wallet_app \<Rightarrow> wallet_app" where
  "setToken now token refreshToken s = (case given token of
      Some t \<Rightarrow> s\<lparr>kv_auth_token := Some t, kv_refresh_token := (case given refreshToken of None \<Rightarrow> kv_refresh_token s | Some r \<Rightarrow> Some r),
                  au_token := Some t, au_refreshToken := given refreshToken, au_isAuthenticated := True, au_lastActiveAt := now\<rparr>
    | None \<Rightarrow> s\<lparr>kv_auth_token := None, kv_refresh_token := None, au_token := None, au_refreshToken := None, au_isAuthenticated := False\<rparr>)"

definition setUser :: "int \<Rightarrow> wallet_user option \<Rightarrow> wallet_app \<Rightarrow> wallet_app" where
  "setUser now user s = s\<lparr>kv_wallet_user := user, au_user := user, au_lastActiveAt := now\<rparr>"

definition setBiometricEnabled :: "bool \<Rightarrow> wallet_app \<Rightarrow> wallet_app" where
  "setBiometricEnabled enabled s = s\<lparr>kv_biometric := Some (if enabled then ''true'' else ''false''), au_biometricEnabled := enabled\<rparr>"

text \<open>The answer to a PIN: refused, or accepted with the tokens it may carry.\<close>

definition wallet_verifyPin :: "int \<Rightarrow> (string option \<times> string option) option \<Rightarrow> wallet_app \<Rightarrow> bool \<times> wallet_app" where
  "wallet_verifyPin now answer s = (case answer of
      None \<Rightarrow> (False, s)
    | Some (accessToken, refreshToken) \<Rightarrow> (True, if given accessToken \<noteq> None then setToken now accessToken refreshToken s else s))"

definition unlockWithPin :: "int \<Rightarrow> (string option \<times> string option) option \<Rightarrow> wallet_app \<Rightarrow> bool \<times> wallet_app" where
  "unlockWithPin now answer s = (case wallet_verifyPin now answer s of
      (False, s1) \<Rightarrow> (False, s1)
    | (True, s1) \<Rightarrow> (True, s1\<lparr>kv_session_locked := None, au_needsPinVerification := False, au_lastActiveAt := now, au_isAuthenticated := True\<rparr>))"

record session_answer =
  sn_accessToken :: "string option"
  sn_refreshToken :: "string option"
  sn_user :: "wallet_user option"
  sn_regToken :: "string option"

definition refreshSession :: "int \<Rightarrow> (string \<Rightarrow> session_answer option) \<Rightarrow> wallet_app \<Rightarrow> bool \<times> wallet_app" where
  "refreshSession now answer s = (case given (au_refreshToken s) of
      None \<Rightarrow> (False, s)
    | Some r \<Rightarrow> (case answer r of
         None \<Rightarrow> (False, s)
       | Some a \<Rightarrow>
           let s1 = setToken now (sn_accessToken a) (sn_refreshToken a) s;
               s2 = (case sn_user a of None \<Rightarrow> s1 | Some u \<Rightarrow> setUser now (Some u) s1)
           in (True, if given (sn_regToken a) \<noteq> None then setRegToken (sn_regToken a) s2 else s2)))"

definition lockSession :: "int \<Rightarrow> wallet_app \<Rightarrow> wallet_app" where
  "lockSession now s = s\<lparr>kv_session_locked := Some ''true'', au_needsPinVerification := True, au_lastActiveAt := now\<rparr>"

definition updateActivity :: "int \<Rightarrow> wallet_app \<Rightarrow> wallet_app" where
  "updateActivity now s = s\<lparr>au_lastActiveAt := now\<rparr>"

definition initialize_session :: "bool \<Rightarrow> wallet_app \<Rightarrow> wallet_app" where
  "initialize_session isWeb s =
     (let token = given (kv_auth_token s); refreshToken = given (kv_refresh_token s); biometric = kv_biometric s = Some ''true'';
          locked = kv_session_locked s = Some ''true''; s1 = s\<lparr>au_isLoading := False, au_biometricEnabled := biometric\<rparr>
      in if token \<noteq> None \<and> kv_wallet_user s \<noteq> None
         then s1\<lparr>au_token := kv_auth_token s, au_refreshToken := kv_refresh_token s, au_user := kv_wallet_user s, au_isAuthenticated := \<not> locked,
                 au_hasSession := True, au_needsPinVerification := locked\<rparr>
         else if refreshToken \<noteq> None \<and> kv_wallet_user s \<noteq> None
         then s1\<lparr>au_refreshToken := kv_refresh_token s, au_user := kv_wallet_user s, au_hasSession := True, au_needsPinVerification := True, au_isAuthenticated := False\<rparr>
         else (if (token \<noteq> None \<or> refreshToken \<noteq> None) \<and> \<not> isWeb then s1\<lparr>kv_auth_token := None, kv_refresh_token := None\<rparr> else s1)
                \<lparr>au_hasSession := False, au_token := None, au_refreshToken := None, au_needsPinVerification := False\<rparr>)"

definition wallet_logout :: "wallet_app \<Rightarrow> wallet_app" where
  "wallet_logout s = (reset_registration s)\<lparr>kv_auth_token := None, kv_refresh_token := None, au_token := None, au_refreshToken := None,
     au_isAuthenticated := False, au_hasSession := False, au_needsPinVerification := False, au_user := None\<rparr>"

section \<open>The lock\<close>

definition LOCK_TIMEOUT_MS :: int where
  "LOCK_TIMEOUT_MS = 60000"

definition completed :: "wallet_app \<Rightarrow> bool" where
  "completed s \<longleftrightarrow> (case au_user s of Some u \<Rightarrow> wu_registrationState u = Some RegCompleted | None \<Rightarrow> False)"

definition app_changes :: "int \<Rightarrow> app_state \<Rightarrow> wallet_app \<Rightarrow> wallet_app" where
  "app_changes now next s =
     (if ap_state s \<noteq> AppActive \<and> next = AppActive
      then (if au_isAuthenticated s \<and> \<not> au_needsPinVerification s \<and> LOCK_TIMEOUT_MS < now - au_lastActiveAt s \<and> completed s
            then lockSession now s else updateActivity now s)
      else if next \<noteq> AppActive then updateActivity now s
      else s)\<lparr>ap_state := next\<rparr>"

section \<open>The guard\<close>

datatype guard_action = Stay | Replace string | Restart string

text \<open>The two leading segments of the route, as far as there are any.\<close>

definition route_guard :: "wallet_app \<Rightarrow> string list \<Rightarrow> guard_action" where
  "route_guard s segments =
     (let first = (if segments = [] then None else Some (hd segments)); second = (if length segments < 2 then None else Some (segments ! 1));
          isAuthGroup = first = Some ''(auth)'' in
      if \<not> au_isAuthenticated s \<and> \<not> au_needsPinVerification s
      then (if \<not> isAuthGroup \<or> second \<notin> {Some ''login'', Some ''onboarding''} then Replace ''/(auth)/login'' else Stay)
      else case au_user s of
        Some u \<Rightarrow>
          if au_needsPinVerification s then Stay
          else if \<not> (wu_registrationState u = Some RegCompleted \<or> wu_status u \<in> {Some PendingApproval, Some UserActive})
          then (if second \<noteq> Some ''onboarding'' then Replace ''/(auth)/onboarding'' else Stay)
          else (case wu_status u of
              Some UserActive \<Rightarrow> if isAuthGroup then Replace ''/(tabs)'' else Stay
            | Some PendingApproval \<Rightarrow> if \<not> isAuthGroup \<or> second \<noteq> Some ''pending-approval'' then Replace ''/(auth)/pending-approval'' else Stay
            | Some UserDeleted \<Rightarrow> Restart ''/(auth)/login''
            | None \<Rightarrow> Stay
            | _ \<Rightarrow> if \<not> isAuthGroup \<or> second \<noteq> Some ''account-restricted'' then Replace ''/(auth)/account-restricted'' else Stay)
      | None \<Rightarrow> Stay)"

text \<open>The overlay that asks for the PIN; the login screen asks on its own.\<close>

definition pin_overlay :: "wallet_app \<Rightarrow> string list \<Rightarrow> bool" where
  "pin_overlay s segments \<longleftrightarrow> au_needsPinVerification s \<and> \<not> (2 \<le> length segments \<and> segments ! 1 = ''login'')"

section \<open>The id of the device\<close>

text \<open>The 32-bit operators of JavaScript: \<open>hash << 5\<close> and \<open>hash & hash\<close> go through \<open>ToInt32\<close>.\<close>

definition ToInt32 :: "int \<Rightarrow> int" where
  "ToInt32 n = (let m = n mod 2 ^ 32 in if m < 2 ^ 31 then m else m - 2 ^ 32)"

definition hash_char :: "int \<Rightarrow> char \<Rightarrow> int" where
  "hash_char hash c = ToInt32 (ToInt32 (hash * 2 ^ 5) - hash + of_char c)"

definition fingerprint_hash :: "string \<Rightarrow> int" where
  "fingerprint_hash raw = foldl hash_char 0 raw"

fun base36 :: "nat \<Rightarrow> string" where
  "base36 n = (let d = n mod 36; c = (if d < 10 then char_of (48 + d) else char_of (87 + d)) in if n < 36 then [c] else base36 (n div 36) @ [c])"

declare base36.simps [simp del]

fun joined :: "string list \<Rightarrow> string" where
  "joined [] = []"
| "joined [c] = c"
| "joined (c # d # cs) = c @ ''|'' @ joined (d # cs)"

definition generateDeviceFingerprint :: "string list \<Rightarrow> string" where
  "generateDeviceFingerprint components = ''fp_'' @ base36 (nat \<bar>fingerprint_hash (joined components)\<bar>)"

definition getStableDeviceId :: "string \<Rightarrow> string list \<Rightarrow> wallet_app \<Rightarrow> string \<times> wallet_app" where
  "getStableDeviceId uuid components s = (case given (kv_device_id s) of
      Some i \<Rightarrow> (i, s)
    | None \<Rightarrow> let i = uuid @ '':'' @ generateDeviceFingerprint components in (i, s\<lparr>kv_device_id := Some i\<rparr>))"

end
