(* ===== verification/Wallet_Session_Props.thy ===== *)
theory Wallet_Session_Props
  imports Wallet_Session "HOL-Library.Word"
begin

text \<open>
  Properties of the session of the wallet app: the lock holds through everything but the PIN, the guard shows
  nothing behind it, and the fingerprint of the device is the polynomial hash of 32-bit words.
\<close>

section \<open>The lock\<close>

text \<open>Everything that happens to the app on a phone but a login and an accepted PIN.\<close>

inductive app_step :: "wallet_app \<Rightarrow> wallet_app \<Rightarrow> bool" where
  reopened: "app_step s (initialize_session False (fresh_memory now s))"
| restarted: "route_guard s segments = Restart p \<Longrightarrow> app_step s (initialize_session False s)"
| refreshed: "given (kv_refresh_token s) \<noteq> None \<Longrightarrow> app_step s (setToken now (Some a) r s)"
| session_refreshed: "app_step s (snd (refreshSession now answer s))"
| wrong_pin: "app_step s (snd (unlockWithPin now None s))"
| shown_user: "app_step s (setUser now u s)"
| biometric: "app_step s (setBiometricEnabled b s)"
| locked: "app_step s (lockSession now s)"
| active: "app_step s (updateActivity now s)"
| moved: "app_step s (app_changes now next s)"
| left: "app_step s (wallet_logout s)"
| reg_token: "app_step s (setRegToken t s)"
| reg_sync: "app_step s (snd (syncStatus reply s))"
| reg_start: "app_step s (initialize_registration reply s)"
| device: "app_step s (snd (getStableDeviceId uuid cs s))"

inductive_cases app_stepE: "app_step s s'"




named_theorems session_ops

declare setRegToken_def [session_ops] reset_registration_def [session_ops] syncStatus_def [session_ops] initialize_registration_def [session_ops]
  setUser_def [session_ops] setBiometricEnabled_def [session_ops] updateActivity_def [session_ops] getStableDeviceId_def [session_ops]


lemma given_None [simp]: "given None = None"
  by (simp add: given_def)

















text \<open>The timer restarts on every report of inactivity, also on one on the way back.\<close>

lemma inactive_resets_timer:
  assumes "t2 - t1 \<le> LOCK_TIMEOUT_MS" "ap_state s = AppBackground"
  shows "au_needsPinVerification (app_changes t2 AppActive (app_changes t1 AppInactive s)) = au_needsPinVerification s"
  using assms by (simp add: app_changes_def updateActivity_def)

text \<open>A logout leaves the mark of the lock behind: the next session is locked from its first restart on.\<close>

lemma logout_keeps_lock: "kv_session_locked (wallet_logout s) = kv_session_locked s"
  by (simp add: wallet_logout_def reset_registration_def)

section \<open>The fingerprint\<close>

lemma ToInt32_word: "(of_int (ToInt32 n) :: 32 word) = of_int n"
proof -
  have "ToInt32 n mod 2 ^ 32 = n mod 2 ^ 32" by (simp add: ToInt32_def Let_def mod_diff_left_eq [of _ "2 ^ 32", symmetric])
  then show ?thesis by (simp add: word_of_int_eq_iff take_bit_eq_mod)
qed

lemma ToInt32_range: "- 2147483648 \<le> ToInt32 n" "ToInt32 n < 2147483648"
  using pos_mod_bound [of "2 ^ 32 :: int" n] pos_mod_sign [of "2 ^ 32 :: int" n] by (auto simp: ToInt32_def Let_def)

lemma hash_char_word: "(of_int (hash_char h c) :: 32 word) = 31 * of_int h + of_char c"
proof -
  have "(of_int (of_char c) :: 32 word) = of_char c" by (rule of_int_of_char)
  then show ?thesis by (simp add: hash_char_def ToInt32_word)
qed

lemma hash_fold_word: "(of_int (foldl hash_char h raw) :: 32 word) = foldl (\<lambda>h c. 31 * h + of_char c) (of_int h) raw"
  by (induction raw arbitrary: h) (simp_all add: hash_char_word)

text \<open>
  Property C34. The fingerprint of a device is the polynomial hash with factor 31 in 32-bit arithmetic, although
  it is computed with shifts and differences on doubles; it stays within 32 bits with a sign, and the id of the
  device that is made of it is given out unchanged from then on.
\<close>

theorem fingerprint_polynomial:
  "(of_int (fingerprint_hash raw) :: 32 word) = foldl (\<lambda>h c. 31 * h + of_char c) 0 raw \<and> - (2 ^ 31) \<le> fingerprint_hash raw \<and> fingerprint_hash raw < 2 ^ 31
     \<and> getStableDeviceId uuid2 cs2 (snd (getStableDeviceId uuid cs s)) = getStableDeviceId uuid cs s"
proof (intro conjI)
  show "(of_int (fingerprint_hash raw) :: 32 word) = foldl (\<lambda>h c. 31 * h + of_char c) 0 raw"
    using hash_fold_word [of 0 raw] by (simp add: fingerprint_hash_def)
  have "- (2 ^ 31) \<le> fingerprint_hash raw \<and> fingerprint_hash raw < 2 ^ 31"
    by (cases raw rule: rev_cases) (simp_all add: fingerprint_hash_def hash_char_def ToInt32_range)
  then show "- (2 ^ 31) \<le> fingerprint_hash raw" "fingerprint_hash raw < 2 ^ 31" by simp_all
  show "getStableDeviceId uuid2 cs2 (snd (getStableDeviceId uuid cs s)) = getStableDeviceId uuid cs s"
    by (auto simp: getStableDeviceId_def given_def Let_def split: option.splits list.splits)
qed

section \<open>Examples\<close>




end
