(* ===== verification/Wallet_Requests.thy ===== *)
theory Wallet_Requests
  imports Wallet_Session
begin

text \<open>
  The requests of the wallet app (\<open>wallet-app/src/lib/axios.ts\<close>): the response interceptor that refreshes the
  tokens when a request is refused with 401. Requests overlap, so the interceptor is a step relation: each
  request is in a phase between two \<open>await\<close>s, and the flag \<open>isRefreshing\<close>, the list of those who wait
  (\<open>refreshSubscribers\<close>) and the tokens on the device are shared. \<open>works\<close> says whether the secure storage
  works; where it does not, a deletion may throw.
\<close>

section \<open>State\<close>

datatype phase =
    Flying              \<comment> \<open>sent, no response yet\<close>
  | ReadingToken        \<comment> \<open>refused; \<open>readRefreshToken\<close> is under way\<close>
  | HasToken "string option" \<comment> \<open>the refresh token was read\<close>
  | Queued              \<comment> \<open>its callback is in \<open>refreshSubscribers\<close>\<close>
  | Refreshing string   \<comment> \<open>the refresh request is under way\<close>
  | Storing string "string option" \<comment> \<open>new tokens are being written\<close>
  | RefreshFailed       \<comment> \<open>logging out in the handler of the error\<close>
  | NoToken             \<comment> \<open>logging out because there is nothing to refresh with\<close>
  | Resolved
  | Rejected

record api_request =
  rq_url :: string
  rq_authorization :: "string option"
  rq_retry :: bool
  rq_phase :: phase

record client =
  requests :: "(nat \<times> api_request) list"
  isRefreshing :: bool
  refreshSubscribers :: "nat list"
  cl_auth_token :: "string option"
  cl_refresh_token :: "string option"
  cl_isAuthenticated :: bool

definition isAuthEndpoint :: "string \<Rightarrow> bool" where
  "isAuthEndpoint url \<longleftrightarrow> list_ex (\<lambda>p. contains p url) [''/identity/login'', ''/identity/register'', ''/identity/verify-otp'', ''/identity/device/verify'']"

definition find_request :: "nat \<Rightarrow> client \<Rightarrow> api_request option" where
  "find_request i s = map_of (requests s) i"

definition set_request :: "nat \<Rightarrow> (api_request \<Rightarrow> api_request) \<Rightarrow> client \<Rightarrow> client" where
  "set_request i f s = s\<lparr>requests := map (\<lambda>(k, r). (k, if k = i then f r else r)) (requests s)\<rparr>"

definition to_phase :: "phase \<Rightarrow> api_request \<Rightarrow> api_request" where
  "to_phase p r = r\<lparr>rq_phase := p\<rparr>"

text \<open>The request interceptor: the stored token, unless the request carries one.\<close>

definition attach_token :: "string option \<Rightarrow> api_request \<Rightarrow> api_request" where
  "attach_token token r = (case rq_authorization r of
      Some _ \<Rightarrow> r | None \<Rightarrow> r\<lparr>rq_authorization := given token\<rparr>)"

section \<open>The turns of the interceptor\<close>

definition send_request :: "nat \<Rightarrow> string \<Rightarrow> client \<Rightarrow> client" where
  "send_request i url s = s\<lparr>requests := requests s @ [(i, attach_token (cl_auth_token s) \<lparr>rq_url = url, rq_authorization = None, rq_retry = False, rq_phase = Flying\<rparr>)]\<rparr>"

text \<open>A response: success, another error, or a 401, which is taken up once and not for the routes of a login.\<close>

definition on_response :: "nat \<Rightarrow> nat option \<Rightarrow> client \<Rightarrow> client" where
  "on_response i status s = set_request i (\<lambda>r.
     if (case status of Some n \<Rightarrow> 200 \<le> n \<and> n < 300 | None \<Rightarrow> False) then to_phase Resolved r
     else if status = Some 401 \<and> \<not> rq_retry r \<and> \<not> isAuthEndpoint (rq_url r) then (to_phase ReadingToken r)\<lparr>rq_retry := True\<rparr>
     else to_phase Rejected r) s"

definition on_token :: "nat \<Rightarrow> client \<Rightarrow> client" where
  "on_token i s = set_request i (to_phase (HasToken (cl_refresh_token s))) s"

text \<open>
  The token was read. With a token, the rest of the handler is one \<open>try\<close> with a \<open>finally\<close> that clears the flag.
  Who finds a refresh under way leaves the \<open>try\<close> by returning the promise that waits, so \<open>finally\<close> runs at
  once: the flag is cleared although the refresh goes on.
\<close>

definition on_checked :: "nat \<Rightarrow> string option \<Rightarrow> client \<Rightarrow> client" where
  "on_checked i token s = (case given token of
      None \<Rightarrow> set_request i (to_phase (if cl_isAuthenticated s then NoToken else Rejected)) s
    | Some t \<Rightarrow> if isRefreshing s then (set_request i (to_phase Queued) s)\<lparr>refreshSubscribers := refreshSubscribers s @ [i], isRefreshing := False\<rparr>
                else (set_request i (to_phase (Refreshing t)) s)\<lparr>isRefreshing := True\<rparr>)"

text \<open>The callbacks of those who wait: the request is sent again with the token they are given.\<close>

definition resend :: "string \<Rightarrow> api_request \<Rightarrow> api_request" where
  "resend token r = r\<lparr>rq_authorization := Some token, rq_phase := Flying\<rparr>"

definition flush :: "string \<Rightarrow> client \<Rightarrow> client" where
  "flush token s = (fold (\<lambda>i. set_request i (resend token)) (refreshSubscribers s) s)\<lparr>refreshSubscribers := []\<rparr>"

definition on_refreshed :: "nat \<Rightarrow> string \<Rightarrow> string option \<Rightarrow> client \<Rightarrow> client" where
  "on_refreshed i access fresh = set_request i (to_phase (Storing access fresh))"

definition on_stored :: "nat \<Rightarrow> string \<Rightarrow> string option \<Rightarrow> client \<Rightarrow> client" where
  "on_stored i access fresh s =
     (let s1 = s\<lparr>cl_auth_token := Some access, cl_refresh_token := (case given fresh of None \<Rightarrow> cl_refresh_token s | Some t \<Rightarrow> Some t), cl_isAuthenticated := True\<rparr>
      in (set_request i (resend access) (flush access s1))\<lparr>isRefreshing := False\<rparr>)"

text \<open>The end of the error handler: everybody who waits is sent again with an empty token.\<close>

definition end_failed :: "nat \<Rightarrow> client \<Rightarrow> client" where
  "end_failed i s = (set_request i (to_phase Rejected) (flush [] s))\<lparr>isRefreshing := False\<rparr>"

definition on_refresh_error :: "nat \<Rightarrow> client \<Rightarrow> client" where
  "on_refresh_error i s = (if cl_isAuthenticated s then set_request i (to_phase RefreshFailed) s else end_failed i s)"

definition clear_session :: "client \<Rightarrow> client" where
  "clear_session s = s\<lparr>cl_auth_token := None, cl_refresh_token := None, cl_isAuthenticated := False\<rparr>"

definition on_logged_out :: "nat \<Rightarrow> client \<Rightarrow> client" where
  "on_logged_out i s = end_failed i (clear_session s)"

definition on_nothing_left :: "nat \<Rightarrow> client \<Rightarrow> client" where
  "on_nothing_left i s = set_request i (to_phase Rejected) (clear_session s)"

text \<open>A deletion that throws leaves the handler at once; only \<open>finally\<close> is run.\<close>

definition on_logout_throws :: "nat \<Rightarrow> client \<Rightarrow> client" where
  "on_logout_throws i s = (set_request i (to_phase Rejected) s)\<lparr>isRefreshing := False\<rparr>"

definition phase_of :: "nat \<Rightarrow> client \<Rightarrow> phase option" where
  "phase_of i s = map_option rq_phase (find_request i s)"

text \<open>One turn of the event loop for a request that is under way.\<close>

inductive api_turn :: "bool \<Rightarrow> client \<Rightarrow> client \<Rightarrow> bool" for works where
  response: "phase_of i s = Some Flying \<Longrightarrow> api_turn works s (on_response i status s)"
| token_read: "phase_of i s = Some ReadingToken \<Longrightarrow> api_turn works s (on_token i s)"
| token_checked: "phase_of i s = Some (HasToken t) \<Longrightarrow> api_turn works s (on_checked i t s)"
| refreshed: "phase_of i s = Some (Refreshing t) \<Longrightarrow> api_turn works s (on_refreshed i access fresh s)"
| refresh_error: "phase_of i s = Some (Refreshing t) \<Longrightarrow> api_turn works s (on_refresh_error i s)"
| stored: "phase_of i s = Some (Storing access fresh) \<Longrightarrow> api_turn works s (on_stored i access fresh s)"
| store_error: "phase_of i s = Some (Storing access fresh) \<Longrightarrow> \<not> works \<Longrightarrow> api_turn works s (on_refresh_error i s)"
| logged_out: "phase_of i s = Some RefreshFailed \<Longrightarrow> api_turn works s (on_logged_out i s)"
| logout_throws: "phase_of i s = Some RefreshFailed \<Longrightarrow> \<not> works \<Longrightarrow> api_turn works s (on_logout_throws i s)"
| nothing_left: "phase_of i s = Some NoToken \<Longrightarrow> api_turn works s (on_nothing_left i s)"

text \<open>A step of the client: a turn, or a new request.\<close>

inductive api_step :: "bool \<Rightarrow> client \<Rightarrow> client \<Rightarrow> bool" for works where
  turn: "api_turn works s s' \<Longrightarrow> api_step works s s'"
| sent: "find_request i s = None \<Longrightarrow> api_step works s (send_request i url s)"

definition idle_client :: "string option \<Rightarrow> string option \<Rightarrow> bool \<Rightarrow> client" where
  "idle_client a r b = \<lparr>requests = [], isRefreshing = False, refreshSubscribers = [], cl_auth_token = a, cl_refresh_token = r, cl_isAuthenticated = b\<rparr>"

end
