(* ===== verification/Wallet_Requests_Props.thy ===== *)
theory Wallet_Requests_Props
  imports Wallet_Requests
begin

text \<open>
  Properties of the requests of the wallet app. Every request is answered after finitely many turns, as long as
  the secure storage works: those who wait are exactly those in the list, and while anybody waits some refresh is
  under way. That at most one refresh runs does not hold: a request that queues clears the flag.
\<close>

section \<open>Lookups\<close>

lemma map_of_change: "map_of (map (\<lambda>(k, r). (k, if k = i then f r else r)) xs) j = map_option (if j = i then f else (\<lambda>r. r)) (map_of xs j)"
  by (induction xs) auto

lemma find_set_request: "find_request j (set_request i f s) = map_option (if j = i then f else (\<lambda>r. r)) (find_request j s)"
  by (simp add: find_request_def set_request_def map_of_change)

lemma set_request_fields [simp]:
  "isRefreshing (set_request i f s) = isRefreshing s" "refreshSubscribers (set_request i f s) = refreshSubscribers s"
  "cl_auth_token (set_request i f s) = cl_auth_token s" "cl_refresh_token (set_request i f s) = cl_refresh_token s"
  "cl_isAuthenticated (set_request i f s) = cl_isAuthenticated s" "map fst (requests (set_request i f s)) = map fst (requests s)"
  by (simp_all add: set_request_def o_def case_prod_beta)

lemma find_update [simp]:
  "find_request j (s\<lparr>isRefreshing := b\<rparr>) = find_request j s" "find_request j (s\<lparr>refreshSubscribers := q\<rparr>) = find_request j s"
  "find_request j (s\<lparr>cl_auth_token := t\<rparr>) = find_request j s" "find_request j (s\<lparr>cl_refresh_token := t\<rparr>) = find_request j s"
  "find_request j (s\<lparr>cl_isAuthenticated := b\<rparr>) = find_request j s"
  by (simp_all add: find_request_def)

lemma resend_twice: "resend t (resend t r) = resend t r"
  by (simp add: resend_def)

lemma find_fold_resend:
  "find_request j (fold (\<lambda>i. set_request i (resend t)) is s) = map_option (if j \<in> set is then resend t else (\<lambda>r. r)) (find_request j s)"
  by (induction "is" arbitrary: s) (auto simp: find_set_request option.map_comp option.map_ident o_def resend_twice)

lemma fold_resend_fields [simp]:
  "isRefreshing (fold (\<lambda>i. set_request i (resend t)) is s) = isRefreshing s" "map fst (requests (fold (\<lambda>i. set_request i (resend t)) is s)) = map fst (requests s)"
  by (induction "is" arbitrary: s) simp_all

lemma find_flush: "find_request j (flush t s) = map_option (if j \<in> set (refreshSubscribers s) then resend t else (\<lambda>r. r)) (find_request j s)"
  by (simp add: flush_def find_fold_resend)

lemma flush_fields [simp]:
  "isRefreshing (flush t s) = isRefreshing s" "refreshSubscribers (flush t s) = []" "map fst (requests (flush t s)) = map fst (requests s)"
  by (simp_all add: flush_def)

section \<open>The invariant\<close>

definition busy :: "phase \<Rightarrow> bool" where
  "busy p \<longleftrightarrow> (case p of Refreshing t \<Rightarrow> True | Storing a f \<Rightarrow> True | RefreshFailed \<Rightarrow> True | _ \<Rightarrow> False)"

definition client_ok :: "client \<Rightarrow> bool" where
  "client_ok s \<longleftrightarrow> distinct (map fst (requests s)) \<and> distinct (refreshSubscribers s)
     \<and> (\<forall>i. i \<in> set (refreshSubscribers s) \<longleftrightarrow> phase_of i s = Some Queued)
     \<and> (isRefreshing s \<or> refreshSubscribers s \<noteq> [] \<longrightarrow> (\<exists>i p. phase_of i s = Some p \<and> busy p))
     \<and> (\<forall>i r. find_request i s = Some r \<and> rq_phase r \<notin> {Flying, Resolved, Rejected} \<longrightarrow> rq_retry r)"

text \<open>A turn that moves one request between phases that are neither waiting nor refreshing.\<close>

definition idle :: "phase \<Rightarrow> bool" where
  "idle p \<longleftrightarrow> p \<noteq> Queued \<and> \<not> busy p"

lemma idle_simps [simp]:
  "idle Flying" "idle ReadingToken" "idle (HasToken t)" "idle NoToken" "idle Resolved" "idle Rejected" "\<not> idle Queued"
  "\<not> idle (Refreshing x)" "\<not> idle (Storing a f)" "\<not> idle RefreshFailed"
  by (simp_all add: idle_def busy_def)

lemma busy_simps [simp]:
  "busy (Refreshing x)" "busy (Storing a f)" "busy RefreshFailed" "\<not> busy Flying" "\<not> busy ReadingToken" "\<not> busy (HasToken t)"
  "\<not> busy NoToken" "\<not> busy Resolved" "\<not> busy Rejected" "\<not> busy Queued"
  by (simp_all add: busy_def)

lemma phase_of_set_request: "phase_of j (set_request i f s) = (if j = i then map_option (\<lambda>r. rq_phase (f r)) (find_request i s) else phase_of j s)"
  by (simp add: phase_of_def find_set_request option.map_comp o_def)

lemma phase_of_update [simp]:
  "phase_of j (s\<lparr>isRefreshing := b\<rparr>) = phase_of j s" "phase_of j (s\<lparr>refreshSubscribers := q\<rparr>) = phase_of j s"
  by (simp_all add: phase_of_def)

lemma client_ok_tokens:
  "client_ok (s\<lparr>cl_auth_token := t, cl_refresh_token := u, cl_isAuthenticated := b\<rparr>) = client_ok s"
  by (simp add: client_ok_def phase_of_def)

lemma client_okD:
  assumes "client_ok s"
  shows "distinct (map fst (requests s))" "distinct (refreshSubscribers s)" "i \<in> set (refreshSubscribers s) \<longleftrightarrow> phase_of i s = Some Queued"
    "isRefreshing s \<or> refreshSubscribers s \<noteq> [] \<Longrightarrow> \<exists>i p. phase_of i s = Some p \<and> busy p"
    "find_request i s = Some r \<Longrightarrow> rq_phase r \<notin> {Flying, Resolved, Rejected} \<Longrightarrow> rq_retry r"
  using assms unfolding client_ok_def by blast+

lemma phase_find: "phase_of i s = Some p \<Longrightarrow> \<exists>r. find_request i s = Some r \<and> rq_phase r = p"
  by (auto simp: phase_of_def)

lemma ok_move:
  assumes ok: "client_ok s" and r: "find_request i s = Some r" and b: "busy (rq_phase (f r)) = busy (rq_phase r)"
    and q: "rq_phase r \<noteq> Queued" "rq_phase (f r) \<noteq> Queued" and retry: "rq_phase (f r) \<in> {Flying, Resolved, Rejected} \<or> rq_retry (f r)"
  shows "client_ok (set_request i f s)"
proof -
  let ?s = "set_request i f s"
  have p: "phase_of j ?s = (if j = i then Some (rq_phase (f r)) else phase_of j s)" for j
    by (simp add: phase_of_set_request r)
  have pi: "phase_of i s = Some (rq_phase r)" using r by (simp add: phase_of_def)
  have B: "(\<exists>x. phase_of j ?s = Some x \<and> busy x) \<longleftrightarrow> (\<exists>x. phase_of j s = Some x \<and> busy x)" for j
    using b pi by (cases "j = i") (auto simp: p)
  show ?thesis unfolding client_ok_def
  proof (intro conjI allI impI)
    show "distinct (map fst (requests ?s))" "distinct (refreshSubscribers ?s)" using client_okD(1,2) [OF ok] by simp_all
    show "j \<in> set (refreshSubscribers ?s) \<longleftrightarrow> phase_of j ?s = Some Queued" for j
      using client_okD(3) [OF ok, of j] q pi by (auto simp: p)
    show "\<exists>j x. phase_of j ?s = Some x \<and> busy x" if "isRefreshing ?s \<or> refreshSubscribers ?s \<noteq> []"
      using client_okD(4) [OF ok] that by (simp add: B)
    show "rq_retry x" if "find_request j ?s = Some x \<and> rq_phase x \<notin> {Flying, Resolved, Rejected}" for j x
      using that client_okD(5) [OF ok, of j] retry r by (auto simp: find_set_request split: if_splits)
  qed
qed

lemma ok_queue:
  assumes ok: "client_ok s" and r: "find_request i s = Some r" "rq_phase r = HasToken t" and "isRefreshing s"
  shows "client_ok ((set_request i (to_phase Queued) s)\<lparr>refreshSubscribers := refreshSubscribers s @ [i], isRefreshing := False\<rparr>)" (is "client_ok ?s")
proof -
  have p: "phase_of j (set_request i (to_phase Queued) s) = (if j = i then Some Queued else phase_of j s)" for j by (simp add: phase_of_set_request r to_phase_def)
  have pi: "phase_of i s = Some (HasToken t)" using r by (simp add: phase_of_def)
  have B: "(\<exists>x. phase_of j ?s = Some x \<and> busy x) \<longleftrightarrow> (\<exists>x. phase_of j s = Some x \<and> busy x)" for j
    using pi by (cases "j = i") (auto simp: p)
  show ?thesis unfolding client_ok_def
  proof (intro conjI allI impI)
    show "distinct (map fst (requests ?s))" using client_okD(1) [OF ok] by simp
    show "distinct (refreshSubscribers ?s)" using client_okD(2) [OF ok] client_okD(3) [OF ok, of i] pi by simp
    show "j \<in> set (refreshSubscribers ?s) \<longleftrightarrow> phase_of j ?s = Some Queued" for j
      using client_okD(3) [OF ok, of j] by (auto simp: p)
    show "\<exists>j x. phase_of j ?s = Some x \<and> busy x" using client_okD(4) [OF ok] assms(4) by (simp only: B) blast
    show "rq_retry x" if "find_request j ?s = Some x \<and> rq_phase x \<notin> {Flying, Resolved, Rejected}" for j x
      using that client_okD(5) [OF ok, of j] r by (auto simp: find_set_request to_phase_def split: if_splits)
  qed
qed

lemma ok_begin:
  assumes ok: "client_ok s" and r: "find_request i s = Some r" "rq_phase r = HasToken t"
  shows "client_ok ((set_request i (to_phase (Refreshing x)) s)\<lparr>isRefreshing := True\<rparr>)" (is "client_ok ?s")
proof -
  have p: "phase_of j (set_request i (to_phase (Refreshing x)) s) = (if j = i then Some (Refreshing x) else phase_of j s)" for j by (simp add: phase_of_set_request r to_phase_def)
  have pi: "phase_of i s = Some (HasToken t)" using r by (simp add: phase_of_def)
  show ?thesis unfolding client_ok_def
  proof (intro conjI allI impI)
    show "distinct (map fst (requests ?s))" "distinct (refreshSubscribers ?s)" using client_okD(1,2) [OF ok] by simp_all
    show "j \<in> set (refreshSubscribers ?s) \<longleftrightarrow> phase_of j ?s = Some Queued" for j
      using client_okD(3) [OF ok, of j] pi by (auto simp: p)
    show "\<exists>j y. phase_of j ?s = Some y \<and> busy y" by (intro exI [of _ i] exI [of _ "Refreshing x"]) (simp add: p)
    show "rq_retry y" if "find_request j ?s = Some y \<and> rq_phase y \<notin> {Flying, Resolved, Rejected}" for j y
      using that client_okD(5) [OF ok, of j] r by (auto simp: find_set_request to_phase_def split: if_splits)
  qed
qed

text \<open>The end of a refresh: everybody in the list is sent again, and the one that refreshed goes on.\<close>

lemma ok_end:
  assumes ok: "client_ok s" and r: "find_request i s = Some r" "busy (rq_phase r)" and f: "\<And>r. rq_phase (f r) \<in> {Flying, Rejected}"
  shows "client_ok ((set_request i f (flush t s))\<lparr>isRefreshing := False\<rparr>)" (is "client_ok ?s")
proof -
  have pi: "phase_of i s = Some (rq_phase r)" using r by (simp add: phase_of_def)
  have out: "i \<notin> set (refreshSubscribers s)" using client_okD(3) [OF ok, of i] pi r(2) by (auto simp: busy_def)
  have F: "find_request j (set_request i f (flush t s)) = map_option (if j = i then f else if j \<in> set (refreshSubscribers s) then resend t else (\<lambda>r. r)) (find_request j s)" for j
    using out by (auto simp: find_set_request find_flush option.map_comp o_def option.map_ident)
  have free: "x \<noteq> Queued" if h: "phase_of j ?s = Some x" for j x
  proof -
    obtain y where y: "find_request j s = Some y" using h F [of j] by (auto simp: phase_of_def)
    have ps: "phase_of j s = Some (rq_phase y)" using y by (simp add: phase_of_def)
    consider "j = i" | "j \<noteq> i" "j \<in> set (refreshSubscribers s)" | "j \<noteq> i" "j \<notin> set (refreshSubscribers s)" by blast
    then show ?thesis
    proof cases
      case 1
      then show ?thesis using h F [of j] y f [of y] by (auto simp: phase_of_def busy_def)
    next
      case 2
      then show ?thesis using h F [of j] y by (auto simp: phase_of_def resend_def busy_def)
    next
      case 3
      then have "x = rq_phase y" using h F [of j] y by (simp add: phase_of_def)
      moreover have "rq_phase y \<noteq> Queued" using client_okD(3) [OF ok, of j] 3(2) ps by simp
      ultimately show ?thesis by simp
    qed
  qed
  show ?thesis unfolding client_ok_def
  proof (intro conjI allI impI)
    show "distinct (map fst (requests ?s))" "distinct (refreshSubscribers ?s)" using client_okD(1) [OF ok] by simp_all
    show "j \<in> set (refreshSubscribers ?s) \<longleftrightarrow> phase_of j ?s = Some Queued" for j using free [of j] by auto
    show "\<exists>j y. phase_of j ?s = Some y \<and> busy y" if "isRefreshing ?s \<or> refreshSubscribers ?s \<noteq> []" using that by simp
    show "rq_retry y" if "find_request j ?s = Some y \<and> rq_phase y \<notin> {Flying, Resolved, Rejected}" for j y
      using that client_okD(5) [OF ok, of j] f by (auto simp: F resend_def split: if_splits)
  qed
qed

lemma to_phase_simps [simp]: "rq_phase (to_phase p r) = p" "rq_retry (to_phase p r) = rq_retry r" "rq_url (to_phase p r) = rq_url r"
  by (simp_all add: to_phase_def)

lemma resend_simps [simp]: "rq_phase (resend t r) = Flying" "rq_retry (resend t r) = rq_retry r"
  by (simp_all add: resend_def)

lemma ok_turn:
  assumes "api_turn True s s'" and ok: "client_ok s"
  shows "client_ok s'"
  using assms(1)
proof cases
  case (response i status)
  then obtain r where r: "find_request i s = Some r" "rq_phase r = Flying" using phase_find by blast
  show ?thesis unfolding response(1) on_response_def by (rule ok_move [OF ok r(1)]) (auto simp: r(2))
next
  case (token_read i)
  then obtain r where r: "find_request i s = Some r" "rq_phase r = ReadingToken" using phase_find by blast
  show ?thesis unfolding token_read(1) on_token_def by (rule ok_move [OF ok r(1)]) (use client_okD(5) [OF ok r(1)] r(2) in auto)
next
  case (token_checked i t)
  then obtain r where r: "find_request i s = Some r" "rq_phase r = HasToken t" using phase_find by blast
  show ?thesis
  proof (cases "given t")
    case None
    show ?thesis unfolding token_checked(1) on_checked_def None option.case
      by (rule ok_move [OF ok r(1)]) (use client_okD(5) [OF ok r(1)] r(2) in auto)
  next
    case (Some x)
    then show ?thesis using ok_queue [OF ok r] ok_begin [OF ok r] by (simp add: token_checked(1) on_checked_def)
  qed
next
  case (refreshed i t access fresh)
  then obtain r where r: "find_request i s = Some r" "rq_phase r = Refreshing t" using phase_find by blast
  show ?thesis unfolding refreshed(1) on_refreshed_def by (rule ok_move [OF ok r(1)]) (use client_okD(5) [OF ok r(1)] r(2) in auto)
next
  case (refresh_error i t)
  then obtain r where r: "find_request i s = Some r" "rq_phase r = Refreshing t" using phase_find by blast
  have "client_ok (set_request i (to_phase RefreshFailed) s)" by (rule ok_move [OF ok r(1)]) (use client_okD(5) [OF ok r(1)] r(2) in auto)
  moreover have "client_ok (end_failed i s)" unfolding end_failed_def by (rule ok_end [OF ok r(1)]) (simp_all add: r(2))
  ultimately show ?thesis by (simp add: refresh_error(1) on_refresh_error_def)
next
  case (stored i access fresh)
  then obtain r where r: "find_request i s = Some r" "rq_phase r = Storing access fresh" using phase_find by blast
  let ?t = "s\<lparr>cl_auth_token := Some access, cl_refresh_token := (case given fresh of None \<Rightarrow> cl_refresh_token s | Some t \<Rightarrow> Some t), cl_isAuthenticated := True\<rparr>"
  have "client_ok ?t" using ok by (simp add: client_ok_tokens)
  then show ?thesis unfolding stored(1) on_stored_def Let_def by (rule ok_end [of _ _ r]) (simp_all add: r)
next
  case (logged_out i)
  then obtain r where r: "find_request i s = Some r" "rq_phase r = RefreshFailed" using phase_find by blast
  have "client_ok (clear_session s)" using ok by (simp add: clear_session_def client_ok_tokens)
  then show ?thesis unfolding logged_out(1) on_logged_out_def end_failed_def by (rule ok_end [of _ _ r]) (simp_all add: r clear_session_def)
next
  case (nothing_left i)
  then obtain r where r: "find_request i s = Some r" "rq_phase r = NoToken" using phase_find by blast
  have "client_ok (clear_session s)" using ok by (simp add: clear_session_def client_ok_tokens)
  then show ?thesis unfolding nothing_left(1) on_nothing_left_def by (rule ok_move [of _ _ r]) (simp_all add: r clear_session_def)
qed simp_all

lemma ok_send:
  assumes ok: "client_ok s" and i: "find_request i s = None"
  shows "client_ok (send_request i url s)"
proof -
  let ?n = "attach_token (cl_auth_token s) \<lparr>rq_url = url, rq_authorization = None, rq_retry = False, rq_phase = Flying\<rparr>"
  have n: "rq_phase ?n = Flying" by (simp add: attach_token_def)
  have F: "find_request j (send_request i url s) = (if j = i then Some ?n else find_request j s)" for j
    using i by (auto simp: find_request_def send_request_def map_add_def split: option.splits)
  have p: "phase_of j (send_request i url s) = (if j = i then Some Flying else phase_of j s)" for j by (simp add: phase_of_def F n)
  have pi: "phase_of i s = None" using i by (simp add: phase_of_def)
  have flags: "isRefreshing (send_request i url s) = isRefreshing s" "refreshSubscribers (send_request i url s) = refreshSubscribers s" by (simp_all add: send_request_def)
  have B: "(\<exists>x. phase_of j (send_request i url s) = Some x \<and> busy x) \<longleftrightarrow> (\<exists>x. phase_of j s = Some x \<and> busy x)" for j
    using pi by (cases "j = i") (auto simp: p)
  show ?thesis unfolding client_ok_def flags
  proof (intro conjI allI impI)
    have "i \<notin> set (map fst (requests s))" using i by (simp add: find_request_def map_of_eq_None_iff)
    then show "distinct (map fst (requests (send_request i url s)))" using client_okD(1) [OF ok] by (simp add: send_request_def)
    show "distinct (refreshSubscribers s)" using client_okD(2) [OF ok] by simp
    show "j \<in> set (refreshSubscribers s) \<longleftrightarrow> phase_of j (send_request i url s) = Some Queued" for j using client_okD(3) [OF ok, of j] pi by (auto simp: p)
    show "\<exists>j x. phase_of j (send_request i url s) = Some x \<and> busy x" if "isRefreshing s \<or> refreshSubscribers s \<noteq> []"
      using client_okD(4) [OF ok] that by (simp add: B)
    show "rq_retry x" if "find_request j (send_request i url s) = Some x \<and> rq_phase x \<notin> {Flying, Resolved, Rejected}" for j x
      using that client_okD(5) [OF ok, of j] n by (auto simp: F split: if_splits)
  qed
qed

lemma ok_steps: "(api_step True)\<^sup>*\<^sup>* (idle_client a r b) s \<Longrightarrow> client_ok s"
proof (induction rule: rtranclp_induct)
  case base
  then show ?case by (simp add: client_ok_def idle_client_def phase_of_def find_request_def)
next
  case (step y z)
  then show ?case by (auto elim!: api_step.cases intro: ok_turn ok_send)
qed

section \<open>Every request is answered\<close>

definition weight :: "api_request \<Rightarrow> nat" where
  "weight r = (case rq_phase r of
      Flying \<Rightarrow> if rq_retry r then 1 else 8 | ReadingToken \<Rightarrow> 7 | HasToken t \<Rightarrow> 6 | Queued \<Rightarrow> 5 | Refreshing t \<Rightarrow> 5
    | Storing a f \<Rightarrow> 4 | RefreshFailed \<Rightarrow> 3 | NoToken \<Rightarrow> 2 | _ \<Rightarrow> 0)"

definition load :: "client \<Rightarrow> nat" where
  "load s = sum_list (map (weight \<circ> snd) (requests s))"

lemma weight_bound: "weight r \<le> 8"
  by (simp add: weight_def split: phase.splits)

lemma load_bound: "load s \<le> 8 * length (requests s)"
proof -
  have "sum_list (map (weight \<circ> snd) rs) \<le> 8 * length rs" for rs :: "(nat \<times> api_request) list"
    by (induction rs) (use weight_bound in \<open>auto intro: add_mono\<close>)
  then show ?thesis by (simp add: load_def)
qed

lemma load_sum:
  assumes "distinct (map fst (requests s))"
  shows "load s = (\<Sum>i\<in>set (map fst (requests s)). weight (the (find_request i s)))"
proof -
  have "map (weight \<circ> snd) (requests s) = map (\<lambda>i. weight (the (find_request i s))) (map fst (requests s))"
    using assms by (auto simp: find_request_def)
  then have "load s = sum_list (map (\<lambda>i. weight (the (find_request i s))) (map fst (requests s)))" by (simp only: load_def)
  then show ?thesis by (simp only: sum_list_distinct_conv_sum_set [OF assms])
qed

lemma load_less:
  assumes ok: "client_ok s" and keys: "map fst (requests s') = map fst (requests s)"
    and le: "\<And>j q. find_request j s = Some q \<Longrightarrow> \<exists>q'. find_request j s' = Some q' \<and> weight q' \<le> weight q"
    and i: "find_request i s = Some r" "find_request i s' = Some r'" "weight r' < weight r"
  shows "load s' < load s"
proof -
  let ?K = "set (map fst (requests s))"
  have d: "distinct (map fst (requests s))" using client_okD(1) [OF ok] .
  have "(\<Sum>j\<in>?K. weight (the (find_request j s'))) < (\<Sum>j\<in>?K. weight (the (find_request j s)))"
  proof (rule sum_strict_mono_ex1)
    show "\<forall>j\<in>?K. weight (the (find_request j s')) \<le> weight (the (find_request j s))"
    proof
      fix j
      assume "j \<in> ?K"
      then obtain q where q: "find_request j s = Some q" by (metis find_request_def list.set_map map_of_eq_None_iff not_None_eq)
      from le [OF q] q show "weight (the (find_request j s')) \<le> weight (the (find_request j s))" by auto
    qed
    have "i \<in> ?K" using i(1) by (metis find_request_def list.set_map map_of_eq_None_iff option.distinct(1))
    then show "\<exists>j\<in>?K. weight (the (find_request j s')) < weight (the (find_request j s))" using i by (intro bexI [of _ i]) simp_all
  qed simp
  moreover have "load s' = (\<Sum>j\<in>?K. weight (the (find_request j s')))" using load_sum [of s'] d unfolding keys by simp
  ultimately show ?thesis using load_sum [OF d] by simp
qed

lemma load_set:
  assumes "client_ok s" "find_request i s = Some r" "weight (f r) < weight r"
  shows "load (set_request i f s) < load s"
  by (rule load_less [OF assms(1) _ _ assms(2) _ assms(3)]) (use assms(2,3) in \<open>auto simp: find_set_request\<close>)

lemma load_update [simp]:
  "load (s\<lparr>isRefreshing := b\<rparr>) = load s" "load (s\<lparr>refreshSubscribers := q\<rparr>) = load s"
  "load (s\<lparr>cl_auth_token := t, cl_refresh_token := u, cl_isAuthenticated := b\<rparr>) = load s"
  by (simp_all add: load_def)

lemma load_end:
  assumes ok: "client_ok s" and r: "find_request i s = Some r" "busy (rq_phase r)" and f: "weight (f r) < weight r"
  shows "load (set_request i f (flush t s)) < load s"
proof (rule load_less [OF ok _ _ r(1) _ f])
  have pi: "phase_of i s = Some (rq_phase r)" using r by (simp add: phase_of_def)
  have out: "i \<notin> set (refreshSubscribers s)" using client_okD(3) [OF ok, of i] pi r(2) by (auto simp: busy_def)
  show "find_request i (set_request i f (flush t s)) = Some (f r)" using out r(1) by (simp add: find_set_request find_flush)
  show "\<exists>q'. find_request j (set_request i f (flush t s)) = Some q' \<and> weight q' \<le> weight q" if q: "find_request j s = Some q" for j q
  proof (cases "j = i")
    case True
    then show ?thesis using out q r(1) f by (simp add: find_set_request find_flush)
  next
    case False
    have "weight (resend t q) \<le> weight q" if "j \<in> set (refreshSubscribers s)"
    proof -
      have "rq_phase q = Queued" using client_okD(3) [OF ok, of j] that q by (simp add: phase_of_def)
      moreover from this have "rq_retry q" using client_okD(5) [OF ok q] by simp
      ultimately show ?thesis by (simp add: weight_def)
    qed
    then show ?thesis using False q by (simp add: find_set_request find_flush)
  qed
qed simp

lemma turn_lightens:
  assumes "api_turn True s s'" and ok: "client_ok s"
  shows "load s' < load s"
  using assms(1)
proof cases
  case (response i status)
  then obtain r where r: "find_request i s = Some r" "rq_phase r = Flying" using phase_find by blast
  show ?thesis unfolding response(1) on_response_def by (rule load_set [OF ok r(1)]) (simp add: weight_def r(2))
next
  case (token_read i)
  then obtain r where r: "find_request i s = Some r" "rq_phase r = ReadingToken" using phase_find by blast
  show ?thesis unfolding token_read(1) on_token_def by (rule load_set [OF ok r(1)]) (simp add: weight_def r(2))
next
  case (token_checked i t)
  then obtain r where r: "find_request i s = Some r" "rq_phase r = HasToken t" using phase_find by blast
  have "load (set_request i (to_phase p) s) < load s" if "p \<in> {NoToken, Rejected, Queued} \<or> (\<exists>x. p = Refreshing x)" for p
    by (rule load_set [OF ok r(1)]) (use that r(2) in \<open>auto simp: weight_def\<close>)
  then show ?thesis by (auto simp: token_checked(1) on_checked_def split: option.splits)
next
  case (refreshed i t access fresh)
  then obtain r where r: "find_request i s = Some r" "rq_phase r = Refreshing t" using phase_find by blast
  show ?thesis unfolding refreshed(1) on_refreshed_def by (rule load_set [OF ok r(1)]) (simp add: weight_def r(2))
next
  case (refresh_error i t)
  then obtain r where r: "find_request i s = Some r" "rq_phase r = Refreshing t" using phase_find by blast
  have "load (set_request i (to_phase RefreshFailed) s) < load s" by (rule load_set [OF ok r(1)]) (simp add: weight_def r(2))
  moreover have "load (set_request i (to_phase Rejected) (flush [] s)) < load s" by (rule load_end [OF ok r(1)]) (simp_all add: weight_def r(2))
  ultimately show ?thesis by (simp add: refresh_error(1) on_refresh_error_def end_failed_def)
next
  case (stored i access fresh)
  then obtain r where r: "find_request i s = Some r" "rq_phase r = Storing access fresh" using phase_find by blast
  let ?t = "s\<lparr>cl_auth_token := Some access, cl_refresh_token := (case given fresh of None \<Rightarrow> cl_refresh_token s | Some t \<Rightarrow> Some t), cl_isAuthenticated := True\<rparr>"
  have t: "client_ok ?t" "find_request i ?t = Some r" using ok r by (simp_all add: client_ok_tokens)
  have "rq_retry r" using client_okD(5) [OF ok r(1)] r(2) by simp
  then have "load (set_request i (resend access) (flush access ?t)) < load ?t" by (intro load_end [OF t]) (simp_all add: weight_def r(2))
  then show ?thesis by (simp add: stored(1) on_stored_def Let_def)
next
  case (logged_out i)
  then obtain r where r: "find_request i s = Some r" "rq_phase r = RefreshFailed" using phase_find by blast
  have t: "client_ok (clear_session s)" "find_request i (clear_session s) = Some r" using ok r by (simp_all add: clear_session_def client_ok_tokens)
  have "load (set_request i (to_phase Rejected) (flush [] (clear_session s))) < load (clear_session s)" by (rule load_end [OF t]) (simp_all add: weight_def r(2))
  then show ?thesis by (simp add: logged_out(1) on_logged_out_def end_failed_def clear_session_def)
next
  case (nothing_left i)
  then obtain r where r: "find_request i s = Some r" "rq_phase r = NoToken" using phase_find by blast
  have t: "client_ok (clear_session s)" "find_request i (clear_session s) = Some r" using ok r by (simp_all add: clear_session_def client_ok_tokens)
  have "load (set_request i (to_phase Rejected) (clear_session s)) < load (clear_session s)" by (rule load_set [OF t]) (simp add: weight_def r(2))
  then show ?thesis by (simp add: nothing_left(1) on_nothing_left_def clear_session_def)
qed simp_all

lemma turn_keys: "api_turn w s s' \<Longrightarrow> map fst (requests s') = map fst (requests s)"
  by (auto elim!: api_turn.cases simp: on_response_def on_token_def on_checked_def on_refreshed_def on_refresh_error_def on_stored_def
        on_logged_out_def on_logout_throws_def on_nothing_left_def end_failed_def clear_session_def Let_def split: option.splits)

lemma turn_enabled:
  assumes ok: "client_ok s" and p: "phase_of i s = Some p" "p \<notin> {Resolved, Rejected}"
  shows "\<exists>s'. api_turn True s s'"
proof -
  have moves: "\<exists>s'. api_turn True s s'" if "phase_of j s = Some q" "q \<notin> {Resolved, Rejected, Queued}" for j q
    using that by (cases q) (blast intro: api_turn.intros)+
  show ?thesis
  proof (cases "p = Queued")
    case True
    then have "i \<in> set (refreshSubscribers s)" using client_okD(3) [OF ok, of i] p(1) by simp
    then obtain j q where "phase_of j s = Some q" "busy q" using client_okD(4) [OF ok] by (cases "refreshSubscribers s") auto
    then show ?thesis using moves by (cases q) auto
  next
    case False
    then show ?thesis using moves p by blast
  qed
qed

lemma turns_ok: "(api_turn True ^^ n) s s' \<Longrightarrow> client_ok s \<Longrightarrow> client_ok s' \<and> load s' + n \<le> load s"
proof (induction n arbitrary: s')
  case (Suc n)
  then obtain t where t: "(api_turn True ^^ n) s t" "api_turn True t s'" by auto
  then show ?case using Suc.IH [OF t(1) Suc.prems(2)] ok_turn [OF t(2)] turn_lightens [OF t(2)] by fastforce
qed simp

text \<open>
  Property C36. Every request of the wallet app is answered. From any state the requests can reach, as long as the
  secure storage works, at most eight turns per request follow before nothing is left to do, whatever the server
  answers; and where nothing is left to do, every request is resolved or rejected: none still waits for a refresh.
\<close>

theorem requests_answered:
  assumes "(api_step True)\<^sup>*\<^sup>* (idle_client a r b) s" and "(api_turn True ^^ n) s s'"
  shows "n \<le> 8 * length (requests s)
     \<and> ((\<nexists>t. api_turn True s' t) \<longrightarrow> (\<forall>i p. phase_of i s' = Some p \<longrightarrow> p = Resolved \<or> p = Rejected))"
proof -
  have ok: "client_ok s'" and "load s' + n \<le> load s" using turns_ok [OF assms(2) ok_steps [OF assms(1)]] by auto
  then have "n \<le> 8 * length (requests s)" using load_bound [of s] by simp
  then show ?thesis using turn_enabled [OF ok] by blast
qed

text \<open>
  Without a storage that works the second half fails: a deletion that throws ends the handler before the
  callbacks of those who wait are run: the flag is cleared, and they wait with nothing under way.
\<close>

definition hung :: client where
  "hung = \<lparr>requests = [(1, \<lparr>rq_url = ''/finance/wallets'', rq_authorization = Some ''t'', rq_retry = True, rq_phase = Rejected\<rparr>),
                        (2, \<lparr>rq_url = ''/loyalty'', rq_authorization = Some ''t'', rq_retry = True, rq_phase = Queued\<rparr>)],
     isRefreshing = False, refreshSubscribers = [2], cl_auth_token = Some ''t'', cl_refresh_token = Some ''r'', cl_isAuthenticated = True\<rparr>"

definition two_sent :: client where
  "two_sent = send_request 2 ''/loyalty'' (send_request 1 ''/finance/wallets'' (idle_client (Some ''t'') (Some ''r'') True))"

definition two_waiting :: client where
  "two_waiting = on_checked 2 (Some ''r'') (on_token 2 (on_checked 1 (Some ''r'') (on_token 1 (on_response 2 (Some 401) (on_response 1 (Some 401) two_sent)))))"

lemmas interceptor_defs = two_sent_def send_request_def idle_client_def attach_token_def given_def on_response_def on_token_def on_checked_def
  set_request_def to_phase_def isAuthEndpoint_def contains_def on_refresh_error_def on_logout_throws_def phase_of_def find_request_def

lemma two_sent_reached: "(api_step w)\<^sup>*\<^sup>* (idle_client (Some ''t'') (Some ''r'') True) two_sent"
proof -
  let ?s = "idle_client (Some ''t'') (Some ''r'') True"
  have "api_step w ?s (send_request 1 ''/finance/wallets'' ?s)" by (rule api_step.sent) (simp add: find_request_def idle_client_def)
  moreover have "api_step w (send_request 1 ''/finance/wallets'' ?s) two_sent" unfolding two_sent_def by (rule api_step.sent) (simp add: interceptor_defs)
  ultimately show ?thesis by (meson converse_rtranclp_into_rtranclp rtranclp.rtrancl_refl)
qed

lemma two_waiting_turns: "(api_turn w ^^ 6) two_sent two_waiting"
proof -
  let ?a = "on_response 1 (Some 401) two_sent"
  let ?b = "on_response 2 (Some 401) ?a"
  let ?c = "on_token 1 ?b"
  let ?d = "on_checked 1 (Some ''r'') ?c"
  let ?e = "on_token 2 ?d"
  have "api_turn w two_sent ?a" by (rule api_turn.response) (simp add: interceptor_defs)
  moreover have "api_turn w ?a ?b" by (rule api_turn.response) (simp add: interceptor_defs)
  moreover have "api_turn w ?b ?c" by (rule api_turn.token_read) (simp add: interceptor_defs)
  moreover have "api_turn w ?c ?d" by (rule api_turn.token_checked) (simp add: interceptor_defs)
  moreover have "api_turn w ?d ?e" by (rule api_turn.token_read) (simp add: interceptor_defs)
  moreover have "api_turn w ?e two_waiting" unfolding two_waiting_def by (rule api_turn.token_checked) (simp add: interceptor_defs)
  ultimately show ?thesis by (simp add: numeral_eq_Suc) blast
qed

lemma two_waiting_simps: "phase_of 1 two_waiting = Some (Refreshing ''r'')" "phase_of 2 two_waiting = Some Queued" "\<not> isRefreshing two_waiting"
  "refreshSubscribers two_waiting = [2]"
  by (simp_all add: two_waiting_def interceptor_defs)

lemma hung_reached: "(api_turn False)\<^sup>*\<^sup>* two_sent hung" "\<nexists>t. api_turn True hung t"
proof -
  have "api_turn False two_waiting (on_refresh_error 1 two_waiting)" by (rule api_turn.refresh_error) (rule two_waiting_simps)
  moreover have "api_turn False (on_refresh_error 1 two_waiting) hung"
  proof -
    have "hung = on_logout_throws 1 (on_refresh_error 1 two_waiting)" by (simp add: hung_def two_waiting_def interceptor_defs)
    moreover have "phase_of 1 (on_refresh_error 1 two_waiting) = Some RefreshFailed" by (simp add: two_waiting_def interceptor_defs)
    ultimately show ?thesis using api_turn.logout_throws [of 1 "on_refresh_error 1 two_waiting" False] by simp
  qed
  ultimately show "(api_turn False)\<^sup>*\<^sup>* two_sent hung"
    using relpowp_imp_rtranclp [OF two_waiting_turns [of False]] by (meson rtranclp.rtrancl_into_rtrancl)
  have "phase_of i hung = Some p \<Longrightarrow> p = Rejected \<or> p = Queued" for i p by (auto simp: hung_def phase_of_def find_request_def split: if_splits)
  then show "\<nexists>t. api_turn True hung t" by (fastforce elim: api_turn.cases)
qed

text \<open>
  Three requests refused at once. The first refreshes, the second waits and so clears the flag, and the third,
  which finds the flag cleared, refreshes too, with the same refresh token. Whoever comes second there presents a
  token the portal has replaced.
\<close>

definition three_sent :: "string \<Rightarrow> client" where
  "three_sent t = send_request 3 ''/deals'' (send_request 2 ''/loyalty'' (send_request 1 ''/finance/wallets'' (idle_client (Some ''t'') (Some t) True)))"

definition three_read :: "string \<Rightarrow> client" where
  "three_read t = on_token 3 (on_token 2 (on_token 1 (on_response 3 (Some 401) (on_response 2 (Some 401) (on_response 1 (Some 401) (three_sent t))))))"

definition two_refreshing :: "string \<Rightarrow> client" where
  "two_refreshing t = on_checked 3 (Some t) (on_checked 2 (Some t) (on_checked 1 (Some t) (three_read t)))"

lemma three_sent_reached: "(api_step w)\<^sup>*\<^sup>* (idle_client (Some ''t'') (Some t) True) (three_sent t)"
proof -
  let ?s = "idle_client (Some ''t'') (Some t) True"
  let ?a = "send_request 1 ''/finance/wallets'' ?s"
  let ?b = "send_request 2 ''/loyalty'' ?a"
  have "api_step w ?s ?a" by (rule api_step.sent) (simp add: find_request_def idle_client_def)
  moreover have "api_step w ?a ?b" by (rule api_step.sent) (simp add: interceptor_defs)
  moreover have "api_step w ?b (three_sent t)" unfolding three_sent_def by (rule api_step.sent) (simp add: interceptor_defs)
  ultimately show ?thesis by (meson converse_rtranclp_into_rtranclp rtranclp.rtrancl_refl)
qed

lemmas renewal_defs = two_refreshing_def three_read_def three_sent_def interceptor_defs on_refreshed_def on_stored_def on_logged_out_def end_failed_def
  clear_session_def flush_def resend_def

lemma two_refreshing_turns: "(api_turn w)\<^sup>*\<^sup>* (three_sent (c # cs)) (two_refreshing (c # cs))"
proof -
  let ?t = "c # cs"
  let ?a = "on_response 1 (Some 401) (three_sent (c # cs))"
  let ?b = "on_response 2 (Some 401) ?a"
  let ?c = "on_response 3 (Some 401) ?b"
  let ?d = "on_token 1 ?c"
  let ?e = "on_token 2 ?d"
  let ?g = "on_checked 1 (Some ?t) (three_read (c # cs))"
  let ?h = "on_checked 2 (Some ?t) ?g"
  have "api_turn w (three_sent (c # cs)) ?a" by (rule api_turn.response) (simp add: three_sent_def interceptor_defs)
  moreover have "api_turn w ?a ?b" by (rule api_turn.response) (simp add: three_sent_def interceptor_defs)
  moreover have "api_turn w ?b ?c" by (rule api_turn.response) (simp add: three_sent_def interceptor_defs)
  moreover have "api_turn w ?c ?d" by (rule api_turn.token_read) (simp add: three_sent_def interceptor_defs)
  moreover have "api_turn w ?d ?e" by (rule api_turn.token_read) (simp add: three_sent_def interceptor_defs)
  moreover have "api_turn w ?e (three_read (c # cs))" unfolding three_read_def by (rule api_turn.token_read) (simp add: three_sent_def interceptor_defs)
  moreover have "api_turn w (three_read (c # cs)) ?g" by (rule api_turn.token_checked) (simp add: three_read_def three_sent_def interceptor_defs)
  moreover have "api_turn w ?g ?h" by (rule api_turn.token_checked) (simp add: three_read_def three_sent_def interceptor_defs)
  moreover have "api_turn w ?h (two_refreshing (c # cs))" unfolding two_refreshing_def by (rule api_turn.token_checked) (simp add: three_read_def three_sent_def interceptor_defs)
  ultimately show ?thesis by (meson converse_rtranclp_into_rtranclp rtranclp.rtrancl_refl)
qed

text \<open>
  Property C35. One refresh at a time fails. Three requests that are refused together can reach a state in which
  two of them refresh with the same refresh token while the third waits, although the storage works. If the refresh
  that ends second fails, its handler logs out: the session the first refresh has just renewed is
  thrown away, whatever its new tokens \<open>x\<close> and \<open>d # y\<close> are, while the other two requests are sent again with \<open>x\<close>.
\<close>

theorem second_refresh_logs_out:
  "\<exists>s s' s''. (api_step True)\<^sup>*\<^sup>* (idle_client (Some ''t'') (Some (c # cs)) True) s
     \<and> phase_of 1 s = Some (Refreshing (c # cs)) \<and> phase_of 2 s = Some Queued \<and> phase_of 3 s = Some (Refreshing (c # cs))
     \<and> (api_turn True)\<^sup>*\<^sup>* s s' \<and> cl_auth_token s' = Some x \<and> cl_refresh_token s' = Some (d # y) \<and> cl_isAuthenticated s'
     \<and> (api_turn True)\<^sup>*\<^sup>* s' s'' \<and> cl_auth_token s'' = None \<and> cl_refresh_token s'' = None \<and> \<not> cl_isAuthenticated s''
     \<and> phase_of 3 s'' = Some Rejected
     \<and> phase_of 1 s'' = Some Flying \<and> map_option rq_authorization (find_request 1 s'') = Some (Some x)
     \<and> phase_of 2 s'' = Some Flying \<and> map_option rq_authorization (find_request 2 s'') = Some (Some x)"
proof -
  let ?s = "two_refreshing (c # cs)"
  let ?a = "on_refreshed 1 x (Some (d # y)) ?s"
  let ?b = "on_stored 1 x (Some (d # y)) ?a"
  let ?c = "on_refresh_error 3 ?b"
  let ?d = "on_logged_out 3 ?c"
  note defs = renewal_defs
  have r: "(api_step True)\<^sup>*\<^sup>* (idle_client (Some ''t'') (Some (c # cs)) True) ?s"
    by (rule rtranclp_trans [OF three_sent_reached]) (rule rtranclp_mono [THEN predicate2D, OF _ two_refreshing_turns], auto intro: api_step.turn)
  have "phase_of 1 ?s = Some (Refreshing (c # cs))" "phase_of 2 ?s = Some Queued" "phase_of 3 ?s = Some (Refreshing (c # cs))"
    by (simp_all add: defs)
  moreover have "api_turn True ?s ?a" by (rule api_turn.refreshed) (simp add: defs)
  moreover have "api_turn True ?a ?b" by (rule api_turn.stored) (simp add: defs)
  moreover have "api_turn True ?b ?c" by (rule api_turn.refresh_error) (simp add: defs)
  moreover have "api_turn True ?c ?d" by (rule api_turn.logged_out) (simp add: defs)
  moreover have "cl_auth_token ?b = Some x" "cl_refresh_token ?b = Some (d # y)" "cl_isAuthenticated ?b" by (simp_all add: defs)
  moreover have "cl_auth_token ?d = None" "cl_refresh_token ?d = None" "\<not> cl_isAuthenticated ?d" by (simp_all add: defs)
  moreover have "phase_of 3 ?d = Some Rejected" "phase_of 1 ?d = Some Flying" "phase_of 2 ?d = Some Flying" by (simp_all add: defs)
  moreover have "map_option rq_authorization (find_request 1 ?d) = Some (Some x)" "map_option rq_authorization (find_request 2 ?d) = Some (Some x)"
    by (simp_all add: defs)
  ultimately show ?thesis using r by (intro exI [of _ ?s] exI [of _ ?b] exI [of _ ?d]) (auto intro: rtranclp.rtrancl_into_rtrancl)
qed

theorem requests_answered_witness:
  "\<exists>s'. (api_turn True ^^ 2) two_sent s' \<and> 2 \<le> 8 * length (requests two_sent) \<and> {p. \<exists>i. phase_of i s' = Some p} \<subseteq> {Resolved, Rejected}"
proof -
  let ?a = "on_response 1 (Some 200) two_sent"
  let ?b = "on_response 2 (Some 404) ?a"
  have "api_turn True two_sent ?a" by (rule api_turn.response) (simp add: interceptor_defs)
  moreover have "api_turn True ?a ?b" by (rule api_turn.response) (simp add: interceptor_defs)
  ultimately have two: "(api_turn True ^^ 2) two_sent ?b" by (simp add: numeral_2_eq_2) blast
  have "phase_of i ?b = Some p \<Longrightarrow> p = Resolved \<or> p = Rejected" for i p by (auto simp: interceptor_defs split: if_splits)
  then have "\<nexists>t. api_turn True ?b t" by (fastforce elim: api_turn.cases)
  with requests_answered [OF two_sent_reached two] two show ?thesis by blast
qed

end
