(* ===== verification/Admin_Web.thy ===== *)
theory Admin_Web
  imports Staff Js_Text
begin

text \<open>
  The administration in the browser (\<open>apps/admin-web/src\<close>) without its pages: the limit on login attempts
  (\<open>lib/auth/rate-limit.ts\<close>), the guard of the pages (\<open>proxy.ts\<close>, \<open>app/(dashboard)/layout.tsx\<close>, the redirects of
  \<open>app/page.tsx\<close> and \<open>app/login/page.tsx\<close>) and the actions of a session (\<open>app/actions/auth.ts\<close>). Its requests go to
  the portal, which is the model of theory \<open>Staff\<close>; \<open>up\<close> says whether the portal answers. \<open>key\<close> is the secret
  of this program; a token is read with the clock of the request. A cookie that expired is one that is not
  there; the cookie of the permissions stands as the list whose JSON it holds.
\<close>

section \<open>The limit on login attempts\<close>

record rate_entry =
  re_count :: nat
  re_resetTime :: int

type_synonym rate_store = "string \<Rightarrow> rate_entry option"

definition MAX_ATTEMPTS :: nat where "MAX_ATTEMPTS = 5"
definition WINDOW_MS :: int where "WINDOW_MS = 60 * 1000"

definition checkRateLimit :: "int \<Rightarrow> string \<Rightarrow> rate_store \<Rightarrow> (bool \<times> nat) \<times> rate_store" where
  "checkRateLimit now identifier store =
     (case store identifier of
        Some e \<Rightarrow>
          if re_resetTime e < now then ((True, MAX_ATTEMPTS - 1), store(identifier \<mapsto> \<lparr>re_count = 1, re_resetTime = now + WINDOW_MS\<rparr>))
          else if MAX_ATTEMPTS \<le> re_count e then ((False, 0), store)
          else ((True, MAX_ATTEMPTS - (re_count e + 1)), store(identifier \<mapsto> e\<lparr>re_count := re_count e + 1\<rparr>))
      | None \<Rightarrow> ((True, MAX_ATTEMPTS - 1), store(identifier \<mapsto> \<lparr>re_count = 1, re_resetTime = now + WINDOW_MS\<rparr>)))"

definition clearRateLimit :: "string \<Rightarrow> rate_store \<Rightarrow> rate_store" where
  "clearRateLimit identifier store = store(identifier := None)"

text \<open>The timer that deletes the entries whose window is over.\<close>

definition cleanup :: "int \<Rightarrow> rate_store \<Rightarrow> rate_store" where
  "cleanup now store = (\<lambda>k. case store k of Some e \<Rightarrow> if re_resetTime e < now then None else Some e | None \<Rightarrow> None)"

section \<open>State\<close>

record cookies =
  ck_session :: "string option"
  ck_refresh :: "string option"
  ck_userId :: "string option"
  ck_role :: "string option"
  ck_permissions :: "string list option"

record site =
  rateLimitStore :: rate_store
  portal :: admin_db
  jar :: cookies

definition no_cookies :: cookies where
  "no_cookies = \<lparr>ck_session = None, ck_refresh = None, ck_userId = None, ck_role = None, ck_permissions = None\<rparr>"

definition filled :: "string option \<Rightarrow> string option" where
  "filled t = (case t of Some (c # r) \<Rightarrow> Some (c # r) | _ \<Rightarrow> None)"

section \<open>The guard of the pages\<close>

datatype guarded = Pass | Redirected string

text \<open>The paths that are served without a session; the matcher leaves some others out.\<close>

definition public_path :: "string \<Rightarrow> bool" where
  "public_path p \<longleftrightarrow> starts_with ''/_next'' p \<or> starts_with ''/api/auth'' p
     \<or> p \<in> set [''/login'', ''/setup-account'', ''/reset-password'', ''/''] \<or> CHR ''.'' \<in> set p"

definition matched_path :: "string \<Rightarrow> bool" where
  "matched_path p \<longleftrightarrow> \<not> list_ex (\<lambda>w. starts_with w p) [''/api'', ''/_next/static'', ''/_next/image'', ''/favicon.ico'']"

definition role_of :: "json \<Rightarrow> json" where
  "role_of claims = jget ''role'' claims"

definition role_refused :: "json \<Rightarrow> string \<Rightarrow> bool" where
  "role_refused role p \<longleftrightarrow> (role = JStr ''SUPPORT_STAFF'' \<and> p = ''/finance/reconcile'')
     \<or> (role = JStr ''RECONCILER'' \<and> p \<in> set [''/accounts'', ''/support/users''])
     \<or> (role \<noteq> JStr ''SUPER_ADMIN'' \<and> p = ''/support/users'')"

definition delete_session :: "cookies \<Rightarrow> cookies" where
  "delete_session c = c\<lparr>ck_session := None, ck_refresh := None, ck_userId := None, ck_role := None\<rparr>"

text \<open>The refresh of \<open>proxy.ts\<close>: a session whose token is not accepted.\<close>

definition proxy_refresh :: "staff_env \<Rightarrow> bool \<Rightarrow> staff_request \<Rightarrow> site \<Rightarrow> guarded \<times> site" where
  "proxy_refresh env up rq s =
     (let refused = (\<lambda>t. (Redirected ''/login'', t\<lparr>jar := delete_session (jar t)\<rparr>)) in
      case (filled (ck_refresh (jar s)), filled (ck_userId (jar s))) of
        (Some token, Some userId) \<Rightarrow>
          if \<not> up then refused s
          else (case admin_refresh env rq userId token (portal s) of
             (Inl e, p) \<Rightarrow> refused (s\<lparr>portal := p\<rparr>)
           | (Inr x, p) \<Rightarrow> (Pass, s\<lparr>portal := p, jar := (jar s)\<lparr>ck_session := Some (as_token x), ck_refresh := Some (as_refreshToken x)\<rparr>\<rparr>))
      | _ \<Rightarrow> refused s)"

definition proxy :: "string \<Rightarrow> staff_env \<Rightarrow> bool \<Rightarrow> staff_request \<Rightarrow> string \<Rightarrow> site \<Rightarrow> guarded \<times> site" where
  "proxy key env up rq p s =
     (if \<not> matched_path p \<or> public_path p then (Pass, s)
      else case filled (ck_session (jar s)) of
        None \<Rightarrow> (Redirected ''/login'', s)
      | Some token \<Rightarrow>
          (case we_verify env key (wq_now rq) token of
             None \<Rightarrow> proxy_refresh env up rq s
           | Some claims \<Rightarrow> (if role_refused (role_of claims) p then Redirected ''/dashboard'' else Pass, s)))"

text \<open>
  What a page answers. \<open>/\<close> and \<open>/login\<close> look at the token themselves, a login page with an error shows its form
  in any case. The layout of the dashboard reads the token again: without one it shows \<open>Unauthorized\<close> in place
  of the page, with one that is not accepted it goes to the login. Other paths are shown, be it as not found.
\<close>

datatype answer = Shown | UnauthorizedShown | GoTo string

text \<open>The pages below \<open>app/(dashboard)\<close>; \<open>[]\<close> stands for a segment with an id.\<close>

definition dashboard_routes :: "string list list" where
  "dashboard_routes = [
    [''audit''], [''dashboard''], [''finance'', ''ledger''], [''finance'', ''ledger'', ''[]''], [''finance'', ''reconcile''],
    [''finance'', ''treasury''], [''finance'', ''wallets''], [''finance'', ''wallets'', ''[]''], [''promotions'', ''banners''],
    [''promotions'', ''deals''], [''promotions'', ''deals'', ''[]''], [''promotions'', ''deals'', ''[]'', ''edit''],
    [''promotions'', ''deals'', ''new''], [''promotions'', ''loyalty''], [''promotions'', ''redemptions''],
    [''promotions'', ''settings''], [''risk'', ''aml''], [''risk'', ''kyc''], [''risk'', ''kyc'', ''[]''],
    [''support'', ''merchants''], [''support'', ''merchants'', ''[]''], [''support'', ''merchants'', ''[]'', ''edit''],
    [''support'', ''merchants'', ''[]'', ''terminals''], [''support'', ''merchants'', ''applications''],
    [''support'', ''merchants'', ''create''], [''support'', ''user-activity''], [''support'', ''users''],
    [''support'', ''users'', ''[]''], [''system'', ''admins''], [''system'', ''admins'', ''[]''], [''system'', ''outbox''],
    [''system'', ''profile''], [''system'', ''roles''], [''system'', ''roles'', ''[]''], [''system'', ''settings''],
    [''transactions''], [''transactions'', ''[]'']]"

definition dashboard_page :: "string \<Rightarrow> bool" where
  "dashboard_page p \<longleftrightarrow> (case split_char (CHR ''/'') p of
      [] # segments \<Rightarrow> list_ex (\<lambda>r. list_all2 (\<lambda>a b. a = ''[]'' \<and> b \<noteq> [] \<or> a = b) r segments) dashboard_routes
    | _ \<Rightarrow> False)"

definition valid_token :: "string \<Rightarrow> staff_env \<Rightarrow> staff_request \<Rightarrow> site \<Rightarrow> json option" where
  "valid_token key env rq s = (case filled (ck_session (jar s)) of None \<Rightarrow> None | Some t \<Rightarrow> we_verify env key (wq_now rq) t)"

definition root_answer :: "string \<Rightarrow> staff_env \<Rightarrow> staff_request \<Rightarrow> site \<Rightarrow> answer" where
  "root_answer key env rq s = (if valid_token key env rq s \<noteq> None then GoTo ''/dashboard'' else GoTo ''/login'')"

definition login_answer :: "string \<Rightarrow> staff_env \<Rightarrow> staff_request \<Rightarrow> bool \<Rightarrow> site \<Rightarrow> answer" where
  "login_answer key env rq failed s = (if \<not> failed \<and> valid_token key env rq s \<noteq> None then GoTo ''/dashboard'' else Shown)"

definition layout_answer :: "string \<Rightarrow> staff_env \<Rightarrow> staff_request \<Rightarrow> site \<Rightarrow> answer" where
  "layout_answer key env rq s = (case filled (ck_session (jar s)) of
      None \<Rightarrow> UnauthorizedShown
    | Some t \<Rightarrow> if we_verify env key (wq_now rq) t = None then GoTo ''/login'' else Shown)"

definition page_answer :: "string \<Rightarrow> staff_env \<Rightarrow> staff_request \<Rightarrow> string \<Rightarrow> bool \<Rightarrow> site \<Rightarrow> answer" where
  "page_answer key env rq p failed s =
     (if p = ''/'' then root_answer key env rq s
      else if p = ''/login'' then login_answer key env rq failed s
      else if dashboard_page p then layout_answer key env rq s
      else Shown)"

text \<open>The role the layout hands to the pages.\<close>

definition layout_role :: "json \<Rightarrow> json" where
  "layout_role claims = jor (role_of claims) (JStr ''SUPPORT_STAFF'')"

definition visit :: "string \<Rightarrow> staff_env \<Rightarrow> bool \<Rightarrow> staff_request \<Rightarrow> string \<Rightarrow> bool \<Rightarrow> site \<Rightarrow> answer \<times> site" where
  "visit key env up rq p failed s =
     (case proxy key env up rq p s of
        (Redirected q, s1) \<Rightarrow> (GoTo q, s1)
      | (Pass, s1) \<Rightarrow> (page_answer key env rq p failed s1, s1))"

text \<open>
  A browser follows redirects: it asks for pages until one answers with something to show, at most \<open>fuel\<close> of
  them. The path it ends at, what is shown there and the state.
\<close>

fun browse :: "nat \<Rightarrow> string \<Rightarrow> staff_env \<Rightarrow> bool \<Rightarrow> staff_request \<Rightarrow> string \<Rightarrow> bool \<Rightarrow> site \<Rightarrow> (string \<times> answer \<times> site) option" where
  "browse 0 key env up rq p failed s = None"
| "browse (Suc fuel) key env up rq p failed s =
     (case visit key env up rq p failed s of
        (GoTo q, s1) \<Rightarrow> browse fuel key env up rq q False s1
      | (a, s1) \<Rightarrow> Some (p, a, s1))"

section \<open>The actions of a session\<close>

text \<open>The message of \<open>ApiError\<close> (\<open>lib/api-client.ts\<close>) for an exception of the portal, outside production.\<close>

definition api_message :: "error \<Rightarrow> string" where
  "api_message e = (case e of Http n m \<Rightarrow> if n = UNAUTHORIZED then ''Unauthorized'' else m | Plain m \<Rightarrow> m | Prisma c \<Rightarrow> c)"

definition NO_RESPONSE :: string where
  "NO_RESPONSE = ''Network Error - No response received''"

datatype action_result = Throws string | Redirects string

record headers =
  hd_forwardedFor :: "string option"
  hd_realIp :: "string option"

definition ip_address :: "headers \<Rightarrow> string" where
  "ip_address h = (case filled (hd_forwardedFor h) of Some a \<Rightarrow> a | None \<Rightarrow>
     (case filled (hd_realIp h) of Some a \<Rightarrow> a | None \<Rightarrow> ''unknown''))"

definition web_login :: "staff_env \<Rightarrow> bool \<Rightarrow> staff_request \<Rightarrow> headers \<Rightarrow> string option \<Rightarrow> string option \<Rightarrow> site \<Rightarrow> action_result \<times> site" where
  "web_login env up rq h email password s =
     (case (filled email, filled password) of
        (Some e, Some pw) \<Rightarrow>
          (case checkRateLimit (wq_now rq) (ip_address h) (rateLimitStore s) of
             ((allowed, _), store) \<Rightarrow>
               let s1 = s\<lparr>rateLimitStore := store\<rparr> in
               if \<not> allowed then (Throws ''Too many login attempts. Please try again later.'', s1)
               else if \<not> up then (Redirects (''/login?error='' @ encodeURIComponent NO_RESPONSE), s1)
               else (case admin_login env rq e pw (portal s1) of
                  (Inl err, p) \<Rightarrow> (Redirects (''/login?error='' @ encodeURIComponent (api_message err)), s1\<lparr>portal := p\<rparr>)
                | (Inr x, p) \<Rightarrow> (Redirects ''/dashboard'', s1\<lparr>portal := p,
                    jar := \<lparr>ck_session = Some (as_token x), ck_refresh = Some (as_refreshToken x), ck_userId = Some (as_userId x),
                            ck_role = Some (as_role x), ck_permissions = Some (as_permissions x)\<rparr>\<rparr>)))
      | _ \<Rightarrow> (Throws ''Email and password are required'', s))"

text \<open>A logout asks the portal, if the browser has a token, and forgets everything whatever it answers.\<close>

definition web_logout :: "staff_env \<Rightarrow> bool \<Rightarrow> staff_request \<Rightarrow> site \<Rightarrow> action_result \<times> site" where
  "web_logout env up rq s =
     (let p = (case filled (ck_session (jar s)) of
                 Some t \<Rightarrow> if up then snd (serve env rq t Logout (portal s)) else portal s
               | None \<Rightarrow> portal s)
      in (Redirects ''/login'', s\<lparr>portal := p, jar := no_cookies\<rparr>))"

definition web_refresh :: "staff_env \<Rightarrow> bool \<Rightarrow> staff_request \<Rightarrow> site \<Rightarrow> string option \<times> site" where
  "web_refresh env up rq s =
     (case (filled (ck_refresh (jar s)), filled (ck_userId (jar s))) of
        (Some token, Some userId) \<Rightarrow>
          if \<not> up then (None, s)
          else (case admin_refresh env rq userId token (portal s) of
             (Inl e, p) \<Rightarrow> (None, s\<lparr>portal := p\<rparr>)
           | (Inr x, p) \<Rightarrow> (Some (as_token x), s\<lparr>portal := p,
               jar := (jar s)\<lparr>ck_session := Some (as_token x), ck_refresh := Some (as_refreshToken x), ck_permissions := Some (as_permissions x)\<rparr>\<rparr>))
      | _ \<Rightarrow> (None, s))"

end
