(* ===== verification/Admin_Web_Props.thy ===== *)
theory Admin_Web_Props
  imports Admin_Web Staff_Props
begin

text \<open>
  Properties of the administration in the browser: the limit on login attempts as a bound over every interval of
  a minute, the pages a browser ends on, and what follows from the portal's refusal to refresh sessions.
\<close>

section \<open>The limit on login attempts\<close>

text \<open>Attempts (with an address) and runs of the timer; the times at which attempts of an address were let through.\<close>

fun passed :: "string \<Rightarrow> (int \<times> string option) list \<Rightarrow> rate_store \<Rightarrow> int list" where
  "passed i [] store = []"
| "passed i ((now, None) # es) store = passed i es (cleanup now store)"
| "passed i ((now, Some k) # es) store =
     (case checkRateLimit now k store of ((ok, _), st) \<Rightarrow> if ok \<and> k = i then now # passed i es st else passed i es st)"

fun rate_run :: "(int \<times> string option) list \<Rightarrow> rate_store \<Rightarrow> rate_store" where
  "rate_run [] store = store"
| "rate_run ((now, None) # es) store = rate_run es (cleanup now store)"
| "rate_run ((now, Some k) # es) store = rate_run es (snd (checkRateLimit now k store))"

text \<open>
  The attempts let through, each with the start of its window: windows hold at most five of them, and
  different windows start more than a minute apart.
\<close>

definition windows_ok :: "(int \<times> int) list \<Rightarrow> bool" where
  "windows_ok L \<longleftrightarrow> (\<forall>x\<in>set L. fst x \<le> snd x \<and> snd x \<le> fst x + WINDOW_MS) \<and> (\<forall>b. count_list (map fst L) b \<le> MAX_ATTEMPTS)
     \<and> (\<forall>b\<in>fst ` set L. \<forall>c\<in>fst ` set L. b < c \<longrightarrow> b + WINDOW_MS < c)"

definition entry_ok :: "int \<Rightarrow> rate_entry option \<Rightarrow> (int \<times> int) list \<Rightarrow> bool" where
  "entry_ok now e L = (case e of
      None \<Rightarrow> \<forall>b\<in>fst ` set L. b + WINDOW_MS < now
    | Some e \<Rightarrow> 1 \<le> re_count e \<and> re_resetTime e - WINDOW_MS \<le> now \<and> count_list (map fst L) (re_resetTime e - WINDOW_MS) = re_count e
        \<and> (\<forall>b\<in>fst ` set L. b \<le> re_resetTime e - WINDOW_MS))"

lemma entry_later: "entry_ok now e L \<Longrightarrow> now \<le> now' \<Longrightarrow> entry_ok now' e L"
  by (auto simp: entry_ok_def split: option.splits)

lemma entry_cleanup: "entry_ok now (store i) L \<Longrightarrow> now \<le> now' \<Longrightarrow> entry_ok now' (cleanup now' store i) L"
  by (fastforce simp: entry_ok_def cleanup_def split: option.splits)

lemma fresh_window:
  assumes "windows_ok L" "\<forall>b\<in>fst ` set L. b + WINDOW_MS < now"
  shows "windows_ok ((now, now) # L) \<and> entry_ok now (Some \<lparr>re_count = 1, re_resetTime = now + WINDOW_MS\<rparr>) ((now, now) # L)"
proof -
  have new: "now \<notin> fst ` set L" using assms(2) by (auto simp: WINDOW_MS_def)
  then have none: "count_list (map fst L) now = 0" by (simp add: count_list_0_iff)
  have "windows_ok ((now, now) # L)"
    using assms new none unfolding windows_ok_def by (auto simp: WINDOW_MS_def MAX_ATTEMPTS_def)
  then show ?thesis using assms(2) none by (auto simp: entry_ok_def WINDOW_MS_def)
qed

lemma attempt_ok:
  assumes "windows_ok L" "entry_ok now (store i) L" "checkRateLimit now i store = ((ok, n), st)"
  shows "\<exists>b. windows_ok (if ok then (b, now) # L else L) \<and> entry_ok now (st i) (if ok then (b, now) # L else L)"
proof (cases "store i")
  case None
  then have "ok" "st i = Some \<lparr>re_count = 1, re_resetTime = now + WINDOW_MS\<rparr>" using assms(3) by (auto simp: checkRateLimit_def)
  moreover have "\<forall>b\<in>fst ` set L. b + WINDOW_MS < now" using assms(2) None by (simp add: entry_ok_def)
  ultimately show ?thesis using fresh_window [OF assms(1)] by auto
next
  case (Some e)
  let ?b = "re_resetTime e - WINDOW_MS"
  have e: "?b \<le> now" "count_list (map fst L) ?b = re_count e" "\<forall>b\<in>fst ` set L. b \<le> ?b" "1 \<le> re_count e" using assms(2) Some by (simp_all add: entry_ok_def)
  consider (expired) "re_resetTime e < now" | (full) "now \<le> re_resetTime e" "MAX_ATTEMPTS \<le> re_count e"
    | (room) "now \<le> re_resetTime e" "re_count e < MAX_ATTEMPTS" by linarith
  then show ?thesis
  proof cases
    case expired
    then have "ok" "st i = Some \<lparr>re_count = 1, re_resetTime = now + WINDOW_MS\<rparr>" using assms(3) Some by (auto simp: checkRateLimit_def)
    moreover have "\<forall>b\<in>fst ` set L. b + WINDOW_MS < now" using e(3) expired by force
    ultimately show ?thesis using fresh_window [OF assms(1)] by auto
  next
    case full
    then have "\<not> ok" "st = store" using assms(3) Some by (auto simp: checkRateLimit_def)
    then show ?thesis using assms(1,2) by simp
  next
    case room
    then have r: "ok" "st i = Some (e\<lparr>re_count := re_count e + 1\<rparr>)" using assms(3) Some by (auto simp: checkRateLimit_def)
    have "windows_ok ((?b, now) # L)"
    proof -
      have near: "\<forall>x\<in>set L. fst x \<le> ?b" using e(3) by blast
      have far: "b + WINDOW_MS < ?b" if "b \<in> fst ` set L" "b < ?b" for b
      proof -
        have "?b \<in> fst ` set L" using e(2,4) by (metis One_nat_def Suc_n_not_le_n count_list_0_iff le_zero_eq list.set_map not_less_eq_eq zero_le)
        then show ?thesis using assms(1) that unfolding windows_ok_def by blast
      qed
      show ?thesis unfolding windows_ok_def
      proof (intro conjI)
        show "\<forall>x\<in>set ((?b, now) # L). fst x \<le> snd x \<and> snd x \<le> fst x + WINDOW_MS" using assms(1) e(1) room(1) unfolding windows_ok_def by simp
        show "\<forall>b. count_list (map fst ((?b, now) # L)) b \<le> MAX_ATTEMPTS" using assms(1) e(2) room(2) unfolding windows_ok_def by simp
        show "\<forall>b\<in>fst ` set ((?b, now) # L). \<forall>c\<in>fst ` set ((?b, now) # L). b < c \<longrightarrow> b + WINDOW_MS < c"
          using assms(1) near far unfolding windows_ok_def by fastforce
      qed
    qed
    then show ?thesis using r e by (auto simp: entry_ok_def)
  qed
qed


lemma other_attempt: "k \<noteq> i \<Longrightarrow> snd (checkRateLimit now k store) i = store i"
  by (simp add: checkRateLimit_def split: option.split)

text \<open>The times let through are those of a list of windows, up to the order.\<close>

lemma run_windows:
  assumes "sorted (map fst es)" "windows_ok L" "entry_ok now (store i) L" "\<forall>e\<in>set es. now \<le> fst e"
  shows "\<exists>M now'. windows_ok M \<and> entry_ok now' (rate_run es store i) M \<and> map snd M = rev (passed i es store) @ map snd L
     \<and> (es = [] \<and> now' = now \<or> es \<noteq> [] \<and> now' = fst (last es))"
  using assms
proof (induction es arbitrary: L now store)
  case Nil
  then show ?case by auto
next
  case (Cons e es)
  obtain u k where e: "e = (u, k)" by (cases e)
  have s: "sorted (map fst es)" "\<forall>e\<in>set es. u \<le> fst e" "now \<le> u" using Cons.prems(1,4) e by auto
  have ok: "entry_ok u (store i) L" by (rule entry_later [OF Cons.prems(3) s(3)])
  have last: "(es = [] \<and> v = u \<or> es \<noteq> [] \<and> v = fst (last es)) \<Longrightarrow> v = fst (last (e # es))" for v using e by auto
  show ?case
  proof (cases k)
    case None
    obtain M v where "windows_ok M" "entry_ok v (rate_run es (cleanup u store) i) M" "map snd M = rev (passed i es (cleanup u store)) @ map snd L"
      "es = [] \<and> v = u \<or> es \<noteq> [] \<and> v = fst (last es)"
      using Cons.IH [where store = "cleanup u store", OF s(1) Cons.prems(2) entry_cleanup [where store = store, OF Cons.prems(3) s(3)] s(2)] by blast
    then show ?thesis using last by (auto simp: e None)
  next
    case (Some a)
    obtain okay n st where st: "checkRateLimit u a store = ((okay, n), st)" by (metis prod.exhaust)
    obtain L' where L': "windows_ok L'" "entry_ok u (st i) L'" "map snd L' = (if okay \<and> a = i then [u] else []) @ map snd L"
    proof (cases "a = i")
      case True
      obtain b where "windows_ok (if okay then (b, u) # L else L)" "entry_ok u (st i) (if okay then (b, u) # L else L)"
        using attempt_ok [where store = store, OF Cons.prems(2) ok st [unfolded True]] by blast
      then show thesis using that [of "if okay then (b, u) # L else L"] True by (cases okay) simp_all
    next
      case False
      then have "st i = store i" using other_attempt [OF False, of u store] st by simp
      then show thesis using that [of L] Cons.prems(2) ok False by simp
    qed
    obtain M v where "windows_ok M" "entry_ok v (rate_run es st i) M" "map snd M = rev (passed i es st) @ map snd L'"
      "es = [] \<and> v = u \<or> es \<noteq> [] \<and> v = fst (last es)"
      using Cons.IH [where store = st, OF s(1) L'(1,2) s(2)] by blast
    then show ?thesis using last L'(3) by (auto simp: e Some st)
  qed
qed

lemma apart_two:
  fixes S :: "int set"
  assumes "finite S" "S \<subseteq> {lo..lo + 2 * W}" "\<And>b c. b \<in> S \<Longrightarrow> c \<in> S \<Longrightarrow> b < c \<Longrightarrow> b + W < c"
  shows "card S \<le> 2"
proof (rule ccontr)
  assume "\<not> card S \<le> 2"
  then obtain T where T: "T \<subseteq> S" "card T = 3" using obtain_subset_with_card_n [of 3 S] by auto
  then obtain x y z where "T = {x, y, z}" "x \<noteq> y" "y \<noteq> z" "x \<noteq> z" by (auto simp: card_3_iff)
  moreover from this obtain a b c where "{a, b, c} = T" "a < b" "b < c" by (metis insert_commute linorder_neqE)
  ultimately have "a \<in> S" "b \<in> S" "c \<in> S" "a < b" "b < c" using T(1) by auto
  then have "a + W < b" "b + W < c" "lo \<le> a" "c \<le> lo + 2 * W" using assms(2) assms(3) [of a b] assms(3) [of b c] by auto
  then show False by linarith
qed

lemma windows_bound:
  assumes "windows_ok L"
  shows "length (filter (\<lambda>x. t \<le> snd x \<and> snd x \<le> t + WINDOW_MS) L) \<le> 2 * MAX_ATTEMPTS"
proof -
  let ?F = "filter (\<lambda>x. t \<le> snd x \<and> snd x \<le> t + WINDOW_MS) L"
  let ?S = "fst ` set ?F"
  have "card ?S \<le> 2"
  proof (rule apart_two [where lo = "t - WINDOW_MS" and W = WINDOW_MS])
    show "?S \<subseteq> {t - WINDOW_MS..t - WINDOW_MS + 2 * WINDOW_MS}" using assms unfolding windows_ok_def by fastforce
    show "b + WINDOW_MS < c" if "b \<in> ?S" "c \<in> ?S" "b < c" for b c using assms that unfolding windows_ok_def by auto
  qed simp
  have "count_list (map fst ?F) b \<le> MAX_ATTEMPTS" for b
  proof -
    have "count_list (map fst (filter P L)) b \<le> count_list (map fst L) b" for P by (induction L) auto
    then show ?thesis using assms unfolding windows_ok_def by (meson le_trans)
  qed
  then have "(\<Sum>b\<in>?S. count_list (map fst ?F) b) \<le> card ?S * MAX_ATTEMPTS" by (metis (no_types, lifting) sum_bounded_above of_nat_id)
  moreover have "(\<Sum>b\<in>?S. count_list (map fst ?F) b) = length (map fst ?F)" by (rule sum_count_set) auto
  ultimately show ?thesis using \<open>card ?S \<le> 2\<close> by (metis (no_types, lifting) le_trans length_map mult_le_mono1)
qed

lemma passed_times: "set (passed i es store) \<subseteq> fst ` set es"
proof (induction es arbitrary: store)
  case (Cons e es)
  obtain u k where e: "e = (u, k)" by (cases e)
  show ?case
  proof (cases k)
    case None
    then show ?thesis using Cons.IH [of "cleanup u store"] by (auto simp: e)
  next
    case (Some a)
    obtain okay n st where "checkRateLimit u a store = ((okay, n), st)" by (metis prod.exhaust)
    then show ?thesis using Cons.IH [of st] by (auto simp: e Some)
  qed
qed simp

lemma count_some: "(\<And>x. x \<in> set M \<Longrightarrow> fst x = b \<Longrightarrow> P x) \<Longrightarrow> count_list (map fst M) b \<le> length (filter P M)"
  by (induction M) (auto simp: le_SucI)

text \<open>
  Property C38. The limit on login attempts. Whatever sequence of attempts and runs of the timer, in every
  interval of a minute at most ten attempts from one address are let through, twice the limit, because windows
  do not slide; and an attempt is refused only when five from its address were let through in the last minute.
\<close>

theorem login_attempts_bounded:
  assumes "sorted (map fst es)"
  shows "length (filter (\<lambda>u. t \<le> u \<and> u \<le> t + WINDOW_MS) (passed i es (\<lambda>_. None))) \<le> 2 * MAX_ATTEMPTS
     \<and> (\<forall>now. (\<forall>e\<in>set es. fst e \<le> now) \<and> \<not> fst (fst (checkRateLimit now i (rate_run es (\<lambda>_. None)))) \<longrightarrow>
          MAX_ATTEMPTS \<le> length (filter (\<lambda>u. now - WINDOW_MS \<le> u \<and> u \<le> now) (passed i es (\<lambda>_. None))))"
proof -
  have "\<exists>n. \<forall>e\<in>set es. n \<le> fst e" by (cases es) (use assms in auto)
  then obtain n where n: "\<forall>e\<in>set es. n \<le> fst e" by blast
  obtain M v where M: "windows_ok M" "entry_ok v (rate_run es (\<lambda>_. None) i) M" "map snd M = rev (passed i es (\<lambda>_. None))"
    "es = [] \<and> v = n \<or> es \<noteq> [] \<and> v = fst (last es)"
    using run_windows [OF assms, of "[]" n "\<lambda>_. None" i] n by (auto simp: windows_ok_def entry_ok_def)
  have count: "length (filter Q (passed i es (\<lambda>_. None))) = length (filter (Q \<circ> snd) M)" for Q
  proof -
    have "length (filter Q (passed i es (\<lambda>_. None))) = length (filter Q (map snd M))" by (simp add: M(3) rev_filter [symmetric])
    then show ?thesis by (simp add: filter_map)
  qed
  show ?thesis
  proof (intro conjI allI impI)
    show "length (filter (\<lambda>u. t \<le> u \<and> u \<le> t + WINDOW_MS) (passed i es (\<lambda>_. None))) \<le> 2 * MAX_ATTEMPTS"
      using windows_bound [OF M(1), of t] unfolding count o_def .
    fix now
    assume h: "(\<forall>e\<in>set es. fst e \<le> now) \<and> \<not> fst (fst (checkRateLimit now i (rate_run es (\<lambda>_. None))))"
    then obtain e where e: "rate_run es (\<lambda>_. None) i = Some e" "now \<le> re_resetTime e" "MAX_ATTEMPTS \<le> re_count e"
      by (auto simp: checkRateLimit_def split: option.splits if_splits)
    let ?b = "re_resetTime e - WINDOW_MS"
    have b: "count_list (map fst M) ?b = re_count e" using M(2) e(1) by (simp add: entry_ok_def)
    have u: "\<forall>x\<in>set M. snd x \<le> now"
    proof
      fix x
      assume "x \<in> set M"
      then have "snd x \<in> set (map snd M)" by simp
      then have "snd x \<in> set (passed i es (\<lambda>_. None))" unfolding M(3) by simp
      then obtain e where "e \<in> set es" "snd x = fst e" using passed_times [of i es "\<lambda>_. None"] by blast
      then show "snd x \<le> now" using h by simp
    qed
    have "now - WINDOW_MS \<le> snd x \<and> snd x \<le> now" if "x \<in> set M" "fst x = ?b" for x
      using that u M(1) e(2) unfolding windows_ok_def by fastforce
    then have "count_list (map fst M) ?b \<le> length (filter (\<lambda>x. now - WINDOW_MS \<le> snd x \<and> snd x \<le> now) M)" by (rule count_some)
    then show "MAX_ATTEMPTS \<le> length (filter (\<lambda>u. now - WINDOW_MS \<le> u \<and> u \<le> now) (passed i es (\<lambda>_. None)))"
      using b e(3) unfolding count o_def by simp
  qed
qed

text \<open>The address is whatever the client writes into a header: with a new one the attempt reaches the portal.\<close>

lemma forwarded_for_unlimited:
  assumes "rateLimitStore s a = None" "a \<noteq> []" "e \<noteq> []" "pw \<noteq> []" "admin_login env rq e pw (portal s) = (Inr x, p)"
  shows "fst (web_login env True rq \<lparr>hd_forwardedFor = Some a, hd_realIp = r\<rparr> (Some e) (Some pw) s) = Redirects ''/dashboard''"
  using assms by (auto simp: web_login_def filled_def ip_address_def checkRateLimit_def neq_Nil_conv)

section \<open>The pages\<close>

lemma filled_Some [simp]: "filled (Some t) = None \<longleftrightarrow> t = []" "filled None = None"
  by (simp_all add: filled_def split: list.split)

lemma landing:
  "proxy key env up rq ''/login'' s = (Pass, s)" "proxy key env up rq ''/'' s = (Pass, s)"
  "valid_token key env rq s = Some claims \<Longrightarrow> proxy key env up rq ''/dashboard'' s = (Pass, s)"
  by (auto simp: proxy_def public_path_def matched_path_def valid_token_def role_refused_def split: option.splits)

lemma dashboard_pages [simp]: "\<not> dashboard_page ''/login''" "\<not> dashboard_page ''/''" "dashboard_page ''/dashboard''"
  by code_simp+

lemma login_shown: "valid_token key env rq s = None \<Longrightarrow> browse (Suc n) key env up rq ''/login'' False s = Some (''/login'', Shown, s)"
  by (simp add: visit_def landing page_answer_def login_answer_def)

lemma layout_accepted: "valid_token key env rq s = Some claims \<Longrightarrow> layout_answer key env rq s = Shown"
  by (auto simp: layout_answer_def valid_token_def split: option.splits)

lemma layout_refused:
  "valid_token key env rq s = None \<Longrightarrow> layout_answer key env rq s = (if filled (ck_session (jar s)) = None then UnauthorizedShown else GoTo ''/login'')"
  by (auto simp: layout_answer_def valid_token_def split: option.splits)

lemma dashboard_shown: "valid_token key env rq s = Some claims \<Longrightarrow> browse (Suc n) key env up rq ''/dashboard'' False s = Some (''/dashboard'', Shown, s)"
  by (simp add: visit_def landing page_answer_def layout_accepted)

lemma session_deleted: "valid_token key env rq (s\<lparr>jar := delete_session c\<rparr>) = None"
  by (simp add: valid_token_def delete_session_def)

lemma refresh_answer: "proxy_refresh env up rq s = (g, t) \<Longrightarrow> g = Pass \<or> g = Redirected ''/login'' \<and> valid_token key env rq t = None"
  by (auto simp: proxy_refresh_def Let_def session_deleted split: option.splits if_splits sum.splits prod.splits)

lemma proxy_answer:
  assumes "proxy key env up rq p s = (g, t)"
  shows "g = Pass \<or> (g = Redirected ''/login'' \<and> valid_token key env rq t = None) \<or> (g = Redirected ''/dashboard'' \<and> valid_token key env rq t \<noteq> None)"
    and "g = Pass \<Longrightarrow> valid_token key env rq s = Some claims \<Longrightarrow> t = s \<and> (matched_path p \<and> \<not> public_path p \<longrightarrow> \<not> role_refused (role_of claims) p)"
    and "g = Pass \<Longrightarrow> filled (ck_session (jar s)) = None \<Longrightarrow> t = s \<and> (public_path p \<or> \<not> matched_path p)"
  using assms refresh_answer [of env up rq s g t key] by (auto simp: proxy_def valid_token_def split: if_splits option.splits)

lemma proxy_accepted:
  "valid_token key env rq s = Some claims \<Longrightarrow>
     proxy key env up rq p s = (if matched_path p \<and> \<not> public_path p \<and> role_refused (jget ''role'' claims) p then Redirected ''/dashboard'' else Pass, s)"
  by (auto simp: proxy_def valid_token_def role_of_def split: option.splits)

text \<open>Where it ends: what is true of the path \<open>q\<close>, the answer and the state there, when it began with \<open>p\<close> in \<open>s\<close>.\<close>

definition ends_well :: "string \<Rightarrow> staff_env \<Rightarrow> staff_request \<Rightarrow> string \<Rightarrow> site \<Rightarrow> string \<Rightarrow> answer \<Rightarrow> site \<Rightarrow> bool" where
  "ends_well key env rq p s q a t \<longleftrightarrow>
     (dashboard_page q \<and> a = Shown \<longrightarrow> valid_token key env rq t \<noteq> None)
     \<and> (a = UnauthorizedShown \<longrightarrow> q = p \<and> filled (ck_session (jar t)) = None \<and> (filled (ck_session (jar s)) = None \<longrightarrow> public_path p \<or> \<not> matched_path p))
     \<and> (\<forall>claims. valid_token key env rq s = Some claims \<longrightarrow> a = Shown
          \<and> (q = ''/support/users'' \<longrightarrow> jget ''role'' claims = JStr ''SUPER_ADMIN'')
          \<and> (q = ''/finance/reconcile'' \<longrightarrow> jget ''role'' claims \<noteq> JStr ''SUPPORT_STAFF'')
          \<and> (q = ''/accounts'' \<longrightarrow> jget ''role'' claims \<noteq> JStr ''RECONCILER'')
          \<and> (jget ''role'' claims = JStr ''SUPER_ADMIN'' \<and> p \<noteq> ''/'' \<and> p \<noteq> ''/login'' \<longrightarrow> q = p))"

lemma browse_two:
  "browse 2 key env up rq p failed s = (case visit key env up rq p failed s of (GoTo q, s1) \<Rightarrow> browse (Suc 0) key env up rq q False s1 | (a, s1) \<Rightarrow> Some (p, a, s1))"
  by (simp add: numeral_2_eq_2)

lemma guarded_paths: "matched_path ''/support/users'' \<and> \<not> public_path ''/support/users''" "matched_path ''/finance/reconcile'' \<and> \<not> public_path ''/finance/reconcile''"
  "matched_path ''/accounts'' \<and> \<not> public_path ''/accounts''"
  by code_simp+

lemma super_admin_passes: "\<not> role_refused (JStr ''SUPER_ADMIN'') p"
  by (simp add: role_refused_def)

lemma accepted_ends:
  assumes v: "valid_token key env rq s = Some claims"
  shows "\<exists>q a t. browse 2 key env up rq p failed s = Some (q, a, t) \<and> ends_well key env rq p s q a t"
proof (cases "matched_path p \<and> \<not> public_path p \<and> role_refused (jget ''role'' claims) p")
  case True
  then have "browse 2 key env up rq p failed s = Some (''/dashboard'', Shown, s)"
    using proxy_accepted [OF v, of up p] dashboard_shown [OF v, of 0] by (simp add: browse_two visit_def)
  moreover have "jget ''role'' claims \<noteq> JStr ''SUPER_ADMIN''" using True super_admin_passes by auto
  ultimately show ?thesis using v by (simp add: ends_well_def)
next
  case False
  then have g: "proxy key env up rq p s = (Pass, s)" using proxy_accepted [OF v, of up p] by simp
  show ?thesis
  proof (cases "p = ''/'' \<or> p = ''/login'' \<and> \<not> failed")
    case True
    then have "browse 2 key env up rq p failed s = Some (''/dashboard'', Shown, s)"
      using g v dashboard_shown [OF v, of 0] by (auto simp: browse_two visit_def page_answer_def root_answer_def login_answer_def)
    then show ?thesis using True v by (auto simp: ends_well_def)
  next
    case stays: False
    then have "browse 2 key env up rq p failed s = Some (p, Shown, s)"
      using g layout_accepted [OF v] by (auto simp: browse_two visit_def page_answer_def login_answer_def)
    moreover have "ends_well key env rq p s p Shown s"
      using False v guarded_paths by (auto simp: ends_well_def role_refused_def)
    ultimately show ?thesis by blast
  qed
qed

lemma unaccepted_ends:
  assumes v: "valid_token key env rq s = None"
  shows "\<exists>q a t. browse 2 key env up rq p failed s = Some (q, a, t) \<and> ends_well key env rq p s q a t"
proof -
  obtain g t where p: "proxy key env up rq p s = (g, t)" by (metis prod.exhaust)
  have ends: "ends_well key env rq p s q a u" if "dashboard_page q \<Longrightarrow> a = Shown \<Longrightarrow> valid_token key env rq u \<noteq> None"
    "a = UnauthorizedShown \<Longrightarrow> q = p \<and> filled (ck_session (jar u)) = None \<and> (filled (ck_session (jar s)) = None \<longrightarrow> public_path p \<or> \<not> matched_path p)" for q a u
    using that v by (auto simp: ends_well_def)
  show ?thesis
  proof (cases g)
    case (Redirected q)
    then consider "q = ''/login''" "valid_token key env rq t = None" | c where "q = ''/dashboard''" "valid_token key env rq t = Some c"
      using proxy_answer(1) [OF p] by auto
    then show ?thesis
    proof cases
      case 1
      then show ?thesis using p Redirected login_shown [OF 1(2), of 0] by (auto simp: browse_two visit_def intro!: ends)
    next
      case 2
      then show ?thesis using p Redirected dashboard_shown [OF 2(2), of 0] by (auto simp: browse_two visit_def intro!: ends)
    qed
  next
    case Pass
    have bare: "filled (ck_session (jar s)) = None \<Longrightarrow> public_path p \<or> \<not> matched_path p" using proxy_answer(3) [OF p Pass] by blast
    have visit: "visit key env up rq p failed s = (page_answer key env rq p failed t, t)" using p Pass by (simp add: visit_def)
    show ?thesis
    proof (cases "valid_token key env rq t")
      case (Some c)
      then have "page_answer key env rq p failed t \<in> {GoTo ''/dashboard'', Shown}"
        by (simp add: page_answer_def root_answer_def login_answer_def layout_accepted [OF Some])
      then show ?thesis using visit Some dashboard_shown [OF Some, of 0] by (auto simp: browse_two intro!: ends)
    next
      case None
      then consider "page_answer key env rq p failed t = GoTo ''/login''" | "page_answer key env rq p failed t = Shown" "\<not> dashboard_page p"
        | "page_answer key env rq p failed t = UnauthorizedShown" "filled (ck_session (jar t)) = None"
        using layout_refused [OF None] None unfolding page_answer_def root_answer_def login_answer_def
        by (cases "p = ''/''"; cases "p = ''/login''"; cases "dashboard_page p"; cases "filled (ck_session (jar t))") auto
      then show ?thesis
      proof cases
        case 1
        then show ?thesis using visit login_shown [OF None, of 0] by (auto simp: browse_two intro!: ends)
      next
        case 2
        then show ?thesis using visit by (auto simp: browse_two intro!: ends)
      next
        case 3
        then show ?thesis using visit bare by (auto simp: browse_two intro!: ends)
      qed
    qed
  qed
qed

text \<open>
  Property C37. Where a browser of the administration ends. From every page, with every session, at most one
  redirect follows before something is shown. A page of the dashboard shows its contents only with a token that is
  accepted; without a token it says \<open>Unauthorized\<close>, and only where the guard does not look. A session that is
  accepted from the start ends at the users' page only as a super administrator, never at the reconciliation as a
  member of the support staff nor at the accounts as a reconciler; and a super administrator ends where it wanted,
  unless it asked for the start or the login.
\<close>

theorem browsing_settles:
  "\<exists>q a t. browse 2 key env up rq p failed s = Some (q, a, t)
     \<and> (dashboard_page q \<and> a = Shown \<longrightarrow> valid_token key env rq t \<noteq> None)
     \<and> (a = UnauthorizedShown \<longrightarrow> q = p \<and> filled (ck_session (jar t)) = None \<and> (filled (ck_session (jar s)) = None \<longrightarrow> public_path p \<or> \<not> matched_path p))
     \<and> (\<forall>claims. valid_token key env rq s = Some claims \<longrightarrow> a = Shown
          \<and> (q = ''/support/users'' \<longrightarrow> jget ''role'' claims = JStr ''SUPER_ADMIN'')
          \<and> (q = ''/finance/reconcile'' \<longrightarrow> jget ''role'' claims \<noteq> JStr ''SUPPORT_STAFF'')
          \<and> (q = ''/accounts'' \<longrightarrow> jget ''role'' claims \<noteq> JStr ''RECONCILER'')
          \<and> (jget ''role'' claims = JStr ''SUPER_ADMIN'' \<and> p \<noteq> ''/'' \<and> p \<noteq> ''/login'' \<longrightarrow> q = p))"
  using accepted_ends [of key env rq s _ up p failed] unaccepted_ends [of key env rq s up p failed]
  unfolding ends_well_def by (cases "valid_token key env rq s") blast+

text \<open>The dashboard without a cookie, at a path the guard takes for a file.\<close>

lemma dotted_path_unauthorized:
  "browse 2 key env up rq ''/transactions/1.2'' failed (s\<lparr>jar := no_cookies\<rparr>) = Some (''/transactions/1.2'', UnauthorizedShown, s\<lparr>jar := no_cookies\<rparr>)"
proof -
  have "public_path ''/transactions/1.2''" "dashboard_page ''/transactions/1.2''" by code_simp+
  then show ?thesis by (simp add: browse_two visit_def proxy_def page_answer_def layout_answer_def no_cookies_def)
qed

text \<open>After a refresh the guard lets the request pass without a look at the role, so the rules hold only of sessions accepted from the start.\<close>

lemma refresh_skips_roles:
  assumes "valid_token key env rq s = None" "filled (ck_session (jar s)) \<noteq> None" "filled (ck_refresh (jar s)) = Some r" "filled (ck_userId (jar s)) = Some i"
    and "admin_refresh env rq i r (portal s) = (Inr x, q)" "we_verify env key (wq_now rq) (as_token x) = Some claims" "as_token x \<noteq> []"
  shows "\<exists>t. browse 2 key env True rq ''/support/users'' failed s = Some (''/support/users'', Shown, t)"
proof -
  let ?t = "s\<lparr>portal := q, jar := (jar s)\<lparr>ck_session := Some (as_token x), ck_refresh := Some (as_refreshToken x)\<rparr>\<rparr>"
  have "proxy key env True rq ''/support/users'' s = (Pass, ?t)"
    using assms guarded_paths by (auto simp: proxy_def valid_token_def proxy_refresh_def split: option.splits)
  moreover have "layout_answer key env rq ?t = Shown" using assms(6,7) by (cases "as_token x") (auto simp: layout_answer_def filled_def)
  ultimately have "visit key env True rq ''/support/users'' failed s = (Shown, ?t)" by (simp add: visit_def page_answer_def)
  then show ?thesis by (simp add: browse_two)
qed

text \<open>
  The portal never refreshes a session (theory \<open>Staff_Props\<close>), so when the token of a login is no longer accepted
  the next page asked for is the login, and the session is deleted.
\<close>

lemma web_session_ends:
  assumes login: "web_login env up rq h email pw s = (Redirects ''/dashboard'', s1)" and same: "jar t = jar s1"
    and secrets: "we_refreshSecret env \<noteq> we_secret env" "\<And>k k' now now' ttl c. k \<noteq> k' \<Longrightarrow> we_verify env k' now' (we_sign env k now ttl c) = None"
    and p: "matched_path p" "\<not> public_path p" and expired: "valid_token key env rq2 t = None"
  shows "fst (proxy key env up2 rq2 p t) = Redirected ''/login''" "valid_token key env rq3 (snd (proxy key env up2 rq2 p t)) = None \<or> filled (ck_session (jar t)) = None"
proof -
  obtain e w x q where x: "admin_login env rq e w (portal s) = (Inr x, q)" "jar s1 = \<lparr>ck_session = Some (as_token x), ck_refresh = Some (as_refreshToken x),
     ck_userId = Some (as_userId x), ck_role = Some (as_role x), ck_permissions = Some (as_permissions x)\<rparr>"
  proof -
    have "Redirects ''/dashboard'' \<noteq> Redirects (''/login?error='' @ m)" for m by simp
    then show thesis using login that by (auto simp: web_login_def Let_def split: option.splits prod.splits if_splits sum.splits)
  qed
  have never: "\<exists>err. admin_refresh env rq2 i (as_refreshToken x) db = (Inl err, db)" for i db
    by (rule admin_refresh_never [OF x(1) secrets(1)]) (rule secrets(2))
  have refused: "proxy_refresh env up2 rq2 t = (Redirected ''/login'', t\<lparr>jar := delete_session (jar t)\<rparr>)"
  proof (cases "(filled (ck_refresh (jar t)), filled (ck_userId (jar t)))" rule: prod.exhaust)
    case (Pair a b)
    have "a = Some r \<Longrightarrow> r = as_refreshToken x" for r using Pair same x(2) by (auto simp: filled_def split: list.splits)
    moreover have "proxy_refresh env up2 rq2 t = (Redirected ''/login'', t\<lparr>jar := delete_session (jar t)\<rparr>)" if "a = Some (as_refreshToken x)" "b = Some i" for i
    proof -
      obtain err where "admin_refresh env rq2 i (as_refreshToken x) (portal t) = (Inl err, portal t)" using never by blast
      then show ?thesis using Pair that by (simp add: proxy_refresh_def Let_def)
    qed
    ultimately show ?thesis using Pair by (cases a; cases b) (auto simp: proxy_refresh_def Let_def)
  qed
  show "fst (proxy key env up2 rq2 p t) = Redirected ''/login''" "valid_token key env rq3 (snd (proxy key env up2 rq2 p t)) = None \<or> filled (ck_session (jar t)) = None"
    using p expired by (auto simp: proxy_def valid_token_def refused delete_session_def split: option.splits)
qed

section \<open>Examples\<close>

definition demo_site :: site where
  "demo_site = \<lparr>rateLimitStore = (\<lambda>_. None), portal = demo_admin, jar = no_cookies\<lparr>ck_session := Some ''1.as1''\<rparr>\<rparr>"

theorem login_attempts_bounded_witness:
  "length (filter (\<lambda>u. 59999 \<le> u \<and> u \<le> 59999 + WINDOW_MS) (passed ''a'' (map (\<lambda>u. (u, Some ''a'')) [0, 60000, 60001]) (\<lambda>_. None))) = 2
     \<and> (2 :: nat) \<le> 2 * MAX_ATTEMPTS"
proof -
  let ?es = "map (\<lambda>u. (u, Some ''a'')) [0, 60000, 60001] :: (int \<times> string option) list"
  have n: "length (filter (\<lambda>u. 59999 \<le> u \<and> u \<le> 59999 + WINDOW_MS) (passed ''a'' ?es (\<lambda>_. None))) = 2"
    by code_simp
  have "sorted (map fst ?es)" by simp
  from login_attempts_bounded [OF this, of 59999 "''a''"] n show ?thesis by simp
qed

text \<open>The demo token is one of the support staff's agents.\<close>

theorem browsing_settles_witness:
  "\<exists>t. browse 2 ''a'' demo_staff_env True (demo_at 5) ''/support/users'' False demo_site = Some (''/dashboard'', Shown, t)
     \<and> valid_token ''a'' demo_staff_env (demo_at 5) t \<noteq> None"
proof -
  have run: "map_option fst (browse 2 ''a'' demo_staff_env True (demo_at 5) ''/support/users'' False demo_site) = Some ''/dashboard''" by code_simp
  have "\<exists>claims. valid_token ''a'' demo_staff_env (demo_at 5) demo_site = Some claims"
    by (simp add: valid_token_def demo_site_def no_cookies_def filled_def demo_staff_env_def demo_secret_def)
  with browsing_settles [of "''a''" demo_staff_env True "demo_at 5" "''/support/users''" False demo_site] run show ?thesis by fastforce
qed

end
