(* ===== verification/Admin_Audit.thy ===== *)
theory Admin_Audit
  imports Wallet_History Staff Js_Text
begin

text \<open>
  What the administration leaves in the audit log: the interceptor around every route
  (\<open>admin/interceptors/audit.interceptor.ts\<close>) with the decorators of the routes of \<open>admin/staff\<close> and
  \<open>admin/auth\<close>. Guards run before interceptors. The row of the log has the columns the interceptor fills; the
  action is a text, because routes without an action of their own are logged under their permission. The text
  of a database error stands as its code, a body that is absent as the empty object.
\<close>

section \<open>The interceptor\<close>

record audit_metadata =
  am_action :: "string option"
  am_resourceType :: string
  am_reason :: "string option"
  am_path :: "string option"

record http_request =
  hq_ip :: string
  hq_userAgent :: "string option"
  hq_user :: json
  hq_params :: json
  hq_body :: json
  hq_query :: json

record admin_audit =
  aa_adminUserId :: json
  aa_action :: string
  aa_resourceType :: string
  aa_resourceId :: string
  aa_ipAddress :: string
  aa_userAgent :: string
  aa_payload :: json
  aa_status :: nat
  aa_reason :: string
  aa_createdAt :: int

text \<open>\<open>path.split('.').reduce((acc, part) => acc && acc[part], obj)\<close>\<close>

definition getValueByPath :: "json \<Rightarrow> string \<Rightarrow> json" where
  "getValueByPath obj path = foldl (\<lambda>acc part. if truthy acc then jget part acc else acc) obj (split_char (CHR ''.'') path)"

definition request_json :: "http_request \<Rightarrow> json" where
  "request_json q = JObj [(''ip'', JStr (hq_ip q)), (''user'', hq_user q), (''params'', hq_params q), (''body'', hq_body q), (''query'', hq_query q)]"

definition error_status :: "error \<Rightarrow> nat" where
  "error_status e = (case e of Http n m \<Rightarrow> n | _ \<Rightarrow> 500)"

definition error_text :: "error \<Rightarrow> string" where
  "error_text e = (case e of Http n m \<Rightarrow> m | Plain m \<Rightarrow> m | Prisma c \<Rightarrow> c)"

definition text_of :: "string option \<Rightarrow> string option" where
  "text_of t = (case t of Some (c # r) \<Rightarrow> Some (c # r) | _ \<Rightarrow> None)"

definition action_reason :: "audit_metadata option \<Rightarrow> string list \<Rightarrow> string" where
  "action_reason meta perms = (case Option.bind meta (text_of \<circ> am_reason) of
      Some r \<Rightarrow> r
    | None \<Rightarrow> (case perms of p # ps \<Rightarrow> ''Executed permission: '' @ p | [] \<Rightarrow> ''Executed action''))"

text \<open>The action of the route, or its first permission; without either the database refuses the row.\<close>

definition action_type :: "audit_metadata option \<Rightarrow> string list \<Rightarrow> string option" where
  "action_type meta perms = (case Option.bind meta (text_of \<circ> am_action) of
      Some a \<Rightarrow> Some a
    | None \<Rightarrow> (case perms of p # ps \<Rightarrow> Some p | [] \<Rightarrow> None))"

definition resource_id :: "audit_metadata option \<Rightarrow> http_request \<Rightarrow> json \<Rightarrow> json" where
  "resource_id meta q data = (case Option.bind meta (text_of \<circ> am_path) of
      Some p \<Rightarrow> getValueByPath (request_json q) p
    | None \<Rightarrow> if truthy (jget ''id'' (hq_params q)) then jget ''id'' (hq_params q)
              else if truthy data \<and> truthy (jget ''id'' data) then jget ''id'' data else JNull)"

definition audit_row :: "int \<Rightarrow> audit_metadata option \<Rightarrow> string list \<Rightarrow> http_request \<Rightarrow> error + nat \<times> json \<Rightarrow> string \<Rightarrow> admin_audit" where
  "audit_row now meta perms q out action =
     \<lparr>aa_adminUserId = (let user = jor (jget ''sub'' (hq_user q)) (jget ''id'' (hq_user q))
        in case out of Inl e \<Rightarrow> jor user (JStr ''SYSTEM'') | Inr (n, data) \<Rightarrow> jor user (jor (jget ''userId'' data) (JStr ''SYSTEM''))),
      aa_action = action, aa_resourceType = (case meta of Some m \<Rightarrow> am_resourceType m | None \<Rightarrow> ''PII''),
      aa_resourceId = (case out of Inl e \<Rightarrow> String_json (jor (jget ''id'' (hq_params q)) (JStr []))
                       | Inr (n, data) \<Rightarrow> String_json (jor (resource_id meta q data) (JStr []))),
      aa_ipAddress = hq_ip q, aa_userAgent = (case hq_userAgent q of Some a \<Rightarrow> a | None \<Rightarrow> []),
      aa_payload = maskSensitiveData (JObj [(''body'', hq_body q), (''params'', hq_params q), (''query'', hq_query q)]),
      aa_status = (case out of Inl e \<Rightarrow> error_status e | Inr (n, data) \<Rightarrow> n),
      aa_reason = (case out of Inl e \<Rightarrow> action_reason meta perms @ '' (Failed: '' @ error_text e @ '')'' | Inr _ \<Rightarrow> action_reason meta perms),
      aa_createdAt = now\<rparr>"

definition intercept :: "int \<Rightarrow> audit_metadata option \<Rightarrow> string list \<Rightarrow> http_request \<Rightarrow> error + nat \<times> json \<Rightarrow> admin_audit list \<Rightarrow> admin_audit list" where
  "intercept now meta perms q out rows =
     (if perms = [] \<and> meta = None then rows
      else case action_type meta perms of None \<Rightarrow> rows | Some action \<Rightarrow> rows @ [audit_row now meta perms q out action])"

section \<open>The decorators\<close>

text \<open>\<open>@RequirePermissions\<close> and \<open>@AuditLog\<close> of the routes: permission, resource and reason.\<close>

fun route_audit :: "staff_call \<Rightarrow> (string \<times> string \<times> string) option" where
  "route_audit (CreateStaff b) = Some (''CREATE_ADMINS'', ''ADMIN_USER'', ''Created new staff member'')"
| "route_audit (UpdateStaff i b) = Some (''MANAGE_STAFF'', ''ADMIN_USER'', ''Updated staff profile'')"
| "route_audit (RemoveStaff i) = Some (''DELETE_ADMINS'', ''ADMIN_USER'', ''Removed staff member'')"
| "route_audit (ResetPassword i) = Some (''RESET_STAFF_PASSWORD'', ''ADMIN_USER'', ''Reset staff password'')"
| "route_audit (ResendInvite i) = Some (''CREATE_ADMINS'', ''ADMIN_USER'', ''Resent staff invitation'')"
| "route_audit (DeactivateStaff i) = Some (''DEACTIVATE_STAFF'', ''ADMIN_USER'', ''Deactivated staff account'')"
| "route_audit (ReactivateStaff i) = Some (''REACTIVATE_STAFF'', ''ADMIN_USER'', ''Reactivated staff account'')"
| "route_audit (AssignRole i r) = Some (''ASSIGN_STAFF_ROLES'', ''ADMIN_USER'', ''Assigned role to staff'')"
| "route_audit (RemoveRole i r) = Some (''ASSIGN_STAFF_ROLES'', ''ADMIN_USER'', ''Removed role from staff'')"
| "route_audit (CreateRole b) = Some (''MANAGE_SYSTEM_ROLES'', ''ROLE'', ''Created new role'')"
| "route_audit (UpdateRole i b) = Some (''MANAGE_SYSTEM_ROLES'', ''ROLE'', ''Updated role metadata'')"
| "route_audit (SyncPermissions r ps) = Some (''MANAGE_SYSTEM_PERMISSIONS'', ''ROLE'', ''Synchronized role permissions'')"
| "route_audit (RemovePermission r p) = Some (''MANAGE_SYSTEM_PERMISSIONS'', ''ROLE'', ''Removed permission from role'')"
| "route_audit (CreatePermission b) = Some (''MANAGE_SYSTEM_PERMISSIONS'', ''PERMISSION'', ''Created new permission'')"
| "route_audit (UpdatePermission i b) = Some (''MANAGE_SYSTEM_PERMISSIONS'', ''PERMISSION'', ''Updated permission details'')"
| "route_audit (UpdateMe b) = None"
| "route_audit Logout = None"

definition route_permissions :: "staff_call \<Rightarrow> string list" where
  "route_permissions c = (case route_audit c of Some (p, t, r) \<Rightarrow> [p] | None \<Rightarrow> [])"

definition route_metadata :: "staff_call \<Rightarrow> audit_metadata option" where
  "route_metadata c = (case route_audit c of
      Some (p, t, r) \<Rightarrow> Some \<lparr>am_action = None, am_resourceType = t, am_reason = Some r, am_path = None\<rparr>
    | None \<Rightarrow> if c = Logout then Some \<lparr>am_action = Some ''LOGOUT'', am_resourceType = ''ADMIN_USER'', am_reason = Some ''Staff logout'', am_path = None\<rparr> else None)"

text \<open>The parts of a request that the router takes out of the address, and its body.\<close>

fun route_params :: "staff_call \<Rightarrow> json" where
  "route_params (UpdateStaff i b) = JObj [(''id'', JStr i)]"
| "route_params (RemoveStaff i) = JObj [(''id'', JStr i)]"
| "route_params (ResetPassword i) = JObj [(''id'', JStr i)]"
| "route_params (ResendInvite i) = JObj [(''id'', JStr i)]"
| "route_params (DeactivateStaff i) = JObj [(''id'', JStr i)]"
| "route_params (ReactivateStaff i) = JObj [(''id'', JStr i)]"
| "route_params (AssignRole i r) = JObj [(''staffId'', JStr i), (''roleId'', JStr r)]"
| "route_params (RemoveRole i r) = JObj [(''staffId'', JStr i), (''roleId'', JStr r)]"
| "route_params (UpdateRole i b) = JObj [(''id'', JStr i)]"
| "route_params (SyncPermissions r ps) = JObj [(''id'', JStr r)]"
| "route_params (RemovePermission r p) = JObj [(''roleId'', JStr r), (''permissionId'', JStr p)]"
| "route_params (UpdatePermission i b) = JObj [(''id'', JStr i)]"
| "route_params _ = JObj []"

fun route_body :: "staff_call \<Rightarrow> json" where
  "route_body (CreateStaff b) = JObj b"
| "route_body (UpdateStaff i b) = JObj b"
| "route_body (CreateRole b) = JObj b"
| "route_body (UpdateRole i b) = JObj b"
| "route_body (SyncPermissions r ps) = JObj [(''permissionIds'', JArr (map JStr ps))]"
| "route_body (CreatePermission b) = JObj b"
| "route_body (UpdatePermission i b) = JObj b"
| "route_body (UpdateMe b) = JObj b"
| "route_body _ = JObj []"

text \<open>What the interceptor uses of an answer: the status, and the id of what a route without \<open>:id\<close> made.\<close>

definition id_of :: "('b \<Rightarrow> string) \<Rightarrow> 'b result \<times> admin_db \<Rightarrow> json" where
  "id_of f r = (case fst r of Inr x \<Rightarrow> JObj [(''id'', JStr (f x))] | Inl e \<Rightarrow> JUndef)"

fun route_data :: "staff_env \<Rightarrow> staff_request \<Rightarrow> staff_call \<Rightarrow> admin_db \<Rightarrow> json" where
  "route_data env rq (CreateStaff b) s = id_of (sf_id \<circ> fst) (createStaff env rq b s)"
| "route_data env rq (AssignRole i r) s = id_of sl_id (assignRole rq i r s)"
| "route_data env rq (CreateRole b) s = id_of rl_id (createRole env rq b s)"
| "route_data env rq (CreatePermission b) s = id_of pm_id (createPermission env rq b s)"
| "route_data env rq _ s = JObj []"

fun created :: "staff_call \<Rightarrow> bool" where
  "created (CreateStaff b) = True"
| "created (ResetPassword i) = True"
| "created (ResendInvite i) = True"
| "created (DeactivateStaff i) = True"
| "created (ReactivateStaff i) = True"
| "created (AssignRole i r) = True"
| "created (CreateRole b) = True"
| "created (CreatePermission b) = True"
| "created _ = False"

definition success_status :: "staff_call \<Rightarrow> nat" where
  "success_status c = (if created c then 201 else 200)"

definition request_of :: "string \<Rightarrow> string option \<Rightarrow> json \<Rightarrow> staff_call \<Rightarrow> http_request" where
  "request_of ip agent claims c = \<lparr>hq_ip = ip, hq_userAgent = agent, hq_user = claims, hq_params = route_params c, hq_body = route_body c, hq_query = JObj []\<rparr>"

section \<open>Requests with their rows\<close>

definition audited_serve :: "staff_env \<Rightarrow> staff_request \<Rightarrow> string \<Rightarrow> string option \<Rightarrow> string \<Rightarrow> staff_call \<Rightarrow> (admin_db \<times> admin_audit list, unit) handler" where
  "audited_serve env rq ip agent token c st =
     (case st of (s, rows) \<Rightarrow>
        (case admin_jwt env (wq_now rq) token s of
           Inl e \<Rightarrow> (Inl e, (s, rows))
         | Inr claims \<Rightarrow>
             if \<not> roles_guard (required_roles c) claims then (Inl (Http FORBIDDEN ''Forbidden resource''), (s, rows))
             else (case (case jget ''sub'' claims of JStr me \<Rightarrow> perform env rq me c s | _ \<Rightarrow> (Inl invalid, s)) of
                (r, s1) \<Rightarrow>
                  let out = (case r of Inl e \<Rightarrow> Inl e | Inr _ \<Rightarrow> Inr (success_status c, route_data env rq c s))
                  in (r, (s1, intercept (wq_now rq) (route_metadata c) (route_permissions c) (request_of ip agent claims c) out rows)))))"

text \<open>The login has no guard; its row names the member of staff that logged in.\<close>

definition login_metadata :: audit_metadata where
  "login_metadata = \<lparr>am_action = Some ''LOGIN'', am_resourceType = ''ADMIN_USER'', am_reason = Some ''Staff login'', am_path = None\<rparr>"

definition audited_login :: "staff_env \<Rightarrow> staff_request \<Rightarrow> string \<Rightarrow> string option \<Rightarrow> string \<Rightarrow> string \<Rightarrow> (admin_db \<times> admin_audit list, admin_session) handler" where
  "audited_login env rq ip agent email password st =
     (case st of (s, rows) \<Rightarrow>
        (case admin_login env rq email password s of
           (r, s1) \<Rightarrow>
             let q = \<lparr>hq_ip = ip, hq_userAgent = agent, hq_user = JUndef, hq_params = JObj [], hq_body = JObj [(''email'', JStr email), (''password'', JStr password)], hq_query = JObj []\<rparr>;
                 out = (case r of Inl e \<Rightarrow> Inl e | Inr x \<Rightarrow> Inr (200, JObj [(''userId'', JStr (as_userId x))]))
             in (r, (s1, intercept (wq_now rq) (Some login_metadata) [] q out rows))))"

end
