(* ===== verification/Admin_Audit_Props.thy ===== *)
theory Admin_Audit_Props
  imports Admin_Audit Staff_Props
begin

text \<open>
  Properties of the audit trail of the administration: the log does not change what a request does, every request
  that the guards let through leaves exactly one row, and which requests leave none.
\<close>

text \<open>Without its log a request is the request itself.\<close>

lemma audited_serve_serve:
  "fst (audited_serve env rq ip agent token c (s, rows)) = fst (serve env rq token c s)"
  "fst (snd (audited_serve env rq ip agent token c (s, rows))) = snd (serve env rq token c s)"
  by (auto simp: audited_serve_def serve_def Let_def split: sum.splits json.splits prod.splits)

lemma audited_login_login:
  "fst (audited_login env rq ip agent e w (s, rows)) = fst (admin_login env rq e w s)"
  "fst (snd (audited_login env rq ip agent e w (s, rows))) = snd (admin_login env rq e w s)"
  by (auto simp: audited_login_def Let_def split: prod.splits)

lemma route_decorated:
  "(\<forall>b. c \<noteq> UpdateMe b) \<Longrightarrow> action_type (route_metadata c) (route_permissions c) \<noteq> None"
  by (cases c) (auto simp: action_type_def route_metadata_def route_permissions_def text_of_def)

lemma intercept_row:
  assumes "\<forall>b. c \<noteq> UpdateMe b"
  shows "intercept now (route_metadata c) (route_permissions c) q out rows
     = rows @ [audit_row now (route_metadata c) (route_permissions c) q out (the (action_type (route_metadata c) (route_permissions c)))]"
proof -
  obtain a where a: "action_type (route_metadata c) (route_permissions c) = Some a" using route_decorated [OF assms] by auto
  then have "\<not> (route_permissions c = [] \<and> route_metadata c = None)" by (cases "route_metadata c") (auto simp: action_type_def)
  then show ?thesis by (simp add: intercept_def a)
qed

lemma action_of_route:
  "\<forall>b. c \<noteq> UpdateMe b \<Longrightarrow> action_type (route_metadata c) (route_permissions c) = Some (case route_permissions c of p # ps \<Rightarrow> p | [] \<Rightarrow> ''LOGOUT'')"
  by (cases c) (simp_all add: action_type_def route_metadata_def route_permissions_def text_of_def)

text \<open>What leaves no row: a request that a guard refuses, and every change of one's own account.\<close>

lemma refused_unaudited:
  assumes "\<And>claims. admin_jwt env (wq_now rq) token s = Inr claims \<Longrightarrow> \<not> roles_guard (required_roles c) claims"
  shows "snd (audited_serve env rq ip agent token c (s, rows)) = (s, rows)"
  using assms by (auto simp: audited_serve_def split: sum.split)

lemma updateMe_unaudited: "snd (snd (audited_serve env rq ip agent token (UpdateMe b) (s, rows))) = rows"
  by (auto simp: audited_serve_def intercept_def route_metadata_def route_permissions_def Let_def split: sum.split prod.split)

text \<open>So a member of staff that makes itself a super administrator (theory \<open>Staff_Props\<close>) leaves no trace.\<close>

definition changes_own_account :: "staff_call \<Rightarrow> bool" where
  "changes_own_account c = (case c of UpdateMe _ \<Rightarrow> True | _ \<Rightarrow> False)"

lemma changes_own_account_simps [simp]:
  "changes_own_account (UpdateMe b)"
  "\<not> changes_own_account c \<Longrightarrow> \<forall>b. c \<noteq> UpdateMe b"
  by (auto simp: changes_own_account_def)

text \<open>The row of one request that passed the guards, and what it holds.\<close>

lemma audited_request_row:
  assumes "admin_jwt env (wq_now rq) token s = Inr claims" "jget ''sub'' claims = JStr me" "me \<noteq> []"
    and "roles_guard (required_roles c) claims" "\<forall>b. c \<noteq> UpdateMe b"
  shows "\<exists>row. audited_serve env rq ip agent token c (s, rows) = (fst (serve env rq token c s), (snd (serve env rq token c s), rows @ [row]))
       \<and> aa_adminUserId row = JStr me \<and> aa_action row = (case route_permissions c of p # ps \<Rightarrow> p | [] \<Rightarrow> ''LOGOUT'')
       \<and> aa_status row = (case fst (serve env rq token c s) of Inl e \<Rightarrow> error_status e | Inr _ \<Rightarrow> success_status c)
       \<and> masked (aa_payload row)"
proof -
  obtain r s1 where run: "perform env rq me c s = (r, s1)" by (metis prod.exhaust)
  have serve: "serve env rq token c s = (r, s1)" using assms by (simp add: serve_def run)
  let ?out = "case r of Inl e \<Rightarrow> Inl e | Inr _ \<Rightarrow> Inr (success_status c, route_data env rq c s)"
  let ?row = "audit_row (wq_now rq) (route_metadata c) (route_permissions c) (request_of ip agent claims c) ?out (case route_permissions c of p # ps \<Rightarrow> p | [] \<Rightarrow> ''LOGOUT'')"
  have "audited_serve env rq ip agent token c (s, rows) = (r, (s1, rows @ [?row]))"
    using assms by (simp add: audited_serve_def run intercept_row action_of_route Let_def)
  moreover have "aa_adminUserId ?row = JStr me" using assms(2,3) by (auto simp: audit_row_def request_of_def jor_def Let_def split: sum.split)
  moreover have "aa_status ?row = (case r of Inl e \<Rightarrow> error_status e | Inr _ \<Rightarrow> success_status c)" by (auto simp: audit_row_def split: sum.split)
  moreover have "masked (aa_payload ?row)" by (simp add: audit_row_def payload.redact_clean del: masked.simps maskSensitiveData.simps)
  ultimately show ?thesis
    by (simp add: serve del: masked.simps) (metis (no_types, lifting) audit_row_def admin_audit.select_convs(2))
qed

lemma audited_login_row:
  "\<exists>row. snd (snd (audited_login env rq ip agent e w (s, rows))) = rows @ [row] \<and> masked (aa_payload row)
       \<and> aa_adminUserId row = (case fst (admin_login env rq e w s) of Inl x \<Rightarrow> JStr ''SYSTEM'' | Inr x \<Rightarrow> jor (JStr (as_userId x)) (JStr ''SYSTEM''))"
proof -
  obtain r s1 where run: "admin_login env rq e w s = (r, s1)" by (metis prod.exhaust)
  show ?thesis
    by (auto simp: audited_login_def run intercept_def action_type_def text_of_def login_metadata_def audit_row_def Let_def jor_def payload.redact_clean
          split: sum.split simp del: masked.simps maskSensitiveData.simps)
qed

text \<open>
  Property C39. The trail of the administration. A request that the guards let through has the outcome and the effect
  it has without the log. If it changes one's own account (\<open>PUT admin/auth/me\<close>) it leaves no row at all. Every
  other request leaves exactly one, whether it succeeds or fails: the row names the member of staff whose token
  was used and the permission of the route, says how the request ended, and under no key of its body and
  parameters that names a password, a PIN, a secret, a token or a card number holds more than the placeholder. A
  login, successful or not, leaves one such row too, under the account that was opened.
\<close>

theorem staff_calls_audited:
  assumes "admin_jwt env (wq_now rq) token s = Inr claims" "jget ''sub'' claims = JStr me" "me \<noteq> []"
    and "roles_guard (required_roles c) claims"
  shows "(\<exists>rows'. audited_serve env rq ip agent token c (s, rows) = (fst (serve env rq token c s), (snd (serve env rq token c s), rows'))
       \<and> (if changes_own_account c then rows' = rows
          else \<exists>row. rows' = rows @ [row]
            \<and> aa_adminUserId row = JStr me \<and> aa_action row = (case route_permissions c of p # ps \<Rightarrow> p | [] \<Rightarrow> ''LOGOUT'')
            \<and> aa_status row = (case fst (serve env rq token c s) of Inl e \<Rightarrow> error_status e | Inr _ \<Rightarrow> success_status c)
            \<and> masked (aa_payload row)))
     \<and> (\<exists>row. snd (snd (audited_login env rq ip agent e w (s, rows))) = rows @ [row] \<and> masked (aa_payload row)
       \<and> aa_adminUserId row = (case fst (admin_login env rq e w s) of Inl x \<Rightarrow> JStr ''SYSTEM'' | Inr x \<Rightarrow> jor (JStr (as_userId x)) (JStr ''SYSTEM'')))"
proof (intro conjI)
  let ?run = "audited_serve env rq ip agent token c (s, rows)"
  have run: "?run = (fst (serve env rq token c s), (snd (serve env rq token c s), snd (snd ?run)))"
    by (metis audited_serve_serve prod.collapse)
  show "\<exists>rows'. ?run = (fst (serve env rq token c s), (snd (serve env rq token c s), rows'))
       \<and> (if changes_own_account c then rows' = rows
          else \<exists>row. rows' = rows @ [row]
            \<and> aa_adminUserId row = JStr me \<and> aa_action row = (case route_permissions c of p # ps \<Rightarrow> p | [] \<Rightarrow> ''LOGOUT'')
            \<and> aa_status row = (case fst (serve env rq token c s) of Inl e \<Rightarrow> error_status e | Inr _ \<Rightarrow> success_status c)
            \<and> masked (aa_payload row))"
  proof (cases "changes_own_account c")
    case True
    then obtain b where "c = UpdateMe b" by (cases c) (auto simp: changes_own_account_def)
    then have "snd (snd ?run) = rows" by (simp add: updateMe_unaudited)
    with run True show ?thesis by auto
  next
    case False
    then show ?thesis
      using audited_request_row [OF assms changes_own_account_simps(2), of ip agent rows] by auto
  qed
qed (rule audited_login_row)

definition demo_trail :: "admin_audit list" where
  "demo_trail = []"

theorem staff_calls_audited_witness:
  "\<exists>row. snd (snd (audited_serve demo_staff_env (demo_at 5) ''::1'' None ''1.as1'' (DeactivateStaff ''s2'') (demo_admin, demo_trail))) = [row]
     \<and> aa_adminUserId row = JStr ''s1'' \<and> aa_action row = ''DEACTIVATE_STAFF''"
proof -
  have g: "roles_guard (required_roles (DeactivateStaff ''s2'')) (JObj [(''sub'', JStr ''s1''), (''role'', JStr ''SUPPORT_AGENT'')])" by (simp add: roles_guard_def)
  have "jget ''sub'' (JObj [(''sub'', JStr ''s1''), (''role'', JStr ''SUPPORT_AGENT'')]) = JStr ''s1''" by simp
  from staff_calls_audited [OF demo_guard [of 5] this _ g, of "''::1''" None demo_trail "''x''" "''y''"]
  obtain rows' row where "audited_serve demo_staff_env (demo_at 5) ''::1'' None ''1.as1'' (DeactivateStaff ''s2'') (demo_admin, demo_trail)
      = (fst (serve demo_staff_env (demo_at 5) ''1.as1'' (DeactivateStaff ''s2'') demo_admin), (snd (serve demo_staff_env (demo_at 5) ''1.as1'' (DeactivateStaff ''s2'') demo_admin), rows'))"
    "rows' = demo_trail @ [row]" "aa_adminUserId row = JStr ''s1''" "aa_action row = (case route_permissions (DeactivateStaff ''s2'') of p # ps \<Rightarrow> p | [] \<Rightarrow> ''LOGOUT'')"
    by (auto simp: changes_own_account_def)
  then show ?thesis by (auto simp: demo_trail_def route_permissions_def)
qed

end
