(* ===== verification/Error_Responses.thy ===== *)
theory Error_Responses
  imports Wallet_App Integration
begin

text \<open>
  The way of an error from the finance service to the screen: the exception of the portal
  (\<open>rethrowAsHttpException\<close>, theory \<open>Finance_Client\<close>), the answer that its global filter makes of it
  (\<open>common/filters/global-exception.filter.ts\<close>), and what the wallet app reads in that answer
  (\<open>parseBackendError\<close>, theory \<open>Wallet_App\<close>). The text of a database error stands as its code.
\<close>

section \<open>The filter\<close>

definition getProductionMessage :: "nat \<Rightarrow> string" where
  "getProductionMessage status =
     (if status = 400 then ''Bad Request'' else if status = 401 then ''Unauthorized'' else if status = 403 then ''Forbidden''
      else if status = 404 then ''Not Found'' else if status = 429 then ''Too Many Requests'' else if status = 500 then ''Internal Server Error''
      else if status = 503 then ''Service Unavailable'' else ''An error occurred'')"

definition exception_status :: "error \<Rightarrow> nat" where
  "exception_status e = (case e of Http n m \<Rightarrow> n | _ \<Rightarrow> 500)"

definition exception_message :: "error \<Rightarrow> string" where
  "exception_message e = (case e of Http n m \<Rightarrow> m | Plain m \<Rightarrow> m | Prisma c \<Rightarrow> c)"

definition catch_error :: "bool \<Rightarrow> string \<Rightarrow> string \<Rightarrow> error \<Rightarrow> nat \<times> json" where
  "catch_error production url stamp e = (exception_status e,
     JObj ([(''statusCode'', JNum (Fin (of_nat (exception_status e)))),
            (''message'', JStr (if production then getProductionMessage (exception_status e) else exception_message e)),
            (''timestamp'', JStr stamp)] @ (if production then [] else [(''path'', JStr url)])))"

section \<open>In the app\<close>

text \<open>The error of the HTTP client for an answer that is no success.\<close>

definition client_error :: "nat \<times> json \<Rightarrow> json" where
  "client_error r = (case r of (status, data) \<Rightarrow>
     JObj [(''message'', JStr (''Request failed with status code '' @ int_text (int status))),
           (''response'', JObj [(''status'', JNum (Fin (of_nat status))), (''data'', data)])])"

definition shown_error :: "bool \<Rightarrow> string \<Rightarrow> string \<Rightarrow> error \<Rightarrow> transfer_error result" where
  "shown_error production url stamp e = parseBackendError (client_error (catch_error production url stamp e))"

lemma Number_status: "Number_json (JNum (Fin q)) = Fin q"
  by simp

lemma shown_error_simps:
  "exception_status e = 400 \<Longrightarrow> shown_error production url stamp e = Inr
     (let m = (if production then ''Bad Request'' else exception_message e); short = insufficient (jor (JStr m) (JStr []))
      in \<lparr>te_code = (if short then INSUFFICIENT_FUNDS else ERR_INVALID_QR), te_message = jor (jor (JStr m) (JStr [])) (JStr ''Invalid request''),
          te_details = JUndef, te_recovery = Some (if short then EDIT else RETRY)\<rparr>)"
  "exception_status e = 401 \<Longrightarrow> shown_error production url stamp e = Inr (plain_error BIOMETRIC_FAILED ''Authentication required'')"
  "exception_status e = 404 \<Longrightarrow> shown_error production url stamp e = Inr (plain_error ERR_INVALID_RECIPIENT ''Recipient not found'')"
  by (auto simp: shown_error_def parseBackendError_def client_error_def catch_error_def status_is_def getProductionMessage_def first_message_def
        nullish_def jor_def Let_def split: if_splits)

lemma shown_production:
  "shown_error True url stamp e = Inr x \<Longrightarrow> te_code x \<noteq> INSUFFICIENT_FUNDS"
proof -
  have "\<not> insufficient (jor (JStr ''Bad Request'') (JStr []))" by code_simp
  moreover have "te_code (no_response v) \<noteq> INSUFFICIENT_FUNDS" for v by (simp add: no_response_def plain_error_def)
  moreover assume "shown_error True url stamp e = Inr x"
  ultimately show ?thesis
  proof (cases "exception_status e = 400")
    case True
    then show ?thesis using \<open>\<not> insufficient _\<close> \<open>shown_error True url stamp e = Inr x\<close> by (simp add: shown_error_simps(1) Let_def) auto
  next
    case False
    then have "\<not> status_is 400 (JNum (Fin (of_nat (exception_status e))))" by (simp add: status_is_def)
    then show ?thesis using \<open>shown_error True url stamp e = Inr x\<close> \<open>\<And>v. te_code (no_response v) \<noteq> INSUFFICIENT_FUNDS\<close>
      by (auto simp: shown_error_def parseBackendError_def client_error_def catch_error_def plain_error_def Let_def split: if_splits)
  qed
qed

lemma insufficient_thai: "insufficient (JStr ''(balance is not enough)'')"
  by code_simp

text \<open>
  Property C40. The error of an empty wallet on its way to the screen. When the finance service refuses a payment
  because the balance is not enough, the app says so and offers to change the amount - but not in production:
  there the portal's answer keeps only the status, the app takes it for a QR code that cannot be read and offers
  to scan again; and no answer of the portal in production lets the app say that the balance is not enough.
\<close>

theorem balance_error_lost:
  assumes "contains ''Insufficient balance'' msg"
  shows "(\<exists>x. shown_error False url stamp (rethrowAsHttpException (HttpError 400 (Some msg)) fallback) = Inr x
       \<and> te_code x = INSUFFICIENT_FUNDS \<and> te_recovery x = Some EDIT)
     \<and> (\<exists>y. shown_error True url stamp (rethrowAsHttpException (HttpError 400 (Some msg)) fallback) = Inr y
       \<and> te_code y = ERR_INVALID_QR \<and> fst (getErrorInfo y) = ''Invalid QR Code'')
     \<and> {te_code y | y e. shown_error True url stamp e = Inr y} \<inter> {INSUFFICIENT_FUNDS} = {}"
proof (intro conjI)
  let ?e = "rethrowAsHttpException (HttpError 400 (Some msg)) fallback"
  obtain c t where "msg = c # t" using assms by (cases msg) auto
  then have e: "?e = Http 400 ''(balance is not enough)''" using assms by (simp add: error_message_def Let_def del: contains.simps)
  show "\<exists>x. shown_error False url stamp ?e = Inr x \<and> te_code x = INSUFFICIENT_FUNDS \<and> te_recovery x = Some EDIT"
    unfolding e using insufficient_thai by (simp add: shown_error_simps(1) exception_status_def exception_message_def jor_def Let_def)
  have "\<not> insufficient (JStr ''Bad Request'')" by code_simp
  then show "\<exists>y. shown_error True url stamp ?e = Inr y \<and> te_code y = ERR_INVALID_QR \<and> fst (getErrorInfo y) = ''Invalid QR Code''"
    unfolding e by (simp add: shown_error_simps(1) exception_status_def jor_def getErrorInfo_def Let_def)
  show "{te_code y | y e. shown_error True url stamp e = Inr y} \<inter> {INSUFFICIENT_FUNDS} = {}" by (auto dest: shown_production)
qed

theorem balance_error_lost_witness:
  "\<exists>y. shown_error True ''/api/merchant/pay'' ''2025-01-01'' (rethrowAsHttpException (HttpError 400 (Some ''Insufficient balance in wallet'')) ''failed'') = Inr y
     \<and> te_code y = ERR_INVALID_QR"
proof -
  have "contains ''Insufficient balance'' ''Insufficient balance in wallet''" by code_simp
  from balance_error_lost [OF this] show ?thesis by blast
qed

end
