(* ===== verification/Admin_Dashboard.thy ===== *)
theory Admin_Dashboard
  imports Integration Kyc
begin

text \<open>
  The dashboard of the administration (\<open>admin/dashboard/admin-dashboard.controller.ts\<close>): charts of transactions over
  years, hours, days or months, trends that are computed backwards from a balance of today, and the figures of its
  cards; and the treasury (\<open>admin/finance/admin-finance.controller.ts\<close>). What the finance service answers is an
  argument. \<open>read\<close> is \<open>new Date(x)\<close> on its texts. A bin is an entry of an object: assigning a key again keeps its
  place.
\<close>

section \<open>Periods and labels\<close>

datatype period = Years | Hours | Days | Months

definition months :: "string list" where
  "months = [''Jan'', ''Feb'', ''Mar'', ''Apr'', ''May'', ''Jun'', ''Jul'', ''Aug'', ''Sep'', ''Oct'', ''Nov'', ''Dec'']"

text \<open>\<open>Math.ceil\<close> of the distance in days.\<close>

definition diffDays :: "date \<Rightarrow> date \<Rightarrow> int" where
  "diffDays from to = (\<bar>time_value to - time_value from\<bar> + msPerDay - 1) div msPerDay"

definition chart_period :: "date option \<Rightarrow> date \<Rightarrow> period" where
  "chart_period from to = (case from of None \<Rightarrow> Years
     | Some f \<Rightarrow> if diffDays f to \<le> 1 then Hours else if diffDays f to \<le> 45 then Days else Months)"

definition prev_day :: "date \<Rightarrow> date" where
  "prev_day d = (if 1 < d_day d then d\<lparr>d_day := d_day d - 1\<rparr>
     else if 0 < d_month d then d\<lparr>d_month := d_month d - 1, d_day := month_days (d_year d) (d_month d - 1)\<rparr>
     else d\<lparr>d_year := d_year d - 1, d_month := 11, d_day := 31\<rparr>)"

definition month_name :: "int \<Rightarrow> string" where
  "month_name m = months ! nat m"

definition hour_label :: "int \<Rightarrow> string" where
  "hour_label h = padStart 2 (int_text h) @ '':00''"

definition month_label :: "int \<Rightarrow> string" where
  "month_label k = month_name (k mod 12) @ '' '' @ int_text (k div 12)"

definition bin_label :: "period \<Rightarrow> date \<Rightarrow> string" where
  "bin_label p d = (case p of Years \<Rightarrow> int_text (d_year d) | Hours \<Rightarrow> hour_label (d_ms d div 3600000)
     | Days \<Rightarrow> padStart 2 (int_text (d_day d)) @ '' '' @ month_name (d_month d)
     | Months \<Rightarrow> month_label (12 * d_year d + d_month d))"

definition year_range :: "date \<Rightarrow> date list \<Rightarrow> int list" where
  "year_range now ds =
     (let lo = (if ds = [] then d_year now else Min (set (map d_year ds))); hi = (if ds = [] then d_year now else Max (set (map d_year ds)))
      in [(if lo = hi then lo - 2 else lo) .. hi])"

definition bin_labels :: "period \<Rightarrow> date \<Rightarrow> date \<Rightarrow> date list \<Rightarrow> string list" where
  "bin_labels p now to ds = (case p of
      Years \<Rightarrow> map int_text (year_range now ds)
    | Hours \<Rightarrow> map hour_label [0..23]
    | Days \<Rightarrow> map (\<lambda>i. bin_label Days ((prev_day ^^ i) to)) (rev [0..<30])
    | Months \<Rightarrow> map (\<lambda>i. month_label (12 * d_year to + d_month to - int i)) (rev [0..<12]))"

definition empty_bins :: "'v \<Rightarrow> string list \<Rightarrow> (string \<times> 'v) list" where
  "empty_bins z ls = map (\<lambda>l. (l, z)) (rev (remdups (rev ls)))"

text \<open>\<open>if (bins[label] !== undefined)\<close> change it.\<close>

definition bump :: "string \<Rightarrow> ('v \<Rightarrow> 'v) \<Rightarrow> (string \<times> 'v) list \<Rightarrow> (string \<times> 'v) list" where
  "bump l f bins = map (\<lambda>(k, v). (k, if k = l then f v else v)) bins"

text \<open>An hour of today that is still to come is shown as nothing.\<close>

definition hour_to_come :: "period \<Rightarrow> date \<Rightarrow> string \<Rightarrow> bool" where
  "hour_to_come p now l \<longleftrightarrow> (p = Hours \<or> p = Years) \<and> contains '':00'' l
     \<and> d_ms now div 3600000 < digits_value (takeWhile (\<lambda>c. c \<noteq> CHR '':'') l)"

section \<open>The charts\<close>

record chart_tx =
  ct_date :: date
  ct_type :: string
  ct_amount :: jsnum
  ct_fee :: jsnum
  ct_failed :: bool

definition chart_tx_of :: "(json \<Rightarrow> date) \<Rightarrow> json \<Rightarrow> chart_tx" where
  "chart_tx_of read tx = \<lparr>ct_date = read (jget ''createdAt'' tx),
     ct_type = (case jor (jget ''transactionType'' tx) (jget ''type'' tx) of JStr t \<Rightarrow> t | _ \<Rightarrow> []),
     ct_amount = Number_json (jor (jget ''amount'' tx) (JNum (Fin 0))), ct_fee = Number_json (jor (jget ''fee'' tx) (JNum (Fin 0))),
     ct_failed = (jget ''status'' tx = JStr ''FAILED'' \<or> jget ''transactionStatus'' tx = JStr ''FAILED'')\<rparr>"

definition volume_bins :: "period \<Rightarrow> date \<Rightarrow> date \<Rightarrow> chart_tx list \<Rightarrow> (string \<times> nat \<times> jsnum) list" where
  "volume_bins p now to txs = foldl (\<lambda>bins tx. bump (bin_label p (ct_date tx)) (\<lambda>(n, r). (n + 1, nadd r (ct_fee tx))) bins)
     (empty_bins (0, Fin 0) (bin_labels p now to (map ct_date txs))) txs"

definition processTransactionVolume :: "date \<Rightarrow> date option \<Rightarrow> date option \<Rightarrow> chart_tx list \<Rightarrow> (string \<times> (nat \<times> jsnum) option) list" where
  "processTransactionVolume now from to txs =
     (let until = (case to of None \<Rightarrow> now | Some t \<Rightarrow> t); p = chart_period from until
      in map (\<lambda>(l, v). (l, if hour_to_come p now l then None else Some v)) (volume_bins p now until txs))"

definition max0 :: "jsnum \<Rightarrow> jsnum" where
  "max0 x = (case x of NaN \<Rightarrow> NaN | _ \<Rightarrow> if nlt (Fin 0) x then x else Fin 0)"

text \<open>The bins from the last one backwards: each shows what is left, and then gives back its change.\<close>

fun backwards :: "(string \<Rightarrow> bool) \<Rightarrow> (string \<times> jsnum) list \<Rightarrow> jsnum \<Rightarrow> (string \<times> jsnum option) list" where
  "backwards hidden [] current = []"
| "backwards hidden ((l, change) # bins) current = (l, if hidden l then None else Some (max0 current)) # backwards hidden bins (nsub current change)"

definition trend :: "period \<Rightarrow> date \<Rightarrow> jsnum \<Rightarrow> (string \<times> jsnum) list \<Rightarrow> (string \<times> jsnum option) list" where
  "trend p now held bins = rev (backwards (hour_to_come p now) (rev bins) held)"

definition balance_change :: "chart_tx \<Rightarrow> jsnum \<Rightarrow> jsnum" where
  "balance_change tx v = (if ct_type tx = ''TOPUP'' \<or> ct_type tx = ''TRANSFER'' then nadd v (ct_amount tx)
     else if ct_type tx = ''WITHDRAWAL'' then nsub v (ct_amount tx) else v)"

definition calculateBalanceTrend :: "date \<Rightarrow> date option \<Rightarrow> date option \<Rightarrow> jsnum \<Rightarrow> chart_tx list \<Rightarrow> (string \<times> jsnum option) list" where
  "calculateBalanceTrend now from to held txs =
     (let until = (case to of None \<Rightarrow> now | Some t \<Rightarrow> t); p = chart_period from until
      in trend p now held (foldl (\<lambda>bins tx. bump (bin_label p (ct_date tx)) (balance_change tx) bins)
           (empty_bins (Fin 0) (bin_labels p now until (map ct_date txs))) txs))"

definition calculateRevenueTrend :: "date \<Rightarrow> date option \<Rightarrow> date option \<Rightarrow> jsnum \<Rightarrow> (date \<times> jsnum) list \<Rightarrow> (string \<times> jsnum option) list" where
  "calculateRevenueTrend now from to held entries =
     (let until = (case to of None \<Rightarrow> now | Some t \<Rightarrow> t); p = chart_period from until
      in trend p now held (foldl (\<lambda>bins (d, a). bump (bin_label p d) (\<lambda>v. nadd v a) bins)
           (empty_bins (Fin 0) (bin_labels p now until (map fst entries))) entries))"

definition distribution_key :: "string \<Rightarrow> string" where
  "distribution_key t = (if t = ''TRANSFER'' then ''P2P_TRANSFER''
     else if t \<in> set [''P2P_TRANSFER'', ''PAYMENT'', ''TOPUP'', ''WITHDRAWAL'', ''OTHER''] then t else ''OTHER'')"

definition calculateTransactionDistribution :: "chart_tx list \<Rightarrow> (string \<times> nat) list" where
  "calculateTransactionDistribution txs =
     (let count = (\<lambda>k. length (filter (\<lambda>tx. distribution_key (ct_type tx) = k) txs))
      in [(''Transfer'', count ''P2P_TRANSFER''), (''Payment'', count ''PAYMENT''), (''Top Up'', count ''TOPUP''), (''Withdrawal'', count ''WITHDRAWAL'')]
         @ (if 0 < count ''OTHER'' then [(''Other'', count ''OTHER'')] else []))"

section \<open>The cards\<close>

text \<open>\<open>Number((((b - a) / a) * 100).toFixed(1))\<close> for a growth from \<open>a\<close> to \<open>b\<close>.\<close>

definition growth :: "jsnum \<Rightarrow> jsnum \<Rightarrow> jsnum \<Rightarrow> jsnum" where
  "growth none a b = (if nlt (Fin 0) a then Number_fixed (toFixed 1 (nmul (ndiv (nsub b a) a) (Fin 100)))
     else if nlt (Fin 0) b then Fin 100 else none)"

definition count_num :: "nat \<Rightarrow> jsnum" where
  "count_num n = Fin (of_nat n)"

text \<open>\<open>Math.round\<close>\<close>

fun nround :: "jsnum \<Rightarrow> jsnum" where
  "nround (Fin x) = Fin (of_int \<lfloor>x + 1 / 2\<rfloor>)"
| "nround x = x"

definition nsum :: "jsnum list \<Rightarrow> jsnum" where
  "nsum xs = foldl nadd (Fin 0) xs"

definition list_of :: "json \<Rightarrow> json list" where
  "list_of r = (case r of JArr xs \<Rightarrow> xs | _ \<Rightarrow> (case jget ''content'' r of JArr xs \<Rightarrow> xs | _ \<Rightarrow> []))"

definition balances :: "json list \<Rightarrow> jsnum" where
  "balances accs = nsum (map (\<lambda>a. Number_json (jget ''balance'' a)) accs)"

text \<open>Assets of the bank are not counted as balances of the system.\<close>

definition is_clearing :: "json \<Rightarrow> bool" where
  "is_clearing acc \<longleftrightarrow> jget ''accountType'' acc = JStr ''BANK_CLEARING'' \<or> jget ''accountName'' acc = JStr ''SYSTEM_BANK_ACCOUNT''"

definition system_balance :: "json list \<Rightarrow> jsnum" where
  "system_balance accs = balances (filter (\<lambda>a. \<not> is_clearing a) accs)"

definition bank_float :: "json list \<Rightarrow> jsnum" where
  "bank_float accs =
     (let held = nsum (map (\<lambda>a. Number_json (jor (jget ''balance'' a) (JNum (Fin 0)))) (filter is_clearing accs))
      in if nlt (Fin 0) held then nround held else nround (nmul (system_balance accs) (mk_num (45 / 100))))"

definition mid_time :: "date \<Rightarrow> date \<Rightarrow> rat" where
  "mid_time from to = of_int (time_value from) + of_int (time_value to - time_value from) / 2"

definition first_half :: "date \<Rightarrow> date \<Rightarrow> chart_tx \<Rightarrow> bool" where
  "first_half from to tx \<longleftrightarrow> of_int (time_value (ct_date tx)) < mid_time from to"

record growth_stats =
  gs_liquidity :: jsnum
  gs_revenue :: jsnum
  gs_activeUsers :: jsnum
  gs_kyc :: jsnum
  gs_vat :: jsnum
  gs_failed :: jsnum

text \<open>\<open>starting\<close>, \<open>approved1\<close> and \<open>approved2\<close> are the counts of the KYC service for the two halves.\<close>

definition growth_of :: "date option \<Rightarrow> date \<Rightarrow> (string \<times> jsnum option) list \<Rightarrow> chart_tx list \<Rightarrow> nat \<Rightarrow> nat \<Rightarrow> nat \<Rightarrow> nat \<Rightarrow> growth_stats" where
  "growth_of from to balanceTrend txs active starting approved1 approved2 =
     (let bal = (\<lambda>i. case snd (balanceTrend ! i) of None \<Rightarrow> Fin 0 | Some b \<Rightarrow> b);
          liquidity = (if 1 < length balanceTrend then growth (Fin 0) (bal 0) (bal (length balanceTrend - 1)) else Fin (125 / 10))
      in case from of
        None \<Rightarrow> \<lparr>gs_liquidity = liquidity, gs_revenue = mk_num (182 / 10), gs_activeUsers = Fin 20, gs_kyc = mk_num (83 / 10), gs_vat = mk_num (- 48 / 10), gs_failed = Fin (- 100)\<rparr>
      | Some f \<Rightarrow>
          let half = (\<lambda>one g. nsum (map g (filter (\<lambda>tx. first_half f to tx = one) txs)));
              failed = (\<lambda>one. count_num (length (filter (\<lambda>tx. first_half f to tx = one \<and> ct_failed tx) txs)));
              vat = (\<lambda>tx. nmul (ct_fee tx) (mk_num (7 / 100)))
          in \<lparr>gs_liquidity = liquidity,
              gs_revenue = (if txs = [] then mk_num (182 / 10) else growth (Fin 0) (half True ct_fee) (half False ct_fee)),
              gs_activeUsers = growth (Fin 0) (count_num starting) (count_num active),
              gs_kyc = growth (Fin 0) (count_num approved1) (count_num approved2),
              gs_vat = (if txs = [] then mk_num (- 48 / 10) else growth (Fin 0) (half True vat) (half False vat)),
              gs_failed = (if txs = [] then Fin (- 100) else growth (Fin (- 100)) (failed True) (failed False))\<rparr>)"

text \<open>\<open>pending\<close>, \<open>approved\<close>, \<open>rejected\<close>: the counts of the KYC service.\<close>

definition approval_rate :: "nat \<Rightarrow> nat \<Rightarrow> jsnum" where
  "approval_rate approved rejected = (if 0 < approved + rejected
     then nround (nmul (ndiv (count_num approved) (count_num (approved + rejected))) (Fin 100)) else Fin 100)"

definition health_score :: "nat \<Rightarrow> int" where
  "health_score pending = min 100 (max 0 (100 - 2 * int pending))"

definition dashboard_reserve :: "jsnum \<Rightarrow> jsnum \<Rightarrow> jsnum" where
  "dashboard_reserve vat held = (if nlt (Fin 0) vat then nround (nmul (ndiv held vat) (Fin 100)) else Fin 124)"

section \<open>The treasury\<close>

text \<open>\<open>stripeBalance?.available || 0\<close>\<close>

definition stripe_available :: "stripe_env \<Rightarrow> jsnum" where
  "stripe_available se = (case getStripeBalance se of Some (a, p) \<Rightarrow> if nfalsy a then Fin 0 else a | None \<Rightarrow> Fin 0)"

definition stripe_pending :: "stripe_env \<Rightarrow> jsnum" where
  "stripe_pending se = (case getStripeBalance se of Some (a, p) \<Rightarrow> if nfalsy p then Fin 0 else p | None \<Rightarrow> Fin 0)"

definition getTreasurySummary :: "stripe_env \<Rightarrow> json \<Rightarrow> json" where
  "getTreasurySummary se summary =
     (let assets = nadd (nadd (stripe_available se) (stripe_pending se)) (Number_json (jor (jget ''totalBankBalance'' summary) (JNum (Fin 0))));
          liability = Number_json (jget ''totalCustomerLiability'' summary)
      in merge_objects summary (JObj [(''stripeAvailableBalance'', JNum (stripe_available se)), (''stripePendingBalance'', JNum (stripe_pending se)),
           (''reserveRatio'', JNum (if nlt (Fin 0) liability then ndiv (nround (nmul (ndiv assets liability) (Fin 10000))) (Fin 100) else Fin 100))]))"

text \<open>The comparison is on what the body holds; a payout is only told to the finance service.\<close>

definition triggerTreasuryPayout :: "http \<Rightarrow> finance_env \<Rightarrow> stripe_env \<Rightarrow> string \<Rightarrow> string \<Rightarrow> json \<Rightarrow> wire \<Rightarrow> json result \<times> wire" where
  "triggerTreasuryPayout http env se random stamp amount w =
     (if nlt (stripe_available se) (Number_json amount)
      then (Inl (Http BAD_REQUEST ''Cannot sweep. Your available Stripe balance is only this.''), w)
      else case forwardToGateway http env POST ''/api/admin/treasury/internal/payouts/stripe-confirmed''
             (JObj [(''stripePayoutId'', JStr (''po_mock_'' @ random)), (''amount'', JText (toFixed 4 (Number_json amount))), (''arrivalDate'', JStr stamp)]) None [] w of
          (HttpOk d, w1) \<Rightarrow> (Inr (JObj [(''success'', JBool True), (''payoutId'', JStr (''po_mock_'' @ random))]), w1)
        | (e, w1) \<Rightarrow> (Inl (axios_error e), w1))"

end
