(* ===== verification/Admin_Dashboard_Props.thy ===== *)
theory Admin_Dashboard_Props
  imports Admin_Dashboard
begin

text \<open>
  Properties of the dashboard: a chart counts every transaction once, a trend shows the balance less what changed
  since, and where the hour of the day spoils both; and of the payouts of the treasury.
\<close>

section \<open>Calendar\<close>

text \<open>Going back day by day is going back on the calendar of ECMA-262.\<close>

lemma prev_day_value:
  assumes "valid_date d"
  shows "valid_date (prev_day d)" "time_value (prev_day d) = time_value d - msPerDay"
proof -
  have m: "0 \<le> d_month d" "d_month d \<le> 11" "1 \<le> d_day d" using assms by (simp_all add: valid_date_def)
  show "valid_date (prev_day d)"
    using assms month_days_bounds [of "d_year d" "d_month d - 1"] by (auto simp: valid_date_def prev_day_def month_days_def)
  consider "1 < d_day d" | "d_day d = 1" "0 < d_month d" | "d_day d = 1" "d_month d = 0" using m by linarith
  then show "time_value (prev_day d) = time_value d - msPerDay"
  proof cases
    case 1
    then show ?thesis using m by (simp add: time_value_def prev_day_def MakeDay_month algebra_simps)
  next
    case 2
    have "MakeDay (d_year d) (d_month d) 1 = MakeDay (d_year d) (d_month d - 1) (month_days (d_year d) (d_month d - 1)) + 1"
      using 2 m days_before_eval(3) [of "d_month d - 1" "d_year d"] by (simp add: MakeDay_month)
    then show ?thesis using 2 by (simp add: time_value_def prev_day_def algebra_simps)
  next
    case 3
    have "MakeDay (d_year d) 0 1 = MakeDay (d_year d - 1) 11 31 + 1"
      using DayFromYear_Suc [of "d_year d - 1"] year_length [of "d_year d - 1"] by (simp add: MakeDay_month days_before_eval month_days_def)
    then show ?thesis using 3 by (simp add: time_value_def prev_day_def algebra_simps)
  qed
qed

lemma prev_days_value: "valid_date d \<Longrightarrow> valid_date ((prev_day ^^ i) d) \<and> time_value ((prev_day ^^ i) d) = time_value d - int i * msPerDay"
  by (induction i) (simp_all add: prev_day_value algebra_simps)

section \<open>Bins\<close>

lemma map_fst_bump [simp]: "map fst (bump l f bins) = map fst bins"
  by (simp add: bump_def o_def case_prod_beta)

lemma bins_labels [simp]:
  "map fst (empty_bins z ls) = rev (remdups (rev ls))" "distinct (map fst (empty_bins z ls))" "set (map fst (empty_bins z ls)) = set ls"
  by (simp_all add: empty_bins_def o_def)

definition counted :: "(string \<times> nat \<times> jsnum) list \<Rightarrow> nat" where
  "counted bins = sum_list (map (fst \<circ> snd) bins)"

lemma counted_bump:
  assumes "distinct (map fst bins)"
  shows "counted (bump l (\<lambda>(n, r). (n + 1, g r)) bins) = counted bins + (if l \<in> set (map fst bins) then 1 else 0)"
  using assms
proof (induction bins)
  case (Cons x bins)
  obtain k n r where x: "x = (k, n, r)" by (metis prod.exhaust)
  have "counted (bump l (\<lambda>(n, r). (n + 1, g r)) (x # bins)) = (if k = l then n + 1 else n) + counted (bump l (\<lambda>(n, r). (n + 1, g r)) bins)"
    by (simp add: counted_def bump_def x)
  then show ?case using Cons.IH Cons.prems by (auto simp: counted_def x simp del: set_map)
qed (simp add: counted_def bump_def)

lemma counted_volume:
  assumes "distinct (map fst bins)"
  shows "counted (foldl (\<lambda>bins tx. bump (bin_label p (ct_date tx)) (\<lambda>(n, r). (n + 1, nadd r (ct_fee tx))) bins) bins txs)
     = counted bins + length (filter (\<lambda>tx. bin_label p (ct_date tx) \<in> set (map fst bins)) txs)"
  using assms
proof (induction txs arbitrary: bins)
  case (Cons tx txs)
  let ?b = "bump (bin_label p (ct_date tx)) (\<lambda>(n, r). (n + 1, nadd r (ct_fee tx))) bins"
  have "distinct (map fst ?b)" using Cons.prems by simp
  from Cons.IH [OF this] show ?case using counted_bump [OF Cons.prems, of "bin_label p (ct_date tx)" "\<lambda>r. nadd r (ct_fee tx)"] by (simp del: set_map)
qed simp

lemma volume_labels: "map fst (volume_bins p now to txs) = rev (remdups (rev (bin_labels p now to (map ct_date txs))))"
proof -
  have "map fst (foldl (\<lambda>bins tx. bump (bin_label p (ct_date tx)) (\<lambda>(n, r). (n + 1, nadd r (ct_fee tx))) bins) bins xs) = map fst bins" for bins :: "(string \<times> nat \<times> jsnum) list" and xs :: "chart_tx list"
    by (induction xs arbitrary: bins) simp_all
  then show ?thesis unfolding volume_bins_def by (simp only: bins_labels(1))
qed

lemma year_in_range: "d \<in> set ds \<Longrightarrow> d_year d \<in> set (year_range now ds)"
proof -
  assume d: "d \<in> set ds"
  then have "Min (set (map d_year ds)) \<le> d_year d" "d_year d \<le> Max (set (map d_year ds))" "ds \<noteq> []" by auto
  then show ?thesis by (simp add: year_range_def Let_def)
qed

lemma hour_in_labels: "valid_date d \<Longrightarrow> d_ms d div 3600000 \<in> {0..23}"
  using zdiv_mono1 [of "d_ms d" 86399999 3600000] pos_imp_zdiv_nonneg_iff [of 3600000 "d_ms d"] by (simp add: valid_date_def msPerDay_def)

text \<open>
  A chart of the dashboard counts every transaction once. Over the years, and over the hours of a day,
  the numbers in its bins add up to the number of transactions; over days and months to those that fall into a bin;
  and the distribution over the kinds adds up to all of them, in every case.
\<close>

lemma charts_count_once:
  assumes "\<forall>tx\<in>set txs. valid_date (ct_date tx)"
  shows "(p = Years \<or> p = Hours \<longrightarrow> counted (volume_bins p now to txs) = length txs)
     \<and> counted (volume_bins p now to txs) = length (filter (\<lambda>tx. bin_label p (ct_date tx) \<in> set (bin_labels p now to (map ct_date txs))) txs)
     \<and> distinct (map fst (volume_bins p now to txs)) \<and> sum_list (map snd (calculateTransactionDistribution txs)) = length txs"
proof (intro conjI impI)
  have z: "counted (empty_bins (0, Fin 0) ls) = 0" for ls by (simp add: counted_def empty_bins_def o_def)
  show c: "counted (volume_bins p now to txs) = length (filter (\<lambda>tx. bin_label p (ct_date tx) \<in> set (bin_labels p now to (map ct_date txs))) txs)"
    unfolding volume_bins_def by (subst counted_volume) (simp_all add: z del: set_map)
  show "counted (volume_bins p now to txs) = length txs" if "p = Years \<or> p = Hours"
  proof -
    have "bin_label p (ct_date tx) \<in> set (bin_labels p now to (map ct_date txs))" if "tx \<in> set txs" for tx
      using \<open>p = Years \<or> p = Hours\<close> year_in_range [of "ct_date tx" "map ct_date txs" now] hour_in_labels [of "ct_date tx"] assms that
      by (auto simp: bin_label_def bin_labels_def)
    then show ?thesis unfolding c by (simp add: filter_id_conv)
  qed
  show "distinct (map fst (volume_bins p now to txs))" by (simp add: volume_labels)
  have "distribution_key t \<in> {''P2P_TRANSFER'', ''PAYMENT'', ''TOPUP'', ''WITHDRAWAL'', ''OTHER''}" for t by (auto simp: distribution_key_def)
  then have "length txs = (\<Sum>k\<leftarrow>[''P2P_TRANSFER'', ''PAYMENT'', ''TOPUP'', ''WITHDRAWAL'', ''OTHER'']. length (filter (\<lambda>tx. distribution_key (ct_type tx) = k) txs))"
    by (induction txs) fastforce+
  then show "sum_list (map snd (calculateTransactionDistribution txs)) = length txs"
    by (simp add: calculateTransactionDistribution_def Let_def)
qed

section \<open>Trends\<close>

text \<open>The reference: at a label, the balance less the changes of the labels after it.\<close>

lemma backwards_nth:
  "i < length bins \<Longrightarrow> backwards hidden bins current ! i
     = (fst (bins ! i), if hidden (fst (bins ! i)) then None else Some (max0 (foldl nsub current (map snd (take i bins)))))"
  by (induction hidden bins current arbitrary: i rule: backwards.induct) (auto simp: nth_Cons split: nat.split)

lemma length_backwards [simp]: "length (backwards hidden bins current) = length bins"
  by (induction hidden bins current rule: backwards.induct) auto

lemma trend_nth:
  assumes "i < length bins"
  shows "trend p now held bins ! i = (fst (bins ! i), if hour_to_come p now (fst (bins ! i)) then None
     else Some (max0 (foldl nsub held (map snd (rev (drop (Suc i) bins))))))"
proof -
  have "trend p now held bins ! i = backwards (hour_to_come p now) (rev bins) held ! (length bins - Suc i)"
    using assms by (simp add: trend_def rev_nth)
  also have "\<dots> = (fst (bins ! i), if hour_to_come p now (fst (bins ! i)) then None else Some (max0 (foldl nsub held (map snd (take (length bins - Suc i) (rev bins))))))"
    using assms by (subst backwards_nth) (simp_all add: rev_nth)
  also have "take (length bins - Suc i) (rev bins) = rev (drop (Suc i) bins)" using assms by (simp add: take_rev)
  finally show ?thesis .
qed

lemma trend_hidden:
  assumes "i < length (trend p now held bins)" "hour_to_come p now (fst (trend p now held bins ! i))"
  shows "snd (trend p now held bins ! i) = None"
proof -
  have "i < length bins" using assms(1) by (simp add: trend_def)
  then show ?thesis using assms(2) by (simp add: trend_nth)
qed

text \<open>
  The last hour of a day is still to come for most of it, and nothing counts as 0 where the growth of the balance is
  computed from the ends of the trend: the card shows a loss of everything, whatever the balances are.
\<close>

lemma calculateBalanceTrend_labels:
  "map fst (calculateBalanceTrend now from to held txs)
     = rev (remdups (rev (bin_labels (chart_period from (case to of None \<Rightarrow> now | Some t \<Rightarrow> t)) now (case to of None \<Rightarrow> now | Some t \<Rightarrow> t) (map ct_date txs))))"
proof -
  have b: "map fst (foldl (\<lambda>bins tx. bump (bin_label p (ct_date tx)) (balance_change tx) bins) bins xs) = map fst bins" for p bins and xs :: "chart_tx list"
    by (induction xs arbitrary: bins) simp_all
  have t: "map fst (trend p now held bins) = map fst bins" for p bins
    by (rule nth_equalityI) (simp_all add: trend_def trend_nth [unfolded trend_def])
  show ?thesis by (simp add: calculateBalanceTrend_def Let_def t b)
qed

lemma day_view_loses_everything:
  assumes "diffDays f now \<le> 1" "d_ms now < 23 * 3600000" "snd (calculateBalanceTrend now (Some f) None held txs ! 0) = Some (Fin b)" "0 < b" "b < 10 ^ 15" "fl64 b = b"
  shows "gs_liquidity (growth_of (Some f) now (calculateBalanceTrend now (Some f) None held txs) txs active starting a1 a2) = Fin (- 100)"
proof -
  let ?t = "calculateBalanceTrend now (Some f) None held txs"
  have labels: "map fst ?t = map hour_label [0..23]"
  proof -
    have "map fst ?t = rev (remdups (rev (map hour_label [0..23])))"
      using assms(1) by (simp add: calculateBalanceTrend_labels chart_period_def bin_labels_def)
    moreover have "remdups (rev (map hour_label [0..23])) = rev (map hour_label [0..23])" by code_simp
    ultimately show ?thesis by simp
  qed
  have n: "length ?t = 24" using arg_cong [OF labels, of length] by simp
  have "fst (?t ! 23) = hour_label 23" using arg_cong [OF labels, of "\<lambda>xs. xs ! 23"] n by simp
  then have "snd (?t ! 23) = None"
  proof -
    have "contains '':00'' (hour_label 23)" "digits_value (takeWhile (\<lambda>c. c \<noteq> CHR '':'') (hour_label 23)) = 23" by code_simp+
    moreover have "d_ms now div 3600000 < 23" using zdiv_mono1 [of "d_ms now" "23 * 3600000 - 1" 3600000] assms(2) by simp
    ultimately have "hour_to_come Hours now (hour_label 23)" by (simp add: hour_to_come_def)
    then show ?thesis using \<open>fst (?t ! 23) = hour_label 23\<close> n assms(1) by (auto simp: calculateBalanceTrend_def chart_period_def Let_def intro!: trend_hidden)
  qed
  moreover have "growth (Fin 0) (Fin b) (Fin 0) = Fin (- 100)"
  proof -
    have "nsub (Fin 0) (Fin b) = Fin (- b)" using assms(4-6) mk_num_Fin [of "- b"] by (simp add: nsub_def fl64_uminus)
    moreover have "ndiv (Fin (- b)) (Fin b) = Fin (- 1)" using assms(4) by (simp, code_simp)
    moreover have "Number_fixed (toFixed 1 (nmul (Fin (- 1)) (Fin 100))) = Fin (- 100)" by code_simp
    ultimately show ?thesis using assms(4) by (simp add: growth_def)
  qed
  ultimately show ?thesis using n assms(3) by (simp add: growth_of_def Let_def)
qed

section \<open>Payouts\<close>

text \<open>
  A payout is told to the finance service only when its amount is not above the balance that Stripe reports; but an
  amount below zero, or one that is no number, passes the same comparison.
\<close>

lemma payout_covered:
  assumes "triggerTreasuryPayout http env se random stamp amount w = (r, w1)" "w1 \<noteq> w"
  shows "\<not> nlt (stripe_available se) (Number_json amount)"
  using assms by (auto simp: triggerTreasuryPayout_def split: if_splits)

lemma payout_no_number:
  "Number_json amount = NaN \<Longrightarrow> (\<And>c. http w c = HttpOk d)
     \<Longrightarrow> \<exists>x. fst (triggerTreasuryPayout http env se random stamp amount w) = Inr x"
  by (cases "stripe_available se") (simp_all add: triggerTreasuryPayout_def forwardToGateway_def send_def)

end
