(* ===== verification/Reporting.thy ===== *)
theory Reporting
  imports Admin_Dashboard Js_Text
begin

text \<open>
  Reports over transactions (\<open>modules/reporting/reporting.service.ts\<close>): queries passed on to the finance service, and
  the sums and counts made of their answers; the parameters of a GET stand as its body. A count by kind is an object, in the order in which kinds appear.
\<close>

section \<open>Requests\<close>

text \<open>The texts of \<open>URLSearchParams\<close>.\<close>

definition query_char :: "char \<Rightarrow> string" where
  "query_char c = (if c = CHR '' '' then ''+'' else if is_digit c \<or> (65 \<le> (of_char c :: nat) \<and> (of_char c :: nat) \<le> 90) \<or> (97 \<le> (of_char c :: nat) \<and> (of_char c :: nat) \<le> 122)
     \<or> c \<in> set ''*-._'' then [c] else [CHR ''%'', hex_digit (of_char c div 16), hex_digit (of_char c mod 16)])"

definition query_text :: "(string \<times> string) list \<Rightarrow> string" where
  "query_text ps = concat (map (\<lambda>(i, (k, v)). (if i = 0 then [] else ''&'') @ concat (map query_char k) @ ''='' @ concat (map query_char v)) (zip [0..<length ps] ps))"

definition report_gateway :: "http \<Rightarrow> finance_env \<Rightarrow> http_method \<Rightarrow> string \<Rightarrow> json \<Rightarrow> wire \<Rightarrow> json result \<times> wire" where
  "report_gateway http env meth path data w =
     (case send http \<lparr>hc_method = meth, hc_url = fe_url env @ path, hc_body = data,
        hc_headers = [(''X-Internal-Secret'', JStr (case fe_secret env of None \<Rightarrow> ''default_internal_secret'' | Some t \<Rightarrow> t))]\<rparr> w of
        (HttpOk d, w1) \<Rightarrow> (Inr d, w1)
      | (e, w1) \<Rightarrow> (Inl (axios_error e), w1))"

section \<open>The figures\<close>

definition report_rows :: "json \<Rightarrow> json list" where
  "report_rows r = (case jor (jget ''content'' r) (jor (jget ''data'' r) (JArr [])) of JArr xs \<Rightarrow> xs | _ \<Rightarrow> [])"

definition add_count :: "string \<Rightarrow> (string \<times> nat) list \<Rightarrow> (string \<times> nat) list" where
  "add_count k acc = (if k \<in> fst ` set acc then map (\<lambda>(l, n). (l, if l = k then n + 1 else n)) acc else acc @ [(k, 1)])"

definition count_by :: "(json \<Rightarrow> string) \<Rightarrow> json list \<Rightarrow> (string \<times> nat) list" where
  "count_by f xs = foldl (\<lambda>acc x. add_count (f x) acc) [] xs"

definition nor :: "jsnum \<Rightarrow> jsnum \<Rightarrow> jsnum" where
  "nor a b = (if nfalsy a then b else a)"

record report =
  rp_totalTransactions :: nat
  rp_totalAmount :: jsnum
  rp_avgAmount :: jsnum
  rp_byType :: "(string \<times> nat) list"
  rp_byStatus :: "(string \<times> nat) list"

definition report_of :: "json list \<Rightarrow> report" where
  "report_of rows =
     (let amount = nor (nsum (map (\<lambda>tx. Number_json (jget ''amount'' tx)) rows)) (Fin 0)
      in \<lparr>rp_totalTransactions = length rows, rp_totalAmount = amount,
          rp_avgAmount = (if rows = [] then Fin 0 else ndiv amount (count_num (length rows))),
          rp_byType = count_by (\<lambda>tx. String_json (jor (jget ''transactionType'' tx) (jget ''type'' tx))) rows,
          rp_byStatus = count_by (\<lambda>tx. String_json (jget ''status'' tx)) rows\<rparr>)"

definition TRANSACTIONS_BASE :: string where
  "TRANSACTIONS_BASE = ''/api/v1/transactions''"

definition report_query :: "http \<Rightarrow> finance_env \<Rightarrow> string \<Rightarrow> string \<Rightarrow> wire \<Rightarrow> report result \<times> wire" where
  "report_query http env startDate endDate w =
     (case report_gateway http env GET (TRANSACTIONS_BASE @ ''?'' @ query_text [(''startDate'', startDate), (''endDate'', endDate)]) JUndef w of
        (Inl e, w1) \<Rightarrow> (Inl e, w1)
      | (Inr d, w1) \<Rightarrow> if nullish d then (Inl (Plain ''Cannot read properties of null''), w1) else (Inr (report_of (report_rows d)), w1))"

definition iso_date :: "date \<Rightarrow> string" where
  "iso_date d = padStart 4 (int_text (d_year d)) @ ''-'' @ padStart 2 (int_text (d_month d + 1)) @ ''-'' @ padStart 2 (int_text (d_day d))"

definition getDailyReport :: "http \<Rightarrow> finance_env \<Rightarrow> date \<Rightarrow> string option \<Rightarrow> wire \<Rightarrow> (string \<times> report) result \<times> wire" where
  "getDailyReport http env now day w =
     (let target = (case day of Some (c # t) \<Rightarrow> c # t | _ \<Rightarrow> iso_date now)
      in case report_query http env (target @ ''T00:00:00'') (target @ ''T23:59:59'') w of
        (Inl e, w1) \<Rightarrow> (Inl e, w1) | (Inr r, w1) \<Rightarrow> (Inr (target, r), w1))"

text \<open>Every month is asked for up to its 31st day.\<close>

definition month_end_text :: "int \<Rightarrow> int \<Rightarrow> string" where
  "month_end_text y m = int_text y @ ''-'' @ padStart 2 (int_text m) @ ''-31''"

definition getMonthlyReport :: "http \<Rightarrow> finance_env \<Rightarrow> date \<Rightarrow> int \<Rightarrow> int \<Rightarrow> wire \<Rightarrow> (int \<times> int \<times> report \<times> jsnum) result \<times> wire" where
  "getMonthlyReport http env now year month w =
     (let y = (if year = 0 then d_year now else year); m = (if month = 0 then d_month now + 1 else month)
      in case report_query http env (int_text y @ ''-'' @ padStart 2 (int_text m) @ ''-01'') (month_end_text y m) w of
        (Inl e, w1) \<Rightarrow> (Inl e, w1) | (Inr r, w1) \<Rightarrow> (Inr (y, m, r, nmul (rp_totalAmount r) (mk_num (1 / 100))), w1))"

definition getReconciliationReports :: "http \<Rightarrow> finance_env \<Rightarrow> nat \<Rightarrow> nat \<Rightarrow> string option \<Rightarrow> string option \<Rightarrow> wire \<Rightarrow> json result \<times> wire" where
  "getReconciliationReports http env page limit day status w =
     report_gateway http env GET ''/api/v1/system/reconcile/reports''
       (JObj ([(''page'', JStr (int_text (int (if page = 0 then 1 else page)))), (''limit'', JStr (int_text (int (if limit = 0 then 50 else limit))))]
          @ (case day of Some (c # t) \<Rightarrow> [(''reportDate'', JStr (c # t))] | _ \<Rightarrow> []) @ (case status of Some (c # t) \<Rightarrow> [(''status'', JStr (c # t))] | _ \<Rightarrow> []))) w"

definition getReconciliationReport :: "http \<Rightarrow> finance_env \<Rightarrow> string \<Rightarrow> wire \<Rightarrow> json result \<times> wire" where
  "getReconciliationReport http env i = report_gateway http env GET (''/api/v1/system/reconcile/reports/'' @ i) JUndef"

definition runReconciliation :: "http \<Rightarrow> finance_env \<Rightarrow> wire \<Rightarrow> json result \<times> wire" where
  "runReconciliation http env = report_gateway http env POST ''/api/v1/system/reconcile/trigger'' JUndef"

definition getOutbox :: "http \<Rightarrow> finance_env \<Rightarrow> string option \<Rightarrow> string option \<Rightarrow> nat \<Rightarrow> nat \<Rightarrow> wire \<Rightarrow> json result \<times> wire" where
  "getOutbox http env status eventType page limit w =
     report_gateway http env GET ''/api/v1/system/outbox''
       (JObj ((case status of Some (c # t) \<Rightarrow> [(''status'', JStr (c # t))] | _ \<Rightarrow> []) @ (case eventType of Some (c # t) \<Rightarrow> [(''eventType'', JStr (c # t))] | _ \<Rightarrow> [])
          @ (if page = 0 then [] else [(''page'', JStr (int_text (int page)))]) @ (if limit = 0 then [] else [(''limit'', JStr (int_text (int limit)))]))) w"

definition retryOutbox :: "http \<Rightarrow> finance_env \<Rightarrow> string \<Rightarrow> wire \<Rightarrow> json result \<times> wire" where
  "retryOutbox http env i = report_gateway http env POST (''/api/v1/system/outbox/'' @ i @ ''/retry'') JUndef"

section \<open>Laws\<close>

definition kinds_total :: "(string \<times> nat) list \<Rightarrow> nat" where
  "kinds_total acc = sum_list (map snd acc)"

lemma add_count_total:
  assumes "distinct (map fst acc)"
  shows "kinds_total (add_count k acc) = kinds_total acc + 1 \<and> distinct (map fst (add_count k acc))"
proof (cases "k \<in> fst ` set acc")
  case False
  then show ?thesis using assms by (simp add: add_count_def kinds_total_def)
next
  case True
  have "distinct (map fst xs) \<Longrightarrow> sum_list (map snd (map (\<lambda>(l, n). (l, if l = k then n + 1 else n)) xs)) = sum_list (map snd xs) + (if k \<in> fst ` set xs then 1 else 0)" for xs :: "(string \<times> nat) list"
    by (induction xs) (auto simp: rev_image_eqI)
  moreover have "map fst (map (\<lambda>(l, n). (l, if l = k then n + 1 else n)) acc) = map fst acc" by (simp add: o_def case_prod_beta)
  ultimately show ?thesis using True assms by (simp add: add_count_def kinds_total_def del: map_map)
qed

lemma count_by_total: "kinds_total (count_by f xs) = length xs \<and> distinct (map fst (count_by f xs))"
proof -
  have "distinct (map fst acc) \<Longrightarrow> kinds_total (foldl (\<lambda>acc x. add_count (f x) acc) acc xs) = kinds_total acc + length xs
     \<and> distinct (map fst (foldl (\<lambda>acc x. add_count (f x) acc) acc xs))" for acc
    by (induction xs arbitrary: acc) (simp_all add: add_count_total)
  from this [of "[]"] show ?thesis by (simp add: count_by_def kinds_total_def)
qed

text \<open>A report counts every transaction once by kind and once by status.\<close>

lemma report_counts_once:
  "kinds_total (rp_byType (report_of rows)) = rp_totalTransactions (report_of rows)"
  "kinds_total (rp_byStatus (report_of rows)) = rp_totalTransactions (report_of rows)"
  by (simp_all add: report_of_def Let_def count_by_total)

text \<open>February is asked for up to a day it does not have.\<close>

lemma february_31: "month_end_text 2025 2 = ''2025-02-31''"
  by code_simp

end
