(* ===== verification/Spec2Isabelle.thy ===== *)
theory Spec2Isabelle
  imports Payment_Props Registration Integration_Props Staff_Props Notifications_Props Wallet_App_Props Wallet_Session_Props Wallet_Requests_Props Admin_Web_Props Admin_Audit_Props Error_Responses Admin_Dashboard_Props Reporting
begin

text \<open>
  A verification development for the portal of J-Ledger, a wallet with loyalty points, deals and
  merchant payments. The modelled code is the NestJS service under
  \<open>src/j-ledger-portal/apps/portal-service/src\<close>, whose tables are those of its
  \<open>prisma/schema.prisma\<close>; the worker that delivers its notifications (\<open>apps/notification-worker/src\<close>); and the
  parts of the wallet app (\<open>apps/wallet-app/src\<close>) and of the administration in the browser
  (\<open>apps/admin-web/src\<close>) that are not screens.

  \<^bold>\<open>The program.\<close> Users earn points on what they pay (\<open>modules/loyalty\<close>) and spend them on deals
  (\<open>modules/deals\<close>). A redemption is a code that a merchant's terminal marks as used
  (\<open>modules/merchant\<close>). Merchants apply, are reviewed, own branches and terminals and are paid by QR
  code, by a static code or at a terminal. Terminals sign their requests
  (\<open>core/common/guards/terminal-auth.guard.ts\<close>, \<open>modules/merchant/security\<close>) and repeat them
  safely under idempotency keys. Money lives in a separate finance service, reached through
  \<open>modules/integration/finance.service.ts\<close>; administrative actions are written to an audit log with
  their secrets masked (\<open>modules/audit\<close>). Users register step by step with a one-time password, an identity card and a
  PIN, log in with sessions that rotate (\<open>modules/identity\<close>), and are
  verified by staff (\<open>modules/kyc\<close>).

  \<^bold>\<open>How it is modelled.\<close> A table is the list of its rows, in insertion order, as records with the
  columns of the schema; a unique column is checked where the code inserts. A request handler is a
  function from the store to a result and a store: \<open>Inl\<close> is the exception, with its HTTP status,
  \<open>Inr\<close> the answer. \<open>transaction\<close> gives the store back on an exception, as a database transaction
  does. What the code takes from outside is an argument: the clock, random numbers, new ids, the
  hash and HMAC functions, the answers of the finance service. JavaScript numbers are doubles with
  their rounding, dates are calendar fields with the overflow of \<open>setDate\<close> and the like.

  \<^bold>\<open>The theories.\<close>
  \<^item> \<open>Prelude\<close>: results, handlers, transactions, tables as lists, text search, pages.
  \<^item> \<open>Js_Number\<close>: doubles: the operations, \<open>toFixed\<close>, and the locale \<open>rounding\<close> whose laws (a bound
    on the error, the sign) are all that the exactness of a split needs; interpreted on \<open>fl64\<close>.
  \<^item> \<open>Js_Date\<close>: dates and the end of a month.
  \<^item> \<open>Loyalty\<close> (\<open>modules/loyalty/loyalty.service.ts\<close>): earning, redeeming, the expiry job, rules and
    reports. Every balance is the sum of its ledger; the expiry job implements first-in-first-out
    consumption of point lots and a second run takes nothing.
  \<^item> \<open>Deals\<close> (\<open>modules/deals/deal.service.ts\<close>): the catalogue and the redemption transaction. A
    redemption exchanges exactly price, stock and code, or nothing; a deal is never oversold.
  \<^item> \<open>Audit_Log\<close> (\<open>modules/audit\<close> and the redaction of the merchant service): the locale \<open>redactor\<close>
    states what a redaction promises and is interpreted on both redactors. What counts as a secret is
    specified apart from the code, by the words of a name.
  \<^item> \<open>Terminal_Security\<close> (\<open>modules/merchant/security\<close>): nonces with expiry, and the idempotency
    service, as written and as a step relation in which requests interleave at every \<open>await\<close>; the
    locale \<open>idempotent_operation\<close> is its contract.
  \<^item> \<open>Finance_Client\<close> (\<open>modules/integration/finance.service.ts\<close>): every method as the calls it
    makes; the locale \<open>finance_operation\<close> says that operations only add authenticated calls and
    fail with HTTP exceptions.
  \<^item> \<open>Merchants\<close>, \<open>Merchant_Props\<close> (\<open>modules/merchant/merchant.service.ts\<close>): partners, applications,
    branches, terminals, the terminal guard, settlement, and their properties. The limits of a small
    merchant hold in every state the requests on partners, applications, branches and terminals reach.
  \<^item> \<open>Payments\<close>, \<open>Payment_Props\<close> (the same file): the split, QR payments, static codes, terminal
    payments and redemptions; the latter two interpret \<open>idempotent_operation\<close>.
  \<^item> \<open>Identity\<close>, \<open>Identity_Props\<close> (\<open>modules/identity/identity.service.ts\<close> and the guards on tokens):
    registration, one-time passwords, login and refresh sessions, the PIN with its lock, addresses,
    administration of accounts. A password is good once, guessing a PIN is bounded in time, a login
    leaves one session; weaknesses are proved as they are.
  \<^item> \<open>Kyc\<close>, \<open>Kyc_Props\<close> (\<open>modules/kyc/kyc.service.ts\<close>): identity cards, faces, the review by staff, the
    encryption of personal data and the dates of a card, which are UTF-16 texts.
  \<^item> \<open>Registration\<close> (the steps of both services together, against \<open>ONBOARDING_FLOW.md\<close>): a step relation over
    all requests, exactly the documented diagram as its specification, credentials of completed registrations,
    the way to an active account, and for every state the list of the ways around the diagram.
  \<^item> \<open>Billing\<close>, \<open>Billing_Props\<close> (\<open>modules/billing/billing.service.ts\<close>): invoices, the search for one under
    every identifier, its payment in four transfers. The transfers add up to the total, an invoice is paid
    once, and a payment by number moves the money and fails.
  \<^item> \<open>Json_Text\<close>: \<open>JSON.parse\<close>, with a proof that its fuel is enough.
  \<^item> \<open>Wallet_History\<close> (the history of \<open>modules/integration/integration.service.ts\<close> and \<open>modules/banners\<close>): the
    entries made of transactions and their metadata, merging, search and pages.
  \<^item> \<open>Integration\<close>, \<open>Integration_Props\<close> (the rest of the integration service): top-ups through Stripe, their web
    hooks and polls, transfers between users, the dashboard, the details of a transaction. The locale
    \<open>topup_operation\<close> is the contract of everything that writes top-up orders: an order is rewarded once.
    Two handlers at the same time are not covered by it and reward twice.
  \<^item> \<open>Staff\<close>, \<open>Staff_Props\<close> (\<open>admin/services/admin.service.ts\<close>, \<open>admin/auth\<close>, \<open>admin/staff\<close>, the guards of
    \<open>admin/guards\<close>): members of staff, roles, permissions, invitations, resets and sessions, and the routes
    behind the guards. The locale \<open>table_operation\<close> is the contract of every operation on these tables, it keeps
    them well formed; \<open>admin_operation\<close> extends it to those that leave system roles and their permissions alone.
    Both hold of bodies of columns; what the database client does with any other body, which the routes hand to
    it unchecked, is a parameter. Who may do what is proved as the guards decide it.
  \<^item> \<open>Js_Text\<close>: \<open>split\<close>, \<open>slice\<close> and \<open>encodeURIComponent\<close> on texts.
  \<^item> \<open>Notifications\<close>, \<open>Notifications_Props\<close> (\<open>modules/notification\<close> and the sources of the program
    \<open>notification-worker\<close>): messages from Kafka, their texts, the inbox, pushes and letters. Handling an event is
    split where two workers can interleave; the locale \<open>inbox_operation\<close> is the contract of everything that writes
    messages: a stored message stays and stays alone under its key.
  \<^item> \<open>Wallet_App\<close>, \<open>Wallet_App_Props\<close> (\<open>wallet-app/src/lib\<close>, \<open>store/notifications.ts\<close>): the payment codes, the
    errors and timeouts, the check of connections, the list of notices. The locale \<open>capped_log\<close> states what its
    bounded logs keep. The codes the portal makes are read back by the app.
  \<^item> \<open>Wallet_Session\<close>, \<open>Wallet_Session_Props\<close> (\<open>wallet-app/src/store\<close>, \<open>hooks/useAppLock.ts\<close>, the guard of
    \<open>app/_layout.tsx\<close>): the session of the app with its PIN lock, the registration store, the id of the device.
  \<^item> \<open>Wallet_Requests\<close>, \<open>Wallet_Requests_Props\<close> (\<open>wallet-app/src/lib/axios.ts\<close>): the requests of the app as a step
    relation in which they overlap at every \<open>await\<close>: at most eight turns until a request is answered, and a run in
    which two refreshes of the tokens overlap, because a request that queues clears the flag.
  \<^item> \<open>Admin_Web\<close>, \<open>Admin_Web_Props\<close> (\<open>admin-web/src/lib/auth/rate-limit.ts\<close>, \<open>proxy.ts\<close>, \<open>app/actions/auth.ts\<close>): the
    limit on login attempts, the guard of the pages, the layout of the dashboard and the session in the browser,
    over the portal of theory \<open>Staff\<close>: where a browser ends and as whom, how many attempts a minute lets through.
  \<^item> \<open>Admin_Audit\<close>, \<open>Admin_Audit_Props\<close> (\<open>admin/interceptors/audit.interceptor.ts\<close>): the row that every
    administrative request leaves in the audit log, and those that leave none.
  \<^item> \<open>Error_Responses\<close> (\<open>common/filters/global-exception.filter.ts\<close>): an error on its way from the finance service
    through the portal to the screen of the app.
  \<^item> \<open>Admin_Dashboard\<close>, \<open>Admin_Dashboard_Props\<close> (\<open>admin/dashboard\<close>, the treasury of \<open>admin/finance\<close>) and
    \<open>Reporting\<close> (\<open>modules/reporting\<close>): charts, trends, reports and payouts made of what the finance service
    answers. A chart counts every transaction once; a trend is the balance less what changed later.

  This theory joins the components: one step relation over the requests that touch points, deals and
  redemptions, and the invariant of every reachable state.

  \<^bold>\<open>Bounds.\<close> All recursions are structural or over finite tables, but for the reading of JSON, whose fuel of twice
  the length of the text and two is enough (theory \<open>Json_Text\<close>). The exactness of
  the split is proved for amounts up to ten billion baht and rates between 0 and 1.

  \<^bold>\<open>Not modelled.\<close> The finance service itself (another program, a parameter here); the controllers,
  which only pass requests on; Redis, Kafka and the database engine beyond what the services rely on;
  the screens of the mobile application and of the web application; message texts that are not ASCII, which stand as their meaning in
  brackets. Of the portal service itself: the thin clients of cloud services and
  the lists of accounts, wallets and transactions, which are passed on from the finance service.
\<close>

section \<open>Every reachable state of the shop\<close>

text \<open>
  The requests that change points, deals or redemptions, in any order and from any users: one step is
  one request of the portal service, or one run of the expiry job. Requests that the service rejects
  are steps too; the validation pipe has checked the forms of the admin requests.
\<close>

inductive portal_step :: "deals_db \<Rightarrow> deals_db \<Rightarrow> bool" where
  earn: "portal_step s (snd (earnPoints kafka_up now u amount ev d r s))"
| redeem: "0 \<le> n \<Longrightarrow> portal_step s (snd (redeemPoints now u n d r s))"
| expire: "portal_step s (snd (processExpiries now s))"
| redeem_deal: "portal_step s (snd (redeemDeal now random newId u i s))"
| use_redemption: "portal_step s (snd (useRedemption now u i s))"
| create_deal: "deal_dto_valid data \<Longrightarrow> portal_step s (snd (createDeal now newId data s))"
| update_deal: "deal_dto_valid data \<Longrightarrow> portal_step s (snd (updateDeal i data s))"
| toggle_deal: "portal_step s (snd (toggleDeal i s))"
| delete_deal: "portal_step s (snd (deleteDeal i s))"

inductive portal_reachable :: "deals_db \<Rightarrow> deals_db \<Rightarrow> bool" for s0 where
  start: "portal_reachable s0 s0"
| further: "portal_reachable s0 s \<Longrightarrow> portal_step s t \<Longrightarrow> portal_reachable s0 t"

lemma portal_step_shop_ok: "portal_step s t \<Longrightarrow> shop_ok s \<Longrightarrow> shop_ok t"
proof (induction rule: portal_step.induct)
  case earn
  then show ?case by (intro shop_ok_points [OF earn]) (auto simp: frame shop_ok_def intro: earnPoints_ledger_ok)
next
  case (redeem n s)
  then show ?case by (intro shop_ok_points [OF redeem(2)]) (auto simp: frame shop_ok_def intro: redeemPoints_ledger_ok)
next
  case expire
  then show ?case by (intro shop_ok_points [OF expire]) (auto simp: frame shop_ok_def intro: processExpiries_ledger_ok)
qed (simp_all add: redeemDeal_shop_ok useRedemption_shop_ok createDeal_shop_ok updateDeal_shop_ok
      toggleDeal_shop_ok deleteDeal_shop_ok)

text \<open>
  Property C1. The books always balance. From a store in order, whatever requests arrive and in
  whatever order, every user's balance is the sum of that user's ledger rows and is not negative,
  the lifetime points are the points ever earned, every redemption belongs to a deal that exists,
  redemption codes never repeat, and no unit of a deal's stock has gone without a redemption.
\<close>

theorem portal_books_balance:
  assumes "portal_reachable s0 s" and "shop_ok s0"
  shows "(\<forall>u. balance u s = sum_where (\<lambda>h. ph_userId h = u) ph_amount (pointHistory s) \<and> 0 \<le> balance u s)
    \<and> (\<forall>u p. find_point u s = Some p \<longrightarrow>
         up_lifetimePoints p = sum_where (\<lambda>h. ph_userId h = u \<and> ph_type h = EARN) ph_amount (pointHistory s))
    \<and> (\<forall>r\<in>set (redemptions s). \<exists>d\<in>set (deals s). rd_dealId r = dl_id d)
    \<and> distinct (map rd_redemptionCode (redemptions s))
    \<and> (\<forall>d\<in>set (deals s). dl_stock d - dl_remainingStock d \<le> int (deal_redemptions (dl_id d) s))"
proof -
  have "shop_ok s" using assms by (induction rule: portal_reachable.induct) (auto intro: portal_step_shop_ok)
  then have ok: "ledger_ok s" "catalogue_ok s" "stock_ok s" by (auto simp: shop_ok_def)
  have "balance u s = sum_where (\<lambda>h. ph_userId h = u) ph_amount (pointHistory s) \<and> 0 \<le> balance u s" for u
    using balance_ledger [OF ok(1), of u] points.bal_nonneg [OF ok(1), of u] by (simp add: ledger_sum_def)
  moreover have "up_lifetimePoints p = sum_where (\<lambda>h. ph_userId h = u \<and> ph_type h = EARN) ph_amount (pointHistory s)"
    if "find_point u s = Some p" for u p
    using ledger_ok_accountD [OF ok(1), of u] that by (simp add: account_ok_def user_sum_def conj_commute)
  moreover have "(\<forall>r\<in>set (redemptions s). \<exists>d\<in>set (deals s). rd_dealId r = dl_id d)
    \<and> distinct (map rd_redemptionCode (redemptions s))
    \<and> (\<forall>d\<in>set (deals s). dl_stock d - dl_remainingStock d \<le> int (deal_redemptions (dl_id d) s))"
    using ok(2,3) by (auto simp: catalogue_ok_def stock_ok_def list_all_iff image_iff)
  ultimately show ?thesis by blast
qed

theorem portal_books_balance_witness:
  "\<forall>u. 0 \<le> balance u (snd (redeemDeal demo_now demo_random ''r1'' ''alice'' ''d1'' demo_shop))"
  using portal_books_balance [OF portal_reachable.further [OF portal_reachable.start portal_step.redeem_deal] demo_shop_ok]
  by blast

end
